(* ===== verification/Strconv.thy ===== *)
theory Strconv
  imports Prelude
begin

section \<open>Package strconv: numbers and their text\<close>

text \<open>
  \<^verbatim>\<open>strconv.FormatInt\<close>, \<^verbatim>\<open>Itoa\<close>, \<^verbatim>\<open>ParseInt\<close> and \<^verbatim>\<open>Atoi\<close> as the client uses them (bases
  10 and 16, widths 8 to 64), with the order in which the parser finds its errors. The
  main fact is the round trip \<open>parse_int_format\<close>.
\<close>

datatype num_error = ErrSyntax | ErrRange

definition digit_char :: "nat \<Rightarrow> char" where
  "digit_char d = (if d < 10 then char_of (48 + d) else char_of (87 + d))"

fun format_nat :: "nat \<Rightarrow> nat \<Rightarrow> string" where
  "format_nat b n =
     (if n < b \<or> b < 2 then [digit_char n] else format_nat b (n div b) @ [digit_char (n mod b)])"

declare format_nat.simps [simp del]

definition format_int :: "nat \<Rightarrow> int \<Rightarrow> string" where
  "format_int b i = (if i < 0 then ''-'' @ format_nat b (nat (- i)) else format_nat b (nat i))"

abbreviation itoa :: "int \<Rightarrow> string" where
  "itoa \<equiv> format_int 10"

text \<open>The text of an error, the method \<^verbatim>\<open>Error\<close>.\<close>

fun err_text :: "go_error \<Rightarrow> string" where
  "err_text (Sentinel s) = s"
| "err_text (Errorf s) = s"
| "err_text (Wrapf s e) = s @ '': '' @ err_text e"
| "err_text (IgnoreErr e) = err_text e"
| "err_text (HTTPClientError code text raw) = itoa code @ '': '' @ raw"

definition digit_val :: "char \<Rightarrow> nat option" where
  "digit_val c =
     (let n = of_char c :: nat in
      if 48 \<le> n \<and> n \<le> 57 then Some (n - 48)
      else if 97 \<le> n \<and> n \<le> 122 then Some (n - 87)
      else if 65 \<le> n \<and> n \<le> 90 then Some (n - 55)
      else None)"

text \<open>
  \<^verbatim>\<open>ParseUint\<close> reads the digits from the left; a character that is no digit of the base is a
  syntax error, a value past the maximum is a range error, whichever comes first.
\<close>

fun parse_digits :: "nat \<Rightarrow> int \<Rightarrow> int \<Rightarrow> string \<Rightarrow> num_error + int" where
  "parse_digits b mx n [] = Inr n"
| "parse_digits b mx n (c # cs) =
     (case digit_val c of
        None \<Rightarrow> Inl ErrSyntax
      | Some d \<Rightarrow>
          if b \<le> d then Inl ErrSyntax
          else if mx < n * int b + int d then Inl ErrRange
          else parse_digits b mx (n * int b + int d) cs)"

definition parse_uint :: "nat \<Rightarrow> int \<Rightarrow> string \<Rightarrow> num_error + int" where
  "parse_uint b mx s = (if s = [] then Inl ErrSyntax else parse_digits b mx 0 s)"

text \<open>
  \<^verbatim>\<open>ParseInt\<close> returns a value with the error: 0 with a syntax error, the nearest value of the
  width with a range error.
\<close>

definition parse_int_full :: "nat \<Rightarrow> nat \<Rightarrow> string \<Rightarrow> int \<times> num_error option" where
  "parse_int_full b bits s =
     (let neg = (s \<noteq> [] \<and> hd s = CHR ''-'');
          u = (if s \<noteq> [] \<and> (hd s = CHR ''-'' \<or> hd s = CHR ''+'') then tl s else s);
          cutoff = 2 ^ (bits - 1)
      in case parse_uint b (2 ^ bits - 1) u of
           Inl ErrSyntax \<Rightarrow> (0, Some ErrSyntax)
         | Inl ErrRange \<Rightarrow> (if neg then - cutoff else cutoff - 1, Some ErrRange)
         | Inr un \<Rightarrow>
             if \<not> neg \<and> cutoff \<le> un then (cutoff - 1, Some ErrRange)
             else if neg \<and> cutoff < un then (- cutoff, Some ErrRange)
             else (if neg then - un else un, None))"

definition parse_int :: "nat \<Rightarrow> nat \<Rightarrow> string \<Rightarrow> num_error + int" where
  "parse_int b bits s =
     (case parse_int_full b bits s of (v, None) \<Rightarrow> Inr v | (v, Some e) \<Rightarrow> Inl e)"

abbreviation atoi :: "string \<Rightarrow> num_error + int" where
  "atoi \<equiv> parse_int 10 64"

subsection \<open>Digits\<close>

lemma of_char_digit_char: "d < 36 \<Longrightarrow> of_char (digit_char d) = (if d < 10 then 48 + d else 87 + d)"
  by (simp add: digit_char_def)

lemma digit_val_digit_char [simp]: "d < 36 \<Longrightarrow> digit_val (digit_char d) = Some d"
  by (auto simp: digit_val_def of_char_digit_char)

lemma format_nat_not_Nil [simp]: "format_nat b n \<noteq> []"
  by (subst format_nat.simps) simp

lemma format_nat_small: "n < b \<Longrightarrow> format_nat b n = [digit_char n]"
  by (subst format_nat.simps) simp

lemma format_nat_step:
  "b \<le> n \<Longrightarrow> 2 \<le> b \<Longrightarrow> format_nat b n = format_nat b (n div b) @ [digit_char (n mod b)]"
  by (subst format_nat.simps) simp

lemma format_nat_digits:
  assumes "2 \<le> b" "c \<in> set (format_nat b n)"
  shows "\<exists>d<b. c = digit_char d"
  using assms
proof (induction b n rule: format_nat.induct)
  case (1 b n)
  show ?case
  proof (cases "n < b")
    case True
    then show ?thesis using "1.prems" by (auto simp: format_nat_small)
  next
    case False
    then have "c = digit_char (n mod b) \<or> c \<in> set (format_nat b (n div b))"
      using "1.prems" by (simp add: format_nat_step)
    then show ?thesis
    proof
      assume "c = digit_char (n mod b)"
      moreover have "n mod b < b" using "1.prems"(1) by (intro mod_less_divisor) simp
      ultimately show ?thesis by blast
    next
      assume "c \<in> set (format_nat b (n div b))"
      then show ?thesis using "1.IH" "1.prems"(1) False by simp
    qed
  qed
qed

lemma digit_char_ge_48: "d < 36 \<Longrightarrow> 48 \<le> (of_char (digit_char d) :: nat)"
  by (simp add: of_char_digit_char)

lemma format_nat_no_char:
  assumes "2 \<le> b" "b \<le> 36" "(of_char c :: nat) < 48"
  shows "c \<notin> set (format_nat b n)"
proof
  assume "c \<in> set (format_nat b n)"
  then obtain d where "d < b" "c = digit_char d"
    using format_nat_digits assms(1) by blast
  then show False using assms digit_char_ge_48 [of d] by simp
qed

lemma sign_chars: "(of_char CHR ''-'' :: nat) < 48" "(of_char CHR ''+'' :: nat) < 48"
  by simp_all

lemma format_nat_hd_not_sign:
  assumes "2 \<le> b" "b \<le> 36"
  shows "hd (format_nat b n) \<noteq> CHR ''-''" "hd (format_nat b n) \<noteq> CHR ''+''"
  using format_nat_no_char [OF assms, of "CHR ''-''" n] format_nat_no_char [OF assms, of "CHR ''+''" n]
    hd_in_set [OF format_nat_not_Nil, of b n] assms by (metis format_nat_no_char sign_chars)+

lemma format_int_no_char:
  assumes "2 \<le> b" "b \<le> 36" "(of_char c :: nat) < 48" "c \<noteq> CHR ''-''"
  shows "c \<notin> set (format_int b i)"
  using assms format_nat_no_char by (auto simp: format_int_def)

subsection \<open>Parsing is inverse to formatting\<close>

lemma parse_digits_append:
  "parse_digits b mx n (xs @ ys) = bind_res (parse_digits b mx n xs) (\<lambda>m. parse_digits b mx m ys)"
  by (induction xs arbitrary: n) (auto split: option.splits)

lemma parse_digits_format:
  assumes "2 \<le> b" "b \<le> 36" "int n \<le> mx"
  shows "parse_digits b mx 0 (format_nat b n) = Inr (int n)"
  using assms
proof (induction b n rule: format_nat.induct)
  case (1 b n)
  show ?case
  proof (cases "n < b")
    case True
    then show ?thesis using "1.prems" by (simp add: format_nat_small)
  next
    case False
    have "n div b \<le> n" by simp
    then have "int (n div b) \<le> mx" using "1.prems"(3) by linarith
    then have "parse_digits b mx 0 (format_nat b (n div b)) = Inr (int (n div b))"
      using "1.IH" "1.prems" False by simp
    moreover have "n mod b < b" using "1.prems"(1) by (intro mod_less_divisor) simp
    then have "digit_val (digit_char (n mod b)) = Some (n mod b)" "\<not> b \<le> n mod b"
      using "1.prems"(2) by simp_all
    moreover have "int (n div b) * int b + int (n mod b) = int n"
      by (metis div_mult_mod_eq of_nat_add of_nat_mult)
    ultimately show ?thesis
      using "1.prems" False by (simp add: format_nat_step parse_digits_append)
  qed
qed

lemma parse_int_format:
  assumes b: "2 \<le> b" "b \<le> 36" and bits: "1 \<le> bits"
    and lo: "- (2 ^ (bits - 1)) \<le> i" and hi: "i < 2 ^ (bits - 1)"
  shows "parse_int b bits (format_int b i) = Inr i"
proof -
  have pow: "(2::int) ^ bits = 2 * 2 ^ (bits - 1)"
    using bits by (simp flip: power_Suc)
  have pos: "(0::int) < 2 ^ (bits - 1)" by simp
  define a where "a = nat \<bar>i\<bar>"
  have a: "int a \<le> 2 ^ bits - 1"
    using lo hi pow pos by (simp add: a_def)
  have p: "parse_uint b (2 ^ bits - 1) (format_nat b a) = Inr (int a)"
    using parse_digits_format [OF b a] by (simp add: parse_uint_def)
  show ?thesis
    using p format_nat_hd_not_sign [OF b, of a] lo hi
    by (auto simp: parse_int_def parse_int_full_def format_int_def a_def Let_def)
qed

lemmas atoi_itoa = parse_int_format [of 10 64, simplified]

lemma parse_digits_nonneg: "parse_digits b mx n s = Inr v \<Longrightarrow> 0 \<le> n \<Longrightarrow> 0 \<le> v"
  by (induction s arbitrary: n) (auto split: option.splits if_splits)

text \<open>A successful parse lies within the width.\<close>

lemma parse_int_range:
  assumes "parse_int b bits s = Inr v"
  shows "- (2 ^ (bits - 1)) \<le> v \<and> v < 2 ^ (bits - 1)"
proof -
  obtain u where "v = - u \<and> u \<le> 2 ^ (bits - 1) \<or> v = u \<and> u < 2 ^ (bits - 1)" "0 \<le> u"
    using assms
    by (force simp: parse_int_def parse_int_full_def Let_def not_le not_less parse_uint_def
        dest: parse_digits_nonneg
        split: prod.splits option.splits sum.splits num_error.splits if_splits)
  moreover have "0 < (2::int) ^ (bits - 1)" by simp
  ultimately show ?thesis by linarith
qed

lemma parse_digits_bound_mono:
  "parse_digits b mx n s = Inr v \<Longrightarrow> mx \<le> mx' \<Longrightarrow> parse_digits b mx' n s = Inr v"
  by (induction s arbitrary: n) (auto split: option.splits if_splits)

text \<open>A parse that succeeds at any width gives the number whose text was printed.\<close>

lemma parse_int_full_same:
  assumes p: "parse_int_full 10 bits (itoa i) = (v, None)"
  shows "v = i"
proof -
  define a where "a = nat \<bar>i\<bar>"
  have u: "(if itoa i \<noteq> [] \<and> (hd (itoa i) = CHR ''-'' \<or> hd (itoa i) = CHR ''+'') then tl (itoa i) else itoa i)
      = format_nat 10 a" "itoa i \<noteq> [] \<and> hd (itoa i) = CHR ''-'' \<longleftrightarrow> i < 0"
    using format_nat_hd_not_sign [of 10 a] by (auto simp: format_int_def a_def)
  obtain un where un: "parse_uint 10 (2 ^ bits - 1) (format_nat 10 a) = Inr un" "v = (if i < 0 then - un else un)"
    using p unfolding parse_int_full_def Let_def u
    by (simp split: sum.splits num_error.splits if_splits)
  have "parse_digits 10 (max (2 ^ bits - 1) (int a)) 0 (format_nat 10 a) = Inr un"
    by (rule parse_digits_bound_mono [of _ "2 ^ bits - 1"]) (use un(1) in \<open>simp_all add: parse_uint_def\<close>)
  moreover have "parse_digits 10 (max (2 ^ bits - 1) (int a)) 0 (format_nat 10 a) = Inr (int a)"
    by (rule parse_digits_format) simp_all
  ultimately show ?thesis using un(2) by (simp add: a_def split: if_splits)
qed

subsection \<open>Quoting\<close>

text \<open>
  \<^verbatim>\<open>strconv.Quote\<close> and the verb \<^verbatim>\<open>%q\<close>, on ASCII text: the control characters and the two
  special ones are escaped. Bytes above 127 are copied, as they are for printable letters.
\<close>

definition quote_char :: "char \<Rightarrow> string" where
  "quote_char c =
     (if c = CHR 0x22 \<or> c = CHR 0x5C then [CHR 0x5C, c]
      else if c = CHR 0x07 then [CHR 0x5C, CHR ''a'']
      else if c = CHR 0x08 then [CHR 0x5C, CHR ''b'']
      else if c = CHR 0x0C then [CHR 0x5C, CHR ''f'']
      else if c = CHR 0x0A then [CHR 0x5C, CHR ''n'']
      else if c = CHR 0x0D then [CHR 0x5C, CHR ''r'']
      else if c = CHR 0x09 then [CHR 0x5C, CHR ''t'']
      else if c = CHR 0x0B then [CHR 0x5C, CHR ''v'']
      else if (of_char c :: nat) < 32 \<or> (of_char c :: nat) = 127
        then [CHR 0x5C, CHR ''x'', digit_char (of_char c div 16), digit_char (of_char c mod 16)]
      else [c])"

definition quote :: "string \<Rightarrow> string" where
  "quote s = [CHR 0x22] @ concat (map quote_char s) @ [CHR 0x22]"

text \<open>The error of \<^verbatim>\<open>strconv.ParseInt\<close>.\<close>

definition parse_int_error :: "string \<Rightarrow> num_error \<Rightarrow> go_error" where
  "parse_int_error s e = Errorf (''strconv.ParseInt: parsing '' @ quote s @ '': '' @
     (case e of ErrSyntax \<Rightarrow> ''invalid syntax'' | ErrRange \<Rightarrow> ''value out of range''))"

end
