(* ===== verification/Version.thy ===== *)
theory Version
  imports Strconv
begin

section \<open>Version comparison (internal/version.go)\<close>

text \<open>
  \<open>compareVersions\<close>, \<open>looselyEqual\<close> and \<open>CheckVersion\<close>. \<^verbatim>\<open>mustAtoi\<close> panics on a part that is
  no number and \<open>CheckVersion\<close> panics on an operator it does not know, so that the results are
  options. The specification is the order \<open>version_less\<close>: the numbers of the two versions,
  continued with zeros, are compared at the first difference, and a version with a suffix
  precedes the same version without one.
\<close>

definition mustAtoi :: "string \<Rightarrow> int option" where
  "mustAtoi s = (case atoi s of Inl e \<Rightarrow> None | Inr n \<Rightarrow> Some n)"

definition stripSuffix :: "string \<Rightarrow> bool \<times> string" where
  "stripSuffix version =
     (if CHR ''-'' \<in> set version then (True, hd (split_on CHR ''-'' version)) else (False, version))"

definition equalizeVersions :: "string list \<Rightarrow> string list \<Rightarrow> string list" where
  "equalizeVersions minV maxV =
     map (\<lambda>i. if i < length minV then minV ! i else ''0'') [0..<length maxV]"

text \<open>The comparing loop: \<open>Some 0\<close> when it runs to the end.\<close>

fun compare_nums :: "string list \<Rightarrow> string list \<Rightarrow> int option" where
  "compare_nums (l # ls) (r # rs) =
     (case mustAtoi r of None \<Rightarrow> None
      | Some rn \<Rightarrow>
          (case mustAtoi l of None \<Rightarrow> None
           | Some ln \<Rightarrow> if rn < ln then Some 1 else if ln < rn then Some (- 1) else compare_nums ls rs))"
| "compare_nums ls rs = Some 0"

definition compareVersions :: "string \<Rightarrow> string \<Rightarrow> int option" where
  "compareVersions left right =
     (let (leftHasSuffix, left') = stripSuffix left;
          (rightHasSuffix, right') = stripSuffix right;
          leftNums = split_on CHR ''.'' left';
          rightNums = split_on CHR ''.'' right';
          rightNums' = (if length rightNums < length leftNums
                        then equalizeVersions rightNums leftNums else rightNums);
          leftNums' = (if length leftNums < length rightNums
                       then equalizeVersions leftNums rightNums else leftNums)
      in case compare_nums leftNums' rightNums' of
           None \<Rightarrow> None
         | Some c \<Rightarrow>
             if c \<noteq> 0 then Some c
             else if leftHasSuffix then (if rightHasSuffix then Some 0 else Some (- 1))
             else if rightHasSuffix then Some 1
             else Some 0)"

fun equal_nums :: "string list \<Rightarrow> string list \<Rightarrow> bool option" where
  "equal_nums (l # ls) (r # rs) =
     (case mustAtoi r of None \<Rightarrow> None
      | Some rn \<Rightarrow>
          (case mustAtoi l of None \<Rightarrow> None
           | Some ln \<Rightarrow> if rn \<noteq> ln then Some False else equal_nums ls rs))"
| "equal_nums ls rs = Some True"

definition looselyEqual :: "string \<Rightarrow> string \<Rightarrow> bool option" where
  "looselyEqual left right =
     (let leftNums = split_on CHR ''.'' (snd (stripSuffix left));
          rightNums = split_on CHR ''.'' (snd (stripSuffix right));
          minNums = length rightNums;
          leftNums' = (if length leftNums < minNums
                       then equalizeVersions leftNums rightNums else leftNums)
      in equal_nums (take minNums leftNums') rightNums)"

definition CheckVersion :: "string \<Rightarrow> string \<Rightarrow> string \<Rightarrow> bool option" where
  "CheckVersion left operator right =
     (if operator = ''='' then map_option (\<lambda>c. c = 0) (compareVersions left right)
      else if operator = ''!='' then map_option (\<lambda>c. c \<noteq> 0) (compareVersions left right)
      else if operator = ''>'' then map_option (\<lambda>c. c > 0) (compareVersions left right)
      else if operator = ''>='' then map_option (\<lambda>c. c \<ge> 0) (compareVersions left right)
      else if operator = ''<'' then map_option (\<lambda>c. c < 0) (compareVersions left right)
      else if operator = ''<='' then map_option (\<lambda>c. c \<le> 0) (compareVersions left right)
      else if operator = ''~'' then looselyEqual left right
      else None)"

subsection \<open>The specification\<close>

abbreviation version_parts :: "string \<Rightarrow> string list" where
  "version_parts v \<equiv> split_on CHR ''.'' (snd (stripSuffix v))"

text \<open>A version is well formed when each of its parts is a number.\<close>

definition version_ok :: "string \<Rightarrow> bool" where
  "version_ok v \<longleftrightarrow> (\<forall>p \<in> set (version_parts v). mustAtoi p \<noteq> None)"

definition part_num :: "string list \<Rightarrow> nat \<Rightarrow> int" where
  "part_num ps i = (if i < length ps then the (mustAtoi (ps ! i)) else 0)"

definition version_less :: "string \<Rightarrow> string \<Rightarrow> bool" where
  "version_less l r \<longleftrightarrow>
     (\<exists>i. (\<forall>j<i. part_num (version_parts l) j = part_num (version_parts r) j) \<and>
          part_num (version_parts l) i < part_num (version_parts r) i) \<or>
     ((\<forall>j. part_num (version_parts l) j = part_num (version_parts r) j) \<and>
      fst (stripSuffix l) \<and> \<not> fst (stripSuffix r))"

definition version_same :: "string \<Rightarrow> string \<Rightarrow> bool" where
  "version_same l r \<longleftrightarrow>
     (\<forall>j. part_num (version_parts l) j = part_num (version_parts r) j) \<and>
     fst (stripSuffix l) = fst (stripSuffix r)"

subsection \<open>The loop against the specification\<close>

lemma mustAtoi_0 [simp]: "mustAtoi ''0'' = Some 0"
  by (simp add: mustAtoi_def parse_int_def parse_int_full_def parse_uint_def digit_val_def)

lemma length_equalizeVersions [simp]: "length (equalizeVersions a b) = length b"
  by (simp add: equalizeVersions_def)

lemma part_num_equalizeVersions:
  "length a \<le> length b \<Longrightarrow> part_num (equalizeVersions a b) i = part_num a i"
  by (auto simp: part_num_def equalizeVersions_def)

lemma equalizeVersions_ok:
  "\<forall>p \<in> set a. mustAtoi p \<noteq> None \<Longrightarrow> \<forall>p \<in> set (equalizeVersions a b). mustAtoi p \<noteq> None"
  by (auto simp: equalizeVersions_def dest: bspec [OF _ nth_mem])

lemma part_num_Cons [simp]:
  "part_num (p # ps) 0 = the (mustAtoi p)" "part_num (p # ps) (Suc i) = part_num ps i"
  by (simp_all add: part_num_def)

lemma all_less_Suc_shift: "(\<forall>j<Suc i. P j) \<longleftrightarrow> P 0 \<and> (\<forall>j<i. P (Suc j))"
  by (auto simp: less_Suc_eq_0_disj)

lemma ex_first_diff_Cons:
  "(\<exists>i. (\<forall>j<i. part_num (a # as) j = part_num (b # bs) j) \<and> part_num (a # as) i < part_num (b # bs) i)
   \<longleftrightarrow> the (mustAtoi a) < the (mustAtoi b) \<or>
      the (mustAtoi a) = the (mustAtoi b) \<and>
      (\<exists>i. (\<forall>j<i. part_num as j = part_num bs j) \<and> part_num as i < part_num bs i)"
    (is "?L \<longleftrightarrow> ?R")
proof
  assume ?L
  then obtain i where "(\<forall>j<i. part_num (a # as) j = part_num (b # bs) j)"
      "part_num (a # as) i < part_num (b # bs) i" by blast
  then show ?R by (cases i) (auto simp: all_less_Suc_shift)
next
  assume ?R
  then show ?L
  proof
    assume "the (mustAtoi a) < the (mustAtoi b)"
    then show ?L by (intro exI [of _ 0]) simp
  next
    assume "the (mustAtoi a) = the (mustAtoi b) \<and>
      (\<exists>i. (\<forall>j<i. part_num as j = part_num bs j) \<and> part_num as i < part_num bs i)"
    then obtain i where "the (mustAtoi a) = the (mustAtoi b)"
        "\<forall>j<i. part_num as j = part_num bs j" "part_num as i < part_num bs i" by blast
    then show ?L by (intro exI [of _ "Suc i"]) (simp add: all_less_Suc_shift)
  qed
qed

lemma all_parts_Cons:
  "(\<forall>j. part_num (a # as) j = part_num (b # bs) j) \<longleftrightarrow>
     the (mustAtoi a) = the (mustAtoi b) \<and> (\<forall>j. part_num as j = part_num bs j)"
  by (metis not0_implies_Suc part_num_Cons)

lemma compare_nums_spec:
  assumes "length ls = length rs"
    and "\<forall>p \<in> set ls. mustAtoi p \<noteq> None" "\<forall>p \<in> set rs. mustAtoi p \<noteq> None"
  shows "\<exists>c. compare_nums ls rs = Some c \<and> c \<in> {-1, 0, 1} \<and>
     (c = 0 \<longleftrightarrow> (\<forall>j. part_num ls j = part_num rs j)) \<and>
     (c = - 1 \<longleftrightarrow> (\<exists>i. (\<forall>j<i. part_num ls j = part_num rs j) \<and> part_num ls i < part_num rs i)) \<and>
     (c = 1 \<longleftrightarrow> (\<exists>i. (\<forall>j<i. part_num rs j = part_num ls j) \<and> part_num rs i < part_num ls i))"
  using assms
proof (induction ls rs rule: list_induct2)
  case Nil
  then show ?case by (simp add: part_num_def)
next
  case (Cons l ls r rs)
  then obtain ln rn where n: "mustAtoi l = Some ln" "mustAtoi r = Some rn" by auto
  from Cons obtain c where "compare_nums ls rs = Some c" "c \<in> {-1, 0, 1}"
      "c = 0 \<longleftrightarrow> (\<forall>j. part_num ls j = part_num rs j)"
      "c = - 1 \<longleftrightarrow> (\<exists>i. (\<forall>j<i. part_num ls j = part_num rs j) \<and> part_num ls i < part_num rs i)"
      "c = 1 \<longleftrightarrow> (\<exists>i. (\<forall>j<i. part_num rs j = part_num ls j) \<and> part_num rs i < part_num ls i)"
    by auto
  then show ?case
    unfolding ex_first_diff_Cons all_parts_Cons using n by (auto simp: not_less)
qed

lemma compareVersions_spec:
  assumes "version_ok l" "version_ok r"
  shows "compareVersions l r =
    Some (if version_less l r then - 1 else if version_less r l then 1 else 0)"
    and "\<not> version_less l r \<Longrightarrow> \<not> version_less r l \<Longrightarrow> version_same l r"
proof -
  let ?l = "version_parts l" and ?r = "version_parts r"
  define l' where "l' = (if length ?l < length ?r then equalizeVersions ?l ?r else ?l)"
  define r' where "r' = (if length ?r < length ?l then equalizeVersions ?r ?l else ?r)"
  have len: "length l' = length r'" by (simp add: l'_def r'_def)
  have pl: "part_num l' = part_num ?l" "part_num r' = part_num ?r"
    by (auto simp: l'_def r'_def part_num_equalizeVersions)
  have ok: "\<forall>p \<in> set l'. mustAtoi p \<noteq> None" "\<forall>p \<in> set r'. mustAtoi p \<noteq> None"
    using assms equalizeVersions_ok by (auto simp: l'_def r'_def version_ok_def)
  from compare_nums_spec [OF len ok] obtain c where c: "compare_nums l' r' = Some c" "c \<in> {-1, 0, 1}"
    "c = 0 \<longleftrightarrow> (\<forall>j. part_num ?l j = part_num ?r j)"
    "c = - 1 \<longleftrightarrow> (\<exists>i. (\<forall>j<i. part_num ?l j = part_num ?r j) \<and> part_num ?l i < part_num ?r i)"
    "c = 1 \<longleftrightarrow> (\<exists>i. (\<forall>j<i. part_num ?r j = part_num ?l j) \<and> part_num ?r i < part_num ?l i)"
    unfolding pl by blast
  have eq: "compareVersions l r =
     (if c \<noteq> 0 then Some c
      else if fst (stripSuffix l) then (if fst (stripSuffix r) then Some 0 else Some (- 1))
      else if fst (stripSuffix r) then Some 1 else Some 0)"
    using c(1) by (simp add: compareVersions_def Let_def l'_def r'_def case_prod_beta)
  have lt: "version_less l r \<longleftrightarrow> c = - 1 \<or> c = 0 \<and> fst (stripSuffix l) \<and> \<not> fst (stripSuffix r)"
    "version_less r l \<longleftrightarrow> c = 1 \<or> c = 0 \<and> fst (stripSuffix r) \<and> \<not> fst (stripSuffix l)"
    "version_same l r \<longleftrightarrow> c = 0 \<and> fst (stripSuffix r) = fst (stripSuffix l)"
    unfolding version_less_def version_same_def c(3,4,5) by (auto simp: eq_commute)
  show "compareVersions l r =
      Some (if version_less l r then - 1 else if version_less r l then 1 else 0)"
    using c(2) by (auto simp: eq lt)
  show "\<not> version_less l r \<Longrightarrow> \<not> version_less r l \<Longrightarrow> version_same l r"
    using c(2) by (auto simp: lt)
qed

lemma version_less_irrefl: "\<not> version_less v v"
  by (simp add: version_less_def)

lemma version_less_trans:
  assumes "version_less a b" "version_less b c"
  shows "version_less a c"
proof -
  let ?a = "part_num (version_parts a)" and ?b = "part_num (version_parts b)"
    and ?c = "part_num (version_parts c)"
  consider (eq) "?a = ?b" | (lt) i where "\<forall>j<i. ?a j = ?b j" "?a i < ?b i"
    using assms(1) unfolding version_less_def by (auto simp: fun_eq_iff)
  then show ?thesis
  proof cases
    case eq
    then show ?thesis using assms by (auto simp: version_less_def)
  next
    case (lt i)
    consider (eq') "?b = ?c" | (lt') k where "\<forall>j<k. ?b j = ?c j" "?b k < ?c k"
      using assms(2) unfolding version_less_def by (auto simp: fun_eq_iff)
    then have "\<exists>m. (\<forall>j<m. ?a j = ?c j) \<and> ?a m < ?c m"
    proof cases
      case eq'
      then show ?thesis using lt by auto
    next
      case (lt' k)
      consider "i < k" | "i = k" | "k < i" by arith
      then show ?thesis
      proof cases
        case 1
        then show ?thesis using lt lt' by (intro exI [of _ i]) auto
      next
        case 2
        then show ?thesis using lt lt' by (intro exI [of _ i]) auto
      next
        case 3
        then show ?thesis using lt lt' by (intro exI [of _ k]) auto
      qed
    qed
    then show ?thesis unfolding version_less_def by blast
  qed
qed

lemma version_less_asym: "version_less a b \<Longrightarrow> \<not> version_less b a"
  using version_less_trans version_less_irrefl by blast

lemma version_same_not_less: "version_same a b \<Longrightarrow> \<not> version_less a b"
  by (auto simp: version_same_def version_less_def)

lemma version_same_sym: "version_same a b \<longleftrightarrow> version_same b a"
  by (auto simp: version_same_def)

lemma equal_nums_spec:
  assumes "length ls = length rs"
    and "\<forall>p \<in> set ls. mustAtoi p \<noteq> None" "\<forall>p \<in> set rs. mustAtoi p \<noteq> None"
  shows "equal_nums ls rs = Some (\<forall>i<length rs. part_num ls i = part_num rs i)"
  using assms by (induction ls rs rule: list_induct2) (auto simp: all_less_Suc_shift)

lemma part_num_take: "i < n \<Longrightarrow> part_num (take n ps) i = part_num ps i"
  by (simp add: part_num_def)

subsection \<open>Properties\<close>

text \<open>
  C10: on well-formed versions \<open>CheckVersion\<close> does not panic, and its six comparing operators decide
  one order, \<open>version_less\<close>, with the equality \<open>version_same\<close>: exactly one of less, same and
  greater holds, a shorter version counts as continued with zeros, and a suffix puts a version
  before the same version without one.
\<close>

theorem CheckVersion_order:
  assumes "version_ok l" "version_ok r"
  shows "CheckVersion l ''<'' r = Some (version_less l r) \<and>
    CheckVersion l ''>'' r = Some (version_less r l) \<and>
    CheckVersion l ''='' r = Some (version_same l r) \<and>
    CheckVersion l ''!='' r = Some (\<not> version_same l r) \<and>
    CheckVersion l ''<='' r = Some (version_less l r \<or> version_same l r) \<and>
    CheckVersion l ''>='' r = Some (version_less r l \<or> version_same l r)"
proof -
  note c = compareVersions_spec [OF assms]
  have d: "version_same l r \<longleftrightarrow> \<not> version_less l r \<and> \<not> version_less r l"
    using c(2) version_same_not_less version_same_sym by blast
  show ?thesis
    using version_less_asym [of l r] by (auto simp: CheckVersion_def c(1) d)
qed

lemma CheckVersion_order_witness:
  "CheckVersion ''5.2-SNAPSHOT'' ''<'' ''5.2.1'' = Some (version_less ''5.2-SNAPSHOT'' ''5.2.1'') \<and>
   CheckVersion ''5.2-SNAPSHOT'' ''<'' ''5.2.1'' = Some True"
proof -
  have "version_ok ''5.2-SNAPSHOT''" "version_ok ''5.2.1''" by code_simp+
  then have "CheckVersion ''5.2-SNAPSHOT'' ''<'' ''5.2.1'' = Some (version_less ''5.2-SNAPSHOT'' ''5.2.1'')"
    using CheckVersion_order by blast
  moreover have "CheckVersion ''5.2-SNAPSHOT'' ''<'' ''5.2.1'' = Some True" by code_simp
  ultimately show ?thesis by simp
qed

text \<open>
  The operator \<^verbatim>\<open>~\<close> looks only at the parts the right version names: it holds when the left
  version, continued with zeros, has the same number at each of them, whatever follows and
  whatever the suffixes are.
\<close>

theorem looselyEqual_prefix:
  assumes "version_ok l" "version_ok r"
  shows "CheckVersion l ''~'' r =
    Some (\<forall>i < length (version_parts r). part_num (version_parts l) i = part_num (version_parts r) i)"
proof -
  let ?l = "version_parts l" and ?r = "version_parts r"
  define l' where "l' = (if length ?l < length ?r then equalizeVersions ?l ?r else ?l)"
  have len: "length (take (length ?r) l') = length ?r" by (simp add: l'_def)
  have "\<forall>p \<in> set l'. mustAtoi p \<noteq> None"
    using assms(1) equalizeVersions_ok by (auto simp: l'_def version_ok_def)
  then have ok: "\<forall>p \<in> set (take (length ?r) l'). mustAtoi p \<noteq> None"
    using in_set_takeD by fastforce
  have "part_num l' = part_num ?l"
    by (auto simp: l'_def part_num_equalizeVersions)
  then show ?thesis
    using equal_nums_spec [OF len ok] assms(2)
    by (simp add: CheckVersion_def looselyEqual_def Let_def l'_def version_ok_def part_num_take)
qed

lemma looselyEqual_prefix_witness:
  "CheckVersion ''5.2.3-BETA'' ''~'' ''5.2'' = Some True \<and> CheckVersion ''5'' ''~'' ''5.1'' = Some False"
proof -
  have ok: "version_ok ''5.2.3-BETA''" "version_ok ''5.2''" "version_ok ''5''" "version_ok ''5.1''"
    by code_simp+
  show ?thesis
    unfolding looselyEqual_prefix [OF ok(1,2)] looselyEqual_prefix [OF ok(3,4)] by code_simp
qed

end
