(* ===== verification/StrLib.thy ===== *)
theory StrLib
  imports Strconv
begin

section \<open>Package internal/str\<close>

text \<open>
  The string helpers of \<^verbatim>\<open>internal/str/str.go\<close>. \<open>SplitByComma\<close> compacts the split slice in
  place; the loop is kept and shown equal to a filter. The colours of \<^verbatim>\<open>fatih/color\<close> are
  parameters of \<open>Colorize\<close>.
\<close>

subsection \<open>SplitByComma\<close>

text \<open>The loop of the function: \<open>i\<close> is the position read, \<open>idx\<close> the position written.\<close>

function split_compact :: "bool \<Rightarrow> nat \<Rightarrow> nat \<Rightarrow> string list \<Rightarrow> string list" where
  "split_compact re i idx ls =
     (if i < length ls then
        (let s = trim_space (ls ! i) in
         if s \<noteq> [] \<or> \<not> re then split_compact re (Suc i) (Suc idx) (ls[idx := s])
         else split_compact re (Suc i) idx ls)
      else take idx ls)"
  by pat_completeness auto
termination
  by (relation "measure (\<lambda>(re, i, idx, ls). length ls - i)") auto

declare split_compact.simps [simp del]

definition SplitByComma :: "string \<Rightarrow> bool \<Rightarrow> string list" where
  "SplitByComma s re = (if s = [] then [] else split_compact re 0 0 (split_on CHR '','' s))"

lemma split_compact_spec:
  assumes "idx \<le> i" "i \<le> length ls"
  shows "split_compact re i idx ls =
    take idx ls @ filter (\<lambda>s. s \<noteq> [] \<or> \<not> re) (map trim_space (drop i ls))"
  using assms
proof (induction re i idx ls rule: split_compact.induct)
  case (1 re i idx ls)
  show ?case
  proof (cases "i < length ls")
    case True
    define s where "s = trim_space (ls ! i)"
    have d: "drop i ls = ls ! i # drop (Suc i) ls" using True by (simp add: Cons_nth_drop_Suc)
    show ?thesis
    proof (cases "s \<noteq> [] \<or> \<not> re")
      case keep: True
      have "split_compact re i idx ls = split_compact re (Suc i) (Suc idx) (ls[idx := s])"
        using True keep by (subst split_compact.simps) (simp add: s_def Let_def)
      also have "\<dots> = take (Suc idx) (ls[idx := s]) @
          filter (\<lambda>s. s \<noteq> [] \<or> \<not> re) (map trim_space (drop (Suc i) (ls[idx := s])))"
        using "1.IH"(1) [OF True s_def keep] "1.prems" True by simp
      also have "\<dots> = take idx ls @ [s] @
          filter (\<lambda>s. s \<noteq> [] \<or> \<not> re) (map trim_space (drop (Suc i) ls))"
        using "1.prems" True by (simp add: take_Suc_conv_app_nth)
      finally show ?thesis using keep by (simp add: d s_def)
    next
      case drop: False
      have "split_compact re i idx ls = split_compact re (Suc i) idx ls"
        using True drop by (subst split_compact.simps) (simp add: s_def Let_def)
      then show ?thesis
        using "1.IH"(2) [OF True s_def drop] "1.prems" True drop by (simp add: d s_def)
    qed
  next
    case False
    then show ?thesis using "1.prems" by (subst split_compact.simps) simp
  qed
qed

lemma SplitByComma_nonempty:
  "s \<noteq> [] \<Longrightarrow> SplitByComma s re =
     filter (\<lambda>w. w \<noteq> [] \<or> \<not> re) (map trim_space (split_on CHR '','' s))"
  by (simp add: SplitByComma_def split_compact_spec)

subsection \<open>The other helpers\<close>

definition ParseKeyValue :: "string \<Rightarrow> string \<times> string" where
  "ParseKeyValue kv =
     (case index_of kv ''='' of
        None \<Rightarrow> ([], [])
      | Some idx \<Rightarrow> (trim_space (take idx kv), trim_space (drop (idx + 1) kv)))"

text \<open>The slice \<^verbatim>\<open>s[:l]\<close> panics for a negative \<open>l\<close>; it cannot pass the end here.\<close>

definition MaybeShorten :: "string \<Rightarrow> int \<Rightarrow> string option" where
  "MaybeShorten s l =
     (if length s < 3 \<or> int (length s) < l then Some s
      else if l < 0 then None
      else Some (take (nat l) s @ ''...''))"

definition SpacePaddedIntFormat :: "int \<Rightarrow> string option" where
  "SpacePaddedIntFormat maxValue =
     (if maxValue < 0 then None
      else Some (''%'' @ itoa (int (length (itoa maxValue))) @ ''d''))"

definition Colorize :: "(string \<Rightarrow> string) \<Rightarrow> (string \<Rightarrow> string) \<Rightarrow> string \<Rightarrow> string" where
  "Colorize green red text =
     (if has_prefix text ''OK '' then ''    '' @ green ''OK'' @ '' '' @ drop 3 text
      else if has_prefix text ''ERROR '' then '' '' @ red ''ERROR'' @ '' '' @ drop 6 text
      else text)"

lemma ParseKeyValue_key_eq:
  "CHR ''='' \<notin> set k \<Longrightarrow> ParseKeyValue (k @ ''='' @ v) = (trim_space k, trim_space v)"
  using index_of_char_append [of "CHR ''=''" k v] by (simp add: ParseKeyValue_def)

lemma MaybeShorten_length:
  assumes "MaybeShorten s l = Some t" "3 \<le> l"
  shows "int (length t) \<le> l + 3"
  using assms by (auto simp: MaybeShorten_def split: if_splits)

end
