(* ===== verification/GoTypes.thy ===== *)
theory GoTypes
  imports Strconv "HOL-Library.Word"
begin

section \<open>Dynamic values and the small generic containers\<close>

text \<open>
  A value of Go's \<^verbatim>\<open>any\<close> as the client passes it around (arguments, properties, configuration
  items, converted keys and values) is a \<open>go_val\<close>, with one constructor per dynamic type the code
  tests for; the type assertions \<^verbatim>\<open>v.(T)\<close> are the functions \<open>as_string\<close>, \<open>as_bool\<close> and so on.
  Floating point numbers are kept as their IEEE bits. \<open>VOther\<close> stands for a value of any other
  type (a client, a function), by its printed form.

  The theory also has \<^verbatim>\<open>internal/types\<close> (\<open>Set\<close>, \<open>KeyValues\<close>), \<^verbatim>\<open>internal/maps\<close> and
  \<^verbatim>\<open>internal/mk\<close>. A Go map whose keys are iterated is an association list with distinct keys, in
  the order of the iteration, which Go leaves open; one that is only looked up is a map.
\<close>

datatype go_val =
    VNil
  | VBool bool
  | VInt int
  | VInt8 int
  | VInt16 int
  | VInt32 int
  | VInt64 int
  | VFloat32 "32 word"
  | VFloat64 "64 word"
  | VString string
  | VJSON string
  | VStrings "string list"
  | VKVs "(string \<times> string) list"
  | VSlice "go_val list"
  | VMap "(string \<times> go_val) list"
  | VOther string

fun as_string :: "go_val \<Rightarrow> string option" where
  "as_string (VString s) = Some s"
| "as_string _ = None"

fun as_bool :: "go_val \<Rightarrow> bool option" where
  "as_bool (VBool b) = Some b"
| "as_bool _ = None"

fun as_int64 :: "go_val \<Rightarrow> int option" where
  "as_int64 (VInt64 i) = Some i"
| "as_int64 _ = None"

fun as_strings :: "go_val \<Rightarrow> string list option" where
  "as_strings (VStrings s) = Some s"
| "as_strings _ = None"

fun as_kvs :: "go_val \<Rightarrow> (string \<times> string) list option" where
  "as_kvs (VKVs s) = Some s"
| "as_kvs _ = None"

fun as_map :: "go_val \<Rightarrow> (string \<times> go_val) list option" where
  "as_map (VMap m) = Some m"
| "as_map _ = None"

text \<open>\<^verbatim>\<open>fmt.Sprintf("%v", v)\<close>; \<open>ff\<close> prints the floating point numbers.\<close>

fun fmt_v :: "(64 word \<Rightarrow> string) \<Rightarrow> (32 word \<Rightarrow> string) \<Rightarrow> go_val \<Rightarrow> string" where
  "fmt_v ff gg VNil = ''<nil>''"
| "fmt_v ff gg (VBool b) = (if b then ''true'' else ''false'')"
| "fmt_v ff gg (VInt i) = itoa i"
| "fmt_v ff gg (VInt8 i) = itoa i"
| "fmt_v ff gg (VInt16 i) = itoa i"
| "fmt_v ff gg (VInt32 i) = itoa i"
| "fmt_v ff gg (VInt64 i) = itoa i"
| "fmt_v ff gg (VFloat32 f) = gg f"
| "fmt_v ff gg (VFloat64 f) = ff f"
| "fmt_v ff gg (VString s) = s"
| "fmt_v ff gg (VJSON s) = s"
| "fmt_v ff gg (VStrings ss) = ''['' @ join_with '' '' ss @ '']''"
| "fmt_v ff gg (VKVs kvs) =
     ''['' @ join_with '' '' (map (\<lambda>(k, v). ''{'' @ k @ '' '' @ v @ ''}'') kvs) @ '']''"
| "fmt_v ff gg (VSlice vs) = ''['' @ join_with '' '' (map (fmt_v ff gg) vs) @ '']''"
| "fmt_v ff gg (VMap kvs) =
     ''map['' @ join_with '' ''
        (map (\<lambda>(k, v). k @ '':'' @ v) (sort_key fst (map (\<lambda>(k, v). (k, fmt_v ff gg v)) kvs))) @ '']''"
| "fmt_v ff gg (VOther s) = s"

subsection \<open>Signed integers of a width\<close>

definition wrap_int :: "nat \<Rightarrow> int \<Rightarrow> int" where
  "wrap_int bits i = (i + 2 ^ (bits - 1)) mod 2 ^ bits - 2 ^ (bits - 1)"

lemma wrap_int_id: "1 \<le> bits \<Longrightarrow> - (2 ^ (bits - 1)) \<le> i \<Longrightarrow> i < 2 ^ (bits - 1) \<Longrightarrow> wrap_int bits i = i"
proof -
  assume a: "1 \<le> bits" "- (2 ^ (bits - 1)) \<le> i" "i < 2 ^ (bits - 1)"
  then have "(2::int) ^ bits = 2 ^ (bits - 1) + 2 ^ (bits - 1)"
    by (cases bits) auto
  with a show ?thesis by (simp add: wrap_int_def)
qed

lemma wrap_int_range: "1 \<le> bits \<Longrightarrow> - (2 ^ (bits - 1)) \<le> wrap_int bits i \<and> wrap_int bits i < 2 ^ (bits - 1)"
proof -
  assume "1 \<le> bits"
  then have p: "(2::int) ^ bits = 2 ^ (bits - 1) + 2 ^ (bits - 1)" by (cases bits) auto
  have "0 \<le> (i + 2 ^ (bits - 1)) mod 2 ^ bits" "(i + 2 ^ (bits - 1)) mod 2 ^ bits < (2::int) ^ bits"
    by simp_all
  with p show ?thesis unfolding wrap_int_def by linarith
qed

abbreviation int64 :: "int \<Rightarrow> int" where "int64 \<equiv> wrap_int 64"
abbreviation int32 :: "int \<Rightarrow> int" where "int32 \<equiv> wrap_int 32"

subsection \<open>internal/types: Set and KeyValues\<close>

record 'k Set =
  set_m :: "'k list"

definition Set_Add :: "'k Set \<Rightarrow> 'k \<Rightarrow> 'k Set" where
  "Set_Add s item = (if item \<in> set (set_m s) then s else s\<lparr>set_m := set_m s @ [item]\<rparr>)"

definition MakeSet :: "'k list \<Rightarrow> 'k Set" where
  "MakeSet items = foldl Set_Add \<lparr>set_m = []\<rparr> items"

definition Set_Delete :: "'k Set \<Rightarrow> 'k \<Rightarrow> 'k Set" where
  "Set_Delete s item = s\<lparr>set_m := filter (\<lambda>x. x \<noteq> item) (set_m s)\<rparr>"

definition Set_Map :: "'k Set \<Rightarrow> 'k list" where
  "Set_Map s = set_m s"

definition Set_Has :: "'k Set \<Rightarrow> 'k \<Rightarrow> bool" where
  "Set_Has s item \<longleftrightarrow> item \<in> set (set_m s)"

definition Set_Len :: "'k Set \<Rightarrow> nat" where
  "Set_Len s = length (set_m s)"

definition Set_Diff :: "'k Set \<Rightarrow> 'k Set \<Rightarrow> 'k Set" where
  "Set_Diff s other =
     foldl (\<lambda>r my. if \<not> Set_Has other my then Set_Add r my else r) (MakeSet []) (set_m s)"

definition Set_Items :: "'k Set \<Rightarrow> 'k list" where
  "Set_Items s = foldl (\<lambda>r item. r @ [item]) [] (set_m s)"

text \<open>\<^verbatim>\<open>KeyValues.Map\<close>: later pairs overwrite earlier ones.\<close>

definition KeyValues_Map :: "('k \<times> 'v) list \<Rightarrow> 'k \<rightharpoonup> 'v" where
  "KeyValues_Map kvs = foldl (\<lambda>m (k, v). m(k \<mapsto> v)) Map.empty kvs"

subsection \<open>The contract of a set\<close>

locale set_adt =
  fixes empty :: 's and add :: "'s \<Rightarrow> 'k \<Rightarrow> 's" and del :: "'s \<Rightarrow> 'k \<Rightarrow> 's"
    and has :: "'s \<Rightarrow> 'k \<Rightarrow> bool" and len :: "'s \<Rightarrow> nat" and items :: "'s \<Rightarrow> 'k list"
    and inv :: "'s \<Rightarrow> bool"
  assumes inv_empty: "inv empty"
    and inv_add: "inv s \<Longrightarrow> inv (add s x)"
    and inv_del: "inv s \<Longrightarrow> inv (del s x)"
    and has_empty: "\<not> has empty y"
    and has_add: "inv s \<Longrightarrow> has (add s x) y \<longleftrightarrow> y = x \<or> has s y"
    and has_del: "inv s \<Longrightarrow> has (del s x) y \<longleftrightarrow> y \<noteq> x \<and> has s y"
    and items_set: "inv s \<Longrightarrow> set (items s) = {y. has s y}"
    and len_card: "inv s \<Longrightarrow> len s = card {y. has s y}"
begin

lemma inv_add_all: "inv s \<Longrightarrow> inv (foldl add s xs)"
  by (induction xs arbitrary: s) (auto simp: inv_add)

lemma has_add_all: "inv s \<Longrightarrow> has (foldl add s xs) y \<longleftrightarrow> y \<in> set xs \<or> has s y"
  by (induction xs arbitrary: s) (auto simp: inv_add has_add)

lemma items_add_all: "set (items (foldl add empty xs)) = set xs"
  using items_set [OF inv_add_all [OF inv_empty]] has_add_all [OF inv_empty] has_empty by auto

lemma len_add_all: "len (foldl add empty xs) = card (set xs)"
  using len_card [OF inv_add_all [OF inv_empty]] has_add_all [OF inv_empty] has_empty by simp

end

definition Set_inv :: "'k Set \<Rightarrow> bool" where
  "Set_inv s \<longleftrightarrow> distinct (set_m s)"

lemma foldl_append_id: "foldl (\<lambda>r x. r @ [x]) r xs = r @ xs"
  by (induction xs arbitrary: r) auto

lemma Set_Items_eq: "Set_Items s = set_m s"
  by (simp add: Set_Items_def foldl_append_id)

interpretation go_set: set_adt "MakeSet []" Set_Add Set_Delete Set_Has Set_Len Set_Items Set_inv
  by unfold_locales
    (auto simp: Set_Add_def Set_Delete_def Set_Has_def Set_Len_def Set_Items_eq Set_inv_def
      MakeSet_def distinct_card)

lemma MakeSet_foldl: "MakeSet xs = foldl Set_Add (MakeSet []) xs"
  by (simp add: MakeSet_def)

lemma Set_inv_MakeSet: "Set_inv (MakeSet xs)"
  unfolding MakeSet_foldl [of xs] by (rule go_set.inv_add_all [OF go_set.inv_empty])

lemma Set_Has_MakeSet [simp]: "Set_Has (MakeSet xs) y \<longleftrightarrow> y \<in> set xs"
  using go_set.has_add_all [OF go_set.inv_empty, of xs y] go_set.has_empty [of y]
  by (simp add: MakeSet_foldl [of xs])

lemma Set_Diff_fold:
  "Set_inv r \<Longrightarrow> Set_Has (foldl (\<lambda>r my. if \<not> Set_Has o' my then Set_Add r my else r) r xs) y \<longleftrightarrow>
     Set_Has r y \<or> y \<in> set xs \<and> \<not> Set_Has o' y"
  by (induction xs arbitrary: r) (auto simp: go_set.has_add go_set.inv_add)

lemma Set_Diff_has: "Set_Has (Set_Diff s other) y \<longleftrightarrow> Set_Has s y \<and> \<not> Set_Has other y"
  using Set_Diff_fold [OF Set_inv_MakeSet, of other "[]" "set_m s" y]
  by (simp add: Set_Diff_def) (auto simp: Set_Has_def)

lemma KeyValues_Map_map_of: "KeyValues_Map kvs = map_of (rev kvs)"
proof -
  have "foldl (\<lambda>m (k, v). m(k \<mapsto> v)) m kvs = m ++ map_of (rev kvs)" for m :: "'a \<rightharpoonup> 'b"
    by (induction kvs arbitrary: m) auto
  then show ?thesis by (simp add: KeyValues_Map_def)
qed

subsection \<open>internal/maps and internal/mk\<close>

definition GetValueIfExists :: "(go_val \<Rightarrow> 'a option) \<Rightarrow> 'a \<Rightarrow> ('k \<rightharpoonup> go_val) \<Rightarrow> 'k \<Rightarrow> 'a" where
  "GetValueIfExists as_T zero m key =
     (case m key of
        Some v \<Rightarrow> (case as_T v of Some vs \<Rightarrow> vs | None \<Rightarrow> zero)
      | None \<Rightarrow> zero)"

definition maps_GetString :: "('k \<rightharpoonup> go_val) \<Rightarrow> 'k \<Rightarrow> string" where
  "maps_GetString m key = GetValueIfExists as_string [] m key"

definition maps_GetStringSlice :: "('k \<rightharpoonup> go_val) \<Rightarrow> 'k \<Rightarrow> string list" where
  "maps_GetStringSlice m key = GetValueIfExists as_strings [] m key"

definition maps_GetKeyValues :: "('k \<rightharpoonup> go_val) \<Rightarrow> 'k \<Rightarrow> (string \<times> string) list" where
  "maps_GetKeyValues m key = GetValueIfExists as_kvs [] m key"

definition maps_GetInt64 :: "('k \<rightharpoonup> go_val) \<Rightarrow> 'k \<Rightarrow> int" where
  "maps_GetInt64 m key =
     (case m key of
        Some v \<Rightarrow>
          (case v of VInt vv \<Rightarrow> vv | VInt8 vv \<Rightarrow> vv | VInt16 vv \<Rightarrow> vv | VInt32 vv \<Rightarrow> vv
           | VInt64 vv \<Rightarrow> vv | _ \<Rightarrow> 0)
      | None \<Rightarrow> 0)"

definition ValuesOf :: "('k \<times> 'v) list \<Rightarrow> 'v list" where
  "ValuesOf m = foldl (\<lambda>vs (k, v). vs @ [v]) [] m"

definition KeysOf :: "('k \<times> 'v) list \<Rightarrow> 'k list" where
  "KeysOf m = foldl (\<lambda>ks (k, v). ks @ [k]) [] m"

lemma foldl_snoc_map: "foldl (\<lambda>ys x. ys @ [f x]) ys xs = ys @ map f xs"
  by (induction xs arbitrary: ys) auto

lemma KeysOf_eq: "KeysOf m = map fst m"
  using foldl_snoc_map [of fst "[]" m] by (simp add: KeysOf_def case_prod_unfold)

lemma ValuesOf_eq: "ValuesOf m = map snd m"
  using foldl_snoc_map [of snd "[]" m] by (simp add: ValuesOf_def case_prod_unfold)

end
