(* ===== verification/Plug.thy ===== *)
theory Plug
  imports GoTypes "HOL-Library.AList" "HOL-Library.Multiset"
begin

section \<open>Plug-in base: properties and the registry (internal/plug)\<close>

text \<open>
  \<^verbatim>\<open>plug.Properties\<close> is a stack of maps: the interactive shell pushes a frame before it runs a
  command and pops it after, so that the flags of one command do not leak into the next. The
  field \<^verbatim>\<open>ps\<close> of the Go record is an alias of the last frame and is not kept apart; the locks are
  left out, every operation being one critical section. \<^verbatim>\<open>plug.Registry\<close> holds the commands,
  printers and augmentors by name.
\<close>

subsection \<open>Properties\<close>

record Properties =
  pss :: "(string \<rightharpoonup> go_val) list"
  psb :: "string \<rightharpoonup> go_val \<times> go_error option"

definition NewProperties :: Properties where
  "NewProperties = \<lparr>pss = [Map.empty], psb = Map.empty\<rparr>"

definition Properties_All :: "Properties \<Rightarrow> string \<rightharpoonup> go_val" where
  "Properties_All p = foldl (\<lambda>m ps. m ++ ps) Map.empty (pss p)"

definition Properties_Push :: "Properties \<Rightarrow> Properties" where
  "Properties_Push p = p\<lparr>pss := pss p @ [Map.empty]\<rparr>"

text \<open>The guard tests for an empty stack; popping the only frame indexes the empty slice.\<close>

definition Properties_Pop :: "Properties \<Rightarrow> Properties option" where
  "Properties_Pop p =
     (if pss p = [] then Some p
      else (let pss' = butlast (pss p) in if pss' = [] then None else Some (p\<lparr>pss := pss'\<rparr>)))"

text \<open>Writing through \<^verbatim>\<open>ps\<close>, the last frame; there is always one.\<close>

definition Properties_Set :: "Properties \<Rightarrow> string \<Rightarrow> go_val \<Rightarrow> Properties" where
  "Properties_Set p name v = p\<lparr>pss := butlast (pss p) @ [(last (pss p))(name \<mapsto> v)]\<rparr>"

definition Properties_SetBlocking ::
    "Properties \<Rightarrow> string \<Rightarrow> go_val \<times> go_error option \<Rightarrow> Properties" where
  "Properties_SetBlocking p name v = p\<lparr>psb := (psb p)(name \<mapsto> v)\<rparr>"

text \<open>The traversal from the top frame down.\<close>

fun find_frame :: "(string \<rightharpoonup> go_val) list \<Rightarrow> string \<Rightarrow> go_val option" where
  "find_frame [] name = None"
| "find_frame (ps # rest) name = (case ps name of Some v \<Rightarrow> Some v | None \<Rightarrow> find_frame rest name)"

definition Properties_Get :: "Properties \<Rightarrow> string \<Rightarrow> go_val option" where
  "Properties_Get p name = find_frame (rev (pss p)) name"

definition Properties_GetBlocking :: "Properties \<Rightarrow> string \<Rightarrow> go_val \<times> go_error option" where
  "Properties_GetBlocking p name = (case psb p name of None \<Rightarrow> (VNil, None) | Some v \<Rightarrow> v)"

definition Properties_GetString ::
    "(64 word \<Rightarrow> string) \<Rightarrow> (32 word \<Rightarrow> string) \<Rightarrow> Properties \<Rightarrow> string \<Rightarrow> string" where
  "Properties_GetString ff gg p name =
     (case Properties_Get p name of
        None \<Rightarrow> []
      | Some v \<Rightarrow> (case as_string v of Some sv \<Rightarrow> sv | None \<Rightarrow> fmt_v ff gg v))"

definition Properties_GetBool :: "Properties \<Rightarrow> string \<Rightarrow> bool" where
  "Properties_GetBool p name =
     (case Properties_Get p name of
        Some v \<Rightarrow> (case as_bool v of Some bv \<Rightarrow> bv | None \<Rightarrow> False)
      | None \<Rightarrow> False)"

definition Properties_GetInt :: "Properties \<Rightarrow> string \<Rightarrow> int" where
  "Properties_GetInt p name =
     (case Properties_Get p name of
        Some v \<Rightarrow> (case as_int64 v of Some iv \<Rightarrow> iv | None \<Rightarrow> 0)
      | None \<Rightarrow> 0)"

lemma find_frame_append: "find_frame (xs @ ys) n =
    (case find_frame xs n of Some v \<Rightarrow> Some v | None \<Rightarrow> find_frame ys n)"
  by (induction xs) (auto split: option.splits)

lemma foldl_map_add: "foldl (\<lambda>m ps. m ++ ps) m fs n =
    (case find_frame (rev fs) n of Some v \<Rightarrow> Some v | None \<Rightarrow> m n)"
  by (induction fs arbitrary: m) (auto simp: find_frame_append map_add_def split: option.splits)

lemma Properties_All_Get: "Properties_All p n = Properties_Get p n"
  by (simp add: Properties_All_def Properties_Get_def foldl_map_add split: option.splits)

lemma Properties_Get_Set:
  "pss p \<noteq> [] \<Longrightarrow> Properties_Get (Properties_Set p n v) m = (if m = n then Some v else Properties_Get p m)"
  by (cases "pss p" rule: rev_cases) (auto simp: Properties_Get_def Properties_Set_def split: option.splits)

lemma Properties_Get_Push: "Properties_Get (Properties_Push p) m = Properties_Get p m"
  by (simp add: Properties_Get_def Properties_Push_def)

subsection \<open>What the readers of properties rely on\<close>

text \<open>
  \<^verbatim>\<open>plug.ReadOnlyProperties\<close> is the interface the commands read; the property stack provides it,
  and so does the configuration file.
\<close>

locale read_only_properties =
  fixes get :: "'s \<Rightarrow> string \<Rightarrow> go_val option"
    and get_string :: "'s \<Rightarrow> string \<Rightarrow> string"
    and get_bool :: "'s \<Rightarrow> string \<Rightarrow> bool"
    and get_int :: "'s \<Rightarrow> string \<Rightarrow> int"
  assumes string_absent: "get s n = None \<Longrightarrow> get_string s n = []"
    and string_present: "get s n = Some (VString t) \<Longrightarrow> get_string s n = t"
    and bool_iff: "get_bool s n \<longleftrightarrow> get s n = Some (VBool True)"
    and int_present: "get s n = Some (VInt64 i) \<Longrightarrow> get_int s n = i"
    and int_absent: "get s n = None \<Longrightarrow> get_int s n = 0"
begin

lemma bool_absent: "get s n = None \<Longrightarrow> \<not> get_bool s n"
  by (simp add: bool_iff)

lemma string_same: "get s n = get s' n \<Longrightarrow> get s n \<in> {None, Some (VString t)} \<Longrightarrow>
    get_string s n = get_string s' n"
  using string_absent string_present by (metis empty_iff insertE)

lemma bool_same: "get s n = get s' n \<Longrightarrow> get_bool s n = get_bool s' n"
  by (simp add: bool_iff)

end

interpretation props: read_only_properties Properties_Get "Properties_GetString ff gg"
    Properties_GetBool Properties_GetInt for ff gg
proof unfold_locales
  show "Properties_GetBool s n \<longleftrightarrow> Properties_Get s n = Some (VBool True)" for s n
    by (auto simp: Properties_GetBool_def split: option.splits elim: as_bool.elims)
qed (simp_all add: Properties_GetString_def Properties_GetInt_def)

subsection \<open>Frames are scopes\<close>

datatype prop_op = OpPush | OpPop | OpSet string go_val | OpSetBlocking string "go_val \<times> go_error option"

fun run_props :: "prop_op list \<Rightarrow> Properties \<Rightarrow> Properties option" where
  "run_props [] p = Some p"
| "run_props (OpPush # ops) p = run_props ops (Properties_Push p)"
| "run_props (OpPop # ops) p = Option.bind (Properties_Pop p) (run_props ops)"
| "run_props (OpSet n v # ops) p = run_props ops (Properties_Set p n v)"
| "run_props (OpSetBlocking n v # ops) p = run_props ops (Properties_SetBlocking p n v)"

text \<open>The depth after the operations, \<^const>\<open>None\<close> when they pop more than they pushed.\<close>

fun depth_after :: "prop_op list \<Rightarrow> nat \<Rightarrow> nat option" where
  "depth_after [] d = Some d"
| "depth_after (OpPush # ops) d = depth_after ops (Suc d)"
| "depth_after (OpPop # ops) d = (case d of 0 \<Rightarrow> None | Suc d' \<Rightarrow> depth_after ops d')"
| "depth_after (_ # ops) d = depth_after ops d"

lemma run_props_base:
  assumes "depth_after ops d = Some d'" "pss p = base @ fs" "length fs = Suc d"
  shows "\<exists>p' fs'. run_props ops p = Some p' \<and> pss p' = base @ fs' \<and> length fs' = Suc d'"
  using assms
proof (induction ops p arbitrary: d fs rule: run_props.induct)
  case (1 p)
  then show ?case by auto
next
  case (2 ops p)
  have "pss (Properties_Push p) = base @ (fs @ [Map.empty])"
    using "2.prems" by (simp add: Properties_Push_def)
  then show ?case using "2.IH" "2.prems" by auto
next
  case (3 ops p)
  then obtain d0 where d0: "d = Suc d0" "depth_after ops d0 = Some d'"
    by (auto split: nat.splits)
  then obtain fs0 f where fs: "fs = fs0 @ [f]" "length fs0 = Suc d0"
    using "3.prems" by (cases fs rule: rev_cases) auto
  then have "fs0 \<noteq> []" by auto
  then have pop: "Properties_Pop p = Some (p\<lparr>pss := base @ fs0\<rparr>)"
    using "3.prems" fs by (simp add: Properties_Pop_def butlast_append Let_def)
  have "\<exists>p' fs'. run_props ops (p\<lparr>pss := base @ fs0\<rparr>) = Some p' \<and> pss p' = base @ fs' \<and> length fs' = Suc d'"
    by (rule "3.IH" [OF pop d0(2)]) (use fs in simp_all)
  then show ?case by (simp add: pop)
next
  case (4 n v ops p)
  then obtain fs0 f where fs: "fs = fs0 @ [f]" by (cases fs rule: rev_cases) auto
  then have "pss (Properties_Set p n v) = base @ (fs0 @ [f(n \<mapsto> v)])"
    using "4.prems" by (simp add: Properties_Set_def butlast_append)
  then show ?case using "4.IH" [of d "fs0 @ [f(n \<mapsto> v)]"] "4.prems" fs by simp
next
  case (5 n v ops p)
  then show ?case using "5.IH" [of d fs] by (simp add: Properties_SetBlocking_def)
qed

lemma run_props_append: "run_props (xs @ ys) p = Option.bind (run_props xs p) (run_props ys)"
  by (induction xs p rule: run_props.induct) (auto split: option.splits bind_splits)

text \<open>
  C2: a frame is a scope. Whatever a command does with the properties between the push before it
  and the pop after it (setting, pushing and popping as many inner frames as it likes, as long as
  it pops no more than it pushed), nothing panics, and afterwards every property has the value it
  had before and reads the same as a string, a boolean and a number.
\<close>

theorem properties_frame_scoped:
  assumes "depth_after ops 0 = Some 0" "pss p \<noteq> []"
  shows "\<exists>p'. run_props (OpPush # ops @ [OpPop]) p = Some p' \<and> pss p' = pss p \<and>
    (\<forall>n. Properties_Get p' n = Properties_Get p n \<and>
         Properties_GetString ff gg p' n = Properties_GetString ff gg p n \<and>
         Properties_GetBool p' n = Properties_GetBool p n \<and>
         Properties_GetInt p' n = Properties_GetInt p n)"
proof -
  have "pss (Properties_Push p) = pss p @ [Map.empty]" by (simp add: Properties_Push_def)
  from run_props_base [OF assms(1) this] obtain p1 f where
    p1: "run_props ops (Properties_Push p) = Some p1" "pss p1 = pss p @ [f]"
    by (auto simp: length_Suc_conv)
  then have "run_props (OpPush # ops @ [OpPop]) p = Some (p1\<lparr>pss := pss p\<rparr>)"
    using assms(2) by (simp add: run_props_append Properties_Pop_def)
  then show ?thesis
    by (auto simp: Properties_Get_def Properties_GetString_def Properties_GetBool_def Properties_GetInt_def)
qed

lemma properties_frame_scoped_witness:
  "\<exists>p'. run_props (OpPush # [OpSet ''format'' (VString ''csv''), OpPush, OpSet ''quiet'' (VBool True), OpPop] @ [OpPop])
     (Properties_Set NewProperties ''format'' (VString ''table'')) = Some p' \<and>
     Properties_Get p' ''format'' = Some (VString ''table'')"
  using properties_frame_scoped [of "[OpSet ''format'' (VString ''csv''), OpPush, OpSet ''quiet'' (VBool True), OpPop]"
      "Properties_Set NewProperties ''format'' (VString ''table'')"]
  by (fastforce simp: NewProperties_def Properties_Set_def Properties_Get_def)

text \<open>The guard of \<^verbatim>\<open>Pop\<close> does not protect the last frame.\<close>

lemma Pop_last_frame_panics: "Properties_Pop NewProperties = None"
  by (simp add: Properties_Pop_def NewProperties_def)

subsection \<open>The registry\<close>

record ('i, 'c, 'a, 'p) registry =
  initters :: "(string \<times> 'i) list"
  commands :: "(string \<times> 'c) list"
  augmentors :: "(string \<times> 'a) list"
  printers :: "(string \<times> 'p) list"
  onlyInteractive :: "string list"

definition newRegistry :: "('i, 'c, 'a, 'p) registry" where
  "newRegistry = \<lparr>initters = [], commands = [], augmentors = [], printers = [], onlyInteractive = []\<rparr>"

datatype RegisterCommandOption = OnlyInteractive

fun Apply :: "RegisterCommandOption \<Rightarrow> ('i, 'c, 'a, 'p) registry \<Rightarrow> string \<Rightarrow> ('i, 'c, 'a, 'p) registry" where
  "Apply OnlyInteractive r name = r\<lparr>onlyInteractive := onlyInteractive r @ [name]\<rparr>"

text \<open>The name pattern \<^verbatim>\<open>^[a-z][a-z-]+(:[a-z-]+)?$\<close>.\<close>

definition name_letter :: "char \<Rightarrow> bool" where
  "name_letter c \<longleftrightarrow> 97 \<le> (of_char c :: nat) \<and> (of_char c :: nat) \<le> 122"

definition name_char :: "char \<Rightarrow> bool" where
  "name_char c \<longleftrightarrow> name_letter c \<or> c = CHR ''-''"

definition validName :: "string \<Rightarrow> bool" where
  "validName name =
     (case name of
        [] \<Rightarrow> False
      | c # t \<Rightarrow>
          name_letter c \<and> takeWhile name_char t \<noteq> [] \<and>
          (case dropWhile name_char t of
             [] \<Rightarrow> True
           | d # r \<Rightarrow> d = CHR '':'' \<and> r \<noteq> [] \<and> list_all name_char r))"

definition RegisterGlobalInitializer ::
    "('i, 'c, 'a, 'p) registry \<Rightarrow> string \<Rightarrow> 'i \<Rightarrow> ('i, 'c, 'a, 'p) registry" where
  "RegisterGlobalInitializer rg name ita = rg\<lparr>initters := AList.update name ita (initters rg)\<rparr>"

definition RegisterCommand :: "('i, 'c, 'a, 'p) registry \<Rightarrow> string \<Rightarrow> 'c \<Rightarrow>
    RegisterCommandOption list \<Rightarrow> ('i, 'c, 'a, 'p) registry \<times> go_error option" where
  "RegisterCommand rg name c opts =
     (if \<not> validName name then (rg, Some (Errorf (''invalid name: '' @ name)))
      else (foldl (\<lambda>r opt. Apply opt r name) (rg\<lparr>commands := AList.update name c (commands rg)\<rparr>) opts,
            None))"

fun available_loop :: "bool \<Rightarrow> string \<Rightarrow> string list \<Rightarrow> bool" where
  "available_loop isInteractive cmdName [] = True"
| "available_loop isInteractive cmdName (o' # rest) =
     (if cmdName = o' \<and> \<not> isInteractive then False else available_loop isInteractive cmdName rest)"

definition IsAvailable :: "('i, 'c, 'a, 'p) registry \<Rightarrow> bool \<Rightarrow> string \<Rightarrow> bool" where
  "IsAvailable rg isInteractive cmdName = available_loop isInteractive cmdName (onlyInteractive rg)"

definition RegisterAugmentor ::
    "('i, 'c, 'a, 'p) registry \<Rightarrow> string \<Rightarrow> 'a \<Rightarrow> ('i, 'c, 'a, 'p) registry" where
  "RegisterAugmentor rg name ag = rg\<lparr>augmentors := AList.update name ag (augmentors rg)\<rparr>"

definition RegisterPrinter ::
    "('i, 'c, 'a, 'p) registry \<Rightarrow> string \<Rightarrow> 'p \<Rightarrow> ('i, 'c, 'a, 'p) registry" where
  "RegisterPrinter rg name pr = rg\<lparr>printers := AList.update name pr (printers rg)\<rparr>"

text \<open>The names are distinct, so the unstable \<^verbatim>\<open>sort.Slice\<close> has one result.\<close>

definition sortedItems :: "(string \<times> 't) list \<Rightarrow> (string \<times> 't) list" where
  "sortedItems d = sort_key fst (foldl (\<lambda>r (name, item). r @ [(name, item)]) [] d)"

definition GlobalInitializers :: "('i, 'c, 'a, 'p) registry \<Rightarrow> (string \<times> 'i) list" where
  "GlobalInitializers rg = sortedItems (initters rg)"

definition Commands :: "('i, 'c, 'a, 'p) registry \<Rightarrow> (string \<times> 'c) list" where
  "Commands rg = sortedItems (commands rg)"

definition Augmentors :: "('i, 'c, 'a, 'p) registry \<Rightarrow> (string \<times> 'a) list" where
  "Augmentors rg = sortedItems (augmentors rg)"

definition Printers :: "('i, 'c, 'a, 'p) registry \<Rightarrow> (string \<times> 'p) list" where
  "Printers rg = printers rg"

definition PrinterNames :: "('i, 'c, 'a, 'p) registry \<Rightarrow> string list" where
  "PrinterNames rg = KeysOf (printers rg)"

definition RegistryItems_Map :: "(string \<times> 't) list \<Rightarrow> string \<rightharpoonup> 't" where
  "RegistryItems_Map ri = foldl (\<lambda>m (n, item). m(n \<mapsto> item)) Map.empty ri"

lemma sortedItems_eq: "sortedItems d = sort_key fst d"
  using foldl_snoc_map [of id "[]" d] by (simp add: sortedItems_def case_prod_unfold)

lemma available_loop_iff: "available_loop i c os \<longleftrightarrow> i \<or> c \<notin> set os"
  by (induction os) auto

definition registry_ok :: "('i, 'c, 'a, 'p) registry \<Rightarrow> bool" where
  "registry_ok rg \<longleftrightarrow> distinct (map fst (commands rg)) \<and> (\<forall>n \<in> fst ` set (commands rg). validName n) \<and>
     set (onlyInteractive rg) \<subseteq> fst ` set (commands rg)"

lemma Apply_fold_commands:
  "commands (foldl (\<lambda>r opt. Apply opt r name) rg opts) = commands rg"
proof (induction opts arbitrary: rg)
  case (Cons opt opts)
  then show ?case by (cases opt) auto
qed simp

lemma Apply_fold_only:
  "set (onlyInteractive (foldl (\<lambda>r opt. Apply opt r name) rg opts)) =
     set (onlyInteractive rg) \<union> (if opts = [] then {} else {name})"
proof (induction opts arbitrary: rg)
  case (Cons opt opts)
  then show ?case by (cases opt) auto
qed simp

lemma set_sortedItems [simp]: "set (sortedItems d) = set d"
  by (simp add: sortedItems_eq)

lemma distinct_sortedItems [simp]: "distinct (map fst (sortedItems d)) \<longleftrightarrow> distinct (map fst d)"
proof -
  have "mset (map fst (sortedItems d)) = mset (map fst d)" by (simp add: sortedItems_eq)
  then show ?thesis using mset_eq_imp_distinct_iff by blast
qed

lemma strict_sorted_sortedItems: "distinct (map fst d) \<Longrightarrow> sorted_wrt (<) (map fst (sortedItems d))"
  using distinct_sortedItems [of d] by (simp add: strict_sorted_iff) (simp add: sortedItems_eq)

lemma RegistryItems_Map_sortedItems:
  assumes "distinct (map fst d)"
  shows "RegistryItems_Map (sortedItems d) = map_of d"
proof -
  have "distinct (map fst (rev (sortedItems d)))" using assms by (simp flip: rev_map)
  then have "map_of (rev (sortedItems d)) = map_of d"
    using assms by (simp add: map_of_inject_set)
  then show ?thesis
    using KeyValues_Map_map_of [of "sortedItems d"] by (simp add: RegistryItems_Map_def KeyValues_Map_def)
qed

text \<open>
  Registering a command with a valid name keeps the registry well formed, makes the sorted list
  of commands (strictly increasing names, no duplicates) map that name to the new command and every
  other name to what it was, and hides exactly the commands registered with \<open>OnlyInteractive\<close> from
  the other modes; an invalid name changes nothing and is reported.
\<close>

theorem RegisterCommand_sorted_lookup:
  assumes "registry_ok rg"
  shows "(if validName name
     then \<exists>rg'. RegisterCommand rg name c opts = (rg', None) \<and> registry_ok rg' \<and>
       sorted_wrt (<) (map fst (Commands rg')) \<and>
       RegistryItems_Map (Commands rg') = (RegistryItems_Map (Commands rg))(name \<mapsto> c) \<and>
       (\<forall>n. IsAvailable rg' False n \<longleftrightarrow> IsAvailable rg False n \<and> (n \<noteq> name \<or> opts = []))
     else fst (RegisterCommand rg name c opts) = rg \<and> snd (RegisterCommand rg name c opts) \<noteq> None)"
proof (cases "validName name")
  case True
  define cs where "cs = AList.update name c (commands rg)"
  define rg' where "rg' = foldl (\<lambda>r opt. Apply opt r name) (rg\<lparr>commands := cs\<rparr>) opts"
  have reg: "RegisterCommand rg name c opts = (rg', None)"
    using True by (simp add: RegisterCommand_def rg'_def cs_def)
  have c: "commands rg' = cs" by (simp add: rg'_def Apply_fold_commands)
  have o': "set (onlyInteractive rg') = set (onlyInteractive rg) \<union> (if opts = [] then {} else {name})"
    by (simp add: rg'_def Apply_fold_only)
  have d: "distinct (map fst cs)" "fst ` set cs = insert name (fst ` set (commands rg))"
    using assms by (simp_all add: cs_def registry_ok_def AList.distinct_update AList.dom_update)
  have "registry_ok rg'"
    using assms True d by (auto simp: registry_ok_def c o')
  moreover have "sorted_wrt (<) (map fst (Commands rg'))"
    using d(1) by (simp add: Commands_def c strict_sorted_sortedItems)
  moreover have "RegistryItems_Map (Commands rg') = (RegistryItems_Map (Commands rg))(name \<mapsto> c)"
    using d(1) assms
    by (simp add: Commands_def c RegistryItems_Map_sortedItems registry_ok_def)
      (simp add: cs_def AList.update_conv')
  moreover have "\<forall>n. IsAvailable rg' False n \<longleftrightarrow> IsAvailable rg False n \<and> (n \<noteq> name \<or> opts = [])"
    by (auto simp: IsAvailable_def available_loop_iff o')
  ultimately show ?thesis using True reg by auto
next
  case False
  then show ?thesis by (simp add: RegisterCommand_def)
qed

lemma RegisterCommand_sorted_lookup_witness:
  "\<exists>rg'. RegisterCommand (newRegistry :: (unit, nat, unit, unit) registry) ''map:get'' 7 [OnlyInteractive] = (rg', None) \<and>
     RegistryItems_Map (Commands rg') ''map:get'' = Some 7 \<and> \<not> IsAvailable rg' False ''map:get''"
proof -
  have "registry_ok (newRegistry :: (unit, nat, unit, unit) registry)"
    by (simp add: registry_ok_def newRegistry_def)
  moreover have "validName ''map:get''" by code_simp
  ultimately show ?thesis
    using RegisterCommand_sorted_lookup
      [of "newRegistry :: (unit, nat, unit, unit) registry" "''map:get''" 7 "[OnlyInteractive]"]
    by auto
qed

end
