(* ===== verification/Conversion.thy ===== *)
theory Conversion
  imports GoTypes
begin

section \<open>Conversion of command line values (internal/conversion.go)\<close>

text \<open>
  \<open>ConvertString\<close> turns the text of a key or a value into a value of the named type. The Go
  function returns a value and an error, both of which may be set, so the model returns both.
  \<^verbatim>\<open>json.Valid\<close> and \<^verbatim>\<open>strconv.ParseBool\<close> are modelled; the decimal to binary rounding of
  \<^verbatim>\<open>strconv.ParseFloat\<close> is a parameter, the record \<open>float_lib\<close>.
\<close>

subsection \<open>json.Valid\<close>

text \<open>
  The recogniser consumes a prefix of the input and returns the rest. \<open>d\<close> is the nesting depth,
  limited to 10000 by the Go scanner; the fuel bounds the recursion and one unit per byte is
  enough, because every call consumes a byte before it calls another.
\<close>

definition json_ws :: "char \<Rightarrow> bool" where
  "json_ws c \<longleftrightarrow> c = CHR '' '' \<or> c = CHR 0x09 \<or> c = CHR 0x0D \<or> c = CHR 0x0A"

abbreviation skip_ws :: "string \<Rightarrow> string" where
  "skip_ws s \<equiv> dropWhile json_ws s"

definition is_digit :: "char \<Rightarrow> bool" where
  "is_digit c \<longleftrightarrow> 48 \<le> (of_char c :: nat) \<and> (of_char c :: nat) \<le> 57"

definition is_hex :: "char \<Rightarrow> bool" where
  "is_hex c \<longleftrightarrow> (case digit_val c of Some d \<Rightarrow> d < 16 | None \<Rightarrow> False)"

fun json_string_body :: "string \<Rightarrow> string option" where
  "json_string_body [] = None"
| "json_string_body (c # s) =
     (if c = CHR 0x22 then Some s
      else if (of_char c :: nat) < 32 then None
      else if c \<noteq> CHR 0x5C then json_string_body s
      else case s of
        e # h1 # h2 # h3 # h4 # s' \<Rightarrow>
          if e = CHR ''u'' then
            (if is_hex h1 \<and> is_hex h2 \<and> is_hex h3 \<and> is_hex h4 then json_string_body s' else None)
          else if e \<in> set ''bfnrt/'' \<or> e = CHR 0x5C \<or> e = CHR 0x22
            then json_string_body (h1 # h2 # h3 # h4 # s') else None
      | e # s' \<Rightarrow>
          if e \<in> set ''bfnrt/'' \<or> e = CHR 0x5C \<or> e = CHR 0x22 then json_string_body s' else None
      | [] \<Rightarrow> None)"

definition json_digits1 :: "string \<Rightarrow> string option" where
  "json_digits1 s = (case s of c # _ \<Rightarrow> if is_digit c then Some (dropWhile is_digit s) else None | [] \<Rightarrow> None)"

definition json_int_part :: "string \<Rightarrow> string option" where
  "json_int_part s = (case s of c # s' \<Rightarrow> if c = CHR ''0'' then Some s' else json_digits1 s | [] \<Rightarrow> None)"

definition json_frac :: "string \<Rightarrow> string option" where
  "json_frac s = (case s of c # s' \<Rightarrow> if c = CHR ''.'' then json_digits1 s' else Some s | [] \<Rightarrow> Some [])"

definition json_exp :: "string \<Rightarrow> string option" where
  "json_exp s =
     (case s of c # s' \<Rightarrow>
        if c = CHR ''e'' \<or> c = CHR ''E'' then
          (case s' of d # s'' \<Rightarrow> if d = CHR ''+'' \<or> d = CHR ''-'' then json_digits1 s'' else json_digits1 s'
           | [] \<Rightarrow> None)
        else Some s
      | [] \<Rightarrow> Some [])"

definition json_number :: "string \<Rightarrow> string option" where
  "json_number s =
     Option.bind (json_int_part (if has_prefix s ''-'' then tl s else s))
       (\<lambda>s1. Option.bind (json_frac s1) json_exp)"

text \<open>\<open>JValue\<close> reads a value, \<open>JElems\<close> the rest of an array after a value, \<open>JMember\<close> a member.\<close>

datatype json_goal = JValue | JElems | JMember | JMembers

fun json_scan :: "nat \<Rightarrow> json_goal \<Rightarrow> int \<Rightarrow> string \<Rightarrow> string option" where
  "json_scan 0 g d s = None"
| "json_scan (Suc n) JValue d s =
     (case skip_ws s of
        [] \<Rightarrow> None
      | c # s' \<Rightarrow>
          if c = CHR 0x22 then json_string_body s'
          else if c = CHR ''['' then
            (if d \<ge> 10000 then None
             else case skip_ws s' of
               [] \<Rightarrow> None
             | c2 # s2 \<Rightarrow>
                 if c2 = CHR '']'' then Some s2
                 else Option.bind (json_scan n JValue (d + 1) (c2 # s2)) (json_scan n JElems (d + 1)))
          else if c = CHR 0x7B then
            (if d \<ge> 10000 then None
             else case skip_ws s' of
               [] \<Rightarrow> None
             | c2 # s2 \<Rightarrow>
                 if c2 = CHR 0x7D then Some s2
                 else Option.bind (json_scan n JMember (d + 1) (c2 # s2)) (json_scan n JMembers (d + 1)))
          else if has_prefix (c # s') ''true'' then Some (drop 3 s')
          else if has_prefix (c # s') ''false'' then Some (drop 4 s')
          else if has_prefix (c # s') ''null'' then Some (drop 3 s')
          else json_number (c # s'))"
| "json_scan (Suc n) JElems d s =
     (case skip_ws s of
        [] \<Rightarrow> None
      | c # s' \<Rightarrow>
          if c = CHR '']'' then Some s'
          else if c = CHR '','' then Option.bind (json_scan n JValue d s') (json_scan n JElems d)
          else None)"
| "json_scan (Suc n) JMember d s =
     (case skip_ws s of
        [] \<Rightarrow> None
      | c # s' \<Rightarrow>
          if c = CHR 0x22 then
            Option.bind (json_string_body s')
              (\<lambda>s1. case skip_ws s1 of
                 c1 # s2 \<Rightarrow> if c1 = CHR '':'' then json_scan n JValue d s2 else None
               | [] \<Rightarrow> None)
          else None)"
| "json_scan (Suc n) JMembers d s =
     (case skip_ws s of
        [] \<Rightarrow> None
      | c # s' \<Rightarrow>
          if c = CHR 0x7D then Some s'
          else if c = CHR '','' then Option.bind (json_scan n JMember d s') (json_scan n JMembers d)
          else None)"

definition json_valid :: "string \<Rightarrow> bool" where
  "json_valid s =
     (case json_scan (2 * length s + 2) JValue 0 s of None \<Rightarrow> False | Some r \<Rightarrow> skip_ws r = [])"

subsection \<open>ConvertString\<close>

text \<open>\<^verbatim>\<open>strconv.ParseBool\<close>: the value and whether the text was no boolean.\<close>

definition parse_bool :: "string \<Rightarrow> bool \<times> num_error option" where
  "parse_bool s =
     (if s \<in> set [''1'', ''t'', ''T'', ''TRUE'', ''true'', ''True''] then (True, None)
      else if s \<in> set [''0'', ''f'', ''F'', ''FALSE'', ''false'', ''False''] then (False, None)
      else (False, Some ErrSyntax))"

text \<open>
  \<^verbatim>\<open>ParseFloat(s, bits)\<close> with the error it reports, the conversion \<^verbatim>\<open>float32(f)\<close>, and the
  printing of both widths.
\<close>

record float_lib =
  parse_float :: "string \<Rightarrow> nat \<Rightarrow> 64 word \<times> num_error option"
  to_float32 :: "64 word \<Rightarrow> 32 word"
  print_float64 :: "64 word \<Rightarrow> string"
  print_float32 :: "32 word \<Rightarrow> string"

definition SupportedTypeNames :: "string list" where
  "SupportedTypeNames =
     sort [''string'', ''bool'', ''json'', ''i8'', ''i16'', ''i32'', ''i64'', ''f32'', ''f64'']"

datatype conv_error = CNum num_error | CErr go_error

definition lift_num :: "(int \<Rightarrow> go_val) \<Rightarrow> int \<times> num_error option \<Rightarrow> go_val \<times> conv_error option" where
  "lift_num mk r = (mk (fst r), map_option CNum (snd r))"

text \<open>The switch on the type name.\<close>

definition convert_switch :: "float_lib \<Rightarrow> string \<Rightarrow> string \<Rightarrow> go_val \<times> conv_error option" where
  "convert_switch fl value valueType =
     (if valueType = ''string'' \<or> valueType = [] then (VString value, None)
      else if valueType = ''bool'' then
        (if value = ''true'' then (VBool True, map_option CNum (snd (parse_bool value)))
         else if value = ''false'' then (VBool False, map_option CNum (snd (parse_bool value)))
         else (VBool (fst (parse_bool value)),
               Some (CErr (Errorf ''bool values can be only true or false''))))
      else if valueType = ''json'' then
        (if \<not> json_valid value then (VNil, Some (CErr (Errorf ''malformed JSON string'')))
         else (VJSON value, None))
      else if valueType = ''i8'' then lift_num VInt8 (parse_int_full 10 8 value)
      else if valueType = ''i16'' then lift_num VInt16 (parse_int_full 10 16 value)
      else if valueType = ''i32'' then lift_num VInt32 (parse_int_full 10 32 value)
      else if valueType = ''i64'' then lift_num VInt64 (parse_int_full 10 64 value)
      else if valueType = ''f32'' then
        (let (f, e) = parse_float fl value 32 in (VFloat32 (to_float32 fl f), map_option CNum e))
      else if valueType = ''f64'' then
        (let (f, e) = parse_float fl value 64 in (VFloat64 f, map_option CNum e))
      else (VNil, Some (CErr (Errorf (''unknown type '' @ [CHR 0x27] @ valueType @ [CHR 0x27] @
              '', provide one of '' @ join_with '', '' SupportedTypeNames)))))"

definition ConvertString :: "float_lib \<Rightarrow> string \<Rightarrow> string \<Rightarrow> go_val \<times> go_error option" where
  "ConvertString fl value valueType0 =
     (let valueType = to_lower valueType0;
          (cv, err) = convert_switch fl value valueType
      in (cv,
          case err of
            None \<Rightarrow> None
          | Some (CNum ErrSyntax) \<Rightarrow>
              Some (Errorf (''can not convert '' @ [CHR 0x22] @ value @ [CHR 0x22] @ '' to '' @
                valueType @ '', unknown syntax''))
          | Some (CNum ErrRange) \<Rightarrow>
              Some (Errorf (value @ '' can not be represented with specified bit number (max val:'' @
                fmt_v (print_float64 fl) (print_float32 fl) cv @ '')''))
          | Some (CErr e) \<Rightarrow> Some e))"

definition ValueFromString :: "float_lib \<Rightarrow> string \<Rightarrow> string \<Rightarrow> go_val \<times> go_error option" where
  "ValueFromString fl value valueType = ConvertString fl value valueType"

subsection \<open>What a conversion yields\<close>

text \<open>The type a successful conversion to a type name has, and its bounds.\<close>

fun has_type_name :: "string \<Rightarrow> go_val \<Rightarrow> bool" where
  "has_type_name t (VString s) \<longleftrightarrow> t = ''string'' \<or> t = []"
| "has_type_name t (VBool b) \<longleftrightarrow> t = ''bool''"
| "has_type_name t (VJSON s) \<longleftrightarrow> t = ''json'' \<and> json_valid s"
| "has_type_name t (VInt8 i) \<longleftrightarrow> t = ''i8'' \<and> - (2 ^ 7) \<le> i \<and> i < 2 ^ 7"
| "has_type_name t (VInt16 i) \<longleftrightarrow> t = ''i16'' \<and> - (2 ^ 15) \<le> i \<and> i < 2 ^ 15"
| "has_type_name t (VInt32 i) \<longleftrightarrow> t = ''i32'' \<and> - (2 ^ 31) \<le> i \<and> i < 2 ^ 31"
| "has_type_name t (VInt64 i) \<longleftrightarrow> t = ''i64'' \<and> - (2 ^ 63) \<le> i \<and> i < 2 ^ 63"
| "has_type_name t (VFloat32 f) \<longleftrightarrow> t = ''f32''"
| "has_type_name t (VFloat64 f) \<longleftrightarrow> t = ''f64''"
| "has_type_name t _ \<longleftrightarrow> False"

definition int_type_bits :: "string \<Rightarrow> nat option" where
  "int_type_bits t = map_of [(''i8'', 8), (''i16'', 16), (''i32'', 32), (''i64'', 64)] t"

fun go_int_val :: "go_val \<Rightarrow> int option" where
  "go_int_val (VInt8 i) = Some i"
| "go_int_val (VInt16 i) = Some i"
| "go_int_val (VInt32 i) = Some i"
| "go_int_val (VInt64 i) = Some i"
| "go_int_val _ = None"

lemma parse_int_full_ok:
  assumes "parse_int_full b bits s = (v, None)"
  shows "- (2 ^ (bits - 1)) \<le> v \<and> v < 2 ^ (bits - 1)"
  using assms parse_int_range [of b bits s v] by (simp add: parse_int_def)

lemma convert_int_ok:
  assumes "lift_num mk (parse_int_full 10 bits s) = (cv, None)"
  shows "\<exists>i. cv = mk i \<and> - (2 ^ (bits - 1)) \<le> i \<and> i < 2 ^ (bits - 1)"
  using assms parse_int_full_ok [of 10 bits s]
  by (cases "parse_int_full 10 bits s") (auto simp: lift_num_def)

lemma ConvertString_None_iff:
  "ConvertString fl value t = (cv, None) \<longleftrightarrow> convert_switch fl value (to_lower t) = (cv, None)"
  by (auto simp: ConvertString_def Let_def split: prod.splits option.splits conv_error.splits num_error.splits)

lemma parse_int_full_format:
  assumes "1 \<le> bits" "- (2 ^ (bits - 1)) \<le> i" "i < 2 ^ (bits - 1)"
  shows "parse_int_full 10 bits (itoa i) = (i, None)"
  using parse_int_format [of 10 bits i] assms
  by (auto simp: parse_int_def split: prod.splits option.splits)

lemma convert_switch_int:
  assumes "int_type_bits t = Some bits"
  shows "\<exists>mk. (\<forall>s. convert_switch fl s (to_lower t) = lift_num mk (parse_int_full 10 bits s)) \<and>
    (\<forall>j. go_int_val (mk j) = Some j) \<and> 1 \<le> bits"
proof -
  have l: "to_lower ''i8'' = ''i8''" "to_lower ''i16'' = ''i16''" "to_lower ''i32'' = ''i32''"
      "to_lower ''i64'' = ''i64''" by code_simp+
  consider "t = ''i8''" "bits = 8" | "t = ''i16''" "bits = 16" | "t = ''i32''" "bits = 32"
    | "t = ''i64''" "bits = 64"
    using assms by (auto simp: int_type_bits_def split: if_splits)
  then show ?thesis
  proof cases
    case 1
    then show ?thesis by (intro exI [of _ VInt8]) (simp add: l convert_switch_def)
  next
    case 2
    then show ?thesis by (intro exI [of _ VInt16]) (simp add: l convert_switch_def)
  next
    case 3
    then show ?thesis by (intro exI [of _ VInt32]) (simp add: l convert_switch_def)
  next
    case 4
    then show ?thesis by (intro exI [of _ VInt64]) (simp add: l convert_switch_def)
  qed
qed

subsection \<open>Properties\<close>

text \<open>
  C33: a conversion that reports no error yields a value of exactly the type that was named (in any
  letter case), within the bounds of the width for the integers and with valid text for JSON; no
  unnamed type is ever accepted.
\<close>

theorem ConvertString_typed:
  assumes "ConvertString fl s t = (cv, None)"
  shows "has_type_name (to_lower t) cv"
proof -
  have c: "convert_switch fl s (to_lower t) = (cv, None)"
    using assms by (simp add: ConvertString_None_iff)
  consider "to_lower t = ''i8''" | "to_lower t = ''i16''" | "to_lower t = ''i32''" | "to_lower t = ''i64''"
    | "to_lower t \<notin> {''i8'', ''i16'', ''i32'', ''i64''}" by blast
  then show ?thesis
  proof cases
    case 1
    then show ?thesis using c convert_int_ok [of VInt8 8 s cv] by (auto simp: convert_switch_def)
  next
    case 2
    then show ?thesis using c convert_int_ok [of VInt16 16 s cv] by (auto simp: convert_switch_def)
  next
    case 3
    then show ?thesis using c convert_int_ok [of VInt32 32 s cv] by (auto simp: convert_switch_def)
  next
    case 4
    then show ?thesis using c convert_int_ok [of VInt64 64 s cv] by (auto simp: convert_switch_def)
  next
    case 5
    then show ?thesis using c by (auto simp: convert_switch_def Let_def split: if_splits prod.splits)
  qed
qed

definition no_floats :: float_lib where
  "no_floats = \<lparr>parse_float = (\<lambda>s b. (0, Some ErrSyntax)), to_float32 = (\<lambda>f. 0),
     print_float64 = (\<lambda>f. ''0''), print_float32 = (\<lambda>f. ''0'')\<rparr>"

lemma ConvertString_typed_witness: "has_type_name (to_lower ''I16'') (VInt16 (- 321))"
  by (rule ConvertString_typed [of no_floats "''-321''"]) code_simp

text \<open>
  C34: the decimal text of every integer of a width converts back to that integer at that width, and
  an integer outside the width is refused with an error: nothing is truncated silently.
\<close>

theorem ConvertString_int_exact:
  assumes "int_type_bits t = Some bits" "- (2 ^ 63) \<le> i" "i < 2 ^ 63"
  shows "if - (2 ^ (bits - 1)) \<le> i \<and> i < 2 ^ (bits - 1)
         then \<exists>v. ConvertString fl (itoa i) t = (v, None) \<and> go_int_val v = Some i
         else snd (ConvertString fl (itoa i) t) \<noteq> None"
proof -
  obtain mk where mk: "\<And>s. convert_switch fl s (to_lower t) = lift_num mk (parse_int_full 10 bits s)"
      "\<And>j. go_int_val (mk j) = Some j" and bits: "1 \<le> bits"
    using convert_switch_int [OF assms(1)] by blast
  show ?thesis
  proof (cases "- (2 ^ (bits - 1)) \<le> i \<and> i < 2 ^ (bits - 1)")
    case True
    then have "parse_int_full 10 bits (itoa i) = (i, None)"
      using parse_int_full_format bits by blast
    then have "ConvertString fl (itoa i) t = (mk i, None)"
      by (simp add: ConvertString_None_iff mk lift_num_def)
    then show ?thesis using True mk(2) by auto
  next
    case False
    have "snd (parse_int_full 10 bits (itoa i)) \<noteq> None"
    proof
      assume "snd (parse_int_full 10 bits (itoa i)) = None"
      then obtain v where v: "parse_int_full 10 bits (itoa i) = (v, None)" by (metis prod.collapse)
      have "v = i" using parse_int_full_same [OF v] assms(2,3) by blast
      then show False using parse_int_full_ok [OF v] False by blast
    qed
    then have "snd (ConvertString fl (itoa i) t) \<noteq> None"
      by (auto simp: ConvertString_def Let_def mk lift_num_def
          split: option.splits conv_error.splits num_error.splits)
    then show ?thesis unfolding if_not_P [OF False] .
  qed
qed

lemma ConvertString_int_exact_witness:
  "(\<exists>v. ConvertString no_floats (itoa 127) ''i8'' = (v, None) \<and> go_int_val v = Some 127) \<and>
   snd (ConvertString no_floats (itoa 128) ''i8'') \<noteq> None"
  using ConvertString_int_exact [of "''i8''" 8 127 no_floats]
    ConvertString_int_exact [of "''i8''" 8 128 no_floats]
  by (simp add: int_type_bits_def)

end
