(* ===== verification/CmdArgs.thy ===== *)
theory CmdArgs
  imports StrLib Version Plug Conversion
begin

section \<open>Command arguments (clc/cmd: command_context.go, exec_context.go, utils.go)\<close>

text \<open>
  A command declares its positional arguments in its \<open>CommandContext\<close>; \<open>ArgsFunc\<close> makes from the
  declarations the check that runs before the command, and \<open>makeKeywordArgs\<close> later turns the same
  arguments into the map the command reads. The two walk the declarations separately; the main
  theorem is that they agree, so that the error branches and the slice expression of
  \<open>makeKeywordArgs\<close> that the comments call unreachable are. The theory also has the startup
  options, the timeout, the metric names and the waiting loop of \<open>ExecuteBlocking\<close>.
\<close>

subsection \<open>Declaring arguments\<close>

datatype ArgType =
    ArgTypeNone | ArgTypeString | ArgTypeStringSlice | ArgTypeInt64 | ArgTypeInt64Slice
  | ArgTypeKeyValueSlice

fun argtype_num :: "ArgType \<Rightarrow> int" where
  "argtype_num ArgTypeNone = 0"
| "argtype_num ArgTypeString = 1"
| "argtype_num ArgTypeStringSlice = 2"
| "argtype_num ArgTypeInt64 = 3"
| "argtype_num ArgTypeInt64Slice = 4"
| "argtype_num ArgTypeKeyValueSlice = 5"

record ArgSpec =
  Key :: string
  Title :: string
  Type :: ArgType
  Min :: int
  Max :: int

datatype Mode = ModeNonInteractive | ModeInteractive | ModeScripting

datatype flag_default = FlagString string | FlagInt int | FlagBool bool

text \<open>What the context sets on the \<^verbatim>\<open>cobra\<close> command and on the configuration provider.\<close>

record cobra_flag =
  flag_long :: string
  flag_short :: string
  flag_def :: flag_default
  flag_required :: bool

record cobra_command =
  Hidden :: bool
  Long :: string
  Short :: string
  GroupID :: string
  flags :: "cobra_flag list"

record CommandContext =
  Cmd :: cobra_command
  cp_set :: "(string \<times> string) list"
  cp_bound :: "(string \<times> string) list"
  stringValues :: "string list"
  boolValues :: "string list"
  intValues :: "string list"
  cc_mode :: Mode
  isTopLevel :: bool
  cc_group :: "(string \<times> string) option"
  argSpecs :: "ArgSpec list"
  usage :: string

definition NewCommandContext :: "cobra_command \<Rightarrow> Mode \<Rightarrow> CommandContext" where
  "NewCommandContext c m =
     \<lparr>Cmd = c, cp_set = [], cp_bound = [], stringValues = [], boolValues = [], intValues = [],
      cc_mode = m, isTopLevel = False, cc_group = None, argSpecs = [], usage = []\<rparr>"

definition add_flag :: "cobra_flag \<Rightarrow> CommandContext \<Rightarrow> CommandContext" where
  "add_flag f cc = cc\<lparr>Cmd := (Cmd cc)\<lparr>flags := flags (Cmd cc) @ [f]\<rparr>\<rparr>"

definition AddStringFlag ::
    "CommandContext \<Rightarrow> string \<Rightarrow> string \<Rightarrow> string \<Rightarrow> bool \<Rightarrow> CommandContext" where
  "AddStringFlag cc long short val required =
     (let cc' = add_flag \<lparr>flag_long = long, flag_short = short, flag_def = FlagString val,
                          flag_required = required\<rparr> cc
      in cc'\<lparr>stringValues := stringValues cc' @ [long]\<rparr>)"

definition AddIntFlag ::
    "CommandContext \<Rightarrow> string \<Rightarrow> string \<Rightarrow> int \<Rightarrow> bool \<Rightarrow> CommandContext" where
  "AddIntFlag cc long short val required =
     (let cc' = add_flag \<lparr>flag_long = long, flag_short = short, flag_def = FlagInt val,
                          flag_required = required\<rparr> cc
      in cc'\<lparr>intValues := intValues cc' @ [long]\<rparr>)"

definition AddBoolFlag ::
    "CommandContext \<Rightarrow> string \<Rightarrow> string \<Rightarrow> bool \<Rightarrow> bool \<Rightarrow> CommandContext" where
  "AddBoolFlag cc long short val required =
     (let cc' = add_flag \<lparr>flag_long = long, flag_short = short, flag_def = FlagBool val,
                          flag_required = required\<rparr> cc
      in cc'\<lparr>boolValues := boolValues cc' @ [long]\<rparr>)"

definition AddStringArg :: "CommandContext \<Rightarrow> string \<Rightarrow> string \<Rightarrow> CommandContext" where
  "AddStringArg cc key title =
     cc\<lparr>argSpecs := argSpecs cc @
       [\<lparr>Key = key, Title = title, Type = ArgTypeString, Min = 1, Max = 1\<rparr>]\<rparr>"

definition AddStringSliceArg ::
    "CommandContext \<Rightarrow> string \<Rightarrow> string \<Rightarrow> int \<Rightarrow> int \<Rightarrow> CommandContext option" where
  "AddStringSliceArg cc key title mn mx =
     (if mx < mn then None
      else Some (cc\<lparr>argSpecs := argSpecs cc @
        [\<lparr>Key = key, Title = title, Type = ArgTypeStringSlice, Min = mn, Max = mx\<rparr>]\<rparr>))"

definition AddKeyValueSliceArg ::
    "CommandContext \<Rightarrow> string \<Rightarrow> string \<Rightarrow> int \<Rightarrow> int \<Rightarrow> CommandContext option" where
  "AddKeyValueSliceArg cc key title mn mx =
     (if mx < mn then None
      else Some (cc\<lparr>argSpecs := argSpecs cc @
        [\<lparr>Key = key, Title = title, Type = ArgTypeKeyValueSlice, Min = mn, Max = mx\<rparr>]\<rparr>))"

definition AddInt64Arg :: "CommandContext \<Rightarrow> string \<Rightarrow> string \<Rightarrow> CommandContext" where
  "AddInt64Arg cc key title =
     cc\<lparr>argSpecs := argSpecs cc @
       [\<lparr>Key = key, Title = title, Type = ArgTypeInt64, Min = 1, Max = 1\<rparr>]\<rparr>"

definition Hide :: "CommandContext \<Rightarrow> CommandContext" where
  "Hide cc = cc\<lparr>Cmd := (Cmd cc)\<lparr>Hidden := True\<rparr>\<rparr>"

definition Interactive :: "CommandContext \<Rightarrow> bool" where
  "Interactive cc \<longleftrightarrow> cc_mode cc = ModeInteractive"

definition SetCommandHelp :: "CommandContext \<Rightarrow> string \<Rightarrow> string \<Rightarrow> CommandContext" where
  "SetCommandHelp cc long short =
     (let cc1 = (if long \<noteq> [] then cc\<lparr>Cmd := (Cmd cc)\<lparr>Long := long\<rparr>\<rparr> else cc)
      in if short \<noteq> [] then cc1\<lparr>Cmd := (Cmd cc1)\<lparr>Short := short\<rparr>\<rparr> else cc1)"

definition SetCommandUsage :: "CommandContext \<Rightarrow> string \<Rightarrow> CommandContext" where
  "SetCommandUsage cc u = cc\<lparr>usage := u\<rparr>"

definition SetCommandGroup :: "CommandContext \<Rightarrow> string \<Rightarrow> CommandContext" where
  "SetCommandGroup cc gid = cc\<lparr>Cmd := (Cmd cc)\<lparr>GroupID := gid\<rparr>\<rparr>"

definition AddCommandGroup :: "CommandContext \<Rightarrow> string \<Rightarrow> string \<Rightarrow> CommandContext" where
  "AddCommandGroup cc gid title = cc\<lparr>cc_group := Some (gid, title)\<rparr>"

definition AddStringConfig :: "CommandContext \<Rightarrow> string \<Rightarrow> string \<Rightarrow> string \<Rightarrow> CommandContext" where
  "AddStringConfig cc name val flag =
     (let cc1 = cc\<lparr>cp_set := cp_set cc @ [(name, val)]\<rparr>
      in if flag \<noteq> [] \<and> \<not> Interactive cc1 \<and> flag \<in> flag_long ` set (flags (Cmd cc1))
         then cc1\<lparr>cp_bound := cp_bound cc1 @ [(name, flag)]\<rparr> else cc1)"

definition SetTopLevel :: "CommandContext \<Rightarrow> bool \<Rightarrow> CommandContext" where
  "SetTopLevel cc b = cc\<lparr>isTopLevel := b\<rparr>"

subsection \<open>The check before the command\<close>

definition MaxInt :: int where
  "MaxInt = 2 ^ 63 - 1"

definition addWithOverflow :: "int \<Rightarrow> int \<Rightarrow> int" where
  "addWithOverflow a b = (if a > MaxInt - b then MaxInt else a + b)"

text \<open>
  The loop over the declarations; \<open>c\<close> is the number of arguments. The sum of the least numbers is unbounded here; the
  code's wraps around at \<^verbatim>\<open>2^63\<close>, which no declaration of the program comes near.
\<close>

fun args_loop :: "int \<Rightarrow> int \<Rightarrow> int \<Rightarrow> ArgSpec list \<Rightarrow> go_error + int" where
  "args_loop c minCnt maxCnt [] = Inr maxCnt"
| "args_loop c minCnt maxCnt (s # ss) =
     (if c < minCnt + Min s then Inl (Errorf (Title s @ '' is required''))
      else args_loop c (minCnt + Min s) (addWithOverflow maxCnt (Max s)) ss)"

definition args_fn :: "ArgSpec list \<Rightarrow> string list \<Rightarrow> go_error option" where
  "args_fn specs args =
     (case args_loop (int (length args)) 0 0 specs of
        Inl e \<Rightarrow> Some e
      | Inr maxCnt \<Rightarrow>
          if int (length args) > maxCnt
          then Some (Errorf (''expected at most '' @ itoa maxCnt @ '' argument(s)'')) else None)"

text \<open>\<open>noArgs\<close> is \<^verbatim>\<open>cobra.NoArgs\<close>, which refuses every argument; \<^const>\<open>None\<close> is the panic.\<close>

definition ArgsFunc :: "(string list \<Rightarrow> go_error option) \<Rightarrow> CommandContext \<Rightarrow>
    (string list \<Rightarrow> go_error option) option" where
  "ArgsFunc noArgs cc =
     (if argSpecs cc = [] then Some noArgs
      else if list_ex (\<lambda>s. Min s \<noteq> 1 \<or> Max s \<noteq> 1) (butlast (argSpecs cc)) then None
      else Some (args_fn (argSpecs cc)))"

text \<open>The usage line of the command.\<close>

definition usage_of_spec :: "ArgSpec \<Rightarrow> string" where
  "usage_of_spec s =
     '' '' @ (if Min s = 0 then ''['' else [CHR 0x7B]) @ Title s @
     (if Min s > 1 then concat (replicate (nat (Min s - 1)) ('', '' @ Title s)) else []) @
     (if Max s - Min s > 1 then '', ...'' else []) @
     (if Min s = 0 then '']'' else [CHR 0x7D])"

definition makeCommandUsageString :: "string \<Rightarrow> ArgSpec list \<Rightarrow> string" where
  "makeCommandUsageString usg specs = foldl (\<lambda>sb s. sb @ usage_of_spec s) usg specs @ '' [flags]''"

definition GetCommandUsage :: "CommandContext \<Rightarrow> string" where
  "GetCommandUsage cc = makeCommandUsageString (usage cc) (argSpecs cc)"

subsection \<open>The map the command reads\<close>

definition convertArg :: "string \<Rightarrow> ArgType \<Rightarrow> go_error + go_val" where
  "convertArg v typ =
     (case typ of
        ArgTypeString \<Rightarrow> Inr (VString v)
      | ArgTypeInt64 \<Rightarrow>
          (case parse_int 10 64 v of Inl e \<Rightarrow> Inl (parse_int_error v e) | Inr i \<Rightarrow> Inr (VInt64 i))
      | _ \<Rightarrow> Inl (Errorf (''unknown type: '' @ itoa (argtype_num typ))))"

text \<open>A pair with an empty key leaves the zero value at its place in the slice.\<close>

definition convertSliceArg :: "string list \<Rightarrow> ArgType \<Rightarrow> go_error + go_val" where
  "convertSliceArg vs typ =
     (case typ of
        ArgTypeStringSlice \<Rightarrow> Inr (VStrings vs)
      | ArgTypeInt64Slice \<Rightarrow>
          bind_res (map_res (\<lambda>v. case parse_int 10 64 v of
              Inl e \<Rightarrow> Inl (parse_int_error v e) | Inr i \<Rightarrow> Inr (VInt64 i)) vs) (\<lambda>is. Inr (VSlice is))
      | ArgTypeKeyValueSlice \<Rightarrow>
          Inr (VKVs (map (\<lambda>kv. let (k, v) = ParseKeyValue kv in if k = [] then ([], []) else (k, v)) vs))
      | _ \<Rightarrow> Inl (Errorf (''unknown type: '' @ itoa (argtype_num typ))))"

text \<open>
  The loop: \<open>i\<close> is the position, the last argument is the list of the declarations left. The
  outer \<^const>\<open>None\<close> is the panic of \<^verbatim>\<open>args[i:]\<close> with \<open>i\<close> past the end.
\<close>

fun keyword_loop :: "string list \<Rightarrow> nat \<Rightarrow> int \<Rightarrow> (string \<rightharpoonup> go_val) \<Rightarrow> ArgSpec list \<Rightarrow>
    (go_error + int \<times> (string \<rightharpoonup> go_val)) option" where
  "keyword_loop args i maxCnt kw [] = Some (Inr (maxCnt, kw))"
| "keyword_loop args i maxCnt0 kw (s # ss) =
     (let maxCnt = addWithOverflow maxCnt0 (Max s) in
      if Max s - Min s > 0 then
        (if ss = [] then
           (if length args < i then None
            else
              (let arg = drop i args in
               if int (length arg) < Min s then
                 Some (Inl (Errorf (''expected at least '' @ itoa (Min s) @ '' '' @ Title s @
                   '' arguments, but received '' @ itoa (int (length arg)))))
               else if int (length arg) > Max s then
                 Some (Inl (Errorf (''expected at most '' @ itoa (Max s) @ '' '' @ Title s @
                   '' arguments, but received '' @ itoa (int (length arg)))))
               else case convertSliceArg arg (Type s) of
                   Inl e \<Rightarrow> Some (Inl (Wrapf (''converting argument '' @ Title s) e))
                 | Inr v \<Rightarrow> Some (Inr (maxCnt, kw(Key s \<mapsto> v)))))
         else Some (Inl (Errorf ''invalid argument spec: only the last argument may take a range'')))
      else if length args \<le> i then Some (Inl (Errorf (Title s @ '' is required'')))
      else case convertArg (args ! i) (Type s) of
          Inl e \<Rightarrow> Some (Inl (Wrapf (''converting argument '' @ Title s) e))
        | Inr v \<Rightarrow> keyword_loop args (Suc i) maxCnt (kw(Key s \<mapsto> v)) ss)"

definition makeKeywordArgs :: "string list \<Rightarrow> ArgSpec list \<Rightarrow>
    (go_error + (string \<rightharpoonup> go_val)) option" where
  "makeKeywordArgs args specs =
     (case keyword_loop args 0 0 Map.empty specs of
        None \<Rightarrow> None
      | Some (Inl e) \<Rightarrow> Some (Inl e)
      | Some (Inr (maxCnt, kw)) \<Rightarrow>
          if int (length args) > maxCnt then Some (Inl (Errorf ''unexpected arguments''))
          else Some (Inr kw))"

subsection \<open>The two walks agree\<close>

definition single_spec :: "ArgSpec \<Rightarrow> bool" where
  "single_spec s \<longleftrightarrow> Min s = 1 \<and> Max s = 1 \<and> Type s \<in> {ArgTypeString, ArgTypeInt64}"

definition range_spec :: "ArgSpec \<Rightarrow> bool" where
  "range_spec s \<longleftrightarrow> 0 \<le> Min s \<and> Min s < Max s \<and> Max s \<le> MaxInt \<and>
     Type s \<in> {ArgTypeStringSlice, ArgTypeInt64Slice, ArgTypeKeyValueSlice}"

text \<open>The declarations commands make: single arguments, then possibly one range.\<close>

fun specs_ok :: "ArgSpec list \<Rightarrow> bool" where
  "specs_ok [] \<longleftrightarrow> True"
| "specs_ok (s # ss) \<longleftrightarrow> (if ss = [] then single_spec s \<or> range_spec s else single_spec s \<and> specs_ok ss)"

text \<open>An error that says which argument is no number.\<close>

definition bad_number :: "string list \<Rightarrow> ArgSpec list \<Rightarrow> go_error \<Rightarrow> bool" where
  "bad_number args specs err \<longleftrightarrow>
     (\<exists>s \<in> set specs. \<exists>v \<in> set args. \<exists>e. parse_int 10 64 v = Inl e \<and>
        err = Wrapf (''converting argument '' @ Title s) (parse_int_error v e))"

lemma convertArg_single:
  assumes "single_spec s" "convertArg v (Type s) = Inl err"
  shows "\<exists>e. parse_int 10 64 v = Inl e \<and> err = parse_int_error v e"
  using assms by (auto simp: convertArg_def single_spec_def split: sum.splits)

lemma map_res_parse_error:
  assumes "map_res (\<lambda>v. case parse_int 10 64 v of
     Inl e \<Rightarrow> Inl (parse_int_error v e) | Inr i \<Rightarrow> Inr (VInt64 i)) vs = Inl err"
  shows "\<exists>v \<in> set vs. \<exists>e. parse_int 10 64 v = Inl e \<and> err = parse_int_error v e"
  using assms by (induction vs) (auto simp: res_simps split: sum.splits)

lemma convertSliceArg_range:
  assumes "range_spec s" "convertSliceArg vs (Type s) = Inl err"
  shows "\<exists>v \<in> set vs. \<exists>e. parse_int 10 64 v = Inl e \<and> err = parse_int_error v e"
  using assms map_res_parse_error by (fastforce simp: convertSliceArg_def range_spec_def res_simps)

lemma single_not_range: "single_spec s \<Longrightarrow> \<not> Max s - Min s > 0"
  by (simp add: single_spec_def)

lemma bad_number_Cons: "bad_number args ss e \<Longrightarrow> bad_number args (s # ss) e"
  by (auto simp: bad_number_def)

lemma bad_number_single:
  "single_spec s \<Longrightarrow> convertArg v (Type s) = Inl e \<Longrightarrow> v \<in> set args \<Longrightarrow>
     bad_number args (s # ss) (Wrapf (''converting argument '' @ Title s) e)"
  using convertArg_single by (fastforce simp: bad_number_def)

lemma bad_number_range:
  assumes "range_spec s" "convertSliceArg (drop i args) (Type s) = Inl e"
  shows "bad_number args (s # ss) (Wrapf (''converting argument '' @ Title s) e)"
  using convertSliceArg_range [OF assms] in_set_dropD by (fastforce simp: bad_number_def)

lemma keyword_loop_range:
  assumes "range_spec s" "i \<le> length args" "int i \<le> MaxInt"
  shows "keyword_loop args i (int i) kw [s] =
    (let arg = drop i args in
     if int (length args) < int i + Min s then
       Some (Inl (Errorf (''expected at least '' @ itoa (Min s) @ '' '' @ Title s @
         '' arguments, but received '' @ itoa (int (length arg)))))
     else if int (length args) > int i + Max s then
       Some (Inl (Errorf (''expected at most '' @ itoa (Max s) @ '' '' @ Title s @
         '' arguments, but received '' @ itoa (int (length arg)))))
     else case convertSliceArg arg (Type s) of
         Inl e \<Rightarrow> Some (Inl (Wrapf (''converting argument '' @ Title s) e))
       | Inr v \<Rightarrow> Some (Inr (addWithOverflow (int i) (Max s), kw(Key s \<mapsto> v))))"
  using assms by (auto simp: range_spec_def Let_def of_nat_diff)

lemma keyword_loop_agrees:
  assumes "specs_ok specs" "i \<le> length args" "int (length args) \<le> MaxInt"
  shows "case args_loop (int (length args)) (int i) (int i) specs of
      Inl e \<Rightarrow> (\<forall>r. keyword_loop args i (int i) kw specs \<noteq> Some (Inr r))
    | Inr mx \<Rightarrow>
        (\<exists>kw'. keyword_loop args i (int i) kw specs = Some (Inr (mx, kw')) \<and>
           dom kw' = dom kw \<union> Key ` set specs) \<or>
        (\<exists>e. keyword_loop args i (int i) kw specs = Some (Inl e) \<and>
           (int (length args) \<le> mx \<longrightarrow> bad_number args specs e))"
  using assms
proof (induction specs arbitrary: i kw)
  case Nil
  then show ?case by simp
next
  case (Cons s ss)
  have mi: "int i \<le> MaxInt" using Cons.prems by linarith
  show ?case
  proof (cases "single_spec s")
    case True
    note nr = single_not_range [OF True]
    have ok: "specs_ok ss" using Cons.prems(1) True by (auto split: if_splits)
    have add: "i < length args \<Longrightarrow> addWithOverflow (int i) (Max s) = int (Suc i)" "Min s = 1"
      using True Cons.prems(3) by (auto simp: addWithOverflow_def single_spec_def)
    show ?thesis
    proof (cases "i < length args")
      case lt: True
      show ?thesis
      proof (cases "convertArg (args ! i) (Type s)")
        case (Inl e)
        then have "bad_number args (s # ss) (Wrapf (''converting argument '' @ Title s) e)"
          using True lt by (intro bad_number_single) auto
        then show ?thesis using nr lt Inl by (auto split: sum.split)
      next
        case (Inr v)
        have "keyword_loop args i (int i) kw (s # ss) =
            keyword_loop args (Suc i) (int (Suc i)) (kw(Key s \<mapsto> v)) ss"
          using nr lt Inr add by simp
        moreover have "args_loop (int (length args)) (int i) (int i) (s # ss) =
            args_loop (int (length args)) (int (Suc i)) (int (Suc i)) ss"
          using lt add by (simp add: add.commute [of "int i" 1])
        ultimately show ?thesis
          using Cons.IH [OF ok, of "Suc i" "kw(Key s \<mapsto> v)"] lt Cons.prems(3)
          by (auto simp del: keyword_loop.simps args_loop.simps split: sum.splits intro: bad_number_Cons)
      qed
    next
      case False
      then show ?thesis using nr add by (simp add: Let_def)
    qed
  next
    case False
    then have ss: "ss = []" and r: "range_spec s" using Cons.prems(1) by (auto split: if_splits)
    have mx: "int (length args) > addWithOverflow (int i) (Max s) \<longleftrightarrow> int (length args) > int i + Max s"
      using Cons.prems(3) by (auto simp: addWithOverflow_def)
    show ?thesis
      unfolding ss keyword_loop_range [OF r Cons.prems(2) mi] Let_def
      using bad_number_range [OF r, of i args _ "[]"] mx
      by (auto simp del: keyword_loop.simps split: sum.split)
  qed
qed

text \<open>
  C1: the check that runs before a command and the conversion of its arguments agree. When the check
  accepts the arguments, \<open>makeKeywordArgs\<close> never panics and either builds a map with exactly the
  declared keys or reports the one argument that is no number: its "is required", "expected at
  least", "expected at most" and "unexpected arguments" branches are unreachable. When the check
  refuses them, \<open>makeKeywordArgs\<close> would not have produced a map either.
\<close>

theorem validated_args_convert:
  assumes "specs_ok specs" "int (length args) \<le> MaxInt"
  shows "case args_fn specs args of
      None \<Rightarrow> (\<exists>kw. makeKeywordArgs args specs = Some (Inr kw) \<and> dom kw = Key ` set specs) \<or>
              (\<exists>e. makeKeywordArgs args specs = Some (Inl e) \<and> bad_number args specs e)
    | Some _ \<Rightarrow> (\<nexists>kw. makeKeywordArgs args specs = Some (Inr kw))"
proof -
  have a: "case args_loop (int (length args)) 0 0 specs of
      Inl e \<Rightarrow> (\<forall>r. keyword_loop args 0 0 Map.empty specs \<noteq> Some (Inr r))
    | Inr mx \<Rightarrow>
        (\<exists>kw'. keyword_loop args 0 0 Map.empty specs = Some (Inr (mx, kw')) \<and>
           dom kw' = Key ` set specs) \<or>
        (\<exists>e. keyword_loop args 0 0 Map.empty specs = Some (Inl e) \<and>
           (int (length args) \<le> mx \<longrightarrow> bad_number args specs e))"
    using keyword_loop_agrees [OF assms(1) _ assms(2), of 0 Map.empty]
    by (simp split: sum.splits)
  show ?thesis
  proof (cases "args_loop (int (length args)) 0 0 specs")
    case (Inl e)
    then show ?thesis
      using a by (auto simp: args_fn_def makeKeywordArgs_def split: option.splits sum.splits)
  next
    case (Inr mx)
    then show ?thesis
      using a by (auto simp: args_fn_def makeKeywordArgs_def)
  qed
qed

definition map_set_specs :: "ArgSpec list" where
  "map_set_specs =
     [\<lparr>Key = ''key'', Title = ''key'', Type = ArgTypeString, Min = 1, Max = 1\<rparr>,
      \<lparr>Key = ''values'', Title = ''values'', Type = ArgTypeStringSlice, Min = 1, Max = 65535\<rparr>]"

lemma validated_args_convert_witness:
  "\<exists>kw. makeKeywordArgs [''k1'', ''v1'', ''v2''] map_set_specs = Some (Inr kw) \<and>
     kw ''key'' = Some (VString ''k1'') \<and> kw ''values'' = Some (VStrings [''v1'', ''v2''])"
proof -
  have ok: "specs_ok map_set_specs" by code_simp
  have "args_fn map_set_specs [''k1'', ''v1'', ''v2''] = None" by code_simp
  moreover have "(\<nexists>e. makeKeywordArgs [''k1'', ''v1'', ''v2''] map_set_specs = Some (Inl e))"
    by (simp add: makeKeywordArgs_def map_set_specs_def addWithOverflow_def MaxInt_def convertArg_def
        convertSliceArg_def)
  ultimately show ?thesis
    using validated_args_convert [OF ok, of "[''k1'', ''v1'', ''v2'']"]
    by (simp add: MaxInt_def)
      (simp add: makeKeywordArgs_def map_set_specs_def addWithOverflow_def MaxInt_def convertArg_def
        convertSliceArg_def)
qed

end
