(* ===== verification/SerTypes.thy ===== *)
theory SerTypes
  imports GoTypes
begin

section \<open>Type ids and columns (internal/serialization)\<close>

text \<open>
  The type ids and their labels (\<^verbatim>\<open>serialization_consts.go\<close>), the text of values
  (\<^verbatim>\<open>types.go\<close>) and columns, the cells of the rows commands print (\<^verbatim>\<open>column.go\<close>).
\<close>

subsection \<open>Constants\<close>

definition ValueUnknown :: string where "ValueUnknown = ''UNKNOWN''"
definition ValueNotDecoded :: string where "ValueNotDecoded = ''?''"
definition ValueSkip :: string where "ValueSkip = ''>''"
definition ValueNil :: string where "ValueNil = ''-''"

abbreviation TypeNil :: int where "TypeNil \<equiv> 0"
abbreviation TypePortable :: int where "TypePortable \<equiv> - 1"
abbreviation TypeDataSerializable :: int where "TypeDataSerializable \<equiv> - 2"
abbreviation TypeByte :: int where "TypeByte \<equiv> - 3"
abbreviation TypeBool :: int where "TypeBool \<equiv> - 4"
abbreviation TypeUInt16 :: int where "TypeUInt16 \<equiv> - 5"
abbreviation TypeInt16 :: int where "TypeInt16 \<equiv> - 6"
abbreviation TypeInt32 :: int where "TypeInt32 \<equiv> - 7"
abbreviation TypeInt64 :: int where "TypeInt64 \<equiv> - 8"
abbreviation TypeFloat32 :: int where "TypeFloat32 \<equiv> - 9"
abbreviation TypeFloat64 :: int where "TypeFloat64 \<equiv> - 10"
abbreviation TypeString :: int where "TypeString \<equiv> - 11"
abbreviation TypeByteArray :: int where "TypeByteArray \<equiv> - 12"
abbreviation TypeBoolArray :: int where "TypeBoolArray \<equiv> - 13"
abbreviation TypeUInt16Array :: int where "TypeUInt16Array \<equiv> - 14"
abbreviation TypeInt16Array :: int where "TypeInt16Array \<equiv> - 15"
abbreviation TypeInt32Array :: int where "TypeInt32Array \<equiv> - 16"
abbreviation TypeInt64Array :: int where "TypeInt64Array \<equiv> - 17"
abbreviation TypeFloat32Array :: int where "TypeFloat32Array \<equiv> - 18"
abbreviation TypeFloat64Array :: int where "TypeFloat64Array \<equiv> - 19"
abbreviation TypeStringArray :: int where "TypeStringArray \<equiv> - 20"
abbreviation TypeUUID :: int where "TypeUUID \<equiv> - 21"
abbreviation TypeSimpleEntry :: int where "TypeSimpleEntry \<equiv> - 22"
abbreviation TypeSimpleImmutableEntry :: int where "TypeSimpleImmutableEntry \<equiv> - 23"
abbreviation TypeJavaClass :: int where "TypeJavaClass \<equiv> - 24"
abbreviation TypeJavaDate :: int where "TypeJavaDate \<equiv> - 25"
abbreviation TypeJavaBigInteger :: int where "TypeJavaBigInteger \<equiv> - 26"
abbreviation TypeJavaDecimal :: int where "TypeJavaDecimal \<equiv> - 27"
abbreviation TypeJavaArray :: int where "TypeJavaArray \<equiv> - 28"
abbreviation TypeJavaArrayList :: int where "TypeJavaArrayList \<equiv> - 29"
abbreviation TypeJavaLinkedList :: int where "TypeJavaLinkedList \<equiv> - 30"
abbreviation TypeJavaDefaultTypeCopyOnWriteArrayList :: int where "TypeJavaDefaultTypeCopyOnWriteArrayList \<equiv> - 31"
abbreviation TypeJavaDefaultTypeHashMap :: int where "TypeJavaDefaultTypeHashMap \<equiv> - 32"
abbreviation TypeJavaDefaultTypeConcurrentSkipListMap :: int where "TypeJavaDefaultTypeConcurrentSkipListMap \<equiv> - 33"
abbreviation TypeJavaDefaultTypeConcurrentHashMap :: int where "TypeJavaDefaultTypeConcurrentHashMap \<equiv> - 34"
abbreviation TypeJavaDefaultTypeLinkedHashMap :: int where "TypeJavaDefaultTypeLinkedHashMap \<equiv> - 35"
abbreviation TypeJavaDefaultTypeTreeMap :: int where "TypeJavaDefaultTypeTreeMap \<equiv> - 36"
abbreviation TypeJavaDefaultTypeHashSet :: int where "TypeJavaDefaultTypeHashSet \<equiv> - 37"
abbreviation TypeJavaDefaultTypeTreeSet :: int where "TypeJavaDefaultTypeTreeSet \<equiv> - 38"
abbreviation TypeJavaDefaultTypeLinkedHashSet :: int where "TypeJavaDefaultTypeLinkedHashSet \<equiv> - 39"
abbreviation TypeJavaDefaultTypeCopyOnWriteArraySet :: int where "TypeJavaDefaultTypeCopyOnWriteArraySet \<equiv> - 40"
abbreviation TypeJavaDefaultTypeConcurrentSkipListSet :: int where "TypeJavaDefaultTypeConcurrentSkipListSet \<equiv> - 41"
abbreviation TypeJavaDefaultTypeArrayDeque :: int where "TypeJavaDefaultTypeArrayDeque \<equiv> - 42"
abbreviation TypeJavaDefaultTypeLinkedBlockingQueue :: int where "TypeJavaDefaultTypeLinkedBlockingQueue \<equiv> - 43"
abbreviation TypeJavaDefaultTypeArrayBlockingQueue :: int where "TypeJavaDefaultTypeArrayBlockingQueue \<equiv> - 44"
abbreviation TypeJavaDefaultTypePriorityBlockingQueue :: int where "TypeJavaDefaultTypePriorityBlockingQueue \<equiv> - 45"
abbreviation TypeJavaDefaultTypeDelayQueue :: int where "TypeJavaDefaultTypeDelayQueue \<equiv> - 46"
abbreviation TypeJavaDefaultTypeSynchronousQueue :: int where "TypeJavaDefaultTypeSynchronousQueue \<equiv> - 47"
abbreviation TypeJavaDefaultTypeLinkedTransferQueue :: int where "TypeJavaDefaultTypeLinkedTransferQueue \<equiv> - 48"
abbreviation TypeJavaDefaultTypePriorityQueue :: int where "TypeJavaDefaultTypePriorityQueue \<equiv> - 49"
abbreviation TypeJavaDefaultTypeOptional :: int where "TypeJavaDefaultTypeOptional \<equiv> - 50"
abbreviation TypeJavaLocalDate :: int where "TypeJavaLocalDate \<equiv> - 51"
abbreviation TypeJavaLocalTime :: int where "TypeJavaLocalTime \<equiv> - 52"
abbreviation TypeJavaLocalDateTime :: int where "TypeJavaLocalDateTime \<equiv> - 53"
abbreviation TypeJavaOffsetDateTime :: int where "TypeJavaOffsetDateTime \<equiv> - 54"
abbreviation TypeCompact :: int where "TypeCompact \<equiv> - 55"
abbreviation TypeCompactWithSchema :: int where "TypeCompactWithSchema \<equiv> - 56"
abbreviation TypeJavaDefaultTypeSerializable :: int where "TypeJavaDefaultTypeSerializable \<equiv> - 100"
abbreviation TypeJavaDefaultTypeExternalizable :: int where "TypeJavaDefaultTypeExternalizable \<equiv> - 101"
abbreviation TypeCsharpCLRSerializationType :: int where "TypeCsharpCLRSerializationType \<equiv> - 110"
abbreviation TypePythonPickleSerializationType :: int where "TypePythonPickleSerializationType \<equiv> - 120"
abbreviation TypeJSONSerialization :: int where "TypeJSONSerialization \<equiv> - 130"
abbreviation TypeGobSerialization :: int where "TypeGobSerialization \<equiv> - 140"
abbreviation TypeHibernate3TypeHibernateCacheKey :: int where "TypeHibernate3TypeHibernateCacheKey \<equiv> - 200"
abbreviation TypeHibernate3TypeHibernateCacheEntry :: int where "TypeHibernate3TypeHibernateCacheEntry \<equiv> - 201"
abbreviation TypeHibernate4TypeHibernateCacheKey :: int where "TypeHibernate4TypeHibernateCacheKey \<equiv> - 202"
abbreviation TypeHibernate4TypeHibernateCacheEntry :: int where "TypeHibernate4TypeHibernateCacheEntry \<equiv> - 203"
abbreviation TypeHibernate5TypeHibernateCacheKey :: int where "TypeHibernate5TypeHibernateCacheKey \<equiv> - 204"
abbreviation TypeHibernate5TypeHibernateCacheEntry :: int where "TypeHibernate5TypeHibernateCacheEntry \<equiv> - 205"
abbreviation TypeHibernate5TypeHibernateNaturalIDKey :: int where "TypeHibernate5TypeHibernateNaturalIDKey \<equiv> - 206"
abbreviation TypeJetSerializerFirst :: int where "TypeJetSerializerFirst \<equiv> - 300"
abbreviation TypeJetSerializerLast :: int where "TypeJetSerializerLast \<equiv> - 399"
abbreviation TypeDecimalArray :: int where "TypeDecimalArray \<equiv> - 500"
abbreviation TypeJavaLocalTimeArray :: int where "TypeJavaLocalTimeArray \<equiv> - 501"
abbreviation TypeJavaLocalDateArray :: int where "TypeJavaLocalDateArray \<equiv> - 502"
abbreviation TypeJavaLocalDateTimeArray :: int where "TypeJavaLocalDateTimeArray \<equiv> - 503"
abbreviation TypeJavaOffsetDateTimeArray :: int where "TypeJavaOffsetDateTimeArray \<equiv> - 504"
abbreviation TypeCompactArray :: int where "TypeCompactArray \<equiv> - 505"
abbreviation TypeInt8 :: int where "TypeInt8 \<equiv> - 506"
abbreviation TypeInt8Array :: int where "TypeInt8Array \<equiv> - 507"
abbreviation TypePortableArray :: int where "TypePortableArray \<equiv> - 508"
abbreviation TypeUnknown :: int where "TypeUnknown \<equiv> - 2022"
abbreviation TypeSkip :: int where "TypeSkip \<equiv> - 2023"
abbreviation TypeNotDecoded :: int where "TypeNotDecoded \<equiv> - 2024"

text \<open>The ids as a table, for the facts about all of them.\<close>

definition type_ids :: "(string \<times> int) list" where
  "type_ids =
    [(''TypeNil'', TypeNil),
     (''TypePortable'', TypePortable),
     (''TypeDataSerializable'', TypeDataSerializable),
     (''TypeByte'', TypeByte),
     (''TypeBool'', TypeBool),
     (''TypeUInt16'', TypeUInt16),
     (''TypeInt16'', TypeInt16),
     (''TypeInt32'', TypeInt32),
     (''TypeInt64'', TypeInt64),
     (''TypeFloat32'', TypeFloat32),
     (''TypeFloat64'', TypeFloat64),
     (''TypeString'', TypeString),
     (''TypeByteArray'', TypeByteArray),
     (''TypeBoolArray'', TypeBoolArray),
     (''TypeUInt16Array'', TypeUInt16Array),
     (''TypeInt16Array'', TypeInt16Array),
     (''TypeInt32Array'', TypeInt32Array),
     (''TypeInt64Array'', TypeInt64Array),
     (''TypeFloat32Array'', TypeFloat32Array),
     (''TypeFloat64Array'', TypeFloat64Array),
     (''TypeStringArray'', TypeStringArray),
     (''TypeUUID'', TypeUUID),
     (''TypeSimpleEntry'', TypeSimpleEntry),
     (''TypeSimpleImmutableEntry'', TypeSimpleImmutableEntry),
     (''TypeJavaClass'', TypeJavaClass),
     (''TypeJavaDate'', TypeJavaDate),
     (''TypeJavaBigInteger'', TypeJavaBigInteger),
     (''TypeJavaDecimal'', TypeJavaDecimal),
     (''TypeJavaArray'', TypeJavaArray),
     (''TypeJavaArrayList'', TypeJavaArrayList),
     (''TypeJavaLinkedList'', TypeJavaLinkedList),
     (''TypeJavaDefaultTypeCopyOnWriteArrayList'', TypeJavaDefaultTypeCopyOnWriteArrayList),
     (''TypeJavaDefaultTypeHashMap'', TypeJavaDefaultTypeHashMap),
     (''TypeJavaDefaultTypeConcurrentSkipListMap'', TypeJavaDefaultTypeConcurrentSkipListMap),
     (''TypeJavaDefaultTypeConcurrentHashMap'', TypeJavaDefaultTypeConcurrentHashMap),
     (''TypeJavaDefaultTypeLinkedHashMap'', TypeJavaDefaultTypeLinkedHashMap),
     (''TypeJavaDefaultTypeTreeMap'', TypeJavaDefaultTypeTreeMap),
     (''TypeJavaDefaultTypeHashSet'', TypeJavaDefaultTypeHashSet),
     (''TypeJavaDefaultTypeTreeSet'', TypeJavaDefaultTypeTreeSet),
     (''TypeJavaDefaultTypeLinkedHashSet'', TypeJavaDefaultTypeLinkedHashSet),
     (''TypeJavaDefaultTypeCopyOnWriteArraySet'', TypeJavaDefaultTypeCopyOnWriteArraySet),
     (''TypeJavaDefaultTypeConcurrentSkipListSet'', TypeJavaDefaultTypeConcurrentSkipListSet),
     (''TypeJavaDefaultTypeArrayDeque'', TypeJavaDefaultTypeArrayDeque),
     (''TypeJavaDefaultTypeLinkedBlockingQueue'', TypeJavaDefaultTypeLinkedBlockingQueue),
     (''TypeJavaDefaultTypeArrayBlockingQueue'', TypeJavaDefaultTypeArrayBlockingQueue),
     (''TypeJavaDefaultTypePriorityBlockingQueue'', TypeJavaDefaultTypePriorityBlockingQueue),
     (''TypeJavaDefaultTypeDelayQueue'', TypeJavaDefaultTypeDelayQueue),
     (''TypeJavaDefaultTypeSynchronousQueue'', TypeJavaDefaultTypeSynchronousQueue),
     (''TypeJavaDefaultTypeLinkedTransferQueue'', TypeJavaDefaultTypeLinkedTransferQueue),
     (''TypeJavaDefaultTypePriorityQueue'', TypeJavaDefaultTypePriorityQueue),
     (''TypeJavaDefaultTypeOptional'', TypeJavaDefaultTypeOptional),
     (''TypeJavaLocalDate'', TypeJavaLocalDate),
     (''TypeJavaLocalTime'', TypeJavaLocalTime),
     (''TypeJavaLocalDateTime'', TypeJavaLocalDateTime),
     (''TypeJavaOffsetDateTime'', TypeJavaOffsetDateTime),
     (''TypeCompact'', TypeCompact),
     (''TypeCompactWithSchema'', TypeCompactWithSchema),
     (''TypeJavaDefaultTypeSerializable'', TypeJavaDefaultTypeSerializable),
     (''TypeJavaDefaultTypeExternalizable'', TypeJavaDefaultTypeExternalizable),
     (''TypeCsharpCLRSerializationType'', TypeCsharpCLRSerializationType),
     (''TypePythonPickleSerializationType'', TypePythonPickleSerializationType),
     (''TypeJSONSerialization'', TypeJSONSerialization),
     (''TypeGobSerialization'', TypeGobSerialization),
     (''TypeHibernate3TypeHibernateCacheKey'', TypeHibernate3TypeHibernateCacheKey),
     (''TypeHibernate3TypeHibernateCacheEntry'', TypeHibernate3TypeHibernateCacheEntry),
     (''TypeHibernate4TypeHibernateCacheKey'', TypeHibernate4TypeHibernateCacheKey),
     (''TypeHibernate4TypeHibernateCacheEntry'', TypeHibernate4TypeHibernateCacheEntry),
     (''TypeHibernate5TypeHibernateCacheKey'', TypeHibernate5TypeHibernateCacheKey),
     (''TypeHibernate5TypeHibernateCacheEntry'', TypeHibernate5TypeHibernateCacheEntry),
     (''TypeHibernate5TypeHibernateNaturalIDKey'', TypeHibernate5TypeHibernateNaturalIDKey),
     (''TypeJetSerializerFirst'', TypeJetSerializerFirst),
     (''TypeJetSerializerLast'', TypeJetSerializerLast),
     (''TypeDecimalArray'', TypeDecimalArray),
     (''TypeJavaLocalTimeArray'', TypeJavaLocalTimeArray),
     (''TypeJavaLocalDateArray'', TypeJavaLocalDateArray),
     (''TypeJavaLocalDateTimeArray'', TypeJavaLocalDateTimeArray),
     (''TypeJavaOffsetDateTimeArray'', TypeJavaOffsetDateTimeArray),
     (''TypeCompactArray'', TypeCompactArray),
     (''TypeInt8'', TypeInt8),
     (''TypeInt8Array'', TypeInt8Array),
     (''TypePortableArray'', TypePortableArray),
     (''TypeUnknown'', TypeUnknown),
     (''TypeSkip'', TypeSkip),
     (''TypeNotDecoded'', TypeNotDecoded)]"

definition typeToLabel_entries :: "(int \<times> string) list" where
  "typeToLabel_entries =
    [(TypeNil, ''NIL''),
     (TypePortable, ''PORTABLE''),
     (TypeDataSerializable, ''DATA_SERIALIZABLE''),
     (TypeByte, ''BYTE''),
     (TypeBool, ''BOOL''),
     (TypeUInt16, ''UINT16''),
     (TypeInt16, ''INT16''),
     (TypeInt32, ''INT32''),
     (TypeInt64, ''INT64''),
     (TypeFloat32, ''FLOAT32''),
     (TypeFloat64, ''FLOAT64''),
     (TypeString, ''STRING''),
     (TypeByteArray, ''BYTE_ARRAY''),
     (TypeBoolArray, ''BOOL_ARRAY''),
     (TypeUInt16Array, ''UINT16_ARRAY''),
     (TypeInt16Array, ''INT16_ARRAY''),
     (TypeInt32Array, ''INT32_ARRAY''),
     (TypeInt64Array, ''INT64_ARRAY''),
     (TypeFloat32Array, ''FLOAT32_ARRAY''),
     (TypeFloat64Array, ''FLOAT64_ARRAY''),
     (TypeStringArray, ''STRING_ARRAY''),
     (TypeUUID, ''UUID''),
     (TypeSimpleEntry, ''SIMPLE_ENTRY''),
     (TypeSimpleImmutableEntry, ''SIMPLE_IMMUTABLE_ENTRY''),
     (TypeJavaClass, ''JAVA_CLASS''),
     (TypeJavaDate, ''JAVA_DATE''),
     (TypeJavaBigInteger, ''BIG_INTEGER''),
     (TypeJavaDecimal, ''DECIMAL''),
     (TypeJavaArray, ''JAVA_ARRAY''),
     (TypeJavaArrayList, ''JAVA_ARRAY_LIST''),
     (TypeJavaLinkedList, ''JAVA_LINKED_LIST''),
     (TypeJavaDefaultTypeCopyOnWriteArrayList, ''JAVA_COPY_ON_WRITE_ARRAY_LIST''),
     (TypeJavaDefaultTypeHashMap, ''JAVA_HASHMAP''),
     (TypeJavaDefaultTypeConcurrentSkipListMap, ''JAVA_CONCURRENT_SKIP_LIST_MAP''),
     (TypeJavaDefaultTypeConcurrentHashMap, ''JAVA_CONCURRENT_HASH_MAP''),
     (TypeJavaDefaultTypeLinkedHashMap, ''JAVA_LINKED_HASH_MAP''),
     (TypeJavaDefaultTypeTreeMap, ''JAVA_TREE_MAP''),
     (TypeJavaDefaultTypeHashSet, ''JAVA_HASH_SET''),
     (TypeJavaDefaultTypeTreeSet, ''JAVA_TREE_SET''),
     (TypeJavaDefaultTypeLinkedHashSet, ''JAVA_LINKED_HASH_SET''),
     (TypeJavaDefaultTypeCopyOnWriteArraySet, ''JAVA_COPY_ON_WRITE_ARRAY_SET''),
     (TypeJavaDefaultTypeConcurrentSkipListSet, ''JAVA_CONCURRENT_SKIP_LIST_SET''),
     (TypeJavaDefaultTypeArrayDeque, ''JAVA_ARRAY_DEQUE''),
     (TypeJavaDefaultTypeLinkedBlockingQueue, ''JAVA_LINKED_BLOCKING_QUEUE''),
     (TypeJavaDefaultTypeArrayBlockingQueue, ''JAVA_ARRAY_BLOCKING_QUEUE''),
     (TypeJavaDefaultTypePriorityBlockingQueue, ''JAVA_PRIORITY_BLOCKING_QUEUE''),
     (TypeJavaDefaultTypeDelayQueue, ''JAVA_DELAY_QUEUE''),
     (TypeJavaDefaultTypeSynchronousQueue, ''JAVA_SYNCHRONOUS_QUEUE''),
     (TypeJavaDefaultTypeLinkedTransferQueue, ''JAVA_LINKED_TRANSFER_QUEUE''),
     (TypeJavaDefaultTypePriorityQueue, ''JAVA_PRIORITY_QUEUE''),
     (TypeJavaDefaultTypeOptional, ''JAVA_OPTIONAL''),
     (TypeJavaLocalDate, ''LOCALDATE''),
     (TypeJavaLocalTime, ''LOCALTIME''),
     (TypeJavaLocalDateTime, ''LOCALDATETIME''),
     (TypeJavaOffsetDateTime, ''OFFSETDATETIME''),
     (TypeCompact, ''COMPACT''),
     (TypeCompactWithSchema, ''COMPACT_WITH_SCHEMA''),
     (TypeJavaDefaultTypeSerializable, ''JAVA_SERIALIZABLE''),
     (TypeJavaDefaultTypeExternalizable, ''JAVA_EXTERNALIZABLE''),
     (TypeCsharpCLRSerializationType, ''NET_CLR''),
     (TypePythonPickleSerializationType, ''PYTHON_PICKLE''),
     (TypeJSONSerialization, ''JSON''),
     (TypeGobSerialization, ''GO_GOB_SERIALIZATION''),
     (TypeHibernate3TypeHibernateCacheKey, ''HIBERNATE3_CACHE_KEY''),
     (TypeHibernate3TypeHibernateCacheEntry, ''HIBERNATE3_CACHE_ENTRY''),
     (TypeHibernate4TypeHibernateCacheKey, ''HIBERNATE4_CACHE_KEY''),
     (TypeHibernate4TypeHibernateCacheEntry, ''HIBERNATE4_CACHE_ENTRY''),
     (TypeHibernate5TypeHibernateCacheKey, ''HIBERNATE5_CACHE_KEY''),
     (TypeHibernate5TypeHibernateCacheEntry, ''HIBERNATE5_CACHE_ENTRY''),
     (TypeHibernate5TypeHibernateNaturalIDKey, ''HIBERNATE5_NATURAL_ID_KEY''),
     (TypeJetSerializerFirst, ''JET_SERIALIZER_FIRST''),
     (TypeJetSerializerLast, ''JET_SERIALIZER_LAST''),
     (TypeDecimalArray, ''DECIMAL_ARRAY''),
     (TypeJavaLocalTimeArray, ''LOCALTIME_ARRAY''),
     (TypeJavaLocalDateArray, ''LOCALDATE_ARRAY''),
     (TypeJavaLocalDateTimeArray, ''LOCALDATETIME_ARRAY''),
     (TypeJavaOffsetDateTimeArray, ''OFFSETDATETIME_ARRAY''),
     (TypeCompactArray, ''COMPACT_ARRAY''),
     (TypePortableArray, ''PORTABLE_ARRAY''),
     (TypeUnknown, ValueUnknown),
     (TypeSkip, ValueSkip),
     (TypeNotDecoded, ValueNotDecoded)]"

definition TypeToLabel :: "int \<Rightarrow> string" where
  "TypeToLabel t =
     (case map_of typeToLabel_entries t of None \<Rightarrow> ''UNKNOWN_TYPE:'' @ itoa t | Some s \<Rightarrow> s)"

text \<open>The table has no id twice; the two 8-bit types have no label.\<close>

lemma typeToLabel_distinct: "distinct (map fst typeToLabel_entries)"
  by (simp add: typeToLabel_entries_def)

lemma unlabelled_types:
  "map_of typeToLabel_entries TypeInt8 = None" "map_of typeToLabel_entries TypeInt8Array = None"
  by (simp_all add: typeToLabel_entries_def)

end
