(* ===== verification/SerColumn.thy ===== *)
theory SerColumn
  imports SerTypes
begin

section \<open>Columns and their text (internal/serialization/types.go, column.go)\<close>

text \<open>
  A cell holds a Go value of any dynamic type. The stringers of \<^verbatim>\<open>types.go\<close> only test the dynamic
  type of a value and print it with \<^verbatim>\<open>fmt.Sprint\<close>, so that a scalar is its type name with its
  printed text; for the date and time types that text is the one of the layout
  \<^verbatim>\<open>dateTimeStringer\<close> names. Nested values (\<open>ColumnList\<close>, \<open>ColumnMap\<close>, \<open>GenericPortable\<close>)
  contain columns again. So cells are declared together with the struct \<open>Column\<close>. The text of a column is an option: \<^const>\<open>None\<close> is the panic of the type
  assertion in \<^verbatim>\<open>portableStringer\<close>.
\<close>

datatype cell =
    CNil
  | CScalar string string
  | CPtr string "string option"
  | CSlice string "cell list"
  | CNilSlice string
  | CPtrSlice string "string option list"
  | CNondecoded string
  | CColumnList "column list"
  | CColumnMap "column list"
  | CPortable int int "column list"
and column = Column (col_Name: string) (col_Type: int) (col_Value: cell)

fun is_nil :: "cell \<Rightarrow> bool" where
  "is_nil CNil \<longleftrightarrow> True"
| "is_nil (CPtr t None) \<longleftrightarrow> True"
| "is_nil (CNilSlice t) \<longleftrightarrow> True"
| "is_nil _ \<longleftrightarrow> False"

fun type_of :: "cell \<Rightarrow> string" where
  "type_of CNil = ''<nil>''"
| "type_of (CScalar t s) = t"
| "type_of (CPtr t p) = ''*'' @ t"
| "type_of (CSlice t xs) = ''[]'' @ t"
| "type_of (CNilSlice t) = ''[]'' @ t"
| "type_of (CPtrSlice t ps) = ''[]*'' @ t"
| "type_of (CNondecoded s) = ''serialization.NondecodedType''"
| "type_of (CColumnList cs) = ''serialization.ColumnList''"
| "type_of (CColumnMap cs) = ''serialization.ColumnMap''"
| "type_of (CPortable f c cs) = ''*serialization.GenericPortable''"

text \<open>
  \<^verbatim>\<open>fmt.Sprint\<close>. A pointer that is not nil prints by its \<^verbatim>\<open>String\<close> method; the nested column
  values never reach it, because their \<^verbatim>\<open>Text\<close> is tried first.
\<close>

fun sprint :: "cell \<Rightarrow> string" where
  "sprint CNil = ''<nil>''"
| "sprint (CScalar t s) = s"
| "sprint (CPtr t None) = ''<nil>''"
| "sprint (CPtr t (Some s)) = s"
| "sprint (CSlice t xs) = ''['' @ join_with '' '' (map sprint xs) @ '']''"
| "sprint (CNilSlice t) = ''[]''"
| "sprint (CPtrSlice t ps) =
     ''['' @ join_with '' '' (map (\<lambda>p. case p of None \<Rightarrow> ''<nil>'' | Some s \<Rightarrow> s) ps) @ '']''"
| "sprint (CNondecoded s) = s"
| "sprint v = type_of v"

subsection \<open>Stringers\<close>

definition ptrStringer :: "string \<Rightarrow> cell \<Rightarrow> string" where
  "ptrStringer T v =
     (if v = CNil then ValueNil
      else case v of
        CScalar t s \<Rightarrow> if t = T then s else ''?ptr:'' @ type_of v @ ''?''
      | CPtr t p \<Rightarrow>
          if t = T then (case p of None \<Rightarrow> ValueNil | Some s \<Rightarrow> s) else ''?ptr:'' @ type_of v @ ''?''
      | _ \<Rightarrow> ''?ptr:'' @ type_of v @ ''?'')"

definition sprintNilStringer :: "string option \<Rightarrow> string" where
  "sprintNilStringer v = (case v of None \<Rightarrow> ValueNil | Some s \<Rightarrow> s)"

text \<open>The loops write the first item, then a comma and the item for the rest.\<close>

definition bracketed :: "string list \<Rightarrow> string" where
  "bracketed ts =
     ''['' @ (case ts of [] \<Rightarrow> [] | t # rest \<Rightarrow> foldl (\<lambda>sb x. sb @ '', '' @ x) t rest) @ '']''"

definition arrayPtrStringer :: "string option list \<Rightarrow> string" where
  "arrayPtrStringer vv = bracketed (map sprintNilStringer vv)"

definition dateTimeStringer :: "cell \<Rightarrow> string" where
  "dateTimeStringer v =
     (let dt = [''time.Time'', ''types.LocalTime'', ''types.LocalDate'', ''types.LocalDateTime'',
                ''types.OffsetDateTime'']
      in case v of
           CScalar t s \<Rightarrow> if t \<in> set dt then s else ''?datetime?''
         | CPtr t p \<Rightarrow> if t \<in> set dt then (case p of None \<Rightarrow> ValueNil | Some s \<Rightarrow> s) else ''?datetime?''
         | _ \<Rightarrow> ''?datetime?'')"

definition javaClassStringer :: "cell \<Rightarrow> string" where
  "javaClassStringer v = ''Java Class: '' @ sprint v"

text \<open>The stringers the table names, as data; those of arrays name the stringer of their items.\<close>

datatype item_stringer = ItemSprint | ItemPtr string | ItemDateTime

datatype stringer =
    StaticS string
  | PtrS string
  | ArrayS string item_stringer
  | ArrayAnyS string item_stringer
  | SprintS
  | JavaClassS
  | DateTimeS
  | PortableS

definition ValueToText :: "(int \<times> stringer) list" where
  "ValueToText =
    [(TypeNil, StaticS ValueNil), (TypeSkip, StaticS ValueSkip),
     (TypeNotDecoded, StaticS ValueNotDecoded),
     (TypePortable, PortableS),
     (TypeByte, PtrS ''uint8''), (TypeBool, PtrS ''bool''), (TypeUInt16, PtrS ''uint16''),
     (TypeInt16, PtrS ''int16''), (TypeInt32, PtrS ''int32''), (TypeInt64, PtrS ''int64''),
     (TypeFloat32, PtrS ''float32''), (TypeFloat64, PtrS ''float64''),
     (TypeString, PtrS ''string''),
     (TypeByteArray, ArrayS ''uint8'' ItemSprint), (TypeBoolArray, ArrayS ''bool'' ItemSprint),
     (TypeUInt16Array, ArrayS ''uint16'' ItemSprint),
     (TypeInt16Array, ArrayS ''int16'' ItemSprint),
     (TypeInt32Array, ArrayS ''int32'' ItemSprint),
     (TypeInt64Array, ArrayS ''int64'' ItemSprint),
     (TypeFloat32Array, ArrayS ''float32'' ItemSprint),
     (TypeFloat64Array, ArrayS ''float64'' ItemSprint),
     (TypeStringArray, ArrayS ''string'' ItemSprint),
     (TypeUUID, SprintS),
     (TypeJavaClass, JavaClassS), (TypeJavaDate, DateTimeS), (TypeJavaBigInteger, SprintS),
     (TypeJavaDecimal, PtrS ''types.Decimal''),
     (TypeJavaArray, ArrayAnyS ''interface {}'' ItemSprint),
     (TypeJavaArrayList, ArrayAnyS ''interface {}'' ItemSprint),
     (TypeJavaLinkedList, ArrayAnyS ''interface {}'' ItemSprint),
     (TypeJavaLocalDate, DateTimeS), (TypeJavaLocalTime, DateTimeS),
     (TypeJavaLocalDateTime, DateTimeS), (TypeJavaOffsetDateTime, DateTimeS),
     (TypeJSONSerialization, SprintS),
     (TypeDecimalArray, ArrayAnyS ''types.Decimal'' (ItemPtr ''types.Decimal'')),
     (TypeJavaLocalTimeArray, ArrayAnyS ''types.LocalTime'' ItemDateTime),
     (TypeJavaLocalDateArray, ArrayAnyS ''types.LocalDate'' ItemDateTime),
     (TypeJavaLocalDateTimeArray, ArrayAnyS ''types.LocalDateTime'' ItemDateTime),
     (TypeJavaOffsetDateTimeArray, ArrayAnyS ''types.OffsetDateTime'' ItemDateTime),
     (TypeCompactArray, ArrayAnyS ''interface {}'' ItemSprint),
     (TypeInt8, PtrS ''int8''), (TypeInt8Array, ArrayS ''int8'' ItemSprint)]"

definition stringer_for :: "int \<Rightarrow> stringer option" where
  "stringer_for t = map_of ValueToText t"

text \<open>Options in sequence: a panic while the items are printed is the panic of the whole.\<close>

fun opt_all :: "'a option list \<Rightarrow> 'a list option" where
  "opt_all [] = Some []"
| "opt_all (x # xs) = Option.bind x (\<lambda>y. Option.bind (opt_all xs) (\<lambda>ys. Some (y # ys)))"

definition item_text :: "(cell \<Rightarrow> string option) \<Rightarrow> item_stringer \<Rightarrow> cell \<Rightarrow> string option" where
  "item_text ss k v =
     (case k of ItemSprint \<Rightarrow> ss v | ItemPtr T \<Rightarrow> Some (ptrStringer T v)
      | ItemDateTime \<Rightarrow> Some (dateTimeStringer v))"

definition arrayStringer ::
    "(cell \<Rightarrow> string option) \<Rightarrow> string \<Rightarrow> item_stringer \<Rightarrow> cell \<Rightarrow> string option" where
  "arrayStringer ss T k v =
     (case v of
        CSlice t xs \<Rightarrow>
          if t = T then map_option bracketed (opt_all (map (item_text ss k) xs))
          else Some (''?array:'' @ type_of v @ ''?'')
      | CNilSlice t \<Rightarrow> if t = T then Some (bracketed []) else Some (''?array:'' @ type_of v @ ''?'')
      | CPtrSlice t ps \<Rightarrow>
          if t = T then Some (arrayPtrStringer ps) else Some (''?array:'' @ type_of v @ ''?'')
      | _ \<Rightarrow> Some (''?array:'' @ type_of v @ ''?''))"

definition arrayAnyStringer ::
    "(cell \<Rightarrow> string option) \<Rightarrow> string \<Rightarrow> item_stringer \<Rightarrow> cell \<Rightarrow> string option" where
  "arrayAnyStringer ss T k v =
     (case v of
        CSlice t xs \<Rightarrow>
          if t = T then map_option bracketed (opt_all (map (item_text ss k) xs)) else Some ''?array?''
      | CNilSlice t \<Rightarrow> if t = T then Some (bracketed []) else Some ''?array?''
      | CPtrSlice t ps \<Rightarrow>
          if t = T then map_option bracketed (opt_all (map (\<lambda>p. item_text ss k (CPtr t p)) ps))
          else Some ''?array?''
      | _ \<Rightarrow> Some ''?array?'')"

definition apply_stringer ::
    "(cell \<Rightarrow> string option) \<Rightarrow> stringer \<Rightarrow> cell \<Rightarrow> string option" where
  "apply_stringer ss st v =
     (case st of
        StaticS s \<Rightarrow> Some s
      | PtrS T \<Rightarrow> Some (ptrStringer T v)
      | ArrayS T k \<Rightarrow> arrayStringer ss T k v
      | ArrayAnyS T k \<Rightarrow> arrayAnyStringer ss T k v
      | SprintS \<Rightarrow> ss v
      | JavaClassS \<Rightarrow> Some (javaClassStringer v)
      | DateTimeS \<Rightarrow> Some (dateTimeStringer v)
      | PortableS \<Rightarrow> None)"

subsection \<open>The text of a column\<close>

text \<open>The items the stringer of a value may be applied to.\<close>

fun items_of :: "cell \<Rightarrow> cell set" where
  "items_of (CSlice t xs) = insert (CSlice t xs) (set xs)"
| "items_of (CPtrSlice t ps) = insert (CPtrSlice t ps) (CPtr t ` set ps)"
| "items_of v = {v}"

lemma apply_stringer_cong [fundef_cong]:
  assumes "st = st'" "v = v'" "\<And>x. x \<in> items_of v' \<Longrightarrow> ss x = ss' x"
  shows "apply_stringer ss st v = apply_stringer ss' st' v'"
proof -
  have m: "map (item_text ss k) xs = map (item_text ss' k) xs" if "v' = CSlice t xs" for t xs k
    using assms(3) that by (auto simp: item_text_def split: item_stringer.splits)
  have p: "map (\<lambda>p. item_text ss k (CPtr t p)) ps = map (\<lambda>p. item_text ss' k (CPtr t p)) ps"
    if "v' = CPtrSlice t ps" for t ps k
    using assms(3) that by (auto simp: item_text_def split: item_stringer.splits)
  have "ss v' = ss' v'" using assms(3) by (cases v') auto
  then show ?thesis
    unfolding assms(1,2)
    by (cases v') (auto simp: apply_stringer_def arrayStringer_def arrayAnyStringer_def m p
        split: stringer.splits)
qed

definition list_text :: "string option list \<Rightarrow> string option" where
  "list_text ts = map_option bracketed (opt_all ts)"

definition map_text :: "string list \<Rightarrow> string option list \<Rightarrow> string option" where
  "map_text ns ts = map_option
     (\<lambda>ts. [CHR 0x7B] @
        (case map (\<lambda>(n, t). n @ '':'' @ t) (zip ns ts) of
           [] \<Rightarrow> [] | x # rest \<Rightarrow> foldl (\<lambda>sb x. sb @ ''; '' @ x) x rest) @ [CHR 0x7D]) (opt_all ts)"

lemma size_list_member_Suc: "x \<in> set xs \<Longrightarrow> size x \<le> Suc (size_list size xs)"
  using size_list_estimation' [of x xs "size x" size] by simp

lemma size_list_member: "x \<in> set xs \<Longrightarrow> size x \<le> size_list size xs"
  using size_list_estimation' [of x xs "size x" size] by simp

lemma items_of_size: "x \<in> items_of v \<Longrightarrow> size x \<le> size v"
  by (induction v rule: items_of.induct) (auto intro: size_list_member_Suc)

function column_text :: "column \<Rightarrow> string option"
  and sprintStringer :: "cell \<Rightarrow> string option" where
  "column_text (Column n t v) =
     (case v of
        CColumnList cs \<Rightarrow> list_text (map column_text cs)
      | CColumnMap cs \<Rightarrow> map_text (map col_Name cs) (map column_text cs)
      | CPortable f c cs \<Rightarrow> map_text (map col_Name cs) (map column_text cs)
      | CNondecoded s \<Rightarrow> Some ValueNotDecoded
      | _ \<Rightarrow>
          (case stringer_for t of
             None \<Rightarrow> Some ValueNotDecoded
           | Some st \<Rightarrow> apply_stringer sprintStringer st v))"
| "sprintStringer v =
     (if is_nil v then Some ValueNil
      else case v of
        CColumnList cs \<Rightarrow> list_text (map column_text cs)
      | CColumnMap cs \<Rightarrow> map_text (map col_Name cs) (map column_text cs)
      | CPortable f c cs \<Rightarrow> map_text (map col_Name cs) (map column_text cs)
      | _ \<Rightarrow> Some (sprint v))"
  by pat_completeness auto

termination
  by (relation "measure (case_sum size size)")
    (auto dest: items_of_size simp: less_Suc_eq_le size_list_member size_list_member_Suc)

declare sprintStringer.simps [simp del]

definition ColumnList_Text :: "column list \<Rightarrow> string option" where
  "ColumnList_Text cs = list_text (map column_text cs)"

definition ColumnMap_Text :: "column list \<Rightarrow> string option" where
  "ColumnMap_Text cs = map_text (map col_Name cs) (map column_text cs)"

text \<open>Where a text panics: a value without columns of its own under the type id of portables.\<close>

fun portable_ok :: "column \<Rightarrow> bool" and cell_ok :: "cell \<Rightarrow> bool" where
  "portable_ok (Column n t v) \<longleftrightarrow>
     cell_ok v \<and> (t = TypePortable \<longrightarrow> (case v of CColumnList _ \<Rightarrow> True | CColumnMap _ \<Rightarrow> True
        | CPortable _ _ _ \<Rightarrow> True | CNondecoded _ \<Rightarrow> True | _ \<Rightarrow> False))"
| "cell_ok (CSlice t xs) \<longleftrightarrow> (\<forall>x \<in> set xs. cell_ok x)"
| "cell_ok (CColumnList cs) \<longleftrightarrow> (\<forall>c \<in> set cs. portable_ok c)"
| "cell_ok (CColumnMap cs) \<longleftrightarrow> (\<forall>c \<in> set cs. portable_ok c)"
| "cell_ok (CPortable f k cs) \<longleftrightarrow> (\<forall>c \<in> set cs. portable_ok c)"
| "cell_ok _ \<longleftrightarrow> True"

lemma opt_all_not_None: "opt_all xs \<noteq> None \<longleftrightarrow> (\<forall>x \<in> set xs. x \<noteq> None)"
  by (induction xs) (auto split: bind_splits)

lemma opt_all_Some: "(\<And>x. x \<in> set xs \<Longrightarrow> \<exists>y. x = Some y) \<Longrightarrow> \<exists>z. opt_all xs = Some z"
  using opt_all_not_None [of xs] by fastforce

lemma item_text_Some: "(\<exists>y. ss v = Some y) \<Longrightarrow> \<exists>y. item_text ss k v = Some y"
  by (auto simp: item_text_def split: item_stringer.splits)

lemma stringer_for_portable: "stringer_for t = Some PortableS \<Longrightarrow> t = TypePortable"
proof -
  have "(TypePortable, PortableS) \<in> set (ValueToText) \<and>
     (\<forall>p \<in> set (ValueToText). snd p = PortableS \<longrightarrow> fst p = TypePortable)"
    by (simp add: ValueToText_def)
  moreover assume "stringer_for t = Some PortableS"
  then have "(t, PortableS) \<in> set (ValueToText)"
    unfolding stringer_for_def by (rule map_of_SomeD)
  ultimately show ?thesis by fastforce
qed

lemma apply_stringer_Some:
  assumes "st \<noteq> PortableS" "\<And>x. x \<in> items_of v \<Longrightarrow> \<exists>y. ss x = Some y"
  shows "\<exists>y. apply_stringer ss st v = Some y"
proof -
  have "\<exists>y. ss v = Some y" using assms(2) by (cases v) auto
  moreover have "\<exists>z. opt_all (map (item_text ss k) xs) = Some z" if "v = CSlice t xs" for t xs k
    using assms(2) that by (auto intro!: opt_all_Some item_text_Some)
  moreover have "\<exists>z. opt_all (map (\<lambda>p. item_text ss k (CPtr t p)) ps) = Some z"
    if "v = CPtrSlice t ps" for t ps k
    using assms(2) that by (auto intro!: opt_all_Some item_text_Some)
  ultimately show ?thesis
    using assms(1)
    by (cases v) (auto simp: apply_stringer_def arrayStringer_def arrayAnyStringer_def
        split: stringer.splits)
qed

lemma list_text_Some: "(\<And>t. t \<in> set ts \<Longrightarrow> \<exists>y. t = Some y) \<Longrightarrow> \<exists>y. list_text ts = Some y"
  using opt_all_Some [of ts] by (auto simp: list_text_def)

lemma map_text_Some: "(\<And>t. t \<in> set ts \<Longrightarrow> \<exists>y. t = Some y) \<Longrightarrow> \<exists>y. map_text ns ts = Some y"
  using opt_all_Some [of ts] by (auto simp: map_text_def)

lemma cell_ok_items: "cell_ok v \<Longrightarrow> x \<in> items_of v \<Longrightarrow> cell_ok x"
  by (induction v rule: items_of.induct) auto

lemma text_Some_aux:
  "portable_ok c \<Longrightarrow> \<exists>s. column_text c = Some s"
  "cell_ok v \<Longrightarrow> \<exists>s. sprintStringer v = Some s"
proof (induction c and v rule: column_text_sprintStringer.induct)
  case (1 n t v)
  show ?case
  proof (cases "stringer_for t")
    case None
    then show ?thesis using 1 by (cases v) (auto intro!: list_text_Some map_text_Some)
  next
    case (Some st)
    show ?thesis
    proof (cases "t = TypePortable")
      case True
      then show ?thesis using 1 by (cases v) (auto intro!: list_text_Some map_text_Some)
    next
      case False
      then have "st \<noteq> PortableS" using Some stringer_for_portable by blast
      then show ?thesis
        using 1 Some
        by (cases v) (auto intro!: list_text_Some map_text_Some apply_stringer_Some dest: cell_ok_items)
    qed
  qed
next
  case (2 v)
  then show ?case
    by (cases v) (auto simp: sprintStringer.simps intro!: list_text_Some map_text_Some)
qed

subsection \<open>Rows broken out and JSON values\<close>

text \<open>
  A decoded JSON text is an object (its members in the order of the map iteration) or another
  value; decoding is \<^verbatim>\<open>json.Unmarshal\<close>, a parameter that fails on malformed text.
\<close>

datatype json_any = JObject "(string \<times> json_any) list" | JOther cell

definition jsonValueToTypeID :: "cell \<Rightarrow> int" where
  "jsonValueToTypeID v =
     (case v of
        CSlice t xs \<Rightarrow> if t = ''interface {}'' then TypeJavaArray else TypeUnknown
      | CScalar t s \<Rightarrow>
          if t = ''string'' then TypeString else if t = ''float64'' then TypeFloat64
          else if t = ''bool'' then TypeBool else TypeUnknown
      | CNil \<Rightarrow> TypeNil
      | _ \<Rightarrow> TypeUnknown)"

definition jsonValueToColumn :: "string \<Rightarrow> json_any \<Rightarrow> column" where
  "jsonValueToColumn k v =
     (case v of
        JObject m \<Rightarrow> Column k TypeNotDecoded CNil
      | JOther c \<Rightarrow> Column k (jsonValueToTypeID c) c)"

definition jsonValueToColumns :: "json_any \<Rightarrow> column list" where
  "jsonValueToColumns v =
     (case v of
        JObject vv \<Rightarrow> sort_key col_Name (map (\<lambda>(k, v). jsonValueToColumn k v) vv)
      | JOther c \<Rightarrow> [jsonValueToColumn [] (JOther c)])"

text \<open>\<open>ErrNotDecoded\<close> is \<^const>\<open>Inl\<close>; the outer \<^const>\<open>None\<close> is the failed assertion to JSON.\<close>

definition RowExtensions :: "(string \<Rightarrow> json_any option) \<Rightarrow> column \<Rightarrow> (unit + column list) option" where
  "RowExtensions unmarshal co =
     (let t = col_Type co; v = col_Value co in
      if t = TypeJSONSerialization then
        (case v of
           CScalar ty s \<Rightarrow>
             if ty = ''serialization.JSON''
             then (case unmarshal s of None \<Rightarrow> Some (Inl ()) | Some m \<Rightarrow> Some (Inr (jsonValueToColumns m)))
             else None
         | _ \<Rightarrow> None)
      else if t = TypePortable then
        (case v of
           CPortable f k fs \<Rightarrow> Some (Inr (map (\<lambda>f. Column (col_Name f) (col_Type f) (col_Value f)) fs))
         | _ \<Rightarrow> Some (Inl ()))
      else if t = TypeCompact then
        (case v of CColumnMap cs \<Rightarrow> Some (Inr cs) | _ \<Rightarrow> Some (Inl ()))
      else Some (Inr [co]))"

text \<open>What a column is marshalled as: a value as it is, a simplified slice, a text, or nested.\<close>

datatype json_out =
    OutNull
  | OutValue cell
  | OutItems "cell list"
  | OutColumns "column list"
  | OutText string
  | OutList "json_out list"
  | OutObj "(string \<times> json_out) list"

definition json_as_is :: "int list" where
  "json_as_is =
    [TypePortable, TypeCompact, TypeByte, TypeBool, TypeInt8, TypeUInt16, TypeInt16, TypeInt32, TypeInt64,
     TypeFloat32, TypeFloat64, TypeString, TypeJSONSerialization]"

definition json_arrays :: "int list" where
  "json_arrays =
    [TypeByteArray, TypeBoolArray, TypeInt8Array, TypeUInt16Array, TypeInt16Array, TypeInt32Array,
     TypeInt64Array, TypeFloat32Array, TypeFloat64Array, TypeStringArray, TypeJavaArray,
     TypeJavaArrayList, TypeJavaLinkedList, TypeDecimalArray, TypeCompactArray, TypeJavaLocalTimeArray,
     TypeJavaLocalDateArray, TypeJavaLocalDateTimeArray, TypeJavaOffsetDateTimeArray]"

text \<open>\<^verbatim>\<open>simplify\<close>: slices become slices of any; the column types never get here.\<close>

definition simplify :: "cell \<Rightarrow> json_out" where
  "simplify v =
     (case v of
        CColumnList cs \<Rightarrow> OutColumns cs
      | CColumnMap cs \<Rightarrow> OutColumns cs
      | CSlice t xs \<Rightarrow> OutItems xs
      | CNilSlice t \<Rightarrow> OutItems []
      | CPtrSlice t ps \<Rightarrow> OutItems (map (CPtr t) ps)
      | _ \<Rightarrow> OutValue v)"

text \<open>
  \<open>JSONValue\<close>; the map of a \<open>ColumnMap\<close> keeps the last column of a name. The text may panic.
\<close>

fun JSONValue :: "column \<Rightarrow> json_out option" where
  "JSONValue (Column n t v) =
     (if is_nil v then Some OutNull
      else case v of
        CColumnList cs \<Rightarrow> map_option OutList (opt_all (map JSONValue cs))
      | CColumnMap cs \<Rightarrow>
          map_option (\<lambda>vs. OutObj (zip (map col_Name cs) vs)) (opt_all (map JSONValue cs))
      | CPortable f k cs \<Rightarrow>
          map_option (\<lambda>vs. OutObj (zip (map col_Name cs) vs)) (opt_all (map JSONValue cs))
      | _ \<Rightarrow>
          if t = TypeNil then Some OutNull
          else if t \<in> set json_as_is then Some (OutValue v)
          else if t \<in> set json_arrays then Some (simplify v)
          else map_option OutText (column_text (Column n t v)))"

subsection \<open>Properties\<close>

text \<open>
  Printing a column never panics, whatever its type id and however its value is nested, except
  for a value without columns of its own under the type id of portables (a null nested portable):
  the only type assertion of the stringers that can fail.
\<close>

theorem column_text_total:
  assumes "portable_ok c"
  shows "\<exists>s. column_text c = Some s"
  using text_Some_aux(1) [OF assms] .

lemma column_text_total_witness:
  "\<exists>s. column_text (Column ''p'' TypePortable (CPortable 1 2
     [Column ''a'' TypeInt32 (CScalar ''int32'' ''5''), Column ''b'' TypeStringArray (CColumnList [])])) = Some s"
  by (rule column_text_total) code_simp

lemma null_portable_panics: "column_text (Column n TypePortable CNil) = None"
  by (simp add: stringer_for_def ValueToText_def apply_stringer_def)

end
