(* ===== verification/SerReaders.thy ===== *)
theory SerReaders
  imports SerColumn "HOL-Library.Multiset"
begin

section \<open>Reading compact and portable values (internal/serialization/readers.go, portable_field.go)\<close>

text \<open>
  A compact or portable value is decoded field by field into columns: each field kind has a
  function in a table. The readers of the client library are parameters, one function per shape of
  the value a read returns (a scalar by its printed text, a pointer, a slice, a slice of pointers).
  A kind that is not in the table is a call of a nil function, a panic.
\<close>

subsection \<open>Columns from values\<close>

definition boolToColumn :: "string \<Rightarrow> string \<Rightarrow> column" where
  "boolToColumn name v = Column name TypeBool (CScalar ''bool'' v)"

definition int8ToColumn :: "string \<Rightarrow> string \<Rightarrow> column" where
  "int8ToColumn name v = Column name TypeInt8 (CScalar ''int8'' v)"

definition int16ToColumn :: "string \<Rightarrow> string \<Rightarrow> column" where
  "int16ToColumn name v = Column name TypeInt16 (CScalar ''int16'' v)"

definition int32ToColumn :: "string \<Rightarrow> string \<Rightarrow> column" where
  "int32ToColumn name v = Column name TypeInt32 (CScalar ''int32'' v)"

definition int64ToColumn :: "string \<Rightarrow> string \<Rightarrow> column" where
  "int64ToColumn name v = Column name TypeInt64 (CScalar ''int64'' v)"

definition float32ToColumn :: "string \<Rightarrow> string \<Rightarrow> column" where
  "float32ToColumn name v = Column name TypeFloat32 (CScalar ''float32'' v)"

definition float64ToColumn :: "string \<Rightarrow> string \<Rightarrow> column" where
  "float64ToColumn name v = Column name TypeFloat64 (CScalar ''float64'' v)"

definition byteToColumn :: "string \<Rightarrow> string \<Rightarrow> column" where
  "byteToColumn name v = Column name TypeByte (CScalar ''uint8'' v)"

definition uint16ToColumn :: "string \<Rightarrow> string \<Rightarrow> column" where
  "uint16ToColumn name v = Column name TypeUInt16 (CScalar ''uint16'' v)"

definition stringToColumn :: "string \<Rightarrow> string \<Rightarrow> column" where
  "stringToColumn name v = Column name TypeString (CScalar ''string'' v)"

definition decimalToColumn :: "string \<Rightarrow> string \<Rightarrow> column" where
  "decimalToColumn name v = Column name TypeJavaDecimal (CScalar ''types.Decimal'' v)"

definition localTimeToColumn :: "string \<Rightarrow> string \<Rightarrow> column" where
  "localTimeToColumn name v = Column name TypeJavaLocalTime (CScalar ''types.LocalTime'' v)"

definition localDateToColumn :: "string \<Rightarrow> string \<Rightarrow> column" where
  "localDateToColumn name v = Column name TypeJavaLocalDate (CScalar ''types.LocalDate'' v)"

definition localDateTimeToColumn :: "string \<Rightarrow> string \<Rightarrow> column" where
  "localDateTimeToColumn name v = Column name TypeJavaLocalDateTime (CScalar ''types.LocalDateTime'' v)"

definition offsetDateTimeToColumn :: "string \<Rightarrow> string \<Rightarrow> column" where
  "offsetDateTimeToColumn name v = Column name TypeJavaOffsetDateTime (CScalar ''types.OffsetDateTime'' v)"

definition ptrStringToColumn :: "string \<Rightarrow> string option \<Rightarrow> column" where
  "ptrStringToColumn name v = Column name TypeString (CPtr ''string'' v)"

definition ptrDecimalToColumn :: "string \<Rightarrow> string option \<Rightarrow> column" where
  "ptrDecimalToColumn name v = Column name TypeJavaDecimal (CPtr ''types.Decimal'' v)"

definition ptrLocalTimeToColumn :: "string \<Rightarrow> string option \<Rightarrow> column" where
  "ptrLocalTimeToColumn name v = Column name TypeJavaLocalTime (CPtr ''types.LocalTime'' v)"

definition ptrLocalDateToColumn :: "string \<Rightarrow> string option \<Rightarrow> column" where
  "ptrLocalDateToColumn name v = Column name TypeJavaLocalDate (CPtr ''types.LocalDate'' v)"

definition ptrLocalDateTimeToColumn :: "string \<Rightarrow> string option \<Rightarrow> column" where
  "ptrLocalDateTimeToColumn name v = Column name TypeJavaLocalDateTime (CPtr ''types.LocalDateTime'' v)"

definition ptrOffsetDateTimeToColumn :: "string \<Rightarrow> string option \<Rightarrow> column" where
  "ptrOffsetDateTimeToColumn name v = Column name TypeJavaOffsetDateTime (CPtr ''types.OffsetDateTime'' v)"

definition compactToColumn :: "string \<Rightarrow> cell \<Rightarrow> column" where
  "compactToColumn name v = Column name TypeCompact v"

definition portableToColumn :: "string \<Rightarrow> cell \<Rightarrow> column" where
  "portableToColumn name v = Column name TypePortable v"

definition arrayToColumn :: "string \<Rightarrow> int \<Rightarrow> 'v list \<Rightarrow> (string \<Rightarrow> 'v \<Rightarrow> column) \<Rightarrow> column" where
  "arrayToColumn name arrayType vs f = Column name arrayType (CColumnList (map (f []) vs))"

definition nullableToColumn :: "string \<Rightarrow> 'v option \<Rightarrow> (string \<Rightarrow> 'v \<Rightarrow> column) \<Rightarrow> column" where
  "nullableToColumn name v f = (case v of None \<Rightarrow> Column name TypeNil CNil | Some x \<Rightarrow> f name x)"

definition nullableArrayToColumn ::
    "string \<Rightarrow> int \<Rightarrow> 'v option list \<Rightarrow> (string \<Rightarrow> 'v \<Rightarrow> column) \<Rightarrow> column" where
  "nullableArrayToColumn name arrayType vs f =
     Column name arrayType (CColumnList (map (\<lambda>v. nullableToColumn [] v f) vs))"

lemmas to_column_defs =
  boolToColumn_def int8ToColumn_def int16ToColumn_def int32ToColumn_def
  int64ToColumn_def float32ToColumn_def float64ToColumn_def byteToColumn_def
  uint16ToColumn_def stringToColumn_def decimalToColumn_def localTimeToColumn_def
  localDateToColumn_def localDateTimeToColumn_def offsetDateTimeToColumn_def ptrStringToColumn_def
  ptrDecimalToColumn_def ptrLocalTimeToColumn_def ptrLocalDateToColumn_def ptrLocalDateTimeToColumn_def
  ptrOffsetDateTimeToColumn_def compactToColumn_def portableToColumn_def arrayToColumn_def
  nullableToColumn_def nullableArrayToColumn_def

subsection \<open>Compact values\<close>

datatype FieldKind =
    FieldKindBoolean
  | FieldKindArrayOfBoolean
  | FieldKindInt8
  | FieldKindArrayOfInt8
  | FieldKindInt16
  | FieldKindArrayOfInt16
  | FieldKindInt32
  | FieldKindArrayOfInt32
  | FieldKindInt64
  | FieldKindArrayOfInt64
  | FieldKindFloat32
  | FieldKindArrayOfFloat32
  | FieldKindFloat64
  | FieldKindArrayOfFloat64
  | FieldKindString
  | FieldKindArrayOfString
  | FieldKindDecimal
  | FieldKindArrayOfDecimal
  | FieldKindTime
  | FieldKindArrayOfTime
  | FieldKindDate
  | FieldKindArrayOfDate
  | FieldKindTimestamp
  | FieldKindArrayOfTimestamp
  | FieldKindTimestampWithTimezone
  | FieldKindArrayOfTimestampWithTimezone
  | FieldKindCompact
  | FieldKindArrayOfCompact
  | FieldKindNullableBoolean
  | FieldKindArrayOfNullableBoolean
  | FieldKindNullableInt8
  | FieldKindArrayOfNullableInt8
  | FieldKindNullableInt16
  | FieldKindArrayOfNullableInt16
  | FieldKindNullableInt32
  | FieldKindArrayOfNullableInt32
  | FieldKindNullableInt64
  | FieldKindArrayOfNullableInt64
  | FieldKindNullableFloat32
  | FieldKindArrayOfNullableFloat32
  | FieldKindNullableFloat64
  | FieldKindArrayOfNullableFloat64
  | FieldKindChar
  | FieldKindArrayOfChar
  | FieldKindPortable
  | FieldKindArrayOfPortable

record compact_reader =
  rd_scalar :: "FieldKind \<Rightarrow> string \<Rightarrow> string"
  rd_ptr :: "FieldKind \<Rightarrow> string \<Rightarrow> string option"
  rd_scalars :: "FieldKind \<Rightarrow> string \<Rightarrow> string list"
  rd_ptrs :: "FieldKind \<Rightarrow> string \<Rightarrow> string option list"
  rd_compact :: "string \<Rightarrow> cell"
  rd_compacts :: "string \<Rightarrow> cell list"

definition compactReaders :: "compact_reader \<Rightarrow> FieldKind \<Rightarrow> string \<Rightarrow> column option" where
  "compactReaders r k name =
     (case k of
        FieldKindBoolean \<Rightarrow> Some (boolToColumn name (rd_scalar r k name))
      | FieldKindArrayOfBoolean \<Rightarrow> Some (arrayToColumn name TypeBoolArray (rd_scalars r k name) boolToColumn)
      | FieldKindInt8 \<Rightarrow> Some (int8ToColumn name (rd_scalar r k name))
      | FieldKindArrayOfInt8 \<Rightarrow> Some (arrayToColumn name TypeInt8Array (rd_scalars r k name) int8ToColumn)
      | FieldKindInt16 \<Rightarrow> Some (int16ToColumn name (rd_scalar r k name))
      | FieldKindArrayOfInt16 \<Rightarrow> Some (arrayToColumn name TypeInt16Array (rd_scalars r k name) int16ToColumn)
      | FieldKindInt32 \<Rightarrow> Some (int32ToColumn name (rd_scalar r k name))
      | FieldKindArrayOfInt32 \<Rightarrow> Some (arrayToColumn name TypeInt32Array (rd_scalars r k name) int32ToColumn)
      | FieldKindInt64 \<Rightarrow> Some (int64ToColumn name (rd_scalar r k name))
      | FieldKindArrayOfInt64 \<Rightarrow> Some (arrayToColumn name TypeInt64Array (rd_scalars r k name) int64ToColumn)
      | FieldKindFloat32 \<Rightarrow> Some (float32ToColumn name (rd_scalar r k name))
      | FieldKindArrayOfFloat32 \<Rightarrow> Some (arrayToColumn name TypeFloat32Array (rd_scalars r k name) float32ToColumn)
      | FieldKindFloat64 \<Rightarrow> Some (float64ToColumn name (rd_scalar r k name))
      | FieldKindArrayOfFloat64 \<Rightarrow> Some (arrayToColumn name TypeFloat64Array (rd_scalars r k name) float64ToColumn)
      | FieldKindString \<Rightarrow> Some (ptrStringToColumn name (rd_ptr r k name))
      | FieldKindArrayOfString \<Rightarrow> Some (arrayToColumn name TypeStringArray (rd_ptrs r k name) ptrStringToColumn)
      | FieldKindDecimal \<Rightarrow> Some (ptrDecimalToColumn name (rd_ptr r k name))
      | FieldKindArrayOfDecimal \<Rightarrow> Some (arrayToColumn name TypeDecimalArray (rd_ptrs r k name) ptrDecimalToColumn)
      | FieldKindTime \<Rightarrow> Some (ptrLocalTimeToColumn name (rd_ptr r k name))
      | FieldKindArrayOfTime \<Rightarrow> Some (arrayToColumn name TypeJavaLocalTimeArray (rd_ptrs r k name) ptrLocalTimeToColumn)
      | FieldKindDate \<Rightarrow> Some (ptrLocalDateToColumn name (rd_ptr r k name))
      | FieldKindArrayOfDate \<Rightarrow> Some (arrayToColumn name TypeJavaLocalDateArray (rd_ptrs r k name) ptrLocalDateToColumn)
      | FieldKindTimestamp \<Rightarrow> Some (ptrLocalDateTimeToColumn name (rd_ptr r k name))
      | FieldKindArrayOfTimestamp \<Rightarrow> Some (arrayToColumn name TypeJavaLocalDateTimeArray (rd_ptrs r k name) ptrLocalDateTimeToColumn)
      | FieldKindTimestampWithTimezone \<Rightarrow> Some (ptrOffsetDateTimeToColumn name (rd_ptr r k name))
      | FieldKindArrayOfTimestampWithTimezone \<Rightarrow> Some (arrayToColumn name TypeJavaOffsetDateTimeArray (rd_ptrs r k name) ptrOffsetDateTimeToColumn)
      | FieldKindCompact \<Rightarrow> Some (compactToColumn name (rd_compact r name))
      | FieldKindArrayOfCompact \<Rightarrow> Some (arrayToColumn name TypeCompactArray (rd_compacts r name) compactToColumn)
      | FieldKindNullableBoolean \<Rightarrow> Some (nullableToColumn name (rd_ptr r k name) boolToColumn)
      | FieldKindArrayOfNullableBoolean \<Rightarrow> Some (nullableArrayToColumn name TypeBoolArray (rd_ptrs r k name) boolToColumn)
      | FieldKindNullableInt8 \<Rightarrow> Some (nullableToColumn name (rd_ptr r k name) int8ToColumn)
      | FieldKindArrayOfNullableInt8 \<Rightarrow> Some (nullableArrayToColumn name TypeInt8Array (rd_ptrs r k name) int8ToColumn)
      | FieldKindNullableInt16 \<Rightarrow> Some (nullableToColumn name (rd_ptr r k name) int16ToColumn)
      | FieldKindArrayOfNullableInt16 \<Rightarrow> Some (nullableArrayToColumn name TypeInt16Array (rd_ptrs r k name) int16ToColumn)
      | FieldKindNullableInt32 \<Rightarrow> Some (nullableToColumn name (rd_ptr r k name) int32ToColumn)
      | FieldKindArrayOfNullableInt32 \<Rightarrow> Some (nullableArrayToColumn name TypeInt32Array (rd_ptrs r k name) int32ToColumn)
      | FieldKindNullableInt64 \<Rightarrow> Some (nullableToColumn name (rd_ptr r k name) int64ToColumn)
      | FieldKindArrayOfNullableInt64 \<Rightarrow> Some (nullableArrayToColumn name TypeInt64Array (rd_ptrs r k name) int64ToColumn)
      | FieldKindNullableFloat32 \<Rightarrow> Some (nullableToColumn name (rd_ptr r k name) float32ToColumn)
      | FieldKindArrayOfNullableFloat32 \<Rightarrow> Some (nullableArrayToColumn name TypeFloat32Array (rd_ptrs r k name) float32ToColumn)
      | FieldKindNullableFloat64 \<Rightarrow> Some (nullableToColumn name (rd_ptr r k name) float64ToColumn)
      | FieldKindArrayOfNullableFloat64 \<Rightarrow> Some (nullableArrayToColumn name TypeFloat64Array (rd_ptrs r k name) float64ToColumn)
      | _ \<Rightarrow> None)"

text \<open>\<open>GenericCompactDeserializer.Read\<close> on the field definitions of the schema.\<close>

definition GenericCompact_Read :: "(string \<times> FieldKind) list \<Rightarrow> compact_reader \<Rightarrow> cell option" where
  "GenericCompact_Read fds r =
     map_option (\<lambda>cs. CColumnMap (sort_key col_Name cs))
       (opt_all (map (\<lambda>(n, k). compactReaders r k n) fds))"

subsection \<open>Portable values\<close>

datatype FieldDefinitionType =
    FieldTypePortable
  | FieldTypeByte
  | FieldTypeBool
  | FieldTypeUint16
  | FieldTypeInt16
  | FieldTypeInt32
  | FieldTypeInt64
  | FieldTypeFloat32
  | FieldTypeFloat64
  | FieldTypeString
  | FieldTypePortableArray
  | FieldTypeByteArray
  | FieldTypeBoolArray
  | FieldTypeUInt16Array
  | FieldTypeInt16Array
  | FieldTypeInt32Array
  | FieldTypeInt64Array
  | FieldTypeFloat32Array
  | FieldTypeFloat64Array
  | FieldTypeStringArray
  | FieldTypeDecimal
  | FieldTypeDecimalArray
  | FieldTypeTime
  | FieldTypeTimeArray
  | FieldTypeDate
  | FieldTypeDateArray
  | FieldTypeTimestamp
  | FieldTypeTimestampArray
  | FieldTypeTimestampWithTimezone
  | FieldTypeTimestampWithTimezoneArray

definition FieldDefinitionIDToType :: "FieldDefinitionType \<Rightarrow> int" where
  "FieldDefinitionIDToType t =
     (case t of
        FieldTypePortable \<Rightarrow> TypePortable
      | FieldTypeByte \<Rightarrow> TypeByte
      | FieldTypeBool \<Rightarrow> TypeBool
      | FieldTypeUint16 \<Rightarrow> TypeUInt16
      | FieldTypeInt16 \<Rightarrow> TypeInt16
      | FieldTypeInt32 \<Rightarrow> TypeInt32
      | FieldTypeInt64 \<Rightarrow> TypeInt64
      | FieldTypeFloat32 \<Rightarrow> TypeFloat32
      | FieldTypeFloat64 \<Rightarrow> TypeFloat64
      | FieldTypeString \<Rightarrow> TypeString
      | FieldTypePortableArray \<Rightarrow> TypeJavaArray
      | FieldTypeByteArray \<Rightarrow> TypeByteArray
      | FieldTypeBoolArray \<Rightarrow> TypeBoolArray
      | FieldTypeUInt16Array \<Rightarrow> TypeUInt16Array
      | FieldTypeInt16Array \<Rightarrow> TypeInt16Array
      | FieldTypeInt32Array \<Rightarrow> TypeInt32Array
      | FieldTypeInt64Array \<Rightarrow> TypeInt64Array
      | FieldTypeFloat32Array \<Rightarrow> TypeFloat32Array
      | FieldTypeFloat64Array \<Rightarrow> TypeFloat64Array
      | FieldTypeStringArray \<Rightarrow> TypeStringArray
      | FieldTypeDecimal \<Rightarrow> TypeJavaDecimal
      | FieldTypeDecimalArray \<Rightarrow> TypeDecimalArray
      | FieldTypeTime \<Rightarrow> TypeJavaLocalTime
      | FieldTypeTimeArray \<Rightarrow> TypeJavaLocalTimeArray
      | FieldTypeDate \<Rightarrow> TypeJavaLocalDate
      | FieldTypeDateArray \<Rightarrow> TypeJavaLocalDateArray
      | FieldTypeTimestamp \<Rightarrow> TypeJavaLocalDateTime
      | FieldTypeTimestampArray \<Rightarrow> TypeJavaLocalDateTimeArray
      | FieldTypeTimestampWithTimezone \<Rightarrow> TypeJavaOffsetDateTime
      | FieldTypeTimestampWithTimezoneArray \<Rightarrow> TypeJavaOffsetDateTimeArray)"

record portable_reader =
  pr_scalar :: "FieldDefinitionType \<Rightarrow> string \<Rightarrow> string"
  pr_ptr :: "FieldDefinitionType \<Rightarrow> string \<Rightarrow> string option"
  pr_scalars :: "FieldDefinitionType \<Rightarrow> string \<Rightarrow> string list"
  pr_portable :: "string \<Rightarrow> cell"
  pr_portables :: "string \<Rightarrow> cell list"

definition portableReaders :: "portable_reader \<Rightarrow> FieldDefinitionType \<Rightarrow> string \<Rightarrow> column" where
  "portableReaders r k name =
     (case k of
        FieldTypePortable \<Rightarrow> portableToColumn name (pr_portable r name)
      | FieldTypeByte \<Rightarrow> byteToColumn name (pr_scalar r k name)
      | FieldTypeBool \<Rightarrow> boolToColumn name (pr_scalar r k name)
      | FieldTypeUint16 \<Rightarrow> uint16ToColumn name (pr_scalar r k name)
      | FieldTypeInt16 \<Rightarrow> int16ToColumn name (pr_scalar r k name)
      | FieldTypeInt32 \<Rightarrow> int32ToColumn name (pr_scalar r k name)
      | FieldTypeInt64 \<Rightarrow> int64ToColumn name (pr_scalar r k name)
      | FieldTypeFloat32 \<Rightarrow> float32ToColumn name (pr_scalar r k name)
      | FieldTypeFloat64 \<Rightarrow> float64ToColumn name (pr_scalar r k name)
      | FieldTypeString \<Rightarrow> stringToColumn name (pr_scalar r k name)
      | FieldTypePortableArray \<Rightarrow> arrayToColumn name TypePortableArray (pr_portables r name) portableToColumn
      | FieldTypeByteArray \<Rightarrow> arrayToColumn name TypeByteArray (pr_scalars r k name) byteToColumn
      | FieldTypeBoolArray \<Rightarrow> arrayToColumn name TypeBoolArray (pr_scalars r k name) boolToColumn
      | FieldTypeUInt16Array \<Rightarrow> arrayToColumn name TypeUInt16Array (pr_scalars r k name) uint16ToColumn
      | FieldTypeInt16Array \<Rightarrow> arrayToColumn name TypeInt16Array (pr_scalars r k name) int16ToColumn
      | FieldTypeInt32Array \<Rightarrow> arrayToColumn name TypeInt32Array (pr_scalars r k name) int32ToColumn
      | FieldTypeInt64Array \<Rightarrow> arrayToColumn name TypeInt64Array (pr_scalars r k name) int64ToColumn
      | FieldTypeFloat32Array \<Rightarrow> arrayToColumn name TypeFloat32Array (pr_scalars r k name) float32ToColumn
      | FieldTypeFloat64Array \<Rightarrow> arrayToColumn name TypeFloat64Array (pr_scalars r k name) float64ToColumn
      | FieldTypeStringArray \<Rightarrow> arrayToColumn name TypeStringArray (pr_scalars r k name) stringToColumn
      | FieldTypeDecimal \<Rightarrow> ptrDecimalToColumn name (pr_ptr r k name)
      | FieldTypeDecimalArray \<Rightarrow> arrayToColumn name TypeDecimalArray (pr_scalars r k name) decimalToColumn
      | FieldTypeTime \<Rightarrow> ptrLocalTimeToColumn name (pr_ptr r k name)
      | FieldTypeTimeArray \<Rightarrow> arrayToColumn name TypeJavaLocalTimeArray (pr_scalars r k name) localTimeToColumn
      | FieldTypeDate \<Rightarrow> ptrLocalDateToColumn name (pr_ptr r k name)
      | FieldTypeDateArray \<Rightarrow> arrayToColumn name TypeJavaLocalDateArray (pr_scalars r k name) localDateToColumn
      | FieldTypeTimestamp \<Rightarrow> ptrLocalDateTimeToColumn name (pr_ptr r k name)
      | FieldTypeTimestampArray \<Rightarrow> arrayToColumn name TypeJavaLocalDateTimeArray (pr_scalars r k name) localDateTimeToColumn
      | FieldTypeTimestampWithTimezone \<Rightarrow> ptrOffsetDateTimeToColumn name (pr_ptr r k name)
      | FieldTypeTimestampWithTimezoneArray \<Rightarrow> arrayToColumn name TypeJavaOffsetDateTime (pr_scalars r k name) offsetDateTimeToColumn)"

text \<open>
  \<open>ReadPortableWithClassDefinition\<close> ranges over the map of fields, in any order, and appends to
  the fields of the value created for it.
\<close>

definition CreatePortableValue :: "int \<Rightarrow> int \<Rightarrow> cell" where
  "CreatePortableValue factoryID classID = CPortable factoryID classID []"

definition ReadPortableWithClassDefinition ::
    "cell \<Rightarrow> (string \<times> FieldDefinitionType) list \<Rightarrow> portable_reader \<Rightarrow> cell option" where
  "ReadPortableWithClassDefinition v cd_fields r =
     (case v of
        CPortable f c fs \<Rightarrow>
          Some (CPortable f c (sort_key col_Name
            (foldl (\<lambda>fs (n, k). fs @ [portableReaders r k n]) fs cd_fields)))
      | _ \<Rightarrow> None)"

subsection \<open>Properties\<close>

lemma compactReaders_name: "compactReaders r k n = Some c \<Longrightarrow> col_Name c = n"
  by (cases k) (auto simp: compactReaders_def to_column_defs split: option.splits)

text \<open>The nested compact values were read by the same deserializer, so their texts are fine.\<close>

definition nested_ok :: "compact_reader \<Rightarrow> bool" where
  "nested_ok r \<longleftrightarrow> (\<forall>n. cell_ok (rd_compact r n)) \<and> (\<forall>n. \<forall>v \<in> set (rd_compacts r n). cell_ok v)"

lemma compactReaders_portable_ok:
  "compactReaders r k n = Some c \<Longrightarrow> nested_ok r \<Longrightarrow> portable_ok c"
  by (cases k) (auto simp: compactReaders_def to_column_defs nested_ok_def split: option.splits)

lemma compactReaders_None: "compactReaders r k n = None \<longleftrightarrow>
    k \<in> {FieldKindChar, FieldKindArrayOfChar, FieldKindPortable, FieldKindArrayOfPortable}"
  by (cases k) (auto simp: compactReaders_def)

lemma opt_all_map_Some_id [simp]: "opt_all (map Some zs) = Some zs"
  by (induction zs) auto

lemma opt_all_Some_iff: "opt_all xs = Some ys \<longleftrightarrow> xs = map Some ys"
proof
  show "opt_all xs = Some ys \<Longrightarrow> xs = map Some ys"
    by (induction xs arbitrary: ys) (auto split: bind_splits)
qed simp

lemma opt_all_map_Some: "opt_all (map f xs) = Some ys \<longleftrightarrow> list_all2 (\<lambda>x y. f x = Some y) xs ys"
  by (auto simp: opt_all_Some_iff list_all2_conv_all_nth list_eq_iff_nth_eq)

text \<open>
  C36: reading a compact value whose fields have none of the four kinds left out of the format does
  not panic; it gives exactly one column for every field of the schema, in the order of their
  names, and each of these columns has a text.
\<close>

theorem GenericCompact_Read_complete:
  assumes "\<forall>(n, k) \<in> set fds. k \<notin> {FieldKindChar, FieldKindArrayOfChar, FieldKindPortable, FieldKindArrayOfPortable}"
    and "nested_ok r"
  shows "\<exists>cs. GenericCompact_Read fds r = Some (CColumnMap cs) \<and>
    mset (map col_Name cs) = mset (map fst fds) \<and> sorted (map col_Name cs) \<and>
    (\<forall>c \<in> set cs. \<exists>s. column_text c = Some s)"
proof -
  have "\<exists>cs. opt_all (map (\<lambda>(n, k). compactReaders r k n) fds) = Some cs"
    using assms(1) by (intro opt_all_Some) (fastforce simp: compactReaders_None simp flip: not_None_eq)
  then obtain cs where cs: "opt_all (map (\<lambda>(n, k). compactReaders r k n) fds) = Some cs" by blast
  then have rel: "list_all2 (\<lambda>(n, k) c. compactReaders r k n = Some c) fds cs"
    by (simp add: opt_all_map_Some case_prod_unfold)
  have "map col_Name cs = map fst fds"
    using rel by (auto simp: list_all2_conv_all_nth list_eq_iff_nth_eq case_prod_unfold compactReaders_name)
  moreover have "portable_ok c" if "c \<in> set cs" for c
    using rel that assms(2) compactReaders_portable_ok
    by (fastforce simp: list_all2_conv_all_nth in_set_conv_nth case_prod_unfold)
  moreover have "mset (map col_Name (sort_key col_Name cs)) = mset (map col_Name cs)"
    by (metis mset_map mset_sort)
  ultimately show ?thesis
    using text_Some_aux(1) by (simp add: GenericCompact_Read_def cs del: mset_map)
qed

definition sample_compact :: compact_reader where
  "sample_compact = \<lparr>rd_scalar = (\<lambda>k n. []), rd_ptr = (\<lambda>k n. if n = ''name'' then Some ''Ada'' else None),
     rd_scalars = (\<lambda>k n. []), rd_ptrs = (\<lambda>k n. []), rd_compact = (\<lambda>n. CNil), rd_compacts = (\<lambda>n. [])\<rparr>"

lemma GenericCompact_Read_complete_witness:
  "\<exists>cs. GenericCompact_Read [(''name'', FieldKindString), (''age'', FieldKindNullableInt32)] sample_compact
     = Some (CColumnMap cs) \<and> sorted (map col_Name cs) \<and> (\<forall>c \<in> set cs. \<exists>s. column_text c = Some s)"
proof -
  have "nested_ok sample_compact" by (simp add: nested_ok_def sample_compact_def)
  then show ?thesis
    using GenericCompact_Read_complete
      [of "[(''name'', FieldKindString), (''age'', FieldKindNullableInt32)]" sample_compact]
    by fastforce
qed

lemma portableReaders_name: "col_Name (portableReaders r k n) = n"
  by (cases k) (simp_all add: portableReaders_def to_column_defs)

text \<open>
  The fields of a portable value do not depend on the order in which Go happens to iterate over
  the map of field definitions: any two orders of the same fields give the same value, with the
  fields in the order of their names.
\<close>

theorem portable_read_deterministic:
  assumes "mset fds = mset fds'" "distinct (map fst fds)"
  shows "ReadPortableWithClassDefinition (CreatePortableValue fid cid) fds r =
         ReadPortableWithClassDefinition (CreatePortableValue fid cid) fds' r \<and>
    (\<exists>cs. ReadPortableWithClassDefinition (CreatePortableValue fid cid) fds r = Some (CPortable fid cid cs) \<and>
       sorted (map col_Name cs) \<and> set (map col_Name cs) = fst ` set fds)"
proof -
  let ?f = "\<lambda>(n, k). portableReaders r k n"
  have fold: "foldl (\<lambda>fs (n, k). fs @ [portableReaders r k n]) [] xs = map ?f xs" for xs
    using foldl_snoc_map [of ?f "[]" xs] by (simp add: case_prod_unfold)
  have n: "col_Name (?f x) = fst x" for x by (simp add: case_prod_unfold portableReaders_name)
  have "mset (map ?f fds) = mset (map ?f fds')" using assms(1) by simp
  moreover have "inj_on col_Name (set (map ?f fds))"
    by (auto simp: inj_on_def portableReaders_name dest: eq_key_imp_eq_value [OF assms(2)])
  ultimately have "sort_key col_Name (map ?f fds) = sort_key col_Name (map ?f fds')"
    by (intro sort_key_inj_key_eq) simp_all
  moreover have "set (map col_Name (sort_key col_Name (map ?f fds))) = fst ` set fds"
    by (simp add: image_image n)
  ultimately show ?thesis
    by (simp add: ReadPortableWithClassDefinition_def CreatePortableValue_def fold)
qed

definition sample_portable :: portable_reader where
  "sample_portable = \<lparr>pr_scalar = (\<lambda>k n. ''7''), pr_ptr = (\<lambda>k n. None), pr_scalars = (\<lambda>k n. []),
     pr_portable = (\<lambda>n. CNil), pr_portables = (\<lambda>n. [])\<rparr>"

lemma portable_read_deterministic_witness:
  "ReadPortableWithClassDefinition (CreatePortableValue 1 2)
     [(''b'', FieldTypeInt32), (''a'', FieldTypeString)] sample_portable =
   ReadPortableWithClassDefinition (CreatePortableValue 1 2)
     [(''a'', FieldTypeString), (''b'', FieldTypeInt32)] sample_portable"
  using portable_read_deterministic
    [of "[(''b'', FieldTypeInt32), (''a'', FieldTypeString)]"
      "[(''a'', FieldTypeString), (''b'', FieldTypeInt32)]" 1 2 sample_portable]
  by (simp add: add_mset_commute)

end
