(* ===== verification/Output.thy ===== *)
theory Output
  imports SerReaders "HOL-Library.AList"
begin

section \<open>Result rows and their formats (internal/output)\<close>

text \<open>
  Commands produce rows of columns; a format consumes them from a \<open>RowProducer\<close>, either the list
  of rows at hand (\<open>SimpleRows\<close>) or a channel (\<open>ChanRows\<close>), and writes text. The theory has the
  ordered set behind the table header, the producers with their contract as a locale, the loop the
  formats share, the CSV, delimited and JSON formats, and the rows of decoded pairs.
\<close>

subsection \<open>OrderedSet\<close>

record 'a OrderedSet =
  orderedItems :: "'a list"
  itemSet :: "'a \<rightharpoonup> nat"
  deletedIndices :: "nat list"

definition NewOrderedSet :: "'a OrderedSet" where
  "NewOrderedSet = \<lparr>orderedItems = [], itemSet = Map.empty, deletedIndices = []\<rparr>"

definition OrderedSet_Add :: "'a OrderedSet \<Rightarrow> 'a \<Rightarrow> bool \<times> 'a OrderedSet" where
  "OrderedSet_Add s item =
     (case itemSet s item of
        Some _ \<Rightarrow> (False, s)
      | None \<Rightarrow>
          (True, s\<lparr>itemSet := (itemSet s)(item \<mapsto> length (orderedItems s)),
                   orderedItems := orderedItems s @ [item]\<rparr>))"

definition OrderedSet_Delete :: "'a OrderedSet \<Rightarrow> 'a \<Rightarrow> bool \<times> 'a OrderedSet" where
  "OrderedSet_Delete s item =
     (case itemSet s item of
        Some index \<Rightarrow>
          (True, s\<lparr>itemSet := (itemSet s)(item := None), deletedIndices := index # deletedIndices s\<rparr>)
      | None \<Rightarrow> (False, s))"

definition OrderedSet_Contains :: "'a OrderedSet \<Rightarrow> 'a \<Rightarrow> bool" where
  "OrderedSet_Contains s item \<longleftrightarrow> itemSet s item \<noteq> None"

fun items_loop :: "nat list \<Rightarrow> nat \<Rightarrow> 'a list \<Rightarrow> 'a list" where
  "items_loop del index [] = []"
| "items_loop del index (item # rest) =
     (if index \<in> set del then items_loop del (Suc index) rest
      else item # items_loop del (Suc index) rest)"

definition OrderedSet_Items :: "'a OrderedSet \<Rightarrow> 'a list" where
  "OrderedSet_Items s = items_loop (deletedIndices s) 0 (orderedItems s)"

text \<open>\<^verbatim>\<open>len(s.itemSet)\<close>: one entry per item that is in the set.\<close>

definition OrderedSet_Len :: "'a OrderedSet \<Rightarrow> nat" where
  "OrderedSet_Len s = length (remdups (filter (\<lambda>x. itemSet s x \<noteq> None) (orderedItems s)))"

text \<open>The map holds exactly the positions that are not deleted.\<close>

definition OrderedSet_inv :: "'a OrderedSet \<Rightarrow> bool" where
  "OrderedSet_inv s \<longleftrightarrow>
     (\<forall>x i. itemSet s x = Some i \<longleftrightarrow>
        i < length (orderedItems s) \<and> orderedItems s ! i = x \<and> i \<notin> set (deletedIndices s)) \<and>
     (\<forall>i \<in> set (deletedIndices s). i < length (orderedItems s))"

lemma items_loop_enumerate:
  "items_loop del k xs = map snd (filter (\<lambda>p. fst p \<notin> set del) (enumerate k xs))"
  by (induction xs arbitrary: k) auto

definition live :: "'a OrderedSet \<Rightarrow> (nat \<times> 'a) list" where
  "live s = filter (\<lambda>p. fst p \<notin> set (deletedIndices s)) (enumerate 0 (orderedItems s))"

lemma Items_live: "OrderedSet_Items s = map snd (live s)"
  by (simp add: OrderedSet_Items_def live_def items_loop_enumerate)

lemma live_iff: "OrderedSet_inv s \<Longrightarrow> (i, x) \<in> set (live s) \<longleftrightarrow> itemSet s x = Some i"
  by (auto simp: live_def OrderedSet_inv_def in_set_enumerate_eq)

lemma Items_set: "OrderedSet_inv s \<Longrightarrow> x \<in> set (OrderedSet_Items s) \<longleftrightarrow> itemSet s x \<noteq> None"
  using live_iff [of s _ x] by (force simp: Items_live image_iff)

lemma Items_distinct:
  assumes "OrderedSet_inv s"
  shows "distinct (OrderedSet_Items s)"
proof -
  have "distinct (live s)" by (simp add: live_def distinct_enumerate)
  moreover have "inj_on snd (set (live s))"
    using live_iff [OF assms] by (fastforce intro: inj_onI)
  ultimately show ?thesis by (simp add: Items_live distinct_map)
qed

lemma OrderedSet_inv_New [simp]: "OrderedSet_inv NewOrderedSet"
  by (simp add: OrderedSet_inv_def NewOrderedSet_def)

lemma OrderedSet_inv_Add:
  assumes "OrderedSet_inv s"
  shows "OrderedSet_inv (snd (OrderedSet_Add s x))"
proof (cases "itemSet s x")
  case None
  have "length (orderedItems s) \<notin> set (deletedIndices s)" using assms by (auto simp: OrderedSet_inv_def)
  moreover have "orderedItems s ! i \<noteq> x" if "i < length (orderedItems s)" "i \<notin> set (deletedIndices s)" for i
    using assms that None unfolding OrderedSet_inv_def by (metis option.distinct(1))
  ultimately show ?thesis
    using assms None by (auto simp: OrderedSet_inv_def OrderedSet_Add_def nth_append less_Suc_eq)
next
  case (Some i)
  then show ?thesis using assms by (simp add: OrderedSet_Add_def)
qed

lemma OrderedSet_inv_Delete:
  assumes inv: "OrderedSet_inv s"
  shows "OrderedSet_inv (snd (OrderedSet_Delete s x))"
proof (cases "itemSet s x")
  case None
  then show ?thesis using assms by (simp add: OrderedSet_Delete_def)
next
  case (Some k)
  have i: "itemSet s y = Some i \<longleftrightarrow>
      i < length (orderedItems s) \<and> orderedItems s ! i = y \<and> i \<notin> set (deletedIndices s)" for y i
    using inv by (simp add: OrderedSet_inv_def)
  have "(if y = x then None else itemSet s y) = Some j \<longleftrightarrow>
      j < length (orderedItems s) \<and> orderedItems s ! j = y \<and> j \<noteq> k \<and> j \<notin> set (deletedIndices s)" for y j
    using i [of y j] i [of x k] i [of x j] Some by auto
  moreover have "OrderedSet_Delete s x =
      (True, s\<lparr>itemSet := (itemSet s)(x := None), deletedIndices := k # deletedIndices s\<rparr>)"
    using Some by (simp add: OrderedSet_Delete_def)
  moreover have "k < length (orderedItems s)" "\<forall>j \<in> set (deletedIndices s). j < length (orderedItems s)"
    using i [of x k] Some inv by (simp_all add: OrderedSet_inv_def)
  ultimately show ?thesis by (simp add: OrderedSet_inv_def)
qed

lemma Items_Add:
  assumes "OrderedSet_inv s"
  shows "OrderedSet_Items (snd (OrderedSet_Add s x)) =
    (if x \<in> set (OrderedSet_Items s) then OrderedSet_Items s else OrderedSet_Items s @ [x])"
proof (cases "itemSet s x")
  case None
  have "length (orderedItems s) \<notin> set (deletedIndices s)" using assms by (auto simp: OrderedSet_inv_def)
  then show ?thesis
    using None Items_set [OF assms, of x]
    by (simp add: OrderedSet_Add_def Items_live live_def enumerate_append_eq)
next
  case (Some i)
  then show ?thesis using Items_set [OF assms, of x] by (simp add: OrderedSet_Add_def)
qed

lemma inv_nth: "OrderedSet_inv s \<Longrightarrow> itemSet s x = Some i \<Longrightarrow> orderedItems s ! i = x"
  by (simp add: OrderedSet_inv_def)

lemma Items_Delete:
  assumes "OrderedSet_inv s"
  shows "OrderedSet_Items (snd (OrderedSet_Delete s x)) = filter (\<lambda>y. y \<noteq> x) (OrderedSet_Items s)"
proof (cases "itemSet s x")
  case None
  then show ?thesis
    using Items_set [OF assms] by (auto simp: OrderedSet_Delete_def intro!: filter_True [symmetric])
next
  case (Some k)
  have "live (snd (OrderedSet_Delete s x)) = filter (\<lambda>p. fst p \<noteq> k) (live s)"
    using Some by (auto simp: OrderedSet_Delete_def live_def intro: filter_cong)
  also have "\<dots> = filter (\<lambda>p. snd p \<noteq> x) (live s)"
  proof (rule filter_cong [OF refl])
    fix p assume "p \<in> set (live s)"
    then have "(fst p, snd p) \<in> set (live s)" by simp
    then have "itemSet s (snd p) = Some (fst p)" by (simp only: live_iff [OF assms])
    then have "orderedItems s ! fst p = snd p" by (rule inv_nth [OF assms])
    moreover have "orderedItems s ! k = x" using Some by (rule inv_nth [OF assms])
    ultimately show "fst p \<noteq> k \<longleftrightarrow> snd p \<noteq> x"
      using Some \<open>itemSet s (snd p) = Some (fst p)\<close> by (metis option.inject)
  qed
  finally show ?thesis by (simp add: Items_live filter_map comp_def)
qed

lemma Len_Items:
  assumes "OrderedSet_inv s"
  shows "OrderedSet_Len s = length (OrderedSet_Items s)"
proof -
  have "set (filter (\<lambda>x. itemSet s x \<noteq> None) (orderedItems s)) = set (OrderedSet_Items s)"
    using assms Items_set [OF assms] by (auto simp: OrderedSet_inv_def)
  then show ?thesis
    using Items_distinct [OF assms] by (metis OrderedSet_Len_def length_remdups_card_conv distinct_card)
qed

lemma Contains_Items: "OrderedSet_inv s \<Longrightarrow> OrderedSet_Contains s x \<longleftrightarrow> x \<in> set (OrderedSet_Items s)"
  by (simp add: Items_set OrderedSet_Contains_def)

lemma Contains_New: "\<not> OrderedSet_Contains NewOrderedSet x"
  by (simp add: OrderedSet_Contains_def NewOrderedSet_def)

interpretation ordered_set: set_adt NewOrderedSet "\<lambda>s x. snd (OrderedSet_Add s x)"
    "\<lambda>s x. snd (OrderedSet_Delete s x)" OrderedSet_Contains OrderedSet_Len OrderedSet_Items OrderedSet_inv
proof unfold_locales
  fix s :: "'a OrderedSet" assume "OrderedSet_inv s"
  then show "OrderedSet_Len s = card {y. OrderedSet_Contains s y}"
    by (simp add: Len_Items Contains_Items distinct_card [OF Items_distinct])
qed (auto simp: OrderedSet_inv_Add OrderedSet_inv_Delete Contains_Items Items_Add Items_Delete
    Contains_New split: if_splits)

text \<open>
  C35: the ordered set is a refinement of a list without duplicates. Its items are always distinct and
  in the order in which they were first added since their last deletion; adding puts a new item at
  the end and leaves a present one where it is, deleting removes exactly that item, and the two
  results say whether anything changed.
\<close>

theorem OrderedSet_refines_list:
  assumes "OrderedSet_inv s"
  shows "distinct (OrderedSet_Items s) \<and>
    OrderedSet_Items (snd (OrderedSet_Add s x)) =
      (if x \<in> set (OrderedSet_Items s) then OrderedSet_Items s else OrderedSet_Items s @ [x]) \<and>
    OrderedSet_Items (snd (OrderedSet_Delete s x)) = filter (\<lambda>y. y \<noteq> x) (OrderedSet_Items s) \<and>
    (fst (OrderedSet_Add s x) \<longleftrightarrow> x \<notin> set (OrderedSet_Items s)) \<and>
    (fst (OrderedSet_Delete s x) \<longleftrightarrow> x \<in> set (OrderedSet_Items s)) \<and>
    OrderedSet_Len s = length (OrderedSet_Items s) \<and>
    (OrderedSet_Contains s x \<longleftrightarrow> x \<in> set (OrderedSet_Items s)) \<and>
    OrderedSet_inv (snd (OrderedSet_Add s x)) \<and> OrderedSet_inv (snd (OrderedSet_Delete s x))"
proof -
  have "fst (OrderedSet_Add s x) \<longleftrightarrow> x \<notin> set (OrderedSet_Items s)"
    "fst (OrderedSet_Delete s x) \<longleftrightarrow> x \<in> set (OrderedSet_Items s)"
    by (auto simp: Items_set [OF assms] OrderedSet_Add_def OrderedSet_Delete_def split: option.splits)
  then show ?thesis
    using assms by (simp add: Items_distinct OrderedSet_inv_Add OrderedSet_inv_Delete Items_Add
        Items_Delete Len_Items Contains_Items)
qed

lemma OrderedSet_refines_list_witness:
  "OrderedSet_Items (snd (OrderedSet_Delete (snd (OrderedSet_Add (snd (OrderedSet_Add NewOrderedSet ''a'')) ''b'')) ''a''))
   = filter (\<lambda>y. y \<noteq> ''a'') (OrderedSet_Items (snd (OrderedSet_Add (snd (OrderedSet_Add NewOrderedSet ''a'')) ''b'')))"
  using OrderedSet_refines_list [of "snd (OrderedSet_Add (snd (OrderedSet_Add NewOrderedSet ''a'')) ''b'')" "''a''"]
  by (simp add: OrderedSet_inv_Add)

subsection \<open>Row producers\<close>

type_synonym row = "column list"

record SimpleRows =
  sr_rows :: "row list"
  sr_index :: nat

definition NewSimpleRows :: "row list \<Rightarrow> SimpleRows" where
  "NewSimpleRows rs = \<lparr>sr_rows = rs, sr_index = 0\<rparr>"

text \<open>A call returns an error or the row, \<^const>\<open>None\<close> for the end, and the new state.\<close>

definition SimpleRows_NextRow :: "SimpleRows \<Rightarrow> (go_error + row option) \<times> SimpleRows" where
  "SimpleRows_NextRow s =
     (if length (sr_rows s) \<le> sr_index s then (Inr None, s)
      else (Inr (Some (sr_rows s ! sr_index s)), s\<lparr>sr_index := sr_index s + 1\<rparr>))"

text \<open>
  What a receive on the channel finds: rows, then the channel closed or the context done. An
  exhausted list is a channel nothing more happens on, which is closed here.
\<close>

datatype chan_event = ChRow row | ChClosed | ChDone go_error

definition ChanRows_NextRow :: "chan_event list \<Rightarrow> (go_error + row option) \<times> chan_event list" where
  "ChanRows_NextRow ch =
     (case ch of
        ChRow r # rest \<Rightarrow> (Inr (Some r), rest)
      | ChDone e # rest \<Rightarrow> (Inl e, ch)
      | _ \<Rightarrow> (Inr None, ch))"

subsection \<open>The loop of the formats\<close>

text \<open>
  Every format repeats: stop when the context is done (\<open>ctxErr i\<close> at the i-th turn), take a row,
  stop at an error or at the end, write the row. The accumulator holds what was written so far;
  the fuel bounds the turns, and \<^const>\<open>None\<close> means that the producer was not exhausted.
\<close>

fun serialize_loop :: "(nat \<Rightarrow> go_error option) \<Rightarrow> ('s \<Rightarrow> (go_error + row option) \<times> 's) \<Rightarrow>
    (row \<Rightarrow> 'acc \<Rightarrow> 'acc \<times> go_error option) \<Rightarrow> nat \<Rightarrow> nat \<Rightarrow> 's \<Rightarrow> 'acc \<Rightarrow>
    ('acc \<times> go_error option) option" where
  "serialize_loop ctxErr nextRow wr 0 i s acc = None"
| "serialize_loop ctxErr nextRow wr (Suc n) i s acc =
     (case ctxErr i of
        Some e \<Rightarrow> Some (acc, Some e)
      | None \<Rightarrow>
          (case nextRow s of
             (Inl e, s') \<Rightarrow> Some (acc, Some e)
           | (Inr None, s') \<Rightarrow> Some (acc, None)
           | (Inr (Some r), s') \<Rightarrow>
               (case wr r acc of
                  (acc', Some e) \<Rightarrow> Some (acc', Some e)
                | (acc', None) \<Rightarrow> serialize_loop ctxErr nextRow wr n (Suc i) s' acc')))"

text \<open>Writing all of a list of rows, up to the first error.\<close>

fun write_all :: "(row \<Rightarrow> 'acc \<Rightarrow> 'acc \<times> go_error option) \<Rightarrow> row list \<Rightarrow> 'acc \<Rightarrow> 'acc \<times> go_error option" where
  "write_all wr [] acc = (acc, None)"
| "write_all wr (r # rs) acc =
     (case wr r acc of (acc', Some e) \<Rightarrow> (acc', Some e) | (acc', None) \<Rightarrow> write_all wr rs acc')"

locale row_producer =
  fixes nextRow :: "'s \<Rightarrow> (go_error + row option) \<times> 's"
    and pending :: "'s \<Rightarrow> row list"
    and final :: "'s \<Rightarrow> go_error option"
  assumes next_row: "pending s = r # rs \<Longrightarrow> \<exists>s'. nextRow s = (Inr (Some r), s') \<and> pending s' = rs \<and> final s' = final s"
    and next_end: "pending s = [] \<Longrightarrow> final s = None \<Longrightarrow> \<exists>s'. nextRow s = (Inr None, s')"
    and next_err: "pending s = [] \<Longrightarrow> final s = Some e \<Longrightarrow> \<exists>s'. nextRow s = (Inl e, s')"
begin

lemma serialize_pending:
  assumes "\<And>i. ctxErr i = None" "length (pending s) < n"
  shows "serialize_loop ctxErr nextRow wr n i s acc =
    Some (case write_all wr (pending s) acc of
            (acc', Some e) \<Rightarrow> (acc', Some e) | (acc', None) \<Rightarrow> (acc', final s))"
  using assms(2)
proof (induction "pending s" arbitrary: n i s acc)
  case Nil
  obtain m where n: "n = Suc m" using Nil.prems by (cases n) auto
  have p: "pending s = []" using Nil.hyps by simp
  show ?case
  proof (cases "final s")
    case None
    then obtain s' where "nextRow s = (Inr None, s')" using next_end p by blast
    then show ?thesis by (simp add: n assms(1) None p)
  next
    case (Some e)
    then obtain s' where "nextRow s = (Inl e, s')" using next_err p by blast
    then show ?thesis by (simp add: n assms(1) Some p)
  qed
next
  case (Cons r rs)
  obtain m where n: "n = Suc m" using Cons.prems by (cases n) auto
  have p: "pending s = r # rs" using Cons.hyps(2) by simp
  obtain s' where s': "nextRow s = (Inr (Some r), s')" "pending s' = rs" "final s' = final s"
    using next_row [OF p] by blast
  have IH: "serialize_loop ctxErr nextRow wr m (Suc i) s' acc' =
     Some (case write_all wr rs acc' of (acc', Some e) \<Rightarrow> (acc', Some e) | (acc', None) \<Rightarrow> (acc', final s))"
    for acc'
    using Cons.hyps(1) [of s' m "Suc i" acc'] Cons.prems s'(2,3) n p by simp
  obtain acc' e where w: "wr r acc = (acc', e)" by fastforce
  show ?case
    by (cases e) (simp_all add: n assms(1) s'(1) p w IH)
qed

end

definition SimpleRows_pending :: "SimpleRows \<Rightarrow> row list" where
  "SimpleRows_pending s = drop (sr_index s) (sr_rows s)"

fun ChanRows_pending :: "chan_event list \<Rightarrow> row list" where
  "ChanRows_pending (ChRow r # rest) = r # ChanRows_pending rest"
| "ChanRows_pending _ = []"

fun ChanRows_final :: "chan_event list \<Rightarrow> go_error option" where
  "ChanRows_final (ChRow r # rest) = ChanRows_final rest"
| "ChanRows_final (ChDone e # rest) = Some e"
| "ChanRows_final _ = None"

interpretation simple_rows: row_producer SimpleRows_NextRow SimpleRows_pending "\<lambda>s. None"
proof unfold_locales
  fix s :: SimpleRows and r rs assume "SimpleRows_pending s = r # rs"
  then have d: "drop (sr_index s) (sr_rows s) = r # rs" by (simp add: SimpleRows_pending_def)
  then have "sr_rows s ! sr_index s = r" by (rule nth_via_drop)
  moreover have "drop (Suc (sr_index s)) (sr_rows s) = tl (drop (sr_index s) (sr_rows s))"
    by (simp add: drop_Suc tl_drop)
  then have "drop (Suc (sr_index s)) (sr_rows s) = rs" by (simp add: d)
  moreover have "\<not> length (sr_rows s) \<le> sr_index s" using d by auto
  ultimately show "\<exists>s'. SimpleRows_NextRow s = (Inr (Some r), s') \<and> SimpleRows_pending s' = rs \<and> None = None"
    by (simp add: SimpleRows_NextRow_def SimpleRows_pending_def)
qed (auto simp: SimpleRows_NextRow_def SimpleRows_pending_def)

interpretation chan_rows: row_producer ChanRows_NextRow ChanRows_pending ChanRows_final
proof unfold_locales
  fix ch r rs assume "ChanRows_pending ch = r # rs"
  then show "\<exists>s'. ChanRows_NextRow ch = (Inr (Some r), s') \<and> ChanRows_pending s' = rs \<and>
      ChanRows_final s' = ChanRows_final ch"
    by (cases ch rule: ChanRows_pending.cases) (auto simp: ChanRows_NextRow_def)
next
  fix ch assume "ChanRows_pending ch = []" "ChanRows_final ch = None"
  then show "\<exists>s'. ChanRows_NextRow ch = (Inr None, s')"
    by (cases ch rule: ChanRows_final.cases) (auto simp: ChanRows_NextRow_def)
next
  fix ch e assume "ChanRows_pending ch = []" "ChanRows_final ch = Some e"
  then show "\<exists>s'. ChanRows_NextRow ch = (Inl e, s')"
    by (cases ch rule: ChanRows_final.cases) (auto simp: ChanRows_NextRow_def)
qed

subsection \<open>Texts of a row\<close>

text \<open>A panic while a row is printed ends the loop as an error does, with this value.\<close>

definition panic_error :: go_error where
  "panic_error = Sentinel ''panic''"

definition row_texts :: "row \<Rightarrow> string list option" where
  "row_texts r = opt_all (map column_text r)"

definition one_line :: "string \<Rightarrow> string" where
  "one_line s = replace_all (CHR 0x0A) '' '' s"

subsection \<open>CSV\<close>

text \<open>
  The encoder of \<^verbatim>\<open>encoding/csv\<close>: a field with a comma, a quote, a line end or a space in front is
  quoted, with its quotes doubled.
\<close>

definition csv_needs_quotes :: "string \<Rightarrow> bool" where
  "csv_needs_quotes f \<longleftrightarrow>
     f \<noteq> [] \<and> (f = [CHR 0x5C, CHR ''.''] \<or>
       list_ex (\<lambda>c. c = CHR '','' \<or> c = CHR 0x22 \<or> c = CHR 0x0D \<or> c = CHR 0x0A) f \<or> space_prefix f \<noteq> 0)"

definition csv_field :: "string \<Rightarrow> string" where
  "csv_field f =
     (if csv_needs_quotes f
      then [CHR 0x22] @ replace_all (CHR 0x22) [CHR 0x22, CHR 0x22] f @ [CHR 0x22] else f)"

definition csv_record :: "string list \<Rightarrow> string" where
  "csv_record fs = join_with '','' (map csv_field fs) @ [CHR 0x0A]"

definition makeCSVHeaderFromRow :: "row \<Rightarrow> string list" where
  "makeCSVHeaderFromRow r = map col_Name r"

definition makeCSVRecordFromRow :: "row \<Rightarrow> string list option" where
  "makeCSVRecordFromRow r = map_option (map one_line) (row_texts r)"

text \<open>
  The writer may fail: \<open>w out t\<close> is the error of writing \<open>t\<close> after \<open>out\<close>. The CSV writer keeps the
  first error of a flush and returns it at the next record or at the end.
\<close>

record csv_state =
  csv_header :: bool
  csv_out :: string
  csv_err :: "go_error option"

definition csv_write_row :: "(string \<Rightarrow> string \<Rightarrow> go_error option) \<Rightarrow> row \<Rightarrow> csv_state \<Rightarrow>
    csv_state \<times> go_error option" where
  "csv_write_row w r st =
     (case csv_err st of
        Some e \<Rightarrow> (st, Some e)
      | None \<Rightarrow>
          (let hd = (if csv_header st then [] else csv_record (makeCSVHeaderFromRow r)) in
           case makeCSVRecordFromRow r of
             None \<Rightarrow> (st, Some panic_error)
           | Some fs \<Rightarrow>
               (let t = hd @ csv_record fs in
                case w (csv_out st) t of
                  Some e \<Rightarrow> (st\<lparr>csv_header := True, csv_err := Some e\<rparr>, None)
                | None \<Rightarrow> (st\<lparr>csv_header := True, csv_out := csv_out st @ t\<rparr>, None))))"

definition CSV_Serialize :: "(nat \<Rightarrow> go_error option) \<Rightarrow> ('s \<Rightarrow> (go_error + row option) \<times> 's) \<Rightarrow>
    (string \<Rightarrow> string \<Rightarrow> go_error option) \<Rightarrow> nat \<Rightarrow> 's \<Rightarrow> (string \<times> go_error option) option" where
  "CSV_Serialize ctxErr nextRow w n rp =
     (case serialize_loop ctxErr nextRow (csv_write_row w) n 0 rp
             \<lparr>csv_header = False, csv_out = [], csv_err = None\<rparr> of
        None \<Rightarrow> None
      | Some (st, Some e) \<Rightarrow> Some (csv_out st, Some e)
      | Some (st, None) \<Rightarrow> Some (csv_out st, csv_err st))"

subsection \<open>Delimited text\<close>

definition adapt :: "bool \<Rightarrow> string \<Rightarrow> string" where
  "adapt singleLine text = (if \<not> singleLine then text else one_line text)"

definition delimited_write_row :: "(string \<Rightarrow> string \<Rightarrow> go_error option) \<Rightarrow> string \<Rightarrow> bool \<Rightarrow> row \<Rightarrow>
    string \<times> nat \<Rightarrow> (string \<times> nat) \<times> go_error option" where
  "delimited_write_row w delim singleLine r st =
     (let (out, n) = st in
      if r = [] then (st, None)
      else case row_texts r of
          None \<Rightarrow> (st, Some panic_error)
        | Some ts \<Rightarrow>
            (let line = adapt singleLine (hd ts) @
                   concat (map (\<lambda>t. delim @ adapt singleLine t) (tl ts)) @ [CHR 0x0A]
             in case w out line of
                  Some e \<Rightarrow> (st, Some (Wrapf ''serializing result'' e))
                | None \<Rightarrow> ((out @ line, n + length line), None)))"

definition Delimited_Serialize :: "(nat \<Rightarrow> go_error option) \<Rightarrow> ('s \<Rightarrow> (go_error + row option) \<times> 's) \<Rightarrow>
    (string \<Rightarrow> string \<Rightarrow> go_error option) \<Rightarrow> string \<Rightarrow> bool \<Rightarrow> nat \<Rightarrow> 's \<Rightarrow>
    ((string \<times> nat) \<times> go_error option) option" where
  "Delimited_Serialize ctxErr nextRow w delim singleLine n rp =
     serialize_loop ctxErr nextRow (delimited_write_row w delim singleLine) n 0 rp ([], 0)"

subsection \<open>JSON\<close>

text \<open>\<open>marshal\<close> is \<^verbatim>\<open>json.Marshal\<close> of the map from names to values; later columns overwrite.\<close>

definition json_object :: "row \<Rightarrow> (string \<times> json_out) list option" where
  "json_object r = map_option (\<lambda>vs. fold (\<lambda>(n, v) m. AList.update n v m) (zip (map col_Name r) vs) [])
     (opt_all (map JSONValue r))"

text \<open>The number of bytes the code returns counts the line ends only: the first count is overwritten.\<close>

definition json_write_row :: "((string \<times> json_out) list \<Rightarrow> go_error + string) \<Rightarrow>
    (string \<Rightarrow> string \<Rightarrow> go_error option) \<Rightarrow> row \<Rightarrow> string \<times> nat \<Rightarrow> (string \<times> nat) \<times> go_error option" where
  "json_write_row marshal w r st =
     (let (out, n) = st in
      case json_object r of
        None \<Rightarrow> (st, Some panic_error)
      | Some m \<Rightarrow>
          (case marshal m of
             Inl e \<Rightarrow> (st, Some (Wrapf ''json marshalling result'' e))
           | Inr b \<Rightarrow>
               (case w out b of
                  Some e \<Rightarrow> (st, Some (Wrapf ''serializing result'' e))
                | None \<Rightarrow>
                    (case w (out @ b) [CHR 0x0A] of
                       Some e \<Rightarrow> ((out @ b, n), Some (Wrapf ''serializing result'' e))
                     | None \<Rightarrow> ((out @ b @ [CHR 0x0A], n + 1), None)))))"

definition JSON_Serialize :: "((string \<times> json_out) list \<Rightarrow> go_error + string) \<Rightarrow>
    (nat \<Rightarrow> go_error option) \<Rightarrow> ('s \<Rightarrow> (go_error + row option) \<times> 's) \<Rightarrow>
    (string \<Rightarrow> string \<Rightarrow> go_error option) \<Rightarrow> nat \<Rightarrow> 's \<Rightarrow> ((string \<times> nat) \<times> go_error option) option" where
  "JSON_Serialize marshal ctxErr nextRow w n rp =
     serialize_loop ctxErr nextRow (json_write_row marshal w) n 0 rp ([], 0)"

subsection \<open>Rows of key and value pairs\<close>

definition NewKeyColumn :: "int \<Rightarrow> cell \<Rightarrow> column" where
  "NewKeyColumn kt key = Column ''__key'' kt key"

definition NewKeyTypeColumn :: "int \<Rightarrow> column" where
  "NewKeyTypeColumn kt = Column ''__key_type'' TypeString (CScalar ''string'' (TypeToLabel kt))"

definition NewValueColumn :: "int \<Rightarrow> cell \<Rightarrow> column" where
  "NewValueColumn vt v = Column ''this'' vt v"

definition NewValueTypeColumn :: "int \<Rightarrow> column" where
  "NewValueTypeColumn vt = Column ''this_type'' TypeString (CScalar ''string'' (TypeToLabel vt))"

text \<open>\<open>data_type\<close> and \<open>decode\<close> are the client library's view of a serialized item.\<close>

definition ensureTypeValue :: "('d \<Rightarrow> int) \<Rightarrow> ('d \<Rightarrow> go_error + cell) \<Rightarrow> 'd \<Rightarrow> int \<times> cell" where
  "ensureTypeValue data_type decode d =
     (let t = data_type d in
      (t, case decode d of Inl e \<Rightarrow> CNondecoded (TypeToLabel t) | Inr v \<Rightarrow> v))"

definition DecodePairs :: "('d \<Rightarrow> int) \<Rightarrow> ('d \<Rightarrow> go_error + cell) \<Rightarrow> ('d \<times> 'd) list \<Rightarrow> bool \<Rightarrow> row list" where
  "DecodePairs data_type decode pairs showType =
     foldl (\<lambda>rows (k, v).
        let (kt, key) = ensureTypeValue data_type decode k;
            row = [NewKeyColumn kt key] @ (if showType then [NewKeyTypeColumn kt] else []);
            (vt, val) = ensureTypeValue data_type decode v;
            row = row @ [NewValueColumn vt val] @ (if showType then [NewValueTypeColumn vt] else [])
        in rows @ [row]) [] pairs"

subsection \<open>What was written can be read back\<close>

text \<open>
  A reader of CSV text: fields are plain, or quoted with doubled quotes. A blank line is a record of one empty field
  to it; the reader of \<^verbatim>\<open>encoding/csv\<close> passes over such lines, which a row of one empty text becomes.
\<close>

datatype csv_mode = CsvStart | CsvPlain | CsvQuoted | CsvQuoteSeen

fun csv_parse :: "csv_mode \<Rightarrow> string \<Rightarrow> string list \<Rightarrow> string \<Rightarrow> string list list" where
  "csv_parse m cur rc [] = (if m = CsvStart \<and> rc = [] then [] else [rc @ [cur]])"
| "csv_parse CsvQuoted cur rc (c # s) =
     (if c = CHR 0x22 then csv_parse CsvQuoteSeen cur rc s else csv_parse CsvQuoted (cur @ [c]) rc s)"
| "csv_parse m cur rc (c # s) =
     (if c = CHR 0x22 then
        (if m = CsvPlain then csv_parse CsvPlain (cur @ [c]) rc s
         else if m = CsvStart then csv_parse CsvQuoted [] rc s
         else csv_parse CsvQuoted (cur @ [c]) rc s)
      else if c = CHR '','' then csv_parse CsvStart [] (rc @ [cur]) s
      else if c = CHR 0x0A then (rc @ [cur]) # csv_parse CsvStart [] [] s
      else csv_parse CsvPlain (cur @ [c]) rc s)"

lemma csv_parse_quoted:
  "csv_parse CsvQuoted cur rc (replace_all (CHR 0x22) [CHR 0x22, CHR 0x22] f @ CHR 0x22 # s) =
   csv_parse CsvQuoteSeen (cur @ f) rc s"
  by (induction f arbitrary: cur) auto

lemma csv_parse_plain:
  assumes "\<forall>c \<in> set f. c \<noteq> CHR '','' \<and> c \<noteq> CHR 0x22 \<and> c \<noteq> CHR 0x0A"
  shows "csv_parse CsvPlain cur rc (f @ s) = csv_parse CsvPlain (cur @ f) rc s"
  using assms by (induction f arbitrary: cur) auto

lemma csv_parse_field:
  assumes "d = CHR '','' \<or> d = CHR 0x0A"
  shows "csv_parse CsvStart [] rc (csv_field f @ d # s) =
    (if d = CHR '','' then csv_parse CsvStart [] (rc @ [f]) s else (rc @ [f]) # csv_parse CsvStart [] [] s)"
proof (cases "csv_needs_quotes f")
  case True
  have "csv_parse CsvStart [] rc (csv_field f @ d # s) = csv_parse CsvQuoteSeen f rc (d # s)"
    using csv_parse_quoted [of "[]" rc f "d # s"] by (simp add: csv_field_def True)
  then show ?thesis using assms by auto
next
  case False
  show ?thesis
  proof (cases f)
    case Nil
    then show ?thesis using assms by (auto simp: csv_field_def False)
  next
    case (Cons c f')
    then have "\<forall>c \<in> set (c # f'). c \<noteq> CHR '','' \<and> c \<noteq> CHR 0x22 \<and> c \<noteq> CHR 0x0A"
      using False by (auto simp: csv_needs_quotes_def list_ex_iff)
    then have p: "csv_parse CsvStart [] rc (f @ d # s) = csv_parse CsvPlain f rc (d # s)"
      using csv_parse_plain [of f' "[c]" rc "d # s"] by (simp add: Cons)
    have "f \<noteq> []" using Cons by simp
    then show ?thesis
      unfolding csv_field_def if_not_P [OF False] p using assms by (elim disjE) simp_all
  qed
qed

lemma csv_parse_record:
  "fs \<noteq> [] \<Longrightarrow> csv_parse CsvStart [] rc (csv_record fs @ s) = (rc @ fs) # csv_parse CsvStart [] [] s"
proof (induction fs arbitrary: rc)
  case (Cons f fs)
  show ?case
  proof (cases fs)
    case Nil
    then show ?thesis using csv_parse_field [of "CHR 0x0A" rc f s] by (simp add: csv_record_def)
  next
    case (Cons g gs)
    then have "csv_record (f # fs) @ s = csv_field f @ CHR '','' # csv_record fs @ s"
      by (simp add: csv_record_def join_with_Cons)
    then show ?thesis
      using csv_parse_field [of "CHR '',''" rc f "csv_record fs @ s"] Cons.IH [of "rc @ [f]"] Cons by simp
  qed
qed simp

lemma csv_parse_records:
  "(\<And>fs. fs \<in> set rs \<Longrightarrow> fs \<noteq> []) \<Longrightarrow> csv_parse CsvStart [] [] (concat (map csv_record rs)) = rs"
  by (induction rs) (auto simp: csv_parse_record)

lemma csv_write_row_ok:
  "csv_err st = None \<Longrightarrow> makeCSVRecordFromRow r = Some fs \<Longrightarrow>
   csv_write_row (\<lambda>out t. None) r st =
     (st\<lparr>csv_header := True, csv_out := csv_out st @
        (if csv_header st then [] else csv_record (makeCSVHeaderFromRow r)) @ csv_record fs\<rparr>, None)"
  by (simp add: csv_write_row_def Let_def)

lemma csv_write_all:
  assumes "list_all2 (\<lambda>r fs. makeCSVRecordFromRow r = Some fs) rs fss" "csv_err st = None" "rs \<noteq> []"
  shows "write_all (csv_write_row (\<lambda>out t. None)) rs st =
    (st\<lparr>csv_header := True, csv_out := csv_out st @
         (if csv_header st then [] else csv_record (makeCSVHeaderFromRow (hd rs))) @ concat (map csv_record fss)\<rparr>, None)"
  using assms
proof (induction rs fss arbitrary: st rule: list_all2_induct)
  case (Cons r rs fs fss)
  show ?case
  proof (cases "rs = []")
    case True
    then show ?thesis using Cons by (simp add: csv_write_row_ok)
  next
    case False
    then show ?thesis using Cons by (simp add: csv_write_row_ok)
  qed
qed simp

lemma list_all2_right: "list_all2 P xs ys \<Longrightarrow> y \<in> set ys \<Longrightarrow> \<exists>x \<in> set xs. P x y"
  by (induction rule: list_all2_induct) auto

text \<open>
  C6: the CSV of a list of rows, written to a writer that does not fail, is text from which a CSV
  reader gets back the names of the columns of the first row, then for each row the texts of its
  columns with line ends turned into spaces: no comma, quote or line end in a value can shift a
  column or add a line. The loop ends within one turn more than there are rows.
\<close>

theorem CSV_Serialize_roundtrip:
  assumes "list_all2 (\<lambda>r ts. row_texts r = Some ts) rows tss" "\<And>r. r \<in> set rows \<Longrightarrow> r \<noteq> []"
    and "length rows < n"
  shows "\<exists>out. CSV_Serialize (\<lambda>i. None) SimpleRows_NextRow (\<lambda>out t. None) n (NewSimpleRows rows) = Some (out, None) \<and>
    csv_parse CsvStart [] [] out =
      (if rows = [] then [] else map col_Name (hd rows) # map (map one_line) tss)"
proof -
  let ?st = "\<lparr>csv_header = False, csv_out = [], csv_err = None\<rparr>"
  have p: "SimpleRows_pending (NewSimpleRows rows) = rows"
    by (simp add: SimpleRows_pending_def NewSimpleRows_def)
  have l: "serialize_loop (\<lambda>i. None) SimpleRows_NextRow (csv_write_row (\<lambda>out t. None)) n 0 (NewSimpleRows rows) ?st =
    Some (case write_all (csv_write_row (\<lambda>out t. None)) rows ?st of
            (acc', Some e) \<Rightarrow> (acc', Some e) | (acc', None) \<Rightarrow> (acc', None))"
    using simple_rows.serialize_pending [of "\<lambda>i. None" "NewSimpleRows rows"] assms(3) by (simp add: p)
  have "list_all2 (\<lambda>r fs. makeCSVRecordFromRow r = Some fs) rows (map (map one_line) tss)"
    using assms(1) by (auto simp: list_all2_conv_all_nth makeCSVRecordFromRow_def)
  note wr = csv_write_all [OF this, of ?st, simplified]
  have ts: "ts \<noteq> []" if "ts \<in> set tss" for ts
  proof -
    obtain r where "r \<in> set rows" "row_texts r = Some ts"
      using list_all2_right [OF assms(1) \<open>ts \<in> set tss\<close>] by blast
    then have "map column_text r = map Some ts" "r \<noteq> []"
      using assms(2) by (simp_all add: row_texts_def opt_all_Some_iff)
    then show ?thesis by fastforce
  qed
  have ne: "fs \<noteq> []" if "fs \<in> set (map col_Name (hd rows) # map (map one_line) tss)" "rows \<noteq> []" for fs
  proof -
    have "hd rows \<noteq> []" by (rule assms(2)) (simp add: that(2))
    moreover have "fs = map col_Name (hd rows) \<or> (\<exists>ts \<in> set tss. fs = map one_line ts)"
      using that(1) by auto
    ultimately show ?thesis using ts by auto
  qed
  show ?thesis
  proof (cases "rows = []")
    case True
    show ?thesis unfolding CSV_Serialize_def l using True by simp
  next
    case False
    have "CSV_Serialize (\<lambda>i. None) SimpleRows_NextRow (\<lambda>out t. None) n (NewSimpleRows rows) =
      Some (concat (map csv_record (map col_Name (hd rows) # map (map one_line) tss)), None)"
      using False by (simp add: CSV_Serialize_def l wr makeCSVHeaderFromRow_def)
    moreover have "csv_parse CsvStart [] []
        (concat (map csv_record (map col_Name (hd rows) # map (map one_line) tss))) =
      map col_Name (hd rows) # map (map one_line) tss"
      by (rule csv_parse_records) (rule ne [OF _ False])
    ultimately show ?thesis using False by (intro exI conjI) simp_all
  qed
qed

lemma CSV_Serialize_roundtrip_witness:
  "\<exists>out. CSV_Serialize (\<lambda>i. None) SimpleRows_NextRow (\<lambda>out t. None) 2
     (NewSimpleRows [[Column ''this'' TypeString (CScalar ''string'' (''a, '' @ [CHR 0x22]))]]) = Some (out, None) \<and>
   csv_parse CsvStart [] [] out = [[''this''], [''a, '' @ [CHR 0x22]]]"
proof -
  have "row_texts [Column ''this'' TypeString (CScalar ''string'' (''a, '' @ [CHR 0x22]))] =
      Some [''a, '' @ [CHR 0x22]]" by code_simp
  then show ?thesis
    using CSV_Serialize_roundtrip
      [of "[[Column ''this'' TypeString (CScalar ''string'' (''a, '' @ [CHR 0x22]))]]" "[[''a, '' @ [CHR 0x22]]]" 2]
    by (simp add: one_line_def)
qed

end
