(* ===== verification/TableOut.thy ===== *)
theory TableOut
  imports Output
begin

section \<open>Tables (internal/output/utils.go, table_result.go, internal/table)\<close>

text \<open>
  \<open>MakeTableFromRows\<close> turns rows with any columns into a header and rows that all have the columns
  of the header: complex values are broken out into one column per member, the standard columns
  come first. The table itself cuts every cell into lines of the width of its column.
  \<^verbatim>\<open>go-runewidth\<close> and the colours are parameters.
\<close>

subsection \<open>Runes\<close>

text \<open>
  The code points of a string as Go's \<^verbatim>\<open>range\<close> finds them, each by its bytes; a byte that starts
  no valid encoding is the replacement character U+FFFD.
\<close>

abbreviation byte :: "char \<Rightarrow> nat" where
  "byte c \<equiv> of_char c"

definition is_cont :: "char \<Rightarrow> bool" where
  "is_cont c \<longleftrightarrow> 128 \<le> byte c \<and> byte c < 192"

definition replacement :: string where
  "replacement = [CHR 0xEF, CHR 0xBF, CHR 0xBD]"

text \<open>The length of the valid encoding at the front of a string, 0 when there is none.\<close>

definition rune_len :: "string \<Rightarrow> nat" where
  "rune_len s =
     (case s of
        [] \<Rightarrow> 0
      | a # s1 \<Rightarrow>
          if byte a < 128 then 1
          else (case s1 of
                  [] \<Rightarrow> 0
                | b # s2 \<Rightarrow>
                    if 194 \<le> byte a \<and> byte a < 224 \<and> is_cont b then 2
                    else (case s2 of
                            [] \<Rightarrow> 0
                          | c # s3 \<Rightarrow>
                              if 224 \<le> byte a \<and> byte a < 240 \<and> is_cont b \<and> is_cont c \<and>
                                 (byte a = 224 \<longrightarrow> 160 \<le> byte b) \<and> (byte a = 237 \<longrightarrow> byte b < 160) then 3
                              else (case s3 of
                                      [] \<Rightarrow> 0
                                    | d # _ \<Rightarrow>
                                        if 240 \<le> byte a \<and> byte a < 245 \<and> is_cont b \<and> is_cont c \<and> is_cont d \<and>
                                           (byte a = 240 \<longrightarrow> 144 \<le> byte b) \<and> (byte a = 244 \<longrightarrow> byte b < 144)
                                        then 4 else 0))))"

function runes :: "string \<Rightarrow> string list" where
  "runes s =
     (if s = [] then []
      else if rune_len s = 0 then replacement # runes (tl s)
      else take (rune_len s) s # runes (drop (rune_len s) s))"
  by pat_completeness auto
termination
  by (relation "measure length") auto

declare runes.simps [simp del]

subsection \<open>Cells cut into lines\<close>

text \<open>The loop over the runes: the lines so far and the runes of the current line.\<close>

fun split_runes :: "nat \<Rightarrow> string list \<Rightarrow> string list list \<Rightarrow> string list \<Rightarrow> string list list" where
  "split_runes mw line ls [] = (if line \<noteq> [] then ls @ [line] else ls)"
| "split_runes mw line ls (r # rs) =
     (if r = [CHR 0x0A] then split_runes mw [] (ls @ [line]) rs
      else if mw \<le> length line then split_runes mw [r] (ls @ [line]) rs
      else split_runes mw (line @ [r]) ls rs)"

text \<open>A width of 0 panics in the code, a negative one in \<^verbatim>\<open>make\<close>.\<close>

definition splitLines :: "string \<Rightarrow> int \<Rightarrow> string list option" where
  "splitLines text maxWidth0 =
     (let maxWidth = (if maxWidth0 > 65535 then 65535 else maxWidth0) in
      if maxWidth \<le> 0 then None
      else Some (map concat (split_runes (nat maxWidth) [] [] (runes text))))"

lemma split_runes_acc: "split_runes mw line ls rs = ls @ split_runes mw line [] rs"
proof (induction rs arbitrary: line ls)
  case (Cons r rs)
  show ?case
    using Cons.IH [of "[]" "ls @ [line]"] Cons.IH [of "[]" "[line]"] Cons.IH [of "[r]" "ls @ [line]"]
      Cons.IH [of "[r]" "[line]"] Cons.IH [of "line @ [r]" ls]
    by simp
qed simp

lemma split_runes_width:
  assumes "0 < mw" "length line \<le> mw" "l \<in> set (split_runes mw line [] rs)"
  shows "length l \<le> mw"
  using assms
proof (induction rs arbitrary: line)
  case (Cons r rs)
  have a: "split_runes m x [line] rs = line # split_runes m x [] rs" for m x
    using split_runes_acc [of m x "[line]"] by simp
  show ?case
    using Cons.prems Cons.IH [of "[]"] Cons.IH [of "[r]"] Cons.IH [of "line @ [r]"]
    by (auto simp: a split: if_splits)
qed (simp split: if_splits)

lemma split_runes_concat:
  "concat (split_runes mw line [] rs) = line @ filter (\<lambda>r. r \<noteq> [CHR 0x0A]) rs"
proof (induction rs arbitrary: line)
  case (Cons r rs)
  have a: "split_runes m x [line] rs = line # split_runes m x [] rs" for m x
    using split_runes_acc [of m x "[line]"] by simp
  show ?case using Cons by (auto simp: a)
qed simp

text \<open>
  Cutting the text of a cell into lines loses nothing and respects the width. For every positive
  width the call does not panic, no line has more code points than the width (or 65535), and the
  lines together are the code points of the text without the line ends.
\<close>

theorem splitLines_exact:
  assumes "0 < maxWidth"
  shows "\<exists>ls. splitLines text maxWidth = Some (map concat ls) \<and>
    (\<forall>l \<in> set ls. int (length l) \<le> min maxWidth 65535) \<and>
    concat ls = filter (\<lambda>r. r \<noteq> [CHR 0x0A]) (runes text)"
proof -
  define mw where "mw = nat (min maxWidth 65535)"
  have "splitLines text maxWidth = Some (map concat (split_runes mw [] [] (runes text)))"
    using assms by (auto simp: splitLines_def mw_def Let_def min_def)
  moreover have "\<forall>l \<in> set (split_runes mw [] [] (runes text)). int (length l) \<le> min maxWidth 65535"
    using split_runes_width [of mw "[]"] assms by (fastforce simp: mw_def)
  ultimately show ?thesis using split_runes_concat [of mw "[]" "runes text"] by auto
qed

lemma splitLines_exact_witness:
  "\<exists>ls. splitLines ''multi'' 2 = Some (map concat ls) \<and> (\<forall>l \<in> set ls. int (length l) \<le> min 2 65535)"
  using splitLines_exact [of 2 "''multi''"] by auto

subsection \<open>The printed table (internal/table)\<close>

record fill_lib =
  FillRight :: "string \<Rightarrow> int \<Rightarrow> string"
  FillLeft :: "string \<Rightarrow> int \<Rightarrow> string"

record table_column =
  Header :: string
  Align :: int

record table_config =
  CellFormat0 :: string
  CellFormat1 :: string
  HeaderSeperator :: string

text \<open>\<open>rwf\<close> is kept as a flag: \<^const>\<open>True\<close> is \<^verbatim>\<open>FillLeft\<close>. \<open>t_out\<close> is what was written.\<close>

record Table =
  t_rowIdx :: int
  t_cfg :: table_config
  t_width :: "int list"
  t_rwf :: "bool list"
  t_sep :: string
  t_out :: string

definition updateWithDefaults :: "table_config \<Rightarrow> table_config" where
  "updateWithDefaults c =
     (let c1 = (if CellFormat0 c = [] then c\<lparr>CellFormat0 := '' %s ''\<rparr> else c)
      in if CellFormat1 c1 = [] then c1\<lparr>CellFormat1 := CellFormat0 c1\<rparr> else c1)"

definition table_New :: "table_config \<Rightarrow> Table" where
  "table_New cfg = \<lparr>t_rowIdx = 0, t_cfg = updateWithDefaults cfg, t_width = [], t_rwf = [], t_sep = [], t_out = []\<rparr>"

text \<open>\<^verbatim>\<open>fmt.Fprintf\<close> of a format with one \<^verbatim>\<open>%s\<close>.\<close>

definition sprintf_s :: "string \<Rightarrow> string \<Rightarrow> string" where
  "sprintf_s f v = (case index_of f ''%s'' of None \<Rightarrow> f | Some i \<Rightarrow> take i f @ v @ drop (i + 2) f)"

text \<open>
  One line of the cells; the result is the text and the number of bytes counted. A row with more
  cells than the header has columns indexes past the widths.
\<close>

definition print_line :: "fill_lib \<Rightarrow> Table \<Rightarrow> string list list \<Rightarrow> nat \<Rightarrow> string" where
  "print_line fl t rowLines li =
     concat (map (\<lambda>ci.
        let ls = rowLines ! ci;
            v = (if li < length ls then ls ! li else []);
            w = t_width t ! ci;
            f = (if ci = 0 then CellFormat0 (t_cfg t) else CellFormat1 (t_cfg t))
        in sprintf_s f ((if t_rwf t ! ci then FillLeft fl else FillRight fl) v w))
       [0..<length rowLines])"

definition wPrintRow :: "fill_lib \<Rightarrow> Table \<Rightarrow> string list \<Rightarrow> (string \<times> nat) option" where
  "wPrintRow fl t rw =
     (if length (t_width t) < length rw then None
      else case opt_all (map (\<lambda>(r, w). splitLines r w) (zip rw (t_width t))) of
          None \<Rightarrow> None
        | Some rowLines \<Rightarrow>
            (let maxLines = foldl (\<lambda>m ls. max m (length ls)) 0 rowLines;
                 ls = map (print_line fl t rowLines) [0..<maxLines]
             in Some (join_with [CHR 0x0A] ls, sum_list (map length ls))))"

definition printRow :: "fill_lib \<Rightarrow> Table \<Rightarrow> string list \<Rightarrow> Table option" where
  "printRow fl t rw = map_option (\<lambda>(s, n). t\<lparr>t_out := t_out t @ s\<rparr>) (wPrintRow fl t rw)"

definition updateAlignment :: "Table \<Rightarrow> table_column list \<Rightarrow> Table" where
  "updateAlignment t cs =
     t\<lparr>t_rwf := map (\<lambda>h. Align h < 0) cs,
       t_width := map (\<lambda>h. if Align h < 0 then - Align h else Align h) cs\<rparr>"

text \<open>Only called with a separator, so the division is by a positive length.\<close>

definition makeSeparator :: "fill_lib \<Rightarrow> Table \<Rightarrow> table_column list \<Rightarrow> string option" where
  "makeSeparator fl t cs =
     (case wPrintRow fl t (map Header cs) of
        None \<Rightarrow> None
      | Some (s, n) \<Rightarrow>
          Some (concat (replicate (n div length (HeaderSeperator (t_cfg t))) (HeaderSeperator (t_cfg t)))))"

definition print_sep :: "Table \<Rightarrow> Table" where
  "print_sep t = (if t_sep t \<noteq> [] then t\<lparr>t_out := t_out t @ t_sep t @ [CHR 0x0A]\<rparr> else t)"

definition WriteHeader :: "fill_lib \<Rightarrow> Table \<Rightarrow> table_column list \<Rightarrow> Table option" where
  "WriteHeader fl t0 cs =
     (let t = updateAlignment t0 cs in
      Option.bind
        (if HeaderSeperator (t_cfg t) \<noteq> []
         then map_option (\<lambda>s. t\<lparr>t_sep := s\<rparr>) (makeSeparator fl t cs) else Some t)
        (\<lambda>t. Option.bind (printRow fl (print_sep t) (map Header cs))
           (\<lambda>t. Some (print_sep (t\<lparr>t_out := t_out t @ [CHR 0x0A]\<rparr>)))))"

definition WriteRow :: "fill_lib \<Rightarrow> Table \<Rightarrow> string list \<Rightarrow> Table option" where
  "WriteRow fl t rw =
     Option.bind (printRow fl (t\<lparr>t_rowIdx := t_rowIdx t + 1\<rparr>) rw)
       (\<lambda>t. Some (t\<lparr>t_out := t_out t @ [CHR 0x0A]\<rparr>))"

definition table_End :: "Table \<Rightarrow> Table" where
  "table_End t = t\<lparr>t_out := t_out t @ (if t_sep t \<noteq> [] then t_sep t else []) @ [CHR 0x0A]\<rparr>"

subsection \<open>Widths and alignment (utils.go)\<close>

definition minPositive :: "int \<Rightarrow> int \<Rightarrow> int" where
  "minPositive a b =
     (if a \<le> 0 then (if b > 0 then b else 0)
      else if b \<le> 0 then (if a > 0 then a else 0)
      else if a < b then a else b)"

definition maxInt :: "int \<Rightarrow> int \<Rightarrow> int" where
  "maxInt a b = (if a > b then a else b)"

definition minInt :: "int \<Rightarrow> int \<Rightarrow> int" where
  "minInt a b = (if a < b then a else b)"

definition clampInt :: "int \<Rightarrow> int \<Rightarrow> int \<Rightarrow> int" where
  "clampInt num a b = minInt a (maxInt num b)"

definition canBreakOutValue :: "column \<Rightarrow> bool" where
  "canBreakOutValue col \<longleftrightarrow>
     col_Type col = TypeJSONSerialization \<or> col_Type col = TypePortable \<or> col_Type col = TypeCompact"

definition alignmentForType :: "int \<Rightarrow> int" where
  "alignmentForType t =
     (if t \<in> {TypeByte, TypeInt8, TypeUInt16, TypeInt16, TypeInt32, TypeInt64, TypeFloat32, TypeFloat64,
              TypeJavaBigInteger, TypeJavaDecimal} then - 1 else 1)"

text \<open>The lengths of the largest printed values: 127, 32767 and so on, \<^verbatim>\<open>MaxFloat64\<close>, a UUID.\<close>

definition widthForType :: "int \<Rightarrow> int \<Rightarrow> int \<Rightarrow> int" where
  "widthForType t headerWidth defaultWidth =
     (if t = TypeByte then maxInt headerWidth 3
      else if t = TypeUInt16 \<or> t = TypeInt16 then maxInt headerWidth 5
      else if t = TypeInt32 then maxInt headerWidth 10
      else if t = TypeInt64 then maxInt headerWidth 19
      else if t = TypeFloat32 then maxInt headerWidth 22
      else if t = TypeFloat64 then maxInt headerWidth 23
      else if t = TypeBool then maxInt headerWidth 5
      else if t = TypeUUID then maxInt headerWidth 36
      else maxInt headerWidth defaultWidth)"

definition fixed_width_type :: "int \<Rightarrow> bool" where
  "fixed_width_type t \<longleftrightarrow>
     t \<in> {TypeByte, TypeUInt16, TypeInt16, TypeInt32, TypeInt64, TypeFloat32, TypeFloat64, TypeBool, TypeUUID}"

text \<open>Go's integer division truncates towards zero.\<close>

definition go_div :: "int \<Rightarrow> int \<Rightarrow> int" where
  "go_div a b = (if 0 \<le> a then a div b else - ((- a) div b))"

definition defaultWidthForFlexibleColumns :: "row \<Rightarrow> int \<Rightarrow> int" where
  "defaultWidthForFlexibleColumns hdr maxWidth =
     (if maxWidth < 1 then 1
      else
        (let padding = 3;
             fixedSize = foldl (\<lambda>s h. if fixed_width_type (col_Type h)
                then s + (widthForType (col_Type h) (int (length (col_Name h))) (int (length (col_Name h))) + padding)
                else s) 0 hdr;
             flexibleCount = int (length (filter (\<lambda>h. \<not> fixed_width_type (col_Type h)) hdr))
         in if flexibleCount = 0 then 1
            else let w = go_div (maxWidth - fixedSize) flexibleCount - padding
                 in if w < 0 then 1 else w))"

definition makeTableHeaderFromRow :: "row \<Rightarrow> int \<Rightarrow> table_column list" where
  "makeTableHeaderFromRow r maxWidth =
     (let dw0 = defaultWidthForFlexibleColumns r maxWidth;
          dw = (if dw0 > 1000 then 1000 else dw0)
      in map (\<lambda>c. \<lparr>Header = col_Name c,
                   Align = alignmentForType (col_Type c) *
                           widthForType (col_Type c) (int (length (col_Name c))) dw\<rparr>) r)"

subsection \<open>MakeTableFromRows\<close>

abbreviation (input) NameKey :: string where "NameKey \<equiv> ''__key''"

definition stdNames :: "string list" where
  "stdNames = [''__key'', ''__key_type'', ''this'', ''this_type'']"

type_synonym drow = "string \<rightharpoonup> column"

definition add_cell :: "string \<Rightarrow> column \<Rightarrow> string OrderedSet \<times> drow \<Rightarrow> string OrderedSet \<times> drow" where
  "add_cell n c st = (snd (OrderedSet_Add (fst st) n), (snd st)(n \<mapsto> c))"

text \<open>One column of a row: complex values are broken out, unless they were not decoded.\<close>

definition expand_col :: "(string \<Rightarrow> json_any option) \<Rightarrow> column \<Rightarrow> string OrderedSet \<times> drow \<Rightarrow>
    (string OrderedSet \<times> drow) option" where
  "expand_col unmarshal col st =
     (if col_Name col = NameKey then Some (add_cell (col_Name col) col st)
      else if canBreakOutValue col \<and> col_Value col \<noteq> CScalar ''string'' ValueNotDecoded then
        (case RowExtensions unmarshal col of
           None \<Rightarrow> None
         | Some (Inl ()) \<Rightarrow>
             Some (add_cell (col_Name col) (Column [] TypeString (CScalar ''string'' ValueNotDecoded)) st)
         | Some (Inr nc) \<Rightarrow>
             Some (add_cell (col_Name col) (Column [] TypeSkip CNil)
               (foldl (\<lambda>st sc.
                  let n = (if col_Name sc = [] then col_Name col else col_Name col @ ''.'' @ col_Name sc)
                  in add_cell n (Column n (col_Type sc) (col_Value sc)) st) st nc)))
      else Some (add_cell (col_Name col) col st))"

fun expand_row :: "(string \<Rightarrow> json_any option) \<Rightarrow> row \<Rightarrow> string OrderedSet \<times> drow \<Rightarrow>
    (string OrderedSet \<times> drow) option" where
  "expand_row um [] st = Some st"
| "expand_row um (col # cols) st = Option.bind (expand_col um col st) (expand_row um cols)"

fun expand_rows :: "(string \<Rightarrow> json_any option) \<Rightarrow> row list \<Rightarrow> string OrderedSet \<Rightarrow>
    (string OrderedSet \<times> drow list) option" where
  "expand_rows um [] hs = Some (hs, [])"
| "expand_rows um (r # rs) hs =
     Option.bind (expand_row um r (hs, Map.empty))
       (\<lambda>(hs', m). Option.bind (expand_rows um rs hs') (\<lambda>(hs'', ms). Some (hs'', m # ms)))"

definition table_header :: "string OrderedSet \<Rightarrow> string list" where
  "table_header hs =
     (let stdHeader = filter (OrderedSet_Contains hs) stdNames;
          hs' = foldl (\<lambda>s h. snd (OrderedSet_Delete s h)) hs stdNames
      in stdHeader @ OrderedSet_Items hs')"

definition drow_cell :: "drow \<Rightarrow> string \<Rightarrow> column" where
  "drow_cell m h = (case m h of None \<Rightarrow> Column h TypeNil CNil | Some v \<Rightarrow> v)"

text \<open>The width of a column is the longest text in it, at least its header.\<close>

definition MakeTableFromRows :: "(string \<Rightarrow> json_any option) \<Rightarrow> row list \<Rightarrow> int \<Rightarrow>
    (table_column list \<times> row list) option" where
  "MakeTableFromRows um rows maxWidth =
     Option.bind (expand_rows um rows NewOrderedSet)
       (\<lambda>(hs, drows).
          let header = table_header hs;
              cells = map (\<lambda>m. map (drow_cell m) header) drows
          in Option.bind (opt_all (map row_texts cells))
               (\<lambda>texts.
                  let width = foldl (\<lambda>w ts. map2 (\<lambda>a t. if length t > a then length t else a) w ts)
                                (map length header) texts;
                      align = (case cells of [] \<Rightarrow> map (\<lambda>h. 0) header
                                | c # _ \<Rightarrow> map (\<lambda>v. alignmentForType (col_Type v)) c)
                  in Some (map (\<lambda>(h, a, w). \<lparr>Header = trim_prefix h ''this.'',
                                              Align = a * minPositive maxWidth (int w)\<rparr>)
                             (zip header (zip align width)), cells)))"

lemma add_cell_inv: "OrderedSet_inv (fst st) \<Longrightarrow> OrderedSet_inv (fst (add_cell n c st))"
  by (simp add: add_cell_def OrderedSet_inv_Add)

lemma add_cell_items:
  "OrderedSet_inv (fst st) \<Longrightarrow>
     set (OrderedSet_Items (fst (add_cell n c st))) = insert n (set (OrderedSet_Items (fst st)))"
  by (auto simp: add_cell_def Items_Add)

text \<open>What expanding keeps: the set is well formed and holds the names of all cells so far.\<close>

definition exp_inv :: "string OrderedSet \<times> drow \<Rightarrow> bool" where
  "exp_inv st \<longleftrightarrow> OrderedSet_inv (fst st) \<and> dom (snd st) \<subseteq> set (OrderedSet_Items (fst st))"

lemma add_cell_dom: "dom (snd (add_cell n c st)) = insert n (dom (snd st))"
  by (simp add: add_cell_def)

definition extends :: "string OrderedSet \<times> drow \<Rightarrow> string OrderedSet \<times> drow \<Rightarrow> bool" where
  "extends st st' \<longleftrightarrow> exp_inv st' \<and> set (OrderedSet_Items (fst st)) \<subseteq> set (OrderedSet_Items (fst st'))"

lemma extends_add: "exp_inv st \<Longrightarrow> extends st (add_cell n c st)"
  by (auto simp: exp_inv_def extends_def add_cell_inv add_cell_items add_cell_dom)

lemma extends_refl: "exp_inv st \<Longrightarrow> extends st st"
  by (simp add: extends_def)

lemma extends_trans: "extends st st' \<Longrightarrow> extends st' st'' \<Longrightarrow> extends st st''"
  by (auto simp: extends_def)

lemma extends_inv: "extends st st' \<Longrightarrow> exp_inv st'"
  by (simp add: extends_def)

lemma extends_fold:
  assumes "exp_inv st" "\<And>st sc. exp_inv st \<Longrightarrow> extends st (f st sc)"
  shows "extends st (foldl f st nc)"
  using assms(1)
proof (induction nc arbitrary: st)
  case (Cons sc nc)
  have "extends st (f st sc)" using assms(2) Cons.prems by blast
  then show ?case using Cons.IH [OF extends_inv] extends_trans by (metis foldl_Cons)
qed (simp add: extends_refl)

lemma expand_col_extends:
  assumes "exp_inv st" "expand_col um col st = Some st'"
  shows "extends st st'"
proof -
  let ?f = "\<lambda>st sc. let n = (if col_Name sc = [] then col_Name col else col_Name col @ ''.'' @ col_Name sc)
      in add_cell n (Column n (col_Type sc) (col_Value sc)) st"
  have f: "extends st (foldl ?f st nc)" for nc
    by (rule extends_fold [OF assms(1)]) (simp add: Let_def extends_add)
  consider n c where "st' = add_cell n c st" | n c nc where "st' = add_cell n c (foldl ?f st nc)"
    using assms(2) by (auto simp: expand_col_def split: if_splits option.splits sum.splits unit.splits)
  then show ?thesis
    using extends_add [OF assms(1)] f extends_add [OF extends_inv [OF f]] extends_trans by cases blast+
qed

lemma expand_row_extends:
  "exp_inv st \<Longrightarrow> expand_row um r st = Some st' \<Longrightarrow> extends st st'"
proof (induction um r st rule: expand_row.induct)
  case (2 um col cols st)
  then obtain st1 where st1: "expand_col um col st = Some st1" "expand_row um cols st1 = Some st'"
    by (auto split: bind_splits)
  have "extends st st1" using expand_col_extends [OF "2.prems"(1) st1(1)] .
  moreover from this have "extends st1 st'" using "2.IH" [OF st1(1) extends_inv] st1(2) by simp
  ultimately show ?case by (rule extends_trans)
qed (simp add: extends_refl)

lemma expand_rows_inv:
  "OrderedSet_inv hs \<Longrightarrow> expand_rows um rs hs = Some (hs', ms) \<Longrightarrow>
     OrderedSet_inv hs' \<and> length ms = length rs \<and>
     set (OrderedSet_Items hs) \<subseteq> set (OrderedSet_Items hs') \<and>
     (\<forall>m \<in> set ms. dom m \<subseteq> set (OrderedSet_Items hs'))"
proof (induction um rs hs arbitrary: ms rule: expand_rows.induct)
  case (2 um r rs hs)
  then obtain hs1 m ms' where e: "expand_row um r (hs, Map.empty) = Some (hs1, m)"
      "expand_rows um rs hs1 = Some (hs', ms')" "ms = m # ms'"
    by (auto split: bind_splits)
  have "exp_inv (hs, Map.empty)" using 2 by (simp add: exp_inv_def)
  from expand_row_extends [OF this e(1)] have a: "exp_inv (hs1, m)"
      "set (OrderedSet_Items hs) \<subseteq> set (OrderedSet_Items hs1)" by (simp_all add: extends_def)
  then have "OrderedSet_inv hs1" "dom m \<subseteq> set (OrderedSet_Items hs1)" by (simp_all add: exp_inv_def)
  then show ?case using "2.IH" [OF e(1) refl _ e(2)] a e(3) by auto
qed auto

lemma delete_all:
  "OrderedSet_inv hs \<Longrightarrow>
     OrderedSet_Items (foldl (\<lambda>s h. snd (OrderedSet_Delete s h)) hs ns) =
       filter (\<lambda>x. x \<notin> set ns) (OrderedSet_Items hs)"
proof (induction ns arbitrary: hs)
  case (Cons n ns)
  then show ?case
    by (auto simp: OrderedSet_inv_Delete Items_Delete intro!: filter_cong)
qed simp

lemma table_header_items:
  assumes "OrderedSet_inv hs"
  shows "distinct (table_header hs)" "set (table_header hs) = set (OrderedSet_Items hs)"
proof -
  have "distinct stdNames" by (simp add: stdNames_def)
  then show "distinct (table_header hs)"
    using Items_distinct [OF assms] by (auto simp: table_header_def Let_def delete_all [OF assms])
  show "set (table_header hs) = set (OrderedSet_Items hs)"
    by (auto simp: table_header_def Let_def delete_all [OF assms] Contains_Items [OF assms])
qed

lemma width_fold:
  "(\<And>ts. ts \<in> set tss \<Longrightarrow> length ts = length w) \<Longrightarrow>
     length (foldl (\<lambda>w ts. map2 (\<lambda>a t. if length t > a then length t else a) w ts) w tss) = length w"
  by (induction tss arbitrary: w) auto

lemma row_texts_length: "row_texts r = Some ts \<Longrightarrow> length ts = length r"
  by (auto simp: row_texts_def opt_all_Some_iff dest: map_eq_imp_length_eq)

lemma minPositive_pos: "0 < a \<Longrightarrow> 0 < minPositive a b"
  by (simp add: minPositive_def)

lemma splitLines_Some: "0 < w \<Longrightarrow> \<exists>ls. splitLines s w = Some ls"
  by (simp add: splitLines_def Let_def)

lemma wPrintRow_printable:
  assumes "length ts = length cols" "\<And>c. c \<in> set cols \<Longrightarrow> Align c \<noteq> 0"
  shows "wPrintRow fl (updateAlignment t cols) ts \<noteq> None"
proof -
  let ?w = "map (\<lambda>h. if Align h < 0 then - Align h else Align h) cols"
  have "\<exists>ls. (case p of (r, w) \<Rightarrow> splitLines r w) = Some ls" if "p \<in> set (zip ts ?w)" for p
  proof -
    obtain r w where p: "p = (r, w)" by fastforce
    then have "w \<in> set ?w" using that set_zip_rightD by fastforce
    then have "0 < w" using assms(2) by force
    then show ?thesis using splitLines_Some p by simp
  qed
  then have "\<exists>z. opt_all (map (\<lambda>(r, w). splitLines r w) (zip ts ?w)) = Some z"
    by (intro opt_all_Some) auto
  then show ?thesis using assms(1) by (auto simp: wPrintRow_def updateAlignment_def Let_def)
qed

lemma list_all2_left: "list_all2 P xs ys \<Longrightarrow> x \<in> set xs \<Longrightarrow> \<exists>y \<in> set ys. P x y"
  by (induction rule: list_all2_induct) auto

text \<open>
  C37: the table made from rows with arbitrary and differing columns is rectangular and complete. It
  has as many rows as were given; the header names are distinct and hold every name that occurs in
  the expansion of any row, the standard columns first; each row has one cell per header column,
  the row's own cell where it has one and a nil cell elsewhere; and on a console with a positive
  width every row can be printed under that header without a panic.
\<close>

theorem MakeTableFromRows_rectangular:
  assumes "MakeTableFromRows um rows maxWidth = Some (cols, rows')" "0 < maxWidth"
  shows "\<exists>hs drows. expand_rows um rows NewOrderedSet = Some (hs, drows) \<and>
    distinct (table_header hs) \<and> length drows = length rows \<and>
    map Header cols = map (\<lambda>h. trim_prefix h ''this.'') (table_header hs) \<and>
    rows' = map (\<lambda>m. map (drow_cell m) (table_header hs)) drows \<and>
    (\<forall>m \<in> set drows. dom m \<subseteq> set (table_header hs)) \<and>
    (\<forall>r \<in> set rows'. length r = length cols \<and>
       (\<exists>ts. row_texts r = Some ts \<and> (\<forall>fl t. wPrintRow fl (updateAlignment t cols) ts \<noteq> None)))"
proof -
  obtain hs drows where e: "expand_rows um rows NewOrderedSet = Some (hs, drows)"
    using assms(1) by (auto simp: MakeTableFromRows_def split: bind_splits)
  let ?h = "table_header hs" and ?cells = "map (\<lambda>m. map (drow_cell m) (table_header hs)) drows"
  obtain texts where texts: "opt_all (map row_texts ?cells) = Some texts"
    using assms(1) by (auto simp: MakeTableFromRows_def e Let_def split: bind_splits)
  define width where "width = foldl (\<lambda>w ts. map2 (\<lambda>a t. if length t > a then length t else a) w ts)
      (map length ?h) texts"
  define align where "align = (case ?cells of [] \<Rightarrow> map (\<lambda>h. 0) ?h
      | c # _ \<Rightarrow> map (\<lambda>v. alignmentForType (col_Type v)) c)"
  have cols: "cols = map (\<lambda>(h, a, w). \<lparr>Header = trim_prefix h ''this.'', Align = a * minPositive maxWidth (int w)\<rparr>)
      (zip ?h (zip align width))" and rows': "rows' = ?cells"
    using assms(1) texts by (auto simp: MakeTableFromRows_def e Let_def width_def align_def comp_def)
  have tl: "list_all2 (\<lambda>r ts. row_texts r = Some ts) ?cells texts"
    using texts opt_all_map_Some by blast
  have "length ts = length ?h" if "ts \<in> set texts" for ts
    using list_all2_right [OF tl that] row_texts_length by fastforce
  then have lw: "length width = length ?h" using width_fold [of texts "map length ?h"] by (simp add: width_def)
  have la: "length align = length ?h" by (cases drows) (simp_all add: align_def)
  have lc: "length cols = length ?h" by (simp add: cols lw la)
  have inv: "OrderedSet_inv hs" "length drows = length rows" "\<forall>m \<in> set drows. dom m \<subseteq> set (OrderedSet_Items hs)"
    using expand_rows_inv [OF OrderedSet_inv_New e] by simp_all
  have "map Header cols = map (\<lambda>h. trim_prefix h ''this.'') ?h"
    by (rule nth_equalityI) (simp_all add: cols lw la)
  moreover have "length r = length cols \<and>
      (\<exists>ts. row_texts r = Some ts \<and> (\<forall>fl t. wPrintRow fl (updateAlignment t cols) ts \<noteq> None))"
    if "r \<in> set ?cells" for r
  proof -
    obtain ts where ts: "row_texts r = Some ts"
      using list_all2_left [OF tl \<open>r \<in> set ?cells\<close>] by blast
    have lr: "length r = length cols" using that lc by auto
    have "drows \<noteq> []" using that by auto
    then have "\<forall>a \<in> set align. a \<noteq> 0" by (cases drows) (auto simp: align_def alignmentForType_def)
    have "Align c \<noteq> 0" if "c \<in> set cols" for c
    proof -
      obtain h a w where "(h, a, w) \<in> set (zip ?h (zip align width))"
          and c: "Align c = a * minPositive maxWidth (int w)"
        using \<open>c \<in> set cols\<close> unfolding cols by auto
      then have "a \<in> set align" by (meson set_zip_leftD set_zip_rightD)
      then have "a \<noteq> 0" using \<open>\<forall>a \<in> set align. a \<noteq> 0\<close> by blast
      then show ?thesis using minPositive_pos [OF assms(2), of "int w"] by (simp add: c)
    qed
    then show ?thesis using ts lr row_texts_length [OF ts] wPrintRow_printable by auto
  qed
  ultimately show ?thesis
    using e inv table_header_items [OF inv(1)] rows' by auto
qed

definition sample_rows :: "row list" where
  "sample_rows =
     [[Column ''__key'' TypeString (CScalar ''string'' ''k1''),
       Column ''this'' TypeCompact (CColumnMap [Column ''age'' TypeInt32 (CScalar ''int32'' ''36'')])],
      [Column ''__key'' TypeString (CScalar ''string'' ''k2''), Column ''this'' TypeInt32 (CScalar ''int32'' ''5'')]]"

lemma MakeTableFromRows_rectangular_witness:
  "\<exists>cols rows'. MakeTableFromRows (\<lambda>s. None) sample_rows 80 = Some (cols, rows') \<and>
     (\<forall>r \<in> set rows'. length r = length cols)"
proof -
  have "MakeTableFromRows (\<lambda>s. None) sample_rows 80 \<noteq> None" by code_simp
  then obtain cols rows' where m: "MakeTableFromRows (\<lambda>s. None) sample_rows 80 = Some (cols, rows')" by auto
  have "\<forall>r \<in> set rows'. length r = length cols"
    using MakeTableFromRows_rectangular [OF m] by fastforce
  then show ?thesis using m by blast
qed

subsection \<open>TableResult and the printers\<close>

text \<open>\<open>t_hdr\<close> is \<^const>\<open>None\<close> for a nil header; \<open>no_color\<close> is \<^verbatim>\<open>color.NoColor\<close>.\<close>

record TableResult =
  tr_hdr :: "table_column list option"
  tr_maxWidth :: int

definition NewTableResult :: "table_column list option \<Rightarrow> int \<Rightarrow> TableResult option" where
  "NewTableResult hdr maxWidth =
     (if hdr = None \<and> maxWidth \<le> 0 then None else Some \<lparr>tr_hdr = hdr, tr_maxWidth = maxWidth\<rparr>)"

definition table_write_row :: "fill_lib \<Rightarrow> TableResult \<Rightarrow> row \<Rightarrow> Table \<times> bool \<Rightarrow>
    (Table \<times> bool) \<times> go_error option" where
  "table_write_row fl tr vr st =
     (let (t, wroteHeader) = st in
      case (if wroteHeader then Some t
            else WriteHeader fl t
              (case tr_hdr tr of Some h \<Rightarrow> h | None \<Rightarrow> makeTableHeaderFromRow vr (tr_maxWidth tr))) of
        None \<Rightarrow> (st, Some panic_error)
      | Some t1 \<Rightarrow>
          (case Option.bind (row_texts vr) (WriteRow fl t1) of
             None \<Rightarrow> ((t1, True), Some panic_error)
           | Some t2 \<Rightarrow> ((t2, True), None)))"

definition Table_Serialize :: "fill_lib \<Rightarrow> bool \<Rightarrow> TableResult \<Rightarrow> (nat \<Rightarrow> go_error option) \<Rightarrow>
    ('s \<Rightarrow> (go_error + row option) \<times> 's) \<Rightarrow> nat \<Rightarrow> 's \<Rightarrow> (string \<times> go_error option) option" where
  "Table_Serialize fl no_color tr ctxErr nextRow n rp =
     (let cfg = \<lparr>CellFormat0 = '' %s '', CellFormat1 = ''| %s '',
                 HeaderSeperator = (if no_color then ''-'' else [])\<rparr>
      in case serialize_loop ctxErr nextRow (table_write_row fl tr) n 0 rp (table_New cfg, False) of
           None \<Rightarrow> None
         | Some ((t, b), Some e) \<Rightarrow> Some (t_out t, Some e)
         | Some ((t, b), None) \<Rightarrow> Some (t_out (table_End t), None))"

text \<open>
  \<^verbatim>\<open>terminal.ConsoleWidth\<close>: the environment variable when it is a number, else the size of the
  console, 1000 when that is unknown.
\<close>

definition ConsoleWidth :: "string option \<Rightarrow> int \<Rightarrow> int" where
  "ConsoleWidth env_max_cols console_size =
     (let s = (if console_size = 0 then 1000 else console_size) in
      case env_max_cols of
        Some v \<Rightarrow> (case atoi v of Inr n \<Rightarrow> n | Inl e \<Rightarrow> s)
      | None \<Rightarrow> s)"

record print_env =
  pe_fill :: fill_lib
  pe_no_color :: bool
  pe_unmarshal :: "string \<Rightarrow> json_any option"
  pe_marshal :: "(string \<times> json_out) list \<Rightarrow> go_error + string"
  pe_write :: "string \<Rightarrow> string \<Rightarrow> go_error option"
  pe_ctx :: "nat \<Rightarrow> go_error option"
  pe_max_cols :: "string option"
  pe_console :: int

definition pe_width :: "print_env \<Rightarrow> int" where
  "pe_width pe = ConsoleWidth (pe_max_cols pe) (pe_console pe)"

text \<open>
  The printers: what is written, and the error. The fuel is one more than the number of rows, which
  is enough for \<open>SimpleRows\<close>; a panic while the table is laid out writes nothing.
\<close>

definition out_only :: "((string \<times> nat) \<times> go_error option) option \<Rightarrow> string \<times> go_error option" where
  "out_only r = (case r of None \<Rightarrow> ([], Some panic_error) | Some ((s, n), e) \<Rightarrow> (s, e))"

definition DelimitedPrinter_PrintRows :: "print_env \<Rightarrow> row list \<Rightarrow> string \<times> go_error option" where
  "DelimitedPrinter_PrintRows pe rows =
     out_only (Delimited_Serialize (pe_ctx pe) SimpleRows_NextRow (pe_write pe) [CHR 0x09] True
       (Suc (length rows)) (NewSimpleRows rows))"

definition JSONPrinter_PrintRows :: "print_env \<Rightarrow> row list \<Rightarrow> string \<times> go_error option" where
  "JSONPrinter_PrintRows pe rows =
     out_only (JSON_Serialize (pe_marshal pe) (pe_ctx pe) SimpleRows_NextRow (pe_write pe)
       (Suc (length rows)) (NewSimpleRows rows))"

definition CSVPrinter_PrintRows :: "print_env \<Rightarrow> row list \<Rightarrow> string \<times> go_error option" where
  "CSVPrinter_PrintRows pe rows =
     (case CSV_Serialize (pe_ctx pe) SimpleRows_NextRow (pe_write pe) (Suc (length rows)) (NewSimpleRows rows) of
        None \<Rightarrow> ([], Some panic_error) | Some r \<Rightarrow> r)"

definition TablePrinter_PrintRows :: "print_env \<Rightarrow> row list \<Rightarrow> string \<times> go_error option" where
  "TablePrinter_PrintRows pe rows0 =
     (case MakeTableFromRows (pe_unmarshal pe) rows0 (pe_width pe) of
        None \<Rightarrow> ([], Some panic_error)
      | Some (header, rows) \<Rightarrow>
          (case NewTableResult (Some header) (pe_width pe) of
             None \<Rightarrow> ([], Some panic_error)
           | Some tr \<Rightarrow>
               (case Table_Serialize (pe_fill pe) (pe_no_color pe) tr (pe_ctx pe) SimpleRows_NextRow
                       (Suc (length rows)) (NewSimpleRows rows) of
                  None \<Rightarrow> ([], Some panic_error) | Some r \<Rightarrow> r)))"

text \<open>The same for a channel, with the fuel as an argument: a stream need not end.\<close>

definition DelimitedPrinter_PrintStream ::
    "print_env \<Rightarrow> nat \<Rightarrow> chan_event list \<Rightarrow> ((string \<times> nat) \<times> go_error option) option" where
  "DelimitedPrinter_PrintStream pe n ch =
     Delimited_Serialize (pe_ctx pe) ChanRows_NextRow (pe_write pe) [CHR 0x09] True n ch"

definition JSONPrinter_PrintStream ::
    "print_env \<Rightarrow> nat \<Rightarrow> chan_event list \<Rightarrow> ((string \<times> nat) \<times> go_error option) option" where
  "JSONPrinter_PrintStream pe n ch =
     JSON_Serialize (pe_marshal pe) (pe_ctx pe) ChanRows_NextRow (pe_write pe) n ch"

definition CSVPrinter_PrintStream ::
    "print_env \<Rightarrow> nat \<Rightarrow> chan_event list \<Rightarrow> (string \<times> go_error option) option" where
  "CSVPrinter_PrintStream pe n ch = CSV_Serialize (pe_ctx pe) ChanRows_NextRow (pe_write pe) n ch"

definition TablePrinter_PrintStream ::
    "print_env \<Rightarrow> nat \<Rightarrow> chan_event list \<Rightarrow> (string \<times> go_error option) option" where
  "TablePrinter_PrintStream pe n ch =
     (case NewTableResult None (pe_width pe) of
        None \<Rightarrow> Some ([], Some panic_error)
      | Some tr \<Rightarrow>
          Table_Serialize (pe_fill pe) (pe_no_color pe) tr (pe_ctx pe) ChanRows_NextRow n ch)"

end
