(* ===== verification/Effects.thy ===== *)
theory Effects
  imports Prelude
begin

section \<open>Steps with a state and an error\<close>

text \<open>
  A Go function that returns an error and changes something is a function from the state to a
  result, \<^const>\<open>Inl\<close> for an error, and the new state. \<open>andthen\<close> is \<^verbatim>\<open>if err != nil { return err }\<close>
  between two calls: an error ends the function with the state reached so far.
\<close>

type_synonym ('s, 'a) eff = "'s \<Rightarrow> (go_error + 'a) \<times> 's"

definition ret :: "'a \<Rightarrow> ('s, 'a) eff" where
  "ret x s = (Inr x, s)"

definition fail :: "go_error \<Rightarrow> ('s, 'a) eff" where
  "fail e s = (Inl e, s)"

definition andthen :: "('s, 'a) eff \<Rightarrow> ('a \<Rightarrow> ('s, 'b) eff) \<Rightarrow> ('s, 'b) eff" where
  "andthen m f s = (case m s of (Inl e, s') \<Rightarrow> (Inl e, s') | (Inr x, s') \<Rightarrow> f x s')"

definition with_state :: "('s \<Rightarrow> ('s, 'a) eff) \<Rightarrow> ('s, 'a) eff" where
  "with_state f s = f s s"

definition modify_state :: "('s \<Rightarrow> 's) \<Rightarrow> ('s, unit) eff" where
  "modify_state f s = (Inr (), f s)"

definition lift_res :: "go_error + 'a \<Rightarrow> ('s, 'a) eff" where
  "lift_res r s = (r, s)"

text \<open>An error with a text put before it, \<^verbatim>\<open>fmt.Errorf("...: %w", err)\<close>.\<close>

definition wrap_err :: "string \<Rightarrow> ('s, 'a) eff \<Rightarrow> ('s, 'a) eff" where
  "wrap_err t m s = (case m s of (Inl e, s') \<Rightarrow> (Inl (Wrapf t e), s') | r \<Rightarrow> r)"

fun foreach :: "('x \<Rightarrow> ('s, 'a) eff) \<Rightarrow> 'x list \<Rightarrow> ('s, 'a list) eff" where
  "foreach f [] = ret []"
| "foreach f (x # xs) = andthen (f x) (\<lambda>y. andthen (foreach f xs) (\<lambda>ys. ret (y # ys)))"

named_theorems step_simps \<open>how a step computes its result and state\<close>

lemma ret_step [step_simps]: "ret x s = (Inr x, s)"
  by (simp add: ret_def)

lemma fail_step [step_simps]: "fail e s = (Inl e, s)"
  by (simp add: fail_def)

lemma lift_res_step [step_simps]: "lift_res r s = (r, s)"
  by (simp add: lift_res_def)

lemma with_state_step [step_simps]: "with_state f s = f s s"
  by (simp add: with_state_def)

lemma andthen_Inl [step_simps]: "m s = (Inl e, s') \<Longrightarrow> andthen m f s = (Inl e, s')"
  by (simp add: andthen_def)

lemma andthen_Inr [step_simps]: "m s = (Inr x, s') \<Longrightarrow> andthen m f s = f x s'"
  by (simp add: andthen_def)

text \<open>The laws of sequencing.\<close>

lemma andthen_ret [simp]: "andthen (ret x) f = f x"
  by (rule ext) (simp add: andthen_def ret_def)

lemma andthen_fail [simp]: "andthen (fail e) f = fail e"
  by (rule ext) (simp add: andthen_def fail_def)

lemma andthen_assoc: "andthen (andthen m f) g = andthen m (\<lambda>x. andthen (f x) g)"
  by (rule ext) (simp add: andthen_def split: prod.splits sum.splits)

lemma andthen_Inr_iff:
  "andthen m f s = (Inr y, s'') \<longleftrightarrow> (\<exists>x s'. m s = (Inr x, s') \<and> f x s' = (Inr y, s''))"
  by (auto simp: andthen_def split: prod.splits sum.splits)

lemma foreach_Inr_length: "foreach f xs s = (Inr ys, s') \<Longrightarrow> length ys = length xs"
  by (induction xs arbitrary: s ys s') (auto simp: ret_def andthen_Inr_iff)

text \<open>A relation that a step keeps between the state before and the state after.\<close>

definition steps_keep :: "('s \<Rightarrow> 's \<Rightarrow> bool) \<Rightarrow> ('s, 'a) eff \<Rightarrow> bool" where
  "steps_keep R m \<longleftrightarrow> (\<forall>s. R s (snd (m s)))"

lemma keep_ret: "(\<And>s. R s s) \<Longrightarrow> steps_keep R (ret x)"
  by (simp add: steps_keep_def ret_def)

lemma keep_fail: "(\<And>s. R s s) \<Longrightarrow> steps_keep R (fail e)"
  by (simp add: steps_keep_def fail_def)

lemma snd_wrap_err [simp]: "snd (wrap_err t m s) = snd (m s)"
  by (simp add: wrap_err_def split: prod.split sum.split)

lemma keep_wrap: "steps_keep R m \<Longrightarrow> steps_keep R (wrap_err t m)"
  by (simp add: steps_keep_def)

lemma keep_with_state: "(\<And>s. steps_keep R (f s)) \<Longrightarrow> steps_keep R (with_state f)"
  by (simp add: steps_keep_def with_state_def)

lemma keep_andthen:
  assumes "\<And>a b c. R a b \<Longrightarrow> R b c \<Longrightarrow> R a c" "steps_keep R m" "\<And>x. steps_keep R (f x)"
  shows "steps_keep R (andthen m f)"
  unfolding steps_keep_def
proof
  fix s
  obtain r s1 where m: "m s = (r, s1)" by fastforce
  have R1: "R s s1" using assms(2) m by (metis snd_conv steps_keep_def)
  show "R s (snd (andthen m f s))"
  proof (cases r)
    case (Inl e)
    then show ?thesis using m R1 by (simp add: andthen_def)
  next
    case (Inr x)
    have "R s1 (snd (f x s1))" using assms(3) by (simp add: steps_keep_def)
    then show ?thesis using m Inr assms(1) [OF R1] by (simp add: andthen_def)
  qed
qed

end
