(* ===== verification/ExecContext.thy ===== *)
theory ExecContext
  imports CmdArgs TableOut Version Effects
begin

section \<open>Running a command (clc/cmd/exec_context.go, utils.go, internal/prompt)\<close>

text \<open>
  A command's \<open>Exec\<close> works on its execution context and, through the client, on the cluster. The
  record \<open>cstate\<close> is all of that state: the properties and arguments, the mode, what was written to
  the standard output, the metrics counted, the lines the user will type, and a world of any type,
  which is the cluster. The operations on the world are fields of the record \<open>cenv\<close>: they are the
  client library's.

  Every step returns a result, \<^const>\<open>Inl\<close> for a Go error, and the new state; \<open>andthen\<close> is the
  code's \<^verbatim>\<open>if err != nil { return err }\<close>. The texts of the spinner are left out.
\<close>

subsection \<open>State and environment\<close>

text \<open>How a call of \<open>ExecuteBlocking\<close> ends: normally, or interrupted before or after its effects.\<close>

datatype blocking = BlockingDone | BlockingCancelledBefore | BlockingCancelledAfter

record 'w cstate =
  cs_props :: Properties
  cs_args :: "string list"
  cs_kwargs :: "string \<rightharpoonup> go_val"
  cs_mode :: Mode
  cs_printer :: "string option"
  cs_out :: "string list"
  cs_metrics :: "((string \<times> string) \<times> string) list"
  cs_input :: "(go_error + string) list"
  cs_sched :: "blocking list"
  cs_connected :: bool
  cs_world :: 'w

type_synonym ('w, 'a) step = "('w cstate, 'a) eff"

definition on_world :: "('w \<Rightarrow> (go_error + 'a) \<times> 'w) \<Rightarrow> ('w, 'a) step" where
  "on_world f s = (let (r, w') = f (cs_world s) in (r, s\<lparr>cs_world := w'\<rparr>))"

definition ErrUserCancelled :: go_error where
  "ErrUserCancelled = Sentinel ''canceled''"

definition ErrNotDecoded :: go_error where
  "ErrNotDecoded = Sentinel ''not decoded''"

definition ErrNotAvailable :: go_error where
  "ErrNotAvailable = Sentinel ''not available''"

definition ErrNoClusterConfig :: go_error where
  "ErrNoClusterConfig = Sentinel ''no configuration was specified''"

text \<open>
  The environment: printers by name, terminals, the phone-home switch, the configuration provider
  (\<open>ClientConfig\<close>), the connection (\<open>StartNewClientWithConfig\<close>), the version of a connected member
  (None when there is none), the ids of the cluster, the environment variables,
  \<^verbatim>\<open>time.ParseDuration\<close> and the formatting of floats.
\<close>

record 'w cenv =
  ce_fl :: float_lib
  ce_printers :: "string \<rightharpoonup> (row list \<Rightarrow> string \<times> go_error option)"
  ce_pipe :: bool
  ce_green :: "string \<Rightarrow> string"
  ce_red :: "string \<Rightarrow> string"
  ce_phone_home :: bool
  ce_client_config :: "'w \<Rightarrow> (go_error + unit) \<times> 'w"
  ce_connect :: "'w \<Rightarrow> (go_error + unit) \<times> 'w"
  ce_server_version :: "'w \<Rightarrow> string option"
  ce_cluster_id :: "'w \<Rightarrow> string"
  ce_cluster_name :: "'w \<Rightarrow> string option"
  ce_getenv :: "string \<Rightarrow> string"
  ce_parse_duration :: "string \<Rightarrow> go_error + int"

definition prop_string :: "'w cenv \<Rightarrow> 'w cstate \<Rightarrow> string \<Rightarrow> string" where
  "prop_string env s name =
     Properties_GetString (print_float64 (ce_fl env)) (print_float32 (ce_fl env)) (cs_props s) name"

definition prop_bool :: "'w cstate \<Rightarrow> string \<Rightarrow> bool" where
  "prop_bool s name = Properties_GetBool (cs_props s) name"

definition prop_int :: "'w cstate \<Rightarrow> string \<Rightarrow> int" where
  "prop_int s name = Properties_GetInt (cs_props s) name"

definition GetStringArg :: "'w cstate \<Rightarrow> string \<Rightarrow> string" where
  "GetStringArg s key = maps_GetString (cs_kwargs s) key"

definition GetStringSliceArg :: "'w cstate \<Rightarrow> string \<Rightarrow> string list" where
  "GetStringSliceArg s key = maps_GetStringSlice (cs_kwargs s) key"

definition GetKeyValuesArg :: "'w cstate \<Rightarrow> string \<Rightarrow> (string \<times> string) list" where
  "GetKeyValuesArg s key = maps_GetKeyValues (cs_kwargs s) key"

definition GetInt64Arg :: "'w cstate \<Rightarrow> string \<Rightarrow> int" where
  "GetInt64Arg s key = maps_GetInt64 (cs_kwargs s) key"

text \<open>\<open>SetArgs\<close>: the arguments are kept even when their conversion fails.\<close>

definition SetArgs :: "string list \<Rightarrow> ArgSpec list \<Rightarrow> 'w cstate \<Rightarrow> ((go_error + unit) \<times> 'w cstate) option" where
  "SetArgs args specs s =
     (let s1 = s\<lparr>cs_args := args\<rparr> in
      case makeKeywordArgs args specs of
        None \<Rightarrow> None
      | Some (Inl e) \<Rightarrow> Some (Inl e, s1)
      | Some (Inr kw) \<Rightarrow> Some (Inr (), s1\<lparr>cs_kwargs := kw\<rparr>))"

subsection \<open>Output\<close>

definition Quiet :: "'w cenv \<Rightarrow> 'w cstate \<Rightarrow> bool" where
  "Quiet env s \<longleftrightarrow> prop_bool s ''quiet'' \<or> ce_pipe env"

definition write_out :: "string \<Rightarrow> 'w cstate \<Rightarrow> 'w cstate" where
  "write_out t s = s\<lparr>cs_out := cs_out s @ [t]\<rparr>"

definition PrintlnUnnecessary :: "'w cenv \<Rightarrow> string \<Rightarrow> ('w, unit) step" where
  "PrintlnUnnecessary env text s =
     (if Quiet env s then (Inr (), s)
      else (Inr (), write_out (Colorize (ce_green env) (ce_red env) text @ [CHR 0x0A]) s))"

definition ensurePrinter :: "'w cenv \<Rightarrow> ('w, unit) step" where
  "ensurePrinter env s =
     (if cs_printer s \<noteq> None then (Inr (), s)
      else (let pn = prop_string env s ''format'' in
            case ce_printers env pn of
              None \<Rightarrow> (Inl (Errorf (''printer '' @ pn @ '' is not available'')), s)
            | Some _ \<Rightarrow> (Inr (), s\<lparr>cs_printer := Some pn\<rparr>)))"

definition print_rows :: "'w cenv \<Rightarrow> row list \<Rightarrow> ('w, unit) step" where
  "print_rows env rows s =
     (case Option.bind (cs_printer s) (ce_printers env) of
        None \<Rightarrow> (Inr (), s)
      | Some pr \<Rightarrow>
          (let (t, e) = pr rows; s' = write_out t s in
           case e of None \<Rightarrow> (Inr (), s') | Some err \<Rightarrow> (Inl err, s')))"

definition AddOutputRows :: "'w cenv \<Rightarrow> row list \<Rightarrow> ('w, unit) step" where
  "AddOutputRows env rows =
     (if rows = [] then ret () else andthen (ensurePrinter env) (\<lambda>_. print_rows env rows))"

definition std_printers :: "print_env \<Rightarrow> string \<rightharpoonup> (row list \<Rightarrow> string \<times> go_error option)" where
  "std_printers pe =
     [''delimited'' \<mapsto> DelimitedPrinter_PrintRows pe, ''json'' \<mapsto> JSONPrinter_PrintRows pe,
      ''table'' \<mapsto> TablePrinter_PrintRows pe, ''csv'' \<mapsto> CSVPrinter_PrintRows pe]"

subsection \<open>Prompts\<close>

text \<open>A read from the terminal; at the end of the input it fails.\<close>

definition readline :: "string \<Rightarrow> ('w, string) step" where
  "readline prompt s =
     (case cs_input s of
        [] \<Rightarrow> (Inl (Sentinel ''EOF''), write_out prompt s)
      | r # rest \<Rightarrow> (r, (write_out prompt s)\<lparr>cs_input := rest\<rparr>))"

definition YesNo :: "string \<Rightarrow> ('w, bool) step" where
  "YesNo q =
     andthen (readline (q @ '' (y/n) ''))
       (\<lambda>s. let a = trim_space (to_lower s) in ret (a = ''y'' \<or> a = ''yes''))"

definition prompt_Text :: "string \<Rightarrow> ('w, string) step" where
  "prompt_Text q = readline q"

definition prompt_Password :: "string \<Rightarrow> ('w, string) step" where
  "prompt_Password q = readline q"

subsection \<open>Blocking calls\<close>

text \<open>
  The waiting loop of \<open>ExecuteBlocking\<close> on the events its select sees: the context done (cancelled
  or with another error), the function's result, or a tick of the spinner, with whether the spinner
  was paused then. \<open>started\<close> says whether the spinner was started.
\<close>

datatype 'v block_event = EvCancelled | EvCtxDone go_error | EvResult "go_error + 'v" | EvTick bool

fun blocking_loop :: "bool \<Rightarrow> bool \<Rightarrow> 'v block_event list \<Rightarrow> ((go_error + 'v) \<times> bool) option" where
  "blocking_loop quiet started [] = None"
| "blocking_loop quiet started (EvCancelled # evs) = Some (Inl ErrUserCancelled, started)"
| "blocking_loop quiet started (EvCtxDone e # evs) = Some (Inl e, started)"
| "blocking_loop quiet started (EvResult r # evs) = Some (r, started)"
| "blocking_loop quiet started (EvTick paused # evs) =
     blocking_loop quiet (if \<not> quiet \<and> \<not> paused then True else started) evs"

text \<open>\<open>ExecuteBlocking\<close> in the state of a command; the schedule says how it ends.\<close>

definition ExecuteBlocking :: "('w, 'a) step \<Rightarrow> ('w, 'a) step" where
  "ExecuteBlocking f s =
     (case cs_sched s of
        [] \<Rightarrow> f s
      | BlockingDone # rest \<Rightarrow> f (s\<lparr>cs_sched := rest\<rparr>)
      | BlockingCancelledBefore # rest \<Rightarrow> (Inl ErrUserCancelled, s\<lparr>cs_sched := rest\<rparr>)
      | BlockingCancelledAfter # rest \<Rightarrow> (Inl ErrUserCancelled, snd (f (s\<lparr>cs_sched := rest\<rparr>))))"

subsection \<open>Metrics of a command\<close>

definition parseViridianClusterID :: "string \<Rightarrow> string" where
  "parseViridianClusterID cid =
     (let s = split_on (CHR ''-'') cid in if length s \<noteq> 2 then [] else s ! 1)"

fun RunningModeString :: "Mode \<Rightarrow> string" where
  "RunningModeString ModeNonInteractive = ''noninteractive-mode''"
| "RunningModeString ModeInteractive = ''interactive-mode''"
| "RunningModeString ModeScripting = ''script-mode''"

text \<open>
  \<open>ensureClient\<close> starts a client only when the program has none, and \<open>ExecContext.ClientInternal\<close> asks
  the configuration provider for the configuration only then.
\<close>

definition ensureClient :: "'w cenv \<Rightarrow> ('w, unit) step" where
  "ensureClient env = with_state (\<lambda>s.
     if cs_connected s then ret ()
     else andthen (on_world (ce_connect env)) (\<lambda>_ s'. (Inr (), s'\<lparr>cs_connected := True\<rparr>)))"

definition ClientInternal :: "'w cenv \<Rightarrow> ('w, unit) step" where
  "ClientInternal env = with_state (\<lambda>s.
     if cs_connected s then ret ()
     else andthen (on_world (ce_client_config env)) (\<lambda>_. ensureClient env))"

definition FindClusterIDs :: "'w cenv \<Rightarrow> 'w cstate \<Rightarrow> (string \<times> string) \<times> 'w cstate" where
  "FindClusterIDs env s =
     (if \<not> ce_phone_home env then (([], []), s)
      else case ClientInternal env s of
          (Inl e, s') \<Rightarrow> (([], []), s')
        | (Inr _, s') \<Rightarrow>
            (let clusterID = ce_cluster_id env (cs_world s');
                 viridianID =
                   (if prop_string env s' ''cluster.discovery-token'' \<noteq> []
                    then (case ce_cluster_name env (cs_world s') of
                            None \<Rightarrow> [] | Some n \<Rightarrow> parseViridianClusterID n)
                    else [])
             in ((clusterID, viridianID), s')))"

definition IncrementClusterMetric :: "'w cenv \<Rightarrow> string \<Rightarrow> ('w, unit) step" where
  "IncrementClusterMetric env metric s =
     (let (ids, s') = FindClusterIDs env s in
      (Inr (), s'\<lparr>cs_metrics := cs_metrics s' @
         [(ids, metric @ ''.'' @ RunningModeString (cs_mode s'))]\<rparr>))"

definition IncrementMetric :: "string \<Rightarrow> ('w, unit) step" where
  "IncrementMetric metric s =
     (Inr (), s\<lparr>cs_metrics := cs_metrics s @ [(([], []), metric @ ''.'' @ RunningModeString (cs_mode s))]\<rparr>)"

subsection \<open>Start-up arguments, versions and durations\<close>

fun startup_loop :: "string \<Rightarrow> string \<Rightarrow> string \<Rightarrow> string list \<Rightarrow>
    (string \<times> string \<times> string) \<times> go_error option" where
  "startup_loop cfg lf ll [] = ((cfg, lf, ll), None)"
| "startup_loop cfg lf ll (a # rest) =
     (if a = ''--config'' \<or> a = ''-c'' then
        (case rest of
           [] \<Rightarrow> ((cfg, lf, ll), Some (Errorf (a @ '' requires the configuration name or path'')))
         | v # rest' \<Rightarrow> startup_loop v lf ll rest')
      else if a = ''--log.path'' then
        (case rest of
           [] \<Rightarrow> ((cfg, lf, ll), Some (Errorf (a @ '' requires a path'')))
         | v # rest' \<Rightarrow> startup_loop cfg v ll rest')
      else if a = ''--log.level'' then
        (case rest of
           [] \<Rightarrow> ((cfg, lf, ll), Some (Errorf (a @ '' requires a level'')))
         | v # rest' \<Rightarrow> startup_loop cfg lf v rest')
      else startup_loop cfg lf ll rest)"

definition ExtractStartupArgs :: "string list \<Rightarrow> (string \<times> string \<times> string) \<times> go_error option" where
  "ExtractStartupArgs args = startup_loop [] [] [] args"

definition CheckServerCompatible :: "'w cenv \<Rightarrow> string \<Rightarrow> 'w cstate \<Rightarrow> (string \<times> bool) option" where
  "CheckServerCompatible env targetVersion s =
     (case ce_server_version env (cs_world s) of
        None \<Rightarrow> Some (''UNKNOWN'', False)
      | Some sv \<Rightarrow>
          if ce_getenv env ''CLC_SKIP_SERVER_VERSION_CHECK'' = ''1'' then Some (sv, True)
          else map_option (\<lambda>ok. (sv, ok)) (CheckVersion sv ''>='' targetVersion))"

definition parseDuration :: "'w cenv \<Rightarrow> string \<Rightarrow> go_error + int" where
  "parseDuration env duration =
     (let ds = replace_all (CHR ''_'') [] duration in
      if ds = [] then Inr 0
      else case atoi ds of
          Inr d \<Rightarrow> Inr (int64 (d * 1000000))
        | Inl _ \<Rightarrow> ce_parse_duration env ds)"

subsection \<open>Errors shown to the user (errors/utils.go)\<close>

definition IsUserCancelled :: "go_error \<Rightarrow> bool" where
  "IsUserCancelled err \<longleftrightarrow> err_is err ''context canceled'' \<or> err_is err ''canceled'' \<or> err_is err ''Interrupt''"

definition IsTimeout :: "go_error \<Rightarrow> bool" where
  "IsTimeout err \<longleftrightarrow> err_is err ''context deadline exceeded'' \<or> err_is err ''timeout''"

text \<open>\<^verbatim>\<open>json.Unmarshal\<close> into a map is a parameter: the members of an object, None for an error.\<close>

definition makeErrorStringFromHTTPResponse :: "(string \<Rightarrow> (string \<times> json_any) list option) \<Rightarrow> string \<Rightarrow> string" where
  "makeErrorStringFromHTTPResponse unmarshal t =
     (case unmarshal t of
        None \<Rightarrow> t
      | Some kvs \<Rightarrow>
          (let m = map_of kvs in
           if m ''errorCode'' = Some (JOther (CScalar ''string'' ''ClusterTokenNotFound''))
           then ''Discovery token is not valid for this cluster''
           else (case m ''message'' of
                   Some (JOther (CScalar ''string'' vs)) \<Rightarrow> vs
                 | _ \<Rightarrow> t)))"

definition upper_first :: "string \<Rightarrow> string" where
  "upper_first s =
     (case s of [] \<Rightarrow> []
      | _ \<Rightarrow> (let r = concat (runes s) in
             if byte CHR ''a'' \<le> byte (r ! 0) \<and> byte (r ! 0) \<le> byte CHR ''z'' then upper_char (r ! 0) # drop 1 r else r))"

definition MakeString :: "(string \<Rightarrow> (string \<times> json_any) list option) \<Rightarrow> go_error \<Rightarrow> string" where
  "MakeString unmarshal err =
     (if IsTimeout err then ''TIMEOUT''
      else (let errStr = (case err_as_http err of
                            Some (code, t) \<Rightarrow> makeErrorStringFromHTTPResponse unmarshal t
                          | None \<Rightarrow> err_text err)
            in ''ERROR '' @ upper_first errStr))"

subsection \<open>A sample environment and state\<close>

definition sample_env :: "'w cenv" where
  "sample_env = \<lparr>ce_fl = no_floats, ce_printers = Map.empty, ce_pipe = False, ce_green = id, ce_red = id,
     ce_phone_home = False, ce_client_config = (\<lambda>w. (Inr (), w)), ce_connect = (\<lambda>w. (Inr (), w)),
     ce_server_version = (\<lambda>w. None), ce_cluster_id = (\<lambda>w. []), ce_cluster_name = (\<lambda>w. None),
     ce_getenv = (\<lambda>v. []), ce_parse_duration = (\<lambda>d. Inr 0)\<rparr>"

definition sample_state :: "nat cstate" where
  "sample_state = \<lparr>cs_props = NewProperties, cs_args = [], cs_kwargs = Map.empty, cs_mode = ModeNonInteractive,
     cs_printer = None, cs_out = [], cs_metrics = [], cs_input = [Inr ''nope''], cs_sched = [],
     cs_connected = False, cs_world = 7\<rparr>"

subsection \<open>What a step leaves alone\<close>

lemma connected_step: "cs_connected s \<Longrightarrow> ClientInternal env s = (Inr (), s)"
  by (simp add: ClientInternal_def with_state_def ret_def)

lemma metric_state: "cs_connected s \<Longrightarrow> \<exists>m. IncrementClusterMetric env t s = (Inr (), s\<lparr>cs_metrics := m\<rparr>)"
  by (auto simp: IncrementClusterMetric_def FindClusterIDs_def connected_step Let_def)


text \<open>Output and metrics only grow, and only a step on the world changes the world.\<close>

definition same_world :: "'w cstate \<Rightarrow> 'w cstate \<Rightarrow> bool" where
  "same_world s s' \<longleftrightarrow> cs_world s' = cs_world s \<and> cs_connected s' = cs_connected s \<and> cs_metrics s' = cs_metrics s"

lemma same_world_trans: "same_world a b \<Longrightarrow> same_world b c \<Longrightarrow> same_world a c"
  by (simp add: same_world_def)

lemma same_world_refl [simp]: "same_world a a"
  by (simp add: same_world_def)

lemma keep_same_world_print: "steps_keep same_world (PrintlnUnnecessary env t)"
  by (simp add: steps_keep_def PrintlnUnnecessary_def same_world_def write_out_def)

lemma keep_same_world_rows: "steps_keep same_world (AddOutputRows env rows)"
proof -
  have 1: "steps_keep same_world (ensurePrinter env)"
    by (auto simp: steps_keep_def ensurePrinter_def same_world_def Let_def split: option.splits)
  have 2: "steps_keep same_world (print_rows env rows)"
    by (auto simp: steps_keep_def print_rows_def same_world_def Let_def write_out_def
      split: option.splits prod.splits)
  have 3: "steps_keep same_world (andthen (ensurePrinter env) (\<lambda>_. print_rows env rows))"
    by (rule keep_andthen [OF same_world_trans 1 2])
  then show ?thesis
    by (simp add: steps_keep_def AddOutputRows_def ret_def)
qed

subsection \<open>One client per program\<close>

text \<open>
  The client is started at most once. A successful \<open>ClientInternal\<close> leaves the program
  connected, and from then on it asks neither the configuration provider nor the connection again:
  it succeeds and changes nothing. A failed attempt leaves the program unconnected, so the next call
  tries again.
\<close>

theorem ClientInternal_once:
  "(case ClientInternal env s of
      (Inr _, s') \<Rightarrow> cs_connected s' \<and> ClientInternal env s' = (Inr (), s')
    | (Inl e, s') \<Rightarrow> \<not> cs_connected s' \<and> cs_connected s' = cs_connected s)"
  by (auto simp: ClientInternal_def with_state_def ret_def andthen_def on_world_def ensureClient_def
    split: sum.splits prod.splits)

subsection \<open>Start-up arguments\<close>

text \<open>A command line as the user means it: the three flags with their values, and other words.\<close>

datatype startup_item = SConfig bool string | SLogPath string | SLogLevel string | SOther string

fun startup_words :: "startup_item \<Rightarrow> string list" where
  "startup_words (SConfig short v) = [if short then ''-c'' else ''--config'', v]"
| "startup_words (SLogPath v) = [''--log.path'', v]"
| "startup_words (SLogLevel v) = [''--log.level'', v]"
| "startup_words (SOther w) = [w]"

definition last_or :: "'a \<Rightarrow> 'a list \<Rightarrow> 'a" where
  "last_or d xs = (if xs = [] then d else last xs)"

lemma last_or_Cons [simp]: "last_or d (x # xs) = last_or x xs"
  by (simp add: last_or_def)

lemma last_or_Nil [simp]: "last_or d [] = d"
  by (simp add: last_or_def)

definition configs_of :: "startup_item list \<Rightarrow> string list" where
  "configs_of items = concat (map (\<lambda>i. case i of SConfig b v \<Rightarrow> [v] | _ \<Rightarrow> []) items)"

definition logpaths_of :: "startup_item list \<Rightarrow> string list" where
  "logpaths_of items = concat (map (\<lambda>i. case i of SLogPath v \<Rightarrow> [v] | _ \<Rightarrow> []) items)"

definition loglevels_of :: "startup_item list \<Rightarrow> string list" where
  "loglevels_of items = concat (map (\<lambda>i. case i of SLogLevel v \<Rightarrow> [v] | _ \<Rightarrow> []) items)"

abbreviation startup_flags :: "string set" where
  "startup_flags \<equiv> {''--config'', ''-c'', ''--log.path'', ''--log.level''}"

lemma startup_loop_items:
  "\<forall>w. SOther w \<in> set items \<longrightarrow> w \<notin> startup_flags \<Longrightarrow>
   startup_loop c p l (concat (map startup_words items)) =
     ((last_or c (configs_of items), last_or p (logpaths_of items), last_or l (loglevels_of items)), None)"
proof (induction items arbitrary: c p l)
  case (Cons i items)
  then show ?case
    by (cases i) (auto simp: configs_of_def logpaths_of_def loglevels_of_def)
qed (simp add: configs_of_def logpaths_of_def loglevels_of_def)

text \<open>
  The arguments needed before anything else runs are found wherever they stand: each of the
  configuration, the log path and the log level is the value after the last of its flags, empty when
  there is none, whatever other words are around. A value is never taken for a flag.
\<close>

theorem ExtractStartupArgs_last_wins:
  assumes "\<forall>w. SOther w \<in> set items \<longrightarrow> w \<notin> startup_flags"
  shows "ExtractStartupArgs (concat (map startup_words items)) =
    ((last_or [] (configs_of items), last_or [] (logpaths_of items), last_or [] (loglevels_of items)), None)"
  unfolding ExtractStartupArgs_def by (rule startup_loop_items [OF assms])

lemma ExtractStartupArgs_last_wins_witness:
  "ExtractStartupArgs [''map'', ''-c'', ''--config'', ''--log.level'', ''debug'', ''--config'', ''dev'', ''set''] =
     ((''dev'', [], ''debug''), None)"
  using ExtractStartupArgs_last_wins
    [of "[SOther ''map'', SConfig True ''--config'', SLogLevel ''debug'', SConfig False ''dev'', SOther ''set'']"]
  by (simp add: configs_of_def logpaths_of_def loglevels_of_def)

end
