(* ===== verification/Codec.thy ===== *)
theory Codec
  imports GoTypes "HOL-Library.Monad_Syntax"
begin

section \<open>The client protocol codecs (internal/proto/codec)\<close>

text \<open>
  Requests are client messages of frames: a first frame of fixed-size fields in little endian at
  fixed offsets, then a frame per string or serialized item, lists between a begin and an end frame.
  Message and frame are types of the client library, so their constructors and predicates are the
  fields of \<open>proto\<close>; \<open>proto_ok\<close> is what the library documents of them. A byte is a \<^typ>\<open>char\<close>. A write or
  read outside a buffer, which panics, is None, and so is reading past the last frame.
\<close>

subsection \<open>Messages and frames\<close>

datatype frame_flag = UnfragmentedMessage | BeginDataStructureFlag | EndDataStructureFlag

record ('c, 'f) proto =
  pl_NewMessage :: 'c
  pl_SetRetryable :: "bool \<Rightarrow> 'c \<Rightarrow> 'c"
  pl_AddFrame :: "'f \<Rightarrow> 'c \<Rightarrow> 'c"
  pl_SetMessageType :: "int \<Rightarrow> 'c \<Rightarrow> 'c"
  pl_SetPartitionId :: "int \<Rightarrow> 'c \<Rightarrow> 'c"
  pl_Type :: "'c \<Rightarrow> int"
  pl_Frames :: "'c \<Rightarrow> 'f list"
  pl_NewFrame :: "string \<Rightarrow> 'f"
  pl_NewFrameWith :: "string \<Rightarrow> frame_flag \<Rightarrow> 'f"
  pl_Content :: "'f \<Rightarrow> string"
  pl_IsNull :: "'f \<Rightarrow> bool"
  pl_IsBegin :: "'f \<Rightarrow> bool"
  pl_IsEnd :: "'f \<Rightarrow> bool"
  pl_NullFrame :: 'f
  pl_BeginFrame :: 'f
  pl_EndFrame :: 'f
  pl_PartitionIDOffset :: nat
  pl_ResponseBackupAcksOffset :: nat

definition proto_ok :: "('c, 'f) proto \<Rightarrow> bool" where
  "proto_ok pl \<longleftrightarrow>
     (\<forall>s. pl_Content pl (pl_NewFrame pl s) = s \<and> \<not> pl_IsNull pl (pl_NewFrame pl s) \<and>
          \<not> pl_IsBegin pl (pl_NewFrame pl s) \<and> \<not> pl_IsEnd pl (pl_NewFrame pl s)) \<and>
     pl_IsNull pl (pl_NullFrame pl) \<and> \<not> pl_IsEnd pl (pl_NullFrame pl) \<and> \<not> pl_IsBegin pl (pl_NullFrame pl) \<and>
     pl_IsBegin pl (pl_BeginFrame pl) \<and> \<not> pl_IsNull pl (pl_BeginFrame pl) \<and> \<not> pl_IsEnd pl (pl_BeginFrame pl) \<and>
     pl_IsEnd pl (pl_EndFrame pl) \<and> \<not> pl_IsNull pl (pl_EndFrame pl) \<and>
     pl_NewFrameWith pl [] BeginDataStructureFlag = pl_BeginFrame pl \<and>
     pl_NewFrameWith pl [] EndDataStructureFlag = pl_EndFrame pl"

abbreviation ByteSizeInBytes :: nat where "ByteSizeInBytes \<equiv> 1"
abbreviation BooleanSizeInBytes :: nat where "BooleanSizeInBytes \<equiv> 1"
abbreviation IntSizeInBytes :: nat where "IntSizeInBytes \<equiv> 4"
abbreviation LongSizeInBytes :: nat where "LongSizeInBytes \<equiv> 8"
abbreviation UuidSizeInBytes :: nat where "UuidSizeInBytes \<equiv> 17"

subsection \<open>Fixed-size fields\<close>

text \<open>The little-endian bytes of the unsigned value of an integer, and back.\<close>

definition le_bytes :: "nat \<Rightarrow> int \<Rightarrow> string" where
  "le_bytes n v = map (\<lambda>i. char_of (nat (v div 256 ^ i mod 256))) [0..<n]"

fun le_value :: "string \<Rightarrow> int" where
  "le_value [] = 0"
| "le_value (c # cs) = int (of_char c) + 256 * le_value cs"

definition put_bytes :: "string \<Rightarrow> nat \<Rightarrow> string \<Rightarrow> string option" where
  "put_bytes bs offset buffer =
     (if offset + length bs \<le> length buffer
      then Some (take offset buffer @ bs @ drop (offset + length bs) buffer) else None)"

definition get_bytes :: "nat \<Rightarrow> string \<Rightarrow> nat \<Rightarrow> string option" where
  "get_bytes n buffer offset =
     (if offset + n \<le> length buffer then Some (take n (drop offset buffer)) else None)"

definition EncodeLong :: "nat \<Rightarrow> int \<Rightarrow> string \<Rightarrow> string option" where
  "EncodeLong offset v buffer = put_bytes (le_bytes 8 v) offset buffer"

definition EncodeInt :: "nat \<Rightarrow> int \<Rightarrow> string \<Rightarrow> string option" where
  "EncodeInt offset v buffer = put_bytes (le_bytes 4 v) offset buffer"

definition EncodeBoolean :: "nat \<Rightarrow> bool \<Rightarrow> string \<Rightarrow> string option" where
  "EncodeBoolean offset v buffer = put_bytes [if v then CHR 0x01 else CHR 0x00] offset buffer"

definition DecodeLong :: "string \<Rightarrow> nat \<Rightarrow> int option" where
  "DecodeLong buffer offset = map_option (\<lambda>bs. int64 (le_value bs)) (get_bytes 8 buffer offset)"

definition DecodeInt :: "string \<Rightarrow> nat \<Rightarrow> int option" where
  "DecodeInt buffer offset = map_option (\<lambda>bs. int32 (le_value bs)) (get_bytes 4 buffer offset)"

definition DecodeBoolean :: "string \<Rightarrow> nat \<Rightarrow> bool option" where
  "DecodeBoolean buffer offset = map_option (\<lambda>bs. bs = [CHR 0x01]) (get_bytes 1 buffer offset)"

text \<open>A UUID by its two halves; the zero one is sent as null.\<close>

record UUID =
  MostSignificantBits :: int
  LeastSignificantBits :: int

definition zeroUUID :: UUID where
  "zeroUUID = \<lparr>MostSignificantBits = 0, LeastSignificantBits = 0\<rparr>"

definition uint64 :: "int \<Rightarrow> int" where
  "uint64 v = v mod 2 ^ 64"

definition EncodeUUID :: "nat \<Rightarrow> UUID \<Rightarrow> string \<Rightarrow> string option" where
  "EncodeUUID offset uuid buffer = do {
     let isNullEncode = (uuid = zeroUUID);
     buffer \<leftarrow> EncodeBoolean offset isNullEncode buffer;
     if isNullEncode then Some buffer
     else do {
       let bufferOffset = offset + BooleanSizeInBytes;
       buffer \<leftarrow> EncodeLong bufferOffset (int64 (MostSignificantBits uuid)) buffer;
       EncodeLong (bufferOffset + LongSizeInBytes) (int64 (LeastSignificantBits uuid)) buffer
     }
   }"

definition DecodeUUID :: "string \<Rightarrow> nat \<Rightarrow> UUID option" where
  "DecodeUUID buffer offset = do {
     isNull \<leftarrow> DecodeBoolean buffer offset;
     if isNull then Some zeroUUID
     else do {
       let mostSignificantOffset = offset + BooleanSizeInBytes;
       let leastSignificantOffset = mostSignificantOffset + LongSizeInBytes;
       most \<leftarrow> DecodeLong buffer mostSignificantOffset;
       least \<leftarrow> DecodeLong buffer leastSignificantOffset;
       Some \<lparr>MostSignificantBits = uint64 most, LeastSignificantBits = uint64 least\<rparr>
     }
   }"

subsection \<open>Frames of values\<close>

text \<open>An encoder gives the frames it adds; a decoder takes the frames left and gives what remains.\<close>

type_synonym ('f, 'a) decoder = "'f list \<Rightarrow> ('a \<times> 'f list) option"

definition Next :: "('f, 'f) decoder" where
  "Next fs = (case fs of [] \<Rightarrow> None | f # rest \<Rightarrow> Some (f, rest))"

definition PeekNext :: "'f list \<Rightarrow> 'f option" where
  "PeekNext fs = (case fs of [] \<Rightarrow> None | f # rest \<Rightarrow> Some f)"

definition EncodeString :: "('c, 'f) proto \<Rightarrow> string \<Rightarrow> 'f list" where
  "EncodeString pl s = [pl_NewFrame pl s]"

definition EncodeData :: "('c, 'f) proto \<Rightarrow> string \<Rightarrow> 'f list" where
  "EncodeData pl d = [pl_NewFrame pl d]"

definition EncodeByteArray :: "('c, 'f) proto \<Rightarrow> string \<Rightarrow> 'f list" where
  "EncodeByteArray pl b = [pl_NewFrame pl b]"

definition DecodeString :: "('c, 'f) proto \<Rightarrow> ('f, string) decoder" where
  "DecodeString pl fs = do { (f, fs) \<leftarrow> Next fs; Some (pl_Content pl f, fs) }"

definition DecodeData :: "('c, 'f) proto \<Rightarrow> ('f, string) decoder" where
  "DecodeData pl fs = do { (f, fs) \<leftarrow> Next fs; Some (pl_Content pl f, fs) }"

definition NextFrameIsNullFrame :: "('c, 'f) proto \<Rightarrow> ('f, bool) decoder" where
  "NextFrameIsNullFrame pl fs = do {
     f \<leftarrow> PeekNext fs;
     if pl_IsNull pl f then do { (_, fs) \<leftarrow> Next fs; Some (True, fs) } else Some (False, fs)
   }"

definition EncodeNullableForString :: "('c, 'f) proto \<Rightarrow> string \<Rightarrow> 'f list" where
  "EncodeNullableForString pl s = (if trim_space s = [] then [pl_NullFrame pl] else EncodeString pl s)"

definition DecodeNullableForString :: "('c, 'f) proto \<Rightarrow> ('f, string) decoder" where
  "DecodeNullableForString pl fs = do {
     (n, fs) \<leftarrow> NextFrameIsNullFrame pl fs;
     if n then Some ([], fs) else DecodeString pl fs
   }"

text \<open>Serialized data that may be nil.\<close>

definition EncodeNullableForData :: "('c, 'f) proto \<Rightarrow> string option \<Rightarrow> 'f list" where
  "EncodeNullableForData pl d = (case d of None \<Rightarrow> [pl_NullFrame pl] | Some b \<Rightarrow> EncodeData pl b)"

definition DecodeNullableForData :: "('c, 'f) proto \<Rightarrow> ('f, string option) decoder" where
  "DecodeNullableForData pl fs = do {
     (n, fs) \<leftarrow> NextFrameIsNullFrame pl fs;
     if n then Some (None, fs) else do { (d, fs) \<leftarrow> DecodeData pl fs; Some (Some d, fs) }
   }"

definition EncodeNullable :: "('c, 'f) proto \<Rightarrow> 'a option \<Rightarrow> ('a \<Rightarrow> 'f list) \<Rightarrow> 'f list" where
  "EncodeNullable pl v encoder = (case v of None \<Rightarrow> [pl_NullFrame pl] | Some x \<Rightarrow> encoder x)"

text \<open>The counter of \<open>FastForwardToEndFrame\<close> skips nested structures.\<close>

fun fast_forward :: "('c, 'f) proto \<Rightarrow> nat \<Rightarrow> 'f list \<Rightarrow> 'f list option" where
  "fast_forward pl 0 fs = Some fs"
| "fast_forward pl (Suc n) [] = None"
| "fast_forward pl (Suc n) (f # fs) =
     (if pl_IsEnd pl f then fast_forward pl n fs
      else if pl_IsBegin pl f then fast_forward pl (Suc (Suc n)) fs
      else fast_forward pl (Suc n) fs)"

definition FastForwardToEndFrame :: "('c, 'f) proto \<Rightarrow> 'f list \<Rightarrow> 'f list option" where
  "FastForwardToEndFrame pl fs = fast_forward pl 1 fs"

definition NewBeginFrame :: "('c, 'f) proto \<Rightarrow> 'f" where
  "NewBeginFrame pl = pl_NewFrameWith pl [] BeginDataStructureFlag"

definition NewEndFrame :: "('c, 'f) proto \<Rightarrow> 'f" where
  "NewEndFrame pl = pl_NewFrameWith pl [] EndDataStructureFlag"

definition NextFrameIsDataStructureEndFrame :: "('c, 'f) proto \<Rightarrow> 'f list \<Rightarrow> bool option" where
  "NextFrameIsDataStructureEndFrame pl fs = map_option (pl_IsEnd pl) (PeekNext fs)"

text \<open>
  The loop that decodes items until the end frame. Every item takes a frame, so as many rounds as
  there are frames are enough (\<open>decode_items_enough\<close>).
\<close>

fun decode_items :: "('c, 'f) proto \<Rightarrow> ('f, 'a) decoder \<Rightarrow> nat \<Rightarrow> 'a list \<Rightarrow> ('f, 'a list) decoder" where
  "decode_items pl dec n acc fs = do {
     isEnd \<leftarrow> NextFrameIsDataStructureEndFrame pl fs;
     if isEnd then do { (_, fs) \<leftarrow> Next fs; Some (acc, fs) }
     else do {
       (x, fs) \<leftarrow> dec fs;
       (case n of 0 \<Rightarrow> None | Suc m \<Rightarrow> decode_items pl dec m (acc @ [x]) fs)
     }
   }"

declare decode_items.simps [simp del]

definition DecodeListMultiFrame :: "('c, 'f) proto \<Rightarrow> ('f, 'a) decoder \<Rightarrow> ('f, 'a list) decoder" where
  "DecodeListMultiFrame pl dec fs = do {
     (_, fs) \<leftarrow> Next fs;
     decode_items pl dec (length fs) [] fs
   }"

definition EncodeListMultiFrameForString :: "('c, 'f) proto \<Rightarrow> string list \<Rightarrow> 'f list" where
  "EncodeListMultiFrameForString pl values =
     [pl_NewFrameWith pl [] BeginDataStructureFlag] @ concat (map (EncodeString pl) values) @
     [pl_NewFrameWith pl [] EndDataStructureFlag]"

definition DecodeListMultiFrameForString :: "('c, 'f) proto \<Rightarrow> ('f, string list) decoder" where
  "DecodeListMultiFrameForString pl = DecodeListMultiFrame pl (DecodeString pl)"

definition EncodeListMultiFrameForData :: "('c, 'f) proto \<Rightarrow> string list \<Rightarrow> 'f list" where
  "EncodeListMultiFrameForData pl values =
     [NewBeginFrame pl] @ concat (map (EncodeData pl) values) @ [NewEndFrame pl]"

definition DecodeListMultiFrameForData :: "('c, 'f) proto \<Rightarrow> ('f, string list) decoder" where
  "DecodeListMultiFrameForData pl = DecodeListMultiFrame pl (DecodeData pl)"

definition decode_pair :: "('f, 'a) decoder \<Rightarrow> ('f, 'b) decoder \<Rightarrow> ('f, 'a \<times> 'b) decoder" where
  "decode_pair d1 d2 fs = do { (k, fs) \<leftarrow> d1 fs; (v, fs) \<leftarrow> d2 fs; Some ((k, v), fs) }"

definition DecodeEntryListForDataAndData :: "('c, 'f) proto \<Rightarrow> ('f, (string \<times> string) list) decoder" where
  "DecodeEntryListForDataAndData pl = DecodeListMultiFrame pl (decode_pair (DecodeData pl) (DecodeData pl))"

text \<open>A Go map is walked in any order; the model takes the pairs in the order they are sent.\<close>

definition EncodeMapForStringAndString :: "('c, 'f) proto \<Rightarrow> (string \<times> string) list \<Rightarrow> 'f list" where
  "EncodeMapForStringAndString pl values =
     [pl_BeginFrame pl] @ concat (map (\<lambda>(k, v). EncodeString pl k @ EncodeString pl v) values) @ [pl_EndFrame pl]"

definition EncodeNullableMapForStringAndString ::
    "('c, 'f) proto \<Rightarrow> (string \<times> string) list option \<Rightarrow> 'f list" where
  "EncodeNullableMapForStringAndString pl values = EncodeNullable pl values (EncodeMapForStringAndString pl)"

definition DecodeMapForStringAndString :: "('c, 'f) proto \<Rightarrow> ('f, string \<rightharpoonup> string) decoder" where
  "DecodeMapForStringAndString pl fs = do {
     (kvs, fs) \<leftarrow> DecodeListMultiFrame pl (decode_pair (DecodeString pl) (DecodeString pl)) fs;
     Some (foldl (\<lambda>m (k, v). m(k \<mapsto> v)) Map.empty kvs, fs)
   }"

definition DecodeNullableMapForStringAndString :: "('c, 'f) proto \<Rightarrow> ('f, (string \<rightharpoonup> string) option) decoder" where
  "DecodeNullableMapForStringAndString pl fs = do {
     (n, fs) \<leftarrow> NextFrameIsNullFrame pl fs;
     if n then Some (None, fs)
     else do { (m, fs) \<leftarrow> DecodeMapForStringAndString pl fs; Some (Some m, fs) }
   }"

subsection \<open>Structures\<close>

record SqlSummary =
  ss_Query :: string
  ss_Unbounded :: bool

record JobAndSqlSummary =
  LightJob :: bool
  JobId :: int
  ExecutionId :: int
  NameOrId :: string
  Status :: int
  SubmissionTime :: int
  CompletionTime :: int
  FailureText :: string
  js_SqlSummary :: SqlSummary
  SuspensionCause :: string
  UserCancelled :: bool

abbreviation zeros :: "nat \<Rightarrow> string" where
  "zeros n \<equiv> replicate n (CHR 0x00)"

definition EncodeSqlSummary :: "('c, 'f) proto \<Rightarrow> SqlSummary \<Rightarrow> 'f list option" where
  "EncodeSqlSummary pl sqlSummary = do {
     content \<leftarrow> EncodeBoolean 0 (ss_Unbounded sqlSummary) (zeros BooleanSizeInBytes);
     Some ([pl_BeginFrame pl, pl_NewFrame pl content] @ EncodeString pl (ss_Query sqlSummary) @ [pl_EndFrame pl])
   }"

definition DecodeSqlSummary :: "('c, 'f) proto \<Rightarrow> ('f, SqlSummary) decoder" where
  "DecodeSqlSummary pl fs = do {
     (_, fs) \<leftarrow> Next fs;
     (initialFrame, fs) \<leftarrow> Next fs;
     unbounded \<leftarrow> DecodeBoolean (pl_Content pl initialFrame) 0;
     (query, fs) \<leftarrow> DecodeString pl fs;
     fs \<leftarrow> FastForwardToEndFrame pl fs;
     Some (\<lparr>ss_Query = query, ss_Unbounded = unbounded\<rparr>, fs)
   }"

definition EncodeNullableForSqlSummary :: "('c, 'f) proto \<Rightarrow> SqlSummary option \<Rightarrow> 'f list option" where
  "EncodeNullableForSqlSummary pl summary =
     (case summary of None \<Rightarrow> Some [pl_NullFrame pl] | Some s \<Rightarrow> EncodeSqlSummary pl s)"

definition DecodeNullableForSqlSummary :: "('c, 'f) proto \<Rightarrow> ('f, SqlSummary \<times> bool) decoder" where
  "DecodeNullableForSqlSummary pl fs = do {
     (n, fs) \<leftarrow> NextFrameIsNullFrame pl fs;
     if n then Some ((\<lparr>ss_Query = [], ss_Unbounded = False\<rparr>, False), fs)
     else do { (ss, fs) \<leftarrow> DecodeSqlSummary pl fs; Some ((ss, True), fs) }
   }"

abbreviation JobIdFieldOffset :: nat where "JobIdFieldOffset \<equiv> BooleanSizeInBytes"
abbreviation ExecutionIdFieldOffset :: nat where "ExecutionIdFieldOffset \<equiv> JobIdFieldOffset + LongSizeInBytes"
abbreviation StatusFieldOffset :: nat where "StatusFieldOffset \<equiv> ExecutionIdFieldOffset + LongSizeInBytes"
abbreviation SubmissionTimeFieldOffset :: nat where "SubmissionTimeFieldOffset \<equiv> StatusFieldOffset + IntSizeInBytes"
abbreviation CompletionTimeFieldOffset :: nat where
  "CompletionTimeFieldOffset \<equiv> SubmissionTimeFieldOffset + LongSizeInBytes"
abbreviation UserCancelledFieldOffset :: nat where
  "UserCancelledFieldOffset \<equiv> CompletionTimeFieldOffset + LongSizeInBytes"

definition EncodeJobAndSqlSummary :: "('c, 'f) proto \<Rightarrow> JobAndSqlSummary \<Rightarrow> 'f list option" where
  "EncodeJobAndSqlSummary pl j = do {
     let b = zeros (UserCancelledFieldOffset + BooleanSizeInBytes);
     b \<leftarrow> EncodeBoolean 0 (LightJob j) b;
     b \<leftarrow> EncodeLong JobIdFieldOffset (JobId j) b;
     b \<leftarrow> EncodeLong ExecutionIdFieldOffset (ExecutionId j) b;
     b \<leftarrow> EncodeInt StatusFieldOffset (Status j) b;
     b \<leftarrow> EncodeLong SubmissionTimeFieldOffset (SubmissionTime j) b;
     b \<leftarrow> EncodeLong CompletionTimeFieldOffset (CompletionTime j) b;
     b \<leftarrow> EncodeBoolean UserCancelledFieldOffset (UserCancelled j) b;
     sql \<leftarrow> EncodeNullableForSqlSummary pl (Some (js_SqlSummary j));
     Some ([pl_BeginFrame pl, pl_NewFrame pl b] @ EncodeString pl (NameOrId j) @
           EncodeNullableForString pl (FailureText j) @ sql @
           EncodeNullableForString pl (SuspensionCause j) @ [pl_EndFrame pl])
   }"

definition DecodeJobAndSqlSummary :: "('c, 'f) proto \<Rightarrow> ('f, JobAndSqlSummary) decoder" where
  "DecodeJobAndSqlSummary pl fs = do {
     (_, fs) \<leftarrow> Next fs;
     (initialFrame, fs) \<leftarrow> Next fs;
     let b = pl_Content pl initialFrame;
     lightJob \<leftarrow> DecodeBoolean b 0;
     jobId \<leftarrow> DecodeLong b JobIdFieldOffset;
     executionId \<leftarrow> DecodeLong b ExecutionIdFieldOffset;
     status \<leftarrow> DecodeInt b StatusFieldOffset;
     submissionTime \<leftarrow> DecodeLong b SubmissionTimeFieldOffset;
     completionTime \<leftarrow> DecodeLong b CompletionTimeFieldOffset;
     userCancelled \<leftarrow> (if UserCancelledFieldOffset + BooleanSizeInBytes \<le> length b
                       then DecodeBoolean b UserCancelledFieldOffset else Some False);
     (nameOrId, fs) \<leftarrow> DecodeString pl fs;
     (failureText, fs) \<leftarrow> DecodeNullableForString pl fs;
     ((sqlSummary, _), fs) \<leftarrow> DecodeNullableForSqlSummary pl fs;
     f \<leftarrow> PeekNext fs;
     (suspensionCause, fs) \<leftarrow> (if \<not> pl_IsEnd pl f then DecodeNullableForString pl fs else Some ([], fs));
     fs \<leftarrow> FastForwardToEndFrame pl fs;
     Some (\<lparr>LightJob = lightJob, JobId = jobId, ExecutionId = executionId, NameOrId = nameOrId,
            Status = status, SubmissionTime = submissionTime, CompletionTime = completionTime,
            FailureText = failureText, js_SqlSummary = sqlSummary, SuspensionCause = suspensionCause,
            UserCancelled = userCancelled\<rparr>, fs)
   }"

definition DecodeListMultiFrameForJobAndSqlSummary :: "('c, 'f) proto \<Rightarrow> ('f, JobAndSqlSummary list) decoder" where
  "DecodeListMultiFrameForJobAndSqlSummary pl = DecodeListMultiFrame pl (DecodeJobAndSqlSummary pl)"

record BitmapIndexOptions =
  UniqueKey :: string
  UniqueKeyTransformation :: int

record IndexConfig =
  ic_Name :: string
  ic_Type :: int
  ic_Attributes :: "string list"
  ic_BitmapIndexOptions :: BitmapIndexOptions

definition DecodeBitmapIndexOptions :: "('c, 'f) proto \<Rightarrow> ('f, BitmapIndexOptions) decoder" where
  "DecodeBitmapIndexOptions pl fs = do {
     (_, fs) \<leftarrow> Next fs;
     (initialFrame, fs) \<leftarrow> Next fs;
     uniqueKeyTransformation \<leftarrow> DecodeInt (pl_Content pl initialFrame) 0;
     (uniqueKey, fs) \<leftarrow> DecodeString pl fs;
     fs \<leftarrow> FastForwardToEndFrame pl fs;
     Some (\<lparr>UniqueKey = uniqueKey, UniqueKeyTransformation = uniqueKeyTransformation\<rparr>, fs)
   }"

definition DecodeNullableForBitmapIndexOptions :: "('c, 'f) proto \<Rightarrow> ('f, BitmapIndexOptions) decoder" where
  "DecodeNullableForBitmapIndexOptions pl fs = do {
     (n, fs) \<leftarrow> NextFrameIsNullFrame pl fs;
     if n then Some (\<lparr>UniqueKey = [], UniqueKeyTransformation = 0\<rparr>, fs) else DecodeBitmapIndexOptions pl fs
   }"

definition DecodeIndexConfig :: "('c, 'f) proto \<Rightarrow> ('f, IndexConfig) decoder" where
  "DecodeIndexConfig pl fs = do {
     (_, fs) \<leftarrow> Next fs;
     (initialFrame, fs) \<leftarrow> Next fs;
     typ \<leftarrow> DecodeInt (pl_Content pl initialFrame) 0;
     (name, fs) \<leftarrow> DecodeNullableForString pl fs;
     (attributes, fs) \<leftarrow> DecodeListMultiFrameForString pl fs;
     (options, fs) \<leftarrow> DecodeNullableForBitmapIndexOptions pl fs;
     fs \<leftarrow> FastForwardToEndFrame pl fs;
     Some (\<lparr>ic_Name = name, ic_Type = typ, ic_Attributes = attributes, ic_BitmapIndexOptions = options\<rparr>, fs)
   }"

definition DecodeListMultiFrameForIndexConfig :: "('c, 'f) proto \<Rightarrow> ('f, IndexConfig list) decoder" where
  "DecodeListMultiFrameForIndexConfig pl fs =
     (if fs \<noteq> [] then DecodeListMultiFrame pl (DecodeIndexConfig pl) fs else Some ([], fs))"

subsection \<open>Requests\<close>

text \<open>
  Every encoder makes a message, fills the fields of its first frame in order, sets the type and the
  partition and adds a frame per argument. \<open>fills\<close> are the writes into the buffer of the first frame.
\<close>

fun fill_all :: "(string \<Rightarrow> string option) list \<Rightarrow> string \<Rightarrow> string option" where
  "fill_all [] b = Some b"
| "fill_all (f # fs) b = Option.bind (f b) (fill_all fs)"

definition make_request ::
    "('c, 'f) proto \<Rightarrow> bool \<Rightarrow> int \<Rightarrow> nat \<Rightarrow> (string \<Rightarrow> string option) list \<Rightarrow> 'f list \<Rightarrow> 'c option" where
  "make_request pl retryable messageType frameSize fills frames = do {
     content \<leftarrow> fill_all fills (zeros frameSize);
     let c = pl_SetRetryable pl retryable (pl_NewMessage pl);
     let c = pl_AddFrame pl (pl_NewFrameWith pl content UnfragmentedMessage) c;
     let c = pl_SetMessageType pl messageType c;
     let c = pl_SetPartitionId pl (- 1) c;
     Some (foldl (\<lambda>c f. pl_AddFrame pl f c) c frames)
   }"

definition EncodeJetExportSnapshotRequest :: "('c, 'f) proto \<Rightarrow> int \<Rightarrow> string \<Rightarrow> bool \<Rightarrow> 'c option" where
  "EncodeJetExportSnapshotRequest pl jobId name cancelJob =
     make_request pl False 0xFE0A00 (pl_PartitionIDOffset pl + IntSizeInBytes + LongSizeInBytes + BooleanSizeInBytes)
       [EncodeLong (pl_PartitionIDOffset pl + IntSizeInBytes) jobId,
        EncodeBoolean (pl_PartitionIDOffset pl + IntSizeInBytes + LongSizeInBytes) cancelJob]
       (EncodeString pl name)"

definition EncodeJetGetJobAndSqlSummaryListRequest :: "('c, 'f) proto \<Rightarrow> 'c option" where
  "EncodeJetGetJobAndSqlSummaryListRequest pl =
     make_request pl True 0xFE0F00 (pl_PartitionIDOffset pl + IntSizeInBytes)
       [] []"

definition EncodeJetResumeJobRequest :: "('c, 'f) proto \<Rightarrow> int \<Rightarrow> 'c option" where
  "EncodeJetResumeJobRequest pl jobId =
     make_request pl False 0xFE0900 (pl_PartitionIDOffset pl + IntSizeInBytes + LongSizeInBytes)
       [EncodeLong (pl_PartitionIDOffset pl + IntSizeInBytes) jobId]
       []"

definition EncodeJetTerminateJobRequest :: "('c, 'f) proto \<Rightarrow> int \<Rightarrow> int \<Rightarrow> UUID \<Rightarrow> 'c option" where
  "EncodeJetTerminateJobRequest pl jobId terminateMode lightJobCoordinator =
     make_request pl False 0xFE0200 (pl_PartitionIDOffset pl + IntSizeInBytes + LongSizeInBytes + IntSizeInBytes + UuidSizeInBytes)
       [EncodeLong (pl_PartitionIDOffset pl + IntSizeInBytes) jobId,
        EncodeInt (pl_PartitionIDOffset pl + IntSizeInBytes + LongSizeInBytes) terminateMode,
        EncodeUUID (pl_PartitionIDOffset pl + IntSizeInBytes + LongSizeInBytes + IntSizeInBytes) lightJobCoordinator]
       []"

definition EncodeJetUploadJobMetaDataRequest :: "('c, 'f) proto \<Rightarrow> UUID \<Rightarrow> bool \<Rightarrow> string \<Rightarrow> string \<Rightarrow> string \<Rightarrow> string \<Rightarrow> string \<Rightarrow> string list \<Rightarrow> 'c option" where
  "EncodeJetUploadJobMetaDataRequest pl sessionId jarOnMember fileName sha256Hex snapshotName jobName mainClass jobParameters =
     make_request pl True 0xFE1100 (pl_PartitionIDOffset pl + IntSizeInBytes + UuidSizeInBytes + BooleanSizeInBytes)
       [EncodeUUID (pl_PartitionIDOffset pl + IntSizeInBytes) sessionId,
        EncodeBoolean (pl_PartitionIDOffset pl + IntSizeInBytes + UuidSizeInBytes) jarOnMember]
       (EncodeString pl fileName @ EncodeString pl sha256Hex @ EncodeNullableForString pl snapshotName @ EncodeNullableForString pl jobName @ EncodeNullableForString pl mainClass @ EncodeListMultiFrameForString pl jobParameters)"

definition EncodeJetUploadJobMultipartRequest :: "('c, 'f) proto \<Rightarrow> UUID \<Rightarrow> int \<Rightarrow> int \<Rightarrow> string \<Rightarrow> int \<Rightarrow> string \<Rightarrow> 'c option" where
  "EncodeJetUploadJobMultipartRequest pl sessionId currentPartNumber totalPartNumber partData partSize sha256Hex =
     make_request pl True 0xFE1200 (pl_PartitionIDOffset pl + IntSizeInBytes + UuidSizeInBytes + IntSizeInBytes + IntSizeInBytes + IntSizeInBytes)
       [EncodeUUID (pl_PartitionIDOffset pl + IntSizeInBytes) sessionId,
        EncodeInt (pl_PartitionIDOffset pl + IntSizeInBytes + UuidSizeInBytes) currentPartNumber,
        EncodeInt (pl_PartitionIDOffset pl + IntSizeInBytes + UuidSizeInBytes + IntSizeInBytes) totalPartNumber,
        EncodeInt (pl_PartitionIDOffset pl + IntSizeInBytes + UuidSizeInBytes + IntSizeInBytes + IntSizeInBytes) partSize]
       (EncodeByteArray pl partData @ EncodeString pl sha256Hex)"

definition EncodeListAddRequest :: "('c, 'f) proto \<Rightarrow> string \<Rightarrow> string \<Rightarrow> 'c option" where
  "EncodeListAddRequest pl name val =
     make_request pl False 0x050400 (pl_PartitionIDOffset pl + IntSizeInBytes)
       []
       (EncodeString pl name @ EncodeData pl val)"

definition EncodeListAddWithIndexRequest :: "('c, 'f) proto \<Rightarrow> string \<Rightarrow> int \<Rightarrow> string \<Rightarrow> 'c option" where
  "EncodeListAddWithIndexRequest pl name index val =
     make_request pl False 0x051100 (pl_PartitionIDOffset pl + IntSizeInBytes + IntSizeInBytes)
       [EncodeInt (pl_PartitionIDOffset pl + IntSizeInBytes) index]
       (EncodeString pl name @ EncodeData pl val)"

definition EncodeListContainsRequest :: "('c, 'f) proto \<Rightarrow> string \<Rightarrow> string \<Rightarrow> 'c option" where
  "EncodeListContainsRequest pl name val =
     make_request pl True 0x050200 (pl_PartitionIDOffset pl + IntSizeInBytes)
       []
       (EncodeString pl name @ EncodeData pl val)"

definition EncodeListRemoveRequest :: "('c, 'f) proto \<Rightarrow> string \<Rightarrow> string \<Rightarrow> 'c option" where
  "EncodeListRemoveRequest pl name val =
     make_request pl False 0x050500 (pl_PartitionIDOffset pl + IntSizeInBytes)
       []
       (EncodeString pl name @ EncodeData pl val)"

definition EncodeListRemoveWithIndexRequest :: "('c, 'f) proto \<Rightarrow> string \<Rightarrow> int \<Rightarrow> 'c option" where
  "EncodeListRemoveWithIndexRequest pl name index =
     make_request pl False 0x051200 (pl_PartitionIDOffset pl + IntSizeInBytes + IntSizeInBytes)
       [EncodeInt (pl_PartitionIDOffset pl + IntSizeInBytes) index]
       (EncodeString pl name)"

definition EncodeListSetRequest :: "('c, 'f) proto \<Rightarrow> string \<Rightarrow> int \<Rightarrow> string \<Rightarrow> 'c option" where
  "EncodeListSetRequest pl name index val =
     make_request pl False 0x051000 (pl_PartitionIDOffset pl + IntSizeInBytes + IntSizeInBytes)
       [EncodeInt (pl_PartitionIDOffset pl + IntSizeInBytes) index]
       (EncodeString pl name @ EncodeData pl val)"

definition EncodeMapEntrySetRequest :: "('c, 'f) proto \<Rightarrow> string \<Rightarrow> 'c option" where
  "EncodeMapEntrySetRequest pl name =
     make_request pl True 0x012500 (pl_PartitionIDOffset pl + IntSizeInBytes)
       []
       (EncodeString pl name)"

definition EncodeMapGetRequest :: "('c, 'f) proto \<Rightarrow> string \<Rightarrow> string \<Rightarrow> int \<Rightarrow> 'c option" where
  "EncodeMapGetRequest pl name key threadId =
     make_request pl True 0x010200 (pl_PartitionIDOffset pl + IntSizeInBytes + LongSizeInBytes)
       [EncodeLong (pl_PartitionIDOffset pl + IntSizeInBytes) threadId]
       (EncodeString pl name @ EncodeData pl key)"

definition EncodeMapKeySetRequest :: "('c, 'f) proto \<Rightarrow> string \<Rightarrow> 'c option" where
  "EncodeMapKeySetRequest pl name =
     make_request pl True 0x012200 (pl_PartitionIDOffset pl + IntSizeInBytes)
       []
       (EncodeString pl name)"

definition EncodeMapLoadAllRequest :: "('c, 'f) proto \<Rightarrow> string \<Rightarrow> bool \<Rightarrow> 'c option" where
  "EncodeMapLoadAllRequest pl name replaceExistingValues =
     make_request pl False 0x012000 (pl_PartitionIDOffset pl + IntSizeInBytes + BooleanSizeInBytes)
       [EncodeBoolean (pl_PartitionIDOffset pl + IntSizeInBytes) replaceExistingValues]
       (EncodeString pl name)"

definition EncodeMapLoadGivenKeysRequest :: "('c, 'f) proto \<Rightarrow> string \<Rightarrow> string list \<Rightarrow> bool \<Rightarrow> 'c option" where
  "EncodeMapLoadGivenKeysRequest pl name keys replaceExistingValues =
     make_request pl False 0x012100 (pl_PartitionIDOffset pl + IntSizeInBytes + BooleanSizeInBytes)
       [EncodeBoolean (pl_PartitionIDOffset pl + IntSizeInBytes) replaceExistingValues]
       (EncodeString pl name @ EncodeListMultiFrameForData pl keys)"

definition EncodeMapRemoveRequest :: "('c, 'f) proto \<Rightarrow> string \<Rightarrow> string \<Rightarrow> int \<Rightarrow> 'c option" where
  "EncodeMapRemoveRequest pl name key threadId =
     make_request pl False 0x010300 (pl_PartitionIDOffset pl + IntSizeInBytes + LongSizeInBytes)
       [EncodeLong (pl_PartitionIDOffset pl + IntSizeInBytes) threadId]
       (EncodeString pl name @ EncodeData pl key)"

definition EncodeMapSetRequest :: "('c, 'f) proto \<Rightarrow> string \<Rightarrow> string \<Rightarrow> string \<Rightarrow> int \<Rightarrow> int \<Rightarrow> 'c option" where
  "EncodeMapSetRequest pl name key val threadId ttl =
     make_request pl False 0x010F00 (pl_PartitionIDOffset pl + IntSizeInBytes + LongSizeInBytes + LongSizeInBytes)
       [EncodeLong (pl_PartitionIDOffset pl + IntSizeInBytes) threadId,
        EncodeLong (pl_PartitionIDOffset pl + IntSizeInBytes + LongSizeInBytes) ttl]
       (EncodeString pl name @ EncodeData pl key @ EncodeData pl val)"

definition EncodeMapSetWithMaxIdleRequest :: "('c, 'f) proto \<Rightarrow> string \<Rightarrow> string \<Rightarrow> string \<Rightarrow> int \<Rightarrow> int \<Rightarrow> int \<Rightarrow> 'c option" where
  "EncodeMapSetWithMaxIdleRequest pl name key val threadId ttl maxIdle =
     make_request pl False 0x014700 (pl_PartitionIDOffset pl + IntSizeInBytes + LongSizeInBytes + LongSizeInBytes + LongSizeInBytes)
       [EncodeLong (pl_PartitionIDOffset pl + IntSizeInBytes) threadId,
        EncodeLong (pl_PartitionIDOffset pl + IntSizeInBytes + LongSizeInBytes) ttl,
        EncodeLong (pl_PartitionIDOffset pl + IntSizeInBytes + LongSizeInBytes + LongSizeInBytes) maxIdle]
       (EncodeString pl name @ EncodeData pl key @ EncodeData pl val)"

definition EncodeMapValuesRequest :: "('c, 'f) proto \<Rightarrow> string \<Rightarrow> 'c option" where
  "EncodeMapValuesRequest pl name =
     make_request pl True 0x012400 (pl_PartitionIDOffset pl + IntSizeInBytes)
       []
       (EncodeString pl name)"

definition EncodeMCGetMapConfigRequest :: "('c, 'f) proto \<Rightarrow> string \<Rightarrow> 'c option" where
  "EncodeMCGetMapConfigRequest pl mapName =
     make_request pl True 0x200300 (pl_PartitionIDOffset pl + IntSizeInBytes)
       []
       (EncodeString pl mapName)"

definition EncodeMultiMapEntrySetRequest :: "('c, 'f) proto \<Rightarrow> string \<Rightarrow> 'c option" where
  "EncodeMultiMapEntrySetRequest pl name =
     make_request pl True 0x020600 (pl_PartitionIDOffset pl + IntSizeInBytes)
       []
       (EncodeString pl name)"

definition EncodeMultiMapGetRequest :: "('c, 'f) proto \<Rightarrow> string \<Rightarrow> string \<Rightarrow> int \<Rightarrow> 'c option" where
  "EncodeMultiMapGetRequest pl name key threadId =
     make_request pl True 0x020200 (pl_PartitionIDOffset pl + IntSizeInBytes + LongSizeInBytes)
       [EncodeLong (pl_PartitionIDOffset pl + IntSizeInBytes) threadId]
       (EncodeString pl name @ EncodeData pl key)"

definition EncodeMultiMapKeySetRequest :: "('c, 'f) proto \<Rightarrow> string \<Rightarrow> 'c option" where
  "EncodeMultiMapKeySetRequest pl name =
     make_request pl True 0x020400 (pl_PartitionIDOffset pl + IntSizeInBytes)
       []
       (EncodeString pl name)"

definition EncodeMultiMapPutRequest :: "('c, 'f) proto \<Rightarrow> string \<Rightarrow> string \<Rightarrow> string \<Rightarrow> int \<Rightarrow> 'c option" where
  "EncodeMultiMapPutRequest pl name key val threadId =
     make_request pl False 0x020100 (pl_PartitionIDOffset pl + IntSizeInBytes + LongSizeInBytes)
       [EncodeLong (pl_PartitionIDOffset pl + IntSizeInBytes) threadId]
       (EncodeString pl name @ EncodeData pl key @ EncodeData pl val)"

definition EncodeMultiMapRemoveRequest :: "('c, 'f) proto \<Rightarrow> string \<Rightarrow> string \<Rightarrow> int \<Rightarrow> 'c option" where
  "EncodeMultiMapRemoveRequest pl name key threadId =
     make_request pl False 0x020300 (pl_PartitionIDOffset pl + IntSizeInBytes + LongSizeInBytes)
       [EncodeLong (pl_PartitionIDOffset pl + IntSizeInBytes) threadId]
       (EncodeString pl name @ EncodeData pl key)"

definition EncodeMultiMapUnlockRequest :: "('c, 'f) proto \<Rightarrow> string \<Rightarrow> string \<Rightarrow> int \<Rightarrow> int \<Rightarrow> 'c option" where
  "EncodeMultiMapUnlockRequest pl name key threadId referenceId =
     make_request pl True 0x021300 (pl_PartitionIDOffset pl + IntSizeInBytes + LongSizeInBytes + LongSizeInBytes)
       [EncodeLong (pl_PartitionIDOffset pl + IntSizeInBytes) threadId,
        EncodeLong (pl_PartitionIDOffset pl + IntSizeInBytes + LongSizeInBytes) referenceId]
       (EncodeString pl name @ EncodeData pl key)"

definition EncodeMultiMapValuesRequest :: "('c, 'f) proto \<Rightarrow> string \<Rightarrow> 'c option" where
  "EncodeMultiMapValuesRequest pl name =
     make_request pl True 0x020500 (pl_PartitionIDOffset pl + IntSizeInBytes)
       []
       (EncodeString pl name)"

definition EncodeQueuePollRequest :: "('c, 'f) proto \<Rightarrow> string \<Rightarrow> int \<Rightarrow> 'c option" where
  "EncodeQueuePollRequest pl name timeoutMillis =
     make_request pl False 0x030500 (pl_PartitionIDOffset pl + IntSizeInBytes + LongSizeInBytes)
       [EncodeLong (pl_PartitionIDOffset pl + IntSizeInBytes) timeoutMillis]
       (EncodeString pl name)"

definition EncodeSetGetAllRequest :: "('c, 'f) proto \<Rightarrow> string \<Rightarrow> 'c option" where
  "EncodeSetGetAllRequest pl name =
     make_request pl False 0x060A00 (pl_PartitionIDOffset pl + IntSizeInBytes)
       []
       (EncodeString pl name)"

definition EncodeSetRemoveRequest :: "('c, 'f) proto \<Rightarrow> string \<Rightarrow> string \<Rightarrow> 'c option" where
  "EncodeSetRemoveRequest pl name val =
     make_request pl False 0x060500 (pl_PartitionIDOffset pl + IntSizeInBytes)
       []
       (EncodeString pl name @ EncodeData pl val)"

definition EncodeTopicAddMessageListenerRequest :: "('c, 'f) proto \<Rightarrow> string \<Rightarrow> bool \<Rightarrow> 'c option" where
  "EncodeTopicAddMessageListenerRequest pl name localOnly =
     make_request pl False 0x040200 (pl_PartitionIDOffset pl + IntSizeInBytes + BooleanSizeInBytes)
       [EncodeBoolean (pl_PartitionIDOffset pl + IntSizeInBytes) localOnly]
       (EncodeString pl name)"

definition EncodeTopicPublishAllRequest :: "('c, 'f) proto \<Rightarrow> string \<Rightarrow> string list \<Rightarrow> 'c option" where
  "EncodeTopicPublishAllRequest pl name messages =
     make_request pl False 0x040400 (pl_PartitionIDOffset pl + IntSizeInBytes)
       []
       (EncodeString pl name @ EncodeListMultiFrameForData pl messages)"

definition EncodeTopicRemoveMessageListenerRequest :: "('c, 'f) proto \<Rightarrow> string \<Rightarrow> UUID \<Rightarrow> 'c option" where
  "EncodeTopicRemoveMessageListenerRequest pl name registrationId =
     make_request pl True 0x040300 (pl_PartitionIDOffset pl + IntSizeInBytes + UuidSizeInBytes)
       [EncodeUUID (pl_PartitionIDOffset pl + IntSizeInBytes) registrationId]
       (EncodeString pl name)"

subsection \<open>Responses\<close>

text \<open>A response whose payload follows the first frame, and one whose payload is a flag in it.\<close>

definition decode_payload :: "('c, 'f) proto \<Rightarrow> ('f, 'a) decoder \<Rightarrow> 'c \<Rightarrow> 'a option" where
  "decode_payload pl dec c = do {
     (_, fs) \<leftarrow> Next (pl_Frames pl c);
     (x, _) \<leftarrow> dec fs;
     Some x
   }"

definition decode_flag :: "('c, 'f) proto \<Rightarrow> 'c \<Rightarrow> bool option" where
  "decode_flag pl c = do {
     (initialFrame, _) \<leftarrow> Next (pl_Frames pl c);
     DecodeBoolean (pl_Content pl initialFrame) (pl_ResponseBackupAcksOffset pl + ByteSizeInBytes)
   }"

definition DecodeListRemoveWithIndexResponse :: "('c, 'f) proto \<Rightarrow> 'c \<Rightarrow> string option option" where
  "DecodeListRemoveWithIndexResponse pl = decode_payload pl (DecodeNullableForData pl)"

definition DecodeListSetResponse :: "('c, 'f) proto \<Rightarrow> 'c \<Rightarrow> string option option" where
  "DecodeListSetResponse pl = decode_payload pl (DecodeNullableForData pl)"

definition DecodeMapGetResponse :: "('c, 'f) proto \<Rightarrow> 'c \<Rightarrow> string option option" where
  "DecodeMapGetResponse pl = decode_payload pl (DecodeNullableForData pl)"

definition DecodeMapRemoveResponse :: "('c, 'f) proto \<Rightarrow> 'c \<Rightarrow> string option option" where
  "DecodeMapRemoveResponse pl = decode_payload pl (DecodeNullableForData pl)"

definition DecodeMapSetWithMaxIdleResponse :: "('c, 'f) proto \<Rightarrow> 'c \<Rightarrow> string option option" where
  "DecodeMapSetWithMaxIdleResponse pl = decode_payload pl (DecodeNullableForData pl)"

definition DecodeQueuePollResponse :: "('c, 'f) proto \<Rightarrow> 'c \<Rightarrow> string option option" where
  "DecodeQueuePollResponse pl = decode_payload pl (DecodeNullableForData pl)"

definition DecodeMapKeySetResponse :: "('c, 'f) proto \<Rightarrow> 'c \<Rightarrow> string list option" where
  "DecodeMapKeySetResponse pl = decode_payload pl (DecodeListMultiFrameForData pl)"

definition DecodeMapValuesResponse :: "('c, 'f) proto \<Rightarrow> 'c \<Rightarrow> string list option" where
  "DecodeMapValuesResponse pl = decode_payload pl (DecodeListMultiFrameForData pl)"

definition DecodeMultiMapGetResponse :: "('c, 'f) proto \<Rightarrow> 'c \<Rightarrow> string list option" where
  "DecodeMultiMapGetResponse pl = decode_payload pl (DecodeListMultiFrameForData pl)"

definition DecodeMultiMapKeySetResponse :: "('c, 'f) proto \<Rightarrow> 'c \<Rightarrow> string list option" where
  "DecodeMultiMapKeySetResponse pl = decode_payload pl (DecodeListMultiFrameForData pl)"

definition DecodeMultiMapRemoveResponse :: "('c, 'f) proto \<Rightarrow> 'c \<Rightarrow> string list option" where
  "DecodeMultiMapRemoveResponse pl = decode_payload pl (DecodeListMultiFrameForData pl)"

definition DecodeMultiMapValuesResponse :: "('c, 'f) proto \<Rightarrow> 'c \<Rightarrow> string list option" where
  "DecodeMultiMapValuesResponse pl = decode_payload pl (DecodeListMultiFrameForData pl)"

definition DecodeSetGetAllResponse :: "('c, 'f) proto \<Rightarrow> 'c \<Rightarrow> string list option" where
  "DecodeSetGetAllResponse pl = decode_payload pl (DecodeListMultiFrameForData pl)"

definition DecodeMapEntrySetResponse :: "('c, 'f) proto \<Rightarrow> 'c \<Rightarrow> (string \<times> string) list option" where
  "DecodeMapEntrySetResponse pl = decode_payload pl (DecodeEntryListForDataAndData pl)"

definition DecodeMultiMapEntrySetResponse :: "('c, 'f) proto \<Rightarrow> 'c \<Rightarrow> (string \<times> string) list option" where
  "DecodeMultiMapEntrySetResponse pl = decode_payload pl (DecodeEntryListForDataAndData pl)"

definition DecodeListAddResponse :: "('c, 'f) proto \<Rightarrow> 'c \<Rightarrow> bool option" where
  "DecodeListAddResponse pl = decode_flag pl"

definition DecodeListContainsResponse :: "('c, 'f) proto \<Rightarrow> 'c \<Rightarrow> bool option" where
  "DecodeListContainsResponse pl = decode_flag pl"

definition DecodeListRemoveResponse :: "('c, 'f) proto \<Rightarrow> 'c \<Rightarrow> bool option" where
  "DecodeListRemoveResponse pl = decode_flag pl"

definition DecodeMultiMapPutResponse :: "('c, 'f) proto \<Rightarrow> 'c \<Rightarrow> bool option" where
  "DecodeMultiMapPutResponse pl = decode_flag pl"

definition DecodeSetRemoveResponse :: "('c, 'f) proto \<Rightarrow> 'c \<Rightarrow> bool option" where
  "DecodeSetRemoveResponse pl = decode_flag pl"

definition DecodeTopicRemoveMessageListenerResponse :: "('c, 'f) proto \<Rightarrow> 'c \<Rightarrow> bool option" where
  "DecodeTopicRemoveMessageListenerResponse pl = decode_flag pl"

definition DecodeJetGetJobAndSqlSummaryListResponse :: "('c, 'f) proto \<Rightarrow> 'c \<Rightarrow> JobAndSqlSummary list option" where
  "DecodeJetGetJobAndSqlSummaryListResponse pl = decode_payload pl (DecodeListMultiFrameForJobAndSqlSummary pl)"

definition DecodeTopicAddMessageListenerResponse :: "('c, 'f) proto \<Rightarrow> 'c \<Rightarrow> UUID option" where
  "DecodeTopicAddMessageListenerResponse pl c = do {
     (initialFrame, _) \<leftarrow> Next (pl_Frames pl c);
     DecodeUUID (pl_Content pl initialFrame) (pl_ResponseBackupAcksOffset pl + ByteSizeInBytes)
   }"

text \<open>The handler gets an event only from a message of the event type; None is a panic.\<close>

definition HandleTopicAddMessageListener ::
    "('c, 'f) proto \<Rightarrow> 'c \<Rightarrow> (string \<Rightarrow> int \<Rightarrow> UUID \<Rightarrow> 's \<Rightarrow> 's) \<Rightarrow> 's \<Rightarrow> 's option" where
  "HandleTopicAddMessageListener pl c handleTopicEvent s =
     (if pl_Type pl c = 0x040202 then do {
        (initialFrame, fs) \<leftarrow> Next (pl_Frames pl c);
        publishTime \<leftarrow> DecodeLong (pl_Content pl initialFrame) (pl_PartitionIDOffset pl + IntSizeInBytes);
        uuid \<leftarrow> DecodeUUID (pl_Content pl initialFrame) (pl_PartitionIDOffset pl + IntSizeInBytes + LongSizeInBytes);
        (item, _) \<leftarrow> DecodeData pl fs;
        Some (handleTopicEvent item publishTime uuid s)
      } else Some s)"

record MapConfigResponse =
  mc_inMemoryFormat :: int
  mc_backupCount :: int
  mc_asyncBackupCount :: int
  mc_timeToLiveSeconds :: int
  mc_maxIdleSeconds :: int
  mc_maxSize :: int
  mc_maxSizePolicy :: int
  mc_readBackupData :: bool
  mc_evictionPolicy :: int
  mc_mergePolicy :: string
  mc_globalIndexes :: "IndexConfig list"

definition DecodeMCGetMapConfigResponse :: "('c, 'f) proto \<Rightarrow> 'c \<Rightarrow> MapConfigResponse option" where
  "DecodeMCGetMapConfigResponse pl c = do {
     (initialFrame, fs) \<leftarrow> Next (pl_Frames pl c);
     let b = pl_Content pl initialFrame;
     let off = pl_ResponseBackupAcksOffset pl + ByteSizeInBytes;
     inMemoryFormat \<leftarrow> DecodeInt b off;
     backupCount \<leftarrow> DecodeInt b (off + 1 * IntSizeInBytes);
     asyncBackupCount \<leftarrow> DecodeInt b (off + 2 * IntSizeInBytes);
     timeToLiveSeconds \<leftarrow> DecodeInt b (off + 3 * IntSizeInBytes);
     maxIdleSeconds \<leftarrow> DecodeInt b (off + 4 * IntSizeInBytes);
     maxSize \<leftarrow> DecodeInt b (off + 5 * IntSizeInBytes);
     maxSizePolicy \<leftarrow> DecodeInt b (off + 6 * IntSizeInBytes);
     readBackupData \<leftarrow> DecodeBoolean b (off + 7 * IntSizeInBytes);
     evictionPolicy \<leftarrow> DecodeInt b (off + 7 * IntSizeInBytes + BooleanSizeInBytes);
     (mergePolicy, fs) \<leftarrow> DecodeString pl fs;
     (globalIndexes, _) \<leftarrow> DecodeListMultiFrameForIndexConfig pl fs;
     Some \<lparr>mc_inMemoryFormat = inMemoryFormat, mc_backupCount = backupCount,
           mc_asyncBackupCount = asyncBackupCount, mc_timeToLiveSeconds = timeToLiveSeconds,
           mc_maxIdleSeconds = maxIdleSeconds, mc_maxSize = maxSize, mc_maxSizePolicy = maxSizePolicy,
           mc_readBackupData = readBackupData, mc_evictionPolicy = evictionPolicy,
           mc_mergePolicy = mergePolicy, mc_globalIndexes = globalIndexes\<rparr>
   }"

subsection \<open>Fields can be read back\<close>

lemma length_le_bytes [simp]: "length (le_bytes n v) = n"
  by (simp add: le_bytes_def)

lemma le_bytes_Suc: "le_bytes (Suc n) v = char_of (nat (v mod 256)) # le_bytes n (v div 256)"
proof -
  have "v div 256 ^ Suc i = v div 256 div 256 ^ i" for i
    by (simp add: zdiv_zmult2_eq)
  then show ?thesis
    by (auto simp: le_bytes_def upt_conv_Cons map_Suc_upt [symmetric] simp del: upt_Suc)
qed

lemma of_char_of_byte: "0 \<le> v \<Longrightarrow> v < 256 \<Longrightarrow> int (of_char (char_of (nat v) :: char)) = v"
  by (simp add: of_char_of nat_less_iff)

lemma le_value_le_bytes: "le_value (le_bytes n v) = v mod 256 ^ n"
proof (induction n arbitrary: v)
  case 0
  then show ?case by (simp add: le_bytes_def)
next
  case (Suc n)
  have "v mod 256 ^ Suc n = v mod 256 + 256 * (v div 256 mod 256 ^ n)"
    by (simp add: zmod_zmult2_eq)
  then show ?case by (simp add: le_bytes_Suc of_char_of_byte Suc)
qed

lemma put_bytes_length: "put_bytes bs off b = Some b' \<Longrightarrow> length b' = length b"
  by (auto simp: put_bytes_def split: if_splits)

lemma get_put_same: "put_bytes bs off b = Some b' \<Longrightarrow> get_bytes (length bs) b' off = Some bs"
  by (auto simp: put_bytes_def get_bytes_def split: if_splits)

lemma get_put_other:
  assumes "put_bytes bs off b = Some b'" "off' + n \<le> off \<or> off + length bs \<le> off'"
  shows "get_bytes n b' off' = get_bytes n b off'"
proof -
  have b': "b' = take off b @ bs @ drop (off + length bs) b" "off + length bs \<le> length b"
    using assms(1) by (auto simp: put_bytes_def split: if_splits)
  show ?thesis
  proof (cases "off' + n \<le> length b")
    case True
    have "take n (drop off' b') = take n (drop off' b)"
      by (rule nth_equalityI) (use assms(2) True b' in \<open>auto simp: nth_append\<close>)
    then show ?thesis using True b' by (simp add: get_bytes_def)
  next
    case False
    then show ?thesis using b' by (simp add: get_bytes_def)
  qed
qed

lemma wrap_int_mod: "wrap_int n (v mod 2 ^ n) = wrap_int n v"
  by (simp add: wrap_int_def mod_simps)

lemma Encode_length:
  "EncodeLong off v b = Some b' \<Longrightarrow> length b' = length b"
  "EncodeInt off v b = Some b' \<Longrightarrow> length b' = length b"
  "EncodeBoolean off f b = Some b' \<Longrightarrow> length b' = length b"
  by (auto simp: EncodeLong_def EncodeInt_def EncodeBoolean_def dest: put_bytes_length)

lemma Decode_same:
  "EncodeLong off v b = Some b' \<Longrightarrow> DecodeLong b' off = Some (int64 v)"
  "EncodeInt off v b = Some b' \<Longrightarrow> DecodeInt b' off = Some (int32 v)"
  "EncodeBoolean off f b = Some b' \<Longrightarrow> DecodeBoolean b' off = Some f"
proof -
  assume "EncodeLong off v b = Some b'"
  then have "get_bytes 8 b' off = Some (le_bytes 8 v)"
    unfolding EncodeLong_def by (metis get_put_same length_le_bytes)
  then show "DecodeLong b' off = Some (int64 v)"
    using wrap_int_mod [of 64 v] by (simp add: DecodeLong_def le_value_le_bytes)
next
  assume "EncodeInt off v b = Some b'"
  then have "get_bytes 4 b' off = Some (le_bytes 4 v)"
    unfolding EncodeInt_def by (metis get_put_same length_le_bytes)
  then show "DecodeInt b' off = Some (int32 v)"
    using wrap_int_mod [of 32 v] by (simp add: DecodeInt_def le_value_le_bytes)
next
  assume "EncodeBoolean off f b = Some b'"
  then show "DecodeBoolean b' off = Some f"
    unfolding EncodeBoolean_def DecodeBoolean_def by (auto dest: get_put_same)
qed

text \<open>A write of \<open>n\<close> bytes does not change a field elsewhere.\<close>

definition keeps_fields :: "nat \<Rightarrow> nat \<Rightarrow> string \<Rightarrow> string \<Rightarrow> bool" where
  "keeps_fields off n b b' \<longleftrightarrow>
     (\<forall>o'. (o' + 8 \<le> off \<or> off + n \<le> o') \<longrightarrow> DecodeLong b' o' = DecodeLong b o') \<and>
     (\<forall>o'. (o' + 4 \<le> off \<or> off + n \<le> o') \<longrightarrow> DecodeInt b' o' = DecodeInt b o') \<and>
     (\<forall>o'. (o' + 1 \<le> off \<or> off + n \<le> o') \<longrightarrow> DecodeBoolean b' o' = DecodeBoolean b o')"

lemma put_keeps: "put_bytes bs off b = Some b' \<Longrightarrow> keeps_fields off (length bs) b b'"
  by (auto simp: keeps_fields_def DecodeLong_def DecodeInt_def DecodeBoolean_def get_put_other)

lemma Encode_keeps:
  "EncodeLong off v b = Some b' \<Longrightarrow> keeps_fields off 8 b b'"
  "EncodeInt off v b = Some b' \<Longrightarrow> keeps_fields off 4 b b'"
  "EncodeBoolean off f b = Some b' \<Longrightarrow> keeps_fields off 1 b b'"
  unfolding EncodeLong_def EncodeInt_def EncodeBoolean_def by (drule put_keeps, simp)+

lemma Decode_other:
  assumes "keeps_fields off n b b'"
  shows "o' + 8 \<le> off \<or> off + n \<le> o' \<Longrightarrow> DecodeLong b' o' = DecodeLong b o'"
    and "o' + 4 \<le> off \<or> off + n \<le> o' \<Longrightarrow> DecodeInt b' o' = DecodeInt b o'"
    and "o' + 1 \<le> off \<or> off + n \<le> o' \<Longrightarrow> DecodeBoolean b' o' = DecodeBoolean b o'"
  using assms by (auto simp: keeps_fields_def)

lemma Encode_fits:
  "off + 8 \<le> length b \<Longrightarrow> \<exists>b'. EncodeLong off v b = Some b'"
  "off + 4 \<le> length b \<Longrightarrow> \<exists>b'. EncodeInt off v b = Some b'"
  "off + 1 \<le> length b \<Longrightarrow> \<exists>b'. EncodeBoolean off f b = Some b'"
  by (auto simp: EncodeLong_def EncodeInt_def EncodeBoolean_def put_bytes_def)

lemmas field_rules = Encode_length Decode_same

subsection \<open>Frames can be read back\<close>

lemma proto_okD:
  assumes "proto_ok pl"
  shows "pl_Content pl (pl_NewFrame pl s) = s" "\<not> pl_IsNull pl (pl_NewFrame pl s)"
    "\<not> pl_IsBegin pl (pl_NewFrame pl s)" "\<not> pl_IsEnd pl (pl_NewFrame pl s)"
    "pl_IsNull pl (pl_NullFrame pl)" "\<not> pl_IsEnd pl (pl_NullFrame pl)" "\<not> pl_IsBegin pl (pl_NullFrame pl)"
    "pl_IsBegin pl (pl_BeginFrame pl)" "\<not> pl_IsNull pl (pl_BeginFrame pl)" "\<not> pl_IsEnd pl (pl_BeginFrame pl)"
    "pl_IsEnd pl (pl_EndFrame pl)" "\<not> pl_IsNull pl (pl_EndFrame pl)"
    "pl_NewFrameWith pl [] BeginDataStructureFlag = pl_BeginFrame pl"
    "pl_NewFrameWith pl [] EndDataStructureFlag = pl_EndFrame pl"
  using assms by (simp_all add: proto_ok_def)

lemma Next_Cons [simp]: "Next (f # fs) = Some (f, fs)"
  by (simp add: Next_def)

lemma PeekNext_Cons [simp]: "PeekNext (f # fs) = Some f"
  by (simp add: PeekNext_def)

text \<open>A decoder reads an item back when it returns it and leaves the frames behind it.\<close>

definition reads_back :: "('c, 'f) proto \<Rightarrow> ('f, 'a) decoder \<Rightarrow> 'f list \<Rightarrow> 'a \<Rightarrow> bool" where
  "reads_back pl dec fs x \<longleftrightarrow> (\<forall>rest. dec (fs @ rest) = Some (x, rest))"

definition item_frames :: "('c, 'f) proto \<Rightarrow> 'f list \<Rightarrow> bool" where
  "item_frames pl fs \<longleftrightarrow> fs \<noteq> [] \<and> \<not> pl_IsEnd pl (hd fs)"

lemma String_back: "proto_ok pl \<Longrightarrow> reads_back pl (DecodeString pl) (EncodeString pl s) s \<and> item_frames pl (EncodeString pl s)"
  by (simp add: reads_back_def item_frames_def DecodeString_def EncodeString_def proto_okD)

lemma Data_back: "proto_ok pl \<Longrightarrow> reads_back pl (DecodeData pl) (EncodeData pl s) s \<and> item_frames pl (EncodeData pl s)"
  by (simp add: reads_back_def item_frames_def DecodeData_def EncodeData_def proto_okD)

lemma NullableString_back:
  assumes "proto_ok pl" "trim_space s = [] \<longrightarrow> s = []"
  shows "reads_back pl (DecodeNullableForString pl) (EncodeNullableForString pl s) s \<and>
         item_frames pl (EncodeNullableForString pl s)"
  using assms
  by (auto simp: reads_back_def item_frames_def DecodeNullableForString_def EncodeNullableForString_def
    NextFrameIsNullFrame_def proto_okD DecodeString_def EncodeString_def)

lemma NullableData_back:
  "proto_ok pl \<Longrightarrow> reads_back pl (DecodeNullableForData pl) (EncodeNullableForData pl d) d"
  by (auto simp: reads_back_def DecodeNullableForData_def EncodeNullableForData_def
    NextFrameIsNullFrame_def proto_okD DecodeData_def EncodeData_def split: option.splits)

lemma fast_forward_end: "proto_ok pl \<Longrightarrow> FastForwardToEndFrame pl (pl_EndFrame pl # rest) = Some rest"
  by (simp add: FastForwardToEndFrame_def proto_okD)

lemma decode_items_back:
  assumes "proto_ok pl" "\<And>x. x \<in> set xs \<Longrightarrow> reads_back pl dec (enc x) x \<and> item_frames pl (enc x)"
    "length xs \<le> n"
  shows "decode_items pl dec n acc (concat (map enc xs) @ pl_EndFrame pl # rest) = Some (acc @ xs, rest)"
  using assms(2,3)
proof (induction xs arbitrary: acc n)
  case Nil
  then show ?case
    by (subst decode_items.simps) (simp add: NextFrameIsDataStructureEndFrame_def proto_okD [OF assms(1)])
next
  case (Cons x xs)
  have x: "reads_back pl dec (enc x) x" "item_frames pl (enc x)"
    using Cons.prems(1) [of x] by simp_all
  obtain f fs where f: "enc x = f # fs" "\<not> pl_IsEnd pl f"
    using x(2) by (cases "enc x") (auto simp: item_frames_def)
  obtain m where m: "n = Suc m" "length xs \<le> m"
    using Cons.prems(2) by (cases n) auto
  let ?rest = "concat (map enc xs) @ pl_EndFrame pl # rest"
  have d: "dec (enc x @ ?rest) = Some (x, ?rest)"
    using x(1) by (simp add: reads_back_def)
  have "decode_items pl dec m (acc @ [x]) ?rest = Some ((acc @ [x]) @ xs, rest)"
    by (rule Cons.IH) (use Cons.prems(1) m in auto)
  then show ?case
    using d f m by (subst decode_items.simps) (simp add: NextFrameIsDataStructureEndFrame_def)
qed

lemma length_items: "(\<And>x. x \<in> set xs \<Longrightarrow> item_frames pl (enc x)) \<Longrightarrow> length xs \<le> length (concat (map enc xs))"
proof (induction xs)
  case (Cons x xs)
  then have "enc x \<noteq> []" "length xs \<le> length (concat (map enc xs))"
    by (auto simp: item_frames_def)
  then show ?case by (cases "enc x") auto
qed simp

lemma DecodeListMultiFrame_back:
  assumes "proto_ok pl" "\<And>x. x \<in> set xs \<Longrightarrow> reads_back pl dec (enc x) x \<and> item_frames pl (enc x)"
  shows "reads_back pl (DecodeListMultiFrame pl dec) ([f] @ concat (map enc xs) @ [pl_EndFrame pl]) xs"
proof -
  have "length xs \<le> length (concat (map enc xs))"
    using assms(2) by (intro length_items [where pl = pl]) auto
  then show ?thesis
    using decode_items_back [OF assms]
    by (simp add: reads_back_def DecodeListMultiFrame_def)
qed

lemma SqlSummary_back:
  assumes "proto_ok pl"
  shows "\<exists>fs. EncodeSqlSummary pl s = Some fs \<and> reads_back pl (DecodeSqlSummary pl) fs s \<and>
              (\<exists>gs. fs = pl_BeginFrame pl # gs)"
proof -
  obtain c where c: "EncodeBoolean 0 (ss_Unbounded s) (zeros 1) = Some c"
    using Encode_fits(3) [of 0 "zeros 1"] by auto
  show ?thesis
    using c Decode_same(3) [OF c] assms
    by (auto simp: EncodeSqlSummary_def DecodeSqlSummary_def reads_back_def proto_okD EncodeString_def
      DecodeString_def fast_forward_end)
qed

definition summary_ok :: "JobAndSqlSummary \<Rightarrow> bool" where
  "summary_ok j \<longleftrightarrow>
     (\<forall>v \<in> {JobId j, ExecutionId j, SubmissionTime j, CompletionTime j}. int64 v = v) \<and>
     int32 (Status j) = Status j \<and>
     (\<forall>s \<in> {FailureText j, SuspensionCause j}. trim_space s = [] \<longrightarrow> s = [])"

text \<open>The first frame of a job summary holds every field.\<close>

lemma job_fields:
  assumes "summary_ok j"
  shows "\<exists>b1 b2 b3 b4 b5 b6 b.
     EncodeBoolean 0 (LightJob j) (zeros 38) = Some b1 \<and> EncodeLong 1 (JobId j) b1 = Some b2 \<and>
     EncodeLong 9 (ExecutionId j) b2 = Some b3 \<and> EncodeInt 17 (Status j) b3 = Some b4 \<and>
     EncodeLong 21 (SubmissionTime j) b4 = Some b5 \<and> EncodeLong 29 (CompletionTime j) b5 = Some b6 \<and>
     EncodeBoolean 37 (UserCancelled j) b6 = Some b \<and> length b = 38 \<and>
     DecodeBoolean b 0 = Some (LightJob j) \<and> DecodeLong b 1 = Some (JobId j) \<and>
     DecodeLong b 9 = Some (ExecutionId j) \<and> DecodeInt b 17 = Some (Status j) \<and>
     DecodeLong b 21 = Some (SubmissionTime j) \<and> DecodeLong b 29 = Some (CompletionTime j) \<and>
     DecodeBoolean b 37 = Some (UserCancelled j)"
proof -
  obtain b1 where 1: "EncodeBoolean 0 (LightJob j) (zeros 38) = Some b1" "length b1 = 38"
    using Encode_fits(3) [of 0 "zeros 38"] Encode_length(3) by fastforce
  obtain b2 where 2: "EncodeLong 1 (JobId j) b1 = Some b2" "length b2 = 38"
    using Encode_fits(1) [of 1 b1] Encode_length(1) 1 by fastforce
  obtain b3 where 3: "EncodeLong 9 (ExecutionId j) b2 = Some b3" "length b3 = 38"
    using Encode_fits(1) [of 9 b2] Encode_length(1) 2 by fastforce
  obtain b4 where 4: "EncodeInt 17 (Status j) b3 = Some b4" "length b4 = 38"
    using Encode_fits(2) [of 17 b3] Encode_length(2) 3 by fastforce
  obtain b5 where 5: "EncodeLong 21 (SubmissionTime j) b4 = Some b5" "length b5 = 38"
    using Encode_fits(1) [of 21 b4] Encode_length(1) 4 by fastforce
  obtain b6 where 6: "EncodeLong 29 (CompletionTime j) b5 = Some b6" "length b6 = 38"
    using Encode_fits(1) [of 29 b5] Encode_length(1) 5 by fastforce
  obtain b where 7: "EncodeBoolean 37 (UserCancelled j) b6 = Some b" "length b = 38"
    using Encode_fits(3) [of 37 b6] Encode_length(3) 6 by fastforce
  note k = Encode_keeps(1) [OF 2(1)] Encode_keeps(1) [OF 3(1)] Encode_keeps(2) [OF 4(1)]
    Encode_keeps(1) [OF 5(1)] Encode_keeps(1) [OF 6(1)] Encode_keeps(3) [OF 7(1)]
  have "DecodeBoolean b 0 = Some (LightJob j)"
    using Decode_same(3) [OF 1(1)] k by (simp add: Decode_other(3))
  moreover have "DecodeLong b 1 = Some (JobId j)"
    using Decode_same(1) [OF 2(1)] k assms by (simp add: Decode_other(1) summary_ok_def)
  moreover have "DecodeLong b 9 = Some (ExecutionId j)"
    using Decode_same(1) [OF 3(1)] k assms by (simp add: Decode_other(1) summary_ok_def)
  moreover have "DecodeInt b 17 = Some (Status j)"
    using Decode_same(2) [OF 4(1)] k assms by (simp add: Decode_other(2) summary_ok_def)
  moreover have "DecodeLong b 21 = Some (SubmissionTime j)"
    using Decode_same(1) [OF 5(1)] k assms by (simp add: Decode_other(1) summary_ok_def)
  moreover have "DecodeLong b 29 = Some (CompletionTime j)"
    using Decode_same(1) [OF 6(1)] k assms by (simp add: Decode_other(1) summary_ok_def)
  ultimately show ?thesis
    using 1 2 3 4 5 6 7 Decode_same(3) [OF 7(1)] by blast
qed

lemma JobAndSqlSummary_back:
  assumes "proto_ok pl" "summary_ok j"
  shows "\<exists>fs. EncodeJobAndSqlSummary pl j = Some fs \<and> reads_back pl (DecodeJobAndSqlSummary pl) fs j \<and>
              item_frames pl fs"
proof -
  note p = proto_okD [OF assms(1)]
  obtain b1 b2 b3 b4 b5 b6 b where b:
    "EncodeBoolean 0 (LightJob j) (zeros 38) = Some b1" "EncodeLong 1 (JobId j) b1 = Some b2"
    "EncodeLong 9 (ExecutionId j) b2 = Some b3" "EncodeInt 17 (Status j) b3 = Some b4"
    "EncodeLong 21 (SubmissionTime j) b4 = Some b5" "EncodeLong 29 (CompletionTime j) b5 = Some b6"
    "EncodeBoolean 37 (UserCancelled j) b6 = Some b"
    "length b = 38" "DecodeBoolean b 0 = Some (LightJob j)" "DecodeLong b 1 = Some (JobId j)"
    "DecodeLong b 9 = Some (ExecutionId j)" "DecodeInt b 17 = Some (Status j)"
    "DecodeLong b 21 = Some (SubmissionTime j)" "DecodeLong b 29 = Some (CompletionTime j)"
    "DecodeBoolean b 37 = Some (UserCancelled j)"
    using job_fields [OF assms(2)] by blast
  obtain sql gs where sql: "EncodeSqlSummary pl (js_SqlSummary j) = Some sql"
    "\<And>rest. DecodeSqlSummary pl (sql @ rest) = Some (js_SqlSummary j, rest)" "sql = pl_BeginFrame pl # gs"
    using SqlSummary_back [OF assms(1)] unfolding reads_back_def by blast
  have nss: "DecodeNullableForSqlSummary pl (sql @ rest) = Some ((js_SqlSummary j, True), rest)" for rest
    using sql(2) [of rest] sql(3) p
    by (simp add: DecodeNullableForSqlSummary_def NextFrameIsNullFrame_def)
  have t: "trim_space (FailureText j) = [] \<longrightarrow> FailureText j = []"
    "trim_space (SuspensionCause j) = [] \<longrightarrow> SuspensionCause j = []"
    using assms(2) by (simp_all add: summary_ok_def)
  have ft: "DecodeNullableForString pl (EncodeNullableForString pl (FailureText j) @ rest) = Some (FailureText j, rest)"
    "DecodeNullableForString pl (EncodeNullableForString pl (SuspensionCause j) @ rest) = Some (SuspensionCause j, rest)"
    for rest
    using NullableString_back [OF assms(1) t(1)] NullableString_back [OF assms(1) t(2)]
    by (auto simp: reads_back_def)
  obtain c cs where c: "EncodeNullableForString pl (SuspensionCause j) = c # cs" "\<not> pl_IsEnd pl c"
    using NullableString_back [OF assms(1) t(2)]
    by (cases "EncodeNullableForString pl (SuspensionCause j)") (auto simp: item_frames_def)
  have sus: "DecodeNullableForString pl (c # cs @ rest) = Some (SuspensionCause j, rest)" for rest
    using ft(2) [of rest] c by simp
  let ?fs = "[pl_BeginFrame pl, pl_NewFrame pl b] @ EncodeString pl (NameOrId j) @
    EncodeNullableForString pl (FailureText j) @ sql @ EncodeNullableForString pl (SuspensionCause j) @ [pl_EndFrame pl]"
  have "EncodeJobAndSqlSummary pl j = Some ?fs"
    using b sql(1) by (simp add: EncodeJobAndSqlSummary_def EncodeNullableForSqlSummary_def)
  moreover have "DecodeJobAndSqlSummary pl (?fs @ rest) = Some (j, rest)" for rest
    using b p ft(1) nss c sus
    by (simp add: DecodeJobAndSqlSummary_def EncodeString_def DecodeString_def fast_forward_end [OF assms(1)])
  ultimately show ?thesis
    using p by (auto simp: reads_back_def item_frames_def)
qed

text \<open>
  C9: A job list sent as the protocol describes it is read back exactly: the frames that the codec
  writes for the summaries decode to the same summaries, in order, and the reader stops right after
  the list. It needs the integers to fit their fields and no text of blanks only, which is sent as
  null.
\<close>

theorem job_list_roundtrip:
  assumes "proto_ok pl" "\<forall>j \<in> set js. summary_ok j"
  shows "(\<forall>j \<in> set js. EncodeJobAndSqlSummary pl j \<noteq> None) \<and>
    DecodeListMultiFrameForJobAndSqlSummary pl
      ([pl_BeginFrame pl] @ concat (map (\<lambda>j. the (EncodeJobAndSqlSummary pl j)) js) @ [pl_EndFrame pl] @ rest)
    = Some (js, rest)"
proof -
  have *: "EncodeJobAndSqlSummary pl j \<noteq> None \<and>
           reads_back pl (DecodeJobAndSqlSummary pl) (the (EncodeJobAndSqlSummary pl j)) j \<and>
           item_frames pl (the (EncodeJobAndSqlSummary pl j))" if "j \<in> set js" for j
    using JobAndSqlSummary_back [OF assms(1), of j] assms(2) that by auto
  have "reads_back pl (DecodeListMultiFrame pl (DecodeJobAndSqlSummary pl))
          ([pl_BeginFrame pl] @ concat (map (\<lambda>j. the (EncodeJobAndSqlSummary pl j)) js) @ [pl_EndFrame pl]) js"
    by (rule DecodeListMultiFrame_back) (use assms(1) * in auto)
  then show ?thesis
    using * by (simp add: reads_back_def DecodeListMultiFrameForJobAndSqlSummary_def)
qed

text \<open>A library of frames that are their content and what they are.\<close>

datatype sample_kind = KPlain | KNull | KBegin | KEnd

record sample_message =
  sm_frames :: "(string \<times> sample_kind) list"
  sm_type :: int
  sm_partition :: int
  sm_retryable :: bool

definition sample_proto :: "(sample_message, string \<times> sample_kind) proto" where
  "sample_proto = \<lparr>
     pl_NewMessage = \<lparr>sm_frames = [], sm_type = 0, sm_partition = 0, sm_retryable = False\<rparr>,
     pl_SetRetryable = (\<lambda>r c. c\<lparr>sm_retryable := r\<rparr>),
     pl_AddFrame = (\<lambda>f c. c\<lparr>sm_frames := sm_frames c @ [f]\<rparr>),
     pl_SetMessageType = (\<lambda>t c. c\<lparr>sm_type := t\<rparr>),
     pl_SetPartitionId = (\<lambda>p c. c\<lparr>sm_partition := p\<rparr>),
     pl_Type = sm_type,
     pl_Frames = sm_frames,
     pl_NewFrame = (\<lambda>s. (s, KPlain)),
     pl_NewFrameWith = (\<lambda>s f. (s, case f of UnfragmentedMessage \<Rightarrow> KPlain | BeginDataStructureFlag \<Rightarrow> KBegin
                                      | EndDataStructureFlag \<Rightarrow> KEnd)),
     pl_Content = fst,
     pl_IsNull = (\<lambda>f. snd f = KNull),
     pl_IsBegin = (\<lambda>f. snd f = KBegin),
     pl_IsEnd = (\<lambda>f. snd f = KEnd),
     pl_NullFrame = ([], KNull),
     pl_BeginFrame = ([], KBegin),
     pl_EndFrame = ([], KEnd),
     pl_PartitionIDOffset = 12,
     pl_ResponseBackupAcksOffset = 12\<rparr>"

lemma proto_ok_sample: "proto_ok sample_proto"
  by (simp add: proto_ok_def sample_proto_def)

definition sample_job :: JobAndSqlSummary where
  "sample_job = \<lparr>LightJob = True, JobId = - 5, ExecutionId = 70000, NameOrId = ''j'', Status = 2,
     SubmissionTime = 1690000000000, CompletionTime = 0, FailureText = ''failed'',
     js_SqlSummary = \<lparr>ss_Query = ''SELECT 1'', ss_Unbounded = True\<rparr>, SuspensionCause = [], UserCancelled = True\<rparr>"

lemma summary_ok_sample: "summary_ok sample_job"
  by (simp add: summary_ok_def sample_job_def wrap_int_def trim_space_id space_eval)

lemma job_list_roundtrip_witness:
  "DecodeListMultiFrameForJobAndSqlSummary sample_proto
     ([pl_BeginFrame sample_proto] @ concat (map (\<lambda>j. the (EncodeJobAndSqlSummary sample_proto j)) [sample_job, sample_job]) @
      [pl_EndFrame sample_proto] @ []) = Some ([sample_job, sample_job], [])"
  using job_list_roundtrip [OF proto_ok_sample, of "[sample_job, sample_job]" "[]"] summary_ok_sample by simp

subsection \<open>The fields of a request can be read at its offsets\<close>

text \<open>
  What the library documents of messages: frames are added at the end, and the type and the
  partition are written into the first frame before the fields of the request.
\<close>

definition header_kept :: "('c, 'f) proto \<Rightarrow> 'f \<Rightarrow> 'f \<Rightarrow> bool" where
  "header_kept pl f f' \<longleftrightarrow>
     length (pl_Content pl f') = length (pl_Content pl f) \<and>
     drop (pl_PartitionIDOffset pl + IntSizeInBytes) (pl_Content pl f') =
     drop (pl_PartitionIDOffset pl + IntSizeInBytes) (pl_Content pl f)"

definition message_ok :: "('c, 'f) proto \<Rightarrow> bool" where
  "message_ok pl \<longleftrightarrow>
     pl_Frames pl (pl_NewMessage pl) = [] \<and>
     (\<forall>r c. pl_Frames pl (pl_SetRetryable pl r c) = pl_Frames pl c) \<and>
     (\<forall>f c. pl_Frames pl (pl_AddFrame pl f c) = pl_Frames pl c @ [f]) \<and>
     (\<forall>s. pl_Content pl (pl_NewFrameWith pl s UnfragmentedMessage) = s) \<and>
     (\<forall>t c f fs. pl_Frames pl c = f # fs \<longrightarrow>
        (\<exists>f'. pl_Frames pl (pl_SetMessageType pl t c) = f' # fs \<and> header_kept pl f f')) \<and>
     (\<forall>p c f fs. pl_Frames pl c = f # fs \<longrightarrow>
        (\<exists>f'. pl_Frames pl (pl_SetPartitionId pl p c) = f' # fs \<and> header_kept pl f f'))"

lemma add_frames: "message_ok pl \<Longrightarrow>
    pl_Frames pl (foldl (\<lambda>c f. pl_AddFrame pl f c) c frames) = pl_Frames pl c @ frames"
  by (induction frames arbitrary: c) (auto simp: message_ok_def)

lemma make_request_frames:
  assumes "message_ok pl" "fill_all fills (zeros n) = Some content"
  shows "\<exists>c f. make_request pl r t n fills frames = Some c \<and> pl_Frames pl c = f # frames \<and>
    length (pl_Content pl f) = length content \<and>
    drop (pl_PartitionIDOffset pl + 4) (pl_Content pl f) = drop (pl_PartitionIDOffset pl + 4) content"
proof -
  let ?c0 = "pl_AddFrame pl (pl_NewFrameWith pl content UnfragmentedMessage) (pl_SetRetryable pl r (pl_NewMessage pl))"
  let ?f0 = "pl_NewFrameWith pl content UnfragmentedMessage"
  have 0: "pl_Frames pl ?c0 = [?f0]" "pl_Content pl ?f0 = content"
    using assms(1) by (simp_all add: message_ok_def)
  obtain f1 where 1: "pl_Frames pl (pl_SetMessageType pl t ?c0) = [f1]" "header_kept pl ?f0 f1"
    using assms(1) 0 unfolding message_ok_def by blast
  obtain f2 where 2: "pl_Frames pl (pl_SetPartitionId pl (- 1) (pl_SetMessageType pl t ?c0)) = [f2]"
    "header_kept pl f1 f2"
    using assms(1) 1 unfolding message_ok_def by blast
  show ?thesis
    using assms 0 1 2 by (auto simp: make_request_def add_frames header_kept_def)
qed

lemma field_after_header:
  assumes "length b = length b'" "drop o' b = drop o' b'"
  shows "get_bytes n b (o' + x) = get_bytes n b' (o' + x)"
proof -
  have "drop (o' + x) b = drop (o' + x) b'"
    using arg_cong [OF assms(2), of "drop x"] by (simp add: add.commute)
  then show ?thesis using assms(1) by (simp add: get_bytes_def)
qed

lemma DecodeLong_after_header:
  "length b = length b' \<Longrightarrow> drop o' b = drop o' b' \<Longrightarrow> DecodeLong b (o' + x) = DecodeLong b' (o' + x)"
  unfolding DecodeLong_def by (drule (1) field_after_header [where n = 8 and x = x]) simp

text \<open>
  The request that sets a map entry with a maximum idle time says what it was asked to say. The
  encoder does not panic, the thread, the time to live and the idle time are read at their offsets
  in the first frame as they were given, and the name, the key and the value follow as frames.
\<close>

theorem map_set_request_fields:
  assumes "proto_ok pl" "message_ok pl" "int64 tid = tid" "int64 ttl = ttl" "int64 idle = idle"
  shows "\<exists>c f fs. EncodeMapSetWithMaxIdleRequest pl name k v tid ttl idle = Some c \<and>
    pl_Frames pl c = f # fs \<and>
    DecodeLong (pl_Content pl f) (pl_PartitionIDOffset pl + 4) = Some tid \<and>
    DecodeLong (pl_Content pl f) (pl_PartitionIDOffset pl + 12) = Some ttl \<and>
    DecodeLong (pl_Content pl f) (pl_PartitionIDOffset pl + 20) = Some idle \<and>
    decode_pair (DecodeString pl) (decode_pair (DecodeData pl) (DecodeData pl)) fs = Some ((name, k, v), [])"
proof -
  let ?o = "pl_PartitionIDOffset pl + 4"
  obtain b1 where 1: "EncodeLong ?o tid (zeros (?o + 24)) = Some b1" "length b1 = ?o + 24"
    using Encode_fits(1) [of ?o "zeros (?o + 24)"] Encode_length(1) by fastforce
  obtain b2 where 2: "EncodeLong (?o + 8) ttl b1 = Some b2" "length b2 = ?o + 24"
    using Encode_fits(1) [of "?o + 8" b1] Encode_length(1) 1 by fastforce
  obtain b where 3: "EncodeLong (?o + 16) idle b2 = Some b" "length b = ?o + 24"
    using Encode_fits(1) [of "?o + 16" b2] Encode_length(1) 2 by fastforce
  note k = Encode_keeps(1) [OF 2(1)] Encode_keeps(1) [OF 3(1)]
  have b: "DecodeLong b (?o + 0) = Some tid" "DecodeLong b (?o + 8) = Some ttl" "DecodeLong b (?o + 16) = Some idle"
    using Decode_same(1) [OF 1(1)] Decode_same(1) [OF 2(1)] Decode_same(1) [OF 3(1)] k assms(3-5)
    by (simp_all add: Decode_other(1))
  have fill: "fill_all [EncodeLong ?o tid, EncodeLong (?o + 8) ttl, EncodeLong (?o + 8 + 8) idle]
      (zeros (?o + 8 + 8 + 8)) = Some b"
    using 1(1) 2(1) 3(1) by (simp add: algebra_simps)
  obtain c f where c: "EncodeMapSetWithMaxIdleRequest pl name k v tid ttl idle = Some c"
    "pl_Frames pl c = f # (EncodeString pl name @ EncodeData pl k @ EncodeData pl v)"
    "length (pl_Content pl f) = length b" "drop ?o (pl_Content pl f) = drop ?o b"
    using make_request_frames [OF assms(2) fill] unfolding EncodeMapSetWithMaxIdleRequest_def by blast
  have "DecodeLong (pl_Content pl f) (?o + x) = DecodeLong b (?o + x)" for x
    using c(3,4) by (rule DecodeLong_after_header)
  from this [of 0] this [of 8] this [of 16]
  have "DecodeLong (pl_Content pl f) ?o = Some tid" "DecodeLong (pl_Content pl f) (?o + 8) = Some ttl"
    "DecodeLong (pl_Content pl f) (?o + 16) = Some idle"
    using b by simp_all
  moreover have "decode_pair (DecodeString pl) (decode_pair (DecodeData pl) (DecodeData pl))
      (EncodeString pl name @ EncodeData pl k @ EncodeData pl v) = Some ((name, k, v), [])"
    using assms(1)
    by (simp add: decode_pair_def EncodeString_def EncodeData_def DecodeString_def DecodeData_def proto_okD)
  moreover have "?o + 8 = pl_PartitionIDOffset pl + 12" "?o + 16 = pl_PartitionIDOffset pl + 20"
    by simp_all
  ultimately show ?thesis
    using c(1,2) by metis
qed

lemma message_ok_sample: "message_ok sample_proto"
  by (auto simp: message_ok_def sample_proto_def header_kept_def)

lemma map_set_request_fields_witness:
  "\<exists>c f fs. EncodeMapSetWithMaxIdleRequest sample_proto ''m'' ''k'' ''v'' 0 (- 1) 5000 = Some c \<and>
     pl_Frames sample_proto c = f # fs \<and>
     DecodeLong (pl_Content sample_proto f) (pl_PartitionIDOffset sample_proto + 4) = Some 0 \<and>
     DecodeLong (pl_Content sample_proto f) (pl_PartitionIDOffset sample_proto + 12) = Some (- 1) \<and>
     DecodeLong (pl_Content sample_proto f) (pl_PartitionIDOffset sample_proto + 20) = Some 5000 \<and>
     decode_pair (DecodeString sample_proto) (decode_pair (DecodeData sample_proto) (DecodeData sample_proto)) fs
       = Some ((''m'', ''k'', ''v''), [])"
  by (rule map_set_request_fields [OF proto_ok_sample message_ok_sample]) (simp_all add: wrap_int_def)

end
