(* ===== verification/Commands.thy ===== *)
theory Commands
  imports ExecContext Codec
begin

section \<open>Commands on data structures (base/commands, internal/client.go)\<close>

text \<open>
  The commands that read and change the data structures of the cluster: the generic ones of
  common.go and map_common.go, and those of maps, lists, queues, sets, multi-maps and atomic longs.
  A command is a step on the state of \<^typ>\<open>'w cstate\<close>; the client library is the record \<open>dds\<close>. A panic
  of a decoder is the error \<^const>\<open>panic_error\<close>.
\<close>

subsection \<open>The client library\<close>

text \<open>
  \<open>'h\<close> is a proxy of a data structure, \<open>'c\<close> a client message. Serialized data are bytes; nil data
  are the empty bytes.
\<close>

record ('w, 'c, 'f, 'h) dds =
  dd_env :: "'w cenv"
  dd_proto :: "('c, 'f) proto"
  dd_encode :: "go_val \<Rightarrow> go_error + string"
  dd_decode :: "string \<Rightarrow> go_error + cell"
  dd_data_type :: "string \<Rightarrow> int"
  dd_partition :: "string \<Rightarrow> go_error + int"
  dd_invoke_random :: "'c \<Rightarrow> 'w \<Rightarrow> (go_error + 'c) \<times> 'w"
  dd_invoke_key :: "'c \<Rightarrow> string \<Rightarrow> 'w \<Rightarrow> (go_error + 'c) \<times> 'w"
  dd_invoke_partition :: "'c \<Rightarrow> int \<Rightarrow> 'w \<Rightarrow> (go_error + 'c) \<times> 'w"
  dd_get :: "string \<Rightarrow> string \<Rightarrow> 'w \<Rightarrow> (go_error + 'h) \<times> 'w"
  dd_destroy :: "'h \<Rightarrow> 'w \<Rightarrow> (go_error + unit) \<times> 'w"
  dd_clear :: "'h \<Rightarrow> 'w \<Rightarrow> (go_error + unit) \<times> 'w"
  dd_size :: "'h \<Rightarrow> 'w \<Rightarrow> (go_error + int) \<times> 'w"
  dd_add :: "'h \<Rightarrow> string \<Rightarrow> 'w \<Rightarrow> (go_error + bool) \<times> 'w"
  dd_lock :: "'h \<Rightarrow> go_val \<Rightarrow> 'w \<Rightarrow> (go_error + unit) \<times> 'w"
  dd_lock_lease :: "'h \<Rightarrow> go_val \<Rightarrow> int \<Rightarrow> 'w \<Rightarrow> (go_error + unit) \<times> 'w"
  dd_try_lock :: "'h \<Rightarrow> go_val \<Rightarrow> 'w \<Rightarrow> (bool \<times> go_error option) \<times> 'w"
  dd_try_lock_lease :: "'h \<Rightarrow> go_val \<Rightarrow> int \<Rightarrow> 'w \<Rightarrow> (bool \<times> go_error option) \<times> 'w"
  dd_unlock :: "'h \<Rightarrow> go_val \<Rightarrow> 'w \<Rightarrow> (go_error + unit) \<times> 'w"
  dd_atomic_get :: "'h \<Rightarrow> 'w \<Rightarrow> (go_error + int) \<times> 'w"
  dd_atomic_set :: "'h \<Rightarrow> int \<Rightarrow> 'w \<Rightarrow> (go_error + unit) \<times> 'w"
  dd_atomic_add :: "'h \<Rightarrow> int \<Rightarrow> 'w \<Rightarrow> (go_error + int) \<times> 'w"
  dd_publish_all :: "'h \<Rightarrow> go_val list \<Rightarrow> 'w \<Rightarrow> (go_error + unit) \<times> 'w"

definition or_panic :: "'a option \<Rightarrow> ('w, 'a) step" where
  "or_panic v = (case v of None \<Rightarrow> fail panic_error | Some x \<Rightarrow> ret x)"

definition incr_metric :: "('w, 'c, 'f, 'h) dds \<Rightarrow> string \<Rightarrow> ('w, unit) step" where
  "incr_metric lib m = IncrementClusterMetric (dd_env lib) m"

definition fl_of :: "('w, 'c, 'f, 'h) dds \<Rightarrow> float_lib" where
  "fl_of lib = ce_fl (dd_env lib)"

definition name_prop :: "('w, 'c, 'f, 'h) dds \<Rightarrow> 'w cstate \<Rightarrow> string" where
  "name_prop lib s = prop_string (dd_env lib) s ''name''"

definition println :: "('w, 'c, 'f, 'h) dds \<Rightarrow> string \<Rightarrow> ('w, unit) step" where
  "println lib t = PrintlnUnnecessary (dd_env lib) t"

definition output_rows :: "('w, 'c, 'f, 'h) dds \<Rightarrow> row list \<Rightarrow> ('w, unit) step" where
  "output_rows lib rows = AddOutputRows (dd_env lib) rows"

definition bool_cell :: "bool \<Rightarrow> cell" where
  "bool_cell b = CScalar ''bool'' (if b then ''true'' else ''false'')"

definition string_cell :: "string \<Rightarrow> cell" where
  "string_cell s = CScalar ''string'' s"

definition int_cell :: "string \<Rightarrow> int \<Rightarrow> cell" where
  "int_cell typ i = CScalar typ (itoa i)"

subsection \<open>base/commands/common.go\<close>

definition MakeValueFromString :: "float_lib \<Rightarrow> string \<Rightarrow> string \<Rightarrow> go_val \<times> go_error option" where
  "MakeValueFromString fl s typeStr =
     ValueFromString fl s (if typeStr = [] then ''string'' else typeStr)"

definition MakeValuesFromStrings :: "float_lib \<Rightarrow> string \<Rightarrow> string list \<Rightarrow> go_error + go_val list" where
  "MakeValuesFromStrings fl typeStr items =
     (let typeStr = (if typeStr = [] then ''string'' else typeStr) in
      map_res (\<lambda>s. case ValueFromString fl s typeStr of
                  (v, Some e) \<Rightarrow> Inl (Wrapf ''converting string to key'' e)
                | (v, None) \<Rightarrow> Inr v) items)"

definition make_data :: "('w, 'c, 'f, 'h) dds \<Rightarrow> string \<Rightarrow> string \<Rightarrow> ('w, string) step" where
  "make_data lib flag str = with_state (\<lambda>s.
     let t = prop_string (dd_env lib) s flag;
         t = (if t = [] then ''string'' else t)
     in case ValueFromString (fl_of lib) str t of
          (v, Some e) \<Rightarrow> fail e
        | (v, None) \<Rightarrow> lift_res (dd_encode lib v))"

definition MakeKeyData :: "('w, 'c, 'f, 'h) dds \<Rightarrow> string \<Rightarrow> ('w, string) step" where
  "MakeKeyData lib keyStr = make_data lib ''key-type'' keyStr"

definition MakeValueData :: "('w, 'c, 'f, 'h) dds \<Rightarrow> string \<Rightarrow> ('w, string) step" where
  "MakeValueData lib valueStr = make_data lib ''value-type'' valueStr"

definition MakeKeyValueData :: "('w, 'c, 'f, 'h) dds \<Rightarrow> string \<Rightarrow> string \<Rightarrow> ('w, string \<times> string) step" where
  "MakeKeyValueData lib keyStr valueStr =
     andthen (MakeKeyData lib keyStr) (\<lambda>kd. andthen (MakeValueData lib valueStr) (\<lambda>vd. ret (kd, vd)))"

definition AddDDSRows :: "('w, 'c, 'f, 'h) dds \<Rightarrow> string \<Rightarrow> string \<Rightarrow> row list \<Rightarrow> ('w, unit) step" where
  "AddDDSRows lib typeName what rows = with_state (\<lambda>s.
     if rows = [] then
       println lib (''OK No '' @ what @ '' found in '' @ typeName @ '' '' @ [CHR 0x27] @ name_prop lib s @ [CHR 0x27] @ ''.'')
     else output_rows lib rows)"

definition GetTTL :: "'w cstate \<Rightarrow> int" where
  "GetTTL s = (case Properties_Get (cs_props s) ''ttl'' of Some _ \<Rightarrow> prop_int s ''ttl'' | None \<Rightarrow> - 1)"

definition IsYes :: "('w, 'c, 'f, 'h) dds \<Rightarrow> 'w cstate \<Rightarrow> bool" where
  "IsYes lib s \<longleftrightarrow> prop_bool s ''yes'' \<or> ce_getenv (dd_env lib) ''CLC_YES'' = ''1''"

text \<open>The question of the commands that delete, and what may follow the answer.\<close>

definition quoted :: "string \<Rightarrow> string" where
  "quoted s = [CHR 0x27] @ s @ [CHR 0x27]"

definition confirm :: "bool \<Rightarrow> string \<Rightarrow> ('w, unit) step" where
  "confirm autoYes q =
     (if autoYes then ret ()
      else (\<lambda>s. case YesNo q s of
          (Inl e, s') \<Rightarrow> (Inl ErrUserCancelled, s')
        | (Inr yes, s') \<Rightarrow> if yes then (Inr (), s') else (Inl ErrUserCancelled, s')))"

record ('w, 'h) object_command =
  oc_typeName :: string
  oc_metricName :: string
  oc_getFn :: "('w, 'h) step"

definition DestroyCommand_Exec :: "('w, 'c, 'f, 'h) dds \<Rightarrow> ('w, 'h) object_command \<Rightarrow> ('w, unit) step" where
  "DestroyCommand_Exec lib cm = with_state (\<lambda>s0.
     let name = name_prop lib s0; autoYes = prop_bool s0 ''yes'' in
     andthen (confirm autoYes (oc_typeName cm @ '' '' @ quoted name @ '' will be deleted irreversibly, proceed?'')) (\<lambda>_.
     andthen (ExecuteBlocking
       (andthen (oc_getFn cm) (\<lambda>m.
        andthen (incr_metric lib (''total.'' @ oc_metricName cm)) (\<lambda>_.
        on_world (dd_destroy lib m))))) (\<lambda>_.
     println lib (''OK Destroyed '' @ oc_typeName cm @ '' '' @ quoted name @ ''.''))))"

definition ClearCommand_Exec :: "('w, 'c, 'f, 'h) dds \<Rightarrow> ('w, 'h) object_command \<Rightarrow> ('w, unit) step" where
  "ClearCommand_Exec lib cm = with_state (\<lambda>s0.
     let name = name_prop lib s0; autoYes = prop_bool s0 ''yes'' in
     andthen (confirm autoYes (''Content of '' @ oc_typeName cm @ '' '' @ quoted name @
                               '' will be deleted irreversibly. Proceed?'')) (\<lambda>_.
     andthen (ExecuteBlocking
       (andthen (oc_getFn cm) (\<lambda>m.
        andthen (incr_metric lib (''total.'' @ oc_metricName cm)) (\<lambda>_.
        on_world (dd_clear lib m))))) (\<lambda>_.
     println lib (''OK Cleared '' @ oc_typeName cm @ '' '' @ quoted name @ ''.''))))"

definition SizeCommand_Exec :: "('w, 'c, 'f, 'h) dds \<Rightarrow> ('w, 'h) object_command \<Rightarrow> ('w, unit) step" where
  "SizeCommand_Exec lib cm =
     andthen (ExecuteBlocking
       (andthen (oc_getFn cm) (\<lambda>m.
        andthen (incr_metric lib (''total.'' @ oc_metricName cm)) (\<lambda>_.
        on_world (dd_size lib m))))) (\<lambda>sv.
     output_rows lib [[Column ''Size'' TypeInt32 (int_cell ''int32'' (int32 sv))]])"

subsection \<open>base/commands/map_common.go\<close>

text \<open>
  The commands of maps and multi-maps. \<open>mc_prefixer\<close> makes sure that the proxy exists; the encoders
  and decoders are those of the codec of the data structure.
\<close>

definition request_random :: "('w, 'c, 'f, 'h) dds \<Rightarrow> 'c option \<Rightarrow> ('w, 'c) step" where
  "request_random lib req = andthen (or_panic req) (\<lambda>c. on_world (dd_invoke_random lib c))"

definition request_key :: "('w, 'c, 'f, 'h) dds \<Rightarrow> 'c option \<Rightarrow> string \<Rightarrow> ('w, 'c) step" where
  "request_key lib req kd = andthen (or_panic req) (\<lambda>c. on_world (dd_invoke_key lib c kd))"

definition request_partition :: "('w, 'c, 'f, 'h) dds \<Rightarrow> 'c option \<Rightarrow> int \<Rightarrow> ('w, 'c) step" where
  "request_partition lib req pid = andthen (or_panic req) (\<lambda>c. on_world (dd_invoke_partition lib c pid))"

definition connect :: "('w, 'c, 'f, 'h) dds \<Rightarrow> ('w, unit) step" where
  "connect lib = ClientInternal (dd_env lib)"

text \<open>The rows of serialized items: a decoded item, or its type name when it cannot be decoded.\<close>

definition item_row :: "('w, 'c, 'f, 'h) dds \<Rightarrow> (int \<Rightarrow> cell \<Rightarrow> column) \<Rightarrow> (int \<Rightarrow> column) \<Rightarrow> bool \<Rightarrow> string \<Rightarrow> row" where
  "item_row lib mk mkType showType d =
     (let (t, v) = ensureTypeValue (dd_data_type lib) (dd_decode lib) d in
      [mk t v] @ (if showType then [mkType t] else []))"

record ('w, 'c, 'h) name_command =
  nc_typeName :: string
  nc_metricName :: string
  nc_encoder :: "string \<Rightarrow> 'c option"
  nc_prefixer :: "('w, 'h) step"

definition name_request ::
    "('w, 'c, 'f, 'h) dds \<Rightarrow> ('w, 'c, 'h) name_command \<Rightarrow> string \<Rightarrow> ('c \<Rightarrow> 'r option) \<Rightarrow> ('w, 'r) step" where
  "name_request lib cm name decoder =
     andthen (connect lib) (\<lambda>_.
     andthen (incr_metric lib (''total.'' @ nc_metricName cm)) (\<lambda>_.
     andthen (nc_prefixer cm) (\<lambda>_.
     andthen (request_random lib (nc_encoder cm name)) (\<lambda>resp.
     or_panic (decoder resp)))))"

definition MapEntrySetCommand_Exec ::
    "('w, 'c, 'f, 'h) dds \<Rightarrow> ('w, 'c, 'h) name_command \<Rightarrow> ('c \<Rightarrow> (string \<times> string) list option) \<Rightarrow> ('w, unit) step" where
  "MapEntrySetCommand_Exec lib cm decoder = with_state (\<lambda>s0.
     let name = name_prop lib s0; showType = prop_bool s0 ''show-type'' in
     andthen (ExecuteBlocking
       (andthen (name_request lib cm name decoder) (\<lambda>pairs.
        ret (DecodePairs (dd_data_type lib) (dd_decode lib) pairs showType)))) (\<lambda>rows.
     AddDDSRows lib (nc_typeName cm) ''entries'' rows))"

definition MapKeySetCommand_Exec ::
    "('w, 'c, 'f, 'h) dds \<Rightarrow> ('w, 'c, 'h) name_command \<Rightarrow> ('c \<Rightarrow> string list option) \<Rightarrow> ('w, unit) step" where
  "MapKeySetCommand_Exec lib cm decoder = with_state (\<lambda>s0.
     let name = name_prop lib s0; showType = prop_bool s0 ''show-type'' in
     andthen (ExecuteBlocking
       (andthen (name_request lib cm name decoder) (\<lambda>ds.
        ret (map (item_row lib NewKeyColumn NewKeyTypeColumn showType) ds)))) (\<lambda>rows.
     AddDDSRows lib (nc_typeName cm) ''keys'' rows))"

definition MapValuesCommand_Exec ::
    "('w, 'c, 'f, 'h) dds \<Rightarrow> ('w, 'c, 'h) name_command \<Rightarrow> ('c \<Rightarrow> string list option) \<Rightarrow> ('w, unit) step" where
  "MapValuesCommand_Exec lib cm decoder = with_state (\<lambda>s0.
     let name = name_prop lib s0; showType = prop_bool s0 ''show-type'' in
     andthen (ExecuteBlocking
       (andthen (name_request lib cm name decoder) (\<lambda>ds.
        ret (map (item_row lib NewValueColumn NewValueTypeColumn showType) ds)))) (\<lambda>rows.
     AddDDSRows lib (nc_typeName cm) ''values'' rows))"

text \<open>Commands on one key: the encoder takes the name, the key and the thread id.\<close>

record ('w, 'c, 'h) key_command =
  kc_typeName :: string
  kc_metricName :: string
  kc_encoder :: "string \<Rightarrow> string \<Rightarrow> int \<Rightarrow> 'c option"
  kc_decoder :: "'c \<Rightarrow> ('w, row list) step"
  kc_prefixer :: "('w, 'h) step"

definition MapGetCommand_Exec :: "('w, 'c, 'f, 'h) dds \<Rightarrow> ('w, 'c, 'h) key_command \<Rightarrow> ('w, unit) step" where
  "MapGetCommand_Exec lib cm = with_state (\<lambda>s0.
     let name = name_prop lib s0; keyStr = GetStringArg s0 ''key'' in
     andthen (ExecuteBlocking
       (andthen (connect lib) (\<lambda>_.
        andthen (incr_metric lib (''total.'' @ kc_metricName cm)) (\<lambda>_.
        andthen (kc_prefixer cm) (\<lambda>_.
        andthen (MakeKeyData lib keyStr) (\<lambda>keyData.
        andthen (request_key lib (kc_encoder cm name keyData 0) keyData) (kc_decoder cm))))))) (\<lambda>rows.
     if rows = [] then println lib ''OK No values.'' else output_rows lib rows))"

definition MapRemoveCommand_Exec :: "('w, 'c, 'f, 'h) dds \<Rightarrow> ('w, 'c, 'h) key_command \<Rightarrow> ('w, unit) step" where
  "MapRemoveCommand_Exec lib cm = with_state (\<lambda>s0.
     let name = name_prop lib s0; keyStr = GetStringArg s0 ''key'' in
     andthen (ExecuteBlocking
       (andthen (connect lib) (\<lambda>_.
        andthen (incr_metric lib (''total.'' @ kc_metricName cm)) (\<lambda>_.
        andthen (MakeKeyData lib keyStr) (\<lambda>keyData.
        andthen (request_key lib (kc_encoder cm name keyData 0) keyData) (kc_decoder cm)))))) (\<lambda>rows.
     andthen (println lib (''OK Removed the entry from '' @ kc_typeName cm @ '' '' @ quoted name @ ''.'' @ [CHR 0x0A])) (\<lambda>_.
     output_rows lib rows)))"

definition key_value :: "('w, 'c, 'f, 'h) dds \<Rightarrow> 'w cstate \<Rightarrow> go_val \<times> go_error option" where
  "key_value lib s =
     MakeValueFromString (fl_of lib) (GetStringArg s ''key'') (prop_string (dd_env lib) s ''key-type'')"

definition LockCommand_Exec :: "('w, 'c, 'f, 'h) dds \<Rightarrow> ('w, 'h) object_command \<Rightarrow> ('w, unit) step" where
  "LockCommand_Exec lib cm = with_state (\<lambda>s0.
     let name = name_prop lib s0 in
     andthen (ExecuteBlocking (with_state (\<lambda>s.
       case key_value lib s of
         (key, Some e) \<Rightarrow> fail e
       | (key, None) \<Rightarrow>
           andthen (oc_getFn cm) (\<lambda>m.
           andthen (incr_metric lib (''total.'' @ oc_metricName cm)) (\<lambda>_.
           let ttl = GetTTL s in
           if ttl \<noteq> - 1 then on_world (dd_lock_lease lib m key ttl) else on_world (dd_lock lib m key)))))) (\<lambda>_.
     println lib (''OK Locked the key in '' @ oc_typeName cm @ '' '' @ quoted name @ ''.'')))"

text \<open>The error of the attempt is not looked at, only its flag.\<close>

definition MapTryLockCommand_Exec :: "('w, 'c, 'f, 'h) dds \<Rightarrow> ('w, 'h) object_command \<Rightarrow> ('w, unit) step" where
  "MapTryLockCommand_Exec lib cm =
     andthen (ExecuteBlocking
       (andthen (oc_getFn cm) (\<lambda>m.
        andthen (incr_metric lib (''total.'' @ oc_metricName cm)) (\<lambda>_.
        with_state (\<lambda>s.
          case key_value lib s of
            (key, Some e) \<Rightarrow> fail e
          | (key, None) \<Rightarrow>
              andthen (on_world (\<lambda>w.
                 let ttl = GetTTL s;
                     ((locked, err), w') = (if ttl \<noteq> - 1 then dd_try_lock_lease lib m key ttl w
                                            else dd_try_lock lib m key w)
                 in (Inr locked, w'))) (\<lambda>locked.
              ret [[Column ''Locked'' TypeBool (bool_cell locked)] @
                   (if prop_bool s ''show-type''
                    then [Column ''Type'' TypeString (string_cell (TypeToLabel TypeBool))] else [])])))))) (\<lambda>rows.
     output_rows lib rows)"

text \<open>An error in converting the key is lost; the key is then whatever the conversion left.\<close>

definition MapUnlockCommand_Exec :: "('w, 'c, 'f, 'h) dds \<Rightarrow> ('w, 'h) object_command \<Rightarrow> ('w, unit) step" where
  "MapUnlockCommand_Exec lib cm = with_state (\<lambda>s0.
     let name = name_prop lib s0 in
     andthen (ExecuteBlocking (with_state (\<lambda>s.
       let (key, err) = key_value lib s in
       andthen (oc_getFn cm) (\<lambda>m.
       andthen (incr_metric lib (''total.'' @ oc_metricName cm)) (\<lambda>_.
       on_world (dd_unlock lib m key)))))) (\<lambda>_.
     println lib (''OK Unlocked the key in '' @ oc_typeName cm @ '' '' @ quoted name @ ''.'')))"

subsection \<open>Getting the data structures\<close>

definition get_object :: "('w, 'c, 'f, 'h) dds \<Rightarrow> string \<Rightarrow> ('w, 'h) step" where
  "get_object lib kind = with_state (\<lambda>s.
     let name = name_prop lib s in
     andthen (connect lib) (\<lambda>_. on_world (dd_get lib kind name)))"

definition getMap :: "('w, 'c, 'f, 'h) dds \<Rightarrow> ('w, 'h) step" where
  "getMap lib = get_object lib ''Map''"

definition getList :: "('w, 'c, 'f, 'h) dds \<Rightarrow> ('w, 'h) step" where
  "getList lib = get_object lib ''List''"

definition getQueue :: "('w, 'c, 'f, 'h) dds \<Rightarrow> ('w, 'h) step" where
  "getQueue lib = get_object lib ''Queue''"

definition getSet :: "('w, 'c, 'f, 'h) dds \<Rightarrow> ('w, 'h) step" where
  "getSet lib = get_object lib ''Set''"

definition getMultiMap :: "('w, 'c, 'f, 'h) dds \<Rightarrow> ('w, 'h) step" where
  "getMultiMap lib = get_object lib ''MultiMap''"

definition getAtomicLong :: "('w, 'c, 'f, 'h) dds \<Rightarrow> ('w, 'h) step" where
  "getAtomicLong lib = get_object lib ''AtomicLong''"

definition StringToPartitionID :: "('w, 'c, 'f, 'h) dds \<Rightarrow> string \<Rightarrow> go_error + int" where
  "StringToPartitionID lib name =
     (let key = (case index_of name ''@'' of None \<Rightarrow> name | Some idx \<Rightarrow> drop (idx + 1) name) in
      bind_res (dd_encode lib (VString key)) (dd_partition lib))"

subsection \<open>base/commands/map\<close>

text \<open>The row of one item under \<open>this\<close>, nil data being the empty bytes.\<close>

definition value_row :: "('w, 'c, 'f, 'h) dds \<Rightarrow> bool \<Rightarrow> string \<Rightarrow> row" where
  "value_row lib showType d =
     (let (vt, v) = ensureTypeValue (dd_data_type lib) (dd_decode lib) d in
      [Column ''this'' vt v] @
      (if showType then [Column ''this_type'' TypeString (string_cell (TypeToLabel vt))] else []))"

definition data_bytes :: "string option \<Rightarrow> string" where
  "data_bytes d = (case d of None \<Rightarrow> [] | Some b \<Rightarrow> b)"

definition makeDecodeResponseRowsFunc ::
    "('w, 'c, 'f, 'h) dds \<Rightarrow> ('c \<Rightarrow> string option option) \<Rightarrow> 'c \<Rightarrow> ('w, row list) step" where
  "makeDecodeResponseRowsFunc lib decoder res =
     andthen (connect lib) (\<lambda>_.
     andthen (or_panic (decoder res)) (\<lambda>d.
     with_state (\<lambda>s. ret [value_row lib (prop_bool s ''show-type'') (data_bytes d)])))"

definition getMaxIdle :: "'w cstate \<Rightarrow> int" where
  "getMaxIdle s = (case Properties_Get (cs_props s) ''max-idle'' of Some _ \<Rightarrow> prop_int s ''max-idle'' | None \<Rightarrow> - 1)"

definition MapSetCommand_Exec :: "('w, 'c, 'f, 'h) dds \<Rightarrow> ('w, unit) step" where
  "MapSetCommand_Exec lib = with_state (\<lambda>s0.
     let mapName = name_prop lib s0 in
     andthen (ExecuteBlocking
       (andthen (connect lib) (\<lambda>_.
        andthen (incr_metric lib ''total.map'') (\<lambda>_.
        andthen (getMap lib) (\<lambda>_.
        with_state (\<lambda>s.
        andthen (MakeKeyValueData lib (GetStringArg s ''key'') (GetStringArg s ''value'')) (\<lambda>(kd, vd).
        let ttl = GetTTL s; maxIdle = getMaxIdle s;
            req = (if 0 \<le> maxIdle
                   then EncodeMapSetWithMaxIdleRequest (dd_proto lib) mapName kd vd 0 ttl maxIdle
                   else EncodeMapSetRequest (dd_proto lib) mapName kd vd 0 ttl)
        in andthen (request_key lib req kd) (\<lambda>_. ret ())))))))) (\<lambda>_.
     println lib (''OK Set the value into the Map '' @ quoted mapName @ ''.'')))"

definition MapLoadAllCommand_Exec :: "('w, 'c, 'f, 'h) dds \<Rightarrow> ('w, unit) step" where
  "MapLoadAllCommand_Exec lib = with_state (\<lambda>s0.
     let name = name_prop lib s0 in
     andthen (ExecuteBlocking (with_state (\<lambda>s.
        let replace = prop_bool s ''replace'' in
        andthen (connect lib) (\<lambda>_.
        andthen (incr_metric lib ''total.map'') (\<lambda>_.
        andthen (foreach (MakeKeyData lib) (GetStringSliceArg s ''key'')) (\<lambda>keys.
        let req = (if keys = [] then EncodeMapLoadAllRequest (dd_proto lib) name replace
                   else EncodeMapLoadGivenKeysRequest (dd_proto lib) name keys replace)
        in andthen (request_random lib req) (\<lambda>_. ret ()))))))) (\<lambda>_.
     println lib (''OK Loaded the keys into Map '' @ quoted name)))"

definition map_get_command :: "('w, 'c, 'f, 'h) dds \<Rightarrow> ('w, 'c, 'h) key_command" where
  "map_get_command lib =
     \<lparr>kc_typeName = ''Map'', kc_metricName = ''map'', kc_encoder = EncodeMapGetRequest (dd_proto lib),
      kc_decoder = makeDecodeResponseRowsFunc lib (DecodeMapGetResponse (dd_proto lib)), kc_prefixer = getMap lib\<rparr>"

definition map_remove_command :: "('w, 'c, 'f, 'h) dds \<Rightarrow> ('w, 'c, 'h) key_command" where
  "map_remove_command lib =
     \<lparr>kc_typeName = ''Map'', kc_metricName = ''map'', kc_encoder = EncodeMapRemoveRequest (dd_proto lib),
      kc_decoder = makeDecodeResponseRowsFunc lib (DecodeMapRemoveResponse (dd_proto lib)), kc_prefixer = getMap lib\<rparr>"

definition map_object_command :: "('w, 'c, 'f, 'h) dds \<Rightarrow> ('w, 'h) object_command" where
  "map_object_command lib = \<lparr>oc_typeName = ''Map'', oc_metricName = ''map'', oc_getFn = getMap lib\<rparr>"

definition map_entry_set :: "('w, 'c, 'f, 'h) dds \<Rightarrow> ('w, unit) step" where
  "map_entry_set lib =
     MapEntrySetCommand_Exec lib
       \<lparr>nc_typeName = ''Map'', nc_metricName = ''map'', nc_encoder = EncodeMapEntrySetRequest (dd_proto lib),
        nc_prefixer = getMap lib\<rparr> (DecodeMapEntrySetResponse (dd_proto lib))"

definition map_key_set :: "('w, 'c, 'f, 'h) dds \<Rightarrow> ('w, unit) step" where
  "map_key_set lib =
     MapKeySetCommand_Exec lib
       \<lparr>nc_typeName = ''Map'', nc_metricName = ''map'', nc_encoder = EncodeMapKeySetRequest (dd_proto lib),
        nc_prefixer = getMap lib\<rparr> (DecodeMapKeySetResponse (dd_proto lib))"

definition map_values :: "('w, 'c, 'f, 'h) dds \<Rightarrow> ('w, unit) step" where
  "map_values lib =
     MapValuesCommand_Exec lib
       \<lparr>nc_typeName = ''Map'', nc_metricName = ''map'', nc_encoder = EncodeMapValuesRequest (dd_proto lib),
        nc_prefixer = getMap lib\<rparr> (DecodeMapValuesResponse (dd_proto lib))"

subsection \<open>Deleting asks first\<close>

definition answer_yes :: "(go_error + string) list \<Rightarrow> bool" where
  "answer_yes inp = (case inp of Inr l # _ \<Rightarrow> trim_space (to_lower l) \<in> {''y'', ''yes''} | _ \<Rightarrow> False)"

lemma confirm_refused:
  assumes "\<not> yes" "\<not> answer_yes (cs_input s)"
  shows "\<exists>s'. confirm yes q s = (Inl ErrUserCancelled, s') \<and> same_world s s'"
  using assms
  by (auto simp: confirm_def YesNo_def readline_def andthen_def ret_def same_world_def write_out_def
    answer_yes_def Let_def split: list.splits sum.splits)

lemma confirm_granted:
  assumes "yes \<or> answer_yes (cs_input s)"
  shows "\<exists>s'. confirm yes q s = (Inr (), s') \<and> same_world s s' \<and> cs_sched s' = cs_sched s \<and>
    cs_props s' = cs_props s \<and> cs_mode s' = cs_mode s"
  using assms
  by (auto simp: confirm_def YesNo_def readline_def andthen_def ret_def same_world_def write_out_def
    answer_yes_def Let_def split: list.splits sum.splits)

text \<open>
  C24: Nothing is deleted without consent. When neither the flag \<open>--yes\<close> is set nor the next line the
  user types is y or yes, in any case and with any blanks around (no input and an interrupted prompt
  included), destroying and clearing end with the error \<open>canceled\<close> without having touched the
  cluster: no connection is made, nothing is invoked and no metric is counted.
\<close>

theorem delete_needs_confirmation:
  assumes "\<not> prop_bool s ''yes''" "\<not> answer_yes (cs_input s)"
  shows "(\<exists>s'. DestroyCommand_Exec lib cm s = (Inl ErrUserCancelled, s') \<and> same_world s s') \<and>
         (\<exists>s'. ClearCommand_Exec lib cm s = (Inl ErrUserCancelled, s') \<and> same_world s s')"
proof -
  have c: "\<exists>s'. confirm (prop_bool s ''yes'') q s = (Inl ErrUserCancelled, s') \<and> same_world s s'" for q
    using confirm_refused assms by blast
  show ?thesis
    unfolding DestroyCommand_Exec_def ClearCommand_Exec_def with_state_def Let_def
    using c [THEN exE] by (meson andthen_Inl c)
qed

text \<open>A cluster that is a counter of what was done to it.\<close>

definition sample_lib :: "(nat, sample_message, string \<times> sample_kind, string) dds" where
  "sample_lib = \<lparr>dd_env = sample_env, dd_proto = sample_proto,
     dd_encode = (\<lambda>v. case as_string v of None \<Rightarrow> Inl (Errorf ''cannot encode'') | Some t \<Rightarrow> Inr t),
     dd_decode = (\<lambda>d. Inr (string_cell d)), dd_data_type = (\<lambda>d. TypeString), dd_partition = (\<lambda>d. Inr 0),
     dd_invoke_random = (\<lambda>c w. (Inr c, w)), dd_invoke_key = (\<lambda>c k w. (Inr c, Suc w)),
     dd_invoke_partition = (\<lambda>c p w. (Inr c, Suc w)), dd_get = (\<lambda>k n w. (Inr n, w)),
     dd_destroy = (\<lambda>h w. (Inr (), 0)), dd_clear = (\<lambda>h w. (Inr (), 0)), dd_size = (\<lambda>h w. (Inr (int w), w)),
     dd_add = (\<lambda>h d w. (Inr True, Suc w)), dd_lock = (\<lambda>h k w. (Inr (), w)),
     dd_lock_lease = (\<lambda>h k t w. (Inr (), w)), dd_try_lock = (\<lambda>h k w. ((True, None), w)),
     dd_try_lock_lease = (\<lambda>h k t w. ((True, None), w)), dd_unlock = (\<lambda>h k w. (Inr (), w)),
     dd_atomic_get = (\<lambda>h w. (Inr (int w), w)), dd_atomic_set = (\<lambda>h v w. (Inr (), nat v)),
     dd_atomic_add = (\<lambda>h v w. (Inr (int w + v), w)), dd_publish_all = (\<lambda>h vs w. (Inr (), w + length vs))\<rparr>"

lemma sample_not_yes: "\<not> prop_bool sample_state ''yes''"
  by (simp add: prop_bool_def Properties_GetBool_def Properties_Get_def sample_state_def NewProperties_def)

lemma delete_needs_confirmation_witness:
  "\<exists>s'. DestroyCommand_Exec sample_lib (map_object_command sample_lib) sample_state = (Inl ErrUserCancelled, s') \<and>
        cs_world s' = 7"
  using delete_needs_confirmation [of sample_state sample_lib "map_object_command sample_lib", OF sample_not_yes]
  by (fastforce simp: answer_yes_def sample_state_def same_world_def to_lower_def lower_char_def
    trim_space_id space_eval)

lemma get_object_connected:
  assumes "cs_connected s" "dd_get lib kind (name_prop lib s) (cs_world s) = (Inr h, w1)"
  shows "get_object lib kind s = (Inr h, s\<lparr>cs_world := w1\<rparr>)"
  using assms
  by (simp add: get_object_def with_state_def connect_def ClientInternal_def ret_def andthen_def on_world_def)

lemma incr_metric_offline:
  "\<not> ce_phone_home (dd_env lib) \<Longrightarrow> incr_metric lib m s =
     (Inr (), s\<lparr>cs_metrics := cs_metrics s @ [(([], []), m @ ''.'' @ RunningModeString (cs_mode s))]\<rparr>)"
  by (simp add: incr_metric_def IncrementClusterMetric_def FindClusterIDs_def)

lemma name_prop_cong: "cs_props s' = cs_props s \<Longrightarrow> name_prop lib s' = name_prop lib s"
  by (simp add: name_prop_def prop_string_def)

text \<open>
  With consent, the structure with the name given is destroyed and nothing else happens to the
  cluster. The command gets the proxy of that name, counts its metric once and destroys it; its
  result is the result of the destruction, whose error is not lost.
\<close>

theorem confirmed_destroy_destroys:
  assumes "prop_bool s ''yes'' \<or> answer_yes (cs_input s)" "cs_sched s = []" "cs_connected s"
    "\<not> ce_phone_home (dd_env lib)" "oc_getFn cm = get_object lib kind"
    "dd_get lib kind (name_prop lib s) (cs_world s) = (Inr h, w1)" "dd_destroy lib h w1 = (r, w2)"
  shows "\<exists>s'. DestroyCommand_Exec lib cm s = (r, s') \<and> cs_world s' = w2 \<and>
    cs_metrics s' = cs_metrics s @ [(([], []), ''total.'' @ oc_metricName cm @ ''.'' @ RunningModeString (cs_mode s))]"
proof -
  let ?q = "oc_typeName cm @ '' '' @ quoted (name_prop lib s) @ '' will be deleted irreversibly, proceed?''"
  obtain s1 where c: "confirm (prop_bool s ''yes'') ?q s = (Inr (), s1)" and s1: "same_world s s1"
    "cs_sched s1 = cs_sched s" "cs_props s1 = cs_props s" "cs_mode s1 = cs_mode s"
    using confirm_granted assms(1) by blast
  have g: "get_object lib kind s1 = (Inr h, s1\<lparr>cs_world := w1\<rparr>)"
    by (rule get_object_connected) (use assms(3,6) s1 in \<open>simp_all add: same_world_def name_prop_cong [OF s1(3)]\<close>)
  have p: "same_world a (snd (println lib t a))" for a t
    using keep_same_world_print [of "dd_env lib" t] unfolding steps_keep_def println_def by blast
  have pr: "fst (println lib t a) = Inr ()" for a t
    by (simp add: println_def PrintlnUnnecessary_def)
  let ?m = "[(([], []), ''total.'' @ oc_metricName cm @ ''.'' @ RunningModeString (cs_mode s))]"
  let ?s2 = "s1\<lparr>cs_world := w2, cs_metrics := cs_metrics s1 @ ?m\<rparr>"
  have x: "ExecuteBlocking (andthen (oc_getFn cm) (\<lambda>m. andthen (incr_metric lib (''total.'' @ oc_metricName cm))
      (\<lambda>_. on_world (dd_destroy lib m)))) s1 = (r, ?s2)"
    using g assms(2,5,7) s1 incr_metric_offline [OF assms(4)]
    by (simp add: ExecuteBlocking_def andthen_def on_world_def)
  let ?t = "''OK Destroyed '' @ oc_typeName cm @ '' '' @ quoted (name_prop lib s) @ ''.''"
  have "DestroyCommand_Exec lib cm s = (case r of Inl e \<Rightarrow> (Inl e, ?s2) | Inr _ \<Rightarrow> println lib ?t ?s2)"
    unfolding DestroyCommand_Exec_def with_state_def Let_def
    using c x by (simp add: andthen_def split: sum.splits)
  moreover have "same_world ?s2 (snd (println lib ?t ?s2))" by (rule p)
  ultimately show ?thesis
    using pr [of ?t ?s2] s1(1)
    by (cases r; cases "println lib ?t ?s2") (auto simp: same_world_def)
qed

lemma confirmed_destroy_destroys_witness:
  "\<exists>s'. DestroyCommand_Exec sample_lib (map_object_command sample_lib)
          (sample_state\<lparr>cs_input := [Inr '' YES ''], cs_connected := True\<rparr>) = (Inr (), s') \<and> cs_world s' = 0"
proof -
  let ?s = "sample_state\<lparr>cs_input := [Inr '' YES ''], cs_connected := True\<rparr>"
  have y: "answer_yes (cs_input ?s)"
    by (code_simp)
  show ?thesis
    using confirmed_destroy_destroys [of ?s sample_lib "map_object_command sample_lib" "''Map''" "name_prop sample_lib ?s" 7
      "Inr ()" 0, OF disjI2 [OF y]]
    by (auto simp: sample_state_def sample_lib_def sample_env_def map_object_command_def getMap_def)
qed

end
