(* ===== verification/DataStructures.thy ===== *)
theory DataStructures
  imports Commands
begin

section \<open>Lists, queues, sets, multi-maps, atomic longs, topics and objects (base/commands)\<close>

text \<open>
  The commands of the other data structures, each in the order of the calls of its \<open>Exec\<close>, and the
  listing of distributed objects and of map indexes (base/objects, base/maps).
\<close>

definition type_col :: "bool \<Rightarrow> int \<Rightarrow> column list" where
  "type_col showType t = (if showType then [Column ''this_type'' TypeString (string_cell (TypeToLabel t))] else [])"

subsection \<open>base/commands/list\<close>

definition removeFromList :: "('w, 'c, 'f, 'h) dds \<Rightarrow> string \<Rightarrow> int \<Rightarrow> string \<Rightarrow> ('w, unit) step" where
  "removeFromList lib name index valueStr =
     andthen (ExecuteBlocking
       (let indexCall = (valueStr = []) in
        andthen (connect lib) (\<lambda>_.
        andthen (incr_metric lib ''total.list'') (\<lambda>_.
        andthen (lift_res (StringToPartitionID lib name)) (\<lambda>pid.
        andthen (if indexCall then ret (EncodeListRemoveWithIndexRequest (dd_proto lib) name index)
                 else andthen (MakeValueData lib valueStr) (\<lambda>vd.
                      ret (EncodeListRemoveRequest (dd_proto lib) name vd))) (\<lambda>req.
        andthen (request_partition lib req pid) (\<lambda>resp.
        with_state (\<lambda>s.
          let showType = prop_bool s ''show-type'' in
          if indexCall then
            andthen (or_panic (DecodeListRemoveWithIndexResponse (dd_proto lib) resp)) (\<lambda>raw.
            let (vt, v) = ensureTypeValue (dd_data_type lib) (dd_decode lib) (data_bytes raw) in
            ret ([Column ''Removed Value'' vt v] @ type_col showType vt))
          else
            andthen (or_panic (DecodeListRemoveResponse (dd_proto lib) resp)) (\<lambda>v.
            ret ([Column ''Removed'' TypeBool (bool_cell v)] @ type_col showType TypeBool)))))))))) (\<lambda>row.
     andthen (println lib (''OK List '' @ quoted name @ '' was updated.'' @ [CHR 0x0A])) (\<lambda>_.
     output_rows lib [row]))"

definition convertDataToRow :: "('w, 'c, 'f, 'h) dds \<Rightarrow> string \<Rightarrow> string \<Rightarrow> bool \<Rightarrow> go_error + row" where
  "convertDataToRow lib name d showType =
     (let vt = dd_data_type lib d in
      case dd_decode lib d of
        Inl e \<Rightarrow> Inl e
      | Inr v \<Rightarrow> Inr ([Column name vt v] @ type_col showType vt))"

definition ListAdd_Exec :: "('w, 'c, 'f, 'h) dds \<Rightarrow> ('w, unit) step" where
  "ListAdd_Exec lib = with_state (\<lambda>s0.
     let name = name_prop lib s0 in
     andthen (ExecuteBlocking
       (andthen (connect lib) (\<lambda>_.
        andthen (incr_metric lib ''total.list'') (\<lambda>_.
        andthen (getList lib) (\<lambda>_.
        with_state (\<lambda>s.
        andthen (MakeValueData lib (GetStringArg s ''value'')) (\<lambda>vd.
        let index = prop_int s ''index'';
            req = (if 0 \<le> index then EncodeListAddWithIndexRequest (dd_proto lib) name (int32 index) vd
                   else EncodeListAddRequest (dd_proto lib) name vd)
        in andthen (lift_res (StringToPartitionID lib name)) (\<lambda>pid.
           andthen (request_partition lib req pid) (\<lambda>resp.
           if 0 \<le> index then ret True else or_panic (DecodeListAddResponse (dd_proto lib) resp)))))))))) (\<lambda>val.
     andthen (println lib (''OK Updated List '' @ quoted name @ ''.'' @ [CHR 0x0A])) (\<lambda>_.
     output_rows lib [[Column ''Value Changed'' TypeBool (bool_cell val)]])))"

definition ListContains_Exec :: "('w, 'c, 'f, 'h) dds \<Rightarrow> ('w, unit) step" where
  "ListContains_Exec lib = with_state (\<lambda>s0.
     let name = name_prop lib s0 in
     andthen (ExecuteBlocking
       (andthen (connect lib) (\<lambda>_.
        andthen (incr_metric lib ''total.list'') (\<lambda>_.
        andthen (getList lib) (\<lambda>_.
        with_state (\<lambda>s.
        andthen (MakeValueData lib (GetStringArg s ''value'')) (\<lambda>vd.
        andthen (lift_res (StringToPartitionID lib name)) (\<lambda>pid.
        andthen (request_partition lib (EncodeListContainsRequest (dd_proto lib) name vd) pid) (\<lambda>resp.
        or_panic (DecodeListContainsResponse (dd_proto lib) resp)))))))))) (\<lambda>ok.
     output_rows lib [[Column ''Contains'' TypeBool (bool_cell ok)]]))"

definition ListRemoveIndex_Exec :: "('w, 'c, 'f, 'h) dds \<Rightarrow> ('w, unit) step" where
  "ListRemoveIndex_Exec lib = with_state (\<lambda>s.
     let name = name_prop lib s; index = GetInt64Arg s ''index'' in
     if index < 0 then fail (Errorf ''index must be non-negative'')
     else if 2147483647 < index then fail (Errorf ''index must fit into a 32bit unsigned integer'')
     else removeFromList lib name (int32 index) [])"

definition ListRemoveValue_Exec :: "('w, 'c, 'f, 'h) dds \<Rightarrow> ('w, unit) step" where
  "ListRemoveValue_Exec lib = with_state (\<lambda>s.
     removeFromList lib (name_prop lib s) 0 (GetStringArg s ''value''))"

definition ListSet_Exec :: "('w, 'c, 'f, 'h) dds \<Rightarrow> ('w, unit) step" where
  "ListSet_Exec lib = with_state (\<lambda>s0.
     let name = name_prop lib s0; index = GetInt64Arg s0 ''index''; valueStr = GetStringArg s0 ''value'' in
     andthen (ExecuteBlocking
       (andthen (connect lib) (\<lambda>_.
        andthen (incr_metric lib ''total.list'') (\<lambda>_.
        andthen (getList lib) (\<lambda>_.
        andthen (MakeValueData lib valueStr) (\<lambda>vd.
        andthen (lift_res (StringToPartitionID lib name)) (\<lambda>pid.
        andthen (request_partition lib (EncodeListSetRequest (dd_proto lib) name (int32 index) vd) pid) (\<lambda>resp.
        andthen (or_panic (DecodeListSetResponse (dd_proto lib) resp)) (\<lambda>d.
        with_state (\<lambda>s.
          lift_res (convertDataToRow lib ''Last Value'' (data_bytes d) (prop_bool s ''show-type'')))))))))))) (\<lambda>row.
     andthen (println lib (''OK Set the value in the List.'' @ [CHR 0x0A])) (\<lambda>_.
     output_rows lib [row])))"

subsection \<open>base/commands/queue\<close>

text \<open>An error in offering is not reported: the command succeeds without output.\<close>

definition added_row :: "string \<Rightarrow> bool \<Rightarrow> row" where
  "added_row arg v = [Column ''Value'' TypeString (string_cell arg), Column ''Added'' TypeBool (bool_cell v)]"

definition QueueOffer_Exec :: "('w, 'c, 'f, 'h) dds \<Rightarrow> ('w, unit) step" where
  "QueueOffer_Exec lib s0 =
     (let name = name_prop lib s0;
          r = ExecuteBlocking
            (andthen (connect lib) (\<lambda>_.
             andthen (incr_metric lib ''total.queue'') (\<lambda>_.
             andthen (on_world (dd_get lib ''Queue'' name)) (\<lambda>q.
             with_state (\<lambda>s.
             foreach (\<lambda>arg. andthen (MakeValueData lib arg) (\<lambda>vd.
                            andthen (on_world (dd_add lib q vd)) (\<lambda>v. ret (added_row arg v))))
               (GetStringSliceArg s ''value'')))))) s0
      in case r of
           (Inl e, s1) \<Rightarrow> (Inr (), s1)
         | (Inr rows, s1) \<Rightarrow> output_rows lib rows s1)"

definition QueuePoll_Exec :: "('w, 'c, 'f, 'h) dds \<Rightarrow> ('w, unit) step" where
  "QueuePoll_Exec lib = with_state (\<lambda>s0.
     let queueName = name_prop lib s0; count = prop_int s0 ''count'' in
     if count < 0 then fail (Errorf ''count cannot be negative'')
     else
       andthen (ExecuteBlocking
         (andthen (connect lib) (\<lambda>_.
          andthen (incr_metric lib ''total.queue'') (\<lambda>_.
          andthen (lift_res (StringToPartitionID lib queueName)) (\<lambda>pID.
          foreach (\<lambda>_.
            andthen (request_partition lib (EncodeQueuePollRequest (dd_proto lib) queueName 0) pID) (\<lambda>rv.
            andthen (or_panic (DecodeQueuePollResponse (dd_proto lib) rv)) (\<lambda>d.
            with_state (\<lambda>s. ret (value_row lib (prop_bool s ''show-type'') (data_bytes d))))))
            [0..<nat count]))))) (\<lambda>rows.
       output_rows lib rows))"

subsection \<open>base/commands/set\<close>

definition SetAdd_Exec :: "('w, 'c, 'f, 'h) dds \<Rightarrow> ('w, unit) step" where
  "SetAdd_Exec lib = with_state (\<lambda>s0.
     let name = name_prop lib s0 in
     andthen (ExecuteBlocking
       (andthen (connect lib) (\<lambda>_.
        andthen (incr_metric lib ''total.set'') (\<lambda>_.
        andthen (on_world (dd_get lib ''Set'' name)) (\<lambda>q.
        with_state (\<lambda>s.
        foreach (\<lambda>arg. andthen (MakeValueData lib arg) (\<lambda>vd.
                       andthen (on_world (dd_add lib q vd)) (\<lambda>v. ret (added_row arg v))))
          (GetStringSliceArg s ''value''))))))) (\<lambda>rows.
     output_rows lib rows))"

definition SetRemove_Exec :: "('w, 'c, 'f, 'h) dds \<Rightarrow> ('w, unit) step" where
  "SetRemove_Exec lib = with_state (\<lambda>s0.
     let name = name_prop lib s0 in
     andthen (ExecuteBlocking
       (andthen (connect lib) (\<lambda>_.
        andthen (incr_metric lib ''total.set'') (\<lambda>_.
        with_state (\<lambda>s.
        foreach (\<lambda>arg.
          andthen (MakeValueData lib arg) (\<lambda>vd.
          andthen (lift_res (StringToPartitionID lib name)) (\<lambda>pID.
          andthen (request_partition lib (EncodeSetRemoveRequest (dd_proto lib) name vd) pID) (\<lambda>sv.
          andthen (or_panic (DecodeSetRemoveResponse (dd_proto lib) sv)) (\<lambda>resp.
          ret ([Column ''this'' TypeBool (bool_cell resp)] @ type_col (prop_bool s ''show-type'') TypeBool))))))
          (GetStringSliceArg s ''value'')))))) (\<lambda>rows.
     output_rows lib rows))"

definition SetGetAll_Exec :: "('w, 'c, 'f, 'h) dds \<Rightarrow> ('w, unit) step" where
  "SetGetAll_Exec lib = with_state (\<lambda>s0.
     let name = name_prop lib s0 in
     andthen (ExecuteBlocking
       (andthen (connect lib) (\<lambda>_.
        andthen (incr_metric lib ''total.set'') (\<lambda>_.
        andthen (lift_res (StringToPartitionID lib name)) (\<lambda>pID.
        andthen (request_partition lib (EncodeSetGetAllRequest (dd_proto lib) name) pID) (\<lambda>resp.
        andthen (or_panic (DecodeSetGetAllResponse (dd_proto lib) resp)) (\<lambda>ds.
        with_state (\<lambda>s. ret (map (\<lambda>d.
          let (t, v) = ensureTypeValue (dd_data_type lib) (dd_decode lib) d in
          [Column ''Value'' t v] @ type_col (prop_bool s ''show-type'') t) ds))))))))) (\<lambda>rows.
     if rows = [] then println lib ''OK No items in the set.'' else output_rows lib rows))"
subsection \<open>base/commands/multimap\<close>

definition multimap_decode_rows ::
    "('w, 'c, 'f, 'h) dds \<Rightarrow> ('c \<Rightarrow> string list option) \<Rightarrow> 'c \<Rightarrow> ('w, row list) step" where
  "multimap_decode_rows lib decoder res =
     andthen (connect lib) (\<lambda>_.
     andthen (or_panic (decoder res)) (\<lambda>ds.
     with_state (\<lambda>s. ret (map (value_row lib (prop_bool s ''show-type'')) ds))))"

definition MultiMapPut_Exec :: "('w, 'c, 'f, 'h) dds \<Rightarrow> ('w, unit) step" where
  "MultiMapPut_Exec lib = with_state (\<lambda>s0.
     let name = name_prop lib s0; keyStr = GetStringArg s0 ''key''; valueStr = GetStringArg s0 ''value'' in
     andthen (ExecuteBlocking
       (andthen (connect lib) (\<lambda>_.
        andthen (incr_metric lib ''total.multimap'') (\<lambda>_.
        andthen (MakeKeyValueData lib keyStr valueStr) (\<lambda>(kd, vd).
        andthen (request_key lib (EncodeMultiMapPutRequest (dd_proto lib) name kd vd 0) kd) (\<lambda>resp.
        andthen (or_panic (DecodeMultiMapPutResponse (dd_proto lib) resp)) (\<lambda>v.
        with_state (\<lambda>s.
          ret [[Column ''this'' TypeBool (bool_cell v)] @ type_col (prop_bool s ''show-type'') TypeBool])))))))) (\<lambda>rows.
     output_rows lib rows))"

definition multimap_get_command :: "('w, 'c, 'f, 'h) dds \<Rightarrow> ('w, 'c, 'h) key_command" where
  "multimap_get_command lib =
     \<lparr>kc_typeName = ''MultiMap'', kc_metricName = ''multimap'', kc_encoder = EncodeMultiMapGetRequest (dd_proto lib),
      kc_decoder = multimap_decode_rows lib (DecodeMultiMapGetResponse (dd_proto lib)), kc_prefixer = getMultiMap lib\<rparr>"

definition multimap_remove_command :: "('w, 'c, 'f, 'h) dds \<Rightarrow> ('w, 'c, 'h) key_command" where
  "multimap_remove_command lib =
     \<lparr>kc_typeName = ''MultiMap'', kc_metricName = ''multimap'', kc_encoder = EncodeMultiMapRemoveRequest (dd_proto lib),
      kc_decoder = multimap_decode_rows lib (DecodeMultiMapRemoveResponse (dd_proto lib)), kc_prefixer = getMultiMap lib\<rparr>"

subsection \<open>base/commands/atomic_long\<close>

definition atomicLongChangeValue ::
    "('w, 'c, 'f, 'h) dds \<Rightarrow> string \<Rightarrow> (int \<Rightarrow> int) \<Rightarrow> ('w, unit) step" where
  "atomicLongChangeValue lib verb change = with_state (\<lambda>s0.
     let name = name_prop lib s0; delta = prop_int s0 ''by'' in
     andthen (ExecuteBlocking
       (andthen (getAtomicLong lib) (\<lambda>ali.
        andthen (incr_metric lib ''total.atomiclong'') (\<lambda>_.
        andthen (on_world (dd_atomic_add lib ali (change delta))) (\<lambda>val.
        ret [Column ''Value'' TypeInt64 (int_cell ''int64'' val)]))))) (\<lambda>row.
     andthen (println lib (''OK '' @ verb @ ''ed AtomicLong '' @ name @ '' by '' @ itoa delta @ ''.'' @ [CHR 0x0A])) (\<lambda>_.
     output_rows lib [row])))"

definition AtomicLongIncrementGet_Exec :: "('w, 'c, 'f, 'h) dds \<Rightarrow> ('w, unit) step" where
  "AtomicLongIncrementGet_Exec lib = atomicLongChangeValue lib ''Increment'' (\<lambda>i. i)"

definition AtomicLongDecrementGet_Exec :: "('w, 'c, 'f, 'h) dds \<Rightarrow> ('w, unit) step" where
  "AtomicLongDecrementGet_Exec lib = atomicLongChangeValue lib ''Decrement'' (\<lambda>i. int64 (- 1 * i))"

definition AtomicLongGet_Exec :: "('w, 'c, 'f, 'h) dds \<Rightarrow> ('w, unit) step" where
  "AtomicLongGet_Exec lib =
     andthen (ExecuteBlocking
       (andthen (getAtomicLong lib) (\<lambda>ali.
        andthen (incr_metric lib ''total.atomiclong'') (\<lambda>_.
        andthen (on_world (dd_atomic_get lib ali)) (\<lambda>val.
        ret [Column ''Value'' TypeInt64 (int_cell ''int64'' val)]))))) (\<lambda>row.
     output_rows lib [row])"

definition AtomicLongSet_Exec :: "('w, 'c, 'f, 'h) dds \<Rightarrow> ('w, unit) step" where
  "AtomicLongSet_Exec lib = with_state (\<lambda>s0.
     let name = name_prop lib s0 in
     andthen (ExecuteBlocking
       (andthen (getAtomicLong lib) (\<lambda>ali.
        andthen (incr_metric lib ''total.atomiclong'') (\<lambda>_.
        with_state (\<lambda>s.
        let v = GetInt64Arg s ''value'' in
        andthen (on_world (dd_atomic_set lib ali v)) (\<lambda>_.
        ret [Column ''Value'' TypeInt64 (int_cell ''int64'' v)])))))) (\<lambda>row.
     andthen (println lib (''OK Set AtomicLong '' @ name @ ''.'' @ [CHR 0x0A])) (\<lambda>_.
     output_rows lib [row])))"

subsection \<open>base/commands/topic: publishing\<close>

definition TopicPublish_Exec :: "('w, 'c, 'f, 'h) dds \<Rightarrow> ('w, unit) step" where
  "TopicPublish_Exec lib = with_state (\<lambda>s0.
     let name = name_prop lib s0; vt = prop_string (dd_env lib) s0 ''value-type'' in
     andthen (ExecuteBlocking
       (andthen (connect lib) (\<lambda>_.
        andthen (incr_metric lib ''total.topic'') (\<lambda>_.
        andthen (on_world (dd_get lib ''Topic'' name)) (\<lambda>t.
        with_state (\<lambda>s.
        andthen (foreach (\<lambda>arg. case ValueFromString (fl_of lib) arg vt of
                             (v, Some e) \<Rightarrow> fail e | (v, None) \<Rightarrow> ret v) (GetStringSliceArg s ''value'')) (\<lambda>vs.
        andthen (\<lambda>s'. case on_world (dd_publish_all lib t vs) s' of
                   (Inl e, s'') \<Rightarrow> (Inl (Wrapf ''publishing values'' e), s'')
                 | (Inr u, s'') \<Rightarrow> (Inr (), s'')) (\<lambda>_.
        ret (length vs))))))))) (\<lambda>count.
     println lib (''OK Published '' @ itoa (int count) @ '' values to Topic '' @ quoted name @ ''.'')))"

subsection \<open>base/objects and object:list\<close>

record object_info =
  ob_Name :: string
  ob_ServiceName :: string

definition ShortType :: "string \<Rightarrow> string" where
  "ShortType svcName = to_lower (trim_suffix (trim_prefix svcName ''hz:impl:'') ''Service'')"

text \<open>The byte order of strings, and the order of the listing: by type, then by name.\<close>

fun str_less :: "string \<Rightarrow> string \<Rightarrow> bool" where
  "str_less _ [] \<longleftrightarrow> False"
| "str_less [] (d # t) \<longleftrightarrow> True"
| "str_less (c # s) (d # t) \<longleftrightarrow> byte c < byte d \<or> c = d \<and> str_less s t"

definition object_less :: "object_info \<Rightarrow> object_info \<Rightarrow> bool" where
  "object_less ri rj \<longleftrightarrow>
     (if str_less (ob_ServiceName ri) (ob_ServiceName rj) then True
      else if str_less (ob_ServiceName rj) (ob_ServiceName ri) then False
      else str_less (ob_Name ri) (ob_Name rj))"

fun insert_object :: "object_info \<Rightarrow> object_info list \<Rightarrow> object_info list" where
  "insert_object x [] = [x]"
| "insert_object x (y # ys) = (if object_less y x then y # insert_object x ys else x # y # ys)"

definition sort_objects :: "object_info list \<Rightarrow> object_info list" where
  "sort_objects xs = foldr insert_object xs []"

definition keep_object :: "string \<Rightarrow> bool \<Rightarrow> object_info \<Rightarrow> object_info option" where
  "keep_object typeFilter showHidden ob =
     (if \<not> showHidden \<and> (ob_Name ob = [] \<or> has_prefix (ob_Name ob) ''__'') then None
      else (let ob = (if ob_Name ob = [] then ob\<lparr>ob_Name := ''(no name)''\<rparr> else ob) in
            if typeFilter = [] then Some ob
            else if typeFilter = ShortType (ob_ServiceName ob) then Some ob
            else None))"

definition select_objects :: "string \<Rightarrow> bool \<Rightarrow> object_info list \<Rightarrow> object_info list" where
  "select_objects typeFilter showHidden objs =
     sort_objects (List.map_filter (keep_object (to_lower typeFilter) showHidden) objs)"

definition GetAll ::
    "('w, 'c, 'f, 'h) dds \<Rightarrow> ('w \<Rightarrow> (go_error + object_info list) \<times> 'w) \<Rightarrow> string \<Rightarrow> bool \<Rightarrow>
     ('w, object_info list) step" where
  "GetAll lib get_infos typeFilter showHidden =
     andthen (ExecuteBlocking (andthen (connect lib) (\<lambda>_. on_world get_infos))) (\<lambda>objs.
     ret (select_objects typeFilter showHidden objs))"

definition ObjectList_Exec ::
    "('w, 'c, 'f, 'h) dds \<Rightarrow> ('w \<Rightarrow> (go_error + object_info list) \<times> 'w) \<Rightarrow> ('w, unit) step" where
  "ObjectList_Exec lib get_infos = with_state (\<lambda>s.
     let fs = GetStringSliceArg s ''objectType'';
         typeFilter = (if fs \<noteq> [] then fs ! 0 else []);
         showHidden = prop_bool s ''show-hidden'' in
     andthen (GetAll lib get_infos typeFilter showHidden) (\<lambda>objs.
     let rows = map (\<lambda>ob.
           let valueCol = Column ''Object Name'' TypeString (string_cell (ob_Name ob)) in
           if typeFilter \<noteq> [] then [valueCol]
           else [Column ''Service Name'' TypeString (string_cell (ShortType (ob_ServiceName ob))), valueCol]) objs in
     if rows = [] then println lib ''OK No objects found.'' else output_rows lib rows))"

subsection \<open>base/maps: indexes\<close>

text \<open>
  The indexes of every map are kept by map name, so a name listed twice counts once; the order in
  which Go walks that map is a parameter. The error of the blocking call is not looked at: without
  its value the type assertion panics.
\<close>

definition index_rows :: "string \<Rightarrow> IndexConfig list \<Rightarrow> row list" where
  "index_rows mn indexes = map (\<lambda>ix.
     [Column ''Map Name'' TypeString (string_cell mn), Column ''Name'' TypeString (string_cell (ic_Name ix)),
      Column ''Attributes'' TypeStringArray (CSlice ''string'' (map string_cell (ic_Attributes ix)))]) indexes"

definition Indexes ::
    "('w, 'c, 'f, 'h) dds \<Rightarrow> ('w \<Rightarrow> (go_error + object_info list) \<times> 'w) \<Rightarrow>
     ((string \<rightharpoonup> IndexConfig list) \<Rightarrow> string list) \<Rightarrow> string \<Rightarrow> ('w, unit) step" where
  "Indexes lib get_infos key_order mapName =
     andthen (if mapName \<noteq> [] then ret [mapName]
              else andthen (GetAll lib get_infos ''map'' False) (\<lambda>ms. ret (map ob_Name ms))) (\<lambda>mapNames.
     andthen (connect lib) (\<lambda>_.
     andthen (\<lambda>s. case ExecuteBlocking
         (foreach (\<lambda>mn.
            andthen (request_random lib (EncodeMCGetMapConfigRequest (dd_proto lib) mn)) (\<lambda>resp.
            andthen (or_panic (DecodeMCGetMapConfigResponse (dd_proto lib) resp)) (\<lambda>cfg.
            ret (mn, mc_globalIndexes cfg)))) mapNames) s of
         (Inl e, s') \<Rightarrow> (Inl panic_error, s')
       | (Inr kvs, s') \<Rightarrow> (Inr kvs, s')) (\<lambda>kvs.
     let allIndexes = foldl (\<lambda>m (k, v). m(k \<mapsto> v)) Map.empty kvs in
     output_rows lib (concat (map (\<lambda>mn. case allIndexes mn of None \<Rightarrow> [] | Some ixs \<Rightarrow> index_rows mn ixs)
        (key_order allIndexes))))))"

subsection \<open>The listing of objects\<close>

lemma str_less_irrefl: "\<not> str_less s s"
  by (induction s) auto

lemma str_less_trans: "str_less a b \<Longrightarrow> str_less b c \<Longrightarrow> str_less a c"
proof (induction a b arbitrary: c rule: str_less.induct)
  case (3 x s y t)
  then show ?case by (cases c) auto
qed (auto elim: str_less.elims)

lemma str_less_total: "a \<noteq> b \<Longrightarrow> str_less a b \<or> str_less b a"
proof (induction a b rule: str_less.induct)
  case (3 c s d t)
  then show ?case by (cases "byte c" "byte d" rule: linorder_cases) auto
qed (auto simp: neq_Nil_conv)

lemma str_less_asym: "str_less a b \<Longrightarrow> \<not> str_less b a"
  using str_less_irrefl str_less_trans by blast

definition object_le :: "object_info \<Rightarrow> object_info \<Rightarrow> bool" where
  "object_le a b \<longleftrightarrow> \<not> object_less b a"

lemma object_less_iff:
  "object_less a b \<longleftrightarrow> str_less (ob_ServiceName a) (ob_ServiceName b) \<or>
     ob_ServiceName a = ob_ServiceName b \<and> str_less (ob_Name a) (ob_Name b)"
  using str_less_asym [of "ob_ServiceName a" "ob_ServiceName b"]
    str_less_total [of "ob_ServiceName a" "ob_ServiceName b"] str_less_irrefl
  by (auto simp: object_less_def)

lemma object_le_trans: "object_le a b \<Longrightarrow> object_le b c \<Longrightarrow> object_le a c"
  unfolding object_le_def object_less_iff
  by (metis str_less_total str_less_trans)

lemma object_less_le: "object_less a b \<Longrightarrow> object_le a b"
  unfolding object_le_def object_less_iff using str_less_asym str_less_irrefl by metis

lemma mset_insert_object [simp]: "mset (insert_object x ys) = add_mset x (mset ys)"
  by (induction ys) auto

lemma set_insert_object [simp]: "set (insert_object x ys) = insert x (set ys)"
  by (induction ys) auto

lemma sorted_insert_object: "sorted_wrt object_le ys \<Longrightarrow> sorted_wrt object_le (insert_object x ys)"
proof (induction ys)
  case (Cons y ys)
  show ?case
  proof (cases "object_less y x")
    case True
    then show ?thesis using Cons object_less_le by simp
  next
    case False
    then have "object_le x y" by (simp add: object_le_def)
    then show ?thesis using Cons False by (auto intro: object_le_trans)
  qed
qed simp

lemma map_filter_if: "List.map_filter (\<lambda>x. if P x then Some (g x) else None) xs = map g (filter P xs)"
  by (induction xs) (simp_all add: List.map_filter_simps)

lemma sort_objects: "sorted_wrt object_le (sort_objects xs) \<and> mset (sort_objects xs) = mset xs"
  by (induction xs) (auto simp: sort_objects_def sorted_insert_object)

text \<open>
  The listing shows exactly the objects asked for, each once, ordered by type and then by name.
  An object is asked for when the filter is empty or is, in any case, the short name of its type;
  objects without a name and those whose name starts with two underscores are left out unless hidden
  objects are asked for, and then a nameless one is shown as \<open>(no name)\<close>.
\<close>

theorem select_objects_exact:
  "sorted_wrt object_le (select_objects filt showHidden objs) \<and>
   mset (select_objects filt showHidden objs) =
     mset (map (\<lambda>ob. if ob_Name ob = [] then ob\<lparr>ob_Name := ''(no name)''\<rparr> else ob)
       (filter (\<lambda>ob. (showHidden \<or> ob_Name ob \<noteq> [] \<and> \<not> has_prefix (ob_Name ob) ''__'') \<and>
                     (filt = [] \<or> to_lower filt = ShortType (ob_ServiceName ob))) objs))"
proof -
  let ?P = "\<lambda>ob. (showHidden \<or> ob_Name ob \<noteq> [] \<and> \<not> has_prefix (ob_Name ob) ''__'') \<and>
    (filt = [] \<or> to_lower filt = ShortType (ob_ServiceName ob))"
  let ?g = "\<lambda>ob. if ob_Name ob = [] then ob\<lparr>ob_Name := ''(no name)''\<rparr> else ob"
  have l: "to_lower filt = [] \<longleftrightarrow> filt = []"
    by (simp add: to_lower_def)
  have "keep_object (to_lower filt) showHidden = (\<lambda>ob. if ?P ob then Some (?g ob) else None)"
    unfolding keep_object_def l Let_def by (rule ext) (simp del: has_prefix_Cons_Cons)
  then have "select_objects filt showHidden objs = sort_objects (map ?g (filter ?P objs))"
    by (simp only: select_objects_def map_filter_if)
  then show ?thesis
    using sort_objects [of "map ?g (filter ?P objs)"] by simp
qed

end
