(* ===== verification/GoTime.thy ===== *)
theory GoTime
  imports GoTypes
begin

section \<open>Times, as far as the program uses package time\<close>

text \<open>
  A \<^verbatim>\<open>time.Time\<close> in UTC is its date and the nanoseconds of the day. Modelled are \<^verbatim>\<open>Before\<close>, adding
  twelve hours, the layout \<^verbatim>\<open>2006-01-02\<close> for formatting and parsing, and the JSON form, which is
  RFC 3339 with nanoseconds. The facts are the two round trips and the order.
\<close>

record gotime =
  t_year :: int
  t_month :: nat
  t_day :: nat
  t_ns :: nat

definition ns_per_hour :: nat where "ns_per_hour = 3600000000000"

definition zero_time :: gotime where
  "zero_time = \<lparr>t_year = 1, t_month = 1, t_day = 1, t_ns = 0\<rparr>"

definition is_leap :: "int \<Rightarrow> bool" where
  "is_leap y \<longleftrightarrow> y mod 4 = 0 \<and> (y mod 100 \<noteq> 0 \<or> y mod 400 = 0)"

definition days_in :: "int \<Rightarrow> nat \<Rightarrow> nat" where
  "days_in y m = (if m = 2 then (if is_leap y then 29 else 28) else if m \<in> {4, 6, 9, 11} then 30 else 31)"

definition date_ok :: "int \<Rightarrow> nat \<Rightarrow> nat \<Rightarrow> bool" where
  "date_ok y m d \<longleftrightarrow> 0 \<le> y \<and> y < 10000 \<and> 1 \<le> m \<and> m \<le> 12 \<and> 1 \<le> d \<and> d \<le> days_in y m"

definition time_ok :: "gotime \<Rightarrow> bool" where
  "time_ok t \<longleftrightarrow> date_ok (t_year t) (t_month t) (t_day t) \<and> t_ns t < 24 * ns_per_hour"

definition next_date :: "int \<Rightarrow> nat \<Rightarrow> nat \<Rightarrow> int \<times> nat \<times> nat" where
  "next_date y m d =
     (if d < days_in y m then (y, m, d + 1) else if m < 12 then (y, m + 1, 1) else (y + 1, 1, 1))"

definition prev_date :: "int \<Rightarrow> nat \<Rightarrow> nat \<Rightarrow> int \<times> nat \<times> nat" where
  "prev_date y m d =
     (if 1 < d then (y, m, d - 1) else if 1 < m then (y, m - 1, days_in y (m - 1)) else (y - 1, 12, 31))"

text \<open>A time shifted by less than a day; the count is in nanoseconds.\<close>

definition add_ns :: "gotime \<Rightarrow> int \<Rightarrow> gotime" where
  "add_ns t k =
     (let n = int (t_ns t) + k; day = int (24 * ns_per_hour) in
      if n < 0 then (let (y, m, d) = prev_date (t_year t) (t_month t) (t_day t)
                     in \<lparr>t_year = y, t_month = m, t_day = d, t_ns = nat (n + day)\<rparr>)
      else if day \<le> n then (let (y, m, d) = next_date (t_year t) (t_month t) (t_day t)
                            in \<lparr>t_year = y, t_month = m, t_day = d, t_ns = nat (n - day)\<rparr>)
      else t\<lparr>t_ns := nat n\<rparr>)"

definition add_hours :: "gotime \<Rightarrow> nat \<Rightarrow> gotime" where
  "add_hours t h = add_ns t (int (h * ns_per_hour))"

definition before :: "gotime \<Rightarrow> gotime \<Rightarrow> bool" where
  "before a b \<longleftrightarrow>
     (t_year a < t_year b \<or> t_year a = t_year b \<and>
       (t_month a < t_month b \<or> t_month a = t_month b \<and>
         (t_day a < t_day b \<or> t_day a = t_day b \<and> t_ns a < t_ns b)))"

subsection \<open>Digits of a fixed number\<close>

fun digits :: "nat \<Rightarrow> nat \<Rightarrow> string" where
  "digits 0 n = []"
| "digits (Suc w) n = digits w (n div 10) @ [digit_char (n mod 10)]"

definition is_digit :: "char \<Rightarrow> bool" where
  "is_digit c \<longleftrightarrow> 48 \<le> (of_char c :: nat) \<and> (of_char c :: nat) \<le> 57"

definition digits_val :: "string \<Rightarrow> nat" where
  "digits_val s = foldl (\<lambda>n c. n * 10 + (of_char c - 48)) 0 s"

definition take_digits :: "nat \<Rightarrow> string \<Rightarrow> (nat \<times> string) option" where
  "take_digits w s =
     (if w \<le> length s \<and> list_all is_digit (take w s) then Some (digits_val (take w s), drop w s) else None)"

definition take_char :: "char \<Rightarrow> string \<Rightarrow> string option" where
  "take_char c s = (case s of [] \<Rightarrow> None | d # r \<Rightarrow> if c = d then Some r else None)"

text \<open>A number of one field within bounds, as the parsers of the package read it.\<close>

definition take_field :: "nat \<Rightarrow> nat \<Rightarrow> nat \<Rightarrow> string \<Rightarrow> (nat \<times> string) option" where
  "take_field w lo up s =
     (case take_digits w s of
        None \<Rightarrow> None | Some (n, r) \<Rightarrow> if lo \<le> n \<and> n \<le> up then Some (n, r) else None)"

subsection \<open>The layout 2006-01-02\<close>

definition year_text :: "int \<Rightarrow> string" where
  "year_text y =
     (let n = nat \<bar>y\<bar>; t = (if n < 10000 then digits 4 n else format_nat 10 n)
      in if y < 0 then ''-'' @ t else t)"

definition Format_date :: "gotime \<Rightarrow> string" where
  "Format_date t = year_text (t_year t) @ ''-'' @ digits 2 (t_month t) @ ''-'' @ digits 2 (t_day t)"

definition take_date :: "string \<Rightarrow> ((int \<times> nat \<times> nat) \<times> string) option" where
  "take_date s =
     Option.bind (take_digits 4 s) (\<lambda>(y, r1). Option.bind (take_char CHR ''-'' r1) (\<lambda>r2.
     Option.bind (take_field 2 1 12 r2) (\<lambda>(m, r3). Option.bind (take_char CHR ''-'' r3) (\<lambda>r4.
     Option.bind (take_field 2 1 (days_in (int y) m) r4) (\<lambda>(d, r5). Some ((int y, m, d), r5))))))"

definition Parse_date :: "string \<Rightarrow> go_error + gotime" where
  "Parse_date s =
     (case take_date s of
        Some ((y, m, d), []) \<Rightarrow> Inr \<lparr>t_year = y, t_month = m, t_day = d, t_ns = 0\<rparr>
      | _ \<Rightarrow> Inl (Errorf (''parsing time '' @ quote s)))"

subsection \<open>RFC 3339 and JSON\<close>

definition strip_zeros :: "string \<Rightarrow> string" where
  "strip_zeros s = rev (dropWhile (\<lambda>c. c = CHR ''0'') (rev s))"

definition frac_text :: "nat \<Rightarrow> string" where
  "frac_text n = (if n = 0 then [] else ''.'' @ strip_zeros (digits 9 n))"

definition clock_text :: "nat \<Rightarrow> string" where
  "clock_text ns =
     (let s = ns div 1000000000
      in digits 2 (s div 3600) @ '':'' @ digits 2 (s div 60 mod 60) @ '':'' @ digits 2 (s mod 60) @
         frac_text (ns mod 1000000000))"

definition dquote :: string where
  "dquote = [CHR 0x22]"

definition time_MarshalJSON :: "gotime \<Rightarrow> go_error + string" where
  "time_MarshalJSON t =
     (if 0 \<le> t_year t \<and> t_year t < 10000
      then Inr (dquote @ Format_date t @ ''T'' @ clock_text (t_ns t) @ ''Z'' @ dquote)
      else Inl (Errorf ''Time.MarshalJSON: year outside of range [0,9999]''))"

definition take_frac :: "string \<Rightarrow> nat \<times> string" where
  "take_frac s =
     (case s of
        c # d # r \<Rightarrow>
          if c = CHR ''.'' \<and> is_digit d
          then (digits_val (take 9 (takeWhile is_digit (d # r) @ replicate 9 CHR ''0'')), dropWhile is_digit (d # r))
          else (0, s)
      | _ \<Rightarrow> (0, s))"

definition take_clock :: "string \<Rightarrow> (nat \<times> string) option" where
  "take_clock s =
     Option.bind (take_field 2 0 23 s) (\<lambda>(h, r1). Option.bind (take_char CHR '':'' r1) (\<lambda>r2.
     Option.bind (take_field 2 0 59 r2) (\<lambda>(mi, r3). Option.bind (take_char CHR '':'' r3) (\<lambda>r4.
     Option.bind (take_field 2 0 59 r4) (\<lambda>(sec, r5).
       (let (f, r6) = take_frac r5 in Some (((h * 60 + mi) * 60 + sec) * 1000000000 + f, r6)))))))"

text \<open>The zone is \<^verbatim>\<open>Z\<close> or an offset; the time is kept in UTC.\<close>

definition take_zone :: "string \<Rightarrow> int option" where
  "take_zone s =
     (case s of
        [] \<Rightarrow> None
      | c # r \<Rightarrow>
          if c = CHR ''Z'' then (if r = [] then Some 0 else None)
          else if c = CHR ''+'' \<or> c = CHR ''-'' then
            Option.bind (take_field 2 0 23 r) (\<lambda>(h, r1). Option.bind (take_char CHR '':'' r1) (\<lambda>r2.
            Option.bind (take_field 2 0 59 r2) (\<lambda>(mi, r3).
              if r3 = [] then Some ((if c = CHR ''-'' then - 1 else 1) * int ((h * 60 + mi) * 60000000000)) else None)))
          else None)"

definition parse_rfc3339 :: "string \<Rightarrow> gotime option" where
  "parse_rfc3339 s =
     Option.bind (take_date s) (\<lambda>((y, m, d), r1). Option.bind (take_char CHR ''T'' r1) (\<lambda>r2.
     Option.bind (take_clock r2) (\<lambda>(n, r3). Option.bind (take_zone r3) (\<lambda>off.
       Some (add_ns \<lparr>t_year = y, t_month = m, t_day = d, t_ns = n\<rparr> (- off))))))"

definition unquote_json :: "string \<Rightarrow> string option" where
  "unquote_json s =
     (if 2 \<le> length s \<and> take 1 s = dquote \<and> drop (length s - 1) s = dquote
      then Some (take (length s - 2) (drop 1 s)) else None)"

text \<open>White space around the JSON value is allowed; \<^verbatim>\<open>null\<close> leaves the zero time.\<close>

definition is_json_space :: "char \<Rightarrow> bool" where
  "is_json_space c \<longleftrightarrow> c \<in> {CHR '' '', CHR 0x09, CHR 0x0A, CHR 0x0D}"

definition json_trim :: "string \<Rightarrow> string" where
  "json_trim s = rev (dropWhile is_json_space (rev (dropWhile is_json_space s)))"

definition json_time :: "string \<Rightarrow> go_error + gotime" where
  "json_time s =
     (let t = json_trim s in
      if t = ''null'' then Inr zero_time
      else case Option.bind (unquote_json t) parse_rfc3339 of
             Some x \<Rightarrow> Inr x | None \<Rightarrow> Inl (Errorf (''parsing time '' @ t)))"

text \<open>\<^verbatim>\<open>json.Unmarshal\<close> into an \<^verbatim>\<open>int\<close>: the text of an integer in range, or \<^verbatim>\<open>null\<close> for no change.\<close>

definition is_json_int :: "string \<Rightarrow> bool" where
  "is_json_int s =
     (let u = (if s \<noteq> [] \<and> hd s = CHR ''-'' then tl s else s)
      in u = ''0'' \<or> u \<noteq> [] \<and> list_all is_digit u \<and> hd u \<noteq> CHR ''0'')"

definition json_int :: "string \<Rightarrow> go_error + int" where
  "json_int s =
     (let t = json_trim s in
      if t = ''null'' then Inr 0
      else if is_json_int t
           then (case atoi t of Inr i \<Rightarrow> Inr i | Inl _ \<Rightarrow> Inl (Errorf (''cannot unmarshal number '' @ t)))
           else Inl (Errorf ''json: invalid value for an int''))"

subsection \<open>The round trips\<close>

lemma is_digit_digit_char: "d < 10 \<Longrightarrow> is_digit (digit_char d)"
  by (simp add: is_digit_def of_char_digit_char)

lemma length_digits [simp]: "length (digits w n) = w"
  by (induction w arbitrary: n) auto

lemma digits_are_digits [simp]: "list_all is_digit (digits w n)"
  by (induction w arbitrary: n) (auto simp: is_digit_digit_char)

lemma digits_val_digits: "digits_val (digits w n) = n mod 10 ^ w"
proof (induction w arbitrary: n)
  case (Suc w)
  have "digits_val (digits (Suc w) n) = digits_val (digits w (n div 10)) * 10 + n mod 10"
    by (simp add: digits_val_def of_char_digit_char)
  also have "\<dots> = (n div 10 mod 10 ^ w) * 10 + n mod 10" using Suc by simp
  also have "\<dots> = n mod 10 ^ Suc w" by (simp add: mod_mult2_eq mult.commute)
  finally show ?case .
qed (simp add: digits_val_def)

lemma digits_val_bound: "list_all is_digit s \<Longrightarrow> digits_val s < 10 ^ length s"
proof (induction s rule: rev_induct)
  case (snoc c s)
  have "(of_char c :: nat) - 48 \<le> 9" using snoc.prems by (simp add: is_digit_def le_diff_conv)
  moreover have "digits_val s < 10 ^ length s" using snoc by simp
  ultimately show ?case by (simp add: digits_val_def)
qed (simp add: digits_val_def)

lemma take_digits_digits: "n < 10 ^ w \<Longrightarrow> take_digits w (digits w n @ r) = Some (n, r)"
  by (simp add: take_digits_def digits_val_digits)

lemma take_field_digits:
  "n < 10 ^ w \<Longrightarrow> lo \<le> n \<Longrightarrow> n \<le> up \<Longrightarrow> take_field w lo up (digits w n @ r) = Some (n, r)"
  by (simp add: take_field_def take_digits_digits)

lemma days_in_bound: "days_in y m \<le> 31"
  by (simp add: days_in_def)

lemma take_date_Format:
  assumes "date_ok (t_year t) (t_month t) (t_day t)"
  shows "take_date (Format_date t @ r) = Some ((t_year t, t_month t, t_day t), r)"
proof -
  have b: "nat (t_year t) < 10 ^ 4" "t_month t < 10 ^ 2" "t_day t < 10 ^ 2" "int (nat (t_year t)) = t_year t"
    "\<not> t_year t < 0" "nat \<bar>t_year t\<bar> = nat (t_year t)" "nat (t_year t) < 10000"
    using assms days_in_bound [of "t_year t" "t_month t"] by (auto simp: date_ok_def)
  have m: "1 \<le> t_month t" "t_month t \<le> 12" "1 \<le> t_day t" "t_day t \<le> days_in (t_year t) (t_month t)"
    using assms by (auto simp: date_ok_def)
  have y: "year_text (t_year t) = digits 4 (nat (t_year t))"
    using b by (simp add: year_text_def)
  show ?thesis
    unfolding take_date_def Format_date_def y append_assoc take_digits_digits [OF b(1)] bind.bind_lunit prod.case
    by (simp add: take_char_def take_field_digits [OF b(2) m(1,2)] b(4) b(5) [unfolded not_less]
        take_field_digits [OF b(3) m(3,4)] del: digits.simps One_nat_def)
qed

theorem Parse_Format_date:
  "date_ok (t_year t) (t_month t) (t_day t) \<Longrightarrow> Parse_date (Format_date t) = Inr (t\<lparr>t_ns := 0\<rparr>)"
  using take_date_Format [of t "[]"] by (simp add: Parse_date_def)

lemma strip_zeros_pad: "\<exists>k. s = strip_zeros s @ replicate k CHR ''0''"
proof -
  have "\<exists>k. t = replicate k CHR ''0'' @ dropWhile (\<lambda>c. c = CHR ''0'') t" for t
  proof (induction t)
    case (Cons c t)
    then obtain k where k: "t = replicate k CHR ''0'' @ dropWhile (\<lambda>c. c = CHR ''0'') t" by blast
    show ?case
    proof (cases "c = CHR ''0''")
      case True
      have "c # t = replicate (Suc k) CHR ''0'' @ dropWhile (\<lambda>c. c = CHR ''0'') t"
        using k True by simp
      then show ?thesis using True by (intro exI [of _ "Suc k"]) simp
    next
      case False
      then show ?thesis by (intro exI [of _ 0]) simp
    qed
  qed simp
  then obtain k where "rev s = replicate k CHR ''0'' @ dropWhile (\<lambda>c. c = CHR ''0'') (rev s)" by blast
  then have "s = rev (replicate k CHR ''0'' @ dropWhile (\<lambda>c. c = CHR ''0'') (rev s))" by (metis rev_rev_ident)
  then show ?thesis unfolding strip_zeros_def by (metis rev_append rev_replicate)
qed

lemma digits_val_zeros: "digits_val (replicate k CHR ''0'') = 0"
  by (induction k) (auto simp: digits_val_def)

lemma take_frac_text:
  assumes "n < 1000000000" "r \<noteq> []" "\<not> is_digit (hd r)" "hd r \<noteq> CHR ''.''"
  shows "take_frac (frac_text n @ r) = (n, r)"
proof (cases "n = 0")
  case True
  obtain c r' where r: "r = c # r'" using assms(2) by (cases r) auto
  then show ?thesis using True assms(4) by (cases r') (auto simp: frac_text_def take_frac_def)
next
  case False
  let ?s = "strip_zeros (digits 9 n)"
  obtain k where k: "digits 9 n = ?s @ replicate k CHR ''0''" using strip_zeros_pad by blast
  have v: "digits_val (digits 9 n) = n" using assms(1) by (simp add: digits_val_digits del: digits.simps)
  have ds: "\<forall>c \<in> set ?s. is_digit c"
    using digits_are_digits [of 9 n] k by (metis Un_iff list.pred_set set_append)
  have l: "length ?s + k = 9" using arg_cong [OF k, of length] by (simp del: digits.simps)
  have "?s \<noteq> []"
  proof
    assume "?s = []"
    then have "digits_val (digits 9 n) = digits_val (replicate 9 CHR ''0'')" using k l by simp
    then show False using v False digits_val_zeros by simp
  qed
  then obtain d ds' where d: "?s = d # ds'" by (cases ?s) auto
  have t: "takeWhile is_digit (?s @ r) = ?s" "dropWhile is_digit (?s @ r) = r"
    using ds assms(2,3) by (auto simp: takeWhile_append2 dropWhile_append2 takeWhile_eq_Nil_iff dropWhile_eq_self_iff)
  have "take 9 (?s @ replicate 9 CHR ''0'') = digits 9 n"
  proof -
    have "take 9 (?s @ replicate 9 CHR ''0'') = ?s @ take k (replicate 9 CHR ''0'')"
      using l by (metis add_diff_cancel_left' le_add1 take_all take_append)
    also have "\<dots> = ?s @ replicate k CHR ''0''" using l by simp
    finally show ?thesis using k by simp
  qed
  then show ?thesis
    using t v False ds d by (simp add: frac_text_def take_frac_def del: digits.simps)
qed

lemma take_clock_text:
  assumes "ns < 24 * ns_per_hour" "r \<noteq> []" "\<not> is_digit (hd r)" "hd r \<noteq> CHR ''.''"
  shows "take_clock (clock_text ns @ r) = Some (ns, r)"
proof -
  let ?s = "ns div 1000000000"
  have h: "?s div 3600 \<le> 23" using assms(1) by (simp add: ns_per_hour_def)
  have m: "?s div 60 mod 60 \<le> 59" "?s mod 60 \<le> 59" by simp_all
  have e: "((?s div 3600 * 60 + ?s div 60 mod 60) * 60 + ?s mod 60) = ?s"
  proof -
    have "?s div 3600 = ?s div 60 div 60" by (simp add: div_mult2_eq [symmetric])
    then show ?thesis by simp
  qed
  have n: "((?s div 3600 * 60 + ?s div 60 mod 60) * 60 + ?s mod 60) * 1000000000 + ns mod 1000000000 = ns"
    unfolding e by simp
  have b: "?s div 3600 < 10 ^ 2" "?s div 60 mod 60 < 10 ^ 2" "?s mod 60 < 10 ^ 2" using h m by simp_all
  note fs = take_field_digits [OF b(1) le0 h] take_field_digits [OF b(2) le0 m(1)] take_field_digits [OF b(3) le0 m(2)]
  have f: "take_frac (frac_text (ns mod 1000000000) @ r) = (ns mod 1000000000, r)"
    by (rule take_frac_text) (use assms in auto)
  show ?thesis
    unfolding take_clock_def clock_text_def Let_def append_assoc fs bind.bind_lunit prod.case
    by (simp add: take_char_def fs f del: digits.simps) (use n in simp)
qed

lemma add_ns_0:
  "time_ok t \<Longrightarrow> add_ns \<lparr>t_year = t_year t, t_month = t_month t, t_day = t_day t, t_ns = t_ns t\<rparr> 0 = t"
  by (simp add: add_ns_def time_ok_def)

lemma take_zone_Z: "take_zone ''Z'' = Some 0"
  by (simp add: take_zone_def)

lemma parse_rfc3339_text:
  assumes "time_ok t"
  shows "parse_rfc3339 (Format_date t @ ''T'' @ clock_text (t_ns t) @ ''Z'') = Some t"
proof -
  have c: "take_clock (clock_text (t_ns t) @ ''Z'') = Some (t_ns t, ''Z'')"
    by (rule take_clock_text) (use assms in \<open>auto simp: time_ok_def is_digit_def\<close>)
  have d: "take_date (Format_date t @ r) = Some ((t_year t, t_month t, t_day t), r)" for r
    by (rule take_date_Format) (use assms in \<open>simp add: time_ok_def\<close>)
  show ?thesis
    unfolding parse_rfc3339_def d bind.bind_lunit prod.case
    by (simp add: take_char_def c [simplified] take_zone_Z add_ns_0 assms)
qed

lemma json_trim_id:
  "s \<noteq> [] \<Longrightarrow> \<not> is_json_space (hd s) \<Longrightarrow> \<not> is_json_space (last s) \<Longrightarrow> json_trim s = s"
  by (simp add: json_trim_def dropWhile_eq_self_iff [THEN iffD2] hd_rev)

theorem json_time_roundtrip:
  assumes "time_ok t"
  shows "\<exists>b. time_MarshalJSON t = Inr b \<and> json_time b = Inr t"
proof -
  let ?c = "Format_date t @ ''T'' @ clock_text (t_ns t) @ ''Z''"
  have y: "0 \<le> t_year t" "t_year t < 10000" using assms by (auto simp: time_ok_def date_ok_def)
  have tr: "json_trim (dquote @ ?c @ dquote) = dquote @ ?c @ dquote"
    by (rule json_trim_id) (auto simp: dquote_def is_json_space_def)
  have "unquote_json (dquote @ ?c @ dquote) = Some ?c"
    by (simp add: unquote_json_def dquote_def)
  then have "json_time (dquote @ ?c @ dquote) = Inr t"
    using parse_rfc3339_text [OF assms] tr by (simp add: json_time_def dquote_def)
  then show ?thesis using y by (simp add: time_MarshalJSON_def)
qed

lemma format_nat_hd: "0 < n \<Longrightarrow> hd (format_nat 10 n) \<noteq> CHR ''0''"
proof (induction n rule: less_induct)
  case (less n)
  show ?case
  proof (cases "n < 10")
    case True
    have "(of_char (digit_char n) :: nat) \<noteq> of_char CHR ''0''"
      using less.prems True by (simp add: of_char_digit_char)
    then show ?thesis using True by (auto simp: format_nat_small)
  next
    case False
    then have "hd (format_nat 10 (n div 10)) \<noteq> CHR ''0''" using less.IH [of "n div 10"] by simp
    then show ?thesis using False by (simp add: format_nat_step)
  qed
qed

lemma format_nat_digit_chars: "list_all is_digit (format_nat 10 n)"
proof (induction n rule: less_induct)
  case (less n)
  show ?case
    by (cases "n < 10")
      (use less in \<open>auto simp: format_nat_small format_nat_step is_digit_digit_char\<close>)
qed

lemma is_json_int_itoa: "is_json_int (itoa i)"
proof (cases "i = 0")
  case True
  moreover have "is_json_int (itoa 0)" by code_simp
  ultimately show ?thesis by simp
next
  case False
  have d: "list_all is_digit (format_nat 10 (nat \<bar>i\<bar>))" by (rule format_nat_digit_chars)
  have h: "hd (format_nat 10 (nat \<bar>i\<bar>)) \<noteq> CHR ''0''" by (rule format_nat_hd) (use False in simp)
  have "is_digit (hd (format_nat 10 (nat \<bar>i\<bar>)))" using d by (cases "format_nat 10 (nat \<bar>i\<bar>)") auto
  then have "hd (format_nat 10 (nat \<bar>i\<bar>)) \<noteq> CHR ''-''" by (auto simp: is_digit_def)
  then show ?thesis using d h by (cases "i < 0") (simp_all add: is_json_int_def format_int_def Let_def)
qed

theorem json_int_itoa:
  assumes "- (2 ^ 63) \<le> i" "i < 2 ^ 63"
  shows "json_int (itoa i) = Inr i"
proof -
  have j: "is_json_int (itoa i)" by (rule is_json_int_itoa)
  have ns: "\<not> is_json_space c" if "is_digit c \<or> c = CHR ''-''" for c
    using that by (auto simp: is_json_space_def is_digit_def)
  have all: "\<forall>c \<in> set (itoa i). is_digit c \<or> c = CHR ''-''"
    using format_nat_digit_chars by (auto simp: format_int_def list.pred_set)
  have ne: "itoa i \<noteq> []" by (simp add: format_int_def)
  have "json_trim (itoa i) = itoa i"
    by (rule json_trim_id) (use ne all ns in auto)
  moreover have "itoa i \<noteq> ''null''"
    using all by (auto simp: is_digit_def)
  ultimately show ?thesis using j assms by (simp add: json_int_def atoi_itoa)
qed

lemma before_irrefl: "\<not> before t t"
  by (simp add: before_def)

lemma before_trans: "before a b \<Longrightarrow> before b c \<Longrightarrow> before a c"
  by (auto simp: before_def)

lemma before_linear: "before a b \<or> a = b \<or> before b (a :: gotime)"
  unfolding before_def by (cases "a = b") (auto intro: gotime.equality dest: antisym_conv3)

lemma next_date_ok:
  "date_ok y m d \<Longrightarrow> y < 9999 \<Longrightarrow> next_date y m d = (y', m', d') \<Longrightarrow> date_ok y' m' d'"
  by (auto simp: next_date_def date_ok_def days_in_def is_leap_def split: if_splits)

lemma add_12_ok: "time_ok t \<Longrightarrow> t_year t < 9999 \<Longrightarrow> time_ok (add_hours t 12)"
  by (auto simp: time_ok_def add_hours_def add_ns_def ns_per_hour_def Let_def
      split: prod.splits dest: next_date_ok)

end
