(* ===== verification/KVStore.thy ===== *)
theory KVStore
  imports Effects Strconv
begin

section \<open>The key-value store (clc/store)\<close>

text \<open>
  \<open>Store\<close> is a thin layer over a Badger database, opened for the time of one \<open>WithLock\<close>. The database
  is the record \<open>badger\<close>: a type \<open>'db\<close> of states with the operations the code calls, an entry being a
  key, a value and a time to live. \<open>badger_ok\<close> is what Badger documents of one client's transactions:
  what was set is found, other keys are kept, iteration goes over the keys with a prefix. \<open>bg_get\<close> is
  \<^verbatim>\<open>txn.Get\<close> followed by \<^verbatim>\<open>ValueCopy\<close>, \<open>bg_set\<close> is \<^verbatim>\<open>txn.SetEntry\<close>; the logger of the database is
  left out.
\<close>

record 'db badger =
  bg_open :: "'db \<Rightarrow> (go_error + unit) \<times> 'db"
  bg_close :: "'db \<Rightarrow> 'db"
  bg_get :: "'db \<Rightarrow> string \<Rightarrow> go_error + string"
  bg_set :: "string \<Rightarrow> string \<Rightarrow> int option \<Rightarrow> 'db \<Rightarrow> (go_error + unit) \<times> 'db"
  bg_iterate :: "'db \<Rightarrow> string \<Rightarrow> go_error + (string \<times> string) list"
  bg_drop :: "string list \<Rightarrow> 'db \<Rightarrow> (go_error + unit) \<times> 'db"

definition badger_ErrKeyNotFound :: go_error where
  "badger_ErrKeyNotFound = Sentinel ''Key not found''"

definition ErrKeyNotFound :: go_error where
  "ErrKeyNotFound = Sentinel ''key not found''"

definition badger_lookup :: "'db badger \<Rightarrow> 'db \<Rightarrow> string \<Rightarrow> string option" where
  "badger_lookup bg db k = (case bg_get bg db k of Inr v \<Rightarrow> Some v | Inl _ \<Rightarrow> None)"

definition badger_ok :: "'db badger \<Rightarrow> bool" where
  "badger_ok bg \<longleftrightarrow>
     (\<forall>db k e. bg_get bg db k = Inl e \<longrightarrow> e = badger_ErrKeyNotFound) \<and>
     (\<forall>db k v t. \<exists>db'. bg_set bg k v t db = (Inr (), db') \<and>
        (\<forall>k'. badger_lookup bg db' k' = (if k' = k then Some v else badger_lookup bg db k'))) \<and>
     (\<forall>db p. \<exists>kvs. bg_iterate bg db p = Inr kvs \<and> distinct (map fst kvs) \<and>
        (\<forall>k v. (k, v) \<in> set kvs \<longleftrightarrow> has_prefix k p \<and> badger_lookup bg db k = Some v)) \<and>
     (\<forall>db ps. \<exists>db'. bg_drop bg ps db = (Inr (), db') \<and>
        (\<forall>k. badger_lookup bg db' k =
             (if \<exists>p \<in> set ps. has_prefix k p then None else badger_lookup bg db k))) \<and>
     (\<forall>db. \<exists>db'. bg_open bg db = (Inr (), db') \<and> badger_lookup bg db' = badger_lookup bg db) \<and>
     (\<forall>db. badger_lookup bg (bg_close bg db) = badger_lookup bg db)"

text \<open>
  \<open>WithLock\<close>: the function runs on the opened database, which is closed whatever it returns. The
  function is a closure, so it may also change what its caller holds: the second part of the state.
\<close>

definition WithLock :: "'db badger \<Rightarrow> ('db \<times> 's, 'a) eff \<Rightarrow> ('db \<times> 's, 'a) eff" where
  "WithLock bg fn s =
     (case bg_open bg (fst s) of
        (Inl e, db1) \<Rightarrow> (Inl e, (db1, snd s))
      | (Inr _, db1) \<Rightarrow> (let (r, db2, x) = fn (db1, snd s) in (r, (bg_close bg db2, x))))"

text \<open>An option that changes an entry; the only one sets its time to live.\<close>

datatype store_option = OptionWithTTL int

fun ModifyEntry :: "store_option \<Rightarrow> string \<times> string \<times> int option \<Rightarrow> string \<times> string \<times> int option" where
  "ModifyEntry (OptionWithTTL d) (k, v, _) = (k, v, Some d)"

definition NewEntry :: "string \<Rightarrow> string \<Rightarrow> string \<times> string \<times> int option" where
  "NewEntry k v = (k, v, None)"

definition SetEntry :: "'db badger \<Rightarrow> string \<Rightarrow> string \<Rightarrow> store_option list \<Rightarrow> ('db, unit) eff" where
  "SetEntry bg key val opts =
     (let (k, v, ttl) = foldl (\<lambda>e o1. ModifyEntry o1 e) (NewEntry key val) opts in bg_set bg k v ttl)"

definition GetEntry :: "'db badger \<Rightarrow> string \<Rightarrow> ('db, string) eff" where
  "GetEntry bg key db =
     (case bg_get bg db key of
        Inl e \<Rightarrow> (Inl (if err_is e ''Key not found'' then ErrKeyNotFound else e), db)
      | Inr item \<Rightarrow> (Inr item, db))"

definition GetKeysWithPrefix :: "'db badger \<Rightarrow> string \<Rightarrow> ('db, string list) eff" where
  "GetKeysWithPrefix bg prefix db =
     (case bg_iterate bg db prefix of Inl e \<Rightarrow> (Inl e, db) | Inr kvs \<Rightarrow> (Inr (map fst kvs), db))"

text \<open>
  The entry made with the options is not what is written: \<^verbatim>\<open>txn.Set\<close> writes the key and the value
  alone.
\<close>

definition UpdateEntry ::
    "'db badger \<Rightarrow> string \<Rightarrow> (string \<Rightarrow> bool \<Rightarrow> string) \<Rightarrow> store_option list \<Rightarrow> ('db, unit) eff" where
  "UpdateEntry bg key f opts db =
     (case bg_get bg db key of
        Inl e \<Rightarrow>
          if \<not> err_is e ''Key not found'' then (Inl e, db)
          else (let newVal = f [] False;
                    e' = foldl (\<lambda>e o1. ModifyEntry o1 e) (NewEntry key newVal) opts
                in bg_set bg key newVal None db)
      | Inr item \<Rightarrow>
          (let newVal = f item True;
               e' = foldl (\<lambda>e o1. ModifyEntry o1 e) (NewEntry key newVal) opts
           in bg_set bg key newVal None db))"

text \<open>The loop of \<open>RunForeachWithPrefix\<close>: an error ends it, and so does a false flag.\<close>

fun foreach_entry ::
    "(string \<Rightarrow> string \<Rightarrow> 's \<Rightarrow> (go_error + bool) \<times> 's) \<Rightarrow> (string \<times> string) list \<Rightarrow> ('s, unit) eff" where
  "foreach_entry f [] s = (Inr (), s)"
| "foreach_entry f ((k, v) # kvs) s =
     (case f k v s of
        (Inl e, s') \<Rightarrow> (Inl e, s')
      | (Inr ok, s') \<Rightarrow> if ok then foreach_entry f kvs s' else (Inr (), s'))"

definition RunForeachWithPrefix ::
    "'db badger \<Rightarrow> string \<Rightarrow> (string \<Rightarrow> string \<Rightarrow> 's \<Rightarrow> (go_error + bool) \<times> 's) \<Rightarrow> 'db \<Rightarrow> ('s, unit) eff" where
  "RunForeachWithPrefix bg prefix f db s =
     (case bg_iterate bg db prefix of Inl e \<Rightarrow> (Inl e, s) | Inr kvs \<Rightarrow> foreach_entry f kvs s)"

definition DeleteEntriesWithPrefixes :: "'db badger \<Rightarrow> string list \<Rightarrow> ('db, unit) eff" where
  "DeleteEntriesWithPrefixes bg prefixes = bg_drop bg prefixes"

subsection \<open>The store keeps what it is given\<close>

lemma SetEntry_lookup:
  assumes "badger_ok bg"
  shows "\<exists>db'. SetEntry bg k v opts db = (Inr (), db') \<and>
    (\<forall>k'. badger_lookup bg db' k' = (if k' = k then Some v else badger_lookup bg db k'))"
proof -
  have "\<exists>t. foldl (\<lambda>e o1. ModifyEntry o1 e) (k, v, t0) opts = (k, v, t)" for t0
  proof (induction opts arbitrary: t0)
    case (Cons op opts)
    then show ?case by (cases op) simp
  qed simp
  then obtain t where "foldl (\<lambda>e o1. ModifyEntry o1 e) (NewEntry k v) opts = (k, v, t)"
    unfolding NewEntry_def by blast
  moreover have "\<exists>db'. bg_set bg k v t db = (Inr (), db') \<and>
    (\<forall>k'. badger_lookup bg db' k' = (if k' = k then Some v else badger_lookup bg db k'))"
    using assms unfolding badger_ok_def by blast
  ultimately show ?thesis by (simp add: SetEntry_def)
qed

lemma UpdateEntry_lookup:
  assumes "badger_ok bg"
  shows "\<exists>db'. UpdateEntry bg k f opts db = (Inr (), db') \<and>
    (\<forall>k'. badger_lookup bg db' k' =
      (if k' = k then Some (case badger_lookup bg db k of None \<Rightarrow> f [] False | Some v \<Rightarrow> f v True)
       else badger_lookup bg db k'))"
proof -
  let ?v = "case badger_lookup bg db k of None \<Rightarrow> f [] False | Some v \<Rightarrow> f v True"
  have "UpdateEntry bg k f opts db = bg_set bg k ?v None db"
  proof (cases "bg_get bg db k")
    case (Inl e)
    then have "e = badger_ErrKeyNotFound" using assms unfolding badger_ok_def by blast
    then show ?thesis
      using Inl by (simp add: UpdateEntry_def badger_lookup_def badger_ErrKeyNotFound_def)
  next
    case (Inr v)
    then show ?thesis by (simp add: UpdateEntry_def badger_lookup_def)
  qed
  moreover have "\<exists>db'. bg_set bg k ?v None db = (Inr (), db') \<and>
    (\<forall>k'. badger_lookup bg db' k' = (if k' = k then Some ?v else badger_lookup bg db k'))"
    using assms unfolding badger_ok_def by blast
  ultimately show ?thesis by simp
qed

lemma WithLock_ok:
  assumes "badger_ok bg"
  shows "\<exists>db1 r db2 x2. fn (db1, x) = (r, db2, x2) \<and> badger_lookup bg db1 = badger_lookup bg db \<and>
    WithLock bg fn (db, x) = (r, bg_close bg db2, x2) \<and>
    badger_lookup bg (bg_close bg db2) = badger_lookup bg db2"
proof -
  obtain db1 where o1: "bg_open bg db = (Inr (), db1)" "badger_lookup bg db1 = badger_lookup bg db"
    using assms unfolding badger_ok_def by blast
  obtain r db2 x2 where f: "fn (db1, x) = (r, db2, x2)" by (metis prod_cases3)
  have "badger_lookup bg (bg_close bg db2) = badger_lookup bg db2"
    using assms unfolding badger_ok_def by blast
  moreover have "WithLock bg fn (db, x) = (r, bg_close bg db2, x2)"
    using o1(1) f by (simp add: WithLock_def)
  ultimately show ?thesis using o1(2) f by blast
qed

lemma GetEntry_lookup:
  assumes "badger_ok bg"
  shows "GetEntry bg k db =
     (case badger_lookup bg db k of None \<Rightarrow> (Inl ErrKeyNotFound, db) | Some v \<Rightarrow> (Inr v, db))"
proof (cases "bg_get bg db k")
  case (Inl e)
  then have "e = badger_ErrKeyNotFound" using assms unfolding badger_ok_def by blast
  then show ?thesis
    using Inl by (simp add: GetEntry_def badger_lookup_def badger_ErrKeyNotFound_def)
next
  case (Inr v)
  then show ?thesis by (simp add: GetEntry_def badger_lookup_def)
qed

text \<open>A database that is an association list with a flag for open.\<close>

definition alist_badger :: "(string \<times> string) list badger" where
  "alist_badger = \<lparr>
     bg_open = (\<lambda>db. (Inr (), db)), bg_close = (\<lambda>db. db),
     bg_get = (\<lambda>db k. case map_of db k of None \<Rightarrow> Inl badger_ErrKeyNotFound | Some v \<Rightarrow> Inr v),
     bg_set = (\<lambda>k v t db. (Inr (), (k, v) # filter (\<lambda>e. fst e \<noteq> k) db)),
     bg_iterate = (\<lambda>db p. Inr (map (\<lambda>k. (k, the (map_of db k))) (filter (\<lambda>k. has_prefix k p) (remdups (map fst db))))),
     bg_drop = (\<lambda>ps db. (Inr (), filter (\<lambda>e. \<not> (\<exists>p \<in> set ps. has_prefix (fst e) p)) db))\<rparr>"

lemma map_of_filter_fst: "map_of (filter (\<lambda>e. P (fst e)) db) k = (if P k then map_of db k else None)"
  by (induction db) auto

lemma alist_badger_get: "badger_lookup alist_badger db k = map_of db k"
  by (simp add: badger_lookup_def alist_badger_def split: option.splits)

lemma alist_badger_iterate:
  "(k, v) \<in> set (map (\<lambda>k. (k, the (map_of db k))) (filter (\<lambda>k. has_prefix k p) (remdups (map fst db)))) \<longleftrightarrow>
    has_prefix k p \<and> map_of db k = Some v"
proof -
  have "k \<in> fst ` set db \<and> v = the (map_of db k) \<longleftrightarrow> map_of db k = Some v"
    by (cases "map_of db k") (auto simp: map_of_eq_None_iff dest: map_of_SomeD intro: rev_image_eqI)
  then show ?thesis by auto
qed

lemma alist_badger_ok: "badger_ok alist_badger"
  unfolding badger_ok_def alist_badger_get
proof (intro conjI allI)
  fix db :: "(string \<times> string) list" and k v t p ps
  show "bg_get alist_badger db k = Inl e \<longrightarrow> e = badger_ErrKeyNotFound" for e
    by (simp add: alist_badger_def split: option.splits)
  show "\<exists>db'. bg_set alist_badger k v t db = (Inr (), db') \<and>
        (\<forall>k'. map_of db' k' = (if k' = k then Some v else map_of db k'))"
    by (simp add: alist_badger_def map_of_filter_fst [where P = "\<lambda>x. x \<noteq> k"])
  show "\<exists>kvs. bg_iterate alist_badger db p = Inr kvs \<and> distinct (map fst kvs) \<and>
        (\<forall>k v. (k, v) \<in> set kvs \<longleftrightarrow> has_prefix k p \<and> map_of db k = Some v)"
    unfolding alist_badger_iterate [symmetric] by (simp add: alist_badger_def comp_def)
  show "\<exists>db'. bg_drop alist_badger ps db = (Inr (), db') \<and>
        (\<forall>k. map_of db' k = (if \<exists>p \<in> set ps. has_prefix k p then None else map_of db k))"
    by (simp add: alist_badger_def map_of_filter_fst [where P = "\<lambda>x. \<forall>p \<in> set ps. \<not> has_prefix x p"])
  show "\<exists>db'. bg_open alist_badger db = (Inr (), db') \<and> map_of db' = map_of db"
    by (simp add: alist_badger_def)
  show "map_of (bg_close alist_badger db) = map_of db"
    by (simp add: alist_badger_def)
qed

end
