(* ===== verification/Metrics.thy ===== *)
theory Metrics
  imports GoTime KVStore "HOL-Library.AList"
begin

section \<open>Usage metrics (clc/metrics)\<close>

text \<open>
  A run of the program counts in memory, under keys that name a day, a cluster and a session. \<open>Send\<close>
  moves the counts into the store, and once the next try time has passed sends the days before today
  and deletes them. What is not the program's is in \<open>metrics_env\<close>: the environment variable, a new
  UUID, the platform and the JSON form of the global attributes.

  A Go map that is iterated is an association list with distinct keys, in the order of the iteration;
  the facts hold for every such order.
\<close>

subsection \<open>Keys\<close>

definition PhonehomeKeyPrefix :: string where "PhonehomeKeyPrefix = ''ph''"
definition KeyFieldSeparator :: char where "KeyFieldSeparator = CHR ''^''"
definition GlobalAttributesKeyName :: string where "GlobalAttributesKeyName = ''metrics-global-attributes''"
definition NextPingTryTimeKey :: string where "NextPingTryTimeKey = ''metrics-try-next-time''"
definition StoreDuration :: int where "StoreDuration = 30 * 24 * 3600000000000"

record Key =
  Datetime :: gotime
  ClusterID :: string
  ViridianClusterID :: string

definition NewKey :: "gotime \<Rightarrow> string \<Rightarrow> string \<Rightarrow> Key" where
  "NewKey now cid vid = \<lparr>Datetime = now\<lparr>t_ns := 0\<rparr>, ClusterID = cid, ViridianClusterID = vid\<rparr>"

definition NewSimpleKey :: "gotime \<Rightarrow> Key" where
  "NewSimpleKey now = NewKey now [] []"

definition datePrefix :: "string \<Rightarrow> string" where
  "datePrefix date = PhonehomeKeyPrefix @ [KeyFieldSeparator] @ date"

record storageKey =
  sk_Key :: Key
  KeyPrefix :: string
  AcquisitionSource :: string
  CLCVersion :: string
  MetricName :: string

definition newStorageKey :: "Key \<Rightarrow> string \<Rightarrow> string \<Rightarrow> string \<Rightarrow> storageKey" where
  "newStorageKey k src version metric =
     \<lparr>sk_Key = k, KeyPrefix = PhonehomeKeyPrefix, AcquisitionSource = src, CLCVersion = version,
      MetricName = metric\<rparr>"

definition storageKey_Date :: "storageKey \<Rightarrow> string" where
  "storageKey_Date c = Format_date (Datetime (sk_Key c))"

definition storageKey_Marshal :: "storageKey \<Rightarrow> go_error + string" where
  "storageKey_Marshal c = Inr (join_with [KeyFieldSeparator]
     [KeyPrefix c, storageKey_Date c, ClusterID (sk_Key c), ViridianClusterID (sk_Key c),
      AcquisitionSource c, CLCVersion c, MetricName c])"

definition storageKey_Unmarshal :: "string \<Rightarrow> go_error + storageKey" where
  "storageKey_Unmarshal b =
     (let s = split_on KeyFieldSeparator b in
      if length s \<noteq> 7 then Inl (Errorf ''key is in an incorrect format'')
      else bind_res (Parse_date (s ! 1)) (\<lambda>date.
        Inr \<lparr>sk_Key = \<lparr>Datetime = date, ClusterID = s ! 2, ViridianClusterID = s ! 3\<rparr>, KeyPrefix = s ! 0,
             AcquisitionSource = s ! 4, CLCVersion = s ! 5, MetricName = s ! 6\<rparr>))"

subsection \<open>Attributes\<close>

record GlobalAttributes =
  ga_ID :: string
  Architecture :: string
  ga_OS :: string

record SessionAttributes =
  sa_CLCVersion :: string
  sa_AcquisitionSource :: string

record metrics_env =
  me_getenv :: "string \<Rightarrow> string"
  me_uuid :: string
  me_arch :: string
  me_os :: string
  me_version :: string
  me_marshal :: "GlobalAttributes \<Rightarrow> go_error + string"
  me_unmarshal :: "string \<Rightarrow> go_error + GlobalAttributes"

definition PhoneHomeEnabled :: "metrics_env \<Rightarrow> bool" where
  "PhoneHomeEnabled env \<longleftrightarrow> me_getenv env ''HZ_PHONE_HOME_ENABLED'' \<noteq> ''false''"

definition NewGlobalAttributes :: "metrics_env \<Rightarrow> GlobalAttributes" where
  "NewGlobalAttributes env = \<lparr>ga_ID = me_uuid env, Architecture = me_arch env, ga_OS = me_os env\<rparr>"

definition FindAcquisionSource :: "metrics_env \<Rightarrow> string" where
  "FindAcquisionSource env =
     (let src = me_getenv env ''CLC_INTERNAL_ACQUISITION_SOURCE'' in if src = [] then ''Unknown'' else src)"

definition NewSessionMetrics :: "metrics_env \<Rightarrow> SessionAttributes" where
  "NewSessionMetrics env =
     \<lparr>sa_CLCVersion = me_version env, sa_AcquisitionSource = FindAcquisionSource env\<rparr>"

subsection \<open>Counting in memory\<close>

record metricStore =
  increments :: "(storageKey \<times> int) list"
  updates :: "(storageKey \<times> int) list"
  globalAttrs :: GlobalAttributes
  sessionAttrs :: SessionAttributes

definition session_key :: "metricStore \<Rightarrow> Key \<Rightarrow> string \<Rightarrow> storageKey" where
  "session_key ms key m =
     newStorageKey key (sa_AcquisitionSource (sessionAttrs ms)) (sa_CLCVersion (sessionAttrs ms)) m"

definition metric_Store :: "metricStore \<Rightarrow> Key \<Rightarrow> string \<Rightarrow> int \<Rightarrow> metricStore" where
  "metric_Store ms key metric val =
     foldl (\<lambda>ms m. ms\<lparr>updates := AList.update (session_key ms key m) val (updates ms)\<rparr>)
       ms (split_on CHR ''.'' metric)"

definition counter :: "(storageKey \<times> int) list \<Rightarrow> storageKey \<Rightarrow> int" where
  "counter m k = (case map_of m k of None \<Rightarrow> 0 | Some v \<Rightarrow> v)"

definition metric_Increment :: "metricStore \<Rightarrow> Key \<Rightarrow> string \<Rightarrow> metricStore" where
  "metric_Increment ms key metric =
     foldl (\<lambda>ms m. let sk = session_key ms key m in
         ms\<lparr>increments := AList.update sk (int64 (counter (increments ms) sk + 1)) (increments ms)\<rparr>)
       ms (split_on CHR ''.'' metric)"

subsection \<open>Into the store\<close>

text \<open>\<open>ensureGlobalMetrics\<close> reads the global attributes, or makes and stores them the first time.\<close>

definition ensureGlobalMetrics ::
    "'db badger \<Rightarrow> metrics_env \<Rightarrow> ('db \<times> metricStore, unit) eff" where
  "ensureGlobalMetrics bg env = WithLock bg (\<lambda>(db, ms).
     (case GetEntry bg GlobalAttributesKeyName db of
        (Inr valb, db1) \<Rightarrow>
          (case me_unmarshal env valb of
             Inl e \<Rightarrow> (Inl e, (db1, ms))
           | Inr gas \<Rightarrow> (Inr (), (db1, ms\<lparr>globalAttrs := gas\<rparr>)))
      | (Inl e, db1) \<Rightarrow>
          if \<not> err_is e ''key not found'' then (Inl e, (db1, ms))
          else (let gas = NewGlobalAttributes env in
            case me_marshal env gas of
              Inl e' \<Rightarrow> (Inl e', (db1, ms))
            | Inr gasb \<Rightarrow>
                (case SetEntry bg GlobalAttributesKeyName gasb [] db1 of
                   (Inl e', db2) \<Rightarrow> (Inl e', (db2, ms))
                 | (Inr _, db2) \<Rightarrow> (Inr (), (db2, ms\<lparr>globalAttrs := gas\<rparr>))))))"

definition newMetricStore :: "'db badger \<Rightarrow> metrics_env \<Rightarrow> ('db, metricStore) eff" where
  "newMetricStore bg env db =
     (let ms = \<lparr>increments = [], updates = [], globalAttrs = \<lparr>ga_ID = [], Architecture = [], ga_OS = []\<rparr>,
                sessionAttrs = NewSessionMetrics env\<rparr>
      in case ensureGlobalMetrics bg env (db, ms) of
           (Inl e, (db1, _)) \<Rightarrow> (Inl e, db1)
         | (Inr _, (db1, ms1)) \<Rightarrow> (Inr ms1, db1))"

text \<open>The new value of a counter: a stored text that is no number is overwritten.\<close>

definition merge_count :: "int \<Rightarrow> string \<Rightarrow> bool \<Rightarrow> string" where
  "merge_count val current found =
     itoa (if found
           then (case json_int current of Inl _ \<Rightarrow> val | Inr existing \<Rightarrow> int64 (val + existing))
           else val)"

fun persist_increments :: "'db badger \<Rightarrow> (storageKey \<times> int) list \<Rightarrow> 'db \<Rightarrow> 'db" where
  "persist_increments bg [] db = db"
| "persist_increments bg ((key, val) # rest) db =
     (case storageKey_Marshal key of
        Inl _ \<Rightarrow> persist_increments bg rest db
      | Inr keyb \<Rightarrow>
          persist_increments bg rest
            (snd (UpdateEntry bg keyb (merge_count val) [OptionWithTTL StoreDuration] db)))"

fun persist_updates :: "'db badger \<Rightarrow> (storageKey \<times> int) list \<Rightarrow> 'db \<Rightarrow> 'db" where
  "persist_updates bg [] db = db"
| "persist_updates bg ((key, val) # rest) db =
     (case storageKey_Marshal key of
        Inl _ \<Rightarrow> persist_updates bg rest db
      | Inr keyb \<Rightarrow>
          persist_updates bg rest (snd (SetEntry bg keyb (itoa val) [OptionWithTTL StoreDuration] db)))"

definition persistIncrementMetrics :: "'db badger \<Rightarrow> 'db \<times> metricStore \<Rightarrow> 'db \<times> metricStore" where
  "persistIncrementMetrics bg = (\<lambda>(db, ms). (persist_increments bg (increments ms) db, ms\<lparr>increments := []\<rparr>))"

definition persistStoreMetrics :: "'db badger \<Rightarrow> 'db \<times> metricStore \<Rightarrow> 'db \<times> metricStore" where
  "persistStoreMetrics bg = (\<lambda>(db, ms). (persist_updates bg (updates ms) db, ms\<lparr>updates := []\<rparr>))"

definition persistMetrics :: "'db badger \<Rightarrow> 'db \<times> metricStore \<Rightarrow> 'db \<times> metricStore" where
  "persistMetrics bg s = persistStoreMetrics bg (persistIncrementMetrics bg s)"

subsection \<open>Queries\<close>

record Query =
  q_Date :: string
  q_ID :: string
  q_Architecture :: string
  q_OS :: string
  q_Version :: string
  q_AcquisitionSource :: string
  ClusterUUID :: string
  q_ViridianClusterID :: string
  ClusterConfigCount :: int
  SQLRunCount :: int
  MapRunCount :: int
  TopicRunCount :: int
  QueueRunCount :: int
  MultiMapRunCont :: int
  ListRunCount :: int
  DemoRunCount :: int
  ProjectRunCount :: int
  JobRunCount :: int
  ViridianRunCount :: int
  SetRunCount :: int
  ShellRunCount :: int
  ScriptRunCount :: int
  TotalRunCount :: int
  AtomicLongRunCount :: int
  InteractiveModeRunCount :: int
  NoninteractiveModeRunCount :: int
  ScriptModeRunCount :: int

type_synonym attributes = "string \<times> string \<times> string \<times> string"

definition MakeQuery ::
    "GlobalAttributes \<Rightarrow> string \<Rightarrow> attributes \<Rightarrow> (string \<times> int) list \<Rightarrow> Query" where
  "MakeQuery ga date attribs metrics =
     (let (cid, vid, acqSource, version) = attribs;
          n = (\<lambda>k. case map_of metrics k of None \<Rightarrow> 0 | Some v \<Rightarrow> v)
      in \<lparr>q_Date = date, q_ID = ga_ID ga, q_Architecture = Architecture ga, q_OS = ga_OS ga,
          q_Version = version, q_AcquisitionSource = acqSource, ClusterUUID = cid,
          q_ViridianClusterID = vid, ClusterConfigCount = n ''cluster-config-count'',
          SQLRunCount = n ''sql'', MapRunCount = n ''map'', TopicRunCount = n ''topic'',
          QueueRunCount = n ''queue'', MultiMapRunCont = n ''multimap'', ListRunCount = n ''list'',
          DemoRunCount = n ''demo'', ProjectRunCount = n ''project'', JobRunCount = n ''job'',
          ViridianRunCount = n ''viridian'', SetRunCount = n ''set'', ShellRunCount = n ''shell'',
          ScriptRunCount = n ''script'', TotalRunCount = n ''total'',
          AtomicLongRunCount = n ''atomiclong'', InteractiveModeRunCount = n ''interactive-mode'',
          NoninteractiveModeRunCount = n ''noninteractive-mode'', ScriptModeRunCount = n ''script-mode''\<rparr>)"

definition GenerateFirstPingQuery :: "GlobalAttributes \<Rightarrow> SessionAttributes \<Rightarrow> gotime \<Rightarrow> Query" where
  "GenerateFirstPingQuery ga sa t =
     (MakeQuery ga (Format_date t) ([], [], sa_AcquisitionSource sa, sa_CLCVersion sa) [])"

definition key_attributes :: "storageKey \<Rightarrow> attributes" where
  "key_attributes k = (ClusterID (sk_Key k), ViridianClusterID (sk_Key k), AcquisitionSource k, CLCVersion k)"

type_synonym metric_entries = "(attributes \<times> (string \<times> int) list) list"

text \<open>One entry of the store of a day; an entry that cannot be read ends the loop.\<close>

definition collect_entry ::
    "string \<Rightarrow> string \<Rightarrow> metric_entries \<Rightarrow> (go_error + bool) \<times> metric_entries" where
  "collect_entry keyb valb entries =
     (case storageKey_Unmarshal keyb of
        Inl e \<Rightarrow> (Inl e, entries)
      | Inr k \<Rightarrow>
          (case json_int valb of
             Inl e \<Rightarrow> (Inl e, entries)
           | Inr v \<Rightarrow>
               (let ms = (case map_of entries (key_attributes k) of None \<Rightarrow> [] | Some ms \<Rightarrow> ms)
                in (Inr True, AList.update (key_attributes k) (AList.update (MetricName k) v ms) entries))))"

definition GenerateQueries :: "'db badger \<Rightarrow> 'db \<Rightarrow> GlobalAttributes \<Rightarrow> string Set \<Rightarrow> Query list" where
  "GenerateQueries bg db ga dates =
     concat (map (\<lambda>date.
       map (\<lambda>(attribs, metrics). MakeQuery ga date attribs metrics)
         (snd (RunForeachWithPrefix bg (datePrefix date) collect_entry db []))) (Set_Map dates))"

subsection \<open>Sending\<close>

definition getTryNextTime :: "'db badger \<Rightarrow> 'db \<Rightarrow> go_error + gotime" where
  "getTryNextTime bg db =
     (case GetEntry bg NextPingTryTimeKey db of
        (Inl e, _) \<Rightarrow> Inl e
      | (Inr tb, _) \<Rightarrow> json_time tb)"

definition storeNextTryTime :: "'db badger \<Rightarrow> gotime \<Rightarrow> ('db, unit) eff" where
  "storeNextTryTime bg now =
     (case time_MarshalJSON (add_hours now 12) of
        Inl e \<Rightarrow> fail e
      | Inr valb \<Rightarrow> SetEntry bg NextPingTryTimeKey valb [])"

fun findDatesFromKeys :: "string list \<Rightarrow> string Set \<Rightarrow> string Set" where
  "findDatesFromKeys [] dates = dates"
| "findDatesFromKeys (keyb # keys) dates =
     (case storageKey_Unmarshal keyb of
        Inl _ \<Rightarrow> findDatesFromKeys keys dates
      | Inr k \<Rightarrow> findDatesFromKeys keys (Set_Add dates (storageKey_Date k)))"

definition findDatesToSend :: "'db badger \<Rightarrow> gotime \<Rightarrow> 'db \<Rightarrow> go_error + string Set" where
  "findDatesToSend bg now db =
     (case GetKeysWithPrefix bg PhonehomeKeyPrefix db of
        (Inl e, _) \<Rightarrow> Inl e
      | (Inr keys, _) \<Rightarrow> Inr (Set_Delete (findDatesFromKeys keys (MakeSet [])) (Format_date now)))"

definition deleteSentDates :: "'db badger \<Rightarrow> string Set \<Rightarrow> ('db, unit) eff" where
  "deleteSentDates bg dates = DeleteEntriesWithPrefixes bg (map datePrefix (Set_Map dates))"

text \<open>
  The body of \<open>Send\<close> after the counts are persisted. The sender, \<^verbatim>\<open>sendQueriesFn\<close>, is an argument: it
  gets the queries and a state of its own, the network.
\<close>

type_synonym 'w sender = "Query list \<Rightarrow> ('w, unit) eff"

definition send_dates ::
    "'db badger \<Rightarrow> 'w sender \<Rightarrow> gotime \<Rightarrow> bool \<Rightarrow> ('db \<times> metricStore \<times> 'w, unit) eff" where
  "send_dates bg send now sendFirstQuery = (\<lambda>(db, ms, w).
     (case findDatesToSend bg now db of
        Inl e \<Rightarrow> (Inl e, (db, ms, w))
      | Inr dates \<Rightarrow>
          (let q0 = GenerateQueries bg db (globalAttrs ms) dates in
           if q0 = [] \<and> \<not> sendFirstQuery then (Inr (), (db, ms, w))
           else (let q = (if q0 = [] then [GenerateFirstPingQuery (globalAttrs ms) (sessionAttrs ms) now] else q0)
             in case send q w of
                  (Inl e, w1) \<Rightarrow> (Inl e, (db, ms, w1))
                | (Inr _, w1) \<Rightarrow> (let (r, db1) = deleteSentDates bg dates db in (r, (db1, ms, w1)))))))"

definition send_due ::
    "'db badger \<Rightarrow> 'w sender \<Rightarrow> gotime \<Rightarrow> ('db \<times> metricStore \<times> 'w, unit) eff" where
  "send_due bg send now = (\<lambda>(db, ms, w).
     (case getTryNextTime bg db of
        Inl e \<Rightarrow>
          if \<not> err_is e ''key not found'' then (Inl e, (db, ms, w))
          else if before now zero_time then (Inr (), (db, ms, w))
          else send_dates bg send now True (db, ms, w)
      | Inr nextTime \<Rightarrow>
          if before now nextTime then (Inr (), (db, ms, w))
          else send_dates bg send now False (db, ms, w)))"

text \<open>The next try time is stored whatever happened, by the deferred function; its error is dropped.\<close>

definition metrics_Send ::
    "'db badger \<Rightarrow> 'w sender \<Rightarrow> gotime \<Rightarrow> ('db \<times> metricStore \<times> 'w, unit) eff" where
  "metrics_Send bg send now = WithLock bg (\<lambda>(db, ms, w).
     (let (db1, ms1) = persistMetrics bg (db, ms);
          (r, (db2, ms2, w2)) = send_due bg send now (db1, ms1, w)
      in (r, (snd (storeNextTryTime bg now db2), ms2, w2))))"

text \<open>
  The package's own functions: there is no store before \<open>CreateMetricStore\<close>, with the metrics
  disabled, or after an error; nothing is counted or sent then.
\<close>

definition CreateMetricStore :: "'db badger \<Rightarrow> metrics_env \<Rightarrow> 'db \<Rightarrow> metricStore option \<times> 'db" where
  "CreateMetricStore bg env db =
     (if PhoneHomeEnabled env
      then (case newMetricStore bg env db of (Inl _, db1) \<Rightarrow> (None, db1) | (Inr ms, db1) \<Rightarrow> (Some ms, db1))
      else (None, db))"

definition Send ::
    "'db badger \<Rightarrow> 'w sender \<Rightarrow> gotime \<Rightarrow> metricStore option \<Rightarrow> 'db \<times> 'w \<Rightarrow> metricStore option \<times> 'db \<times> 'w" where
  "Send bg send now ds = (\<lambda>(db, w).
     (case ds of
        None \<Rightarrow> (None, db, w)
      | Some ms \<Rightarrow> (let (_, (db1, ms1, w1)) = metrics_Send bg send now (db, ms, w) in (Some ms1, db1, w1))))"

subsection \<open>Keys read back\<close>

lemma Format_date_no_separator: "CHR ''^'' \<notin> set (Format_date t)"
proof -
  have d: "CHR ''^'' \<notin> set s" if "list_all is_digit s" for s
    using that by (auto simp: list.pred_set is_digit_def)
  have "CHR ''^'' \<notin> set (year_text y)" for y
    using d [OF digits_are_digits] d [OF format_nat_digit_chars]
    by (auto simp: year_text_def Let_def simp del: digits.simps)
  then show ?thesis
    using d [OF digits_are_digits] by (auto simp: Format_date_def simp del: digits.simps)
qed

text \<open>
  A key that is stored for a day of the calendar, with no separator in its fields, is read back
  from its stored form as the same key; so two such keys have different stored forms and their counts
  are never mixed.
\<close>

theorem storageKey_roundtrip:
  assumes "date_ok (t_year (Datetime (sk_Key c))) (t_month (Datetime (sk_Key c))) (t_day (Datetime (sk_Key c)))"
    and "t_ns (Datetime (sk_Key c)) = 0"
    and "\<forall>s \<in> {KeyPrefix c, ClusterID (sk_Key c), ViridianClusterID (sk_Key c), AcquisitionSource c,
               CLCVersion c, MetricName c}. KeyFieldSeparator \<notin> set s"
  shows "\<exists>b. storageKey_Marshal c = Inr b \<and> storageKey_Unmarshal b = Inr c"
proof -
  let ?ws = "[KeyPrefix c, storageKey_Date c, ClusterID (sk_Key c), ViridianClusterID (sk_Key c),
      AcquisitionSource c, CLCVersion c, MetricName c]"
  have "split_on KeyFieldSeparator (join_with [KeyFieldSeparator] ?ws) = ?ws"
    by (rule split_on_join)
      (use assms(3) Format_date_no_separator in \<open>auto simp: storageKey_Date_def KeyFieldSeparator_def\<close>)
  moreover have "Parse_date (storageKey_Date c) = Inr (Datetime (sk_Key c))"
    using Parse_Format_date [OF assms(1)] assms(2) by (simp add: storageKey_Date_def)
  ultimately show ?thesis
    by (simp add: storageKey_Marshal_def storageKey_Unmarshal_def)
qed

definition sample_time :: gotime where
  "sample_time = \<lparr>t_year = 2023, t_month = 10, t_day = 5, t_ns = 0\<rparr>"

definition sample_key :: storageKey where
  "sample_key = newStorageKey (NewKey sample_time ''c-1'' []) ''Docker'' ''5.3.3'' ''map''"

lemma storageKey_roundtrip_witness:
  "\<exists>b. storageKey_Marshal sample_key = Inr b \<and> storageKey_Unmarshal b = Inr sample_key"
  by (rule storageKey_roundtrip)
    (simp_all add: sample_key_def newStorageKey_def NewKey_def sample_time_def date_ok_def days_in_def
      PhonehomeKeyPrefix_def KeyFieldSeparator_def)

subsection \<open>Counts are kept\<close>

definition stored_key :: "storageKey \<Rightarrow> string" where
  "stored_key k = (case storageKey_Marshal k of Inr b \<Rightarrow> b | Inl _ \<Rightarrow> [])"

lemma Marshal_stored_key: "storageKey_Marshal k = Inr (stored_key k)"
  by (simp add: stored_key_def storageKey_Marshal_def)

lemma separator_in_stored_key: "CHR ''^'' \<in> set (stored_key k)"
  by (simp add: stored_key_def storageKey_Marshal_def KeyFieldSeparator_def)

lemma UpdateEntry_snd:
  "badger_ok bg \<Longrightarrow> badger_lookup bg (snd (UpdateEntry bg k f opts db)) k' =
    (if k' = k then Some (case badger_lookup bg db k of None \<Rightarrow> f [] False | Some v \<Rightarrow> f v True)
     else badger_lookup bg db k')"
  using UpdateEntry_lookup [of bg k f opts db] by auto

lemma SetEntry_snd:
  "badger_ok bg \<Longrightarrow> badger_lookup bg (snd (SetEntry bg k v opts db)) k' =
    (if k' = k then Some v else badger_lookup bg db k')"
  using SetEntry_lookup [of bg k v opts db] by auto

lemma persist_increments_other:
  "badger_ok bg \<Longrightarrow> b \<notin> stored_key ` fst ` set m \<Longrightarrow>
     badger_lookup bg (persist_increments bg m db) b = badger_lookup bg db b"
  by (induction m arbitrary: db) (auto simp: Marshal_stored_key UpdateEntry_snd)

lemma persist_updates_other:
  "badger_ok bg \<Longrightarrow> b \<notin> stored_key ` fst ` set m \<Longrightarrow>
     badger_lookup bg (persist_updates bg m db) b = badger_lookup bg db b"
  by (induction m arbitrary: db) (auto simp: Marshal_stored_key SetEntry_snd)

lemma persist_increments_key:
  "badger_ok bg \<Longrightarrow> (k, val) \<in> set m \<Longrightarrow> inj_on stored_key (fst ` set m) \<Longrightarrow> distinct (map fst m) \<Longrightarrow>
     badger_lookup bg (persist_increments bg m db) (stored_key k) =
       Some (case badger_lookup bg db (stored_key k) of
               None \<Rightarrow> merge_count val [] False | Some v \<Rightarrow> merge_count val v True)"
proof (induction m arbitrary: db)
  case (Cons e m)
  obtain k' v' where e: "e = (k', v')" by (cases e)
  show ?case
  proof (cases "k' = k")
    case True
    then have v: "v' = val" and n: "k \<notin> fst ` set m"
      using Cons.prems(2,4) e by (auto simp: image_iff)
    have "stored_key k \<notin> stored_key ` fst ` set m"
      using Cons.prems(3) n e True unfolding inj_on_def by auto
    then show ?thesis
      using Cons.prems(1) True v e
      by (simp add: Marshal_stored_key persist_increments_other UpdateEntry_snd)
  next
    case False
    then have k: "(k, val) \<in> set m" using Cons.prems(2) e by auto
    have "k \<in> fst ` set m" using k by force
    then have "stored_key k \<noteq> stored_key k'"
      using inj_onD [OF Cons.prems(3), of k k'] e False by auto
    then show ?thesis
      using Cons.IH [OF Cons.prems(1) k] Cons.prems e False
      by (simp add: Marshal_stored_key UpdateEntry_snd inj_on_insert)
  qed
qed simp

text \<open>
  Moving the counts into the store loses none: the count of a key becomes the count it had there
  plus the count in memory, and is then the number read back; memory is emptied and the entries of
  other keys are not touched.
\<close>

theorem persistIncrementMetrics_adds:
  assumes "badger_ok bg" and "distinct (map fst (increments ms))"
    and "inj_on stored_key (fst ` set (increments ms))" and "(k, val) \<in> set (increments ms)"
    and "badger_lookup bg db (stored_key k) = Some (itoa n) \<or> n = 0 \<and> badger_lookup bg db (stored_key k) = None"
    and "- (2 ^ 63) \<le> n" "n < 2 ^ 63" "- (2 ^ 63) \<le> val + n" "val + n < 2 ^ 63"
  shows "increments (snd (persistIncrementMetrics bg (db, ms))) = [] \<and>
    (case badger_lookup bg (fst (persistIncrementMetrics bg (db, ms))) (stored_key k) of
       None \<Rightarrow> False | Some b \<Rightarrow> json_int b = Inr (val + n)) \<and>
    (\<forall>b. b \<notin> stored_key ` fst ` set (increments ms) \<longrightarrow>
       badger_lookup bg (fst (persistIncrementMetrics bg (db, ms))) b = badger_lookup bg db b)"
proof -
  have "int64 (val + n) = val + n" by (rule wrap_int_id) (use assms in auto)
  then have "(case badger_lookup bg db (stored_key k) of
      None \<Rightarrow> merge_count val [] False | Some v \<Rightarrow> merge_count val v True) = itoa (val + n)"
    using assms(5-9) json_int_itoa [of n] by (auto simp: merge_count_def)
  then show ?thesis
    using persist_increments_key [OF assms(1,4,3,2)] persist_increments_other [OF assms(1)]
      json_int_itoa [of "val + n"] assms
    by (simp add: persistIncrementMetrics_def)
qed

definition sample_store :: metricStore where
  "sample_store = \<lparr>increments = [(sample_key, 3)], updates = [],
     globalAttrs = \<lparr>ga_ID = ''id'', Architecture = ''amd64'', ga_OS = ''linux''\<rparr>,
     sessionAttrs = \<lparr>sa_CLCVersion = ''5.3.3'', sa_AcquisitionSource = ''Docker''\<rparr>\<rparr>"

lemma persistIncrementMetrics_adds_witness:
  "\<exists>b. badger_lookup alist_badger
      (fst (persistIncrementMetrics alist_badger ([(stored_key sample_key, itoa 4)], sample_store)))
      (stored_key sample_key) = Some b \<and> json_int b = Inr 7"
  using persistIncrementMetrics_adds [OF alist_badger_ok, of sample_store sample_key 3
      "[(stored_key sample_key, itoa 4)]" 4]
  by (auto simp: sample_store_def alist_badger_get split: option.splits)

subsection \<open>When it sends, and what it deletes\<close>

lemma next_key_not_stored: "NextPingTryTimeKey \<noteq> stored_key k"
proof
  assume "NextPingTryTimeKey = stored_key k"
  then have "CHR ''^'' \<in> set NextPingTryTimeKey" using separator_in_stored_key by metis
  then show False by (simp add: NextPingTryTimeKey_def)
qed

lemma persistMetrics_next_key:
  "badger_ok bg \<Longrightarrow> badger_lookup bg (fst (persistMetrics bg (db, ms))) NextPingTryTimeKey =
     badger_lookup bg db NextPingTryTimeKey"
  using next_key_not_stored
  by (auto simp: persistMetrics_def persistStoreMetrics_def persistIncrementMetrics_def
      persist_increments_other persist_updates_other image_iff)

lemma getTryNextTime_lookup:
  "badger_ok bg \<Longrightarrow> badger_lookup bg db NextPingTryTimeKey = Some b \<Longrightarrow> getTryNextTime bg db = json_time b"
  by (simp add: getTryNextTime_def GetEntry_lookup)

lemma storeNextTryTime_lookup:
  assumes "badger_ok bg" "time_MarshalJSON (add_hours now 12) = Inr b"
  shows "badger_lookup bg (snd (storeNextTryTime bg now db)) k =
    (if k = NextPingTryTimeKey then Some b else badger_lookup bg db k)"
  using assms by (simp add: storeNextTryTime_def SetEntry_snd)

definition next_try :: "'db badger \<Rightarrow> 'db \<Rightarrow> gotime \<Rightarrow> bool" where
  "next_try bg db t \<longleftrightarrow>
     (case badger_lookup bg db NextPingTryTimeKey of None \<Rightarrow> False | Some b \<Rightarrow> json_time b = Inr t)"

lemma metrics_Send_early:
  assumes "badger_ok bg" "next_try bg db t" "before now t" "time_ok now" "t_year now < 9999"
  shows "\<exists>db' ms'. metrics_Send bg send now (db, ms, w) = (Inr (), db', ms', w) \<and>
    next_try bg db' (add_hours now 12)"
proof -
  obtain b0 where b0: "badger_lookup bg db NextPingTryTimeKey = Some b0" "json_time b0 = Inr t"
    using assms(2) by (auto simp: next_try_def split: option.splits)
  obtain b where b: "time_MarshalJSON (add_hours now 12) = Inr b" "json_time b = Inr (add_hours now 12)"
    using json_time_roundtrip [OF add_12_ok [OF assms(4,5)]] by blast
  let ?fn = "\<lambda>(db, ms, w). (let (db1, ms1) = persistMetrics bg (db, ms);
          (r, (db2, ms2, w2)) = send_due bg send now (db1, ms1, w)
      in (r, (snd (storeNextTryTime bg now db2), ms2, w2)))"
  obtain db1 r db2 x2 where l: "?fn (db1, ms, w) = (r, db2, x2)" "badger_lookup bg db1 = badger_lookup bg db"
    "WithLock bg ?fn (db, ms, w) = (r, bg_close bg db2, x2)"
    "badger_lookup bg (bg_close bg db2) = badger_lookup bg db2"
    using WithLock_ok [OF assms(1), of ?fn "(ms, w)" db] by blast
  obtain db1' ms1 where p: "persistMetrics bg (db1, ms) = (db1', ms1)" by fastforce
  have n: "getTryNextTime bg db1' = Inr t"
    using persistMetrics_next_key [OF assms(1), of db1 ms] p l(2) b0
    by (simp add: getTryNextTime_lookup [OF assms(1)])
  have "r = Inr () \<and> db2 = snd (storeNextTryTime bg now db1') \<and> x2 = (ms1, w)"
    using l(1) p n assms(3) by (simp add: send_due_def)
  then show ?thesis
    using l(3,4) b storeNextTryTime_lookup [OF assms(1) b(1), of db1' NextPingTryTimeKey]
    by (simp add: metrics_Send_def next_try_def)
qed

text \<open>The runs of the program one after the other, each with its time and its own counts.\<close>

fun run_all ::
    "'db badger \<Rightarrow> 'w sender \<Rightarrow> (gotime \<times> metricStore) list \<Rightarrow> 'db \<times> 'w \<Rightarrow> 'db \<times> 'w" where
  "run_all bg send [] s = s"
| "run_all bg send ((now, ms) # rs) s = run_all bg send rs (snd (Send bg send now (Some ms) s))"

fun close_runs :: "gotime \<Rightarrow> (gotime \<times> metricStore) list \<Rightarrow> bool" where
  "close_runs t [] \<longleftrightarrow> True"
| "close_runs t ((now, ms) # rs) \<longleftrightarrow>
     before now (add_hours t 12) \<and> time_ok now \<and> t_year now < 9999 \<and> close_runs now rs"

text \<open>
  Every run pushes the next try twelve hours ahead, also a run that finds it is too early. So a
  program that is used again within twelve hours of each run never sends its metrics, for any number
  of runs over any number of days.
\<close>

theorem frequent_use_never_sends:
  assumes "badger_ok bg" and "next_try bg db (add_hours t 12)" and "close_runs t rs"
  shows "snd (run_all bg send rs (db, w)) = w"
  using assms(2,3)
proof (induction rs arbitrary: db t)
  case (Cons r rs)
  obtain now ms where r: "r = (now, ms)" by (cases r)
  have c: "before now (add_hours t 12)" "time_ok now" "t_year now < 9999"
    using Cons.prems(2) by (auto simp: r)
  obtain db' ms' where "metrics_Send bg send now (db, ms, w) = (Inr (), db', ms', w)"
    "next_try bg db' (add_hours now 12)"
    using metrics_Send_early [OF assms(1) Cons.prems(1) c, where send = send and ms = ms and w = w]
    by (elim exE conjE) (rule that)
  then show ?case
    using Cons.IH [of db' now] Cons.prems(2) r by (simp add: Send_def)
qed simp

definition sample_next :: string where
  "sample_next = (case time_MarshalJSON (add_hours sample_time 12) of Inr b \<Rightarrow> b | Inl _ \<Rightarrow> [])"

lemma frequent_use_never_sends_witness:
  "snd (run_all alist_badger (\<lambda>q sent. (Inr (), sent @ q))
     [(add_hours sample_time 10, sample_store), (add_hours sample_time 20, sample_store)]
     ([(NextPingTryTimeKey, sample_next)], [])) = []"
proof (rule frequent_use_never_sends [OF alist_badger_ok, where t = sample_time])
  have "time_ok (add_hours sample_time 12)"
    by (simp add: add_hours_def add_ns_def ns_per_hour_def sample_time_def time_ok_def date_ok_def days_in_def)
  then have "json_time sample_next = Inr (add_hours sample_time 12)"
    using json_time_roundtrip by (force simp: sample_next_def)
  then show "next_try alist_badger [(NextPingTryTimeKey, sample_next)] (add_hours sample_time 12)"
    by (simp add: next_try_def alist_badger_get)
  show "close_runs sample_time [(add_hours sample_time 10, sample_store), (add_hours sample_time 20, sample_store)]"
    by (simp add: before_def add_hours_def add_ns_def ns_per_hour_def sample_time_def time_ok_def date_ok_def days_in_def)
qed

lemma findDatesFromKeys_has:
  "Set_inv d \<Longrightarrow> Set_inv (findDatesFromKeys ks d) \<and>
     (Set_Has (findDatesFromKeys ks d) x \<longleftrightarrow>
        Set_Has d x \<or> (\<exists>kb \<in> set ks. \<exists>k. storageKey_Unmarshal kb = Inr k \<and> storageKey_Date k = x))"
  by (induction ks arbitrary: d) (auto simp: go_set.inv_add go_set.has_add split: sum.splits)

lemma take_date_year: "take_date s = Some ((y, m, d), r) \<Longrightarrow> 0 \<le> y \<and> y < 10000"
  using digits_val_bound [of "take 4 s"]
  by (auto simp: take_date_def take_digits_def bind_eq_Some_conv split: if_splits)

lemma Unmarshal_date_length:
  assumes "storageKey_Unmarshal kb = Inr k"
  shows "length (storageKey_Date k) = 10"
proof -
  obtain s where "Parse_date s = Inr (Datetime (sk_Key k))"
    using assms by (auto simp: storageKey_Unmarshal_def Let_def res_simps split: if_splits)
  then obtain y m d where td: "take_date s = Some ((y, m, d), [])"
    and "\<lparr>t_year = y, t_month = m, t_day = d, t_ns = 0\<rparr> = Datetime (sk_Key k)"
    by (auto simp: Parse_date_def split: option.splits prod.splits list.splits)
  then have "t_year (Datetime (sk_Key k)) = y" by (metis gotime.select_convs(1))
  then have "0 \<le> t_year (Datetime (sk_Key k))" "t_year (Datetime (sk_Key k)) < 10000"
    using take_date_year [OF td] by simp_all
  moreover then have "nat (t_year (Datetime (sk_Key k))) < 10000" by simp
  ultimately show ?thesis by (simp add: storageKey_Date_def Format_date_def year_text_def Let_def del: digits.simps)
qed

lemma storeNextTryTime_other:
  "badger_ok bg \<Longrightarrow> b \<noteq> NextPingTryTimeKey \<Longrightarrow>
     badger_lookup bg (snd (storeNextTryTime bg now db)) b = badger_lookup bg db b"
  by (cases "time_MarshalJSON (add_hours now 12)")
    (auto simp: storeNextTryTime_def fail_def SetEntry_snd)

lemma persistMetrics_other:
  "badger_ok bg \<Longrightarrow> b \<notin> stored_key ` fst ` (set (increments ms) \<union> set (updates ms)) \<Longrightarrow>
     badger_lookup bg (fst (persistMetrics bg (db, ms))) b = badger_lookup bg db b"
  by (simp add: persistMetrics_def persistStoreMetrics_def persistIncrementMetrics_def image_Un
      persist_increments_other persist_updates_other)

lemma prefix_same_length: "has_prefix b (p @ d) \<Longrightarrow> has_prefix b (p @ d') \<Longrightarrow> length d = length d' \<Longrightarrow> d = d'"
  by (auto simp: has_prefix_iff)

lemma deleteSentDates_lookup:
  assumes "badger_ok bg" "deleteSentDates bg dates db = (r, db')"
  shows "r = Inr () \<and> badger_lookup bg db' b =
    (if \<exists>d \<in> set (Set_Map dates). has_prefix b (datePrefix d) then None else badger_lookup bg db b)"
proof -
  obtain db2 where "bg_drop bg (map datePrefix (Set_Map dates)) db = (Inr (), db2)"
    "\<forall>k. badger_lookup bg db2 k = (if \<exists>p \<in> set (map datePrefix (Set_Map dates)). has_prefix k p then None
       else badger_lookup bg db k)"
    using assms(1) unfolding badger_ok_def by blast
  then show ?thesis using assms(2) by (simp add: deleteSentDates_def DeleteEntriesWithPrefixes_def)
qed

lemma findDatesToSend_dates:
  assumes "findDatesToSend bg now db = Inr dates" "d \<in> set (Set_Map dates)"
  shows "length d = 10 \<and> d \<noteq> Format_date now"
proof -
  obtain ks where d: "dates = Set_Delete (findDatesFromKeys ks (MakeSet [])) (Format_date now)"
    using assms(1) by (auto simp: findDatesToSend_def split: prod.splits sum.splits)
  let ?f = "findDatesFromKeys ks (MakeSet [])"
  have i: "Set_inv ?f" and h: "Set_Has ?f d \<longleftrightarrow>
      (\<exists>kb \<in> set ks. \<exists>k. storageKey_Unmarshal kb = Inr k \<and> storageKey_Date k = d)"
    using findDatesFromKeys_has [OF Set_inv_MakeSet, of ks "[]" d] by simp_all
  have "Set_Has dates d" using assms(2) by (simp add: Set_Has_def Set_Map_def)
  then have "d \<noteq> Format_date now" "Set_Has ?f d" unfolding d go_set.has_del [OF i] by simp_all
  then show ?thesis using h Unmarshal_date_length by blast
qed

subsection \<open>The counts of a day reach its queries\<close>

lemma take_date_length: "take_date s = Some (x, r) \<Longrightarrow> length s = 10 + length r"
proof -
  have d: "take_digits w s = Some (n, r) \<Longrightarrow> length s = w + length r" for w s n r by (auto simp: take_digits_def split: if_splits)
  then have "take_field w lo up s = Some (n, r) \<Longrightarrow> length s = w + length r" for w lo up s n r
    by (auto simp: take_field_def split: option.splits if_splits)
  moreover have "take_char c s = Some r \<Longrightarrow> length s = Suc (length r)" for c s r by (auto simp: take_char_def split: list.splits if_splits)
  ultimately show "take_date s = Some (x, r) \<Longrightarrow> length s = 10 + length r"
    using d by (fastforce simp: take_date_def bind_eq_Some_conv)
qed

lemma Parse_date_length: "Parse_date s = Inr t \<Longrightarrow> length s = 10"
  by (auto simp: Parse_date_def dest!: take_date_length split: option.splits list.splits prod.splits)

text \<open>The parts of a key of the day \<open>d\<close>.\<close>

lemma day_key_parts:
  assumes "storageKey_Unmarshal kb = Inr k" "has_prefix kb (datePrefix d)" "length d = 10" "CHR ''^'' \<notin> set d"
  shows "split_on KeyFieldSeparator kb =
    [PhonehomeKeyPrefix, d, ClusterID (sk_Key k), ViridianClusterID (sk_Key k), AcquisitionSource k, CLCVersion k, MetricName k]"
proof -
  let ?s = "split_on KeyFieldSeparator kb"
  have s: "length ?s = 7" "Parse_date (?s ! 1) = Inr (Datetime (sk_Key k))" "ClusterID (sk_Key k) = ?s ! 2"
    "ViridianClusterID (sk_Key k) = ?s ! 3" "AcquisitionSource k = ?s ! 4" "CLCVersion k = ?s ! 5" "MetricName k = ?s ! 6"
    using assms(1) by (auto simp: storageKey_Unmarshal_def Let_def res_simps split: if_splits)
  obtain r where r: "kb = PhonehomeKeyPrefix @ KeyFieldSeparator # d @ r"
    using assms(2) by (auto simp: has_prefix_iff datePrefix_def)
  have "KeyFieldSeparator \<notin> set PhonehomeKeyPrefix" by (simp add: PhonehomeKeyPrefix_def KeyFieldSeparator_def)
  then have t: "?s = PhonehomeKeyPrefix # split_on KeyFieldSeparator (d @ r)" unfolding r by (rule split_on_append_sep)
  have "\<exists>w ws. split_on KeyFieldSeparator (d @ r) = (d @ w) # ws"
    using assms(4)
  proof (induction d)
    case Nil
    then show ?case by (metis append_Nil neq_Nil_conv split_on_not_Nil)
  next
    case (Cons c d)
    then obtain w ws where "split_on KeyFieldSeparator (d @ r) = (d @ w) # ws" by auto
    then show ?case using Cons.prems by (auto simp: KeyFieldSeparator_def)
  qed
  then obtain w ws where w: "split_on KeyFieldSeparator (d @ r) = (d @ w) # ws" by blast
  have "length (?s ! 1) = 10" by (rule Parse_date_length [OF s(2)])
  then have "w = []" using t w assms(3) by simp
  then have "?s ! 0 = PhonehomeKeyPrefix" "?s ! 1 = d" using t w by simp_all
  then show ?thesis
    using s by (intro nth_equalityI) (auto simp: less_Suc_eq eval_nat_numeral)
qed

lemma day_key_inj:
  assumes "storageKey_Unmarshal a = Inr k" "storageKey_Unmarshal b = Inr l" "has_prefix a (datePrefix d)" "has_prefix b (datePrefix d)"
    and "length d = 10" "CHR ''^'' \<notin> set d" "key_attributes k = key_attributes l" "MetricName k = MetricName l"
  shows "a = b"
proof -
  have "split_on KeyFieldSeparator a = split_on KeyFieldSeparator b"
    using day_key_parts [OF assms(1,3,5,6)] day_key_parts [OF assms(2,4,5,6)] assms(7,8) by (simp add: key_attributes_def)
  then show ?thesis by (metis join_split_on)
qed

definition readable :: "string \<Rightarrow> string \<Rightarrow> bool" where
  "readable kb vb \<longleftrightarrow> (\<exists>k n. storageKey_Unmarshal kb = Inr k \<and> json_int vb = Inr n)"

definition collected :: "metric_entries \<Rightarrow> string \<Rightarrow> string \<Rightarrow> bool" where
  "collected es kb vb \<longleftrightarrow> (\<exists>k n ms. storageKey_Unmarshal kb = Inr k \<and> json_int vb = Inr n \<and>
     map_of es (key_attributes k) = Some ms \<and> map_of ms (MetricName k) = Some n)"

lemma collect_all:
  assumes "\<forall>(kb, vb) \<in> set kvs. readable kb vb \<and> has_prefix kb (datePrefix d)" "distinct (map fst kvs)"
    and "length d = 10" "CHR ''^'' \<notin> set d"
    and "collected es kb vb" "kb \<notin> fst ` set kvs" "has_prefix kb (datePrefix d)"
  shows "collected (snd (foreach_entry collect_entry kvs es)) kb vb"
  using assms(1,2,5,6)
proof (induction kvs arbitrary: es)
  case (Cons e kvs)
  obtain kb' vb' where e: "e = (kb', vb')" by (cases e)
  obtain k' n' where k': "storageKey_Unmarshal kb' = Inr k'" "json_int vb' = Inr n'" "has_prefix kb' (datePrefix d)"
    using Cons.prems(1) e by (auto simp: readable_def)
  obtain es' where es': "collect_entry kb' vb' es = (Inr True, es')" by (simp add: collect_entry_def k')
  obtain k n ms where k: "storageKey_Unmarshal kb = Inr k" "json_int vb = Inr n"
    "map_of es (key_attributes k) = Some ms" "map_of ms (MetricName k) = Some n" using Cons.prems(3) by (auto simp: collected_def)
  have "key_attributes k \<noteq> key_attributes k' \<or> MetricName k \<noteq> MetricName k'"
    using day_key_inj [OF k(1) k'(1) assms(7) k'(3) assms(3,4)] Cons.prems(4) e by auto
  then have "collected es' kb vb"
    using es' k k' by (auto simp: collect_entry_def collected_def update_conv' Let_def)
  then have "collected (snd (foreach_entry collect_entry kvs es')) kb vb"
    using Cons.IH [of es'] Cons.prems(1,2,4) by auto
  then show ?case using e es' by simp
qed simp

lemma collect_entries:
  assumes "\<forall>(kb, vb) \<in> set kvs. readable kb vb \<and> has_prefix kb (datePrefix d)" "distinct (map fst kvs)"
    and "length d = 10" "CHR ''^'' \<notin> set d" "(kb, vb) \<in> set kvs"
  shows "collected (snd (foreach_entry collect_entry kvs es)) kb vb"
  using assms(1,2,5)
proof (induction kvs arbitrary: es)
  case (Cons e kvs)
  obtain kb' vb' where e: "e = (kb', vb')" by (cases e)
  obtain k' n' where k': "storageKey_Unmarshal kb' = Inr k'" "json_int vb' = Inr n'" "has_prefix kb' (datePrefix d)"
    using Cons.prems(1) e by (auto simp: readable_def)
  obtain es' where es': "collect_entry kb' vb' es = (Inr True, es')" by (simp add: collect_entry_def k')
  show ?case
  proof (cases "kb = kb'")
    case True
    then have "vb = vb'" using Cons.prems(2,3) e by (force simp: image_iff)
    then have "collected es' kb vb" using True es' k' by (auto simp: collect_entry_def collected_def update_conv' Let_def)
    then have "collected (snd (foreach_entry collect_entry kvs es')) kb vb"
      by (intro collect_all) (use Cons.prems(1,2) assms(3,4) k'(3) True e in auto)
    then show ?thesis using e es' by simp
  next
    case False
    then show ?thesis using Cons.IH [of es'] Cons.prems e es' by simp
  qed
qed simp

text \<open>The fields of a query, by the names of the metrics they are for.\<close>

definition query_fields :: "(string \<times> (Query \<Rightarrow> int)) list" where
  "query_fields = [(''cluster-config-count'', ClusterConfigCount), (''sql'', SQLRunCount), (''map'', MapRunCount),
     (''topic'', TopicRunCount), (''queue'', QueueRunCount), (''multimap'', MultiMapRunCont), (''list'', ListRunCount),
     (''demo'', DemoRunCount), (''project'', ProjectRunCount), (''job'', JobRunCount), (''viridian'', ViridianRunCount),
     (''set'', SetRunCount), (''shell'', ShellRunCount), (''script'', ScriptRunCount), (''total'', TotalRunCount),
     (''atomiclong'', AtomicLongRunCount), (''interactive-mode'', InteractiveModeRunCount),
     (''noninteractive-mode'', NoninteractiveModeRunCount), (''script-mode'', ScriptModeRunCount)]"

lemma MakeQuery_fields:
  "(name, field) \<in> set query_fields \<Longrightarrow> map_of ms name = Some n \<Longrightarrow> field (MakeQuery ga d attrs ms) = n"
  by (cases attrs) (auto simp: query_fields_def MakeQuery_def)

text \<open>
  The query \<open>q\<close> reports the entry: it is for the day and for the attributes in the key, and its field for
  the metric in the key, if there is one, has the count that is stored.
\<close>

definition reports :: "Query \<Rightarrow> string \<Rightarrow> string \<Rightarrow> string \<Rightarrow> bool" where
  "reports q d kb vb \<longleftrightarrow> (\<exists>k n. storageKey_Unmarshal kb = Inr k \<and> json_int vb = Inr n \<and> q_Date q = d \<and>
     ClusterUUID q = ClusterID (sk_Key k) \<and> q_ViridianClusterID q = ViridianClusterID (sk_Key k) \<and>
     q_AcquisitionSource q = AcquisitionSource k \<and> q_Version q = CLCVersion k \<and>
     (\<forall>(name, field) \<in> set query_fields. name = MetricName k \<longrightarrow> field q = n))"

definition readable_day :: "'db badger \<Rightarrow> 'db \<Rightarrow> string \<Rightarrow> bool" where
  "readable_day bg db d \<longleftrightarrow> (\<forall>kb vb. has_prefix kb (datePrefix d) \<longrightarrow> badger_lookup bg db kb = Some vb \<longrightarrow> readable kb vb)"

lemma GenerateQueries_reports:
  assumes "badger_ok bg" "readable_day bg db d" "d \<in> set (Set_Map dates)" "length d = 10" "CHR ''^'' \<notin> set d"
    and "has_prefix kb (datePrefix d)" "badger_lookup bg db kb = Some vb"
  shows "\<exists>q \<in> set (GenerateQueries bg db ga dates). reports q d kb vb"
proof -
  obtain kvs where kvs: "bg_iterate bg db (datePrefix d) = Inr kvs" "distinct (map fst kvs)"
    "\<And>k v. (k, v) \<in> set kvs \<longleftrightarrow> has_prefix k (datePrefix d) \<and> badger_lookup bg db k = Some v"
    using assms(1) unfolding badger_ok_def by blast
  let ?es = "snd (foreach_entry collect_entry kvs [])"
  have "collected ?es kb vb"
    by (rule collect_entries [of _ d]) (use kvs assms in \<open>auto simp: readable_day_def\<close>)
  then obtain k n ms where k: "storageKey_Unmarshal kb = Inr k" "json_int vb = Inr n"
    "map_of ?es (key_attributes k) = Some ms" "map_of ms (MetricName k) = Some n" by (auto simp: collected_def)
  let ?q = "MakeQuery ga d (key_attributes k) ms"
  have "?q \<in> set (GenerateQueries bg db ga dates)"
    using map_of_SomeD [OF k(3)] assms(3) kvs(1) by (force simp: GenerateQueries_def RunForeachWithPrefix_def)
  moreover have "reports ?q d kb vb"
    using k MakeQuery_fields [OF _ k(4)] by (auto simp: reports_def) (auto simp: MakeQuery_def key_attributes_def Let_def)
  ultimately show ?thesis by blast
qed

text \<open>
  What sending does to one entry, with the value \<open>v\<close> before and \<open>v'\<close> after, when the store is \<open>db\<close> at
  that time: it stays, or it is an entry of a day before or after today that goes after the sender had success with queries
  that report the entry, if all the entries of its day can be read.
\<close>

definition kept_or_sent ::
    "'db badger \<Rightarrow> 'db \<Rightarrow> 'w sender \<Rightarrow> gotime \<Rightarrow> string \<Rightarrow> 'w \<Rightarrow> string option \<Rightarrow> go_error + unit \<Rightarrow> string option \<Rightarrow> 'w \<Rightarrow> bool" where
  "kept_or_sent bg db send now b w v r v' w' \<longleftrightarrow>
     v' = v \<or> v' = None \<and> r = Inr () \<and> \<not> has_prefix b (datePrefix (Format_date now)) \<and>
       (\<exists>d qs vb. v = Some vb \<and> has_prefix b (datePrefix d) \<and> length d = 10 \<and> d \<noteq> Format_date now \<and>
          qs \<noteq> [] \<and> send qs w = (Inr (), w') \<and> (readable_day bg db d \<longrightarrow> (\<exists>q \<in> set qs. reports q d b vb)))"

lemma kept_refl: "kept_or_sent bg db send now b w v r v w'"
  by (simp add: kept_or_sent_def)

lemma findDatesToSend_separator:
  assumes "findDatesToSend bg now db = Inr dates" "d \<in> set (Set_Map dates)"
  shows "CHR ''^'' \<notin> set d"
proof -
  obtain ks where d: "dates = Set_Delete (findDatesFromKeys ks (MakeSet [])) (Format_date now)"
    using assms(1) by (auto simp: findDatesToSend_def split: prod.splits sum.splits)
  let ?f = "findDatesFromKeys ks (MakeSet [])"
  have i: "Set_inv ?f" and h: "Set_Has ?f d \<longleftrightarrow>
      (\<exists>kb \<in> set ks. \<exists>k. storageKey_Unmarshal kb = Inr k \<and> storageKey_Date k = d)"
    using findDatesFromKeys_has [OF Set_inv_MakeSet, of ks "[]" d] by simp_all
  have "Set_Has dates d" using assms(2) by (simp add: Set_Has_def Set_Map_def)
  then have "Set_Has ?f d" unfolding d go_set.has_del [OF i] by simp
  then show ?thesis using h Format_date_no_separator by (auto simp: storageKey_Date_def)
qed

lemma send_dates_kept:
  assumes "badger_ok bg" "time_ok now" "send_dates bg send now first (db, ms, w) = (r, db', ms', w')"
  shows "kept_or_sent bg db send now b w (badger_lookup bg db b) r (badger_lookup bg db' b) w'"
proof (cases "findDatesToSend bg now db")
  case (Inl e)
  then show ?thesis using assms(3) by (simp add: send_dates_def kept_or_sent_def)
next
  case (Inr dates)
  let ?gen = "GenerateQueries bg db (globalAttrs ms) dates"
  let ?q = "if ?gen = [] then [GenerateFirstPingQuery (globalAttrs ms) (sessionAttrs ms) now] else ?gen"
  show ?thesis
  proof (cases "?gen = [] \<and> \<not> first")
    case True
    then show ?thesis using assms(3) Inr by (simp add: send_dates_def kept_or_sent_def)
  next
    case False
    obtain r1 w1 where s: "send ?q w = (r1, w1)" by fastforce
    show ?thesis
    proof (cases r1)
      case (Inl e)
      then show ?thesis using assms(3) Inr False s by (auto simp: send_dates_def kept_or_sent_def Let_def)
    next
      case sent: (Inr u)
      obtain rd dbd where dd: "deleteSentDates bg dates db = (rd, dbd)" by fastforce
      have e: "r = rd" "db' = dbd" "w' = w1"
        using assms(3) Inr False s sent dd by (auto simp: send_dates_def Let_def)
      note del = deleteSentDates_lookup [OF assms(1) dd, of b]
      show ?thesis
      proof (cases "badger_lookup bg db' b = badger_lookup bg db b")
        case False
        then obtain d vb where d: "d \<in> set (Set_Map dates)" "has_prefix b (datePrefix d)" and v: "badger_lookup bg db b = Some vb"
          using del e by (cases "badger_lookup bg db b") (auto split: if_splits)
        note fd = findDatesToSend_dates [OF Inr d(1)]
        have "\<exists>q \<in> set ?q. reports q d b vb" if day: "readable_day bg db d"
        proof -
          obtain q where "q \<in> set ?gen" "reports q d b vb"
            using GenerateQueries_reports [OF assms(1) day d(1) _ findDatesToSend_separator [OF Inr d(1)] d(2) v] fd by blast
          then show ?thesis by (cases "?gen = []") auto
        qed
        moreover have "\<not> has_prefix b (datePrefix (Format_date now))"
        proof
          assume "has_prefix b (datePrefix (Format_date now))"
          moreover have "length (Format_date now) = 10"
            using assms(2) by (simp add: Format_date_def year_text_def time_ok_def date_ok_def Let_def nat_less_iff del: digits.simps)
          ultimately have "d = Format_date now"
            using prefix_same_length [of b "PhonehomeKeyPrefix @ [KeyFieldSeparator]" d "Format_date now"] d(2) fd by (simp add: datePrefix_def)
          then show False using fd by simp
        qed
        moreover have "badger_lookup bg db' b = None" "r = Inr ()" using del e False by (auto split: if_splits)
        moreover have "send ?q w = (Inr (), w')" "?q \<noteq> []" using s sent e by auto
        ultimately show ?thesis unfolding kept_or_sent_def v using d(2) fd by blast
      qed (simp add: kept_or_sent_def)
    qed
  qed
qed

lemma send_due_kept:
  assumes "badger_ok bg" "time_ok now" "send_due bg send now (db, ms, w) = (r, db', ms', w')"
  shows "kept_or_sent bg db send now b w (badger_lookup bg db b) r (badger_lookup bg db' b) w'"
  using assms(3)
  by (auto simp: send_due_def kept_refl split: sum.splits if_splits intro: send_dates_kept [OF assms(1,2)])

text \<open>What the persisting makes of the entries depends on the entries only.\<close>

lemma persist_increments_cong:
  "badger_ok bg \<Longrightarrow> badger_lookup bg a = badger_lookup bg b \<Longrightarrow>
     badger_lookup bg (persist_increments bg m a) = badger_lookup bg (persist_increments bg m b)"
  by (induction m arbitrary: a b) (auto simp: Marshal_stored_key UpdateEntry_snd fun_eq_iff)

lemma persist_updates_cong:
  "badger_ok bg \<Longrightarrow> badger_lookup bg a = badger_lookup bg b \<Longrightarrow>
     badger_lookup bg (persist_updates bg m a) = badger_lookup bg (persist_updates bg m b)"
  by (induction m arbitrary: a b) (auto simp: Marshal_stored_key SetEntry_snd fun_eq_iff)

lemma persistMetrics_cong:
  assumes "badger_ok bg" "badger_lookup bg a = badger_lookup bg b"
  shows "badger_lookup bg (fst (persistMetrics bg (a, ms))) = badger_lookup bg (fst (persistMetrics bg (b, ms)))"
  by (simp add: persistMetrics_def persistStoreMetrics_def persistIncrementMetrics_def
    persist_updates_cong [OF assms(1) persist_increments_cong [OF assms]])

lemma kept_or_sent_cong:
  "badger_lookup bg a = badger_lookup bg b \<Longrightarrow> kept_or_sent bg a send now k w v r v' w' \<Longrightarrow> kept_or_sent bg b send now k w v r v' w'"
  by (simp add: kept_or_sent_def readable_day_def)

text \<open>
  C11: Sending deletes only what was sent. An entry of the store that is not counted anew in this run keeps its
  value, unless it is an entry of a day other than today and the sender had success with queries of which one, for that day and
  for the cluster, source and version in the entry's key, has the entry's count in its field for the metric. The
  attributes of the installation, which are under no day, and the counts of today always stay. This needs that all entries of the day can be read after the counts of this run were
  stored: one that cannot be read cuts its day short, and the entries behind it are deleted without being sent.
\<close>

theorem Send_deletes_only_sent:
  assumes "badger_ok bg" and "time_ok now" and "b \<noteq> NextPingTryTimeKey"
    and "b \<notin> stored_key ` fst ` (set (increments ms) \<union> set (updates ms))"
  shows "\<exists>r db' ms' w'. metrics_Send bg send now (db, ms, w) = (r, db', ms', w') \<and>
    kept_or_sent bg (fst (persistMetrics bg (db, ms))) send now b w (badger_lookup bg db b) r (badger_lookup bg db' b) w' \<and>
    badger_lookup bg db' GlobalAttributesKeyName = badger_lookup bg (fst (persistMetrics bg (db, ms))) GlobalAttributesKeyName"
proof -
  let ?fn = "\<lambda>(db, ms, w). (let (db1, ms1) = persistMetrics bg (db, ms);
          (r, (db2, ms2, w2)) = send_due bg send now (db1, ms1, w)
      in (r, (snd (storeNextTryTime bg now db2), ms2, w2)))"
  obtain db1 r db2 x2 where l: "?fn (db1, ms, w) = (r, db2, x2)" "badger_lookup bg db1 = badger_lookup bg db"
    "WithLock bg ?fn (db, ms, w) = (r, bg_close bg db2, x2)"
    "badger_lookup bg (bg_close bg db2) = badger_lookup bg db2"
    using WithLock_ok [OF assms(1), of ?fn "(ms, w)" db] by blast
  obtain dbp msp where p: "persistMetrics bg (db1, ms) = (dbp, msp)" by fastforce
  have cong: "badger_lookup bg dbp = badger_lookup bg (fst (persistMetrics bg (db, ms)))"
    using persistMetrics_cong [OF assms(1) l(2), of ms] p by simp
  obtain r3 db3 ms3 w3 where s: "send_due bg send now (dbp, msp, w) = (r3, db3, ms3, w3)"
    by (metis prod_cases4)
  have e: "r = r3" "db2 = snd (storeNextTryTime bg now db3)" "x2 = (ms3, w3)" using l(1) p s by auto
  have "badger_lookup bg dbp b = badger_lookup bg db b"
    using persistMetrics_other [OF assms(1,4), of db1] p l(2) by simp
  then have k: "kept_or_sent bg (fst (persistMetrics bg (db, ms))) send now b w (badger_lookup bg db b) r (badger_lookup bg db2 b) w3"
    using kept_or_sent_cong [OF cong send_due_kept [OF assms(1,2) s, of b]] e storeNextTryTime_other [OF assms(1,3)] by simp
  have "\<not> has_prefix GlobalAttributesKeyName (datePrefix d)" for d
    by (simp add: has_prefix_iff GlobalAttributesKeyName_def datePrefix_def PhonehomeKeyPrefix_def)
  then have "badger_lookup bg db3 GlobalAttributesKeyName = badger_lookup bg dbp GlobalAttributesKeyName"
    using send_due_kept [OF assms(1,2) s, of GlobalAttributesKeyName] unfolding kept_or_sent_def by blast
  then have "badger_lookup bg db2 GlobalAttributesKeyName = badger_lookup bg (fst (persistMetrics bg (db, ms))) GlobalAttributesKeyName"
    using storeNextTryTime_other [OF assms(1), of GlobalAttributesKeyName] e cong
    by (simp add: GlobalAttributesKeyName_def NextPingTryTimeKey_def)
  then show ?thesis using k l(3,4) e by (auto simp: metrics_Send_def)
qed

lemma Send_deletes_only_sent_witness:
  "\<exists>r db' ms' w'. metrics_Send alist_badger (\<lambda>q sent. (Inr (), sent @ q)) sample_time
      ([(''ph^2023-10-04^^^Docker^5.3.3^sql'', ''2'')], sample_store, []) = (r, db', ms', w') \<and>
    (badger_lookup alist_badger db' ''ph^2023-10-04^^^Docker^5.3.3^sql'' = Some ''2'' \<or>
     (\<exists>q \<in> set w'. reports q ''2023-10-04'' ''ph^2023-10-04^^^Docker^5.3.3^sql'' ''2''))"
proof -
  obtain K D pre where K: "K = ''ph^2023-10-04^^^Docker^5.3.3^sql''" "D = ''2023-10-04''" "pre = ''ph^2023-10-05^c-1^^Docker^5.3.3^map''" by blast
  let ?dbp = "fst (persistMetrics alist_badger ([(K, ''2'')], sample_store))"
  have k: "stored_key sample_key = pre" unfolding K by code_simp
  have n: "kb \<notin> stored_key ` fst ` (set (increments sample_store) \<union> set (updates sample_store))" if "kb \<noteq> pre" for kb
    using that by (simp add: sample_store_def k)
  have "time_ok sample_time" by (simp add: sample_time_def time_ok_def date_ok_def days_in_def ns_per_hour_def)
  moreover have "K \<noteq> pre" "K \<noteq> NextPingTryTimeKey" unfolding K by (simp_all add: NextPingTryTimeKey_def)
  ultimately obtain r db' ms' w' where s: "metrics_Send alist_badger (\<lambda>q sent. (Inr (), sent @ q)) sample_time
      ([(K, ''2'')], sample_store, []) = (r, db', ms', w')"
    and c: "kept_or_sent alist_badger ?dbp (\<lambda>q sent. (Inr (), sent @ q)) sample_time K [] (Some ''2'') r (badger_lookup alist_badger db' K) w'"
    using Send_deletes_only_sent [OF alist_badger_ok _ _ n, of sample_time K "\<lambda>q sent. (Inr (), sent @ q)" "[(K, ''2'')]" "[]"]
    by (auto simp: alist_badger_get)
  have day: "readable_day alist_badger ?dbp D"
    unfolding readable_day_def
  proof (intro allI impI)
    fix kb vb assume a: "has_prefix kb (datePrefix D)" "badger_lookup alist_badger ?dbp kb = Some vb"
    have "\<not> has_prefix pre (datePrefix D)" unfolding K by code_simp
    then have "kb \<noteq> pre" using a(1) by blast
    then have "map_of [(K, ''2'')] kb = Some vb"
      using a(2) persistMetrics_other [OF alist_badger_ok n, of kb "[(K, ''2'')]"] by (simp add: alist_badger_get)
    then have "kb = K" "vb = ''2''" by (simp_all split: if_splits)
    moreover have "\<exists>k n. storageKey_Unmarshal K = Inr k \<and> json_int ''2'' = Inr n"
    proof -
      have "\<not> isl (storageKey_Unmarshal K)" "\<not> isl (json_int ''2'')" unfolding K by code_simp+
      then show ?thesis by (metis isl_def sum.exhaust)
    qed
    ultimately show "readable kb vb" unfolding readable_def by blast
  qed
  have "badger_lookup alist_badger db' K = Some ''2'' \<or> (\<exists>q \<in> set w'. reports q D K ''2'')"
  proof (cases "badger_lookup alist_badger db' K = Some ''2''")
    case False
    then obtain d qs where d: "has_prefix K (datePrefix d)" "length d = 10" "w' = qs"
      "readable_day alist_badger ?dbp d \<longrightarrow> (\<exists>q \<in> set qs. reports q d K ''2'')"
      using c by (auto simp: kept_or_sent_def)
    have "has_prefix K (datePrefix D)" unfolding K by code_simp
    moreover have "length D = 10" unfolding K by simp
    ultimately have "d = D"
      using prefix_same_length [of K "PhonehomeKeyPrefix @ [KeyFieldSeparator]" d D] d(1,2) by (simp add: datePrefix_def)
    then show ?thesis using d day by blast
  qed blast
  then show ?thesis using s unfolding K by blast
qed

end
