(* ===== verification/Paths.thy ===== *)
theory Paths
  imports Strconv
begin

section \<open>Paths (clc/paths, path/filepath)\<close>

text \<open>
  The functions of \<^verbatim>\<open>path/filepath\<close> that the client uses, on Unix and on the text of a path only, then
  the places of the client's files and how a configuration name, a log path or a secret is resolved.
  The environment variables, the home directory, the working directory, the place of the executable
  and whether a file exists are the record \<open>place\<close>.
\<close>

subsection \<open>path/filepath\<close>

definition dot :: string where "dot = ''.''"
definition dotdot :: string where "dotdot = ''..''"

definition clean_step :: "bool \<Rightarrow> string list \<Rightarrow> string \<Rightarrow> string list" where
  "clean_step rooted out p =
     (if p = [] \<or> p = dot then out
      else if p = dotdot then
        (if out \<noteq> [] \<and> last out \<noteq> dotdot then butlast out
         else if rooted then out else out @ [dotdot])
      else out @ [p])"

definition is_abs :: "string \<Rightarrow> bool" where
  "is_abs path \<longleftrightarrow> has_prefix path ''/''"

definition clean_parts :: "string \<Rightarrow> string list" where
  "clean_parts path = foldl (clean_step (is_abs path)) [] (split_on (CHR ''/'') path)"

definition filepath_Clean :: "string \<Rightarrow> string" where
  "filepath_Clean path =
     (let parts = clean_parts path; body = join_with ''/'' parts in
      if is_abs path then ''/'' @ body else if parts = [] then dot else body)"

definition filepath_Join :: "string list \<Rightarrow> string" where
  "filepath_Join elems =
     (case dropWhile (\<lambda>e. e = []) elems of [] \<Rightarrow> [] | es \<Rightarrow> filepath_Clean (join_with ''/'' es))"

definition base_name :: "string \<Rightarrow> string" where
  "base_name path = rev (takeWhile (\<lambda>c. c \<noteq> CHR ''/'') (rev path))"

definition dir_part :: "string \<Rightarrow> string" where
  "dir_part path = rev (dropWhile (\<lambda>c. c \<noteq> CHR ''/'') (rev path))"

definition filepath_Split :: "string \<Rightarrow> string \<times> string" where
  "filepath_Split path = (dir_part path, base_name path)"

definition filepath_Ext :: "string \<Rightarrow> string" where
  "filepath_Ext path =
     (let r = rev (base_name path); e = takeWhile (\<lambda>c. c \<noteq> CHR ''.'') r in
      if CHR ''.'' \<in> set r then CHR ''.'' # rev e else [])"

definition filepath_Dir :: "string \<Rightarrow> string" where
  "filepath_Dir path = filepath_Clean (dir_part path)"

definition filepath_Base :: "string \<Rightarrow> string" where
  "filepath_Base path =
     (if path = [] then dot
      else (let p = trim_right_char (CHR ''/'') path; b = base_name p in if b = [] then ''/'' else b))"

subsection \<open>The client's places\<close>

record place =
  pl_getenv :: "string \<Rightarrow> string"
  pl_home :: "string option"
  pl_wd :: "string option"
  pl_exe :: "string option"
  pl_exists :: "string \<Rightarrow> bool"
  pl_today :: string

definition paths_Join :: "string list \<Rightarrow> string" where
  "paths_Join paths =
     (case paths of [] \<Rightarrow> []
      | p0 # ps \<Rightarrow> foldl (\<lambda>path p. if is_abs p then p else filepath_Join [path, p]) p0 ps)"

definition homeDir :: "string \<Rightarrow> string" where
  "homeDir d = filepath_Join [d, ''.hazelcast'']"

text \<open>None is the panic when there is no home directory.\<close>

definition Home :: "place \<Rightarrow> string option" where
  "Home pl =
     (let dir = pl_getenv pl ''CLC_HOME'' in
      if dir \<noteq> [] then Some dir else map_option homeDir (pl_home pl))"

definition home_sub :: "place \<Rightarrow> string \<Rightarrow> string option" where
  "home_sub pl d = map_option (\<lambda>h. filepath_Join [h, d]) (Home pl)"

definition Configs :: "place \<Rightarrow> string option" where "Configs pl = home_sub pl ''configs''"
definition Schemas :: "place \<Rightarrow> string option" where "Schemas pl = home_sub pl ''schemas''"
definition Logs :: "place \<Rightarrow> string option" where "Logs pl = home_sub pl ''logs''"
definition Secrets :: "place \<Rightarrow> string option" where "Secrets pl = home_sub pl ''secrets''"
definition Templates :: "place \<Rightarrow> string option" where "Templates pl = home_sub pl ''templates''"
definition Caches :: "place \<Rightarrow> string option" where "Caches pl = home_sub pl ''caches''"

definition Metrics_dir :: "place \<Rightarrow> string option" where
  "Metrics_dir pl = map_option (\<lambda>c. filepath_Join [c, ''metrics-v1'']) (Caches pl)"

definition ResolveTemplatePath :: "place \<Rightarrow> string \<Rightarrow> string option" where
  "ResolveTemplatePath pl t = map_option (\<lambda>d. filepath_Join [d, t]) (Templates pl)"

definition configName :: "place \<Rightarrow> string" where
  "configName pl = (let cfg = pl_getenv pl ''CLC_CONFIG'' in if cfg \<noteq> [] then cfg else ''default'')"

definition nearbyConfigPath :: "place \<Rightarrow> string" where
  "nearbyConfigPath pl =
     (let near = (\<lambda>d. let p = paths_Join [d, ''config.yaml''] in if pl_exists pl p then Some p else None);
          wd = Option.bind (pl_wd pl) near in
      case wd of
        Some p \<Rightarrow> p
      | None \<Rightarrow> (case Option.bind (pl_exe pl) (\<lambda>e. near (filepath_Dir e)) of Some p \<Rightarrow> p | None \<Rightarrow> []))"

definition ResolveConfigDir :: "place \<Rightarrow> string \<Rightarrow> string option" where
  "ResolveConfigDir pl name = map_option (\<lambda>c. paths_Join [c, name]) (Configs pl)"

definition DefaultConfigPath :: "place \<Rightarrow> string option" where
  "DefaultConfigPath pl =
     (let p = nearbyConfigPath pl in
      if p \<noteq> [] then Some p
      else map_option (\<lambda>d. let p = filepath_Join [d, ''config.yaml''] in if pl_exists pl p then p else [])
             (ResolveConfigDir pl (configName pl)))"

definition ResolveConfigPath :: "place \<Rightarrow> string \<Rightarrow> string option" where
  "ResolveConfigPath pl path0 =
     (case (if path0 = [] then DefaultConfigPath pl else Some path0) of
        None \<Rightarrow> None
      | Some path \<Rightarrow>
          if path = [] then Some path
          else if filepath_Ext path \<noteq> ''.yaml''
          then map_option (\<lambda>c. filepath_Join [c, path, ''config.yaml'']) (Configs pl)
          else Some path)"

definition DefaultLogPath :: "place \<Rightarrow> string option" where
  "DefaultLogPath pl = map_option (\<lambda>l. filepath_Join [l, pl_today pl @ ''.log'']) (Logs pl)"

definition ResolveLogPath :: "place \<Rightarrow> string \<Rightarrow> string option" where
  "ResolveLogPath pl path = (if path = [] then DefaultLogPath pl else Some path)"

definition ResolveSecretPath :: "place \<Rightarrow> string \<Rightarrow> string \<Rightarrow> string option" where
  "ResolveSecretPath pl prefix name =
     (if name = [] then None
      else map_option (\<lambda>d. if prefix = [] then paths_Join [d, name] else paths_Join [d, prefix, name]) (Secrets pl))"

text \<open>The entries of a directory by name, with the filter; the listing itself may fail.\<close>

definition paths_FindAll :: "(go_error + (string \<times> bool) list) \<Rightarrow> (string \<times> bool \<Rightarrow> bool) \<Rightarrow> go_error + string list" where
  "paths_FindAll entries fn =
     (case entries of Inl e \<Rightarrow> Inl e
      | Inr es \<Rightarrow> Inr (map fst (filter (\<lambda>e. \<not> has_prefix (fst e) ''.'' \<and> \<not> has_prefix (fst e) ''_'' \<and> fn e) es)))"

definition SplitExt :: "string \<Rightarrow> string \<times> string" where
  "SplitExt dest = (let ext = filepath_Ext dest in (take (length dest - length ext) dest, ext))"

definition ParentDir :: "string \<Rightarrow> string" where
  "ParentDir path = filepath_Base (filepath_Dir path)"

definition ReplaceExt :: "string \<Rightarrow> string \<Rightarrow> string" where
  "ReplaceExt path ext = fst (SplitExt path) @ ext"
subsection \<open>What cleaning guarantees\<close>

text \<open>
  The parts of a cleaned path: no empty part, no dot, and dot-dots only in front, and only in a
  relative path.
\<close>

definition clean_ok :: "bool \<Rightarrow> string list \<Rightarrow> bool" where
  "clean_ok rooted out \<longleftrightarrow>
     (\<forall>p \<in> set out. p \<noteq> [] \<and> p \<noteq> dot \<and> CHR ''/'' \<notin> set p) \<and>
     (\<exists>n rest. out = replicate n dotdot @ rest \<and> dotdot \<notin> set rest \<and> (rooted \<longrightarrow> n = 0))"

lemma dot_dotdot [simp]: "dot \<noteq> dotdot" "dotdot \<noteq> dot" "dot \<noteq> []" "dotdot \<noteq> []"
    "CHR ''/'' \<notin> set dot" "CHR ''/'' \<notin> set dotdot"
  by (simp_all add: dot_def dotdot_def)

lemma clean_step_ok:
  assumes "clean_ok rooted out" "CHR ''/'' \<notin> set p"
  shows "clean_ok rooted (clean_step rooted out p)"
proof -
  obtain n rest where out: "out = replicate n dotdot @ rest" "dotdot \<notin> set rest" "rooted \<longrightarrow> n = 0"
    and parts: "\<forall>q \<in> set out. q \<noteq> [] \<and> q \<noteq> dot \<and> CHR ''/'' \<notin> set q"
    using assms(1) by (auto simp: clean_ok_def)
  consider "p = [] \<or> p = dot" | "p = dotdot" "rest \<noteq> []" | "p = dotdot" "rest = []" | "p \<noteq> []" "p \<noteq> dot" "p \<noteq> dotdot"
    by blast
  then show ?thesis
  proof cases
    case 1
    then show ?thesis using assms(1) by (simp add: clean_step_def)
  next
    case 2
    then have "last out \<noteq> dotdot" "out \<noteq> []" "butlast out = replicate n dotdot @ butlast rest"
      using out by (auto simp: butlast_append dest: last_in_set)
    moreover have "dotdot \<notin> set (butlast rest)" "\<forall>q \<in> set (butlast out). q \<noteq> [] \<and> q \<noteq> dot \<and> CHR ''/'' \<notin> set q"
      using out(2) parts by (auto dest: in_set_butlastD)
    ultimately show ?thesis
      using 2 out(3) unfolding clean_step_def clean_ok_def by auto
  next
    case 3
    then have out': "out = replicate n dotdot" using out by simp
    then have "clean_step rooted out p = (if rooted then out else replicate (Suc n) dotdot)"
      using 3 out(3) by (auto simp: clean_step_def replicate_append_same)
    then show ?thesis
      using assms(1) parts out' unfolding clean_ok_def
      by (auto intro!: exI [of _ "Suc n"] exI [of _ "[]"])
  next
    case 4
    then have "clean_step rooted out p = replicate n dotdot @ (rest @ [p])"
      using out by (simp add: clean_step_def)
    then show ?thesis
      using 4 assms(2) parts out unfolding clean_ok_def by fastforce
  qed
qed

lemma clean_fold_ok:
  "clean_ok rooted out \<Longrightarrow> (\<And>p. p \<in> set ps \<Longrightarrow> CHR ''/'' \<notin> set p) \<Longrightarrow> clean_ok rooted (foldl (clean_step rooted) out ps)"
  by (induction ps arbitrary: out) (auto intro: clean_step_ok)

lemma clean_parts_ok: "clean_ok (is_abs path) (clean_parts path)"
  unfolding clean_parts_def
  by (rule clean_fold_ok) (auto simp: clean_ok_def dest: split_on_parts)

lemma SplitExt_concat: "fst (SplitExt p) @ snd (SplitExt p) = p"
proof -
  let ?b = "base_name p" and ?r = "rev (base_name p)"
  have b: "p = dir_part p @ ?b"
    unfolding dir_part_def base_name_def by (metis rev_append rev_rev_ident takeWhile_dropWhile_id)
  have "\<exists>q. ?b = q @ filepath_Ext p"
  proof (cases "CHR ''.'' \<in> set ?r")
    case True
    then obtain a d where ad: "?r = a @ CHR ''.'' # d" "CHR ''.'' \<notin> set a"
      using split_list_first by metis
    then have "takeWhile (\<lambda>c. c \<noteq> CHR ''.'') ?r = a"
      by (auto simp: takeWhile_append)
    moreover have "?b = rev d @ CHR ''.'' # rev a"
      using arg_cong [OF ad(1), of rev] by simp
    ultimately show ?thesis using True by (auto simp: filepath_Ext_def Let_def)
  next
    case False
    then show ?thesis by (simp add: filepath_Ext_def Let_def)
  qed
  then obtain q where q: "p = (dir_part p @ q) @ filepath_Ext p"
    using b by (metis append.assoc)
  define e where "e = filepath_Ext p"
  have "take (length p - length e) p = dir_part p @ q"
    by (subst (1 2) q) (simp add: e_def)
  then show ?thesis
    using q by (simp add: SplitExt_def e_def [symmetric])
qed

lemma split_on_append: "split_on c (s @ c # t) = split_on c s @ split_on c t"
  by (induction s) (auto split: list.splits)

definition plain_part :: "string \<Rightarrow> bool" where
  "plain_part p \<longleftrightarrow> p \<noteq> [] \<and> p \<noteq> dot \<and> p \<noteq> dotdot \<and> CHR ''/'' \<notin> set p"

lemma clean_parts_plain:
  "plain_part p \<Longrightarrow> clean_parts (s @ CHR ''/'' # p) = foldl (clean_step (is_abs (s @ CHR ''/'' # p))) [] (split_on (CHR ''/'') s) @ [p]"
  by (simp add: clean_parts_def split_on_append split_on_no_sep plain_part_def clean_step_def)

lemma clean_parts_single: "plain_part p \<Longrightarrow> clean_parts p = [p]"
  by (simp add: clean_parts_def split_on_no_sep plain_part_def clean_step_def)

lemma base_name_tail: "CHR ''/'' \<notin> set p \<Longrightarrow> x = [] \<or> last x = CHR ''/'' \<Longrightarrow> base_name (x @ p) = p"
proof -
  assume p: "CHR ''/'' \<notin> set p" and x: "x = [] \<or> last x = CHR ''/''"
  have t: "takeWhile (\<lambda>c. c \<noteq> CHR ''/'') (rev p @ ys) = rev p @ takeWhile (\<lambda>c. c \<noteq> CHR ''/'') ys" for ys
    using p by (intro takeWhile_append2) auto
  have t0: "takeWhile (\<lambda>c. c \<noteq> CHR ''/'') (rev p) = rev p"
    using p by (subst takeWhile_eq_all_conv) auto
  show ?thesis
    using x by (cases x rule: rev_cases) (simp_all add: base_name_def t0 t)
qed

lemma join_with_snoc: "join_with ''/'' (q @ [p]) = (if q = [] then p else join_with ''/'' q @ ''/'' @ p)"
  by (induction q) (auto simp: join_with_Cons)

lemma base_name_Clean:
  assumes "plain_part p" "clean_parts path = q @ [p]"
  shows "base_name (filepath_Clean path) = p"
proof -
  have "\<exists>x. filepath_Clean path = x @ p \<and> (x = [] \<or> last x = CHR ''/'')"
    using assms(2) by (auto simp: filepath_Clean_def Let_def join_with_snoc)
  then obtain x where "filepath_Clean path = x @ p" "x = [] \<or> last x = CHR ''/''" by blast
  then show ?thesis
    using assms(1) base_name_tail [of p x] by (simp add: plain_part_def)
qed

lemma Join_last_part:
  assumes "plain_part p"
  shows "base_name (filepath_Join (es @ [p])) = p"
proof -
  have p: "p \<noteq> []" using assms by (simp add: plain_part_def)
  have "\<exists>fs. dropWhile (\<lambda>e. e = []) (es @ [p]) = fs @ [p]"
    using p by (induction es) auto
  then obtain fs where fs: "dropWhile (\<lambda>e. e = []) (es @ [p]) = fs @ [p]" by blast
  have "\<exists>q. clean_parts (join_with ''/'' (fs @ [p])) = q @ [p]"
    using clean_parts_plain [OF assms] clean_parts_single [OF assms] by (auto simp: join_with_snoc)
  then show ?thesis
    using base_name_Clean [OF assms] fs by (auto simp: filepath_Join_def split: list.splits)
qed

lemma plain_config: "plain_part ''config.yaml''"
  by (simp add: plain_part_def dot_def dotdot_def)

lemma ext_config: "base_name p = ''config.yaml'' \<Longrightarrow> filepath_Ext p = ''.yaml''"
  by (simp add: filepath_Ext_def)

lemma Join_config_ext: "filepath_Ext (filepath_Join (es @ [''config.yaml''])) = ''.yaml''"
  by (rule ext_config) (rule Join_last_part [OF plain_config])

lemma paths_Join_config: "filepath_Ext (paths_Join [d, ''config.yaml'']) = ''.yaml''"
  using Join_config_ext [of "[d]"] by (simp add: paths_Join_def is_abs_def)

text \<open>
  A configuration is always a YAML file. Resolving a name, a relative or absolute path, or
  nothing at all gives the empty path, when nothing was asked for and there is no default, or a path
  with the extension \<open>.yaml\<close>; and resolving the result again changes nothing.
\<close>

theorem ResolveConfigPath_yaml:
  assumes "ResolveConfigPath pl path = Some r" "r \<noteq> []"
  shows "filepath_Ext r = ''.yaml'' \<and> ResolveConfigPath pl r = Some r"
proof -
  have near: "nearbyConfigPath pl = [] \<or> filepath_Ext (nearbyConfigPath pl) = ''.yaml''"
    using paths_Join_config
    by (auto simp: nearbyConfigPath_def Let_def bind_eq_Some_conv split: option.splits if_splits)
  have def: "filepath_Ext p = ''.yaml''" if "DefaultConfigPath pl = Some p" "p \<noteq> []" for p
    using that near Join_config_ext [of "[d]" for d]
    by (auto simp: DefaultConfigPath_def Let_def split: if_splits)
  have "filepath_Ext r = ''.yaml''"
    using assms def Join_config_ext [of "[c, p]" for c p]
    by (auto simp: ResolveConfigPath_def split: option.splits if_splits)
  then show ?thesis
    using assms(2) by (simp add: ResolveConfigPath_def)
qed

definition sample_place :: place where
  "sample_place = \<lparr>pl_getenv = (\<lambda>v. if v = ''CLC_HOME'' then ''/h/.hz'' else []), pl_home = Some ''/h'', pl_wd = Some ''/w'',
     pl_exe = None, pl_exists = (\<lambda>p. False), pl_today = ''2023-08-01''\<rparr>"

lemma ResolveConfigPath_yaml_witness:
  "ResolveConfigPath sample_place ''/h/.hz/configs/dev/config.yaml'' = Some ''/h/.hz/configs/dev/config.yaml''"
proof -
  have "ResolveConfigPath sample_place ''dev'' = Some ''/h/.hz/configs/dev/config.yaml''"
    by code_simp
  from ResolveConfigPath_yaml [OF this] show ?thesis by simp
qed

lemma clean_ok_butlast: "clean_ok rooted (out @ [p]) \<Longrightarrow> clean_ok rooted out"
proof -
  assume a: "clean_ok rooted (out @ [p])"
  then obtain n rest where r: "out @ [p] = replicate n dotdot @ rest" "dotdot \<notin> set rest" "rooted \<longrightarrow> n = 0"
    by (auto simp: clean_ok_def)
  have "\<exists>m rest'. out = replicate m dotdot @ rest' \<and> dotdot \<notin> set rest' \<and> (rooted \<longrightarrow> m = 0)"
  proof (cases rest rule: rev_cases)
    case Nil
    then have "out @ [p] = replicate n dotdot" using r by simp
    then have "out = replicate (n - 1) dotdot"
      by (cases n) (simp_all add: replicate_append_same [symmetric])
    then show ?thesis using r(3) by (intro exI [of _ "n - 1"] exI [of _ "[]"]) auto
  next
    case (snoc ys y)
    then show ?thesis using r by auto
  qed
  then show ?thesis using a by (auto simp: clean_ok_def)
qed

lemma clean_ok_last: "clean_ok rooted (out @ [dotdot]) \<Longrightarrow> \<not> rooted \<and> (out = [] \<or> last out = dotdot)"
proof -
  assume "clean_ok rooted (out @ [dotdot])"
  then obtain n rest where r: "out @ [dotdot] = replicate n dotdot @ rest" "dotdot \<notin> set rest" "rooted \<longrightarrow> n = 0"
    by (auto simp: clean_ok_def)
  then have "rest = []"
    by (metis append_is_Nil_conv in_set_conv_decomp last_appendR last_snoc append_butlast_last_id)
  then have eq: "out @ [dotdot] = replicate n dotdot" using r by simp
  then have n: "n \<noteq> 0" "out = replicate (n - 1) dotdot"
    by (cases n; simp add: replicate_append_same [symmetric])+
  then have "out = [] \<or> last out = dotdot"
    by (cases "n - 1") (simp_all add: last_replicate del: replicate_Suc)
  then show ?thesis using r(3) n(1) by blast
qed

lemma clean_fold_id: "clean_ok rooted out \<Longrightarrow> foldl (clean_step rooted) [] out = out"
proof (induction out rule: rev_induct)
  case (snoc p out)
  have IH: "foldl (clean_step rooted) [] out = out"
    using snoc clean_ok_butlast by blast
  have "p \<noteq> []" "p \<noteq> dot" using snoc.prems by (auto simp: clean_ok_def)
  then have "clean_step rooted out p = out @ [p]"
    using snoc.prems clean_ok_last [of rooted out] by (auto simp: clean_step_def)
  then show ?case using IH by simp
qed simp

lemma split_join_clean: "clean_ok rooted out \<Longrightarrow> out \<noteq> [] \<Longrightarrow> split_on (CHR ''/'') (join_with ''/'' out) = out"
  by (rule split_on_join) (auto simp: clean_ok_def)

lemma join_not_abs: "clean_ok rooted out \<Longrightarrow> \<not> is_abs (join_with ''/'' out)"
proof (cases out)
  case (Cons p ps)
  assume "clean_ok rooted out"
  then obtain c cs where "p = c # cs" "c \<noteq> CHR ''/''"
    using Cons by (cases p) (auto simp: clean_ok_def)
  then show ?thesis using Cons by (simp add: is_abs_def join_with_Cons)
qed (simp add: is_abs_def)

lemma is_abs_Clean: "is_abs (filepath_Clean p) = is_abs p"
  using join_not_abs [OF clean_parts_ok [of p]]
  by (auto simp: filepath_Clean_def Let_def is_abs_def dot_def)

lemma clean_parts_Clean: "clean_parts (filepath_Clean p) = clean_parts p"
proof -
  let ?o = "clean_parts p"
  have ok: "clean_ok (is_abs p) ?o" by (rule clean_parts_ok)
  show ?thesis
  proof (cases "?o = []")
    case True
    then show ?thesis
      by (auto simp: filepath_Clean_def Let_def clean_parts_def is_abs_def clean_step_def dot_def)
  next
    case False
    have "clean_parts (filepath_Clean p) = foldl (clean_step (is_abs p)) [] ?o"
    proof (cases "is_abs p")
      case True
      then have "filepath_Clean p = CHR ''/'' # join_with ''/'' ?o"
        by (simp add: filepath_Clean_def Let_def)
      moreover have "is_abs (CHR ''/'' # x)" for x by (simp add: is_abs_def)
      ultimately show ?thesis
        using True split_join_clean [OF ok False] by (simp add: clean_parts_def clean_step_def)
    next
      case rel: False
      then have "filepath_Clean p = join_with ''/'' ?o"
        using False by (simp add: filepath_Clean_def Let_def)
      then show ?thesis
        using rel join_not_abs [OF ok] split_join_clean [OF ok False] unfolding clean_parts_def by simp
    qed
    then show ?thesis using clean_fold_id [OF ok] by simp
  qed
qed

lemma Join_plain:
  assumes "d \<noteq> []" "plain_part p"
  shows "clean_parts (filepath_Join [d, p]) = clean_parts d @ [p] \<and> is_abs (filepath_Join [d, p]) = is_abs d \<and>
    filepath_Join [d, p] \<noteq> []"
proof -
  have j: "filepath_Join [d, p] = filepath_Clean (d @ CHR ''/'' # p)"
    using assms(1) by (simp add: filepath_Join_def)
  have a: "is_abs (d @ CHR ''/'' # p) = is_abs d"
    using assms(1) by (cases d) (auto simp: is_abs_def)
  have "clean_parts (filepath_Join [d, p]) = clean_parts d @ [p]"
    using clean_parts_plain [OF assms(2), of d] a by (simp add: j clean_parts_Clean clean_parts_def [of d])
  moreover from this have "filepath_Join [d, p] \<noteq> []"
    by (auto simp: clean_parts_def clean_step_def)
  ultimately show ?thesis using a by (simp add: j is_abs_Clean)
qed

text \<open>
  C38: A secret never leaves the directory of secrets: when its prefix and its name are plain file
  names, the path of a secret is that directory with the two names added to its parts, so two
  secrets share a file only when they are the same.
\<close>

theorem secrets_stay_inside:
  assumes "Secrets pl = Some d" "d \<noteq> []" "plain_part prefix" "plain_part name"
  shows "\<exists>r. ResolveSecretPath pl prefix name = Some r \<and>
    clean_parts r = clean_parts d @ [prefix, name] \<and> is_abs r = is_abs d"
proof -
  have "\<not> is_abs prefix" "\<not> is_abs name" "prefix \<noteq> []" "name \<noteq> []"
    using assms(3,4) by (cases prefix; cases name; auto simp: plain_part_def is_abs_def)+
  then have "ResolveSecretPath pl prefix name = Some (filepath_Join [filepath_Join [d, prefix], name])"
    using assms(1) by (simp add: ResolveSecretPath_def paths_Join_def)
  then show ?thesis
    using Join_plain [OF assms(2,3)] Join_plain [OF _ assms(4), of "filepath_Join [d, prefix]"] by simp
qed

lemma secrets_stay_inside_witness:
  "\<exists>r. ResolveSecretPath sample_place ''viridian'' ''api-K.access'' = Some r \<and>
     clean_parts r = clean_parts ''/h/.hz/secrets'' @ [''viridian'', ''api-K.access''] \<and> is_abs r = is_abs ''/h/.hz/secrets''"
proof -
  have "Secrets sample_place = Some ''/h/.hz/secrets''" by code_simp
  then show ?thesis
    by (rule secrets_stay_inside) (simp_all add: plain_part_def dot_def dotdot_def)
qed

end
