(* ===== verification/SecretFiles.thy ===== *)
theory SecretFiles
  imports Paths Effects
begin

section \<open>Secrets (clc/secrets)\<close>

text \<open>
  A secret is kept in a file, in base64. The file system is a map from paths to contents with the
  errors that making a directory, writing and reading may give. The position in the error of
  \<^verbatim>\<open>encoding/base64\<close> is left out.
\<close>

subsection \<open>encoding/base64\<close>

definition b64_alphabet :: string where
  "b64_alphabet = ''ABCDEFGHIJKLMNOPQRSTUVWXYZabcdefghijklmnopqrstuvwxyz0123456789+/''"

definition b64_char :: "nat \<Rightarrow> char" where
  "b64_char n = b64_alphabet ! n"

fun index_in :: "char \<Rightarrow> string \<Rightarrow> nat option" where
  "index_in c [] = None"
| "index_in c (d # s) = (if c = d then Some 0 else map_option Suc (index_in c s))"

definition b64_val :: "char \<Rightarrow> nat option" where
  "b64_val c = index_in c b64_alphabet"

fun b64_encode :: "nat list \<Rightarrow> string" where
  "b64_encode [] = []"
| "b64_encode [a] = [b64_char (a div 4), b64_char (a mod 4 * 16), CHR ''='', CHR ''='']"
| "b64_encode [a, b] =
     [b64_char (a div 4), b64_char (a mod 4 * 16 + b div 16), b64_char (b mod 16 * 4), CHR ''='']"
| "b64_encode (a # b # c # s) =
     [b64_char (a div 4), b64_char (a mod 4 * 16 + b div 16), b64_char (b mod 16 * 4 + c div 64), b64_char (c mod 64)]
     @ b64_encode s"

text \<open>The four characters of a group; the last group may be padded. Line ends are skipped before.\<close>

fun b64_decode :: "string \<Rightarrow> nat list option" where
  "b64_decode [] = Some []"
| "b64_decode (p # q # r # t # s) =
     (case (b64_val p, b64_val q) of
        (Some w, Some x) \<Rightarrow>
          if r = CHR ''='' then
            (if t = CHR ''='' \<and> s = [] then Some [w * 4 + x div 16] else None)
          else (case b64_val r of
                  None \<Rightarrow> None
                | Some y \<Rightarrow>
                    if t = CHR ''='' then
                      (if s = [] then Some [w * 4 + x div 16, x mod 16 * 16 + y div 4] else None)
                    else (case b64_val t of
                            None \<Rightarrow> None
                          | Some z \<Rightarrow>
                              map_option (\<lambda>m. [w * 4 + x div 16, x mod 16 * 16 + y div 4, y mod 4 * 64 + z] @ m)
                                (b64_decode s)))
      | _ \<Rightarrow> None)"
| "b64_decode s = None"

definition base64_encode :: "string \<Rightarrow> string" where
  "base64_encode s = b64_encode (map of_char s)"

definition base64_decode :: "string \<Rightarrow> go_error + string" where
  "base64_decode s =
     (case b64_decode (filter (\<lambda>c. c \<noteq> CHR 0x0A \<and> c \<noteq> CHR 0x0D) s) of
        None \<Rightarrow> Inl (Errorf ''illegal base64 data'')
      | Some bs \<Rightarrow> Inr (map char_of bs))"

subsection \<open>Saving and reading\<close>

record file_system =
  fs_files :: "string \<rightharpoonup> string"
  fs_mkdir_error :: "string \<Rightarrow> go_error option"
  fs_write_error :: "string \<Rightarrow> go_error option"
  fs_read_error :: "string \<Rightarrow> go_error option"

definition MkdirAll :: "string \<Rightarrow> (file_system, unit) eff" where
  "MkdirAll d fs = (case fs_mkdir_error fs d of Some e \<Rightarrow> (Inl e, fs) | None \<Rightarrow> (Inr (), fs))"

definition WriteFile :: "string \<Rightarrow> string \<Rightarrow> (file_system, unit) eff" where
  "WriteFile p content fs =
     (case fs_write_error fs p of
        Some e \<Rightarrow> (Inl e, fs)
      | None \<Rightarrow> (Inr (), fs\<lparr>fs_files := (fs_files fs)(p \<mapsto> content)\<rparr>))"

definition ReadFile :: "string \<Rightarrow> (file_system, string) eff" where
  "ReadFile p fs =
     (case (fs_read_error fs p, fs_files fs p) of
        (Some e, _) \<Rightarrow> (Inl e, fs)
      | (None, None) \<Rightarrow> (Inl (Errorf (''open '' @ p @ '': no such file or directory'')), fs)
      | (None, Some c) \<Rightarrow> (Inr c, fs))"

text \<open>None is the panic for a blank name or a missing home directory.\<close>

definition Secrets_Write :: "place \<Rightarrow> string \<Rightarrow> string \<Rightarrow> string \<Rightarrow> (file_system, unit) eff option" where
  "Secrets_Write pl prefix name token =
     (case ResolveSecretPath pl prefix name of
        None \<Rightarrow> None
      | Some path \<Rightarrow> Some
          (andthen (wrap_err ''creating secrets directory'' (MkdirAll (filepath_Dir path))) (\<lambda>_.
           wrap_err ''writing the secret'' (WriteFile path (base64_encode token)))))"

text \<open>\<open>ctxErr\<close> is the error of the context, when it is done.\<close>

definition Secrets_Save ::
    "place \<Rightarrow> go_error option \<Rightarrow> string \<Rightarrow> string \<Rightarrow> string \<Rightarrow> (file_system, unit) eff option" where
  "Secrets_Save pl ctxErr secretPrefix key token =
     (case ctxErr of
        Some e \<Rightarrow> Some (fail e)
      | None \<Rightarrow>
          (case (Secrets pl, Secrets_Write pl secretPrefix key token) of
             (Some d, Some w) \<Rightarrow> Some (andthen (wrap_err ''creating secrets directory'' (MkdirAll d)) (\<lambda>_. w))
           | _ \<Rightarrow> None))"

definition Secrets_Read :: "place \<Rightarrow> string \<Rightarrow> string \<Rightarrow> (file_system, string) eff option" where
  "Secrets_Read pl prefix name =
     (case ResolveSecretPath pl prefix name of
        None \<Rightarrow> None
      | Some path \<Rightarrow> Some
          (andthen (wrap_err ''reading the secret'' (ReadFile path)) (\<lambda>b64.
           wrap_err ''decoding the secret'' (lift_res (base64_decode b64)))))"

subsection \<open>What is saved is read back\<close>

lemma index_in_nth: "distinct s \<Longrightarrow> n < length s \<Longrightarrow> index_in (s ! n) s = Some n"
  by (induction s arbitrary: n) (auto simp: nth_Cons' split: if_splits intro: exI [of _ "n - 1"] dest: nth_mem)

lemma alphabet: "length b64_alphabet = 64" "distinct b64_alphabet"
    "CHR ''='' \<notin> set b64_alphabet" "CHR 0x0A \<notin> set b64_alphabet" "CHR 0x0D \<notin> set b64_alphabet"
  by (simp_all add: b64_alphabet_def)

lemma b64_val_char: "n < 64 \<Longrightarrow> b64_val (b64_char n) = Some n"
  using index_in_nth alphabet by (simp add: b64_val_def b64_char_def)

lemma b64_char_plain: "n < 64 \<Longrightarrow> b64_char n \<noteq> CHR ''='' \<and> b64_char n \<noteq> CHR 0x0A \<and> b64_char n \<noteq> CHR 0x0D"
  unfolding b64_char_def using alphabet nth_mem by metis

lemma b64_roundtrip: "\<forall>b \<in> set bs. b < 256 \<Longrightarrow> b64_decode (b64_encode bs) = Some bs"
proof (induction bs rule: b64_encode.induct)
  case (4 a b c s)
  then have "a div 4 < 64" "a mod 4 * 16 + b div 16 < 64" "b mod 16 * 4 + c div 64 < 64" "c mod 64 < 64"
    by auto
  moreover have "a div 4 * 4 + (a mod 4 * 16 + b div 16) div 16 = a"
    "(a mod 4 * 16 + b div 16) mod 16 * 16 + (b mod 16 * 4 + c div 64) div 4 = b"
    "(b mod 16 * 4 + c div 64) mod 4 * 64 + c mod 64 = c"
    using 4 by auto
  ultimately show ?case using 4 b64_char_plain by (simp add: b64_val_char)
next
  case (3 a b)
  then have "a div 4 < 64" "a mod 4 * 16 + b div 16 < 64" "b mod 16 * 4 < 64" by auto
  moreover have "a div 4 * 4 + (a mod 4 * 16 + b div 16) div 16 = a"
    "(a mod 4 * 16 + b div 16) mod 16 * 16 + b mod 16 * 4 div 4 = b"
    using 3 by auto
  ultimately show ?case using b64_char_plain by (simp add: b64_val_char)
next
  case (2 a)
  then have "a div 4 < 64" "a mod 4 * 16 < 64" "a div 4 * 4 + a mod 4 * 16 div 16 = a" by auto
  then show ?case using b64_char_plain by (simp add: b64_val_char)
qed simp
lemma b64_no_newline: "\<forall>b \<in> set bs. b < 256 \<Longrightarrow> c \<in> set (b64_encode bs) \<Longrightarrow> c \<noteq> CHR 0x0A \<and> c \<noteq> CHR 0x0D"
proof (induction bs rule: b64_encode.induct)
  case (4 a b c' s)
  then have "a div 4 < 64" "a mod 4 * 16 + b div 16 < 64" "b mod 16 * 4 + c' div 64 < 64" "c' mod 64 < 64"
    by auto
  then show ?case using 4 b64_char_plain by auto
next
  case (3 a b)
  then have "a div 4 < 64" "a mod 4 * 16 + b div 16 < 64" "b mod 16 * 4 < 64" by auto
  then show ?case using 3 b64_char_plain by auto
next
  case (2 a)
  then have "a div 4 < 64" "a mod 4 * 16 < 64" by auto
  then show ?case using 2 b64_char_plain by auto
qed simp

lemma base64_roundtrip: "base64_decode (base64_encode s) = Inr s"
proof -
  have b: "\<forall>b \<in> set (map of_char s). b < (256::nat)"
    by auto
  have "filter (\<lambda>c. c \<noteq> CHR 0x0A \<and> c \<noteq> CHR 0x0D) (b64_encode (map of_char s)) = b64_encode (map of_char s)"
    using b64_no_newline [OF b] by (intro filter_True) blast
  then show ?thesis
    using b64_roundtrip [OF b] by (simp add: base64_decode_def base64_encode_def comp_def)
qed

lemma Secrets_Save_writes:
  assumes "Secrets_Save pl ctxErr prefix name token = Some save" "save fs = (Inr (), fs')"
    "ResolveSecretPath pl prefix name = Some path"
  shows "fs' = fs\<lparr>fs_files := (fs_files fs)(path \<mapsto> base64_encode token)\<rparr>"
  using assms
  by (auto simp: Secrets_Save_def Secrets_Write_def andthen_def wrap_err_def MkdirAll_def WriteFile_def fail_def
    split: option.splits prod.splits sum.splits)

lemma Secrets_Read_file:
  assumes "ResolveSecretPath pl prefix name = Some path" "fs_read_error fs path = None"
    "fs_files fs path = Some (base64_encode token)"
  shows "\<exists>rd. Secrets_Read pl prefix name = Some rd \<and> rd fs = (Inr token, fs)"
  using assms
  by (simp add: Secrets_Read_def ReadFile_def andthen_def wrap_err_def lift_res_def base64_roundtrip)

text \<open>
  A secret that was saved is read back byte by byte: when saving succeeds, whatever bytes it
  has, reading under the same prefix and name gives it, no other file of the system has changed, and
  what is on the disk is its base64 text. The file system must be able to read what it could write.
\<close>

theorem secret_roundtrip:
  assumes "Secrets_Save pl ctxErr prefix name token = Some save" "save fs = (Inr (), fs')"
    "ResolveSecretPath pl prefix name = Some path" "fs_read_error fs path = None"
  shows "\<exists>rd. Secrets_Read pl prefix name = Some rd \<and> rd fs' = (Inr token, fs') \<and>
    fs_files fs' = (fs_files fs)(path \<mapsto> base64_encode token)"
  using Secrets_Save_writes [OF assms(1-3)] Secrets_Read_file [OF assms(3), of fs' token] assms(4) by simp

definition empty_fs :: file_system where
  "empty_fs = \<lparr>fs_files = Map.empty, fs_mkdir_error = (\<lambda>d. None), fs_write_error = (\<lambda>p. None),
     fs_read_error = (\<lambda>p. None)\<rparr>"

lemma Secrets_Save_empty:
  "Secrets pl = Some d \<Longrightarrow> ResolveSecretPath pl prefix name = Some p \<Longrightarrow>
     \<exists>save. Secrets_Save pl None prefix name token = Some save \<and>
       save empty_fs = (Inr (), empty_fs\<lparr>fs_files := [p \<mapsto> base64_encode token]\<rparr>)"
  by (simp add: Secrets_Save_def Secrets_Write_def andthen_def wrap_err_def MkdirAll_def WriteFile_def empty_fs_def)

lemma secret_roundtrip_witness:
  "\<exists>rd. Secrets_Read sample_place ''viridian'' ''api-K.access'' = Some rd \<and>
     fst (rd (snd (the (Secrets_Save sample_place None ''viridian'' ''api-K.access'' ''t0ken'') empty_fs))) = Inr ''t0ken''"
proof -
  let ?p = "''/h/.hz/secrets/viridian/api-K.access''"
  have p: "ResolveSecretPath sample_place ''viridian'' ''api-K.access'' = Some ?p" by code_simp
  have d: "Secrets sample_place = Some ''/h/.hz/secrets''" by code_simp
  obtain save where s: "Secrets_Save sample_place None ''viridian'' ''api-K.access'' ''t0ken'' = Some save"
    by (simp add: Secrets_Save_def Secrets_Write_def p d)
  have "save empty_fs = (Inr (), snd (save empty_fs))"
    using s by (auto simp: Secrets_Save_def Secrets_Write_def p d andthen_def wrap_err_def MkdirAll_def
      WriteFile_def empty_fs_def)
  from secret_roundtrip [OF s this p] show ?thesis
    using s by (auto simp: empty_fs_def)
qed

end
