(* ===== verification/Viridian.thy ===== *)
theory Viridian
  imports SecretFiles SerColumn
begin

section \<open>The Viridian API (internal/viridian)\<close>

text \<open>
  The client of the cloud service. The world of a call is a record: the API object the program holds,
  whose token is replaced by a new login, the file system, and the network, of any type. The network
  is the argument \<open>ve_http\<close>, which answers a request with a status and a body or fails; the readers of
  the JSON answers and the writers of the JSON requests are \<^verbatim>\<open>encoding/json\<close> on the structs of
  types.go and are arguments too, as are the archive reader and the names of temporary files.
\<close>

subsection \<open>types.go\<close>

record ClusterType =
  ct_ID :: int
  ct_Name :: string
  DevMode :: bool

record K8sCluster =
  k8s_ID :: int
  k8s_Name :: string

record IPAddress =
  ip_ID :: int
  ip_IP :: string
  ip_Description :: string

record Cluster =
  cl_ID :: string
  cl_Name :: string
  HazelcastVersion :: string
  cl_Memory :: "64 word"
  MancenterURL :: string
  MemoryUsage :: "64 word"
  CreationTime :: int
  StartTime :: int
  cl_State :: string
  DesiredState :: string
  ClientCount :: int
  cl_ClusterType :: ClusterType
  KubernetesClusters :: "K8sCluster list"
  HotBackupEnabled :: bool
  HotRestartEnabled :: bool
  PlanName :: string
  Regions :: "string list"
  AllowedIps :: "IPAddress list"
  IPWhitelistEnabled :: bool
  MaxAvailableMemory :: int

record CustomClass =
  cc_ID :: int
  cc_Name :: string
  GeneratedFilename :: string
  cc_Status :: string
  TemporaryCustomClassesId :: string

subsection \<open>The world\<close>

record API =
  SecretPrefix :: string
  Token :: string
  api_Key :: string
  api_Secret :: string
  APIBaseURL :: string

record http_request =
  hr_method :: string
  hr_url :: string
  hr_content_type :: string
  hr_authorization :: string
  hr_body :: string

record createClusterRequest =
  KubernetesClusterID :: int
  cr_Name :: string
  ClusterTypeID :: int
  cr_PlanName :: string
  Prerelease :: bool

record 'n vworld =
  vw_api :: API
  vw_net :: 'n
  vw_fs :: file_system

record 'n viridian_env =
  ve_place :: place
  ve_ctx_err :: "'n \<Rightarrow> go_error option"
  ve_http :: "http_request \<Rightarrow> ('n, int \<times> string) eff"
  ve_temp :: "'n \<Rightarrow> string"
  ve_rand :: "'n \<Rightarrow> nat"
  ve_now_text :: "'n \<Rightarrow> string"
  ve_login_json :: "string \<Rightarrow> string \<Rightarrow> string"
  ve_create_json :: "createClusterRequest \<Rightarrow> string"
  ve_form :: "string \<Rightarrow> string \<Rightarrow> string \<times> string"
  ve_token :: "string \<Rightarrow> go_error + string"
  ve_bool :: "string \<Rightarrow> go_error + bool"
  ve_clusters :: "string \<Rightarrow> go_error + Cluster list"
  ve_cluster :: "string \<Rightarrow> go_error + Cluster"
  ve_cluster_types :: "string \<Rightarrow> go_error + ClusterType list"
  ve_k8s :: "string \<Rightarrow> go_error + K8sCluster list"
  ve_classes :: "string \<Rightarrow> go_error + CustomClass list"
  ve_message :: "string \<Rightarrow> string"
  ve_zip :: "string \<Rightarrow> go_error + (string \<times> bool \<times> string) list"

type_synonym ('n, 'a) vstep = "('n vworld, 'a) eff"

definition on_fs :: "(file_system, 'a) eff \<Rightarrow> ('n, 'a) vstep" where
  "on_fs f w = (let (r, fs') = f (vw_fs w) in (r, w\<lparr>vw_fs := fs'\<rparr>))"

definition panics :: "('n, 'a) vstep option \<Rightarrow> ('n, 'a) vstep" where
  "panics m = (case m of None \<Rightarrow> fail (Sentinel ''panic'') | Some f \<Rightarrow> f)"

definition NewAPI :: "string \<Rightarrow> string \<Rightarrow> string \<Rightarrow> string \<Rightarrow> string \<Rightarrow> API" where
  "NewAPI secretPrefix key secret token apiBase =
     \<lparr>SecretPrefix = secretPrefix, Token = token, api_Key = key, api_Secret = secret,
      APIBaseURL = trim_right_char (CHR ''/'') apiBase\<rparr>"

definition APIBaseURL_env :: "'n viridian_env \<Rightarrow> string" where
  "APIBaseURL_env env =
     (let u = pl_getenv (ve_place env) ''HZ_CLOUD_COORDINATOR_BASE_URL'' in
      if u \<noteq> [] then u else ''https://api.viridian.hazelcast.com'')"

definition APIClass :: "'n viridian_env \<Rightarrow> string" where
  "APIClass env =
     (let ac = pl_getenv (ve_place env) ''CLC_EXPERIMENTAL_VIRIDIAN_API'' in if ac \<noteq> [] then ac else ''api'')"

definition token_file :: "'n viridian_env \<Rightarrow> string \<Rightarrow> string" where
  "token_file env key = APIClass env @ ''-'' @ key @ ''.access''"

definition secret_file :: "'n viridian_env \<Rightarrow> string \<Rightarrow> string" where
  "secret_file env key = APIClass env @ ''-'' @ key @ ''.secret''"

definition makeURL :: "API \<Rightarrow> string \<Rightarrow> string" where
  "makeURL a path = APIBaseURL a @ path"

subsection \<open>errors.go and the requests\<close>

definition NewHTTPClientError :: "'n viridian_env \<Rightarrow> int \<Rightarrow> string \<Rightarrow> go_error" where
  "NewHTTPClientError env code body =
     (let m = ve_message env body;
          t = (if m \<noteq> [] then m else ''an unexpected error occurred, please check logs for details'')
      in HTTPClientError code t body)"

definition http_send :: "'n viridian_env \<Rightarrow> http_request \<Rightarrow> ('n, int \<times> string) vstep" where
  "http_send env req w =
     (case ve_http env req (vw_net w) of
        (Inl e, n') \<Rightarrow> (Inl (Wrapf ''sending request'' e), w\<lparr>vw_net := n'\<rparr>)
      | (Inr r, n') \<Rightarrow> (Inr r, w\<lparr>vw_net := n'\<rparr>))"

definition json_request :: "string \<Rightarrow> string \<Rightarrow> string \<Rightarrow> string \<Rightarrow> http_request" where
  "json_request method url token body =
     \<lparr>hr_method = method, hr_url = url, hr_content_type = ''application/json'',
      hr_authorization = (if token \<noteq> [] then ''Bearer '' @ token else []), hr_body = body\<rparr>"

definition doGet :: "'n viridian_env \<Rightarrow> (string \<Rightarrow> go_error + 'a) \<Rightarrow> string \<Rightarrow> string \<Rightarrow> ('n, 'a) vstep" where
  "doGet env decode url token =
     andthen (http_send env (json_request ''GET'' url token [])) (\<lambda>(code, rb).
       if code = 200 then lift_res (decode rb) else fail (NewHTTPClientError env code rb))"

definition doGetRaw :: "'n viridian_env \<Rightarrow> string \<Rightarrow> string \<Rightarrow> ('n, string) vstep" where
  "doGetRaw env url token =
     andthen (http_send env (json_request ''GET'' url token [])) (\<lambda>(code, rb).
       if code = 200 then ret rb else fail (NewHTTPClientError env code rb))"

definition doPostBytes :: "'n viridian_env \<Rightarrow> string \<Rightarrow> string \<Rightarrow> string \<Rightarrow> ('n, string) vstep" where
  "doPostBytes env url token body =
     andthen (http_send env (json_request ''POST'' url token body)) (\<lambda>(code, rb).
       if code = 200 then ret rb else fail (NewHTTPClientError env code rb))"

definition doPost ::
    "'n viridian_env \<Rightarrow> (string \<Rightarrow> go_error + 'a) \<Rightarrow> string \<Rightarrow> string \<Rightarrow> string \<Rightarrow> ('n, 'a) vstep" where
  "doPost env decode url token m =
     andthen (doPostBytes env url token m) (\<lambda>b. lift_res (decode b))"

definition doDelete :: "'n viridian_env \<Rightarrow> string \<Rightarrow> string \<Rightarrow> ('n, unit) vstep" where
  "doDelete env url token =
     andthen (http_send env (json_request ''DELETE'' url token [])) (\<lambda>(code, rb).
       if code \<noteq> 200 \<and> code \<noteq> 204 then fail (NewHTTPClientError env code rb) else ret ())"

text \<open>\<open>download\<close> saves the answer under a temporary name; the caller removes it with \<open>stop\<close>.\<close>

definition download :: "'n viridian_env \<Rightarrow> string \<Rightarrow> string \<Rightarrow> ('n, string) vstep" where
  "download env url token = with_state (\<lambda>w0.
     let f = ve_temp env (vw_net w0) in
     andthen (on_fs (WriteFile f [])) (\<lambda>_.
     andthen (http_send env ((json_request ''GET'' url token [])\<lparr>hr_content_type := []\<rparr>)) (\<lambda>(code, rb).
       if code = 200 then andthen (wrap_err ''downloading file'' (on_fs (WriteFile f rb))) (\<lambda>_. ret f)
       else fail (Errorf (itoa code @ '': '' @ rb)))))"

definition remove_file :: "string \<Rightarrow> ('n, unit) vstep" where
  "remove_file p w = (Inr (), w\<lparr>vw_fs := (vw_fs w)\<lparr>fs_files := (fs_files (vw_fs w))(p := None)\<rparr>\<rparr>)"

subsection \<open>Login and retry\<close>

definition api_login :: "'n viridian_env \<Rightarrow> ('n, unit) vstep" where
  "api_login env = with_state (\<lambda>w0.
     let a = vw_api w0 in
     if api_Key a = [] then fail (Errorf ''api key cannot be blank'')
     else if api_Secret a = [] then fail (Errorf ''api secret cannot be blank'')
     else andthen (doPost env (ve_token env) (makeURL a ''/customers/api/login'') []
                    (ve_login_json env (api_Key a) (api_Secret a)))
            (\<lambda>t w. (Inr (), w\<lparr>vw_api := (vw_api w)\<lparr>Token := t\<rparr>\<rparr>)))"

definition save_secret :: "'n viridian_env \<Rightarrow> string \<Rightarrow> string \<Rightarrow> string \<Rightarrow> ('n, unit) vstep" where
  "save_secret env prefix name content = with_state (\<lambda>w.
     panics (map_option on_fs (Secrets_Save (ve_place env) (ve_ctx_err env (vw_net w)) prefix name content)))"

definition read_secret :: "'n viridian_env \<Rightarrow> string \<Rightarrow> string \<Rightarrow> ('n, string) vstep" where
  "read_secret env prefix name = panics (map_option on_fs (Secrets_Read (ve_place env) prefix name))"

text \<open>The call is made again once, after a login, when it was refused as unauthorized.\<close>

definition RetryOnAuthFail :: "'n viridian_env \<Rightarrow> (API \<Rightarrow> ('n, 'a) vstep) \<Rightarrow> ('n, 'a) vstep" where
  "RetryOnAuthFail env f w =
     (case f (vw_api w) w of
        (Inr r, w1) \<Rightarrow> (Inr r, w1)
      | (Inl e, w1) \<Rightarrow>
          (case err_as_http e of
             Some (code, _) \<Rightarrow>
               if code = 401 then
                 andthen (api_login env) (\<lambda>_. with_state (\<lambda>w2.
                   let a = vw_api w2 in
                   andthen (save_secret env (SecretPrefix a) (token_file env (api_Key a)) (Token a)) (\<lambda>_.
                   with_state (\<lambda>w3. f (vw_api w3))))) w1
               else (Inl e, w1)
           | None \<Rightarrow> (Inl e, w1)))"

text \<open>\<open>Login\<close> makes the API object, which is the one held from then on.\<close>

definition viridian_Login :: "'n viridian_env \<Rightarrow> string \<Rightarrow> string \<Rightarrow> string \<Rightarrow> string \<Rightarrow> ('n, string) vstep" where
  "viridian_Login env secretPrefix key secret apiBase w =
     andthen (api_login env) (\<lambda>_. with_state (\<lambda>w'. ret (Token (vw_api w'))))
       (w\<lparr>vw_api := \<lparr>SecretPrefix = secretPrefix, Token = [], api_Key = key, api_Secret = secret,
                    APIBaseURL = apiBase\<rparr>\<rparr>)"

subsection \<open>Operations of the API\<close>

definition get_at :: "'n viridian_env \<Rightarrow> (string \<Rightarrow> go_error + 'a) \<Rightarrow> string \<Rightarrow> ('n, 'a) vstep" where
  "get_at env decode path = RetryOnAuthFail env (\<lambda>a. doGet env decode (makeURL a path) (Token a))"

definition ListAvailableK8sClusters :: "'n viridian_env \<Rightarrow> ('n, K8sCluster list) vstep" where
  "ListAvailableK8sClusters env =
     wrap_err ''listing available Kubernetes clusters'' (get_at env (ve_k8s env) ''/kubernetes_clusters/available'')"

definition ListClusters :: "'n viridian_env \<Rightarrow> ('n, Cluster list) vstep" where
  "ListClusters env = wrap_err ''listing clusters'' (get_at env (ve_clusters env) ''/cluster?size=500'')"

definition ListClusterTypes :: "'n viridian_env \<Rightarrow> ('n, ClusterType list) vstep" where
  "ListClusterTypes env = wrap_err ''listing cluster types'' (get_at env (ve_cluster_types env) ''/cluster_types'')"

text \<open>The first cluster of the list with that id or name.\<close>

fun find_cluster :: "string \<Rightarrow> Cluster list \<Rightarrow> Cluster option" where
  "find_cluster idOrName [] = None"
| "find_cluster idOrName (c # cs) =
     (if cl_ID c = idOrName \<or> cl_Name c = idOrName then Some c else find_cluster idOrName cs)"

definition FindCluster :: "'n viridian_env \<Rightarrow> string \<Rightarrow> ('n, Cluster) vstep" where
  "FindCluster env idOrName =
     andthen (ListClusters env) (\<lambda>clusters.
       case find_cluster idOrName clusters of
         Some c \<Rightarrow> ret c
       | None \<Rightarrow> fail (Errorf (''no such cluster found: '' @ idOrName)))"

fun find_cluster_type :: "string \<Rightarrow> ClusterType list \<Rightarrow> ClusterType option" where
  "find_cluster_type name [] = None"
| "find_cluster_type name (ct # cts) =
     (if to_upper (ct_Name ct) = to_upper name then Some ct else find_cluster_type name cts)"

definition FindClusterType :: "'n viridian_env \<Rightarrow> string \<Rightarrow> ('n, ClusterType) vstep" where
  "FindClusterType env name =
     andthen (ListClusterTypes env) (\<lambda>cts.
       case find_cluster_type name cts of
         Some ct \<Rightarrow> ret ct
       | None \<Rightarrow> fail (Errorf (''no such cluster type found: '' @ name)))"

definition clusterName :: "'n viridian_env \<Rightarrow> 'n \<Rightarrow> string" where
  "clusterName env n =
     (let cwd = (case pl_wd (ve_place env) of Some d \<Rightarrow> d | None \<Rightarrow> ''cluster'');
          num = format_nat 10 (ve_rand env n mod 9999)
      in filepath_Base cwd @ ''-'' @ ve_now_text env n @ ''-'' @ replicate (4 - length num) CHR ''0'' @ num)"

definition CreateCluster ::
    "'n viridian_env \<Rightarrow> string \<Rightarrow> string \<Rightarrow> int \<Rightarrow> bool \<Rightarrow> string \<Rightarrow> ('n, Cluster) vstep" where
  "CreateCluster env name clusterType k8sClusterID prerelease hzVersion = with_state (\<lambda>w0.
     let name = (if name = [] then clusterName env (vw_net w0) else name) in
     andthen (FindClusterType env clusterType) (\<lambda>cType.
       let planName = (if to_upper (ct_Name cType) = ''DEVMODE'' \<and> hzVersion = [] then ''SERVERLESS'' else ct_Name cType);
           c = \<lparr>KubernetesClusterID = k8sClusterID, cr_Name = name, ClusterTypeID = ct_ID cType,
                cr_PlanName = planName, Prerelease = prerelease\<rparr>
       in wrap_err ''creating cluster''
            (RetryOnAuthFail env (\<lambda>a. doPost env (ve_cluster env) (makeURL a ''/cluster'') (Token a) (ve_create_json env c)))))"

text \<open>
  In the code stopping, resuming and deleting return the cluster that was found beside an error too;
  no caller uses it, so it is left out.
\<close>

definition cluster_action :: "'n viridian_env \<Rightarrow> string \<Rightarrow> string \<Rightarrow> string \<Rightarrow> string \<Rightarrow> ('n, Cluster) vstep" where
  "cluster_action env verb doing what idOrName =
     andthen (FindCluster env idOrName) (\<lambda>c.
     andthen (wrap_err doing (RetryOnAuthFail env (\<lambda>a.
         doPost env (ve_bool env) (makeURL a (''/cluster/'' @ cl_ID c @ ''/'' @ verb)) (Token a) ''null''))) (\<lambda>ok.
     if ok then ret c else fail (Errorf (''could not '' @ what @ '' the cluster''))))"

definition StopCluster :: "'n viridian_env \<Rightarrow> string \<Rightarrow> ('n, Cluster) vstep" where
  "StopCluster env idOrName = cluster_action env ''stop'' ''stopping cluster'' ''stop'' idOrName"

definition ResumeCluster :: "'n viridian_env \<Rightarrow> string \<Rightarrow> ('n, Cluster) vstep" where
  "ResumeCluster env idOrName = cluster_action env ''resume'' ''resuming cluster'' ''resume'' idOrName"

definition DeleteCluster :: "'n viridian_env \<Rightarrow> string \<Rightarrow> ('n, Cluster) vstep" where
  "DeleteCluster env idOrName =
     andthen (FindCluster env idOrName) (\<lambda>c.
     andthen (wrap_err ''deleting cluster'' (RetryOnAuthFail env (\<lambda>a.
         doDelete env (makeURL a (''/cluster/'' @ cl_ID c)) (Token a)))) (\<lambda>_. ret c))"

definition GetCluster :: "'n viridian_env \<Rightarrow> string \<Rightarrow> ('n, Cluster) vstep" where
  "GetCluster env idOrName =
     andthen (FindCluster env idOrName) (\<lambda>cluster.
       wrap_err ''retrieving cluster'' (get_at env (ve_cluster env) (''/cluster/'' @ cl_ID cluster)))"

subsection \<open>Custom classes\<close>

definition custom_classes_path :: "Cluster \<Rightarrow> string" where
  "custom_classes_path c = ''/cluster/'' @ cl_ID c @ ''/custom_classes''"

definition ListCustomClasses :: "'n viridian_env \<Rightarrow> string \<Rightarrow> ('n, CustomClass list) vstep" where
  "ListCustomClasses env cluster =
     andthen (FindCluster env cluster) (\<lambda>c.
       wrap_err ''listing custom classes'' (get_at env (ve_classes env) (custom_classes_path c)))"

fun find_artifact :: "string \<Rightarrow> CustomClass list \<Rightarrow> int \<times> string" where
  "find_artifact artifact [] = (0, [])"
| "find_artifact artifact (cc # ccs) =
     (if cc_Name cc = artifact \<or> itoa (cc_ID cc) = artifact then (cc_ID cc, cc_Name cc)
      else find_artifact artifact ccs)"

definition findArtifactIDAndName :: "'n viridian_env \<Rightarrow> string \<Rightarrow> string \<Rightarrow> ('n, int \<times> string) vstep" where
  "findArtifactIDAndName env cluster artifact =
     andthen (ListCustomClasses env cluster) (\<lambda>ccs. ret (find_artifact artifact ccs))"

definition DeleteCustomClass :: "'n viridian_env \<Rightarrow> string \<Rightarrow> string \<Rightarrow> ('n, unit) vstep" where
  "DeleteCustomClass env cluster artifact =
     andthen (FindCluster env cluster) (\<lambda>c.
     andthen (findArtifactIDAndName env cluster artifact) (\<lambda>(artifactID, _).
       if artifactID = 0
       then fail (Errorf (''no custom class artifact found with name or ID '' @ artifact @ '' in cluster '' @ cl_ID c))
       else RetryOnAuthFail env (\<lambda>a.
              doDelete env (makeURL a (custom_classes_path c @ ''/'' @ itoa artifactID)) (Token a))))"

text \<open>The upload is a multipart form with the file; the answer must be 200.\<close>

definition doCustomClassUpload :: "'n viridian_env \<Rightarrow> string \<Rightarrow> string \<Rightarrow> string \<Rightarrow> ('n, unit) vstep" where
  "doCustomClassUpload env url path token =
     andthen (on_fs (ReadFile path)) (\<lambda>content w.
       (let (ctype, body) = ve_form env (filepath_Base path) content in
        case ve_http env ((json_request ''POST'' url token body)\<lparr>hr_content_type := ctype\<rparr>) (vw_net w) of
          (Inl e, n') \<Rightarrow> (Inl e, w\<lparr>vw_net := n'\<rparr>)
        | (Inr (code, rb), n') \<Rightarrow>
            (if code \<noteq> 200 then Inl (NewHTTPClientError env code rb) else Inr (), w\<lparr>vw_net := n'\<rparr>)))"

definition UploadCustomClasses :: "'n viridian_env \<Rightarrow> string \<Rightarrow> string \<Rightarrow> ('n, unit) vstep" where
  "UploadCustomClasses env cluster filePath =
     andthen (FindCluster env cluster) (\<lambda>c.
       wrap_err ''uploading custom class'' (RetryOnAuthFail env (\<lambda>a.
         doCustomClassUpload env (makeURL a (custom_classes_path c)) filePath (Token a))))"

record TargetInfo =
  IsSet :: bool
  IsFile :: bool
  IsPathExists :: bool
  FileName :: string
  ti_Path :: string

definition checkIfFile :: "TargetInfo \<Rightarrow> string \<Rightarrow> TargetInfo" where
  "checkIfFile t target =
     (let (dir, f) = filepath_Split target; ext = filepath_Ext f in
      if f \<noteq> [] \<and> ext \<noteq> [] then t\<lparr>IsFile := True, FileName := f, ti_Path := dir\<rparr> else t\<lparr>ti_Path := target\<rparr>)"

definition CreateTargetInfo :: "'n viridian_env \<Rightarrow> string \<Rightarrow> TargetInfo" where
  "CreateTargetInfo env target =
     (let i = \<lparr>IsSet = False, IsFile = False, IsPathExists = False, FileName = [], ti_Path = []\<rparr> in
      if target \<noteq> [] then checkIfFile (i\<lparr>IsSet := True, IsPathExists := pl_exists (ve_place env) target\<rparr>) target
      else i)"

definition IsOverwrite :: "TargetInfo \<Rightarrow> bool" where
  "IsOverwrite t \<longleftrightarrow> IsSet t \<and> IsFile t \<and> IsPathExists t"

definition fileToBeCreated :: "TargetInfo \<Rightarrow> string \<Rightarrow> ('n, string) vstep" where
  "fileToBeCreated t artifactName =
     (if IsSet t then
        andthen (if ti_Path t = [] then ret () else on_fs (MkdirAll (ti_Path t))) (\<lambda>_.
          ret (if IsFile t then paths_Join [ti_Path t, FileName t] else paths_Join [ti_Path t, artifactName]))
      else ret artifactName)"

text \<open>The file is created, empty, before the request is made.\<close>

definition doCustomClassDownload ::
    "'n viridian_env \<Rightarrow> TargetInfo \<Rightarrow> string \<Rightarrow> string \<Rightarrow> string \<Rightarrow> ('n, unit) vstep" where
  "doCustomClassDownload env t url className token =
     andthen (fileToBeCreated t className) (\<lambda>fn.
     andthen (on_fs (WriteFile fn [])) (\<lambda>_.
     andthen (http_send env (json_request ''GET'' url token [])) (\<lambda>(code, rb).
       if code \<noteq> 200 then fail (NewHTTPClientError env code []) else on_fs (WriteFile fn rb))))"

definition DownloadCustomClass :: "'n viridian_env \<Rightarrow> TargetInfo \<Rightarrow> string \<Rightarrow> string \<Rightarrow> ('n, unit) vstep" where
  "DownloadCustomClass env targetInfo cluster artifact =
     andthen (FindCluster env cluster) (\<lambda>c.
     andthen (findArtifactIDAndName env cluster artifact) (\<lambda>(artifactID, artifactName).
       if artifactID = 0
       then fail (Errorf (''no custom class artifact found with name or ID '' @ artifact @ '' in cluster '' @ cl_ID c))
       else with_state (\<lambda>w. let url = makeURL (vw_api w) (custom_classes_path c @ ''/'' @ itoa artifactID) in
         RetryOnAuthFail env (\<lambda>a. doCustomClassDownload env targetInfo url artifactName (Token a)))))"

subsection \<open>Configurations and logs\<close>

definition makeConfigURL :: "string \<Rightarrow> string \<Rightarrow> string \<Rightarrow> string" where
  "makeConfigURL base clusterID language =
     base @ ''/client_samples/'' @ clusterID @ ''/'' @ language @ ''?source_identifier=default''"

definition DownloadConfig :: "'n viridian_env \<Rightarrow> string \<Rightarrow> string \<Rightarrow> ('n, string) vstep" where
  "DownloadConfig env clusterID language = with_state (\<lambda>w.
     let url = makeConfigURL (APIBaseURL (vw_api w)) clusterID language in
     RetryOnAuthFail env (\<lambda>a. download env url (Token a)))"

definition saveFile :: "string \<Rightarrow> bool \<Rightarrow> string \<Rightarrow> ('n, unit) vstep" where
  "saveFile name isDir content = (if isDir then on_fs (MkdirAll name) else on_fs (WriteFile name content))"

fun unzip_entries :: "string \<Rightarrow> (string \<times> bool \<times> string) list \<Rightarrow> ('n, unit) vstep" where
  "unzip_entries destDir [] = ret ()"
| "unzip_entries destDir ((name, isDir, content) # es) =
     andthen (saveFile (paths_Join [destDir, name]) isDir content) (\<lambda>_. unzip_entries destDir es)"

definition unzip :: "'n viridian_env \<Rightarrow> string \<Rightarrow> string \<Rightarrow> ('n, unit) vstep" where
  "unzip env zipContent destDir =
     andthen (lift_res (ve_zip env zipContent)) (\<lambda>entries.
       case (if destDir = [] then pl_wd (ve_place env) else Some destDir) of
         None \<Rightarrow> fail (Errorf ''getwd'')
       | Some d \<Rightarrow> andthen (on_fs (MkdirAll d)) (\<lambda>_. unzip_entries d entries))"

text \<open>The temporary file is removed at the end, whatever happens.\<close>

definition finally_remove :: "string \<Rightarrow> ('n, 'a) vstep \<Rightarrow> ('n, 'a) vstep" where
  "finally_remove p m w = (let (r, w') = m w in (r, snd (remove_file p w')))"

definition DownloadClusterLogs :: "'n viridian_env \<Rightarrow> string \<Rightarrow> string \<Rightarrow> ('n, string) vstep" where
  "DownloadClusterLogs env destDir idOrName =
     andthen (FindCluster env idOrName) (\<lambda>c.
     andthen (RetryOnAuthFail env (\<lambda>a. download env (makeURL a (''/cluster/'' @ cl_ID c @ ''/logs'')) (Token a))) (\<lambda>p.
       finally_remove p (andthen (on_fs (ReadFile p)) (\<lambda>content.
         if content = [] then fail (Errorf ''logs are not available yet, retry later'')
         else andthen (unzip env content destDir) (\<lambda>_. ret destDir)))))"

text \<open>The body of the log stream is what reaches the writer.\<close>

definition StreamLogs :: "'n viridian_env \<Rightarrow> string \<Rightarrow> ('n, string) vstep" where
  "StreamLogs env idOrName =
     andthen (FindCluster env idOrName) (\<lambda>c. with_state (\<lambda>w.
       let url = makeURL (vw_api w) (''/cluster/'' @ cl_ID c @ ''/logstream'') in
       RetryOnAuthFail env (\<lambda>a. doGetRaw env url (Token a))))"

subsection \<open>What is sent\<close>

text \<open>
  To speak of the requests, the network keeps a log of them. \<open>sends P k\<close> says that at most \<open>k\<close>
  requests were sent between two worlds, each satisfying \<open>P\<close>, and that the API keeps its address.
\<close>

definition logging :: "('n \<times> http_request list) viridian_env \<Rightarrow> bool" where
  "logging env \<longleftrightarrow> (\<forall>req n. snd (snd (ve_http env req n)) = snd n @ [req])"

definition sends ::
    "(http_request \<Rightarrow> bool) \<Rightarrow> nat \<Rightarrow> ('n \<times> http_request list) vworld \<Rightarrow> ('n \<times> http_request list) vworld \<Rightarrow> bool" where
  "sends P k w w' \<longleftrightarrow>
     (\<exists>new. snd (vw_net w') = snd (vw_net w) @ new \<and> length new \<le> k \<and> list_all P new) \<and>
     APIBaseURL (vw_api w') = APIBaseURL (vw_api w)"

named_theorems send_rules \<open>how many requests a step sends\<close>

lemma sends_refl [simp]: "sends P k w w"
  by (simp add: sends_def)

lemma sends_trans: "sends P k a b \<Longrightarrow> sends P l b c \<Longrightarrow> sends P (k + l) a c"
  by (fastforce simp: sends_def)

lemma sends_mono: "sends P k a b \<Longrightarrow> k \<le> l \<Longrightarrow> (\<And>r. P r \<Longrightarrow> Q r) \<Longrightarrow> sends Q l a b"
  unfolding sends_def by (meson list.pred_mono_strong order_trans)

lemma sends_http:
  assumes "logging env" "P req"
  shows "sends P (Suc 0) w (snd (http_send env req w))"
proof -
  obtain r n where h: "ve_http env req (vw_net w) = (r, n)" by (rule prod.exhaust)
  then have "snd n = snd (vw_net w) @ [req]" using assms(1) unfolding logging_def by (metis snd_conv)
  then show ?thesis using h assms(2) by (cases r) (auto simp: http_send_def sends_def)
qed

lemma sends_net_eq:
  "vw_net b' = vw_net b \<Longrightarrow> APIBaseURL (vw_api b') = APIBaseURL (vw_api b) \<Longrightarrow> sends P k a b \<Longrightarrow> sends P k a b'"
  by (simp add: sends_def)

lemma andthen_pure_snd: "(\<And>x s. snd (f x s) = s) \<Longrightarrow> snd (andthen m f s) = snd (m s)"
  by (simp add: andthen_def split: prod.splits sum.splits)

lemma sends_doGet: "logging env \<Longrightarrow> P (json_request ''GET'' url t []) \<Longrightarrow> sends P (Suc 0) w (snd (doGet env d url t w))"
  unfolding doGet_def by (subst andthen_pure_snd) (auto simp: lift_res_def fail_def sends_http)

lemma sends_doPost: "logging env \<Longrightarrow> P (json_request ''POST'' url t m) \<Longrightarrow> sends P (Suc 0) w (snd (doPost env d url t m w))"
  unfolding doPost_def doPostBytes_def
  by (subst andthen_pure_snd, simp add: lift_res_def, subst andthen_pure_snd)
    (auto simp: ret_def fail_def sends_http)

lemma sends_doDelete: "logging env \<Longrightarrow> P (json_request ''DELETE'' url t []) \<Longrightarrow> sends P (Suc 0) w (snd (doDelete env url t w))"
  unfolding doDelete_def by (subst andthen_pure_snd) (auto simp: ret_def fail_def sends_http)

lemma on_fs_keeps: "vw_net (snd (on_fs g w)) = vw_net w \<and> vw_api (snd (on_fs g w)) = vw_api w"
  by (simp add: on_fs_def split: prod.split)

lemma save_secret_keeps: "vw_net (snd (save_secret env p n c w)) = vw_net w \<and> vw_api (snd (save_secret env p n c w)) = vw_api w"
  by (simp add: save_secret_def with_state_def panics_def fail_def on_fs_keeps split: option.split)

lemma sends_login:
  assumes "logging env" "\<And>url t m. P (json_request ''POST'' url t m)"
  shows "sends P (Suc 0) w (snd (api_login env w))"
proof (cases "api_Key (vw_api w) = [] \<or> api_Secret (vw_api w) = []")
  case True
  then show ?thesis by (auto simp: api_login_def with_state_def fail_def Let_def)
next
  case False
  let ?p = "doPost env (ve_token env) (makeURL (vw_api w) ''/customers/api/login'') []
      (ve_login_json env (api_Key (vw_api w)) (api_Secret (vw_api w)))"
  have s: "sends P (Suc 0) w (snd (?p w))" by (rule sends_doPost [where P = P, OF assms(1) assms(2)])
  have "api_login env w = andthen ?p (\<lambda>t w. (Inr (), w\<lparr>vw_api := (vw_api w)\<lparr>Token := t\<rparr>\<rparr>)) w"
    using False by (simp add: api_login_def with_state_def Let_def)
  then show ?thesis
    using s by (cases "?p w"; cases "fst (?p w)") (auto simp: andthen_def sends_def)
qed

text \<open>A call with retry sends at most twice what the call sends, and one login.\<close>

lemma sends_retry:
  assumes "logging env" "\<And>url t m. P (json_request ''POST'' url t m)"
    and f: "\<And>v. APIBaseURL (vw_api v) = APIBaseURL (vw_api w) \<Longrightarrow> sends P k v (snd (f (vw_api v) v))"
  shows "sends P (2 * k + 1) w (snd (RetryOnAuthFail env f w))"
proof -
  obtain r w1 where f1: "f (vw_api w) w = (r, w1)" by fastforce
  have s1: "sends P k w w1" using f [of w] f1 by simp
  have sk: "sends P (2 * k + 1) w w1" by (rule sends_mono [OF s1]) auto
  show ?thesis
  proof (cases "\<exists>e t. r = Inl e \<and> err_as_http e = Some (401, t)")
    case False
    then have "RetryOnAuthFail env f w = (r, w1)"
      using f1 by (cases r) (auto simp: RetryOnAuthFail_def split: option.splits)
    then show ?thesis using sk by simp
  next
    case True
    let ?rest = "\<lambda>w2. let a = vw_api w2 in andthen (save_secret env (SecretPrefix a) (token_file env (api_Key a)) (Token a))
      (\<lambda>_. with_state (\<lambda>w3. f (vw_api w3)))"
    have R: "RetryOnAuthFail env f w = andthen (api_login env) (\<lambda>_. with_state ?rest) w1"
      using True f1 by (auto simp: RetryOnAuthFail_def)
    obtain r2 w2 where l: "api_login env w1 = (r2, w2)" by fastforce
    have s2: "sends P (k + Suc 0) w w2"
      using sends_trans [OF s1 sends_login [where P = P, OF assms(1,2)]] l by (metis snd_conv)
    show ?thesis
    proof (cases r2)
      case (Inl e)
      then show ?thesis using R l sends_mono [OF s2, of "2 * k + 1"] by (simp add: andthen_def)
    next
      case (Inr u)
      let ?a = "vw_api w2"
      obtain r3 w3 where sv: "save_secret env (SecretPrefix ?a) (token_file env (api_Key ?a)) (Token ?a) w2 = (r3, w3)"
        by fastforce
      have k3: "vw_net w3 = vw_net w2" "vw_api w3 = vw_api w2"
        using save_secret_keeps [of env "SecretPrefix ?a" "token_file env (api_Key ?a)" "Token ?a" w2] sv by simp_all
      have s3: "sends P (k + Suc 0) w w3" by (rule sends_net_eq [OF k3(1) _ s2]) (simp add: k3)
      have "sends P k w3 (snd (f (vw_api w3) w3))" by (rule f) (use s3 in \<open>simp add: sends_def\<close>)
      then have s4: "sends P (2 * k + 1) w (snd (f (vw_api w3) w3))"
        using sends_trans [OF s3] by (fastforce simp: mult_2 add.commute)
      show ?thesis
        using R l Inr sv s4 sends_mono [OF s3, of "2 * k + 1"]
        by (cases r3) (simp_all add: andthen_def with_state_def Let_def)
    qed
  qed
qed

lemma sends_get_at:
  assumes "logging env" "\<And>url t m. P (json_request ''POST'' url t m)"
    "\<And>t. P (json_request ''GET'' (APIBaseURL (vw_api w) @ path) t [])"
  shows "sends P 3 w (snd (get_at env d path w))"
proof -
  have "sends P (2 * Suc 0 + 1) w (snd (get_at env d path w))"
    unfolding get_at_def
  proof (rule sends_retry [where P = P, OF assms(1,2)])
    fix v :: "('a \<times> http_request list) vworld"
    assume b: "APIBaseURL (vw_api v) = APIBaseURL (vw_api w)"
    show "sends P (Suc 0) v (snd (doGet env d (makeURL (vw_api v) path) (Token (vw_api v)) v))"
      by (rule sends_doGet [where P = P, OF assms(1)]) (use assms(3) b in \<open>simp add: makeURL_def\<close>)
  qed
  then show ?thesis by (simp add: numeral_3_eq_3)
qed

definition not_delete :: "http_request \<Rightarrow> bool" where
  "not_delete r \<longleftrightarrow> hr_method r \<noteq> ''DELETE''"

lemma not_delete_requests [simp]:
  "not_delete (json_request ''POST'' url t m)" "not_delete (json_request ''GET'' url t m)"
  by (simp_all add: not_delete_def json_request_def)

lemma sends_FindCluster:
  "logging env \<Longrightarrow> sends not_delete 3 w (snd (FindCluster env idOrName w))"
  unfolding FindCluster_def
  by (subst andthen_pure_snd)
    (auto simp: ret_def fail_def ListClusters_def intro: sends_get_at split: option.split)

lemma find_cluster_Some: "find_cluster i cs = Some c \<Longrightarrow> c \<in> set cs \<and> (cl_ID c = i \<or> cl_Name c = i)"
  by (induction cs) (auto split: if_splits)

lemma FindCluster_found:
  assumes "FindCluster env i w = (Inr c, w')"
  shows "\<exists>cs w1. ListClusters env w = (Inr cs, w1) \<and> find_cluster i cs = Some c"
  using assms by (auto simp: FindCluster_def andthen_Inr_iff ret_def fail_def split: option.splits)

text \<open>
  C12: Deleting a cluster asks the service to delete nothing but the cluster found under the name or
  id given: whatever the service answers, with or without a new login, at most six requests are sent,
  and the only ones that delete are for a cluster of the list that has that name or id.
\<close>

theorem DeleteCluster_only_found:
  assumes "logging env"
  shows "sends (\<lambda>r. hr_method r = ''DELETE'' \<longrightarrow>
      (\<exists>cs c. fst (ListClusters env w) = Inr cs \<and> c \<in> set cs \<and> (cl_ID c = idOrName \<or> cl_Name c = idOrName) \<and>
         hr_url r = APIBaseURL (vw_api w) @ ''/cluster/'' @ cl_ID c)) 6 w (snd (DeleteCluster env idOrName w))"
    (is "sends ?P 6 w _")
proof -
  obtain r1 w1 where f: "FindCluster env idOrName w = (r1, w1)" by fastforce
  have s1: "sends not_delete 3 w w1" using sends_FindCluster [OF assms, of w idOrName] f by simp
  have m: "sends ?P 3 w w1" by (rule sends_mono [OF s1]) (auto simp: not_delete_def)
  show ?thesis
  proof (cases r1)
    case (Inl e)
    then show ?thesis using f sends_mono [OF m, of 6] by (simp add: DeleteCluster_def andthen_def)
  next
    case (Inr c)
    obtain cs where cs: "fst (ListClusters env w) = Inr cs" "find_cluster idOrName cs = Some c"
      using FindCluster_found f Inr by fastforce
    let ?del = "RetryOnAuthFail env (\<lambda>a. doDelete env (makeURL a (''/cluster/'' @ cl_ID c)) (Token a))"
    have p: "?P (json_request ''DELETE'' (APIBaseURL (vw_api w) @ ''/cluster/'' @ cl_ID c) t [])" for t
      using cs find_cluster_Some [OF cs(2)] by (auto simp: json_request_def)
    have "sends ?P (2 * Suc 0 + 1) w1 (snd (?del w1))"
    proof (rule sends_retry [OF assms])
      fix v :: "('a \<times> http_request list) vworld"
      assume b: "APIBaseURL (vw_api v) = APIBaseURL (vw_api w1)"
      have "APIBaseURL (vw_api w1) = APIBaseURL (vw_api w)" using s1 by (simp add: sends_def)
      then show "sends ?P (Suc 0) v (snd (doDelete env (makeURL (vw_api v) (''/cluster/'' @ cl_ID c)) (Token (vw_api v)) v))"
        by (intro sends_doDelete [where P = ?P, OF assms]) (use p b in \<open>simp add: makeURL_def\<close>)
    qed (simp add: json_request_def)
    then have "sends ?P (3 + (2 * Suc 0 + 1)) w (snd (?del w1))" by (rule sends_trans [OF m])
    moreover have "snd (DeleteCluster env idOrName w) = snd (?del w1)"
      using f Inr by (simp add: DeleteCluster_def andthen_def ret_def wrap_err_def split: prod.splits sum.splits)
    ultimately show ?thesis by simp
  qed
qed

subsection \<open>A sample service\<close>

definition sample_cluster :: "string \<Rightarrow> string \<Rightarrow> string \<Rightarrow> Cluster" where
  "sample_cluster i n st =
     \<lparr>cl_ID = i, cl_Name = n, HazelcastVersion = ''5.3.1'', cl_Memory = 0, MancenterURL = [], MemoryUsage = 0,
      CreationTime = 0, StartTime = 0, cl_State = st, DesiredState = st, ClientCount = 0,
      cl_ClusterType = \<lparr>ct_ID = 1, ct_Name = ''SERVERLESS'', DevMode = False\<rparr>, KubernetesClusters = [],
      HotBackupEnabled = False, HotRestartEnabled = False, PlanName = [], Regions = [], AllowedIps = [],
      IPWhitelistEnabled = False, MaxAvailableMemory = 0\<rparr>"

text \<open>It accepts the token \<open>new\<close> only, which it gives to everyone who logs in.\<close>

definition sample_http :: "http_request \<Rightarrow> (unit \<times> http_request list, int \<times> string) eff" where
  "sample_http req n =
     (Inr (if hr_url req = ''https://v/customers/api/login'' then (200, ''new'')
           else if hr_authorization req = ''Bearer new'' then (200, ''true'') else (401, ''expired'')),
      (fst n, snd n @ [req]))"

definition sample_venv :: "(unit \<times> http_request list) viridian_env" where
  "sample_venv = \<lparr>ve_place = sample_place, ve_ctx_err = (\<lambda>n. None), ve_http = sample_http, ve_temp = (\<lambda>n. ''/tmp/clc-download-1''),
     ve_rand = (\<lambda>n. 7), ve_now_text = (\<lambda>n. ''2023-10-05-00-00-00''), ve_login_json = (\<lambda>k s. k @ s), ve_create_json = cr_Name,
     ve_form = (\<lambda>n c. (''multipart/form-data'', c)), ve_token = (\<lambda>b. Inr b), ve_bool = (\<lambda>b. Inr (b = ''true'')),
     ve_clusters = (\<lambda>b. Inr [sample_cluster ''17'' ''dev'' ''RUNNING'', sample_cluster ''18'' ''prod'' ''PENDING'']),
     ve_cluster = (\<lambda>b. Inr (sample_cluster ''18'' ''prod'' ''PENDING'')), ve_cluster_types = (\<lambda>b. Inr []),
     ve_k8s = (\<lambda>b. Inr []), ve_classes = (\<lambda>b. Inr []), ve_message = (\<lambda>b. []), ve_zip = (\<lambda>b. Inr [])\<rparr>"

definition sample_vworld :: "(unit \<times> http_request list) vworld" where
  "sample_vworld = \<lparr>vw_api = NewAPI ''viridian'' ''K'' ''S'' ''old'' ''https://v/'', vw_net = ((), []), vw_fs = empty_fs\<rparr>"

lemma logging_sample: "logging sample_venv"
  by (simp add: logging_def sample_venv_def sample_http_def)

lemma DeleteCluster_only_found_witness:
  "sends (\<lambda>r. hr_method r = ''DELETE'' \<longrightarrow>
      (\<exists>cs c. fst (ListClusters sample_venv sample_vworld) = Inr cs \<and> c \<in> set cs \<and>
         (cl_ID c = ''prod'' \<or> cl_Name c = ''prod'') \<and>
         hr_url r = APIBaseURL (vw_api sample_vworld) @ ''/cluster/'' @ cl_ID c))
     6 sample_vworld (snd (DeleteCluster sample_venv ''prod'' sample_vworld))"
  by (rule DeleteCluster_only_found [OF logging_sample])

text \<open>
  C26: An expired token is no failure for the user: when the service refuses a request as
  unauthorized and accepts the key and secret, the request is made again with the new token and its
  answer is the result; the new token is the one the program holds and the one in the token file.
\<close>

theorem retry_after_login:
  assumes "ve_http env (json_request ''GET'' (makeURL (vw_api w) path) (Token (vw_api w)) []) (vw_net w) = (Inr (401, b), n1)"
    and "api_Key (vw_api w) \<noteq> []" "api_Secret (vw_api w) \<noteq> []"
    and "ve_http env (json_request ''POST'' (makeURL (vw_api w) ''/customers/api/login'') []
           (ve_login_json env (api_Key (vw_api w)) (api_Secret (vw_api w)))) n1 = (Inr (200, lb), n2)"
    and "ve_token env lb = Inr token"
    and "Secrets_Save (ve_place env) (ve_ctx_err env n2) (SecretPrefix (vw_api w))
           (token_file env (api_Key (vw_api w))) token = Some save" "save (vw_fs w) = (Inr (), fs')"
    and "ResolveSecretPath (ve_place env) (SecretPrefix (vw_api w)) (token_file env (api_Key (vw_api w))) = Some p"
    and "ve_http env (json_request ''GET'' (makeURL (vw_api w) path) token []) n2 = (Inr (200, rb), n3)"
  shows "\<exists>w'. get_at env decode path w = (decode rb, w') \<and> Token (vw_api w') = token \<and>
    fs_files (vw_fs w') = (fs_files (vw_fs w))(p \<mapsto> base64_encode token) \<and> vw_net w' = n3"
proof -
  let ?f = "\<lambda>a. doGet env decode (makeURL a path) (Token a)"
  have 1: "?f (vw_api w) w = (Inl (NewHTTPClientError env 401 b), w\<lparr>vw_net := n1\<rparr>)"
    using assms(1) by (simp add: doGet_def http_send_def andthen_def fail_def)
  have h: "err_as_http (NewHTTPClientError env 401 b) = Some (401, if ve_message env b \<noteq> [] then ve_message env b
      else ''an unexpected error occurred, please check logs for details'')"
    by (simp add: NewHTTPClientError_def Let_def)
  let ?w2 = "w\<lparr>vw_net := n2, vw_api := (vw_api w)\<lparr>Token := token\<rparr>\<rparr>"
  have 2: "api_login env (w\<lparr>vw_net := n1\<rparr>) = (Inr (), ?w2)"
    using assms(2-5)
    by (simp add: api_login_def with_state_def Let_def doPost_def doPostBytes_def http_send_def andthen_def ret_def lift_res_def)
  have 3: "save_secret env (SecretPrefix (vw_api w)) (token_file env (api_Key (vw_api w))) token ?w2 =
      (Inr (), ?w2\<lparr>vw_fs := fs'\<rparr>)"
    using assms(6,7) by (simp add: save_secret_def with_state_def panics_def on_fs_def)
  have 4: "?f ((vw_api w)\<lparr>Token := token\<rparr>) (?w2\<lparr>vw_fs := fs'\<rparr>) = (decode rb, ?w2\<lparr>vw_fs := fs', vw_net := n3\<rparr>)"
    using assms(9) by (simp add: doGet_def http_send_def andthen_def lift_res_def makeURL_def)
  have "get_at env decode path w = (decode rb, ?w2\<lparr>vw_fs := fs', vw_net := n3\<rparr>)"
    unfolding get_at_def RetryOnAuthFail_def
    using 1 2 3 4 h by (simp add: andthen_def with_state_def Let_def)
  then show ?thesis
    using Secrets_Save_writes [OF assms(6,7,8)] by simp
qed

lemma retry_after_login_witness:
  "\<exists>w'. get_at sample_venv (ve_bool sample_venv) ''/x'' sample_vworld = (Inr True, w') \<and> Token (vw_api w') = ''new''"
proof -
  have p: "ResolveSecretPath sample_place ''viridian'' ''api-K.access'' = Some ''/h/.hz/secrets/viridian/api-K.access''"
    "Secrets sample_place = Some ''/h/.hz/secrets''" by code_simp+
  obtain save fs' where s: "Secrets_Save sample_place None ''viridian'' ''api-K.access'' ''new'' = Some save"
    "save empty_fs = (Inr (), fs')"
    using Secrets_Save_empty [OF p(2,1)] by blast
  have e: "APIBaseURL (vw_api sample_vworld) = ''https://v''" "api_Key (vw_api sample_vworld) = ''K''"
    "api_Secret (vw_api sample_vworld) = ''S''" "SecretPrefix (vw_api sample_vworld) = ''viridian''"
    "Token (vw_api sample_vworld) = ''old''" "vw_fs sample_vworld = empty_fs"
    by (simp_all add: sample_vworld_def NewAPI_def trim_right_char_def)
  have t: "token_file sample_venv ''K'' = ''api-K.access''"
    by (simp add: token_file_def APIClass_def sample_venv_def sample_place_def)
  have h: "ve_http sample_venv = sample_http" "ve_bool sample_venv b = Inr (b = ''true'')" "ve_token sample_venv b = Inr b"
    "ve_ctx_err sample_venv n = None" for b n
    by (simp_all add: sample_venv_def)
  have v: "ve_place sample_venv = sample_place" by (simp add: sample_venv_def)
  show ?thesis
    using retry_after_login [of sample_venv sample_vworld "''/x''" "''expired''" _ "''new''" _ "''new''" save fs'
        "''/h/.hz/secrets/viridian/api-K.access''" "''true''" _ "ve_bool sample_venv"] s
    by (auto simp: e t h p v sample_http_def json_request_def makeURL_def) blast
qed

subsection \<open>A download that fails\<close>

text \<open>
  Downloading a custom class empties the target before the service has agreed: when the answer
  is not a success, the file that was to be created holds nothing, whatever it held before, and the
  error says what the service answered.
\<close>

theorem failed_download_empties:
  assumes "fileToBeCreated t className w = (Inr fn, w1)" "fs_write_error (vw_fs w1) fn = None"
    and "\<And>n. \<exists>n'. ve_http env (json_request ''GET'' url token []) n = (Inr (code, b), n')" "code \<noteq> 200"
  shows "\<exists>w'. doCustomClassDownload env t url className token w = (Inl (NewHTTPClientError env code []), w') \<and>
    fs_files (vw_fs w') fn = Some []"
proof -
  let ?w2 = "w1\<lparr>vw_fs := (vw_fs w1)\<lparr>fs_files := (fs_files (vw_fs w1))(fn \<mapsto> [])\<rparr>\<rparr>"
  obtain n' where n: "ve_http env (json_request ''GET'' url token []) (vw_net w1) = (Inr (code, b), n')"
    using assms(3) by blast
  have "on_fs (WriteFile fn []) w1 = (Inr (), ?w2)" using assms(2) by (simp add: on_fs_def WriteFile_def)
  then show ?thesis
    using assms(1,4) n by (simp add: doCustomClassDownload_def andthen_def http_send_def fail_def)
qed

lemma failed_download_empties_witness:
  "\<exists>w'. doCustomClassDownload sample_venv (CreateTargetInfo sample_venv ''out.jar'') ''https://v/x'' ''c.jar'' ''old''
      (sample_vworld\<lparr>vw_fs := empty_fs\<lparr>fs_files := [''out.jar'' \<mapsto> ''precious'']\<rparr>\<rparr>) =
    (Inl (NewHTTPClientError sample_venv 401 []), w') \<and> fs_files (vw_fs w') ''out.jar'' = Some []"
proof -
  let ?w = "sample_vworld\<lparr>vw_fs := empty_fs\<lparr>fs_files := [''out.jar'' \<mapsto> ''precious'']\<rparr>\<rparr>"
  let ?t = "CreateTargetInfo sample_venv ''out.jar''"
  have t: "IsSet ?t" "IsFile ?t" "ti_Path ?t = []" "paths_Join [ti_Path ?t, FileName ?t] = ''out.jar''" by code_simp+
  have "fileToBeCreated ?t ''c.jar'' ?w = (Inr ''out.jar'', ?w)"
    using t by (simp add: fileToBeCreated_def ret_def andthen_def)
  then show ?thesis
    by (rule failed_download_empties [where b = "''expired''"])
      (auto simp: empty_fs_def sample_venv_def sample_http_def json_request_def)
qed

end
