(* ===== verification/Config.thy ===== *)
theory Config
  imports SecretFiles ExecContext "HOL-Library.AList" "HOL-Library.Sublist"
begin

section \<open>Configurations (clc/config)\<close>

text \<open>
  A configuration is a YAML file of dotted keys. \<open>Create\<close> writes one from key and value pairs,
  \<open>FileProvider\<close> reads one and answers the program's questions, \<open>MakeHzConfig\<close> turns the answers into
  the settings of the client, and \<open>WizardProvider\<close> chooses a configuration when none was given. The
  parser of yaml.v3, the JSON encoder and the reader of archives are arguments.
\<close>

subsection \<open>Nested maps\<close>

type_synonym go_map = "(string \<times> go_val) list"

text \<open>
  Writing a value at a path of a nested map. None is the panic of the type assertion when a part of
  the path is a value already.
\<close>

fun set_path :: "string list \<Rightarrow> string \<Rightarrow> go_map \<Rightarrow> go_map option" where
  "set_path [] v m = Some m"
| "set_path [p] v m = Some (if p \<noteq> [] then AList.update p (VString v) m else m)"
| "set_path (p # q # ps) v m =
     (case map_of m p of
        None \<Rightarrow> map_option (\<lambda>mm. AList.update p (VMap mm) m) (set_path (q # ps) v [])
      | Some w \<Rightarrow>
          (case as_map w of
             None \<Rightarrow> None
           | Some mm \<Rightarrow> map_option (\<lambda>mm'. AList.update p (VMap mm') m) (set_path (q # ps) v mm)))"

fun convert_kvs :: "(string \<times> string) list \<Rightarrow> go_map \<Rightarrow> go_map option" where
  "convert_kvs [] m = Some m"
| "convert_kvs ((k, v) # kvs) m = Option.bind (set_path (split_on (CHR ''.'') k) v m) (convert_kvs kvs)"

definition ConvertKeyValuesToMap :: "(string \<times> string) list \<Rightarrow> go_map option" where
  "ConvertKeyValuesToMap kvs = convert_kvs kvs []"

text \<open>The leaves of a nested map under their dotted names, in the order of the traversal.\<close>

definition dotted :: "string \<Rightarrow> string \<Rightarrow> string" where
  "dotted root ks = (if root = [] then ks else join_with ''.'' [root, ks])"

function traverse :: "string \<Rightarrow> go_map \<Rightarrow> (string \<times> go_val) list" where
  "traverse root [] = []"
| "traverse root ((ks, v) # m) =
     (case v of
        VMap mm \<Rightarrow> traverse (dotted root ks) mm @ traverse root m
      | _ \<Rightarrow> (dotted root ks, v) # traverse root m)"
  by pat_completeness auto
termination
  by (relation "measure (\<lambda>(root, m). size_list (\<lambda>x. Suc (size (snd x))) m)") (auto simp: size_prod_simp)

subsection \<open>Writing a configuration\<close>

text \<open>
  \<open>config_files\<close> is what the functions need of the file system and of the libraries: the kind of an
  existing path (None when there is none), the parser of YAML, the encoder of JSON, and the entries
  of an archive with their names, whether they are directories, and their contents.
\<close>

record config_env =
  cf_place :: place
  cf_stat :: "string \<Rightarrow> (go_error + bool) option"
  cf_entries :: "string \<Rightarrow> go_error + (string \<times> bool) list"
  cf_yaml :: "string \<Rightarrow> go_error + go_map"
  cf_json :: "go_map \<Rightarrow> go_error + string"
  cf_zip :: "string \<Rightarrow> go_error + (string \<times> bool \<times> string) list"

definition DirAndFile :: "config_env \<Rightarrow> string \<Rightarrow> (go_error + string \<times> string) option" where
  "DirAndFile env path =
     (if CHR ''/'' \<notin> set path
      then map_option (\<lambda>d. Inr (d, ''config.yaml'')) (ResolveConfigDir (cf_place env) path)
      else Some (case cf_stat env path of
          Some (Inl e) \<Rightarrow> Inl e
        | Some (Inr isDir) \<Rightarrow>
            if isDir then Inr (path, ''config.yaml'')
            else Inr (trim_suffix (dir_part path) ''/'', base_name path)
        | None \<Rightarrow>
            if filepath_Ext path = [] then Inr (path, ''config.yaml'')
            else Inr (trim_suffix (dir_part path) ''/'', base_name path)))"

definition createFile ::
    "config_env \<Rightarrow> string \<Rightarrow> (string \<Rightarrow> go_error + string \<times> string) \<Rightarrow> (file_system, string \<times> string) eff option" where
  "createFile env path f =
     (case DirAndFile env path of
        None \<Rightarrow> None
      | Some r \<Rightarrow> Some
          (andthen (lift_res r) (\<lambda>(d, cfgPath).
           andthen (MkdirAll d) (\<lambda>_.
           andthen (lift_res (f cfgPath)) (\<lambda>(cfgPath, b).
           andthen (WriteFile (filepath_Join [d, cfgPath]) b) (\<lambda>_. ret (d, cfgPath)))))))"

text \<open>
  A section of the YAML text: its leaves, then its subsections, both in the order of the keys. Keys
  that occur twice stay in the order given; the code leaves that order open.
\<close>

definition key_head :: "string \<Rightarrow> string" where
  "key_head k = takeWhile (\<lambda>c. c \<noteq> CHR ''.'') k"

definition key_rest :: "string \<Rightarrow> string" where
  "key_rest k = drop 1 (dropWhile (\<lambda>c. c \<noteq> CHR ''.'') k)"

definition is_leaf :: "string \<times> string \<Rightarrow> bool" where
  "is_leaf opt \<longleftrightarrow> CHR ''.'' \<notin> set (fst opt)"

definition heads :: "(string \<times> string) list \<Rightarrow> string list" where
  "heads opts = sort (remdups (map (\<lambda>opt. key_head (fst opt)) (filter (\<lambda>opt. \<not> is_leaf opt) opts)))"

definition sub_opts :: "string \<Rightarrow> (string \<times> string) list \<Rightarrow> (string \<times> string) list" where
  "sub_opts h opts =
     map (\<lambda>(k, v). (key_rest k, v)) (filter (\<lambda>opt. \<not> is_leaf opt \<and> key_head (fst opt) = h) opts)"

definition copyOpt :: "nat \<Rightarrow> string \<times> string \<Rightarrow> string" where
  "copyOpt level opt = replicate (level * 2) CHR '' '' @ fst opt @ '': '' @ snd opt @ [CHR 0x0A]"

lemma key_parts: "\<not> is_leaf (k, v) \<Longrightarrow> k = key_head k @ CHR ''.'' # key_rest k"
  unfolding is_leaf_def key_head_def key_rest_def fst_conv not_not
  by (induction k) auto

lemma key_rest_shorter: "\<not> is_leaf o1 \<Longrightarrow> length (key_rest (fst o1)) < length (fst o1)"
  using arg_cong [OF key_parts [of "fst o1" "snd o1"], of length] by simp

text \<open>The size of the options, which falls from a section to its subsections.\<close>

primrec opts_size :: "(string \<times> string) list \<Rightarrow> nat" where
  "opts_size [] = 0"
| "opts_size (o1 # opts) = Suc (length (fst o1)) + opts_size opts"

lemma sub_opts_Cons:
  "sub_opts h (o1 # opts) =
     (if \<not> is_leaf o1 \<and> key_head (fst o1) = h then [(key_rest (fst o1), snd o1)] else []) @ sub_opts h opts"
  by (cases o1) (simp add: sub_opts_def)

lemma opts_size_append [simp]: "opts_size (xs @ ys) = opts_size xs + opts_size ys"
  by (induction xs) auto

lemma opts_size_le: "opts_size (sub_opts h opts) \<le> opts_size opts"
proof (induction opts)
  case (Cons o1 opts)
  then show ?case using key_rest_shorter [of o1] by (auto simp: sub_opts_Cons)
qed (simp add: sub_opts_def)

lemma opts_size_less: "h \<in> set (heads opts) \<Longrightarrow> opts_size (sub_opts h opts) < opts_size opts"
proof (induction opts)
  case (Cons o1 opts)
  show ?case
  proof (cases "\<not> is_leaf o1 \<and> key_head (fst o1) = h")
    case True
    then show ?thesis using key_rest_shorter [of o1] opts_size_le [of h opts] by (simp add: sub_opts_Cons)
  next
    case False
    then have "h \<in> set (heads opts)" using Cons.prems by (auto simp: heads_def split: if_splits)
    then show ?thesis using Cons.IH False by (auto simp: sub_opts_Cons)
  qed
qed (simp add: heads_def)

function copySection :: "string \<Rightarrow> nat \<Rightarrow> (string \<times> string) list \<Rightarrow> string" where
  "copySection name level opts0 =
     (let opts = sort_key fst opts0 in
      if opts = [] then []
      else (let level' = (if name \<noteq> [] then level + 1 else level) in
        (if name \<noteq> [] then replicate (level * 2) CHR '' '' @ name @ '':'' @ [CHR 0x0A] else []) @
        concat (map (copyOpt level') (filter is_leaf opts)) @
        concat (map (\<lambda>h. copySection h level' (sub_opts h opts)) (heads opts))))"
  by pat_completeness auto
termination
proof (relation "measure (\<lambda>(name, level, opts). opts_size opts)")
  fix name level opts0 x xa and xb
  assume x: "x = sort_key fst opts0" and h: "xb \<in> set (heads x)"
  have "opts_size (sort_key fst opts0) = opts_size opts0"
  proof -
    have "opts_size l = sum_mset (image_mset (\<lambda>o1. Suc (length (fst o1))) (mset l))" for l
      by (induction l) auto
    then show ?thesis by simp
  qed
  then show "((xb, xa, sub_opts xb x), name, level, opts0) \<in> measure (\<lambda>(name, level, opts). opts_size opts)"
    using opts_size_less [OF h] x by simp
qed simp

declare copySection.simps [simp del]

definition CreateYAML :: "(string \<times> string) list \<Rightarrow> string" where
  "CreateYAML opts = copySection [] 0 opts"

definition Create :: "config_env \<Rightarrow> string \<Rightarrow> (string \<times> string) list \<Rightarrow> (file_system, string \<times> string) eff option" where
  "Create env path opts = createFile env path (\<lambda>cfgPath. Inr (cfgPath, CreateYAML opts))"

definition CreateJSON :: "config_env \<Rightarrow> string \<Rightarrow> go_map \<Rightarrow> (file_system, string \<times> string) eff option" where
  "CreateJSON env path opts =
     createFile env path (\<lambda>cfgPath. bind_res (cf_json env opts) (\<lambda>b. Inr (ReplaceExt cfgPath ''.json'', b)))"

definition Config_FindAll :: "config_env \<Rightarrow> string \<Rightarrow> go_error + string list" where
  "Config_FindAll env cd =
     paths_FindAll (cf_entries env cd) (\<lambda>(n, isDir). isDir \<and> pl_exists (cf_place env) (paths_Join [cd, n, ''config.yaml'']))"

subsection \<open>Importing an archive\<close>

text \<open>The directories of the archive are dropped: only the last part of a name is used.\<close>

fun copyFiles :: "go_error option \<Rightarrow> (string \<times> string) list \<Rightarrow> string \<Rightarrow> (file_system, unit) eff" where
  "copyFiles ctxErr [] outDir = ret ()"
| "copyFiles ctxErr ((name, content) # files) outDir =
     (case ctxErr of
        Some e \<Rightarrow> fail e
      | None \<Rightarrow>
          andthen (WriteFile (paths_Join [outDir, snd (filepath_Split name)]) content)
            (\<lambda>_. copyFiles ctxErr files outDir))"

definition CreateFromZip ::
    "config_env \<Rightarrow> go_error option \<Rightarrow> string \<Rightarrow> string \<Rightarrow> (file_system, string) eff option" where
  "CreateFromZip env ctxErr target path =
     (case DirAndFile env target of
        None \<Rightarrow> None
      | Some df \<Rightarrow> Some
          (andthen (ReadFile path) (\<lambda>z.
           andthen (lift_res (cf_zip env z)) (\<lambda>entries.
             if ctxErr \<noteq> None \<and> entries \<noteq> [] then fail (the ctxErr)
             else if \<not> list_ex (\<lambda>(n, d, c). has_suffix n ''/config.json'') entries then ret []
             else
               andthen (lift_res df) (\<lambda>(outDir, cfgFileName).
               andthen (MkdirAll outDir) (\<lambda>_.
               andthen (copyFiles ctxErr (map (\<lambda>(n, d, c). (n, c)) (filter (\<lambda>(n, d, c). \<not> d) entries)) outDir) (\<lambda>_.
                 ret (paths_Join [outDir, cfgFileName]))))))))"

subsection \<open>The settings of the client\<close>

record hz_config =
  hz_unisocket :: bool
  hz_stats :: bool
  hz_cloud_token :: "string option"
  hz_address :: "string option"
  hz_cluster_name :: string
  hz_ssl :: "(string \<times> bool) option"
  hz_ca_path :: "string option"
  hz_client_cert :: "(string \<times> string \<times> string option) option"
  hz_api_base :: string
  hz_labels :: "string list"
  hz_client_name :: string
  hz_credentials :: "(string \<times> string) option"

subsection \<open>Reading a configuration\<close>

text \<open>A flag of the command line: whether it was given and its value.\<close>

record pflag =
  Changed :: bool
  flag_value :: string

record FileProvider =
  fp_cfg :: "string \<rightharpoonup> go_val"
  fp_defaults :: "string \<rightharpoonup> go_val"
  fp_keys :: "string list"
  fp_boundFlags :: "string \<rightharpoonup> pflag"
  fp_canUseClientConfig :: bool
  fp_clientCfg :: "hz_config option"
  fp_path :: string

definition empty_provider :: FileProvider where
  "empty_provider = \<lparr>fp_cfg = Map.empty, fp_defaults = Map.empty, fp_keys = [], fp_boundFlags = Map.empty,
     fp_canUseClientConfig = False, fp_clientCfg = None, fp_path = []\<rparr>"

definition add_key :: "string \<Rightarrow> string list \<Rightarrow> string list" where
  "add_key k ks = (if k \<in> set ks then ks else ks @ [k])"

definition traverseMap :: "string \<Rightarrow> go_map \<Rightarrow> FileProvider \<Rightarrow> FileProvider" where
  "traverseMap root m p =
     foldl (\<lambda>p (r, v). p\<lparr>fp_cfg := (fp_cfg p)(r \<mapsto> v), fp_keys := add_key r (fp_keys p)\<rparr>) p (traverse root m)"

definition fp_load :: "config_env \<Rightarrow> string \<Rightarrow> FileProvider \<Rightarrow> (file_system, FileProvider) eff option" where
  "fp_load env path0 p =
     (case ResolveConfigPath (cf_place env) path0 of
        None \<Rightarrow> None
      | Some path \<Rightarrow> Some
          (if path = [] then ret p
           else if \<not> pl_exists (cf_place env) path
                then fail (Wrapf (''configuration does not exist '' @ path) (Sentinel ''file does not exist''))
           else (let p1 = p\<lparr>fp_path := path, fp_keys := add_key path (fp_keys p)\<rparr> in
             andthen (wrap_err ''reading configuration'' (ReadFile path)) (\<lambda>b.
             andthen (wrap_err ''loading configuration'' (lift_res (cf_yaml env b))) (\<lambda>m.
               ret ((traverseMap [] m p1)\<lparr>fp_canUseClientConfig := True\<rparr>))))))"

definition NewFileProvider :: "config_env \<Rightarrow> string \<Rightarrow> (file_system, FileProvider) eff option" where
  "NewFileProvider env path = fp_load env path empty_provider"

definition fp_get :: "FileProvider \<Rightarrow> string \<Rightarrow> go_val option" where
  "fp_get p name = (case fp_cfg p name of Some v \<Rightarrow> Some v | None \<Rightarrow> fp_defaults p name)"

text \<open>None is the panic of the type assertion.\<close>

definition fp_GetString :: "FileProvider \<Rightarrow> string \<Rightarrow> string option" where
  "fp_GetString p key =
     (if key = ''config'' then Some (fp_path p)
      else case fp_boundFlags p key of
          Some f \<Rightarrow> if Changed f then Some (flag_value f)
                    else (case fp_get p key of Some v \<Rightarrow> as_string v | None \<Rightarrow> Some [])
        | None \<Rightarrow> (case fp_get p key of Some v \<Rightarrow> as_string v | None \<Rightarrow> Some []))"

definition fp_GetBool :: "FileProvider \<Rightarrow> string \<Rightarrow> bool option" where
  "fp_GetBool p name = (case fp_get p name of Some v \<Rightarrow> as_bool v | None \<Rightarrow> Some False)"

definition fp_GetInt :: "FileProvider \<Rightarrow> string \<Rightarrow> int option" where
  "fp_GetInt p name = (case fp_get p name of Some v \<Rightarrow> as_int64 v | None \<Rightarrow> Some 0)"

definition fp_Set :: "string \<Rightarrow> go_val \<Rightarrow> FileProvider \<Rightarrow> FileProvider" where
  "fp_Set key v p = p\<lparr>fp_defaults := (fp_defaults p)(key \<mapsto> v), fp_keys := add_key key (fp_keys p)\<rparr>"

definition fp_All :: "FileProvider \<Rightarrow> string \<rightharpoonup> go_val" where
  "fp_All p = (\<lambda>k. if k \<in> set (fp_keys p) then fp_get p k else None)"

definition fp_BindFlag :: "string \<Rightarrow> pflag \<Rightarrow> FileProvider \<Rightarrow> FileProvider" where
  "fp_BindFlag name flag p = p\<lparr>fp_boundFlags := (fp_boundFlags p)(name \<mapsto> flag)\<rparr>"

subsection \<open>Making the settings\<close>

text \<open>
  The environment variables, the user and the host (None when unknown), the clock in seconds, and the
  errors of the certificate loaders of the client library.
\<close>

record client_env =
  cn_lookup_env :: "string \<Rightarrow> string option"
  cn_user :: "string option"
  cn_host :: "string option"
  cn_unix :: int
  cn_ca_error :: "string \<Rightarrow> go_error option"
  cn_cert_error :: "string \<Rightarrow> string \<Rightarrow> string option \<Rightarrow> go_error option"

definition or_unknown :: "string option \<Rightarrow> string" where
  "or_unknown n = (case n of None \<Rightarrow> ''UNKNOWN'' | Some s \<Rightarrow> s)"

definition userName :: "client_env \<Rightarrow> string" where "userName ce = or_unknown (cn_user ce)"
definition hostName :: "client_env \<Rightarrow> string" where "hostName ce = or_unknown (cn_host ce)"

definition userHostName :: "client_env \<Rightarrow> string" where
  "userHostName ce = userName ce @ ''@'' @ hostName ce"

definition makeClientName :: "client_env \<Rightarrow> string" where
  "makeClientName ce =
     (case cn_lookup_env ce ''CLC_CLIENT_NAME'' of
        Some (c # cn) \<Rightarrow> c # cn
      | _ \<Rightarrow> userHostName ce @ ''-'' @ itoa (cn_unix ce))"

definition makeClientLabels :: "client_env \<Rightarrow> string list" where
  "makeClientLabels ce =
     (case cn_lookup_env ce ''CLC_CLIENT_LABELS'' of
        Some lss \<Rightarrow> SplitByComma lss True
      | None \<Rightarrow> [''CLC'', ''User:'' @ userHostName ce])"

definition empty_hz :: hz_config where
  "empty_hz = \<lparr>hz_unisocket = True, hz_stats = True, hz_cloud_token = None, hz_address = None, hz_cluster_name = [],
     hz_ssl = None, hz_ca_path = None, hz_client_cert = None, hz_api_base = [], hz_labels = [],
     hz_client_name = [], hz_credentials = None\<rparr>"

definition check_then :: "go_error option \<Rightarrow> (hz_config \<Rightarrow> hz_config) \<Rightarrow> (hz_config, unit) eff" where
  "check_then e f = (case e of Some err \<Rightarrow> fail err | None \<Rightarrow> modify_state f)"

definition when_set :: "string \<Rightarrow> (hz_config, unit) eff \<Rightarrow> (hz_config, unit) eff" where
  "when_set s m = (if s \<noteq> [] then m else ret ())"

text \<open>
  The properties are read through \<open>gs\<close> and \<open>gb\<close>, which may panic, as an error; the configuration is
  built step by step.
\<close>

definition hz_ssl_part ::
    "client_env \<Rightarrow> (string \<Rightarrow> go_error + string) \<Rightarrow> (string \<Rightarrow> go_error + bool) \<Rightarrow> string \<Rightarrow> bool \<Rightarrow> (hz_config, unit) eff" where
  "hz_ssl_part ce gs gb wd viridianEnabled =
     andthen (if viridianEnabled then ret ''hazelcast.cloud'' else lift_res (gs ''ssl.server'')) (\<lambda>sn.
     andthen (lift_res (gb ''ssl.skip-verify'')) (\<lambda>sv.
     andthen (modify_state (\<lambda>c. c\<lparr>hz_ssl := Some (sn, sv)\<rparr>)) (\<lambda>_.
     andthen (lift_res (gs ''ssl.ca-path'')) (\<lambda>ca.
     andthen (when_set ca (check_then (cn_ca_error ce (paths_Join [wd, ca])) (\<lambda>c. c\<lparr>hz_ca_path := Some (paths_Join [wd, ca])\<rparr>))) (\<lambda>_.
     andthen (lift_res (gs ''ssl.cert-path'')) (\<lambda>cp.
     andthen (lift_res (gs ''ssl.key-path'')) (\<lambda>kp.
     andthen (lift_res (gs ''ssl.key-password'')) (\<lambda>kps.
     if cp \<noteq> [] \<and> kp \<noteq> [] then
       (let cp = paths_Join [wd, cp]; kp = paths_Join [wd, kp]; pw = (if kps \<noteq> [] then Some kps else None)
        in check_then (cn_cert_error ce cp kp pw) (\<lambda>c. c\<lparr>hz_client_cert := Some (cp, kp, pw)\<rparr>))
     else ret ()))))))))"

definition MakeHzConfig_steps ::
    "client_env \<Rightarrow> (string \<Rightarrow> go_error + string) \<Rightarrow> (string \<Rightarrow> go_error + bool) \<Rightarrow> (hz_config, unit) eff" where
  "MakeHzConfig_steps ce gs gb =
     andthen (lift_res (gs ''config'')) (\<lambda>cfgPath.
     andthen (lift_res (gs ''cluster.discovery-token'')) (\<lambda>vt.
     andthen (when_set vt (modify_state (\<lambda>c. c\<lparr>hz_cloud_token := Some vt\<rparr>))) (\<lambda>_.
     andthen (lift_res (gs ''cluster.address'')) (\<lambda>ca.
     andthen (if ca \<noteq> [] \<and> vt = [] then modify_state (\<lambda>c. c\<lparr>hz_address := Some ca\<rparr>) else ret ()) (\<lambda>_.
     andthen (lift_res (gs ''cluster.name'')) (\<lambda>cn.
     andthen (when_set cn (modify_state (\<lambda>c. c\<lparr>hz_cluster_name := cn\<rparr>))) (\<lambda>_.
     andthen (lift_res (gb ''ssl.enabled'')) (\<lambda>ssl.
     andthen (if ssl \<or> vt \<noteq> [] then hz_ssl_part ce gs gb (filepath_Dir cfgPath) (vt \<noteq> []) else ret ()) (\<lambda>_.
     andthen (lift_res (gs ''cluster.api-base'')) (\<lambda>ab.
     andthen (when_set ab (modify_state (\<lambda>c. c\<lparr>hz_api_base := ab\<rparr>))) (\<lambda>_.
     andthen (modify_state (\<lambda>c. c\<lparr>hz_labels := makeClientLabels ce, hz_client_name := makeClientName ce\<rparr>)) (\<lambda>_.
     andthen (lift_res (gs ''cluster.user'')) (\<lambda>usr.
     andthen (lift_res (gs ''cluster.password'')) (\<lambda>pass.
     if usr \<noteq> [] \<or> pass \<noteq> [] then modify_state (\<lambda>c. c\<lparr>hz_credentials := Some (usr, pass)\<rparr>)
     else ret ()))))))))))))))"

definition MakeHzConfig ::
    "client_env \<Rightarrow> (string \<Rightarrow> go_error + string) \<Rightarrow> (string \<Rightarrow> go_error + bool) \<Rightarrow> go_error + hz_config" where
  "MakeHzConfig ce gs gb =
     (case MakeHzConfig_steps ce gs gb empty_hz of (Inl e, _) \<Rightarrow> Inl e | (Inr _, c) \<Rightarrow> Inr c)"

definition or_panics :: "'a option \<Rightarrow> go_error + 'a" where
  "or_panics v = (case v of None \<Rightarrow> Inl panic_error | Some x \<Rightarrow> Inr x)"

definition fp_ClientConfig :: "client_env \<Rightarrow> (FileProvider, hz_config) eff" where
  "fp_ClientConfig ce p =
     (case fp_clientCfg p of
        Some cc \<Rightarrow> (Inr cc, p)
      | None \<Rightarrow>
          if \<not> fp_canUseClientConfig p then (Inl ErrNoClusterConfig, p)
          else (case MakeHzConfig ce (\<lambda>k. or_panics (fp_GetString p k)) (\<lambda>k. or_panics (fp_GetBool p k)) of
                  Inl e \<Rightarrow> (Inl e, p)
                | Inr cc \<Rightarrow> (Inr cc, p\<lparr>fp_clientCfg := Some cc\<rparr>)))"

subsection \<open>The wizard\<close>

text \<open>
  The user picks one of the configurations from a list, or cancels, or the list cannot be shown. The
  provider in use is replaced only when the chosen configuration gives settings. The text printed when
  there is no configuration is left out; \<open>pipe\<close> says whether the output is no terminal.
\<close>

type_synonym wizard = "string list \<Rightarrow> go_error + string option"

definition runWizard :: "wizard \<Rightarrow> string list \<Rightarrow> go_error + string" where
  "runWizard pick cs =
     (case pick cs of
        Inl e \<Rightarrow> Inl e
      | Inr None \<Rightarrow> Inl ErrUserCancelled
      | Inr (Some c) \<Rightarrow> Inr c)"

definition wizard_name :: "config_env \<Rightarrow> bool \<Rightarrow> wizard \<Rightarrow> go_error + string list \<Rightarrow> go_error + string" where
  "wizard_name env pipe pick found =
     (case found of
        Inl e \<Rightarrow> Inl ErrNoClusterConfig
      | Inr [] \<Rightarrow> Inl ErrNoClusterConfig
      | Inr [c] \<Rightarrow> if c \<noteq> [] then Inr c else
          if pipe then Inl (Errorf ''no configuration was provided and cannot display the configuration wizard; use the --config flag'')
          else runWizard pick [c]
      | Inr cs \<Rightarrow>
          if pipe then Inl (Errorf ''no configuration was provided and cannot display the configuration wizard; use the --config flag'')
          else runWizard pick cs)"

definition wizard_ClientConfig ::
    "config_env \<Rightarrow> client_env \<Rightarrow> bool \<Rightarrow> wizard \<Rightarrow> (FileProvider \<times> file_system, hz_config) eff option" where
  "wizard_ClientConfig env ce pipe pick =
     (case Configs (cf_place env) of
        None \<Rightarrow> None
      | Some cd \<Rightarrow> Some (\<lambda>(p, fs).
          (case fp_ClientConfig ce p of
             (Inr cfg, p1) \<Rightarrow> (Inr cfg, (p1, fs))
           | (Inl e, p1) \<Rightarrow>
               if \<not> err_is e ''no configuration was specified'' then (Inl e, (p1, fs))
               else (case wizard_name env pipe pick (Config_FindAll env cd) of
                  Inl e' \<Rightarrow> (Inl e', (p1, fs))
                | Inr name \<Rightarrow>
                    (case NewFileProvider env name of
                       None \<Rightarrow> (Inl panic_error, (p1, fs))
                     | Some load \<Rightarrow>
                         (case load fs of
                            (Inl e', fs1) \<Rightarrow> (Inl e', (p1, fs1))
                          | (Inr fp, fs1) \<Rightarrow>
                              (case fp_ClientConfig ce fp of
                                 (Inl e', _) \<Rightarrow> (Inl e', (p1, fs1))
                               | (Inr cfg, fp1) \<Rightarrow> (Inr cfg, (fp1, fs1)))))))))"

subsection \<open>What is added is read back\<close>

text \<open>The leaves of a nested map, by the lists of the parts of their names.\<close>

function leaf_paths :: "go_map \<Rightarrow> (string list \<times> go_val) list" where
  "leaf_paths [] = []"
| "leaf_paths ((k, v) # m) =
     (case v of VMap mm \<Rightarrow> map (\<lambda>(ps, w). (k # ps, w)) (leaf_paths mm) | _ \<Rightarrow> [([k], v)]) @ leaf_paths m"
  by pat_completeness auto
termination
  by (relation "measure (size_list (\<lambda>x. Suc (size (snd x))))") (auto simp: size_prod_simp)

inductive wf_map :: "go_map \<Rightarrow> bool" where
  wf_mapI: "distinct (map fst m) \<Longrightarrow> (\<And>k mm. (k, VMap mm) \<in> set m \<Longrightarrow> wf_map mm) \<Longrightarrow> wf_map m"

inductive_cases wf_mapE: "wf_map m"

lemma wf_map_distinct: "wf_map m \<Longrightarrow> distinct (map fst m)"
  by (elim wf_mapE)

lemma wf_map_sub: "wf_map m \<Longrightarrow> (k, VMap mm) \<in> set m \<Longrightarrow> wf_map mm"
  by (elim wf_mapE) blast

text \<open>The leaves below one value: itself, unless it is a map.\<close>

definition leaf_in :: "go_val \<Rightarrow> string list \<Rightarrow> go_val \<Rightarrow> bool" where
  "leaf_in v ps w \<longleftrightarrow> (case v of VMap mm \<Rightarrow> (ps, w) \<in> set (leaf_paths mm) | _ \<Rightarrow> ps = [] \<and> w = v)"

lemma leaf_paths_nonempty: "([], w) \<notin> set (leaf_paths m)"
proof (induction m)
  case (Cons e m)
  then show ?case by (cases e; cases "snd e") auto
qed simp

lemma leaf_paths_Cons:
  "(k # ps, w) \<in> set (leaf_paths ((k0, v) # m)) \<longleftrightarrow> k = k0 \<and> leaf_in v ps w \<or> (k # ps, w) \<in> set (leaf_paths m)"
  by (cases v) (auto simp: leaf_in_def)

lemma leaf_paths_key: "(k # ps, w) \<in> set (leaf_paths m) \<Longrightarrow> k \<in> fst ` set m"
proof (induction m)
  case (Cons e m)
  then show ?case by (cases e) (auto simp: leaf_paths_Cons simp del: leaf_paths.simps)
qed simp

lemma leaf_paths_iff:
  "distinct (map fst m) \<Longrightarrow> (k # ps, w) \<in> set (leaf_paths m) \<longleftrightarrow>
     (case map_of m k of None \<Rightarrow> False | Some v \<Rightarrow> leaf_in v ps w)"
proof (induction m)
  case (Cons e m)
  obtain k0 v0 where e: "e = (k0, v0)" by (cases e)
  show ?case
  proof (cases "k = k0")
    case True
    then have "(k # ps, w) \<notin> set (leaf_paths m)"
      using leaf_paths_key [of k ps w m] Cons.prems e by auto
    then show ?thesis using True e by (simp add: leaf_paths_Cons del: leaf_paths.simps)
  next
    case False
    then show ?thesis using Cons e by (simp add: leaf_paths_Cons del: leaf_paths.simps)
  qed
qed simp

lemma wf_map_update:
  assumes "wf_map m" "\<And>mm. v = VMap mm \<Longrightarrow> wf_map mm"
  shows "wf_map (AList.update k v m)"
proof (rule wf_mapI)
  show d: "distinct (map fst (AList.update k v m))"
    using wf_map_distinct [OF assms(1)] by (simp add: distinct_update)
  fix k' mm assume "(k', VMap mm) \<in> set (AList.update k v m)"
  then have u: "map_of (AList.update k v m) k' = Some (VMap mm)" using d by simp
  show "wf_map mm"
  proof (cases "k' = k")
    case True
    then show ?thesis using u assms(2) by (simp add: update_conv')
  next
    case False
    then have "map_of m k' = Some (VMap mm)" using u by (simp add: update_conv')
    then show ?thesis using wf_map_sub [OF assms(1)] map_of_SomeD by fast
  qed
qed

lemma leaf_paths_update:
  assumes "wf_map m" "\<And>mm. v = VMap mm \<Longrightarrow> wf_map mm"
  shows "(k' # ps, w) \<in> set (leaf_paths (AList.update k v m)) \<longleftrightarrow>
    (if k' = k then leaf_in v ps w else (k' # ps, w) \<in> set (leaf_paths m))"
proof -
  have d: "distinct (map fst (AList.update k v m))" by (rule wf_map_distinct [OF wf_map_update [OF assms]])
  show ?thesis
    using leaf_paths_iff [OF d, of k' ps w] leaf_paths_iff [OF wf_map_distinct [OF assms(1)], of k' ps w]
    by (simp add: update_conv')
qed

text \<open>
  Two names conflict when one continues the other. Writing at a path that conflicts with no leaf
  succeeds, sets that leaf and keeps the others.
\<close>

definition conflict :: "string list \<Rightarrow> string list \<Rightarrow> bool" where
  "conflict p q \<longleftrightarrow> p \<noteq> q \<and> (prefix p q \<or> prefix q p)"

lemma set_path_leaves:
  assumes "wf_map m" "ps \<noteq> []" "[] \<notin> set ps" "\<forall>(q, w) \<in> set (leaf_paths m). \<not> conflict ps q"
  shows "\<exists>m'. set_path ps v m = Some m' \<and> wf_map m' \<and>
    (\<forall>q w. (q, w) \<in> set (leaf_paths m') \<longleftrightarrow> (if q = ps then w = VString v else (q, w) \<in> set (leaf_paths m)))"
  using assms
proof (induction ps v m rule: set_path.induct)
  case (2 p v m)
  let ?m = "AList.update p (VString v) m"
  have w: "wf_map ?m" using "2.prems" by (intro wf_map_update) auto
  have l: "(k # qs, w) \<in> set (leaf_paths ?m) \<longleftrightarrow> (if k # qs = [p] then w = VString v else (k # qs, w) \<in> set (leaf_paths m))" for k qs w
  proof (cases "k = p \<and> qs \<noteq> []")
    case True
    then have "conflict [p] (k # qs)" by (auto simp: conflict_def)
    then have "(k # qs, w) \<notin> set (leaf_paths m)" using "2.prems"(4) by blast
    then show ?thesis using True leaf_paths_update [OF "2.prems"(1), of "VString v" k qs w p] by (simp add: leaf_in_def)
  next
    case False
    then show ?thesis using leaf_paths_update [OF "2.prems"(1), of "VString v" k qs w p] by (auto simp: leaf_in_def)
  qed
  have "(q, w) \<in> set (leaf_paths ?m) \<longleftrightarrow> (if q = [p] then w = VString v else (q, w) \<in> set (leaf_paths m))" for q w
    using l leaf_paths_nonempty by (cases q) auto
  then show ?case using w "2.prems"(3) by simp
next
  case (3 p q' ps v m)
  have sub: "\<exists>mm mm'. (map_of m p = Some (VMap mm) \<or> map_of m p = None \<and> mm = []) \<and>
      set_path (q' # ps) v mm = Some mm' \<and> wf_map mm' \<and>
      (\<forall>q w. (q, w) \<in> set (leaf_paths mm') \<longleftrightarrow> (if q = q' # ps then w = VString v else (q, w) \<in> set (leaf_paths mm)))"
  proof (cases "map_of m p")
    case None
    have "wf_map []" by (rule wf_mapI) auto
    then show ?thesis using "3.IH"(1) [OF None] "3.prems" None by simp
  next
    case (Some u)
    have iff: "(p # r, w) \<in> set (leaf_paths m) \<longleftrightarrow> leaf_in u r w" for r w
      using leaf_paths_iff [OF wf_map_distinct [OF "3.prems"(1)], of p r w] Some by simp
    have "\<exists>mm. u = VMap mm"
    proof (rule ccontr)
      assume "\<not> (\<exists>mm. u = VMap mm)"
      then have "leaf_in u [] u" by (cases u) (auto simp: leaf_in_def)
      then have "([p], u) \<in> set (leaf_paths m)" using iff by simp
      then show False using "3.prems"(4) by (fastforce simp: conflict_def)
    qed
    then obtain mm where u: "u = VMap mm" by blast
    have c: "\<forall>(r, w) \<in> set (leaf_paths mm). \<not> conflict (q' # ps) r"
    proof (intro ballI, clarify)
      fix r w assume "(r, w) \<in> set (leaf_paths mm)" "conflict (q' # ps) r"
      then have "(p # r, w) \<in> set (leaf_paths m)" "conflict (p # q' # ps) (p # r)"
        using iff u by (auto simp: leaf_in_def conflict_def)
      then show False using "3.prems"(4) by blast
    qed
    have "wf_map mm" using wf_map_sub [OF "3.prems"(1) map_of_SomeD [OF Some [unfolded u]]] .
    then show ?thesis
      using "3.IH"(2) [OF Some, of mm] c "3.prems"(3) u Some by simp
  qed
  then obtain mm mm' where o1: "map_of m p = Some (VMap mm) \<or> map_of m p = None \<and> mm = []"
    "set_path (q' # ps) v mm = Some mm'" "wf_map mm'"
    "\<And>q w. (q, w) \<in> set (leaf_paths mm') \<longleftrightarrow> (if q = q' # ps then w = VString v else (q, w) \<in> set (leaf_paths mm))"
    by blast
  let ?m = "AList.update p (VMap mm') m"
  have s: "set_path (p # q' # ps) v m = Some ?m" using o1(1,2) by auto
  have w: "wf_map ?m" by (rule wf_map_update [OF "3.prems"(1)]) (use o1(3) in auto)
  have m: "(p # r, w) \<in> set (leaf_paths m) \<longleftrightarrow> (r, w) \<in> set (leaf_paths mm)" for r w
    using leaf_paths_iff [OF wf_map_distinct [OF "3.prems"(1)], of p r w] o1(1) by (auto simp: leaf_in_def)
  have l: "(k # r, w) \<in> set (leaf_paths ?m) \<longleftrightarrow>
      (if k # r = p # q' # ps then w = VString v else (k # r, w) \<in> set (leaf_paths m))" for k r w
    using leaf_paths_update [OF "3.prems"(1), of "VMap mm'" k r w p] o1(3,4) m by (auto simp: leaf_in_def)
  have "(q, w) \<in> set (leaf_paths ?m) \<longleftrightarrow> (if q = p # q' # ps then w = VString v else (q, w) \<in> set (leaf_paths m))" for q w
    using l leaf_paths_nonempty by (cases q) auto
  then show ?case using s w by simp
qed simp

abbreviation parts :: "string \<Rightarrow> string list" where
  "parts k \<equiv> split_on (CHR ''.'') k"

lemma convert_kvs_leaves:
  assumes "wf_map m" "distinct (map fst kvs)" "\<forall>k \<in> fst ` set kvs. [] \<notin> set (parts k)"
    "\<forall>k \<in> fst ` set kvs. \<forall>l \<in> fst ` set kvs. \<not> conflict (parts k) (parts l)"
    "\<forall>(q, w) \<in> set (leaf_paths m). \<forall>k \<in> fst ` set kvs. \<not> conflict (parts k) q \<and> q \<noteq> parts k"
  shows "\<exists>m'. convert_kvs kvs m = Some m' \<and>
    (\<forall>q w. (q, w) \<in> set (leaf_paths m') \<longleftrightarrow>
      (q, w) \<in> set (leaf_paths m) \<or> (\<exists>(k, v) \<in> set kvs. q = parts k \<and> w = VString v))"
  using assms
proof (induction kvs arbitrary: m)
  case (Cons kv kvs)
  obtain k v where kv: "kv = (k, v)" by (cases kv)
  have "\<forall>(q, w) \<in> set (leaf_paths m). \<not> conflict (parts k) q" using Cons.prems(5) kv by auto
  then obtain m1 where m1: "set_path (parts k) v m = Some m1" "wf_map m1"
    "\<And>q w. (q, w) \<in> set (leaf_paths m1) \<longleftrightarrow> (if q = parts k then w = VString v else (q, w) \<in> set (leaf_paths m))"
    using set_path_leaves [OF Cons.prems(1), of "parts k" v] Cons.prems(3) kv by auto
  have inj: "parts k \<noteq> parts l" if "l \<in> fst ` set kvs" for l
  proof
    assume "parts k = parts l"
    then have "k = l" by (metis join_split_on)
    then show False using that Cons.prems(2) kv by simp
  qed
  have "\<forall>(q, w) \<in> set (leaf_paths m1). \<forall>l \<in> fst ` set kvs. \<not> conflict (parts l) q \<and> q \<noteq> parts l"
  proof (intro ballI, clarify)
    fix q w l1 l2
    assume a: "(q, w) \<in> set (leaf_paths m1)" "(l1, l2) \<in> set kvs"
    then have l: "l1 \<in> fst ` set kvs" by force
    show "\<not> conflict (parts (fst (l1, l2))) q \<and> q \<noteq> parts (fst (l1, l2))"
    proof (cases "q = parts k")
      case True
      have "\<not> conflict (parts l1) (parts k)"
        using bspec [OF bspec [OF Cons.prems(4), of l1], of k] kv l by simp
      then show ?thesis using True inj [OF l] by simp
    next
      case False
      then show ?thesis using a(1) m1(3) Cons.prems(5) kv l by fastforce
    qed
  qed
  then obtain m' where m': "convert_kvs kvs m1 = Some m'"
    "\<And>q w. (q, w) \<in> set (leaf_paths m') \<longleftrightarrow> (q, w) \<in> set (leaf_paths m1) \<or> (\<exists>(k, v) \<in> set kvs. q = parts k \<and> w = VString v)"
    using Cons.IH [OF m1(2)] Cons.prems(2-4) kv by auto
  have "(parts k, w) \<notin> set (leaf_paths m)" for w using Cons.prems(5) kv by fastforce
  then show ?case using m1 m' kv by auto
qed simp

lemma dotted_join: "dotted root ks \<noteq> [] \<Longrightarrow> ps \<noteq> [] \<Longrightarrow>
  dotted (dotted root ks) (join_with ''.'' ps) = dotted root (join_with ''.'' (ks # ps))"
  by (auto simp: dotted_def join_with_Cons)

lemma dotted_not_Nil: "ks \<noteq> [] \<Longrightarrow> dotted root ks \<noteq> []"
  by (simp add: dotted_def)

lemma traverse_leaf_paths:
  "\<forall>(ps, w) \<in> set (leaf_paths m). [] \<notin> set ps \<Longrightarrow>
     traverse root m = map (\<lambda>(ps, w). (dotted root (join_with ''.'' ps), w)) (leaf_paths m)"
proof (induction root m rule: traverse.induct)
  case (2 root ks v m)
  have m: "traverse root m = map (\<lambda>(ps, w). (dotted root (join_with ''.'' ps), w)) (leaf_paths m)"
    using "2.IH" "2.prems" by (cases v) auto
  show ?case
  proof (cases "\<exists>mm. v = VMap mm")
    case False
    then show ?thesis using m by (cases v) auto
  next
    case True
    then obtain mm where v: "v = VMap mm" by blast
    have c: "\<forall>(ps, w) \<in> set (leaf_paths mm). [] \<notin> set ps \<and> ks \<noteq> []"
    proof (intro ballI, clarify)
      fix ps w assume "(ps, w) \<in> set (leaf_paths mm)"
      then have "(ks # ps, w) \<in> set (leaf_paths ((ks, v) # m))" using v by force
      then have "[] \<notin> set (ks # ps)" using "2.prems" by blast
      then show "[] \<notin> set ps \<and> ks \<noteq> []" by auto
    qed
    then have mm: "traverse (dotted root ks) mm =
        map (\<lambda>(ps, w). (dotted (dotted root ks) (join_with ''.'' ps), w)) (leaf_paths mm)"
      using "2.IH"(15) [OF v] by auto
    have "dotted (dotted root ks) (join_with ''.'' ps) = dotted root (join_with ''.'' (ks # ps))"
      if "(ps, w) \<in> set (leaf_paths mm)" for ps w
      using c that leaf_paths_nonempty [of w mm] by (intro dotted_join dotted_not_Nil) auto
    then show ?thesis using m mm v by (auto simp: case_prod_unfold)
  qed
qed simp

lemma traverseMap_cfg:
  assumes "\<And>k v v'. (k, v) \<in> set (traverse root m) \<Longrightarrow> (k, v') \<in> set (traverse root m) \<Longrightarrow> v = v'"
  shows "fp_cfg (traverseMap root m p) k =
    (case map_of (traverse root m) k of Some v \<Rightarrow> Some v | None \<Rightarrow> fp_cfg p k)"
proof -
  have "fp_cfg (foldl (\<lambda>p (r, v). p\<lparr>fp_cfg := (fp_cfg p)(r \<mapsto> v), fp_keys := add_key r (fp_keys p)\<rparr>) p l) k =
    (case map_of (rev l) k of Some v \<Rightarrow> Some v | None \<Rightarrow> fp_cfg p k)" for l
    by (induction l arbitrary: p) (auto simp: map_add_def split: option.split)
  moreover have "map_of (rev (traverse root m)) k = map_of (traverse root m) k"
  proof (cases "map_of (traverse root m) k")
    case None
    then show ?thesis by (metis map_of_eq_None_iff set_rev)
  next
    case (Some v)
    then have "k \<in> fst ` set (rev (traverse root m))" by (force dest: map_of_SomeD)
    then obtain v' where v': "map_of (rev (traverse root m)) k = Some v'" by (metis map_of_eq_None_iff not_None_eq)
    then show ?thesis using Some assms map_of_SomeD [OF v'] map_of_SomeD [OF Some] by auto
  qed
  ultimately show ?thesis by (simp add: traverseMap_def)
qed

text \<open>A provider that loads a map whose leaves are the pairs has each pair under its dotted key, and nothing else.\<close>

lemma leaves_traverse:
  assumes "distinct (map fst kvs)" "\<forall>k \<in> fst ` set kvs. [] \<notin> set (parts k)"
    and leaves: "\<And>q w. (q, w) \<in> set (leaf_paths m) \<longleftrightarrow> (\<exists>(k, v) \<in> set kvs. q = parts k \<and> w = VString v)"
  shows "fp_cfg (traverseMap [] m p) k = (case map_of kvs k of Some v \<Rightarrow> Some (VString v) | None \<Rightarrow> fp_cfg p k)"
proof -
  have "\<forall>(ps, w) \<in> set (leaf_paths m). [] \<notin> set ps"
    using leaves assms(2) by (auto simp: image_iff) (metis fst_conv)
  then have tr: "traverse [] m = map (\<lambda>(ps, w). (join_with ''.'' ps, w)) (leaf_paths m)"
    using traverse_leaf_paths [of m "[]"] by (simp add: dotted_def)
  have t: "(k, w) \<in> set (traverse [] m) \<longleftrightarrow> (\<exists>v. (k, v) \<in> set kvs \<and> w = VString v)" for k w
  proof
    assume "(k, w) \<in> set (traverse [] m)"
    then obtain ps where ps: "(ps, w) \<in> set (leaf_paths m)" "k = join_with ''.'' ps" unfolding tr by auto
    obtain k' v where "(k', v) \<in> set kvs" "ps = parts k'" "w = VString v" using ps(1) leaves by blast
    then show "\<exists>v. (k, v) \<in> set kvs \<and> w = VString v" using ps(2) by (auto simp: join_split_on)
  next
    assume "\<exists>v. (k, v) \<in> set kvs \<and> w = VString v"
    then have "(parts k, w) \<in> set (leaf_paths m)" using leaves by blast
    then show "(k, w) \<in> set (traverse [] m)" unfolding tr by (force simp: join_split_on)
  qed
  have u: "v = v'" if "(k, v) \<in> set (traverse [] m)" "(k, v') \<in> set (traverse [] m)" for k v v'
    using that assms(1) t by (auto dest: eq_key_imp_eq_value)
  have "map_of (traverse [] m) k = map_option VString (map_of kvs k)"
  proof (cases "map_of kvs k")
    case None
    then have "k \<notin> fst ` set (traverse [] m)" using t by (force simp: map_of_eq_None_iff image_iff)
    then show ?thesis using None by (metis map_of_eq_None_iff option.map(1))
  next
    case (Some v)
    then have i: "(k, VString v) \<in> set (traverse [] m)" using t map_of_SomeD by fast
    then obtain w where "map_of (traverse [] m) k = Some w" by (metis weak_map_of_SomeI)
    then show ?thesis using u [OF i map_of_SomeD] Some by simp
  qed
  then show ?thesis using traverseMap_cfg [OF u] by (auto split: option.split)
qed

text \<open>The map for the JSON copy of a configuration has the pairs as its leaves.\<close>

lemma ConvertKeyValuesToMap_leaves:
  assumes "distinct (map fst kvs)" "\<forall>k \<in> fst ` set kvs. [] \<notin> set (parts k)"
    "\<forall>k \<in> fst ` set kvs. \<forall>l \<in> fst ` set kvs. \<not> conflict (parts k) (parts l)"
  shows "\<exists>m. ConvertKeyValuesToMap kvs = Some m \<and>
    (\<forall>q w. (q, w) \<in> set (leaf_paths m) \<longleftrightarrow> (\<exists>(k, v) \<in> set kvs. q = parts k \<and> w = VString v))"
proof -
  have "wf_map []" by (rule wf_mapI) auto
  then show ?thesis using convert_kvs_leaves [of "[]" kvs] assms by (auto simp: ConvertKeyValuesToMap_def)
qed

subsection \<open>An import stays in its directory\<close>

definition changed_within :: "string set \<Rightarrow> file_system \<Rightarrow> file_system \<Rightarrow> bool" where
  "changed_within ps fs fs' \<longleftrightarrow> (\<forall>p. p \<notin> ps \<longrightarrow> fs_files fs' p = fs_files fs p)"

lemma changed_within_refl [simp]: "changed_within ps fs fs"
  by (simp add: changed_within_def)

lemma changed_within_trans: "changed_within ps a b \<Longrightarrow> changed_within ps b c \<Longrightarrow> changed_within ps a c"
  by (simp add: changed_within_def)

lemma WriteFile_within: "p \<in> ps \<Longrightarrow> steps_keep (changed_within ps) (WriteFile p c)"
  by (auto simp: steps_keep_def WriteFile_def changed_within_def split: option.split)

lemma MkdirAll_within: "steps_keep (changed_within ps) (MkdirAll d)"
  by (simp add: steps_keep_def MkdirAll_def split: option.split)

lemma ReadFile_within: "steps_keep (changed_within ps) (ReadFile p)"
  by (simp add: steps_keep_def ReadFile_def split: option.split)

lemma lift_res_within: "steps_keep (changed_within ps) (lift_res r)"
  by (simp add: steps_keep_def lift_res_def)

lemma lift_res_Inr: "lift_res (Inr x) = ret x"
  by (rule ext) (simp add: lift_res_def ret_def)

lemma andthen_within:
  "steps_keep (changed_within ps) m \<Longrightarrow> (\<And>x. steps_keep (changed_within ps) (f x)) \<Longrightarrow>
     steps_keep (changed_within ps) (andthen m f)"
  by (rule keep_andthen [OF changed_within_trans])

lemma ret_within: "steps_keep (changed_within ps) (ret x)"
  by (simp add: keep_ret)

lemma fail_within: "steps_keep (changed_within ps) (fail e)"
  by (simp add: keep_fail)

lemmas within_rules = andthen_within ret_within fail_within MkdirAll_within ReadFile_within lift_res_within WriteFile_within

lemma copyFiles_within:
  "(\<lambda>(n, c). paths_Join [d, base_name n]) ` set files \<subseteq> ps \<Longrightarrow> steps_keep (changed_within ps) (copyFiles e files d)"
proof (induction files)
  case (Cons f files)
  then show ?case
    by (cases f; cases e) (auto simp: filepath_Split_def intro!: within_rules)
qed (simp add: within_rules)

text \<open>
  C32: An imported archive cannot write outside the directory of its configuration: whatever
  directories the names in the archive have, also parent directories and absolute names, every file
  that changes lies directly in that directory, when the last parts are plain names.
\<close>

theorem import_stays_inside:
  assumes "DirAndFile env target = Some (Inr (outDir, cfgFile))" "outDir \<noteq> []"
    and "CreateFromZip env ctxErr target path = Some imp"
    and "\<And>z entries n c. cf_zip env z = Inr entries \<Longrightarrow> (n, False, c) \<in> set entries \<Longrightarrow> plain_part (base_name n)"
    and "fs_files (snd (imp fs)) p \<noteq> fs_files fs p"
  shows "\<exists>b. plain_part b \<and> clean_parts p = clean_parts outDir @ [b] \<and> is_abs p = is_abs outDir"
proof -
  let ?ps = "{q. \<exists>b. plain_part b \<and> q = paths_Join [outDir, b]}"
  have "steps_keep (changed_within ?ps)
      (andthen (lift_res (cf_zip env z)) (\<lambda>entries.
             if ctxErr \<noteq> None \<and> entries \<noteq> [] then fail (the ctxErr)
             else if \<not> list_ex (\<lambda>(n, d, c). has_suffix n ''/config.json'') entries then ret []
             else
               andthen (lift_res (Inr (outDir, cfgFile))) (\<lambda>(outDir, cfgFileName).
               andthen (MkdirAll outDir) (\<lambda>_.
               andthen (copyFiles ctxErr (map (\<lambda>(n, d, c). (n, c)) (filter (\<lambda>(n, d, c). \<not> d) entries)) outDir) (\<lambda>_.
                 ret (paths_Join [outDir, cfgFileName]))))))" for z
  proof (cases "cf_zip env z")
    case (Inl e)
    then show ?thesis by (simp add: steps_keep_def andthen_def lift_res_def)
  next
    case (Inr entries)
    have "steps_keep (changed_within ?ps)
        (copyFiles ctxErr (map (\<lambda>(n, d, c). (n, c)) (filter (\<lambda>(n, d, c). \<not> d) entries)) outDir)"
    proof (rule copyFiles_within, clarsimp)
      fix n c assume "(n, False, c) \<in> set entries"
      then have "plain_part (base_name n)" by (rule assms(4) [OF Inr])
      then show "\<exists>b. plain_part b \<and> paths_Join [outDir, base_name n] = paths_Join [outDir, b]" by blast
    qed
    then have "steps_keep (changed_within ?ps)
      (if ctxErr \<noteq> None \<and> entries \<noteq> [] then fail (the ctxErr)
       else if \<not> list_ex (\<lambda>(n, d, c). has_suffix n ''/config.json'') entries then ret []
       else andthen (lift_res (Inr (outDir, cfgFile))) (\<lambda>(outDir, cfgFileName).
               andthen (MkdirAll outDir) (\<lambda>_.
               andthen (copyFiles ctxErr (map (\<lambda>(n, d, c). (n, c)) (filter (\<lambda>(n, d, c). \<not> d) entries)) outDir) (\<lambda>_.
                 ret (paths_Join [outDir, cfgFileName])))))"
      unfolding lift_res_Inr andthen_ret prod.case by (auto intro!: within_rules)
    then show ?thesis using Inr by (simp add: steps_keep_def andthen_def lift_res_def)
  qed
  then have "steps_keep (changed_within ?ps) (the (CreateFromZip env ctxErr target path))"
    unfolding CreateFromZip_def assms(1) option.case option.sel
    by (rule within_rules(1) [OF ReadFile_within])
  then have "steps_keep (changed_within ?ps) imp" using assms(3) by simp
  then have "p \<in> ?ps" using assms(5) by (auto simp: steps_keep_def changed_within_def)
  then obtain b where b: "plain_part b" "p = paths_Join [outDir, b]" by blast
  moreover have "\<not> is_abs b" using b(1) by (auto simp: plain_part_def is_abs_def has_prefix_iff)
  ultimately show ?thesis using Join_plain [OF assms(2) b(1)] by (auto simp: paths_Join_def)
qed

definition sample_config_env :: config_env where
  "sample_config_env = \<lparr>cf_place = sample_place, cf_stat = (\<lambda>p. None), cf_entries = (\<lambda>d. Inr []),
     cf_yaml = (\<lambda>b. Inr []), cf_json = (\<lambda>m. Inr []),
     cf_zip = (\<lambda>b. Inr [(''a/config.json'', False, ''{}''), (''../../evil.pem'', False, ''x'')])\<rparr>"

lemma import_stays_inside_witness:
  "\<exists>b. plain_part b \<and> clean_parts ''/h/.hz/configs/dev/evil.pem'' = clean_parts ''/h/.hz/configs/dev'' @ [b] \<and>
     is_abs ''/h/.hz/configs/dev/evil.pem'' = is_abs ''/h/.hz/configs/dev''"
proof -
  have d: "DirAndFile sample_config_env ''dev'' = Some (Inr (''/h/.hz/configs/dev'', ''config.yaml''))" by code_simp
  obtain imp where i: "CreateFromZip sample_config_env None ''dev'' ''/tmp/z'' = Some imp"
    by (simp add: CreateFromZip_def d)
  let ?fs = "empty_fs\<lparr>fs_files := [''/tmp/z'' \<mapsto> ''zip'']\<rparr>"
  have z: "cf_zip sample_config_env b = Inr [(''a/config.json'', False, ''{}''), (''../../evil.pem'', False, ''x'')]"
    "has_suffix ''a/config.json'' ''/config.json''" for b
    by (simp add: sample_config_env_def, code_simp)
  have j: "paths_Join [''/h/.hz/configs/dev'', base_name ''a/config.json''] = ''/h/.hz/configs/dev/config.json''"
    "paths_Join [''/h/.hz/configs/dev'', base_name ''../../evil.pem''] = ''/h/.hz/configs/dev/evil.pem''"
    by code_simp+
  have "fs_files (snd (imp ?fs)) ''/h/.hz/configs/dev/evil.pem'' = Some ''x''"
    using i j z by (auto simp: CreateFromZip_def d andthen_def lift_res_def ReadFile_def empty_fs_def
      MkdirAll_def WriteFile_def ret_def filepath_Split_def)
  then have c: "fs_files (snd (imp ?fs)) ''/h/.hz/configs/dev/evil.pem'' \<noteq> fs_files ?fs ''/h/.hz/configs/dev/evil.pem''"
    by (simp add: empty_fs_def)
  have "plain_part (base_name ''a/config.json'')" "plain_part (base_name ''../../evil.pem'')" by code_simp+
  then have "plain_part (base_name n)" if "cf_zip sample_config_env z = Inr entries" "(n, False, c) \<in> set entries" for z entries n c
    using that by (auto simp: sample_config_env_def)
  from import_stays_inside [OF d _ i this c] show ?thesis by simp
qed

end
