(* ===== verification/Stage.thy ===== *)
theory Stage
  imports ExecContext
begin

section \<open>Commands in stages (clc/ux/stage)\<close>

text \<open>
  A long command is a sequence of stages with a value handed from one to the next. A stage shows its
  progress on the spinner, whose texts are left out except the index; \<open>Func\<close> gets the value so far.
  \<open>Execute\<close> takes its stages from a provider, here the \<open>FixedProvider\<close>, which walks through a list.
\<close>

record ('w, 'v) stage =
  ProgressMsg :: string
  SuccessMsg :: string
  FailureMsg :: string
  Func :: "'v \<Rightarrow> ('w, 'v) step"

record 'v statuser =
  st_value :: 'v
  st_index :: nat
  st_count :: nat

definition newBasicStatuser :: "'v \<Rightarrow> 'v statuser" where
  "newBasicStatuser v = \<lparr>st_value = v, st_index = 0, st_count = 0\<rparr>"

definition SetIndex :: "nat \<Rightarrow> nat \<Rightarrow> 'v statuser \<Rightarrow> 'v statuser" where
  "SetIndex index stageCount s = s\<lparr>st_index := index, st_count := stageCount\<rparr>"

text \<open>\<^verbatim>\<open>[%<w>d/%d]\<close>, where the width is the one of the stageCount.\<close>

definition pad_left :: "nat \<Rightarrow> string \<Rightarrow> string" where
  "pad_left w s = replicate (w - length s) CHR '' '' @ s"

definition IndexText :: "'v statuser \<Rightarrow> string" where
  "IndexText s =
     (if st_index s = 0 \<or> st_count s < 2 then []
      else ''['' @ pad_left (length (itoa (int (st_count s)))) (itoa (int (st_index s))) @ ''/'' @
           itoa (int (st_count s)) @ '']'')"

record ('w, 'v) FixedProvider =
  stages :: "('w, 'v) stage list"
  offset :: nat
  current :: "('w, 'v) stage option"

definition NewFixedProvider :: "('w, 'v) stage list \<Rightarrow> ('w, 'v) FixedProvider" where
  "NewFixedProvider sts = \<lparr>stages = sts, offset = 0, current = None\<rparr>"

definition FixedProvider_Next :: "('w, 'v) FixedProvider \<Rightarrow> bool \<times> ('w, 'v) FixedProvider" where
  "FixedProvider_Next sp =
     (if length (stages sp) \<le> offset sp then (False, sp)
      else (True, sp\<lparr>current := Some (stages sp ! offset sp), offset := offset sp + 1\<rparr>))"

definition FixedProvider_Value :: "('w, 'v) FixedProvider \<Rightarrow> ('w, 'v) stage option" where
  "FixedProvider_Value sp = current sp"

definition StageCount :: "('w, 'v) FixedProvider \<Rightarrow> nat" where
  "StageCount sp = length (stages sp)"

text \<open>
  One stage of the loop in \<open>Execute\<close>. An error that can be ignored is printed and the value is the zero
  value after it; another one ends the loop with the failure message before it.
\<close>

definition run_stage ::
    "'w cenv \<Rightarrow> 'v \<Rightarrow> nat \<Rightarrow> nat \<Rightarrow> ('w, 'v) stage \<Rightarrow> 'v \<Rightarrow> ('w, 'v) step" where
  "run_stage env zero index stageCount stg v s =
     (let ss = SetIndex index stageCount (newBasicStatuser v) in
      case ExecuteBlocking (Func stg (st_value ss)) s of
        (Inr v', s1) \<Rightarrow>
          (Inr v', snd (PrintlnUnnecessary env (''OK '' @ IndexText ss @ '' '' @ SuccessMsg stg @ ''.'') s1))
      | (Inl e, s1) \<Rightarrow>
          (case err_as_ignored e of
             Some ie \<Rightarrow>
               (Inr zero, snd (PrintlnUnnecessary env
                 (''ERROR '' @ IndexText ss @ '' '' @ FailureMsg stg @ '': '' @ err_text ie) s1))
           | None \<Rightarrow> (Inl (Wrapf (FailureMsg stg) e), s1)))"

function stage_loop ::
    "'w cenv \<Rightarrow> 'v \<Rightarrow> nat \<Rightarrow> nat \<Rightarrow> 'v \<Rightarrow> ('w, 'v) FixedProvider \<Rightarrow> ('w, 'v) step" where
  "stage_loop env zero index stageCount v sp s =
     (case FixedProvider_Next sp of
        (False, _) \<Rightarrow> (Inr v, s)
      | (True, sp') \<Rightarrow>
          (case FixedProvider_Value sp' of
             None \<Rightarrow> (Inr v, s)
           | Some stg \<Rightarrow>
               (case run_stage env zero (index + 1) stageCount stg v s of
                  (Inl e, s') \<Rightarrow> (Inl e, s')
                | (Inr v', s') \<Rightarrow> stage_loop env zero (index + 1) stageCount v' sp' s')))"
  by pat_completeness auto
termination
  by (relation "measure (\<lambda>(env, zero, index, stageCount, v, sp, s). length (stages sp) - offset sp)")
    (auto simp: FixedProvider_Next_def split: if_splits)

declare stage_loop.simps [simp del]

definition Execute :: "'w cenv \<Rightarrow> 'v \<Rightarrow> 'v \<Rightarrow> ('w, 'v) FixedProvider \<Rightarrow> ('w, 'v) step" where
  "Execute env zero v sp s = stage_loop env zero 0 (StageCount sp) v sp s"

text \<open>\<open>MakeConnectStage\<close>: the stage's value is the zero value.\<close>

definition MakeConnectStage :: "'w cenv \<Rightarrow> 'v \<Rightarrow> ('w, 'v) stage" where
  "MakeConnectStage env zero =
     \<lparr>ProgressMsg = ''Connecting to the cluster'', SuccessMsg = ''Connected to the cluster'',
      FailureMsg = ''Failed connecting to the cluster'',
      Func = (\<lambda>_. andthen (ClientInternal env) (\<lambda>_. ret zero))\<rparr>"

subsection \<open>The stages run in order\<close>

text \<open>The reference: the stages as a list, each with its number.\<close>

fun run_list :: "'w cenv \<Rightarrow> 'v \<Rightarrow> nat \<Rightarrow> nat \<Rightarrow> ('w, 'v) stage list \<Rightarrow> 'v \<Rightarrow> ('w, 'v) step" where
  "run_list env zero stageCount index [] v = ret v"
| "run_list env zero stageCount index (stg # sts) v =
     andthen (run_stage env zero (Suc index) stageCount stg v) (run_list env zero stageCount (Suc index) sts)"

lemma stage_loop_list:
  "stage_loop env zero index stageCount v sp s =
     run_list env zero stageCount index (drop (offset sp) (stages sp)) v s"
proof (induction env zero index stageCount v sp s rule: stage_loop.induct)
  case (1 env zero index stageCount v sp s)
  show ?case
  proof (cases "length (stages sp) \<le> offset sp")
    case True
    then show ?thesis by (simp add: stage_loop.simps [of env] FixedProvider_Next_def ret_def)
  next
    case False
    let ?stg = "stages sp ! offset sp"
    let ?sp = "sp\<lparr>current := Some ?stg, offset := offset sp + 1\<rparr>"
    have n: "FixedProvider_Next sp = (True, ?sp)" using False by (simp add: FixedProvider_Next_def)
    have d: "drop (offset sp) (stages sp) = ?stg # drop (Suc (offset sp)) (stages sp)"
      using False by (simp add: Cons_nth_drop_Suc)
    show ?thesis
    proof (cases "run_stage env zero (Suc index) stageCount ?stg v s")
      case (Pair r s')
      then show ?thesis
        using "1.IH" [OF n [symmetric] refl, of ?stg] n d
        by (cases r) (simp_all add: stage_loop.simps [of env zero index] FixedProvider_Value_def andthen_def)
    qed
  qed
qed

subsection \<open>What a run of stages does\<close>

text \<open>
  The run stated as rules, without the loop, the provider and the status object. The \<open>i\<close>-th of \<open>n\<close>
  stages starts with a value \<open>v\<close> in a state \<open>s\<close>. Its function is called with that value, unless the user
  cancels before it starts; when the user cancels while it runs, its effects stay and its result is lost.
\<close>

inductive func_result :: "('w, 'v) stage \<Rightarrow> 'v \<Rightarrow> 'w cstate \<Rightarrow> go_error + 'v \<Rightarrow> 'w cstate \<Rightarrow> bool" where
  plain: "cs_sched s = [] \<Longrightarrow> Func stg v s = (r, s') \<Longrightarrow> func_result stg v s r s'"
| undisturbed: "cs_sched s = BlockingDone # rest \<Longrightarrow> Func stg v (s\<lparr>cs_sched := rest\<rparr>) = (r, s') \<Longrightarrow> func_result stg v s r s'"
| cancelled_before: "cs_sched s = BlockingCancelledBefore # rest \<Longrightarrow>
    func_result stg v s (Inl ErrUserCancelled) (s\<lparr>cs_sched := rest\<rparr>)"
| cancelled_after: "cs_sched s = BlockingCancelledAfter # rest \<Longrightarrow> Func stg v (s\<lparr>cs_sched := rest\<rparr>) = (r, s') \<Longrightarrow>
    func_result stg v s (Inl ErrUserCancelled) s'"

definition stage_label :: "nat \<Rightarrow> nat \<Rightarrow> string" where
  "stage_label n i =
     (if n < 2 then []
      else ''['' @ pad_left (length (itoa (int n))) (itoa (int i)) @ ''/'' @ itoa (int n) @ '']'')"

definition told :: "'w cenv \<Rightarrow> string \<Rightarrow> 'w cstate \<Rightarrow> 'w cstate" where
  "told env line s =
     (if Quiet env s then s
      else s\<lparr>cs_out := cs_out s @ [Colorize (ce_green env) (ce_red env) line @ [CHR 0x0A]]\<rparr>)"

text \<open>
  \<open>stages_run env zero n i sts v s calls r s'\<close>: the stages \<open>sts\<close>, of which the first has the number \<open>i\<close>,
  end with the result \<open>r\<close>; \<open>calls\<close> are the numbers of the stages that were started, with the value each
  of them got. A success hands its value on, an error that can be ignored the zero value, and any other
  error ends the run.
\<close>

inductive stages_run ::
    "'w cenv \<Rightarrow> 'v \<Rightarrow> nat \<Rightarrow> nat \<Rightarrow> ('w, 'v) stage list \<Rightarrow> 'v \<Rightarrow> 'w cstate \<Rightarrow> (nat \<times> 'v) list \<Rightarrow>
      go_error + 'v \<Rightarrow> 'w cstate \<Rightarrow> bool" for env zero n where
  no_stage: "stages_run env zero n i [] v s [] (Inr v) s"
| success: "func_result stg v s (Inr v') s1 \<Longrightarrow>
    stages_run env zero n (Suc i) sts v' (told env (''OK '' @ stage_label n i @ '' '' @ SuccessMsg stg @ ''.'') s1) calls r s' \<Longrightarrow>
    stages_run env zero n i (stg # sts) v s ((i, v) # calls) r s'"
| ignored: "func_result stg v s (Inl e) s1 \<Longrightarrow> err_as_ignored e = Some ie \<Longrightarrow>
    stages_run env zero n (Suc i) sts zero
      (told env (''ERROR '' @ stage_label n i @ '' '' @ FailureMsg stg @ '': '' @ err_text ie) s1) calls r s' \<Longrightarrow>
    stages_run env zero n i (stg # sts) v s ((i, v) # calls) r s'"
| failure: "func_result stg v s (Inl e) s1 \<Longrightarrow> err_as_ignored e = None \<Longrightarrow>
    stages_run env zero n i (stg # sts) v s [(i, v)] (Inl (Wrapf (FailureMsg stg) e)) s1"

inductive_simps stages_run_Nil: "stages_run env zero n i [] v s calls r s'"
inductive_simps stages_run_Cons: "stages_run env zero n i (stg # sts) v s calls r s'"

text \<open>Each call of a function is one \<open>ExecuteBlocking\<close>, and each message one \<open>PrintlnUnnecessary\<close>.\<close>

lemma func_result_iff: "func_result stg v s r s' \<longleftrightarrow> ExecuteBlocking (Func stg v) s = (r, s')"
proof
  assume "func_result stg v s r s'"
  then show "ExecuteBlocking (Func stg v) s = (r, s')" by cases (simp_all add: ExecuteBlocking_def)
next
  assume e: "ExecuteBlocking (Func stg v) s = (r, s')"
  show "func_result stg v s r s'"
  proof (cases "cs_sched s")
    case Nil
    then show ?thesis using e by (simp add: ExecuteBlocking_def func_result.plain)
  next
    case (Cons b rest)
    obtain r1 s1 where f: "Func stg v (s\<lparr>cs_sched := rest\<rparr>) = (r1, s1)" by (rule prod.exhaust)
    show ?thesis
      using e Cons f by (cases b) (auto simp: ExecuteBlocking_def intro: func_result.intros)
  qed
qed

lemma told_eq: "snd (PrintlnUnnecessary env line s) = told env line s"
  by (simp add: PrintlnUnnecessary_def told_def write_out_def)

lemma run_stage_cases:
  assumes "0 < i" "ExecuteBlocking (Func stg v) s = (x, s1)"
  shows "run_stage env zero i n stg v s =
    (case x of
       Inr v' \<Rightarrow> (Inr v', told env (''OK '' @ stage_label n i @ '' '' @ SuccessMsg stg @ ''.'') s1)
     | Inl e \<Rightarrow> (case err_as_ignored e of
         Some ie \<Rightarrow> (Inr zero, told env (''ERROR '' @ stage_label n i @ '' '' @ FailureMsg stg @ '': '' @ err_text ie) s1)
       | None \<Rightarrow> (Inl (Wrapf (FailureMsg stg) e), s1)))"
  using assms
  by (simp add: run_stage_def SetIndex_def newBasicStatuser_def IndexText_def stage_label_def told_eq split: sum.split option.split)

lemma run_list_runs:
  "run_list env zero n i sts v s = (r, s') \<longleftrightarrow> (\<exists>calls. stages_run env zero n (Suc i) sts v s calls r s')"
proof (induction sts arbitrary: i v s)
  case Nil
  then show ?case by (auto simp: stages_run_Nil ret_def)
next
  case (Cons stg sts)
  obtain x s1 where x: "ExecuteBlocking (Func stg v) s = (x, s1)" by (rule prod.exhaust)
  then have f: "func_result stg v s y s2 \<longleftrightarrow> y = x \<and> s2 = s1" for y s2 by (auto simp: func_result_iff)
  note step = run_stage_cases [of "Suc i", OF _ x, simplified]
  show ?case
  proof (cases x)
    case (Inr v')
    then show ?thesis
      using Cons.IH [of "Suc i" v'] step f
      by (simp add: andthen_def stages_run_Cons)
  next
    case (Inl e)
    show ?thesis
    proof (cases "err_as_ignored e")
      case None
      then show ?thesis
        using Inl step f by (auto simp: andthen_def stages_run_Cons)
    next
      case (Some ie)
      then show ?thesis
        using Inl Cons.IH [of "Suc i" zero] step f
        by (simp add: andthen_def stages_run_Cons)
    qed
  qed
qed

text \<open>The stages that are started are the first ones, each once.\<close>

lemma stages_run_numbers:
  "stages_run env zero n i sts v s calls r s' \<Longrightarrow> map fst calls = [i..<i + length calls] \<and> length calls \<le> length sts \<and>
     (isl r \<or> length calls = length sts)"
proof (induction rule: stages_run.induct)
  case (success stg v s v' s1 i sts calls r s')
  then show ?case by (simp add: upt_conv_Cons del: upt_Suc)
next
  case (ignored stg v s e s1 ie i sts calls r s')
  then show ?case by (simp add: upt_conv_Cons del: upt_Suc)
qed auto

text \<open>
  C15: \<open>Execute\<close> does exactly what the rules of a run say, for any list of stages: each stage's function is called
  once, in the order given, with the value of the stage before it (the first with the value \<open>Execute\<close> got),
  and its message is printed with its number. After an error that can be ignored the next stage gets the
  zero value and not the value before; any other error ends the run with the failure message before it, and no later stage is started.
  The stages that are started are a first part of the list, and all of it when the run succeeds, so the
  loop always ends.
\<close>

theorem Execute_in_order:
  "Execute env zero v (NewFixedProvider sts) s = (r, s') \<longleftrightarrow>
     (\<exists>calls. stages_run env zero (length sts) 1 sts v s calls r s' \<and> map fst calls = [1..<1 + length calls] \<and>
        length calls \<le> length sts \<and> (isl r \<or> length calls = length sts))"
proof -
  have "Execute env zero v (NewFixedProvider sts) s = run_list env zero (length sts) 0 sts v s"
    by (simp add: Execute_def stage_loop_list NewFixedProvider_def StageCount_def)
  then show ?thesis
    using run_list_runs [of env zero "length sts" 0 sts v s r s'] stages_run_numbers by fastforce
qed

lemma run_list_append:
  "run_list env zero n i (xs @ ys) =
     (\<lambda>v. andthen (run_list env zero n i xs v) (run_list env zero n (i + length xs) ys))"
proof (induction xs arbitrary: i)
  case (Cons x xs)
  then show ?case by (intro ext) (simp add: andthen_assoc)
qed simp

lemma run_stage_fails:
  assumes "ExecuteBlocking (Func stg v) s = (Inl e, s')" "err_as_ignored e = None"
  shows "run_stage env zero i n stg v s = (Inl (Wrapf (FailureMsg stg) e), s')"
  using assms by (simp add: run_stage_def SetIndex_def newBasicStatuser_def)

lemma run_stage_ignores:
  assumes "ExecuteBlocking (Func stg v) s = (Inl e, s')" "err_as_ignored e = Some ie"
  shows "fst (run_stage env zero i n stg v s) = Inr zero"
  using assms by (simp add: run_stage_def SetIndex_def newBasicStatuser_def)

text \<open>
  A stage that fails ends the run there. The error keeps the cause and has the stage's failure
  message before it, the state is the one the failing stage left, and no later stage is started.
\<close>

theorem Execute_stops_at_failure:
  assumes "run_list env zero (length (before_it @ stg # rest)) 0 before_it v s = (Inr v1, s1)"
    and "ExecuteBlocking (Func stg v1) s1 = (Inl e, s2)" and "err_as_ignored e = None"
  shows "Execute env zero v (NewFixedProvider (before_it @ stg # rest)) s = (Inl (Wrapf (FailureMsg stg) e), s2)"
  using assms run_stage_fails [OF assms(2,3)]
  by (simp add: Execute_def stage_loop_list NewFixedProvider_def StageCount_def run_list_append andthen_def)

definition sample_stage :: "string \<Rightarrow> (int \<Rightarrow> (nat, int) step) \<Rightarrow> (nat, int) stage" where
  "sample_stage n f = \<lparr>ProgressMsg = n, SuccessMsg = n, FailureMsg = n @ '' failed'', Func = f\<rparr>"

lemma Execute_stops_at_failure_witness:
  "\<exists>s'. Execute sample_env 0 1 (NewFixedProvider ([sample_stage ''a'' (\<lambda>v. ret (v + 1))] @
      sample_stage ''b'' (\<lambda>v. if v = 2 then fail ErrNotAvailable else ret v) #
      [sample_stage ''c'' (\<lambda>v. ret 7)])) sample_state = (Inl (Wrapf ''b failed'' ErrNotAvailable), s')"
proof -
  let ?a = "sample_stage ''a'' (\<lambda>v. ret (v + 1))"
  let ?b = "sample_stage ''b'' (\<lambda>v. if v = 2 then fail ErrNotAvailable else ret v)"
  let ?c = "sample_stage ''c'' (\<lambda>v. ret 7)"
  obtain s1 where s1: "run_list sample_env 0 (length ([?a] @ ?b # [?c])) 0 [?a] 1 sample_state = (Inr 2, s1)" "cs_sched s1 = []"
    by (simp add: run_stage_def ExecuteBlocking_def sample_state_def ret_def andthen_def SetIndex_def
      newBasicStatuser_def PrintlnUnnecessary_def write_out_def sample_stage_def)
  have "ExecuteBlocking (Func ?b 2) s1 = (Inl ErrNotAvailable, s1)"
    using s1(2) by (simp add: ExecuteBlocking_def fail_def sample_stage_def)
  from Execute_stops_at_failure [OF s1(1) this] show ?thesis
    by (simp add: ErrNotAvailable_def sample_stage_def)
qed

end
