(* ===== verification/CloudCommands.thy ===== *)
theory CloudCommands
  imports Viridian Config Stage Commands
begin

section \<open>Commands for configurations and the cloud (base/commands/config, base/commands/viridian)\<close>

text \<open>
  The state of a command is \<^typ>\<open>'w cstate\<close> over the world of the API. Logging is left out. The record
  \<open>cloud\<close> holds the environments of the parts, and three things of the libraries: the printed form of
  an error text used as a format (\<^verbatim>\<open>fmt.Errorf(text)\<close>), the printed form of a time in milliseconds, and
  how often a wait asks before the model gives up.
\<close>

record 'n cloud =
  cd_env :: "'n vworld cenv"
  cd_api :: "'n viridian_env"
  cd_conf :: config_env
  cd_format :: "string \<Rightarrow> string"
  cd_millis :: "int \<Rightarrow> string"
  cd_fuel :: nat

type_synonym ('n, 'a) cmd_step = "('n vworld, 'a) step"

definition conf_step :: "'n cloud \<Rightarrow> (file_system, 'a) eff option \<Rightarrow> ('n, 'a) cmd_step" where
  "conf_step cl m = (case m of None \<Rightarrow> fail panic_error | Some f \<Rightarrow> on_world (on_fs f))"

definition str_col :: "string \<Rightarrow> string \<Rightarrow> column" where
  "str_col name v = Column name TypeString (string_cell v)"

subsection \<open>config add, import and list\<close>

definition ConfigAdd_pairs :: "string list \<Rightarrow> go_error + (string \<times> string) list" where
  "ConfigAdd_pairs args =
     map_res (\<lambda>arg. let (k, v) = ParseKeyValue arg in
       if k = [] then Inl (Errorf (''invalid key=value pair: '' @ arg)) else Inr (k, v)) args"

text \<open>The YAML file is written first; an error of the JSON file is only logged, a panic is not.\<close>

definition ConfigAdd_Exec :: "'n cloud \<Rightarrow> ('n, unit) cmd_step" where
  "ConfigAdd_Exec cl = with_state (\<lambda>s0.
     let target = GetStringArg s0 ''configName'' in
     andthen (lift_res (ConfigAdd_pairs (GetStringSliceArg s0 ''keyValues''))) (\<lambda>opts.
     andthen (ExecuteBlocking
       (andthen (conf_step cl (Create (cd_conf cl) target opts)) (\<lambda>(d, cfgPath).
        case ConvertKeyValuesToMap opts of
          None \<Rightarrow> fail panic_error
        | Some mopt \<Rightarrow>
            (\<lambda>s. (Inr (filepath_Join [d, cfgPath]), snd (conf_step cl (CreateJSON (cd_conf cl) target mopt) s)))))) (\<lambda>path.
     PrintlnUnnecessary (cd_env cl) (''OK Created the configuration at: '' @ path @ ''.''))))"

text \<open>\<open>download\<close> of import.go keeps whatever body the answer has, without looking at the status.\<close>

definition import_download :: "'n cloud \<Rightarrow> string \<Rightarrow> ('n, string) cmd_step" where
  "import_download cl url = on_world (with_state (\<lambda>w0.
     let f = ve_temp (cd_api cl) (vw_net w0) in
     andthen (on_fs (WriteFile f [])) (\<lambda>_ w.
     (case ve_http (cd_api cl) ((json_request ''GET'' url [] [])\<lparr>hr_content_type := []\<rparr>) (vw_net w) of
        (Inl e, n') \<Rightarrow> (Inl e, w\<lparr>vw_net := n'\<rparr>)
      | (Inr (code, body), n') \<Rightarrow>
          andthen (wrap_err ''downloading file'' (on_fs (WriteFile f body))) (\<lambda>_. ret f) (w\<lparr>vw_net := n'\<rparr>)))))"

definition import_source :: "'n cloud \<Rightarrow> string \<Rightarrow> ('n, string) cmd_step" where
  "import_source cl source =
     (if \<not> has_prefix source ''https://'' \<or> has_suffix source ''http://''
      then (if \<not> pl_exists (cf_place (cd_conf cl)) source then fail (Errorf (source @ '' does not exist'')) else ret source)
      else import_download cl source)"

definition MakeImportStages :: "'n cloud \<Rightarrow> string \<Rightarrow> ('n vworld, string) stage list" where
  "MakeImportStages cl target =
     [\<lparr>ProgressMsg = ''Retrieving the configuration'', SuccessMsg = ''Retrieved the configuration'',
       FailureMsg = ''Failed retrieving the configuration'', Func = import_source cl\<rparr>,
      \<lparr>ProgressMsg = ''Preparing the configuration'', SuccessMsg = ''The configuration is ready'',
       FailureMsg = ''Failed preparing the configuration'',
       Func = (\<lambda>path. conf_step cl (CreateFromZip (cd_conf cl) None target path))\<rparr>]"

definition one_row :: "'n cloud \<Rightarrow> column list \<Rightarrow> ('n, unit) cmd_step" where
  "one_row cl r = AddOutputRows (cd_env cl) [r]"

definition blank_line :: "'n cloud \<Rightarrow> ('n, unit) cmd_step" where
  "blank_line cl = PrintlnUnnecessary (cd_env cl) []"

definition ConfigImport_Exec :: "'n cloud \<Rightarrow> ('n, unit) cmd_step" where
  "ConfigImport_Exec cl = with_state (\<lambda>s0.
     let target = GetStringArg s0 ''configName''; src = GetStringArg s0 ''source'' in
     andthen (Execute (cd_env cl) [] src (Stage.NewFixedProvider (MakeImportStages cl target))) (\<lambda>path.
     andthen (blank_line cl) (\<lambda>_. one_row cl [str_col ''Configuration Path'' path])))"

definition config_names :: "'n cloud \<Rightarrow> ('n, string list) cmd_step" where
  "config_names cl =
     (case Configs (cf_place (cd_conf cl)) of
        None \<Rightarrow> fail panic_error
      | Some cd \<Rightarrow> ret (case Config_FindAll (cd_conf cl) cd of Inl e \<Rightarrow> [] | Inr cs \<Rightarrow> cs))"

text \<open>The message is printed after the rows, even when they fail.\<close>

definition ConfigList_Exec :: "'n cloud \<Rightarrow> ('n, unit) cmd_step" where
  "ConfigList_Exec cl =
     andthen (ExecuteBlocking (config_names cl)) (\<lambda>cs.
       if cs = [] then PrintlnUnnecessary (cd_env cl) ''OK No configurations found.''
       else (\<lambda>s. (let (r, s1) = AddOutputRows (cd_env cl) (map (\<lambda>c. [str_col ''Configuration Name'' c]) cs) s
                  in (r, snd (PrintlnUnnecessary (cd_env cl)
                       (''OK Found '' @ itoa (int (length cs)) @ '' configuration(s).'') s1)))))"

subsection \<open>base/commands/viridian/common.go\<close>

definition findAll_tokens :: "'n cloud \<Rightarrow> (go_error + string list) option" where
  "findAll_tokens cl =
     map_option (\<lambda>d. paths_FindAll (cf_entries (cd_conf cl) (paths_Join [d, ''viridian'']))
                  (\<lambda>(n, isDir). \<not> isDir \<and> filepath_Ext n = ''.access'')) (Secrets (ve_place (cd_api cl)))"

definition findTokenPath :: "'n cloud \<Rightarrow> string \<Rightarrow> (go_error + string) option" where
  "findTokenPath cl apiKey0 =
     (let ac = APIClass (cd_api cl);
          apiKey = (if apiKey0 = [] then pl_getenv (ve_place (cd_api cl)) ''CLC_VIRIDIAN_API_KEY'' else apiKey0)
      in if apiKey \<noteq> [] then Some (Inr (token_file (cd_api cl) apiKey))
         else map_option (\<lambda>r. case r of
             Inl e \<Rightarrow> Inl (Wrapf ''cannot access the secrets, did you login?'' e)
           | Inr tokenPaths \<Rightarrow>
               (case find (\<lambda>p. has_prefix p ac) (sort tokenPaths) of
                  Some (c # tp) \<Rightarrow> Inr (c # tp)
                | _ \<Rightarrow> Inl (Errorf ''no secrets found, did you login?''))) (findAll_tokens cl))"

text \<open>The key comes from the name of the token file; the secret file has the secret and the API base.\<close>

definition findKeyAndSecret :: "'n cloud \<Rightarrow> string \<Rightarrow> ('n, string \<times> string \<times> string) vstep" where
  "findKeyAndSecret cl tokenPath =
     (let key = trim_prefix (fst (SplitExt tokenPath)) (APIClass (cd_api cl) @ ''-'')
      in andthen (read_secret (cd_api cl) ''viridian'' (secret_file (cd_api cl) key)) (\<lambda>ss.
         ret (case index_of ss [CHR 0x0A] of
                None \<Rightarrow> (key, ss, [])
              | Some i \<Rightarrow> (key, take i ss, drop (i + 1) ss))))"

definition ErrLoadingSecrets :: go_error where
  "ErrLoadingSecrets =
     Sentinel ''could not load Viridian secrets, did you retrieve the access token using the login command?''"

definition or_secrets_error :: "('n, 'a) vstep \<Rightarrow> ('n, 'a) vstep" where
  "or_secrets_error m w = (case m w of (Inl e, w') \<Rightarrow> (Inl ErrLoadingSecrets, w') | r \<Rightarrow> r)"

definition getAPI :: "'n cloud \<Rightarrow> string \<Rightarrow> ('n, unit) vstep" where
  "getAPI cl apiKey =
     (case findTokenPath cl apiKey of
        None \<Rightarrow> fail panic_error
      | Some (Inl e) \<Rightarrow> fail e
      | Some (Inr tp) \<Rightarrow>
          andthen (or_secrets_error (read_secret (cd_api cl) ''viridian'' tp)) (\<lambda>token.
          andthen (or_secrets_error (findKeyAndSecret cl tp)) (\<lambda>(key, secret, base) w.
            (Inr (), w\<lparr>vw_api := NewAPI ''viridian'' key secret token
                                 (if base = [] then APIBaseURL_env (cd_api cl) else base)\<rparr>))))"

definition ErrClusterFailed :: go_error where
  "ErrClusterFailed = Sentinel ''cluster failed''"

definition matchClusterState :: "Cluster \<Rightarrow> string \<Rightarrow> go_error + bool" where
  "matchClusterState cluster state =
     (if cl_State cluster = state then Inr True
      else if cl_State cluster = ''FAILED'' then Inl ErrClusterFailed
      else Inr False)"

text \<open>
  The wait for a state: one round over the list of clusters, None when it says to wait, and the rounds.
  Nothing bounds the number of rounds in the code; here it is the first argument, None when it is used
  up.
\<close>

fun scan_clusters :: "string \<Rightarrow> string \<Rightarrow> Cluster list \<Rightarrow> (go_error + unit) option" where
  "scan_clusters idOrName state [] = None"
| "scan_clusters idOrName state (c # cs) =
     (if cl_ID c \<noteq> idOrName \<and> cl_Name c \<noteq> idOrName then scan_clusters idOrName state cs
      else (case matchClusterState c state of
              Inl e \<Rightarrow> Some (Inl e)
            | Inr True \<Rightarrow> Some (Inr ())
            | Inr False \<Rightarrow> scan_clusters idOrName state cs))"

fun waitClusterState ::
    "nat \<Rightarrow> 'n viridian_env \<Rightarrow> string \<Rightarrow> string \<Rightarrow> 'n vworld \<Rightarrow> ((go_error + unit) \<times> 'n vworld) option" where
  "waitClusterState 0 env idOrName state w = None"
| "waitClusterState (Suc n) env idOrName state w =
     (case ve_ctx_err env (vw_net w) of
        Some e \<Rightarrow> Some (Inl e, w)
      | None \<Rightarrow>
          (case ListClusters env w of
             (Inl e, w1) \<Rightarrow> Some (Inl e, w1)
           | (Inr cs, w1) \<Rightarrow>
               (case scan_clusters idOrName state cs of
                  Some r \<Rightarrow> Some (r, w1)
                | None \<Rightarrow> waitClusterState n env idOrName state w1)))"

definition wait_step :: "'n cloud \<Rightarrow> string \<Rightarrow> string \<Rightarrow> ('n, unit) vstep" where
  "wait_step cl idOrName state w =
     (case waitClusterState (cd_fuel cl) (cd_api cl) idOrName state w of
        Some r \<Rightarrow> r | None \<Rightarrow> (Inl (Sentinel ''still waiting''), w))"

definition importConfig :: "'n cloud \<Rightarrow> string \<Rightarrow> string \<Rightarrow> string \<Rightarrow> ('n, string) vstep" where
  "importConfig cl clusterID cfgName language =
     andthen (DownloadConfig (cd_api cl) clusterID language) (\<lambda>zipPath.
       finally_remove zipPath (panics (map_option on_fs (CreateFromZip (cd_conf cl) None cfgName zipPath))))"

definition tryImportConfig :: "'n cloud \<Rightarrow> string \<Rightarrow> string \<Rightarrow> ('n, string) vstep" where
  "tryImportConfig cl clusterID cfgName = importConfig cl clusterID cfgName ''clc''"

definition handleErrorResponse :: "'n cloud \<Rightarrow> go_error \<Rightarrow> go_error" where
  "handleErrorResponse cl err =
     (case err_as_http err of
        Some (code, t) \<Rightarrow>
          if code = 401 then Errorf ''authentication error, did you login?'' else Errorf (cd_format cl t)
      | None \<Rightarrow> err)"

definition replace_first :: "string \<Rightarrow> string \<Rightarrow> string \<Rightarrow> string" where
  "replace_first s old new =
     (case index_of s old of None \<Rightarrow> s | Some i \<Rightarrow> take i s @ new @ drop (i + length old) s)"

definition fixClusterState :: "string \<Rightarrow> string" where
  "fixClusterState state = replace_first (replace_first state ''STOPPED'' ''PAUSED'') ''STOP'' ''PAUSE''"

definition ClusterType_text :: "bool \<Rightarrow> string" where
  "ClusterType_text isDev = (if isDev then ''Development'' else ''Production'')"

subsection \<open>The commands\<close>

text \<open>What every command starts with, and the error the user is shown.\<close>

definition start_viridian :: "'n cloud \<Rightarrow> ('n, unit) cmd_step" where
  "start_viridian cl =
     andthen (IncrementMetric ''total.viridian'') (\<lambda>_. with_state (\<lambda>s.
       on_world (getAPI cl (prop_string (cd_env cl) s ''api-key''))))"

definition shown :: "'n cloud \<Rightarrow> ('n, 'a) cmd_step \<Rightarrow> ('n, 'a) cmd_step" where
  "shown cl m s = (case m s of (Inl e, s') \<Rightarrow> (Inl (handleErrorResponse cl e), s') | r \<Rightarrow> r)"

definition no_cluster :: Cluster where
  "no_cluster = \<lparr>cl_ID = [], cl_Name = [], HazelcastVersion = [], cl_Memory = 0, MancenterURL = [], MemoryUsage = 0,
      CreationTime = 0, StartTime = 0, cl_State = [], DesiredState = [], ClientCount = 0,
      cl_ClusterType = \<lparr>ct_ID = 0, ct_Name = [], DevMode = False\<rparr>, KubernetesClusters = [],
      HotBackupEnabled = False, HotRestartEnabled = False, PlanName = [], Regions = [], AllowedIps = [],
      IPWhitelistEnabled = False, MaxAvailableMemory = 0\<rparr>"

definition cluster_stage ::
    "'n cloud \<Rightarrow> string \<Rightarrow> string \<Rightarrow> string \<Rightarrow> ('n, Cluster) vstep \<Rightarrow> ('n, Cluster) cmd_step" where
  "cluster_stage cl p s f m =
     shown cl (Execute (cd_env cl) no_cluster no_cluster
       (Stage.NewFixedProvider [\<lparr>ProgressMsg = p, SuccessMsg = s, FailureMsg = f, Func = (\<lambda>_. on_world m)\<rparr>]))"

definition ClusterStop_Exec :: "'n cloud \<Rightarrow> ('n, unit) cmd_step" where
  "ClusterStop_Exec cl =
     andthen (start_viridian cl) (\<lambda>_. with_state (\<lambda>s.
     andthen (cluster_stage cl ''Initiating cluster stop'' ''Initiated cluster stop'' ''Failed to initiate cluster stop''
       (StopCluster (cd_api cl) (GetStringArg s ''clusterID''))) (\<lambda>c.
     andthen (blank_line cl) (\<lambda>_. one_row cl [str_col ''ID'' (cl_ID c)]))))"

definition ClusterResume_Exec :: "'n cloud \<Rightarrow> ('n, unit) cmd_step" where
  "ClusterResume_Exec cl =
     andthen (start_viridian cl) (\<lambda>_. with_state (\<lambda>s.
     andthen (cluster_stage cl ''Starting to resume the cluster'' ''Started to resume the cluster''
         ''Failed to start resuming the cluster'' (ResumeCluster (cd_api cl) (GetStringArg s ''clusterID''))) (\<lambda>c.
     andthen (blank_line cl) (\<lambda>_. one_row cl [str_col ''ID'' (cl_ID c)]))))"

definition ClusterDelete_Exec :: "'n cloud \<Rightarrow> ('n, unit) cmd_step" where
  "ClusterDelete_Exec cl =
     andthen (start_viridian cl) (\<lambda>_. with_state (\<lambda>s.
     andthen (confirm (prop_bool s ''yes'') ''Cluster will be deleted irreversibly, proceed?'') (\<lambda>_.
     andthen (cluster_stage cl ''Initiating cluster deletion'' ''Inititated cluster deletion''
         ''Failed to inititate cluster deletion'' (DeleteCluster (cd_api cl) (GetStringArg s ''clusterID''))) (\<lambda>c.
     andthen (blank_line cl) (\<lambda>_. with_state (\<lambda>s'.
       one_row cl ([str_col ''ID'' (cl_ID c)] @
         (if prop_bool s' ''verbose'' then [str_col ''Name'' (cl_Name c)] else []))))))))"

definition boolToYesNo :: "bool \<Rightarrow> string" where
  "boolToYesNo b = (if b then ''yes'' else ''no'')"

definition strings_cell :: "string list \<Rightarrow> cell" where
  "strings_cell ss = CSlice ''string'' (map string_cell ss)"

definition cluster_columns :: "Cluster \<Rightarrow> column list" where
  "cluster_columns c =
     [str_col ''ID'' (cl_ID c), str_col ''Name'' (cl_Name c), str_col ''State'' (fixClusterState (cl_State c)),
      str_col ''Hazelcast Version'' (HazelcastVersion c)]"

definition time_col :: "'n cloud \<Rightarrow> string \<Rightarrow> int \<Rightarrow> column" where
  "time_col cl name ms = Column name TypeJavaLocalDateTime (CScalar ''time.Time'' (cd_millis cl ms))"

definition ClusterGet_Exec :: "'n cloud \<Rightarrow> ('n, unit) cmd_step" where
  "ClusterGet_Exec cl =
     andthen (start_viridian cl) (\<lambda>_. with_state (\<lambda>s.
     andthen (shown cl (ExecuteBlocking (on_world (GetCluster (cd_api cl) (GetStringArg s ''clusterID''))))) (\<lambda>c.
     with_state (\<lambda>s'. one_row cl (cluster_columns c @
       (if prop_bool s' ''verbose'' then
          [time_col cl ''Creation Time'' (CreationTime c), time_col cl ''Start Time'' (StartTime c),
           str_col ''Hot Backup Enabled'' (boolToYesNo (HotBackupEnabled c)),
           str_col ''Hot Restart Enabled'' (boolToYesNo (HotRestartEnabled c)),
           str_col ''IP Whitelist Enabled'' (boolToYesNo (IPWhitelistEnabled c)),
           Column ''Regions'' TypeStringArray (strings_cell (Regions c)),
           str_col ''Cluster Type'' (ClusterType_text (DevMode (cl_ClusterType c)))]
        else []))))))"

definition ClusterList_Exec :: "'n cloud \<Rightarrow> ('n, unit) cmd_step" where
  "ClusterList_Exec cl =
     andthen (start_viridian cl) (\<lambda>_.
     andthen (shown cl (ExecuteBlocking (on_world (ListClusters (cd_api cl))))) (\<lambda>cs. with_state (\<lambda>s.
       if cs = [] then PrintlnUnnecessary (cd_env cl) ''OK No clusters found.''
       else AddOutputRows (cd_env cl) (map (\<lambda>c. cluster_columns c @
              (if prop_bool s ''verbose'' then [str_col ''Cluster Type'' (ClusterType_text (DevMode (cl_ClusterType c)))] else [])) cs))))"

definition CustomClassDelete_Exec :: "'n cloud \<Rightarrow> ('n, unit) cmd_step" where
  "CustomClassDelete_Exec cl =
     andthen (start_viridian cl) (\<lambda>_. with_state (\<lambda>s.
     andthen (confirm (prop_bool s ''yes'') ''Custom class will be deleted irreversibly, proceed?'') (\<lambda>_.
     andthen (shown cl (ExecuteBlocking (on_world
       (DeleteCustomClass (cd_api cl) (GetStringArg s ''clusterID'') (GetStringArg s ''artifactID''))))) (\<lambda>_.
     PrintlnUnnecessary (cd_env cl) ''OK Custom class was deleted.''))))"

definition CustomClassDownload_Exec :: "'n cloud \<Rightarrow> ('n, unit) cmd_step" where
  "CustomClassDownload_Exec cl =
     andthen (start_viridian cl) (\<lambda>_. with_state (\<lambda>s.
     let t = CreateTargetInfo (cd_api cl) (prop_string (cd_env cl) s ''output-path'') in
     andthen (confirm (\<not> IsOverwrite t \<or> prop_bool s ''yes'')
                ''Given output file exists and it will be overwritten, proceed?'') (\<lambda>_.
     andthen (shown cl (ExecuteBlocking (on_world
       (DownloadCustomClass (cd_api cl) t (GetStringArg s ''clusterID'') (GetStringArg s ''artifactID''))))) (\<lambda>_.
     andthen (PrintlnUnnecessary (cd_env cl) (''OK Custom class was saved.'' @ [CHR 0x0A])) (\<lambda>_.
     one_row cl [str_col ''Path'' (ti_Path t @ FileName t)])))))"

definition custom_class_columns :: "bool \<Rightarrow> CustomClass \<Rightarrow> column list" where
  "custom_class_columns verbose c =
     [Column ''ID'' TypeInt64 (int_cell ''int64'' (cc_ID c)), str_col ''Name'' (cc_Name c),
      str_col ''Generated File Name'' (GeneratedFilename c), str_col ''Status'' (cc_Status c)] @
     (if verbose then [str_col ''Temporary Custom Classes ID'' (TemporaryCustomClassesId c)] else [])"

definition CustomClassList_Exec :: "'n cloud \<Rightarrow> ('n, unit) cmd_step" where
  "CustomClassList_Exec cl =
     andthen (start_viridian cl) (\<lambda>_. with_state (\<lambda>s.
     andthen (shown cl (ExecuteBlocking (on_world (ListCustomClasses (cd_api cl) (GetStringArg s ''clusterID''))))) (\<lambda>cs.
       if cs = [] then PrintlnUnnecessary (cd_env cl) ''OK There are no custom classes on this cluster.''
       else AddOutputRows (cd_env cl) (map (custom_class_columns (prop_bool s ''verbose'')) cs))))"

definition CustomClassUpload_Exec :: "'n cloud \<Rightarrow> ('n, unit) cmd_step" where
  "CustomClassUpload_Exec cl =
     andthen (start_viridian cl) (\<lambda>_. with_state (\<lambda>s.
     andthen (shown cl (ExecuteBlocking (on_world
       (UploadCustomClasses (cd_api cl) (GetStringArg s ''clusterID'') (GetStringArg s ''path''))))) (\<lambda>_.
     PrintlnUnnecessary (cd_env cl) ''OK Custom class was uploaded.'')))"

text \<open>\<^verbatim>\<open>filepath.Abs\<close> needs the working directory.\<close>

definition filepath_Abs :: "place \<Rightarrow> string \<Rightarrow> go_error + string" where
  "filepath_Abs pl path =
     (if is_abs path then Inr (filepath_Clean path)
      else case pl_wd pl of None \<Rightarrow> Inl (Errorf ''getwd'') | Some wd \<Rightarrow> Inr (filepath_Join [wd, path]))"

definition validateOutputDir :: "'n cloud \<Rightarrow> string \<Rightarrow> go_error + unit" where
  "validateOutputDir cl d =
     (case cf_stat (cd_conf cl) d of
        None \<Rightarrow> Inr ()
      | Some (Inl e) \<Rightarrow> Inl e
      | Some (Inr isDir) \<Rightarrow> if isDir then Inr () else Inl (Errorf (''not a directory: '' @ d)))"

definition DownloadLogs_Exec :: "'n cloud \<Rightarrow> ('n, unit) cmd_step" where
  "DownloadLogs_Exec cl =
     andthen (start_viridian cl) (\<lambda>_. with_state (\<lambda>s.
     andthen (lift_res (filepath_Abs (ve_place (cd_api cl)) (prop_string (cd_env cl) s ''output-dir''))) (\<lambda>outDir.
     andthen (lift_res (validateOutputDir cl outDir)) (\<lambda>_.
     andthen (shown cl (Execute (cd_env cl) [] [] (Stage.NewFixedProvider
       [\<lparr>ProgressMsg = ''Downloading the cluster logs'', SuccessMsg = ''Downloaded the cluster logs'',
         FailureMsg = ''Failed downloading the cluster logs'',
         Func = (\<lambda>_. on_world (DownloadClusterLogs (cd_api cl) outDir (GetStringArg s ''clusterID'')))\<rparr>]))) (\<lambda>d.
     andthen (blank_line cl) (\<lambda>_. one_row cl [str_col ''Directory'' d]))))))"

definition ImportConfig_exec :: "'n cloud \<Rightarrow> ('n, unit) cmd_step" where
  "ImportConfig_exec cl = with_state (\<lambda>s.
     andthen (on_world (getAPI cl (prop_string (cd_env cl) s ''api-key''))) (\<lambda>_.
     andthen (on_world (FindCluster (cd_api cl) (GetStringArg s ''clusterID''))) (\<lambda>c.
     let cfgName = (let n = prop_string (cd_env cl) s ''name'' in if n = [] then cl_Name c else n) in
     andthen (Execute (cd_env cl) [] [] (Stage.NewFixedProvider
       [\<lparr>ProgressMsg = ''Importing the configuration'', SuccessMsg = ''Imported the configuration'',
         FailureMsg = ''Failed importing the configuration'',
         Func = (\<lambda>_. on_world (tryImportConfig cl (cl_ID c) cfgName))\<rparr>])) (\<lambda>path.
     andthen (blank_line cl) (\<lambda>_. one_row cl [str_col ''Configuration Path'' path])))))"

definition ImportConfig_Exec :: "'n cloud \<Rightarrow> ('n, unit) cmd_step" where
  "ImportConfig_Exec cl =
     andthen (IncrementMetric ''total.viridian'') (\<lambda>_.
       wrap_err ''could not import cluster configuration'' (shown cl (ImportConfig_exec cl)))"

subsection \<open>Creating a cluster\<close>

record createStageState =
  cs_Cluster :: Cluster
  cs_ConfigPath :: string

definition getClusterType :: "bool \<Rightarrow> string" where
  "getClusterType dev = (if dev then ''DEVMODE'' else ''SERVERLESS'')"

definition getFirstAvailableK8sCluster :: "'n viridian_env \<Rightarrow> ('n, K8sCluster) vstep" where
  "getFirstAvailableK8sCluster env =
     andthen (ListAvailableK8sClusters env) (\<lambda>clusters.
       case clusters of [] \<Rightarrow> fail (Errorf ''cluster creation is not available, try again later'') | c # cs \<Rightarrow> ret c)"

text \<open>The configuration is imported if possible: an error there is no error of the stage.\<close>

definition create_stages :: "'n cloud \<Rightarrow> string \<Rightarrow> bool \<Rightarrow> bool \<Rightarrow> string \<Rightarrow> ('n vworld, createStageState) stage list" where
  "create_stages cl name dev prerelease hzVersion =
     [\<lparr>ProgressMsg = ''Initiating cluster creation'', SuccessMsg = ''Initiated cluster creation'',
       FailureMsg = ''Failed initiating cluster creation'',
       Func = (\<lambda>_. on_world (andthen (getFirstAvailableK8sCluster (cd_api cl)) (\<lambda>k.
         andthen (CreateCluster (cd_api cl) name (getClusterType dev) (k8s_ID k) prerelease hzVersion)
           (\<lambda>c. ret \<lparr>cs_Cluster = c, cs_ConfigPath = []\<rparr>))))\<rparr>,
      \<lparr>ProgressMsg = ''Waiting for the cluster to get ready'', SuccessMsg = ''Cluster is ready'',
       FailureMsg = ''Failed while waiting for cluster to get ready'',
       Func = (\<lambda>state. on_world (andthen (wait_step cl (cl_ID (cs_Cluster state)) ''RUNNING'') (\<lambda>_. ret state)))\<rparr>,
      \<lparr>ProgressMsg = ''Importing the configuration'', SuccessMsg = ''Imported the configuration'',
       FailureMsg = ''Failed importing the configuration'',
       Func = (\<lambda>state. on_world (\<lambda>w.
         (case tryImportConfig cl (cl_ID (cs_Cluster state)) (cl_Name (cs_Cluster state)) w of
            (Inl e, w') \<Rightarrow> (Inr state, w')
          | (Inr path, w') \<Rightarrow> (Inr (state\<lparr>cs_ConfigPath := path\<rparr>), w'))))\<rparr>]"

definition ClusterCreate_Exec :: "'n cloud \<Rightarrow> ('n, unit) cmd_step" where
  "ClusterCreate_Exec cl =
     andthen (start_viridian cl) (\<lambda>_. with_state (\<lambda>s.
     let name = prop_string (cd_env cl) s ''name''; hzVersion = prop_string (cd_env cl) s ''hazelcast-version'';
         none = \<lparr>cs_Cluster = no_cluster, cs_ConfigPath = []\<rparr>
     in andthen (shown cl (Execute (cd_env cl) none none (Stage.NewFixedProvider
          (create_stages cl name (prop_bool s ''development'') (prop_bool s ''prerelease'') hzVersion)))) (\<lambda>state.
        andthen (PrintlnUnnecessary (cd_env cl) (''OK Created the cluster.'' @ [CHR 0x0A])) (\<lambda>_. with_state (\<lambda>s'.
          one_row cl ([str_col ''ID'' (cl_ID (cs_Cluster state))] @
            (if prop_bool s' ''verbose''
             then [str_col ''Name'' (cl_Name (cs_Cluster state)), str_col ''Configuration Path'' (cs_ConfigPath state)]
             else [])))))))"

subsection \<open>Login\<close>

definition getAPIBase :: "'n cloud \<Rightarrow> 'n vworld cstate \<Rightarrow> string" where
  "getAPIBase cl s =
     (let ab = prop_string (cd_env cl) s ''api-base'' in
      if ab = [] then APIBaseURL_env (cd_api cl)
      else if has_prefix ab ''https://'' \<or> has_prefix ab ''http://'' then ab
      else ''https://api.'' @ ab @ ''.viridian.hazelcast.cloud'')"

text \<open>A value of the flag, of the environment, or of the prompt, in this order.\<close>

definition flag_env_prompt ::
    "'n cloud \<Rightarrow> string \<Rightarrow> string \<Rightarrow> ('n, string) cmd_step \<Rightarrow> string \<Rightarrow> string \<Rightarrow> ('n, string) cmd_step" where
  "flag_env_prompt cl prop var ask reading blank = with_state (\<lambda>s.
     let k0 = prop_string (cd_env cl) s prop;
         k1 = (if k0 = [] then pl_getenv (ve_place (cd_api cl)) var else k0)
     in andthen (if k1 = [] then wrap_err reading ask else ret k1) (\<lambda>k.
          if k = [] then fail (Errorf blank) else ret k))"

definition getAPIKeySecret :: "'n cloud \<Rightarrow> ('n, string \<times> string) cmd_step" where
  "getAPIKeySecret cl =
     andthen (flag_env_prompt cl ''api-key'' ''CLC_VIRIDIAN_API_KEY'' (prompt_Text ''  API Key    : '')
                ''reading API key'' ''api key cannot be blank'') (\<lambda>key.
     andthen (flag_env_prompt cl ''api-secret'' ''CLC_VIRIDIAN_API_SECRET'' (prompt_Password ''  API Secret : '')
                ''reading API secret'' ''api secret cannot be blank'') (\<lambda>secret. ret (key, secret)))"

definition retrieveToken :: "'n cloud \<Rightarrow> string \<Rightarrow> string \<Rightarrow> string \<Rightarrow> ('n, string) cmd_step" where
  "retrieveToken cl key secret apiBase =
     shown cl (ExecuteBlocking (on_world (viridian_Login (cd_api cl) ''viridian'' key secret apiBase)))"

text \<open>The secret goes first, with the API base on the second line, then the token.\<close>

definition save_login :: "'n cloud \<Rightarrow> string \<Rightarrow> string \<Rightarrow> string \<Rightarrow> string \<Rightarrow> ('n, string) vstep" where
  "save_login cl key secret ab token =
     andthen (save_secret (cd_api cl) ''viridian'' (secret_file (cd_api cl) key) (secret @ [CHR 0x0A] @ ab)) (\<lambda>_.
     andthen (save_secret (cd_api cl) ''viridian'' (token_file (cd_api cl) key) token) (\<lambda>_. ret key))"

definition Login_Exec :: "'n cloud \<Rightarrow> ('n, unit) cmd_step" where
  "Login_Exec cl =
     andthen (IncrementMetric ''total.viridian'') (\<lambda>_.
     andthen (getAPIKeySecret cl) (\<lambda>(key, secret). with_state (\<lambda>s.
     let ab = getAPIBase cl s in
     andthen (shown cl (Execute (cd_env cl) [] [] (Stage.NewFixedProvider
       [\<lparr>ProgressMsg = ''Retrieving the access token'', SuccessMsg = ''Retrieved the access token'',
         FailureMsg = ''Failed retrieving the access token'', Func = (\<lambda>_. retrieveToken cl key secret ab)\<rparr>,
        \<lparr>ProgressMsg = ''Saving the access token'', SuccessMsg = ''Saved the access token'',
         FailureMsg = ''Failed saving the access token'',
         Func = (\<lambda>token. on_world (save_login cl key secret ab token))\<rparr>]))) (\<lambda>_.
     andthen (blank_line cl) (\<lambda>_. one_row cl [str_col ''API Key'' key])))))"

text \<open>The predefined formats of the log stream; another text is a template of its own.\<close>

definition loggerTemplate :: "string \<Rightarrow> string" where
  "loggerTemplate format =
     (if format = ''minimal'' then ''{{.msg}}''
      else if format = ''basic'' \<or> format = [] then ''{{.time}} [{{.level}}] {{.msg}}''
      else if format = ''detailed'' then ''{{.time}} [{{.level}}] [{{.thread}}] [{{.logger}}] {{.msg}}''
      else format)"

subsection \<open>The wait ends with the cluster's state\<close>

fun poll :: "nat \<Rightarrow> 'n viridian_env \<Rightarrow> 'n vworld \<Rightarrow> 'n vworld" where
  "poll 0 env w = w"
| "poll (Suc k) env w = poll k env (snd (ListClusters env w))"

definition matches :: "string \<Rightarrow> Cluster \<Rightarrow> bool" where
  "matches idOrName c \<longleftrightarrow> cl_ID c = idOrName \<or> cl_Name c = idOrName"

lemma scan_waits:
  "\<forall>c \<in> set cs. matches i c \<longrightarrow> cl_State c \<noteq> st \<and> cl_State c \<noteq> ''FAILED'' \<Longrightarrow> scan_clusters i st cs = None"
  by (induction cs) (auto simp: matches_def matchClusterState_def)

lemma scan_decides:
  "find_cluster i cs = Some c \<Longrightarrow> cl_State c = st \<or> cl_State c = ''FAILED'' \<Longrightarrow>
     scan_clusters i st cs = Some (if cl_State c = st then Inr () else Inl ErrClusterFailed)"
  by (induction cs) (auto simp: matchClusterState_def split: if_splits)

lemma wait_one_round:
  assumes "ve_ctx_err env (vw_net w) = None" "fst (ListClusters env w) = Inr cs"
    and "\<forall>c \<in> set cs. matches i c \<longrightarrow> cl_State c \<noteq> st \<and> cl_State c \<noteq> ''FAILED''"
  shows "waitClusterState (Suc n) env i st w = waitClusterState n env i st (snd (ListClusters env w))"
  using assms(1,2) scan_waits [OF assms(3)] by (cases "ListClusters env w") simp

text \<open>
  C39: Waiting for a state ends as soon as the service reports it: if in some round the cluster is
  listed in the state asked for, or as failed, after rounds that were answered and had it in other
  states, the wait returns in that round, without an error or with \<open>ErrClusterFailed\<close>; the rounds
  allowed only have to reach that one.
\<close>

theorem waitClusterState_returns:
  assumes "\<And>j. j \<le> k \<Longrightarrow> ve_ctx_err env (vw_net (poll j env w)) = None"
    and "\<And>j. j < k \<Longrightarrow> \<exists>cs. fst (ListClusters env (poll j env w)) = Inr cs \<and>
           (\<forall>c \<in> set cs. matches i c \<longrightarrow> cl_State c \<noteq> st \<and> cl_State c \<noteq> ''FAILED'')"
    and "fst (ListClusters env (poll k env w)) = Inr cs" "find_cluster i cs = Some c"
    and "cl_State c = st \<or> cl_State c = ''FAILED''" "k < n"
  shows "waitClusterState n env i st w =
    Some (if cl_State c = st then Inr () else Inl ErrClusterFailed, poll (Suc k) env w)"
  using assms
proof (induction k arbitrary: n w)
  case 0
  then obtain m where n: "n = Suc m" using gr0_implies_Suc by blast
  have x: "ve_ctx_err env (vw_net w) = None" using "0.prems"(1) [of 0] by simp
  show ?case
    using "0.prems"(3) x scan_decides [OF "0.prems"(4,5)] n by (cases "ListClusters env w") simp
next
  case (Suc k)
  obtain m where n: "n = Suc m" "k < m" using Suc.prems(6) by (metis Suc_less_eq2)
  let ?w = "snd (ListClusters env w)"
  obtain cs0 where c0: "fst (ListClusters env w) = Inr cs0"
    "\<forall>c \<in> set cs0. matches i c \<longrightarrow> cl_State c \<noteq> st \<and> cl_State c \<noteq> ''FAILED''"
    using Suc.prems(2) [of 0] by auto
  have x: "ve_ctx_err env (vw_net w) = None" using Suc.prems(1) [of 0] by simp
  have "waitClusterState m env i st ?w =
      Some (if cl_State c = st then Inr () else Inl ErrClusterFailed, poll (Suc k) env ?w)"
  proof (rule Suc.IH [OF _ _ _ Suc.prems(4,5) n(2)])
    show "ve_ctx_err env (vw_net (poll j env ?w)) = None" if "j \<le> k" for j
      using Suc.prems(1) [of "Suc j"] that by simp
    show "\<exists>cs. fst (ListClusters env (poll j env ?w)) = Inr cs \<and>
        (\<forall>c \<in> set cs. matches i c \<longrightarrow> cl_State c \<noteq> st \<and> cl_State c \<noteq> ''FAILED'')" if "j < k" for j
      using Suc.prems(2) [of "Suc j"] that by simp
    show "fst (ListClusters env (poll k env ?w)) = Inr cs" using Suc.prems(3) by simp
  qed
  then show ?case unfolding n(1) wait_one_round [OF x c0] by simp
qed

text \<open>A service that is busy with the cluster \<open>prod\<close> until it was asked twice.\<close>

definition busy_env :: "(unit \<times> http_request list) viridian_env" where
  "busy_env = sample_venv\<lparr>ve_http := (\<lambda>r n. (Inr (200, if length (snd n) < 2 then ''busy'' else ''done''), (fst n, snd n @ [r]))),
     ve_clusters := (\<lambda>b. Inr [sample_cluster ''17'' ''dev'' ''RUNNING'',
                                sample_cluster ''18'' ''prod'' (if b = ''done'' then ''RUNNING'' else ''PENDING'')])\<rparr>"

lemma waitClusterState_returns_witness:
  "\<exists>w'. waitClusterState 5 busy_env ''prod'' ''RUNNING'' sample_vworld = Some (Inr (), w')"
proof -
  let ?c = "\<lambda>b. [sample_cluster ''17'' ''dev'' ''RUNNING'',
       sample_cluster ''18'' ''prod'' (if b then ''RUNNING'' else ''PENDING'')]"
  have h: "ve_http busy_env = (\<lambda>r n. (Inr (200, if length (snd n) < 2 then ''busy'' else ''done''), (fst n, snd n @ [r])))"
    "ve_clusters busy_env b = Inr (?c (b = ''done''))" "ve_ctx_err busy_env n = None" for b n
    by (simp_all add: busy_env_def sample_venv_def)
  have l: "fst (ListClusters busy_env w) = Inr (?c (2 \<le> length (snd (vw_net w)))) \<and>
      length (snd (vw_net (snd (ListClusters busy_env w)))) = Suc (length (snd (vw_net w)))" for w
    by (simp add: ListClusters_def wrap_err_def get_at_def RetryOnAuthFail_def doGet_def andthen_def http_send_def h lift_res_def)
  have p: "length (snd (vw_net (poll j busy_env w))) = length (snd (vw_net w)) + j" for j w
    using l by (induction j arbitrary: w) simp_all
  have z: "length (snd (vw_net sample_vworld)) = 0" by (simp add: sample_vworld_def)
  have m: "cl_ID (sample_cluster i n s) = i" "cl_Name (sample_cluster i n s) = n" "cl_State (sample_cluster i n s) = s" for i n s
    by (simp_all add: sample_cluster_def)
  have "waitClusterState 5 busy_env ''prod'' ''RUNNING'' sample_vworld =
    Some (if cl_State (sample_cluster ''18'' ''prod'' ''RUNNING'') = ''RUNNING'' then Inr () else Inl ErrClusterFailed,
          poll (Suc 2) busy_env sample_vworld)"
    by (rule waitClusterState_returns [where k = 2 and cs = "?c True"])
      (use l p z in \<open>auto simp: h m matches_def\<close>)
  then show ?thesis by (simp add: m)
qed

subsection \<open>A login is found again\<close>

lemma ext_access: "CHR ''.'' \<notin> set e \<Longrightarrow> CHR ''/'' \<notin> set e \<Longrightarrow> SplitExt (s @ CHR ''.'' # e) = (s, CHR ''.'' # e)"
proof -
  assume e: "CHR ''.'' \<notin> set e" "CHR ''/'' \<notin> set e"
  have t: "takeWhile (\<lambda>c. c \<noteq> CHR ''/'') (rev e @ x) = rev e @ takeWhile (\<lambda>c. c \<noteq> CHR ''/'') x" for x
    by (rule takeWhile_append2) (use e(2) in auto)
  have t': "takeWhile (\<lambda>c. c \<noteq> CHR ''.'') (rev e @ x) = rev e @ takeWhile (\<lambda>c. c \<noteq> CHR ''.'') x" for x
    by (rule takeWhile_append2) (use e(1) in auto)
  have b: "base_name (s @ CHR ''.'' # e) = rev (takeWhile (\<lambda>c. c \<noteq> CHR ''/'') (rev s)) @ CHR ''.'' # e"
    by (simp add: base_name_def t)
  have "filepath_Ext (s @ CHR ''.'' # e) = CHR ''.'' # e"
    unfolding filepath_Ext_def b by (simp add: t' Let_def)
  then show ?thesis by (simp add: SplitExt_def)
qed

lemma save_secret_ok:
  assumes "save_secret env pfx name c w = (Inr u, w')"
    and "ResolveSecretPath (ve_place env) pfx name = Some p"
  shows "w' = w\<lparr>vw_fs := (vw_fs w)\<lparr>fs_files := (fs_files (vw_fs w))(p \<mapsto> base64_encode c)\<rparr>\<rparr>"
proof (cases "Secrets_Save (ve_place env) (ve_ctx_err env (vw_net w)) pfx name c")
  case None
  then show ?thesis using assms(1) by (simp add: save_secret_def with_state_def panics_def fail_def)
next
  case (Some save)
  obtain r fs' where s: "save (vw_fs w) = (r, fs')" by fastforce
  then have "r = Inr ()" "w' = w\<lparr>vw_fs := fs'\<rparr>"
    using assms(1) Some by (auto simp: save_secret_def with_state_def panics_def on_fs_def)
  then show ?thesis using Secrets_Save_writes [OF Some _ assms(2)] s by simp
qed

lemma read_secret_file:
  assumes "ResolveSecretPath (ve_place env) pfx name = Some p" "fs_read_error (vw_fs w) p = None"
    "fs_files (vw_fs w) p = Some (base64_encode c)"
  shows "read_secret env pfx name w = (Inr c, w)"
  using Secrets_Read_file [OF assms] by (auto simp: read_secret_def panics_def on_fs_def)

text \<open>
  C13: What a login saves is what the next command works with: after the key, secret, API base and
  token were saved, the command that is run with the same key gets an API with exactly these, the base
  being the default one when it was empty.
\<close>

theorem login_then_getAPI:
  assumes "save_login cl key secret ab token w = (Inr k, w')" "key \<noteq> []" "CHR 0x0A \<notin> set secret"
    and "ResolveSecretPath (ve_place (cd_api cl)) ''viridian'' (secret_file (cd_api cl) key) = Some p"
    and "ResolveSecretPath (ve_place (cd_api cl)) ''viridian'' (token_file (cd_api cl) key) = Some q"
    and "p \<noteq> q" "fs_read_error (vw_fs w) p = None" "fs_read_error (vw_fs w) q = None"
  shows "getAPI cl key w' = (Inr (), w'\<lparr>vw_api := NewAPI ''viridian'' key secret token
    (if ab = [] then APIBaseURL_env (cd_api cl) else ab)\<rparr>)"
proof -
  let ?s = "secret @ [CHR 0x0A] @ ab"
  obtain w1 u where w1: "save_secret (cd_api cl) ''viridian'' (secret_file (cd_api cl) key) ?s w = (Inr u, w1)"
    using assms(1) by (auto simp: save_login_def andthen_Inr_iff)
  moreover obtain u' where w2: "save_secret (cd_api cl) ''viridian'' (token_file (cd_api cl) key) token w1 = (Inr u', w')"
    using assms(1) w1 by (auto simp: save_login_def andthen_Inr_iff ret_def)
  ultimately have f: "fs_files (vw_fs w') = (fs_files (vw_fs w))(p \<mapsto> base64_encode ?s, q \<mapsto> base64_encode token)"
    "fs_read_error (vw_fs w') = fs_read_error (vw_fs w)"
    using save_secret_ok [OF w1 assms(4)] save_secret_ok [OF w2 assms(5)] by simp_all
  have rq: "read_secret (cd_api cl) ''viridian'' (token_file (cd_api cl) key) w' = (Inr token, w')"
    by (rule read_secret_file [OF assms(5)]) (use f assms(8) in auto)
  have rp: "read_secret (cd_api cl) ''viridian'' (secret_file (cd_api cl) key) w' = (Inr ?s, w')"
    by (rule read_secret_file [OF assms(4)]) (use f assms(6,7) in auto)
  have sp: "fst (SplitExt (token_file (cd_api cl) key)) = APIClass (cd_api cl) @ ''-'' @ key"
    using ext_access [of "''access''" "APIClass (cd_api cl) @ ''-'' @ key"] by (simp add: token_file_def)
  have "findKeyAndSecret cl (token_file (cd_api cl) key) w' = (Inr (key, secret, ab), w')"
    using rp index_of_char_append [OF assms(3), of ab] trim_prefix_append [of "APIClass (cd_api cl) @ ''-''" key]
    by (simp add: findKeyAndSecret_def sp andthen_def ret_def)
  then show ?thesis
    using rq assms(2) by (simp add: getAPI_def findTokenPath_def or_secrets_error_def andthen_def)
qed

definition sample_cloud :: "(unit \<times> http_request list) cloud" where
  "sample_cloud = \<lparr>cd_env = sample_env, cd_api = sample_venv, cd_conf = sample_config_env,
     cd_format = (\<lambda>t. t), cd_millis = (\<lambda>n. []), cd_fuel = 10\<rparr>"

lemma save_secret_runs:
  assumes "ve_ctx_err env (vw_net w) = None" "Secrets (ve_place env) = Some d" "ResolveSecretPath (ve_place env) pfx name = Some p"
    and "fs_mkdir_error (vw_fs w) = (\<lambda>_. None)" "fs_write_error (vw_fs w) = (\<lambda>_. None)"
  shows "save_secret env pfx name c w =
    (Inr (), w\<lparr>vw_fs := (vw_fs w)\<lparr>fs_files := (fs_files (vw_fs w))(p \<mapsto> base64_encode c)\<rparr>\<rparr>)"
  using assms by (simp add: save_secret_def with_state_def Secrets_Save_def Secrets_Write_def panics_def on_fs_def andthen_def
    wrap_err_def MkdirAll_def WriteFile_def)

lemma login_then_getAPI_witness:
  "\<exists>w'. save_login sample_cloud ''K'' ''S3cret'' [] ''t0ken'' sample_vworld = (Inr ''K'', w') \<and>
     fst (getAPI sample_cloud ''K'' w') = Inr () \<and> Token (vw_api (snd (getAPI sample_cloud ''K'' w'))) = ''t0ken''"
proof -
  have v: "ve_place sample_venv = sample_place" "ve_ctx_err sample_venv n = None" for n by (simp_all add: sample_venv_def)
  have t: "token_file sample_venv ''K'' = ''api-K.access''" "secret_file sample_venv ''K'' = ''api-K.secret''"
    by (simp_all add: token_file_def secret_file_def APIClass_def sample_venv_def sample_place_def)
  have p: "ResolveSecretPath sample_place ''viridian'' ''api-K.access'' = Some ''/h/.hz/secrets/viridian/api-K.access''"
    "ResolveSecretPath sample_place ''viridian'' ''api-K.secret'' = Some ''/h/.hz/secrets/viridian/api-K.secret''"
    "Secrets sample_place = Some ''/h/.hz/secrets''" by code_simp+
  have w: "vw_fs sample_vworld = empty_fs" by (simp add: sample_vworld_def)
  have a: "cd_api sample_cloud = sample_venv" by (simp add: sample_cloud_def)
  obtain w' where s: "save_login sample_cloud ''K'' ''S3cret'' [] ''t0ken'' sample_vworld = (Inr ''K'', w')"
    by (simp add: save_login_def andthen_def a t save_secret_runs v p w empty_fs_def ret_def)
  have "getAPI sample_cloud ''K'' w' = (Inr (), w'\<lparr>vw_api := NewAPI ''viridian'' ''K'' ''S3cret'' ''t0ken''
    (APIBaseURL_env sample_venv)\<rparr>)"
    using login_then_getAPI [OF s] by (simp add: a t v p w empty_fs_def)
  then show ?thesis using s by (simp add: NewAPI_def)
qed

end
