(* ===== verification/Jobs.thy ===== *)
theory Jobs
  imports Stage Commands Paths
begin

section \<open>Jet jobs and snapshots (internal/jet, internal/cluster, base/commands/job, snapshot)\<close>

text \<open>
  A job is submitted by sending the file's name and hash, then the file in parts. Jobs are named by the
  user with their name or id; the id is shown as four groups of hexadecimal digits. The client, the
  files and the clock are fields of \<open>jet_env\<close>. A panic is the error \<^const>\<open>panic_error\<close>. The logs are
  left out.
\<close>

record ('w, 'c, 'f, 'h) jet_env =
  je_env :: "'w cenv"
  je_proto :: "('c, 'f) proto"
  je_place :: place
  je_fuel :: nat
  je_invoke_random :: "'c \<Rightarrow> ('w, 'c) eff"
  je_invoke_member :: "UUID \<Rightarrow> 'c \<Rightarrow> ('w, 'c) eff"
  je_ctx_err :: "'w \<Rightarrow> go_error option"
  je_members :: "'w \<Rightarrow> UUID list \<times> 'w"
  je_rand :: "nat \<Rightarrow> 'w \<Rightarrow> nat"
  je_connected_to :: "UUID \<Rightarrow> 'w \<Rightarrow> bool"
  je_active :: "'w \<Rightarrow> UUID list"
  je_new_uuid :: "'w \<Rightarrow> UUID \<times> 'w"
  je_open :: "string \<Rightarrow> 'w \<Rightarrow> go_error + string"
  je_file_size :: "string \<Rightarrow> 'w \<Rightarrow> go_error + int"
  je_read :: "nat \<Rightarrow> string \<Rightarrow> nat"
  je_sha256 :: "string \<Rightarrow> string"
  je_now_text :: "'w \<Rightarrow> string"
  je_millis :: "int \<Rightarrow> string"
  je_get_map :: "string \<Rightarrow> ('w, 'h) eff"
  je_map_delete :: "'h \<Rightarrow> string \<Rightarrow> ('w, unit) eff"
  je_map_destroy :: "'h \<Rightarrow> ('w, unit) eff"
  je_entry_set :: "'h \<Rightarrow> ('w, (cell \<times> (string \<times> int) option) list) eff"
  je_key_set :: "'h \<Rightarrow> ('w, cell list) eff"

definition panic_or :: "'a option \<Rightarrow> ('s, 'a) eff" where
  "panic_or v = (case v of None \<Rightarrow> fail panic_error | Some x \<Rightarrow> ret x)"

definition ErrInvalidJobID :: go_error where "ErrInvalidJobID = Sentinel ''invalid job ID''"
definition ErrJobFailed :: go_error where "ErrJobFailed = Sentinel ''job failed''"
definition ErrJobNotFound :: go_error where "ErrJobNotFound = Sentinel ''job not found''"

subsection \<open>internal/jet/util.go\<close>

definition defaultBatchSize :: nat where "defaultBatchSize = 2 * 1024 * 1024"

abbreviation JobStatusRunning :: int where "JobStatusRunning \<equiv> 2"
abbreviation JobStatusSuspended :: int where "JobStatusSuspended \<equiv> 3"
abbreviation JobStatusFailed :: int where "JobStatusFailed \<equiv> 6"
abbreviation JobStatusCompleted :: int where "JobStatusCompleted \<equiv> 7"

definition StatusToString :: "int \<Rightarrow> string" where
  "StatusToString status =
     (if 0 \<le> status \<and> status < 8
      then [''NOT_RUNNING'', ''STARTING'', ''RUNNING'', ''SUSPENDED'', ''SUSPENDED_EXPORTING_SNAPSHOT'', ''COMPLETING'',
            ''FAILED'', ''COMPLETED''] ! nat status
      else ''UNKNOWN'')"

text \<open>\<^verbatim>\<open>fmt.Sprintf("%x", b)\<close> on bytes, as \<open>SubmitJob\<close> prints a hash.\<close>

definition hex_of :: "string \<Rightarrow> string" where
  "hex_of b = concat (map (\<lambda>c. [digit_char (of_char c div 16), digit_char (of_char c mod 16)]) b)"

definition calculateHash :: "('w, 'c, 'f, 'h) jet_env \<Rightarrow> string \<Rightarrow> string" where
  "calculateHash je content = je_sha256 je content"

text \<open>The methods of \<open>PathBinaryReader\<close>. The quotient of the part count is exact for files below 2^53 bytes.\<close>

definition br_Hash :: "('w, 'c, 'f, 'h) jet_env \<Rightarrow> string \<Rightarrow> ('w, string) eff" where
  "br_Hash je path w = (map_sum id (calculateHash je) (je_open je path w), w)"

definition br_Reader :: "('w, 'c, 'f, 'h) jet_env \<Rightarrow> string \<Rightarrow> ('w, string) eff" where
  "br_Reader je path w = (je_open je path w, w)"

definition br_FileName :: "string \<Rightarrow> string" where
  "br_FileName path = trim_suffix (snd (filepath_Split path)) ''.jar''"

definition br_PartCount :: "('w, 'c, 'f, 'h) jet_env \<Rightarrow> string \<Rightarrow> nat \<Rightarrow> ('w, int) eff" where
  "br_PartCount je path partSize w =
     (map_sum id (\<lambda>sz. (sz + int partSize - 1) div int partSize) (je_file_size je path w), w)"

text \<open>
  \<open>binBatch.Next\<close> on what is left of the reader: None at its end, else the bytes one \<open>Read\<close> gave, their
  hash, and what is left then.
\<close>

definition batch_Next :: "('w, 'c, 'f, 'h) jet_env \<Rightarrow> nat \<Rightarrow> string \<Rightarrow> (string \<times> string \<times> string) option" where
  "batch_Next je batchSize rest =
     (if rest = [] then None
      else (let n = je_read je batchSize rest in Some (take n rest, calculateHash je (take n rest), drop n rest)))"

subsection \<open>internal/cluster and internal/jet/job.go\<close>

text \<open>A connected member by chance; the number of tries is the first argument.\<close>

fun RandomMember :: "nat \<Rightarrow> ('w, 'c, 'f, 'h) jet_env \<Rightarrow> ('w, UUID) eff" where
  "RandomMember 0 je w = (Inl (Sentinel ''still trying''), w)"
| "RandomMember (Suc n) je w =
     (case je_ctx_err je w of
        Some e \<Rightarrow> (Inl e, w)
      | None \<Rightarrow>
          (let (mems, w1) = je_members je w in
           if mems \<noteq> [] then
             (let mi = mems ! (je_rand je (length mems) w1 mod length mems) in
              if je_connected_to je mi w1 then (Inr mi, w1) else RandomMember n je w1)
           else RandomMember n je w1))"

definition part_hash :: "('w, 'c, 'f, 'h) jet_env \<Rightarrow> bool \<Rightarrow> string \<Rightarrow> string" where
  "part_hash je workaround hashBin =
     (let h = hex_of hashBin in if workaround \<and> h \<noteq> [] \<and> h ! 0 = CHR ''0'' then dropWhile (\<lambda>c. c = CHR ''0'') h else h)"

text \<open>The loop that sends the parts: how many are left, how many were sent, and what is left of the file.\<close>

fun send_parts ::
    "('w, 'c, 'f, 'h) jet_env \<Rightarrow> UUID \<Rightarrow> UUID \<Rightarrow> bool \<Rightarrow> int \<Rightarrow> nat \<Rightarrow> int \<Rightarrow> string \<Rightarrow> ('w, unit) eff" where
  "send_parts je sid mem workaround pc 0 i rest = ret ()"
| "send_parts je sid mem workaround pc (Suc k) i rest =
     (case batch_Next je defaultBatchSize rest of
        None \<Rightarrow> ret ()
      | Some (bin, hashBin, rest') \<Rightarrow>
          (let part = i + 1; hash = part_hash je workaround hashBin in
           andthen (panic_or (EncodeJetUploadJobMultipartRequest (je_proto je) sid part pc bin (int32 (int (length bin))) hash)) (\<lambda>mrReq.
           andthen (wrap_err (''uploading part '' @ itoa part) (je_invoke_member je mem mrReq)) (\<lambda>_.
           send_parts je sid mem workaround pc k part rest'))))"

definition new_uuid :: "('w, 'c, 'f, 'h) jet_env \<Rightarrow> ('w, UUID) eff" where
  "new_uuid je w = (let (u, w') = je_new_uuid je w in (Inr u, w'))"

definition SubmitJob ::
    "('w, 'c, 'f, 'h) jet_env \<Rightarrow> string \<Rightarrow> string \<Rightarrow> string \<Rightarrow> string \<Rightarrow> string list \<Rightarrow> ('w, unit) eff" where
  "SubmitJob je path jobName className snapshot args =
     (let fn = br_FileName path in
      andthen (br_Hash je path) (\<lambda>hashBin.
      andthen (new_uuid je) (\<lambda>sid.
      andthen (panic_or (EncodeJetUploadJobMetaDataRequest (je_proto je) sid False fn (hex_of hashBin) snapshot jobName className args)) (\<lambda>mrReq.
      andthen (RandomMember (je_fuel je) je) (\<lambda>mem.
      andthen (je_invoke_member je mem mrReq) (\<lambda>_.
      andthen (br_PartCount je path defaultBatchSize) (\<lambda>pc.
      andthen (br_Reader je path) (\<lambda>f. with_state (\<lambda>w.
      case ce_server_version (je_env je) w of
        None \<Rightarrow> fail (Errorf ''no connection to the server'')
      | Some sv \<Rightarrow>
          andthen (panic_or (CheckVersion sv ''='' ''5.3.0'')) (\<lambda>workaround.
          send_parts je sid mem workaround (int32 pc) (nat (int32 pc)) 0 f))))))))))"

definition GetJobList :: "('w, 'c, 'f, 'h) jet_env \<Rightarrow> ('w, JobAndSqlSummary list) eff" where
  "GetJobList je =
     andthen (panic_or (EncodeJetGetJobAndSqlSummaryListRequest (je_proto je))) (\<lambda>req.
     andthen (je_invoke_random je req) (\<lambda>resp.
     panic_or (DecodeJetGetJobAndSqlSummaryListResponse (je_proto je) resp)))"

definition send_request :: "('w, 'c, 'f, 'h) jet_env \<Rightarrow> 'c option \<Rightarrow> ('w, unit) eff" where
  "send_request je req = andthen (panic_or req) (\<lambda>r. andthen (je_invoke_random je r) (\<lambda>_. ret ()))"

definition TerminateJob :: "('w, 'c, 'f, 'h) jet_env \<Rightarrow> int \<Rightarrow> int \<Rightarrow> UUID \<Rightarrow> ('w, unit) eff" where
  "TerminateJob je jobID terminateMode coordinator =
     send_request je (EncodeJetTerminateJobRequest (je_proto je) jobID terminateMode coordinator)"

definition ExportSnapshot :: "('w, 'c, 'f, 'h) jet_env \<Rightarrow> int \<Rightarrow> string \<Rightarrow> bool \<Rightarrow> ('w, unit) eff" where
  "ExportSnapshot je jobID name cancel = send_request je (EncodeJetExportSnapshotRequest (je_proto je) jobID name cancel)"

definition ResumeJob :: "('w, 'c, 'f, 'h) jet_env \<Rightarrow> int \<Rightarrow> ('w, unit) eff" where
  "ResumeJob je jobID = send_request je (EncodeJetResumeJobRequest (je_proto je) jobID)"

fun EnsureJobState :: "JobAndSqlSummary list \<Rightarrow> int \<Rightarrow> int \<Rightarrow> (bool \<times> int) \<times> go_error option" where
  "EnsureJobState [] jobID state = ((False, - 1), Some ErrJobNotFound)"
| "EnsureJobState (j # js) jobID state =
     (if JobId j = jobID then
        (if Status j = state then ((True, Status j), None)
         else if Status j = JobStatusCompleted then ((False, Status j), None)
         else if Status j = JobStatusFailed then ((False, Status j), Some ErrJobFailed)
         else ((False, Status j), None))
      else EnsureJobState js jobID state)"

subsection \<open>base/commands/job/common.go\<close>

text \<open>
  An id as four groups of hexadecimal digits: the digits are written from the right over
  \<^verbatim>\<open>0000-0000-0000-0000\<close>, the index jumping over the dashes. None is the panic of an index below 0.
\<close>

fun id_loop :: "string \<Rightarrow> int \<Rightarrow> string \<Rightarrow> string option" where
  "id_loop [] j buf = Some buf"
| "id_loop (c # cs) j buf =
     (if j < 0 \<or> int (length buf) \<le> j then None
      else id_loop cs ((if j = 15 \<or> j = 10 \<or> j = 5 then j - 1 else j) - 1) (buf[nat j := c]))"

definition idToString :: "int \<Rightarrow> string option" where
  "idToString i = id_loop (rev (format_int 16 i)) 18 ''0000-0000-0000-0000''"

definition stringToID :: "string \<Rightarrow> go_error + int" where
  "stringToID s =
     (case parse_int 10 64 s of
        Inr i \<Rightarrow> Inr i
      | Inl _ \<Rightarrow>
          (let s' = replace_all (CHR ''-'') [] s in
           case parse_int 16 64 s' of
             Inl e \<Rightarrow> Inl (Wrapf (''invalid ID: '' @ s') (parse_int_error s' e))
           | Inr i \<Rightarrow> Inr i))"

text \<open>The maps from the names of the jobs that have not ended to their ids, and from ids to jobs.\<close>

record JobsInfo =
  nameToID :: "string \<rightharpoonup> int"
  IDToInfo :: "int \<rightharpoonup> JobAndSqlSummary"

definition MakeJobNameIDMaps :: "JobAndSqlSummary list \<Rightarrow> (string \<rightharpoonup> int) \<times> (int \<rightharpoonup> JobAndSqlSummary)" where
  "MakeJobNameIDMaps jobList =
     foldl (\<lambda>(n2i, i2j) j.
       (if Status j = JobStatusFailed \<or> Status j = JobStatusCompleted then n2i else n2i(NameOrId j \<mapsto> JobId j),
        i2j(JobId j \<mapsto> j))) (Map.empty, Map.empty) jobList"

definition NewJobNameToIDMap :: "JobAndSqlSummary list \<Rightarrow> JobsInfo" where
  "NewJobNameToIDMap jobs = (let (n2i, i2j) = MakeJobNameIDMaps jobs in \<lparr>nameToID = n2i, IDToInfo = i2j\<rparr>)"

definition GetIDForName :: "JobsInfo \<Rightarrow> string \<Rightarrow> int option" where
  "GetIDForName m idOrName = (case stringToID idOrName of Inr i \<Rightarrow> Some i | Inl _ \<Rightarrow> nameToID m idOrName)"

definition GetInfoForID :: "JobsInfo \<Rightarrow> int \<Rightarrow> JobAndSqlSummary option" where
  "GetInfoForID m i = IDToInfo m i"

text \<open>
  The wait for a state of a job. Nothing bounds the rounds in the code; here their number is the first
  argument, None when it is used up.
\<close>

fun wait_rounds ::
    "nat \<Rightarrow> ('w, 'c, 'f, 'h) jet_env \<Rightarrow> int \<Rightarrow> int \<Rightarrow> 'w cstate \<Rightarrow> ((go_error + unit) \<times> 'w cstate) option" where
  "wait_rounds 0 je jobID state s = None"
| "wait_rounds (Suc n) je jobID state s =
     (case on_world (GetJobList je) s of
        (Inl e, s1) \<Rightarrow> Some (Inl e, s1)
      | (Inr jl, s1) \<Rightarrow>
          (case EnsureJobState jl jobID state of
             (_, Some e) \<Rightarrow> Some (Inl e, s1)
           | ((ok, st), None) \<Rightarrow>
               if ok then Some (Inr (), s1)
               else (case idToString jobID of
                       None \<Rightarrow> Some (Inl panic_error, s1)
                     | Some _ \<Rightarrow> wait_rounds n je jobID state s1)))"

definition WaitJobState ::
    "nat \<Rightarrow> ('w, 'c, 'f, 'h) jet_env \<Rightarrow> int \<Rightarrow> int \<Rightarrow> 'w cstate \<Rightarrow> ((go_error + unit) \<times> 'w cstate) option" where
  "WaitJobState n je jobID state s =
     (case ClientInternal (je_env je) s of
        (Inl e, s1) \<Rightarrow> Some (Inl e, s1)
      | (Inr _, s1) \<Rightarrow> wait_rounds n je jobID state s1)"

definition wait_job :: "('w, 'c, 'f, 'h) jet_env \<Rightarrow> int \<Rightarrow> int \<Rightarrow> ('w, unit) step" where
  "wait_job je jobID state s =
     (case WaitJobState (je_fuel je) je jobID state s of
        Some r \<Rightarrow> r | None \<Rightarrow> (Inl (Sentinel ''still waiting''), s))"

text \<open>The start of each job stage: the client, the metric and the jobs by name and id.\<close>

definition load_jobs :: "('w, 'c, 'f, 'h) jet_env \<Rightarrow> ('w, JobsInfo) step" where
  "load_jobs je =
     andthen (ClientInternal (je_env je)) (\<lambda>_.
     andthen (IncrementClusterMetric (je_env je) ''total.job'') (\<lambda>_.
     andthen (on_world (GetJobList je)) (\<lambda>jis. ret (NewJobNameToIDMap jis))))"

record TerminateCommand =
  tc_name :: string
  tc_longHelp :: string
  tc_shortHelp :: string
  terminateMode :: int
  terminateModeForce :: int
  inProgressMsg :: "string \<Rightarrow> string"
  successMsg :: "string \<Rightarrow> string"
  failureMsg :: string
  waitState :: int

definition coordinator_of :: "('w, 'c, 'f, 'h) jet_env \<Rightarrow> JobAndSqlSummary \<Rightarrow> ('w, UUID) step" where
  "coordinator_of je ji =
     (if \<not> LightJob ji then ret zeroUUID
      else with_state (\<lambda>s. case je_active je (cs_world s) of
          [] \<Rightarrow> fail (Errorf ''not connected'') | u # us \<Rightarrow> ret u))"

text \<open>The mode handed over is not the one that is sent: the request always has the command's own mode.\<close>

definition terminateJob :: "('w, 'c, 'f, 'h) jet_env \<Rightarrow> int \<Rightarrow> TerminateCommand \<Rightarrow> ('w, unit) step" where
  "terminateJob je tm cm = with_state (\<lambda>s0.
     let nameOrID = GetStringArg s0 ''jobID'';
         invalid = Errorf (err_text ErrInvalidJobID @ '': '' @ nameOrID);
         sts = [MakeConnectStage (je_env je) 0,
           \<lparr>ProgressMsg = inProgressMsg cm nameOrID, SuccessMsg = successMsg cm nameOrID, FailureMsg = failureMsg cm,
             Func = (\<lambda>_. andthen (load_jobs je) (\<lambda>jm.
               case GetIDForName jm nameOrID of
                 None \<Rightarrow> fail invalid
               | Some jid \<Rightarrow>
                   andthen (panic_or (idToString jid)) (\<lambda>_.
                   case GetInfoForID jm jid of
                     None \<Rightarrow> fail invalid
                   | Some ji \<Rightarrow>
                       andthen (coordinator_of je ji) (\<lambda>coord.
                       andthen (on_world (TerminateJob je jid (terminateMode cm) coord)) (\<lambda>_. ret jid)))))\<rparr>];
         wait = \<lparr>ProgressMsg = ''Waiting for job to be '' @ tc_name cm @ ''ed'',
             SuccessMsg = ''Job '' @ nameOrID @ '' is '' @ tc_name cm @ ''ed'',
             FailureMsg = ''Failed to '' @ tc_name cm @ '' '' @ nameOrID,
             Func = (\<lambda>v. andthen (panic_or (idToString v)) (\<lambda>_. andthen (wait_job je v (waitState cm)) (\<lambda>_. ret 0)))\<rparr>
     in andthen (Execute (je_env je) 0 0 (Stage.NewFixedProvider (if prop_bool s0 ''wait'' then sts @ [wait] else sts))) (\<lambda>_. ret ()))"

definition Terminate_Exec :: "('w, 'c, 'f, 'h) jet_env \<Rightarrow> TerminateCommand \<Rightarrow> ('w, unit) step" where
  "Terminate_Exec je cm = with_state (\<lambda>s.
     let tm = (if prop_bool s ''force'' then terminateModeForce cm else terminateMode cm) in terminateJob je tm cm)"

text \<open>The three commands registered.\<close>

definition terminate_commands :: "TerminateCommand list" where
  "terminate_commands =
     [\<lparr>tc_name = ''cancel'',
       tc_longHelp = ''Cancels the job with the given ID or name'',
       tc_shortHelp = ''Cancels the job with the given ID or name'',
       terminateMode = 4, terminateModeForce = 5,
       inProgressMsg = (\<lambda>n. ''Starting to cancel '' @ quoted n), successMsg = (\<lambda>n. ''Started cancellation of '' @ quoted n),
       failureMsg = ''Failed to start job cancellation'', waitState = JobStatusFailed\<rparr>,
      \<lparr>tc_name = ''suspend'',
       tc_longHelp = ''Suspends the job with the given ID or name'',
       tc_shortHelp = ''Suspends the job with the given ID or name'',
       terminateMode = 2, terminateModeForce = 3,
       inProgressMsg = (\<lambda>n. ''Starting to suspend '' @ quoted n), successMsg = (\<lambda>n. ''Started suspension of '' @ quoted n),
       failureMsg = ''Failed to start job suspension'', waitState = JobStatusSuspended\<rparr>,
      \<lparr>tc_name = ''restart'',
       tc_longHelp = ''Restarts the job with the given ID or name'',
       tc_shortHelp = ''Restarts the job with the given ID or name'',
       terminateMode = 0, terminateModeForce = 1,
       inProgressMsg = (\<lambda>n. ''Initiating the restart of '' @ quoted n),
       successMsg = (\<lambda>n. ''Initiated the restart of '' @ quoted n),
       failureMsg = ''Failed to initiate job restart'', waitState = JobStatusRunning\<rparr>]"


subsection \<open>The commands\<close>

definition Resume_Exec :: "('w, 'c, 'f, 'h) jet_env \<Rightarrow> ('w, unit) step" where
  "Resume_Exec je = with_state (\<lambda>s0.
     let nameOrID = GetStringArg s0 ''jobID'';
         sts = [MakeConnectStage (je_env je) 0,
           \<lparr>ProgressMsg = ''Initiating resume of job: '' @ nameOrID, SuccessMsg = ''Initiated resume of job '' @ nameOrID,
             FailureMsg = ''Failed initiating job resume '' @ nameOrID,
             Func = (\<lambda>_. andthen (load_jobs je) (\<lambda>jm.
               case GetIDForName jm nameOrID of
                 None \<Rightarrow> fail ErrInvalidJobID
               | Some jid \<Rightarrow> andthen (on_world (ResumeJob je jid)) (\<lambda>_. ret jid)))\<rparr>];
         wait = \<lparr>ProgressMsg = ''Waiting for job '' @ nameOrID @ '' to resume'', SuccessMsg = ''Job '' @ nameOrID @ '' is resumed'',
             FailureMsg = ''Job '' @ nameOrID @ '' failed to resume'',
             Func = (\<lambda>v. andthen (wait_job je v JobStatusRunning) (\<lambda>_. ret v))\<rparr>
     in andthen (Execute (je_env je) 0 0 (Stage.NewFixedProvider (if prop_bool s0 ''wait'' then sts @ [wait] else sts))) (\<lambda>_. ret ()))"

definition autoGenerateSnapshotName :: "('w, 'c, 'f, 'h) jet_env \<Rightarrow> string \<Rightarrow> 'w \<Rightarrow> string" where
  "autoGenerateSnapshotName je jobName w =
     jobName @ ''-'' @ je_now_text je w @ ''-'' @ itoa (int (je_rand je 10000 w mod 10000))"

definition ExportSnapshot_Exec :: "('w, 'c, 'f, 'h) jet_env \<Rightarrow> ('w, unit) step" where
  "ExportSnapshot_Exec je = with_state (\<lambda>s0.
     let jobNameOrID = GetStringArg s0 ''jobID''; name0 = prop_string (je_env je) s0 ''name''; cancel = prop_bool s0 ''cancel''
     in andthen (ExecuteBlocking (andthen (load_jobs je) (\<lambda>jm.
          case GetIDForName jm jobNameOrID of
            None \<Rightarrow> fail ErrInvalidJobID
          | Some jid \<Rightarrow> with_state (\<lambda>s.
              let name = (if name0 \<noteq> [] then name0
                          else (case GetInfoForID jm jid of
                                  None \<Rightarrow> ''UNKNOWN''
                                | Some info \<Rightarrow> autoGenerateSnapshotName je (NameOrId info) (cs_world s)))
              in andthen (on_world (ExportSnapshot je jid name cancel)) (\<lambda>_.
                 ret [Column ''Name'' TypeString (string_cell name)]))))) (\<lambda>row.
        andthen (PrintlnUnnecessary (je_env je) (''OK Exported the snapshot.'' @ [CHR 0x0A])) (\<lambda>_.
        AddOutputRows (je_env je) [row])))"

definition msToOffsetDateTimeColumn :: "('w, 'c, 'f, 'h) jet_env \<Rightarrow> int \<Rightarrow> string \<Rightarrow> column" where
  "msToOffsetDateTimeColumn je ms name =
     (if ms = 0 then Column name TypeNil CNil
      else Column name TypeJavaLocalDateTime (CScalar ''time.Time'' (je_millis je ms)))"

definition job_row :: "('w, 'c, 'f, 'h) jet_env \<Rightarrow> bool \<Rightarrow> bool \<Rightarrow> JobAndSqlSummary \<Rightarrow> column list option" where
  "job_row je sql verbose v =
     map_option (\<lambda>i.
       let name = (if NameOrId v = i then ''N/A'' else NameOrId v);
           status = StatusToString (Status v);
           status = (if status = ''FAILED'' \<and> UserCancelled v then ''CANCELLED'' else status)
       in [Column ''Job ID'' TypeString (string_cell i), Column ''Name'' TypeString (string_cell name),
           Column ''Status'' TypeString (string_cell status),
           msToOffsetDateTimeColumn je (SubmissionTime v) ''Submitted'',
           msToOffsetDateTimeColumn je (CompletionTime v) ''Completed''] @
          (if sql then [Column ''Query'' TypeString (string_cell (ss_Query (js_SqlSummary v))),
                        Column ''Unbounded'' TypeBool (bool_cell (ss_Unbounded (js_SqlSummary v)))] else []) @
          (if verbose then [Column ''Light'' TypeBool (bool_cell (LightJob v)),
                            Column ''Message'' TypeString (string_cell (FailureText v))] else []))
      (idToString (JobId v))"

text \<open>The jobs shown: SQL jobs and jobs the user cancelled only when they were asked for.\<close>

definition shown_job :: "bool \<Rightarrow> bool \<Rightarrow> JobAndSqlSummary \<Rightarrow> bool" where
  "shown_job sql user v \<longleftrightarrow> (sql \<or> ss_Query (js_SqlSummary v) = []) \<and> (user \<or> \<not> UserCancelled v)"

definition createJetJobRows :: "('w, 'c, 'f, 'h) jet_env \<Rightarrow> 'w cstate \<Rightarrow> JobAndSqlSummary list \<Rightarrow> column list list option" where
  "createJetJobRows je s ls =
     (let verbose = prop_bool s ''verbose''; sql = prop_bool s ''include-sql''; user = prop_bool s ''include-user-cancelled'' in
      those (map (job_row je sql verbose) (filter (shown_job sql user) ls)))"

definition JobList_Exec :: "('w, 'c, 'f, 'h) jet_env \<Rightarrow> ('w, unit) step" where
  "JobList_Exec je =
     andthen (ExecuteBlocking
       (andthen (ClientInternal (je_env je)) (\<lambda>_.
        andthen (IncrementClusterMetric (je_env je) ''total.job'') (\<lambda>_.
        andthen (on_world (GetJobList je)) (\<lambda>jl. with_state (\<lambda>s. panic_or (createJetJobRows je s jl))))))) (\<lambda>rows.
     if rows = [] then PrintlnUnnecessary (je_env je) ''OK No jobs found.'' else AddOutputRows (je_env je) rows)"

subsection \<open>Submitting a jar\<close>

definition getJobIDs :: "('w, 'c, 'f, 'h) jet_env \<Rightarrow> string \<Rightarrow> ('w, int Set) eff" where
  "getJobIDs je jobName =
     andthen (GetJobList je) (\<lambda>jl. ret (foldl (\<lambda>ids j. if NameOrId j = jobName then Set_Add ids (JobId j) else ids) (MakeSet []) jl))"

text \<open>
  \<open>retry\<close> calls the function with the number of the try until it has no error. A panic is no error of
  the function: it goes through.
\<close>

fun retry_from :: "nat \<Rightarrow> nat \<Rightarrow> go_error \<Rightarrow> nat \<Rightarrow> (nat \<Rightarrow> ('s, 'a) eff) \<Rightarrow> ('s, 'a) eff" where
  "retry_from n i err 0 f = fail (Wrapf (''failed after '' @ itoa (int n) @ '' tries'') err)"
| "retry_from n i err (Suc k) f = (\<lambda>s.
     case f i s of
       (Inr x, s') \<Rightarrow> (Inr x, s')
     | (Inl e, s') \<Rightarrow> if e = panic_error then (Inl e, s') else retry_from n (Suc i) e k f s')"

definition retry :: "nat \<Rightarrow> (nat \<Rightarrow> ('s, 'a) eff) \<Rightarrow> ('s, 'a) eff" where
  "retry n f = retry_from n 0 (Errorf ''%!w(<nil>)'') n f"

text \<open>One try: the ids of the jobs with the name after the upload that were not there before.\<close>

definition submit_try :: "('w, 'c, 'f, 'h) jet_env \<Rightarrow> string \<Rightarrow> string \<Rightarrow> string \<Rightarrow> string \<Rightarrow> string list \<Rightarrow> nat \<Rightarrow> ('w, int list) eff" where
  "submit_try je path jobName className snapshot args i =
     andthen (if jobName \<noteq> [] then getJobIDs je jobName else ret (MakeSet [])) (\<lambda>before.
     andthen (SubmitJob je path jobName className snapshot args) (\<lambda>_.
     andthen (if jobName \<noteq> [] then getJobIDs je jobName else ret (MakeSet [])) (\<lambda>later.
     ret (Set_Items (Set_Diff later before)))))"

text \<open>What the stage makes of the tries: without a name nothing, whatever became of them.\<close>

definition submit_outcome :: "string \<Rightarrow> go_error + int list \<Rightarrow> go_error + int" where
  "submit_outcome jobName r =
     (if r = Inl panic_error then Inl panic_error
      else if jobName = [] then Inr 0
      else (case (case r of Inr ids \<Rightarrow> ids | Inl e \<Rightarrow> []) of
              [] \<Rightarrow> Inl (Errorf (''could not find the job with name: '' @ jobName))
            | [i] \<Rightarrow> (case r of Inl e \<Rightarrow> Inl e | Inr ids \<Rightarrow> Inr i)
            | _ \<Rightarrow> Inl (Errorf ''could not determine the job ID'')))"

definition submit_func ::
    "('w, 'c, 'f, 'h) jet_env \<Rightarrow> string \<Rightarrow> string \<Rightarrow> string \<Rightarrow> string \<Rightarrow> string list \<Rightarrow> nat \<Rightarrow> ('w, int) step" where
  "submit_func je path jobName className snapshot args tries =
     andthen (ClientInternal (je_env je)) (\<lambda>_.
     andthen (IncrementClusterMetric (je_env je) ''total.job'') (\<lambda>_. with_state (\<lambda>s.
     case CheckServerCompatible (je_env je) ''5.3.0'' s of
       None \<Rightarrow> fail panic_error
     | Some (sv, False) \<Rightarrow> fail (Errorf (''server ('' @ sv @ '') does not support this command, at least 5.3.0 is expected''))
     | Some (sv, True) \<Rightarrow>
         (\<lambda>s'. let (r, w') = retry tries (submit_try je path jobName className snapshot args) (cs_world s') in
               (submit_outcome jobName r, s'\<lparr>cs_world := w'\<rparr>)))))"

text \<open>
  The number of tries is an unbounded integer; with the greatest number of retries the code's wraps around, and it makes no try.
\<close>

definition submitJar :: "('w, 'c, 'f, 'h) jet_env \<Rightarrow> string \<Rightarrow> ('w, int) step" where
  "submitJar je path = with_state (\<lambda>s0.
     let wait = prop_bool s0 ''wait''; jobName = prop_string (je_env je) s0 ''name'';
         snapshot = prop_string (je_env je) s0 ''snapshot''; className = prop_string (je_env je) s0 ''class'';
         tries = nat (max 0 (prop_int s0 ''retries'') + 1); args = GetStringSliceArg s0 ''arg'';
         sts = [MakeConnectStage (je_env je) 0,
           \<lparr>ProgressMsg = ''Submitting the job'', SuccessMsg = ''Submitted the job'', FailureMsg = ''Failed submitting the job'',
             Func = (\<lambda>_. submit_func je path jobName className snapshot args tries)\<rparr>];
         ws = \<lparr>ProgressMsg = ''Waiting for job '' @ jobName @ '' to start'', SuccessMsg = ''Job '' @ jobName @ '' started'',
             FailureMsg = ''Job '' @ jobName @ '' failed to start'',
             Func = (\<lambda>v. andthen (wait_job je v JobStatusRunning) (\<lambda>_. ret v))\<rparr>
     in if wait \<and> jobName = [] then fail (Errorf ''--wait requires the --name to be set'')
        else Execute (je_env je) 0 0 (Stage.NewFixedProvider (if wait then sts @ [ws] else sts)))"

definition Submit_Exec :: "('w, 'c, 'f, 'h) jet_env \<Rightarrow> ('w, unit) step" where
  "Submit_Exec je = with_state (\<lambda>s0.
     let path = GetStringArg s0 ''jarPath'' in
     if \<not> pl_exists (je_place je) path then fail (Errorf (''file does not exist: '' @ path))
     else if \<not> has_suffix path ''.jar'' then fail (Errorf (''submitted file is not a jar file: '' @ path))
     else andthen (submitJar je path) (\<lambda>jobID. with_state (\<lambda>s.
       if prop_string (je_env je) s ''name'' = [] then ret ()
       else andthen (PrintlnUnnecessary (je_env je) []) (\<lambda>_.
            andthen (panic_or (idToString jobID)) (\<lambda>i.
            AddOutputRows (je_env je) [[Column ''Job ID'' TypeString (string_cell i)]])))))"

subsection \<open>Snapshots\<close>

text \<open>The name is read under the title of the argument, not its key, so it is always empty.\<close>

definition SnapshotDelete_Exec :: "('w, 'c, 'f, 'h) jet_env \<Rightarrow> ('w, unit) step" where
  "SnapshotDelete_Exec je = with_state (\<lambda>s0.
     let name = GetStringArg s0 ''snapshot name'' in
     andthen (ExecuteBlocking
       (andthen (ClientInternal (je_env je)) (\<lambda>_.
        andthen (on_world (je_get_map je ''__jet.exportedSnapshotsCache'')) (\<lambda>sm.
        andthen (on_world (je_map_delete je sm name)) (\<lambda>_.
        andthen (on_world (je_get_map je (''__jet.exportedSnapshot.'' @ name))) (\<lambda>m.
        on_world (je_map_destroy je m))))))) (\<lambda>_.
     PrintlnUnnecessary (je_env je) (''OK Destroyed snapshot '' @ quoted name @ ''.'')))"

definition string_key :: "cell \<Rightarrow> column list" where
  "string_key k = (case k of CScalar t v \<Rightarrow> (if t = ''string'' then [Column ''Snapshot Name'' TypeString (string_cell v)] else []) | _ \<Rightarrow> [])"

definition listDetailRows :: "('w, 'c, 'f, 'h) jet_env \<Rightarrow> 'h \<Rightarrow> ('w, column list list) eff" where
  "listDetailRows je m =
     andthen (je_entry_set je m) (\<lambda>es. ret (map (\<lambda>(k, sd). string_key k @
       (case sd of None \<Rightarrow> []
        | Some (jobName, t) \<Rightarrow> [Column ''Job Name'' TypeString (string_cell jobName),
                                Column ''Time'' TypeJavaLocalDateTime (CScalar ''time.Time'' (je_millis je t))])) es))"

definition listRows :: "('w, 'c, 'f, 'h) jet_env \<Rightarrow> 'h \<Rightarrow> ('w, column list list) eff" where
  "listRows je m = andthen (je_key_set je m) (\<lambda>ks. ret (filter (\<lambda>r. r \<noteq> []) (map string_key ks)))"

definition SnapshotList_Exec :: "('w, 'c, 'f, 'h) jet_env \<Rightarrow> ('w, unit) step" where
  "SnapshotList_Exec je =
     andthen (ExecuteBlocking
       (andthen (ClientInternal (je_env je)) (\<lambda>_.
        andthen (on_world (je_get_map je ''__jet.exportedSnapshotsCache'')) (\<lambda>m.
        on_world (\<lambda>w. case listDetailRows je m w of
            (Inr rows, w') \<Rightarrow> (Inr rows, w')
          | (Inl e, w') \<Rightarrow> listRows je m w'))))) (\<lambda>rows.
     AddOutputRows (je_env je) rows)"


subsection \<open>Ids and their text\<close>

lemma length_format_nat: "n < b ^ k \<Longrightarrow> 0 < k \<Longrightarrow> 2 \<le> b \<Longrightarrow> length (format_nat b n) \<le> k"
proof (induction k arbitrary: n)
  case (Suc k)
  show ?case
  proof (cases "n < b")
    case False
    then have k: "0 < k" using Suc.prems(1) by (cases k) auto
    have "n div b < b ^ k" using Suc.prems(1,3) by (simp add: less_mult_imp_div_less mult.commute)
    then show ?thesis using Suc.IH [OF _ k Suc.prems(3)] False Suc.prems(3) by (simp add: format_nat_step)
  qed (simp add: format_nat_small)
qed simp

text \<open>The groups that the loop writes.\<close>

definition dashed :: "string \<Rightarrow> string" where
  "dashed h = take 4 h @ ''-'' @ take 4 (drop 4 h) @ ''-'' @ take 4 (drop 8 h) @ ''-'' @ drop 12 h"

definition zero_pad :: "string \<Rightarrow> string" where
  "zero_pad h = replicate (16 - length h) CHR ''0'' @ h"

lemma id_loop_rev: "length r \<le> 16 \<Longrightarrow> id_loop r 18 ''0000-0000-0000-0000'' = Some (dashed (zero_pad (rev r)))"
  by (auto simp: numeral_eq_Suc le_Suc_eq length_Suc_conv dashed_def zero_pad_def)

lemma id_loop_dashed: "length h \<le> 16 \<Longrightarrow> id_loop (rev h) 18 ''0000-0000-0000-0000'' = Some (dashed (zero_pad h))"
  using id_loop_rev [of "rev h"] by simp

lemma parse_digits_chars: "parse_digits b mx n s = Inr v \<Longrightarrow> c \<in> set s \<Longrightarrow> digit_val c \<noteq> None"
  by (induction s arbitrary: n) (auto split: option.splits if_splits)

lemma parse_int_dash:
  assumes "CHR ''-'' \<in> set (tl s)"
  shows "\<exists>e. parse_int b bits s = Inl e"
proof -
  have n: "digit_val CHR ''-'' = None" by (simp add: digit_val_def)
  have i: "CHR ''-'' \<in> set s" using assms by (cases s) auto
  have "parse_uint b mx u \<noteq> Inr v" if "CHR ''-'' \<in> set u" for mx u v
    using parse_digits_chars [of b mx 0 u v "CHR ''-''"] that n by (auto simp: parse_uint_def)
  then show ?thesis using i assms
    by (auto simp: parse_int_def parse_int_full_def Let_def split: sum.splits num_error.splits prod.splits option.splits)
qed

lemma parse_digits_zeros: "0 \<le> mx \<Longrightarrow> 1 < b \<Longrightarrow> parse_digits b mx 0 (replicate k CHR ''0'' @ h) = parse_digits b mx 0 h"
  by (induction k) (simp_all add: digit_val_def)

lemma parse_hex_padded:
  assumes "0 \<le> i" "i < 2 ^ 63"
  shows "parse_int 16 64 (zero_pad (format_nat 16 (nat i))) = Inr i"
proof -
  let ?h = "format_nat 16 (nat i)"
  have d: "parse_digits 16 (2 ^ 64 - 1) 0 (zero_pad ?h) = Inr i"
    using parse_digits_zeros [of "2 ^ 64 - 1" 16 _ ?h] parse_digits_format [of 16 "nat i" "2 ^ 64 - 1"] assms
    by (simp add: zero_pad_def)
  have "c \<noteq> CHR ''-'' \<and> c \<noteq> CHR ''+''" if "c \<in> set (zero_pad ?h)" for c
    using that format_nat_no_char [of 16 "CHR ''-''" "nat i"] format_nat_no_char [of 16 "CHR ''+''" "nat i"]
    by (auto simp: zero_pad_def)
  moreover have ne: "zero_pad ?h \<noteq> []" by (simp add: zero_pad_def)
  ultimately have "hd (zero_pad ?h) \<noteq> CHR ''-''" "hd (zero_pad ?h) \<noteq> CHR ''+''" by auto
  then show ?thesis using d ne assms by (simp add: parse_int_def parse_int_full_def parse_uint_def Let_def)
qed

lemma replace_all_append: "replace_all c r (x @ y) = replace_all c r x @ replace_all c r y"
  by (simp add: replace_all_def)

lemma undash: "CHR ''-'' \<notin> set h \<Longrightarrow> replace_all (CHR ''-'') [] (dashed h) = h"
proof -
  assume "CHR ''-'' \<notin> set h"
  then have r: "replace_all (CHR ''-'') [] (take k (drop l h)) = take k (drop l h)" "replace_all (CHR ''-'') [] (drop l h) = drop l h"
    for k l by (auto intro!: replace_all_id dest: in_set_takeD in_set_dropD)
  have "replace_all (CHR ''-'') [] (dashed h) = take 4 h @ take 4 (drop 4 h) @ take 4 (drop 8 h) @ drop 12 h"
    using r(1) [of 4 0] r by (simp add: replace_all_append dashed_def)
  also have "\<dots> = h" using append_take_drop_id [of 4 h] append_take_drop_id [of 4 "drop 4 h"] append_take_drop_id [of 4 "drop 8 h"]
    by simp
  finally show ?thesis .
qed

text \<open>
  C25: The id of a job that the listing shows is an id that the other commands accept: for each id that
  is not negative the text has four groups of four digits, and reading it gives the id back.
\<close>

theorem job_id_roundtrip:
  assumes "0 \<le> i" "i < 2 ^ 63"
  shows "\<exists>s. idToString i = Some s \<and> length s = 19 \<and> stringToID s = Inr i"
proof -
  let ?h = "format_nat 16 (nat i)"
  have l: "length ?h \<le> 16" by (rule length_format_nat) (use assms in simp_all)
  have s: "idToString i = Some (dashed (zero_pad ?h))"
    using id_loop_dashed [OF l] assms(1) by (simp add: idToString_def format_int_def)
  have n: "length (zero_pad ?h) = 16" using l by (simp add: zero_pad_def)
  have c: "CHR ''-'' \<notin> set (zero_pad ?h)" using format_nat_no_char [of 16 "CHR ''-''" "nat i"] by (auto simp: zero_pad_def)
  have "CHR ''-'' \<in> set (tl (dashed (zero_pad ?h)))" using n by (cases "zero_pad ?h") (auto simp: dashed_def)
  then obtain e where "parse_int 10 64 (dashed (zero_pad ?h)) = Inl e" using parse_int_dash by blast
  then have "stringToID (dashed (zero_pad ?h)) = Inr i"
    using undash [OF c] parse_hex_padded [OF assms] by (simp add: stringToID_def Let_def)
  then show ?thesis using s n by (simp add: dashed_def)
qed

lemma job_id_roundtrip_witness:
  "\<exists>s. idToString 600493436003221505 = Some s \<and> length s = 19 \<and> stringToID s = Inr 600493436003221505"
  by (rule job_id_roundtrip) simp_all


subsection \<open>An upload sends what was read of the file\<close>

text \<open>The reference: a file cut into parts, and the request of each part.\<close>

function file_parts :: "nat \<Rightarrow> string \<Rightarrow> string list" where
  "file_parts n s = (if s = [] \<or> n = 0 then [] else take n s # file_parts n (drop n s))"
  by pat_completeness auto
termination
  by (relation "measure (\<lambda>(n, s). length s)") auto

declare file_parts.simps [simp del]

lemma file_parts_Nil [simp]: "file_parts n [] = []"
  by (simp add: file_parts.simps)











lemma panic_or_Inr_iff [simp]: "panic_or v s = (Inr x, s') \<longleftrightarrow> v = Some x \<and> s' = s"
  by (cases v) (auto simp: panic_or_def ret_def fail_def)

lemma wrap_Inr_iff [simp]: "wrap_err t m s = (Inr x, s') \<longleftrightarrow> m s = (Inr x, s')"
  by (simp add: wrap_err_def split: prod.splits sum.splits)






definition sample_jet :: "(unit \<times> (UUID \<times> sample_message) list, sample_message, string \<times> sample_kind, string) jet_env" where
  "sample_jet = \<lparr>je_env = sample_env\<lparr>ce_server_version := (\<lambda>w. Some ''5.3.0'')\<rparr>, je_proto = sample_proto,
     je_place = sample_place\<lparr>pl_exists := (\<lambda>p. True)\<rparr>, je_fuel = 3,
     je_invoke_random = (\<lambda>c w. (Inr c, w)), je_invoke_member = (\<lambda>m c w. (Inr c, (fst w, snd w @ [(m, c)]))),
     je_ctx_err = (\<lambda>w. None), je_members = (\<lambda>w. ([\<lparr>MostSignificantBits = 1, LeastSignificantBits = 2\<rparr>], w)),
     je_rand = (\<lambda>n w. 5), je_connected_to = (\<lambda>u w. True), je_active = (\<lambda>w. []),
     je_new_uuid = (\<lambda>w. (\<lparr>MostSignificantBits = 3, LeastSignificantBits = 4\<rparr>, w)),
     je_open = (\<lambda>p w. Inr ''PK''), je_file_size = (\<lambda>p w. Inr 2), je_read = (\<lambda>n rest. min n (length rest)),
     je_sha256 = (\<lambda>b. [CHR 0x0B, CHR 0xFF]), je_now_text = (\<lambda>w. ''23-08-01_101112''), je_millis = (\<lambda>t. []),
     je_get_map = (\<lambda>n w. (Inr n, w)), je_map_delete = (\<lambda>m k w. (Inr (), w)), je_map_destroy = (\<lambda>m w. (Inr (), w)),
     je_entry_set = (\<lambda>m w. (Inr [], w)), je_key_set = (\<lambda>m w. (Inr [], w))\<rparr>"







subsection \<open>A failed submission without a name\<close>

lemma println_state: "\<exists>out. snd (PrintlnUnnecessary env t s) = s\<lparr>cs_out := out\<rparr>"
  by (auto simp: PrintlnUnnecessary_def write_out_def intro: exI [of _ "cs_out s"])

lemma run_stage_ok:
  assumes "cs_sched s = []" "Func stg v s = (Inr v', s1)"
  shows "\<exists>out. run_stage env zero i n stg v s = (Inr v', s1\<lparr>cs_out := out\<rparr>)"
  using assms println_state [of env "''OK '' @ IndexText (SetIndex i n (newBasicStatuser v)) @ '' '' @ SuccessMsg stg @ ''.''" s1]
  by (auto simp: run_stage_def ExecuteBlocking_def newBasicStatuser_def SetIndex_def)

lemma Execute_two:
  "Execute env zero v (Stage.NewFixedProvider [a, b]) s =
     andthen (run_stage env zero 1 2 a v) (run_stage env zero 2 2 b) s"
  by (simp add: Execute_def stage_loop_list Stage.NewFixedProvider_def StageCount_def numeral_2_eq_2 andthen_def ret_def
    split: prod.split sum.split)

lemma props_of_out: "prop_string env (s\<lparr>cs_out := out\<rparr>) n = prop_string env s n"
  "prop_string env (s\<lparr>cs_metrics := m\<rparr>) n = prop_string env s n" "prop_string env (s\<lparr>cs_world := w\<rparr>) n = prop_string env s n"
  by (simp_all add: prop_string_def)

text \<open>
  C40: A submission without a name never fails after its tries: when each try failed, with whatever
  error, the command still ends without one, as if the job had been submitted.
\<close>

theorem unnamed_submit_hides_failure:
  assumes "cs_connected s" "cs_sched s = []" "prop_string (je_env je) s ''name'' = []" "\<not> prop_bool s ''wait''"
    and "pl_exists (je_place je) (GetStringArg s ''jarPath'')" "has_suffix (GetStringArg s ''jarPath'') ''.jar''"
    and c: "\<And>s'. cs_world s' = cs_world s \<Longrightarrow> CheckServerCompatible (je_env je) ''5.3.0'' s' = Some (sv, True)"
    and r: "retry (nat (max 0 (prop_int s ''retries'') + 1))
        (submit_try je (GetStringArg s ''jarPath'') [] (prop_string (je_env je) s ''class'') (prop_string (je_env je) s ''snapshot'')
          (GetStringSliceArg s ''arg'')) (cs_world s) = (Inl e, w')" "e \<noteq> panic_error"
  shows "\<exists>s'. Submit_Exec je s = (Inr (), s') \<and> cs_world s' = w'"
proof -
  let ?f = "\<lambda>v. submit_func je (GetStringArg s ''jarPath'') [] (prop_string (je_env je) s ''class'')
    (prop_string (je_env je) s ''snapshot'') (GetStringSliceArg s ''arg'') (nat (max 0 (prop_int s ''retries'') + 1))"
  let ?stg = "\<lparr>ProgressMsg = ''Submitting the job'', SuccessMsg = ''Submitted the job'', FailureMsg = ''Failed submitting the job'', Func = ?f\<rparr>"
  have k: "Func (MakeConnectStage (je_env je) (0::int)) 0 s = (Inr 0, s)"
    by (simp add: MakeConnectStage_def andthen_def connected_step [OF assms(1)] ret_def)
  obtain o1 where s1: "run_stage (je_env je) 0 1 2 (MakeConnectStage (je_env je) 0) (0::int) s = (Inr 0, s\<lparr>cs_out := o1\<rparr>)"
    using run_stage_ok [OF assms(2) k, of "je_env je" 0 1 2] by auto
  obtain m where m: "IncrementClusterMetric (je_env je) ''total.job'' (s\<lparr>cs_out := o1\<rparr>) = (Inr (), s\<lparr>cs_out := o1, cs_metrics := m\<rparr>)"
    using metric_state [of "s\<lparr>cs_out := o1\<rparr>"] assms(1) by auto
  have "?f 0 (s\<lparr>cs_out := o1\<rparr>) = (Inr 0, s\<lparr>cs_out := o1, cs_metrics := m, cs_world := w'\<rparr>)"
    using m r assms(1) by (simp add: submit_func_def andthen_def connected_step with_state_def c submit_outcome_def)
  then obtain o2 where s2: "run_stage (je_env je) 0 2 2 ?stg 0 (s\<lparr>cs_out := o1\<rparr>) =
      (Inr 0, s\<lparr>cs_out := o1, cs_metrics := m, cs_world := w'\<rparr>\<lparr>cs_out := o2\<rparr>)"
    using run_stage_ok [of "s\<lparr>cs_out := o1\<rparr>" ?stg 0 0 _ "je_env je" 0 2 2] assms(2) by auto
  have "submitJar je (GetStringArg s ''jarPath'') s = (Inr 0, s\<lparr>cs_out := o1, cs_metrics := m, cs_world := w'\<rparr>\<lparr>cs_out := o2\<rparr>)"
    using s1 s2 assms(3,4) by (simp add: submitJar_def with_state_def Let_def Execute_two andthen_def)
  then show ?thesis
    using assms(3,5,6) by (simp add: Submit_Exec_def with_state_def Let_def andthen_def props_of_out ret_def)
qed

text \<open>No member can be reached, so each of the four tries fails.\<close>

definition lonely_jet :: "(unit \<times> (UUID \<times> sample_message) list, sample_message, string \<times> sample_kind, string) jet_env" where
  "lonely_jet = sample_jet\<lparr>je_open := (\<lambda>p w. Inl (Errorf ''permission denied''))\<rparr>"

definition submit_state :: "(unit \<times> (UUID \<times> sample_message) list) cstate" where
  "submit_state = \<lparr>cs_props = NewProperties, cs_args = [''/j/my.jar''], cs_kwargs = [''jarPath'' \<mapsto> VString ''/j/my.jar''],
     cs_mode = ModeNonInteractive, cs_printer = None, cs_out = [], cs_metrics = [], cs_input = [], cs_sched = [],
     cs_connected = True, cs_world = ((), [])\<rparr>"

lemma unnamed_submit_hides_failure_witness:
  "\<exists>s'. Submit_Exec lonely_jet submit_state = (Inr (), s') \<and> cs_world s' = ((), [])"
proof (rule unnamed_submit_hides_failure)
  have g: "Properties_Get (cs_props submit_state) n = None" for n
    by (simp add: submit_state_def NewProperties_def Properties_Get_def)
  show "cs_connected submit_state" "cs_sched submit_state = []" by (simp_all add: submit_state_def)
  show "prop_string (je_env lonely_jet) submit_state ''name'' = []" "\<not> prop_bool submit_state ''wait''"
    by (simp_all add: prop_string_def prop_bool_def Properties_GetString_def Properties_GetBool_def g)
  have p: "GetStringArg submit_state ''jarPath'' = ''/j/my.jar''"
    by (simp add: GetStringArg_def submit_state_def maps_GetString_def GetValueIfExists_def)
  show "pl_exists (je_place lonely_jet) (GetStringArg submit_state ''jarPath'')" by (simp add: lonely_jet_def sample_jet_def)
  show "has_suffix (GetStringArg submit_state ''jarPath'') ''.jar''" unfolding p by code_simp
  have "CheckVersion ''5.3.0'' ''>='' ''5.3.0'' = Some True" by code_simp
  then show "CheckServerCompatible (je_env lonely_jet) ''5.3.0'' s' = Some (''5.3.0'', True)" for s'
    by (simp add: CheckServerCompatible_def lonely_jet_def sample_jet_def sample_env_def)
  have t: "submit_try lonely_jet path [] a b c i w = (Inl (Errorf ''permission denied''), w)" for path a b c i w
    by (simp add: submit_try_def SubmitJob_def br_Hash_def lonely_jet_def andthen_def ret_def)
  have "nat (max 0 (prop_int submit_state ''retries'') + 1) = Suc 0"
    by (simp add: prop_int_def Properties_GetInt_def g)
  moreover have "itoa 1 = ''1''" by code_simp
  ultimately show "retry (nat (max 0 (prop_int submit_state ''retries'') + 1))
      (submit_try lonely_jet (GetStringArg submit_state ''jarPath'') [] (prop_string (je_env lonely_jet) submit_state ''class'')
        (prop_string (je_env lonely_jet) submit_state ''snapshot'') (GetStringSliceArg submit_state ''arg'')) (cs_world submit_state) =
      (Inl (Wrapf ''failed after 1 tries'' (Errorf ''permission denied'')), ((), []))"
    by (simp add: retry_def t fail_def panic_error_def submit_state_def)
qed (simp add: panic_error_def)


end
