(* ===== verification/Shell.thy ===== *)
theory Shell
  imports Commands Paths
begin

section \<open>The shell, scripts and SQL (clc/shell, clc/sql, base/commands: shell.go, script.go, sql)\<close>

text \<open>
  The shell reads lines and makes texts of them, each an SQL statement, a command of the program after
  a backslash, or a shortcut. \<open>readTextBasic\<close> is the loop for scripts and pipes, \<open>Start\<close> the one
  for the terminal. What reads and runs comes from outside: the lines, the split of a command line
  (\<^verbatim>\<open>shlex.Split\<close>), SQL, the printing of a stream of rows and the \<open>Execute\<close> of the program.
\<close>

subsection \<open>Lines become texts (shell_script_common.go)\<close>

abbreviation backslash :: char where "backslash \<equiv> CHR 0x5C"

text \<open>
  The function of \<open>makeEndLineFunc\<close> and its variable: the line as it goes into the text, whether the
  text ends with it, and whether a command is being continued.
\<close>

definition endLine :: "bool \<Rightarrow> string \<Rightarrow> bool \<Rightarrow> (string \<times> bool) \<times> bool" where
  "endLine clcMultilineContinue line multiline =
     (let clcCmd = has_prefix (trim_space line) [backslash] in
      if clcCmd \<or> multiline \<and> clcMultilineContinue then
        (let end' = \<not> has_suffix line [backslash] in
         ((if end' then line else butlast line, end'), True))
      else
        (let lt = trim_space line;
             end' = has_prefix lt ''help'' \<or> has_prefix lt [backslash] \<or> has_suffix lt '';''
         in ((if end' then line else line @ [CHR 0x0A], end'), False)))"

subsection \<open>Scripts and pipes (oneshot_shell.go)\<close>

record ('s) OneshotShell =
  os_endLineFn :: "bool \<Rightarrow> string \<Rightarrow> bool \<Rightarrow> (string \<times> bool) \<times> bool"
  os_textFn :: "string \<Rightarrow> ('s, unit) eff"
  os_echoFn :: "string \<Rightarrow> 's \<Rightarrow> 's"
  os_commentPrefix :: string
  os_ignoreErrors :: bool
  os_echo :: bool

record read_state =
  rs_sb :: string
  rs_multiline :: bool
  rs_line :: nat
  rs_start :: nat
  rs_prev :: bool
  rs_continue :: bool

definition echo_text :: "'s OneshotShell \<Rightarrow> read_state \<Rightarrow> 's \<Rightarrow> 's" where
  "echo_text sh rs s =
     (if os_echo sh
      then os_echoFn sh (itoa (int (if rs_prev rs then rs_start rs else rs_line rs)) @ '': '' @ rs_sb rs @ [CHR 0x0A]) s
      else s)"

text \<open>A text is echoed and run; its error counts unless errors are ignored.\<close>

definition run_text :: "'s OneshotShell \<Rightarrow> read_state \<Rightarrow> ('s, unit) eff" where
  "run_text sh rs s =
     (case os_textFn sh (rs_sb rs) (echo_text sh rs s) of
        (Inl e, s') \<Rightarrow> if os_ignoreErrors sh \<and> e \<noteq> panic_error then (Inr (), s') else (Inl e, s')
      | r \<Rightarrow> r)"

definition skipped :: "string \<Rightarrow> bool \<Rightarrow> string \<Rightarrow> bool" where
  "skipped pfx multiline p \<longleftrightarrow>
     \<not> multiline \<and> (trim_space p = [] \<or> pfx \<noteq> [] \<and> has_prefix (trim_space p) pfx)"

fun read_lines :: "'s OneshotShell \<Rightarrow> read_state \<Rightarrow> string list \<Rightarrow> ('s, unit) eff" where
  "read_lines sh rs [] = (if rs_sb rs \<noteq> [] then run_text sh rs else ret ())"
| "read_lines sh rs0 (p # ps) =
     (let rs = rs0\<lparr>rs_line := rs_line rs0 + 1\<rparr> in
      if skipped (os_commentPrefix sh) (rs_multiline rs) p then read_lines sh rs ps
      else
        (let ((text, end'), c) = os_endLineFn sh (rs_continue rs) p (rs_multiline rs);
             rs1 = rs\<lparr>rs_sb := rs_sb rs @ text, rs_prev := rs_multiline rs, rs_multiline := \<not> end', rs_continue := c,
                      rs_start := (if \<not> rs_multiline rs \<and> \<not> end' then rs_line rs else rs_start rs)\<rparr>
         in if end' then andthen (run_text sh rs1) (\<lambda>_. read_lines sh (rs1\<lparr>rs_sb := []\<rparr>) ps)
            else read_lines sh rs1 ps))"

definition start_reading :: read_state where
  "start_reading = \<lparr>rs_sb = [], rs_multiline = False, rs_line = 0, rs_start = 0, rs_prev = False, rs_continue = False\<rparr>"

definition readTextBasic :: "'s OneshotShell \<Rightarrow> string list \<Rightarrow> ('s, unit) eff" where
  "readTextBasic sh ls = read_lines sh start_reading ls"

definition Oneshot_Run :: "'s OneshotShell \<Rightarrow> string list \<Rightarrow> ('s, unit) eff" where
  "Oneshot_Run sh ls = readTextBasic sh ls"

subsection \<open>The terminal (shell.go)\<close>

text \<open>
  \<open>readTextReadline\<close> on the results of the line reader still to come; after the last one it is at the
  end of the input. It gives the text, what is still to come, and the variable of \<open>makeEndLineFunc\<close>.
\<close>

fun readline_loop :: "string \<Rightarrow> bool \<Rightarrow> bool \<Rightarrow> string \<Rightarrow> (go_error + string) list \<Rightarrow> (go_error + string) \<times> (go_error + string) list \<times> bool" where
  "readline_loop pfx multiline c sb [] = (Inl (Sentinel ''EOF''), [], c)"
| "readline_loop pfx multiline c sb (Inl e # rest) = (Inl e, rest, c)"
| "readline_loop pfx multiline c sb (Inr p0 # rest) =
     (let p = (if multiline then p0 else trim_space p0) in
      if \<not> multiline \<and> (p = [] \<or> pfx \<noteq> [] \<and> has_prefix p pfx) then readline_loop pfx False c sb rest
      else (let ((text, end'), c') = endLine c p multiline in
            if end' then (Inr (sb @ text), rest, c') else readline_loop pfx True c' (sb @ text) rest))"

definition readTextReadline :: "string \<Rightarrow> bool \<Rightarrow> (go_error + string) list \<Rightarrow> (go_error + string) \<times> (go_error + string) list \<times> bool" where
  "readTextReadline pfx c input = readline_loop pfx False c [] input"

lemma readline_loop_shorter: "length (fst (snd (readline_loop pfx m c sb input))) \<le> length input - 1"
proof (induction pfx m c sb input rule: readline_loop.induct)
  case (3 pfx multiline c sb p0 rest)
  define p where "p = (if multiline then p0 else trim_space p0)"
  obtain t e c' where x: "endLine c p multiline = ((t, e), c')" by (metis prod.exhaust)
  have l: "a \<le> length rest - 1 \<Longrightarrow> a \<le> length rest" for a by simp
  show ?case
    using "3.IH" [OF p_def] x l unfolding readline_loop.simps Let_def p_def [symmetric] by simp
qed simp_all

lemma readText_shorter: "readTextReadline pfx c input = (r, rest, c') \<Longrightarrow> r \<noteq> Inl (Sentinel ''EOF'') \<Longrightarrow> length rest < length input"
  using readline_loop_shorter [of pfx False c "[]" input] by (cases input) (auto simp: readTextReadline_def)

definition ErrExit :: go_error where "ErrExit = Sentinel ''exit''"
definition ErrHelp :: go_error where "ErrHelp = Sentinel ''interactive help''"

text \<open>What the loop of the terminal does beside running texts: it prints errors, here through \<open>warn\<close>.\<close>

function Start_loop ::
    "string \<Rightarrow> (string \<Rightarrow> ('s, unit) eff) \<Rightarrow> (string \<Rightarrow> 's \<Rightarrow> 's) \<Rightarrow> (go_error \<Rightarrow> string) \<Rightarrow> bool \<Rightarrow> (go_error + string) list \<Rightarrow> ('s, unit) eff" where
  "Start_loop pfx textFn warn show_err c input s =
     (case readTextReadline pfx c input of
        (Inl e, rest, c') \<Rightarrow>
          if e = Sentinel ''EOF'' then (Inr (), s)
          else if err_text e = ''Interrupt'' \<or> err_text e = ''^C''
            then Start_loop pfx textFn warn show_err c' rest (warn (''Press Ctrl+D or type '' @ [backslash] @ ''exit to exit.'') s)
          else Start_loop pfx textFn warn show_err c' rest (warn (''Error: '' @ err_text e) s)
      | (Inr text, rest, c') \<Rightarrow>
          if text = [] then Start_loop pfx textFn warn show_err c' rest s
          else (case textFn text s of
                  (Inr _, s') \<Rightarrow> Start_loop pfx textFn warn show_err c' rest s'
                | (Inl e, s') \<Rightarrow>
                    if e = panic_error then (Inl e, s')
                    else if err_is e ''exit'' then (Inr (), s')
                    else if \<not> IsUserCancelled e then Start_loop pfx textFn warn show_err c' rest (warn (show_err e) s')
                    else Start_loop pfx textFn warn show_err c' rest s'))"
  by pat_completeness auto
termination
  by (relation "measure (\<lambda>(pfx, textFn, warn, show_err, c, input, s). length input)")
    (auto dest!: readText_shorter [OF sym])

declare Start_loop.simps [simp del]

subsection \<open>Statements (clc/shell/common.go)\<close>

datatype stmt_action = ActIndexes string | ActQuery string

text \<open>A query about a mapping; the quotes in the name are doubled.\<close>

definition nl_tabs :: "nat \<Rightarrow> string" where
  "nl_tabs n = CHR 0x0A # replicate n (CHR 0x09)"

definition escape_quotes :: "string \<Rightarrow> string" where
  "escape_quotes s = replace_all (CHR 0x27) [CHR 0x27, CHR 0x27] s"

definition mapping_query :: "string \<Rightarrow> string \<Rightarrow> string" where
  "mapping_query tbl mn =
     nl_tabs 5 @ ''SELECT * FROM information_schema.'' @ tbl @ nl_tabs 5 @ ''WHERE table_name = '' @ [CHR 0x27] @
     escape_quotes mn @ [CHR 0x27] @ '';'' @ nl_tabs 4"

definition shortcut_usage :: "string \<Rightarrow> go_error" where
  "shortcut_usage c = Errorf (''Usage: '' @ [backslash] @ c @ '' [mapping]'')"

definition ConvertStatement :: "string \<Rightarrow> go_error + stmt_action" where
  "ConvertStatement stmt0 =
     (let stmt = trim_space stmt0 in
      if has_prefix stmt ''help'' then Inl ErrHelp
      else if \<not> has_prefix stmt [backslash] then Inr (ActQuery stmt)
      else
        (let stmt = trim_prefix stmt [backslash] in
         case Prelude.fields stmt of
           [] \<Rightarrow> Inl panic_error
         | c # args \<Rightarrow>
             if c = ''di'' then
               (case args of [] \<Rightarrow> Inr (ActIndexes []) | [m] \<Rightarrow> Inr (ActIndexes m) | _ \<Rightarrow> Inl (shortcut_usage ''di''))
             else if c = ''dm'' then
               (case args of [] \<Rightarrow> Inr (ActQuery ''show mappings;'') | [m] \<Rightarrow> Inr (ActQuery (mapping_query ''mappings'' m))
                | _ \<Rightarrow> Inl (shortcut_usage ''dm''))
             else if c = ''dm+'' then
               (case args of [] \<Rightarrow> Inr (ActQuery ''show mappings;'') | [m] \<Rightarrow> Inr (ActQuery (mapping_query ''columns'' m))
                | _ \<Rightarrow> Inl (shortcut_usage ''dm+''))
             else if c = ''exit'' then Inl ErrExit
             else Inl (Errorf (''Unknown shell command: '' @ stmt))))"

subsection \<open>SQL (clc/sql)\<close>

datatype sql_type =
    ColVarchar | ColBoolean | ColTinyInt | ColSmallInt | ColInt | ColBigInt | ColDecimal | ColReal | ColDouble
  | ColDate | ColTime | ColTimestamp | ColTimestampWithTimeZone | ColObject | ColNull | ColJSON | ColOther int

fun convertSQLType :: "sql_type \<Rightarrow> int" where
  "convertSQLType ColVarchar = TypeString"
| "convertSQLType ColBoolean = TypeBool"
| "convertSQLType ColTinyInt = TypeByte"
| "convertSQLType ColSmallInt = TypeInt16"
| "convertSQLType ColInt = TypeInt32"
| "convertSQLType ColBigInt = TypeInt64"
| "convertSQLType ColDecimal = TypeJavaDecimal"
| "convertSQLType ColReal = TypeFloat32"
| "convertSQLType ColDouble = TypeFloat64"
| "convertSQLType ColDate = TypeJavaLocalDate"
| "convertSQLType ColTime = TypeJavaLocalTime"
| "convertSQLType ColTimestamp = TypeJavaLocalDateTime"
| "convertSQLType ColTimestampWithTimeZone = TypeJavaOffsetDateTime"
| "convertSQLType ColObject = TypeSkip"
| "convertSQLType ColNull = TypeNil"
| "convertSQLType ColJSON = TypeJSONSerialization"
| "convertSQLType (ColOther n) = TypeNotDecoded"

text \<open>An error of the client: an SQL error, with its message and suggestion, or another one.\<close>

datatype sql_error = SqlError string string | PlainError go_error

text \<open>
  A result: whether it has rows, what asking for the iterator gives, and then the rows up to the error,
  if any, that ends them.
\<close>

record sql_result =
  IsRowSet :: bool
  sr_iterator :: "go_error option"
  sr_rows :: "(string \<times> sql_type \<times> cell) list list"
  sr_error :: "go_error option"

text \<open>
  What the shell and SQL need from outside. \<open>sl_stream\<close> is the \<open>PrintStream\<close> of a printer: the text it
  writes, how many of the rows it took and its error.
\<close>

record 'w shell_env =
  sl_env :: "'w cenv"
  sl_place :: place
  sl_fuel :: nat
  sl_execute :: "string list \<Rightarrow> ('w, unit) step"
  sl_clone :: "go_error option"
  sl_shlex :: "string \<Rightarrow> go_error + string list"
  sl_sql :: "string \<Rightarrow> 'w \<Rightarrow> (sql_error + sql_result) \<times> 'w"
  sl_ctx_err :: "'w \<Rightarrow> go_error option"
  sl_stream :: "string \<Rightarrow> row list \<Rightarrow> string \<times> nat \<times> go_error option"
  sl_indexes :: "string \<Rightarrow> ('w, unit) step"
  sl_format :: "string \<Rightarrow> string"
  sl_stderr :: "string \<Rightarrow> 'w \<Rightarrow> 'w"
  sl_open :: "string \<Rightarrow> 'w \<Rightarrow> go_error + string"
  sl_http_get :: "string \<Rightarrow> 'w \<Rightarrow> (go_error + int \<times> string) \<times> 'w"
  sl_stdin :: string
  sl_stdin_pipe :: bool
  sl_terminal :: "(go_error + string) list"
  sl_show_error :: "go_error \<Rightarrow> string"
  sl_banner :: "('w, unit) step"

text \<open>
  \<open>execSQL\<close> asks again while the error is \<^verbatim>\<open>ErrIO\<close>; the rounds are the first argument, None when they
  are used up.
\<close>

fun sql_rounds :: "nat \<Rightarrow> 'w shell_env \<Rightarrow> string \<Rightarrow> 'w cstate \<Rightarrow> ((sql_error + sql_result) \<times> 'w cstate) option" where
  "sql_rounds 0 sl query s = None"
| "sql_rounds (Suc n) sl query s =
     (case sl_ctx_err sl (cs_world s) of
        Some e \<Rightarrow> Some (Inl (PlainError e), s)
      | None \<Rightarrow>
          (case sl_sql sl query (cs_world s) of
             (Inl (PlainError e), w') \<Rightarrow>
               if err_is e ''I/O error'' then sql_rounds n sl query (s\<lparr>cs_world := w'\<rparr>)
               else Some (Inl (PlainError e), s\<lparr>cs_world := w'\<rparr>)
           | (r, w') \<Rightarrow> Some (r, s\<lparr>cs_world := w'\<rparr>)))"

definition execSQL :: "'w shell_env \<Rightarrow> string \<Rightarrow> 'w cstate \<Rightarrow> (sql_error + sql_result) \<times> 'w cstate" where
  "execSQL sl query s =
     (case ClientInternal (sl_env sl) s of
        (Inl e, s1) \<Rightarrow> (Inl (PlainError e), s1)
      | (Inr _, s1) \<Rightarrow>
          (case sql_rounds (sl_fuel sl) sl query s1 of
             Some r \<Rightarrow> r | None \<Rightarrow> (Inl (PlainError (Sentinel ''still trying'')), s1)))"

text \<open>The error without its prefix; the message is used as a format.\<close>

definition adaptSQLError :: "'w shell_env \<Rightarrow> sql_error \<Rightarrow> go_error" where
  "adaptSQLError sl err = (case err of PlainError e \<Rightarrow> e | SqlError msg sug \<Rightarrow> Errorf (sl_format sl msg))"

definition sql_go_error :: "sql_error \<Rightarrow> go_error" where
  "sql_go_error err = (case err of PlainError e \<Rightarrow> e | SqlError msg sug \<Rightarrow> Errorf (''decoding SQL execute response: '' @ msg))"

text \<open>
  The result is None for the nil the function ends with when the suggestion is to be used and there
  is none.
\<close>

definition ExecSQL :: "'w shell_env \<Rightarrow> string \<Rightarrow> ('w, sql_result option) step" where
  "ExecSQL sl query s0 =
     (let as' = prop_bool s0 ''use-mapping-suggestion'' in
      case execSQL sl query s0 of
        (Inr r, s) \<Rightarrow> (Inr (Some r), s)
      | (Inl (PlainError e), s) \<Rightarrow> (Inl e, s)
      | (Inl (SqlError msg sug), s) \<Rightarrow>
          (let err = adaptSQLError sl (SqlError msg sug) in
           if \<not> as' then
             (if sug \<noteq> [] \<and> cs_mode s \<noteq> ModeInteractive
              then (Inl (Errorf (err_text err @ [CHR 0x0A, CHR 0x0A] @
                      ''Use --use-mapping-suggestion to automatically apply the suggestion'')), s)
              else (Inl err, s))
           else if sug \<noteq> [] then
             (case execSQL sl sug s of
                (Inl e, s') \<Rightarrow> (Inl (sql_go_error e), s')
              | (Inr _, s') \<Rightarrow>
                  (case execSQL sl query s' of
                     (Inl e, s'') \<Rightarrow> (Inl (sql_go_error e), s'')
                   | (Inr r, s'') \<Rightarrow> (Inr (Some r), s'')))
           else (Inr None, s)))"

definition sql_row :: "(string \<times> sql_type \<times> cell) list \<Rightarrow> row" where
  "sql_row cols = map (\<lambda>(n, t, v). Column n (convertSQLType t) v) cols"

text \<open>\<open>AddOutputStream\<close>, with how many of the rows were taken from the channel.\<close>

definition AddOutputStream :: "'w shell_env \<Rightarrow> row list \<Rightarrow> 'w cstate \<Rightarrow> nat \<times> 'w cstate" where
  "AddOutputStream sl rows s =
     (case ensurePrinter (sl_env sl) s of
        (Inl e, s1) \<Rightarrow> (0, s1)
      | (Inr _, s1) \<Rightarrow>
          (case cs_printer s1 of
             None \<Rightarrow> (0, s1)
           | Some pn \<Rightarrow>
               (let (t, n, e) = sl_stream sl pn rows in
                (case e of None \<Rightarrow> (length rows, write_out t s1) | Some _ \<Rightarrow> (n, write_out t s1)))))"

text \<open>
  The reader of the rows puts them into a channel that holds one; when nobody takes them it waits, and
  so does \<open>UpdateOutput\<close>, for ever unless the user interrupts: None.
\<close>

definition UpdateOutput :: "'w shell_env \<Rightarrow> sql_result \<Rightarrow> 'w cstate \<Rightarrow> ((go_error + unit) \<times> 'w cstate) option" where
  "UpdateOutput sl res s =
     (if \<not> IsRowSet res then Some (PrintlnUnnecessary (sl_env sl) ''OK Executed the query.'' s)
      else case sr_iterator res of
          Some e \<Rightarrow> Some (Inl e, s)
        | None \<Rightarrow>
            (let rows = map sql_row (sr_rows res);
                 (taken, s1) = AddOutputStream sl rows s
             in if taken + 1 < length rows then None
                else (case sr_error res of
                        Some e \<Rightarrow> Some (Inl e, s1)
                      | None \<Rightarrow> Some (PrintlnUnnecessary (sl_env sl)
                          (''OK Returned '' @ itoa (int (length rows)) @ '' rows.'') s1))))"

definition update_step :: "'w shell_env \<Rightarrow> sql_result option \<Rightarrow> ('w, unit) step" where
  "update_step sl res s =
     (case res of
        None \<Rightarrow> (Inl panic_error, s)
      | Some r \<Rightarrow> (case UpdateOutput sl r s of Some x \<Rightarrow> x | None \<Rightarrow> (Inl (Sentinel ''still waiting''), s)))"

definition run_query :: "'w shell_env \<Rightarrow> string \<Rightarrow> ('w, unit) step" where
  "run_query sl query = andthen (ExecuteBlocking (ExecSQL sl query)) (update_step sl)"

definition run_action :: "'w shell_env \<Rightarrow> stmt_action \<Rightarrow> ('w, unit) step" where
  "run_action sl a = (case a of ActIndexes m \<Rightarrow> sl_indexes sl m | ActQuery q \<Rightarrow> run_query sl q)"


subsection \<open>Texts are run (shell_script_common.go)\<close>

definition InteractiveHelp :: string where
  "InteractiveHelp =
     [CHR 0x0A] @ ''Shortcut Commands:'' @ [CHR 0x0A] @ [CHR 0x09] @ [backslash] @ ''di            List indexes'' @
     [CHR 0x0A] @ [CHR 0x09] @ [backslash] @ ''di   MAPPING  List indexes for a specific mapping'' @ [CHR 0x0A] @
     [CHR 0x09] @ [backslash] @ ''dm            List mappings'' @ [CHR 0x0A] @ [CHR 0x09] @ [backslash] @
     ''dm   MAPPING  Display information about a mapping'' @ [CHR 0x0A] @ [CHR 0x09] @ [backslash] @
     ''dm+  MAPPING  Describe a mapping'' @ [CHR 0x0A] @ [CHR 0x09] @ [backslash] @
     ''exit          Exit the shell'' @ [CHR 0x0A] @ [CHR 0x09] @ [backslash] @
     ''help          Display help for CLC commands'' @ [CHR 0x0A]"

text \<open>
  \<open>sf\<close> tells the shortcuts, which stay in the shell; every other text after a backslash is split into
  words and given to \<open>Execute\<close>. Without a word the index \<^verbatim>\<open>args[0]\<close> panics.
\<close>

definition textFunc :: "'w shell_env \<Rightarrow> (string \<Rightarrow> bool) \<Rightarrow> string \<Rightarrow> ('w, unit) step" where
  "textFunc sl sf text s =
     (if has_prefix (trim_space text) [backslash] \<and> \<not> sf (hd (Prelude.fields text)) then
        (case sl_shlex sl (trim_prefix (trim_space text) [backslash]) of
           Inl e \<Rightarrow> (Inl e, s)
         | Inr [] \<Rightarrow> (Inl panic_error, s)
         | Inr (a # args) \<Rightarrow> sl_execute sl ((backslash # a) # args) s)
      else
        (case ConvertStatement text of
           Inl e \<Rightarrow> if err_is e ''interactive help'' then (Inr (), write_out (InteractiveHelp @ [CHR 0x0A]) s) else (Inl e, s)
         | Inr a \<Rightarrow> run_action sl a s))"

definition shortcuts :: "string list" where
  "shortcuts = map (\<lambda>c. backslash # c) [''di'', ''dm'', ''dm+'', ''exit'']"

subsection \<open>The commands (script.go, shell.go, sql.go)\<close>

text \<open>
  \<^verbatim>\<open>bufio.Scanner\<close> with its default split and buffer: the lines without their ends, up to the first of
  65536 bytes or more. The error it has then is never asked for.
\<close>

definition trim_cr :: "string \<Rightarrow> string" where
  "trim_cr l = trim_suffix l [CHR 0x0D]"

definition scan_lines :: "string \<Rightarrow> string list" where
  "scan_lines content =
     (let ls = split_on (CHR 0x0A) content; ls = (if last ls = [] then butlast ls else ls)
      in map trim_cr (takeWhile (\<lambda>l. length l < 65536) ls))"

definition openScript :: "'w shell_env \<Rightarrow> string \<Rightarrow> 'w \<Rightarrow> (go_error + string) \<times> 'w" where
  "openScript sl location w =
     (if filepath_Ext location \<noteq> ''.clc'' \<and> filepath_Ext location \<noteq> ''.sql''
      then (Inl (Errorf ''the script should have either .clc or .sql extension''), w)
      else if has_prefix location ''file://'' then (sl_open sl (drop 7 location) w, w)
      else if has_prefix location ''http://'' \<or> has_prefix location ''https://'' then
        (case sl_http_get sl location w of
           (Inl e, w') \<Rightarrow> (Inl e, w')
         | (Inr (code, body), w') \<Rightarrow> (if code \<noteq> 200 then Inl (Errorf body) else Inr body, w'))
      else (sl_open sl location w, w))"

definition new_oneshot :: "'w shell_env \<Rightarrow> (string \<Rightarrow> bool) \<Rightarrow> bool \<Rightarrow> bool \<Rightarrow> 'w cstate OneshotShell" where
  "new_oneshot sl sf ie echo =
     \<lparr>os_endLineFn = endLine, os_textFn = textFunc sl sf, os_echoFn = (\<lambda>t s. s\<lparr>cs_world := sl_stderr sl t (cs_world s)\<rparr>),
      os_commentPrefix = ''--'', os_ignoreErrors = ie, os_echo = echo\<rparr>"

definition check_clone :: "'w shell_env \<Rightarrow> ('w, unit) step" where
  "check_clone sl = (case sl_clone sl of Some e \<Rightarrow> fail (Wrapf ''cloning Main'' e) | None \<Rightarrow> ret ())"

definition Script_Exec :: "'w shell_env \<Rightarrow> ('w, unit) step" where
  "Script_Exec sl =
     andthen (IncrementMetric ''total.script'') (\<lambda>_. with_state (\<lambda>s.
     andthen (case GetStringSliceArg s ''path'' of
                [] \<Rightarrow> ret (sl_stdin sl)
              | p # ps \<Rightarrow> wrap_err ''opening script'' (on_world (openScript sl p))) (\<lambda>content.
     andthen (check_clone sl) (\<lambda>_.
     Oneshot_Run (new_oneshot sl (\<lambda>c. False) (prop_bool s ''ignore-errors'') (prop_bool s ''echo'')) (scan_lines content)))))"

definition Shell_ExecInteractive :: "'w shell_env \<Rightarrow> ('w, unit) step" where
  "Shell_ExecInteractive sl =
     andthen (IncrementMetric ''total.shell'') (\<lambda>_. with_state (\<lambda>s.
       if cs_args s \<noteq> [] then fail ErrNotAvailable
       else andthen (check_clone sl) (\<lambda>_.
         if sl_stdin_pipe sl
         then Oneshot_Run (new_oneshot sl (\<lambda>c. c \<in> set shortcuts) False False) (scan_lines (sl_stdin sl))
         else andthen (sl_banner sl) (\<lambda>_.
           Start_loop ''--'' (textFunc sl (\<lambda>c. c \<in> set shortcuts))
             (\<lambda>t s'. s'\<lparr>cs_world := sl_stderr sl t (cs_world s')\<rparr>) (sl_show_error sl) False (sl_terminal sl)))))"

definition SQL_Exec :: "'w shell_env \<Rightarrow> ('w, unit) step" where
  "SQL_Exec sl = with_state (\<lambda>s0.
     if cs_args s0 = [] then ret ()
     else andthen (ExecuteBlocking
       (andthen (ClientInternal (sl_env sl)) (\<lambda>_.
        andthen (IncrementClusterMetric (sl_env sl) ''total.sql'') (\<lambda>_. with_state (\<lambda>s.
        case CheckServerCompatible (sl_env sl) ''5.0.0'' s of
          None \<Rightarrow> fail panic_error
        | Some (sv, False) \<Rightarrow> fail (Errorf (''server ('' @ sv @ '') does not support this command, at least 5.0.0 is expected''))
        | Some (sv, True) \<Rightarrow> ExecSQL sl (GetStringArg s0 ''query'')))))) (update_step sl))"

text \<open>In the shell the default format is the table.\<close>

definition SQL_Augment :: "string \<Rightarrow> string \<Rightarrow> 'w cstate \<Rightarrow> 'w cstate" where
  "SQL_Augment arg0 commandName s =
     (if commandName = arg0 @ '' shell'' \<and> cs_args s = []
      then s\<lparr>cs_props := Properties_Set (cs_props s) ''format'' (VString ''table'')\<rparr> else s)"


subsection \<open>A script runs the statements it consists of\<close>

text \<open>
  A script as its author sees it: SQL statements over several lines, commands continued with a
  backslash at the end of a line, and lines that are blank or comments. \<open>item_lines\<close> are the lines of
  an item, \<open>item_text\<close> what is to be run for it.
\<close>

datatype script_item = SqlItem "string list" string | CmdItem "string list" string | SkipItem string

fun item_lines :: "script_item \<Rightarrow> string list" where
  "item_lines (SqlItem ls l) = ls @ [l]"
| "item_lines (CmdItem ls l) = map (\<lambda>x. x @ [backslash]) ls @ [l]"
| "item_lines (SkipItem l) = [l]"

fun item_text :: "script_item \<Rightarrow> string list" where
  "item_text (SqlItem ls l) = [concat (map (\<lambda>x. x @ [CHR 0x0A]) ls) @ l]"
| "item_text (CmdItem ls l) = [concat ls @ l]"
| "item_text (SkipItem l) = []"

definition sql_open :: "string \<Rightarrow> bool" where
  "sql_open l \<longleftrightarrow> \<not> has_prefix (trim_space l) ''help'' \<and> \<not> has_prefix (trim_space l) [backslash] \<and> \<not> has_suffix (trim_space l) '';''"

fun item_ok :: "string \<Rightarrow> script_item \<Rightarrow> bool" where
  "item_ok pfx (SqlItem ls l) \<longleftrightarrow>
     \<not> skipped pfx False (hd (ls @ [l])) \<and> (\<forall>x \<in> set ls. sql_open x) \<and>
     \<not> has_prefix (trim_space l) [backslash] \<and> has_suffix (trim_space l) '';''"
| "item_ok pfx (CmdItem ls l) \<longleftrightarrow>
     \<not> skipped pfx False (hd (item_lines (CmdItem ls l))) \<and>
     has_prefix (trim_space (hd (item_lines (CmdItem ls l)))) [backslash] \<and> \<not> has_suffix l [backslash]"
| "item_ok pfx (SkipItem l) \<longleftrightarrow> skipped pfx False l"

fun run_texts :: "(string \<Rightarrow> ('s, unit) eff) \<Rightarrow> bool \<Rightarrow> string list \<Rightarrow> ('s, unit) eff" where
  "run_texts f ie [] = ret ()"
| "run_texts f ie (t # ts) = andthen
     (\<lambda>s. case f t s of (Inl e, s') \<Rightarrow> if ie \<and> e \<noteq> panic_error then (Inr (), s') else (Inl e, s') | r \<Rightarrow> r)
     (\<lambda>_. run_texts f ie ts)"

lemma endLine_sql_open: "sql_open x \<Longrightarrow> \<not> (m \<and> c) \<Longrightarrow> endLine c x m = ((x @ [CHR 0x0A], False), False)"
  by (auto simp: endLine_def sql_open_def)

lemma endLine_sql_last:
  "\<not> has_prefix (trim_space l) [backslash] \<Longrightarrow> has_suffix (trim_space l) '';'' \<Longrightarrow> \<not> (m \<and> c) \<Longrightarrow>
   endLine c l m = ((l, True), False)"
  by (auto simp: endLine_def Let_def)

lemma endLine_cmd:
  "has_prefix (trim_space x) [backslash] \<or> m \<and> c \<Longrightarrow> \<not> has_suffix x [backslash] \<Longrightarrow> endLine c x m = ((x, True), True)"
  "has_prefix (trim_space (x @ [backslash])) [backslash] \<or> m \<and> c \<Longrightarrow> endLine c (x @ [backslash]) m = ((x, False), True)"
  by (auto simp: endLine_def Let_def)

text \<open>The state between items: an empty text, no line open. The rest only serves the echo.\<close>

definition between :: "read_state \<Rightarrow> bool" where
  "between rs \<longleftrightarrow> rs_sb rs = [] \<and> \<not> rs_multiline rs"

text \<open>The lines of an item after the first, when \<open>sb\<close> has been read.\<close>

lemma read_rest_sql:
  assumes "os_endLineFn sh = endLine" "\<forall>x \<in> set ls. sql_open x"
    and "\<not> has_prefix (trim_space l) [backslash]" "has_suffix (trim_space l) '';''"
  shows "rs_multiline rs \<Longrightarrow> \<not> rs_continue rs \<Longrightarrow>
    \<exists>rs1. rs_sb rs1 = rs_sb rs @ concat (map (\<lambda>x. x @ [CHR 0x0A]) ls) @ l \<and> \<not> rs_multiline rs1 \<and>
      read_lines sh rs (ls @ l # rest) = andthen (run_text sh rs1) (\<lambda>_. read_lines sh (rs1\<lparr>rs_sb := []\<rparr>) rest)"
  using assms(2)
proof (induction ls arbitrary: rs)
  case Nil
  then show ?case
    using endLine_sql_last [OF assms(3,4), of True "rs_continue rs"] assms(1)
    by (intro exI [of _ "rs\<lparr>rs_line := rs_line rs + 1, rs_sb := rs_sb rs @ l, rs_prev := True, rs_multiline := False,
        rs_continue := False\<rparr>"]) (simp add: skipped_def Let_def)
next
  case (Cons x ls)
  let ?rs = "rs\<lparr>rs_line := rs_line rs + 1, rs_sb := rs_sb rs @ x @ [CHR 0x0A], rs_prev := True, rs_multiline := True, rs_continue := False\<rparr>"
  have "read_lines sh rs ((x # ls) @ l # rest) = read_lines sh ?rs (ls @ l # rest)"
    using Cons.prems endLine_sql_open [of x True "rs_continue rs"] assms(1) by (simp add: skipped_def Let_def)
  moreover obtain rs1 where "rs_sb rs1 = rs_sb ?rs @ concat (map (\<lambda>x. x @ [CHR 0x0A]) ls) @ l" "\<not> rs_multiline rs1"
    "read_lines sh ?rs (ls @ l # rest) = andthen (run_text sh rs1) (\<lambda>_. read_lines sh (rs1\<lparr>rs_sb := []\<rparr>) rest)"
    using Cons.IH [of ?rs] Cons.prems by auto
  ultimately show ?case by (intro exI [of _ rs1]) simp
qed

lemma read_rest_cmd:
  assumes "os_endLineFn sh = endLine" "\<not> has_suffix l [backslash]"
  shows "rs_multiline rs \<Longrightarrow> rs_continue rs \<Longrightarrow>
    \<exists>rs1. rs_sb rs1 = rs_sb rs @ concat ls @ l \<and> \<not> rs_multiline rs1 \<and>
      read_lines sh rs (map (\<lambda>x. x @ [backslash]) ls @ l # rest) =
        andthen (run_text sh rs1) (\<lambda>_. read_lines sh (rs1\<lparr>rs_sb := []\<rparr>) rest)"
proof (induction ls arbitrary: rs)
  case Nil
  then show ?case
    using endLine_cmd(1) [of l True True] assms
    by (intro exI [of _ "rs\<lparr>rs_line := rs_line rs + 1, rs_sb := rs_sb rs @ l, rs_prev := True, rs_multiline := False,
        rs_continue := True\<rparr>"]) (simp add: skipped_def Let_def)
next
  case (Cons x ls)
  let ?rs = "rs\<lparr>rs_line := rs_line rs + 1, rs_sb := rs_sb rs @ x, rs_prev := True, rs_multiline := True, rs_continue := True\<rparr>"
  have "read_lines sh rs (map (\<lambda>x. x @ [backslash]) (x # ls) @ l # rest) = read_lines sh ?rs (map (\<lambda>x. x @ [backslash]) ls @ l # rest)"
    using Cons.prems endLine_cmd(2) [of x True True] assms(1) by (simp add: skipped_def Let_def)
  moreover obtain rs1 where "rs_sb rs1 = rs_sb ?rs @ concat ls @ l" "\<not> rs_multiline rs1"
    "read_lines sh ?rs (map (\<lambda>x. x @ [backslash]) ls @ l # rest) =
      andthen (run_text sh rs1) (\<lambda>_. read_lines sh (rs1\<lparr>rs_sb := []\<rparr>) rest)"
    using Cons.IH [of ?rs] by auto
  ultimately show ?case by (intro exI [of _ rs1]) simp
qed



text \<open>An item read from between two items: its text, if it has one, is run, and then the rest is read.\<close>

definition run_item :: "'s OneshotShell \<Rightarrow> string list \<Rightarrow> ('s, unit) eff" where
  "run_item sh ts = run_texts (os_textFn sh) (os_ignoreErrors sh) ts"

lemma run_text_plain: "\<not> os_echo sh \<Longrightarrow> run_text sh rs = run_item sh [rs_sb rs]"
  by (rule ext)
    (auto simp: run_text_def run_item_def echo_text_def andthen_def ret_def split: sum.splits prod.splits)

lemma read_item:
  assumes "os_endLineFn sh = endLine" "\<not> os_echo sh" "item_ok (os_commentPrefix sh) i" "between rs"
  shows "\<exists>rs1. between rs1 \<and>
    read_lines sh rs (item_lines i @ rest) = andthen (run_item sh (item_text i)) (\<lambda>_. read_lines sh rs1 rest)"
proof (cases i)
  case (SkipItem l)
  then show ?thesis
    using assms(3,4)
    by (intro exI [of _ "rs\<lparr>rs_line := rs_line rs + 1\<rparr>"]) (simp add: between_def run_item_def Let_def andthen_def ret_def)
next
  case (SqlItem ls l)
  show ?thesis
  proof (cases ls)
    case Nil
    then show ?thesis
      using assms SqlItem endLine_sql_last [of l False "rs_continue rs"]
      by (intro exI [of _ "rs\<lparr>rs_line := rs_line rs + 1, rs_prev := False, rs_multiline := False, rs_continue := False, rs_sb := []\<rparr>"])
        (simp add: between_def run_text_plain Let_def)
  next
    case (Cons x xs)
    let ?rs = "rs\<lparr>rs_line := rs_line rs + 1, rs_sb := x @ [CHR 0x0A], rs_prev := False, rs_multiline := True, rs_continue := False,
      rs_start := rs_line rs + 1\<rparr>"
    have "read_lines sh rs (item_lines i @ rest) = read_lines sh ?rs (xs @ l # rest)"
      using assms SqlItem Cons endLine_sql_open [of x False "rs_continue rs"] by (simp add: between_def Let_def)
    moreover obtain rs1 where "rs_sb rs1 = rs_sb ?rs @ concat (map (\<lambda>x. x @ [CHR 0x0A]) xs) @ l" "\<not> rs_multiline rs1"
      "read_lines sh ?rs (xs @ l # rest) = andthen (run_text sh rs1) (\<lambda>_. read_lines sh (rs1\<lparr>rs_sb := []\<rparr>) rest)"
      using read_rest_sql [OF assms(1), of xs l ?rs rest] assms(3) SqlItem Cons by auto
    ultimately show ?thesis
      using assms(2) SqlItem Cons by (intro exI [of _ "rs1\<lparr>rs_sb := []\<rparr>"]) (simp add: between_def run_text_plain)
  qed
next
  case (CmdItem ls l)
  show ?thesis
  proof (cases ls)
    case Nil
    then show ?thesis
      using assms CmdItem endLine_cmd(1) [of l False "rs_continue rs"]
      by (intro exI [of _ "rs\<lparr>rs_line := rs_line rs + 1, rs_prev := False, rs_multiline := False, rs_continue := True, rs_sb := []\<rparr>"])
        (simp add: between_def run_text_plain Let_def)
  next
    case (Cons x xs)
    let ?rs = "rs\<lparr>rs_line := rs_line rs + 1, rs_sb := x, rs_prev := False, rs_multiline := True, rs_continue := True,
      rs_start := rs_line rs + 1\<rparr>"
    have "read_lines sh rs (item_lines i @ rest) = read_lines sh ?rs (map (\<lambda>x. x @ [backslash]) xs @ l # rest)"
      using assms CmdItem Cons endLine_cmd(2) [of x False "rs_continue rs"] by (simp add: between_def Let_def)
    moreover obtain rs1 where "rs_sb rs1 = rs_sb ?rs @ concat xs @ l" "\<not> rs_multiline rs1"
      "read_lines sh ?rs (map (\<lambda>x. x @ [backslash]) xs @ l # rest) =
        andthen (run_text sh rs1) (\<lambda>_. read_lines sh (rs1\<lparr>rs_sb := []\<rparr>) rest)"
      using read_rest_cmd [OF assms(1), of l ?rs xs rest] assms(3) CmdItem by auto
    ultimately show ?thesis
      using assms(2) CmdItem Cons by (intro exI [of _ "rs1\<lparr>rs_sb := []\<rparr>"]) (simp add: between_def run_text_plain)
  qed
qed

lemma run_texts_append: "run_texts f ie (xs @ ys) = andthen (run_texts f ie xs) (\<lambda>_. run_texts f ie ys)"
  by (induction xs) (auto simp: andthen_def ret_def fun_eq_iff split: sum.splits prod.splits)

lemma read_items:
  assumes "os_endLineFn sh = endLine" "\<not> os_echo sh"
  shows "\<forall>i \<in> set items. item_ok (os_commentPrefix sh) i \<Longrightarrow> between rs \<Longrightarrow>
    read_lines sh rs (concat (map item_lines items)) = run_item sh (concat (map item_text items))"
proof (induction items arbitrary: rs)
  case Nil
  then show ?case by (simp add: between_def run_item_def)
next
  case (Cons i items)
  then obtain rs1 where "between rs1" "read_lines sh rs (item_lines i @ concat (map item_lines items)) =
      andthen (run_item sh (item_text i)) (\<lambda>_. read_lines sh rs1 (concat (map item_lines items)))"
    using read_item [OF assms, of i rs "concat (map item_lines items)"] by auto
  then show ?case using Cons.IH [of rs1] Cons.prems(1) by (simp add: run_item_def run_texts_append)
qed

text \<open>
  C8: What a script's author wrote is what is run: for every script made of SQL statements that end with
  a semicolon (over as many lines as wished), of commands after a backslash (continued on the next line
  with a backslash at the end), and of blank and comment lines, the shell runs exactly the statements
  and commands, in order, each with its lines joined (by a line end in a statement, by nothing in a
  command), and stops at the first error that is not to be ignored.
\<close>

theorem script_runs_statements:
  assumes "os_endLineFn sh = endLine" and "\<not> os_echo sh"
    and "\<forall>i \<in> set items. item_ok (os_commentPrefix sh) i"
  shows "Oneshot_Run sh (concat (map item_lines items)) =
    run_texts (os_textFn sh) (os_ignoreErrors sh) (concat (map item_text items))"
  using read_items [OF assms(1,2,3), of start_reading]
  by (simp add: Oneshot_Run_def readTextBasic_def between_def start_reading_def run_item_def)


definition sample_script :: "script_item list" where
  "sample_script = [SkipItem ''-- cities'', SqlItem [''SELECT *'', ''  -- all'', ''FROM cities''] ''WHERE id > 3;'',
     CmdItem [[backslash] @ ''map -n m ''] ''set k v'', SkipItem [], SqlItem [] ''SELECT 1;'']"

lemma script_runs_statements_witness:
  "Oneshot_Run \<lparr>os_endLineFn = endLine, os_textFn = (\<lambda>t s. (Inr (), s @ [t])), os_echoFn = (\<lambda>t s. s), os_commentPrefix = ''--'',
      os_ignoreErrors = False, os_echo = False\<rparr> (concat (map item_lines sample_script)) =
    run_texts (\<lambda>t s. (Inr (), s @ [t])) False (concat (map item_text sample_script)) \<and>
   length (concat (map item_lines sample_script)) = 9 \<and> length (concat (map item_text sample_script)) = 3"
proof -
  have "\<forall>i \<in> set sample_script. item_ok ''--'' i" by code_simp
  then show ?thesis
    using script_runs_statements [of "\<lparr>os_endLineFn = endLine, os_textFn = (\<lambda>t s. (Inr (), s @ [t])), os_echoFn = (\<lambda>t s. s),
      os_commentPrefix = ''--'', os_ignoreErrors = False, os_echo = False\<rparr>" sample_script]
    by (simp add: sample_script_def)
qed

subsection \<open>The terminal runs what is typed and goes on after an error\<close>

text \<open>
  What a user does at the prompt: an item as in a script, whose first line may have blanks around it
  (\<open>raw\<close> is that line as it was typed), or some lines of an unfinished item followed by a read that fails, such as
  an interrupt.
\<close>

datatype typed = Typed string script_item | Broken "string list" go_error

fun typed_input :: "typed \<Rightarrow> (go_error + string) list" where
  "typed_input (Typed raw i) = map Inr (raw # tl (item_lines i))"
| "typed_input (Broken ls e) = map Inr ls @ [Inl e]"

definition unfinished :: "string \<Rightarrow> string list \<Rightarrow> bool" where
  "unfinished pfx ls \<longleftrightarrow> (case ls of [] \<Rightarrow> True
     | raw # xs \<Rightarrow> (let p = trim_space raw in p \<noteq> [] \<and> \<not> (pfx \<noteq> [] \<and> has_prefix p pfx) \<and>
         (sql_open p \<and> (\<forall>x \<in> set xs. sql_open x) \<or>
          has_prefix (trim_space p) [backslash] \<and> has_suffix p [backslash] \<and> (\<forall>x \<in> set xs. has_suffix x [backslash]))))"

fun typed_ok :: "string \<Rightarrow> typed \<Rightarrow> bool" where
  "typed_ok pfx (Typed raw i) \<longleftrightarrow>
     item_ok pfx i \<and> trim_space raw = hd (item_lines i) \<and> trim_space (hd (item_lines i)) = hd (item_lines i)"
| "typed_ok pfx (Broken ls e) \<longleftrightarrow> e \<noteq> Sentinel ''EOF'' \<and> unfinished pfx ls"

text \<open>
  What is to happen: each item with a text is run; a failing one is reported, unless the user cancelled it, and the
  next is run; only \<open>\exit\<close> (and a panic) ends the loop. A failing read is reported, what was typed of
  the item is dropped, and the next is run.
\<close>

fun terminal_runs :: "(string \<Rightarrow> ('s, unit) eff) \<Rightarrow> (string \<Rightarrow> 's \<Rightarrow> 's) \<Rightarrow> (go_error \<Rightarrow> string) \<Rightarrow> typed list \<Rightarrow> ('s, unit) eff" where
  "terminal_runs textFn warn show_err [] s = (Inr (), s)"
| "terminal_runs textFn warn show_err (Broken ls e # ts) s =
     terminal_runs textFn warn show_err ts
       (warn (if err_text e = ''Interrupt'' \<or> err_text e = ''^C'' then ''Press Ctrl+D or type '' @ [backslash] @ ''exit to exit.''
              else ''Error: '' @ err_text e) s)"
| "terminal_runs textFn warn show_err (Typed raw i # ts) s =
     (case item_text i of
        [] \<Rightarrow> terminal_runs textFn warn show_err ts s
      | t # _ \<Rightarrow>
          if t = [] then terminal_runs textFn warn show_err ts s
          else (case textFn t s of
             (Inr _, s') \<Rightarrow> terminal_runs textFn warn show_err ts s'
           | (Inl e, s') \<Rightarrow>
               if e = panic_error then (Inl e, s')
               else if err_is e ''exit'' then (Inr (), s')
               else terminal_runs textFn warn show_err ts (if IsUserCancelled e then s' else warn (show_err e) s')))"

lemma readline_sql:
  "\<forall>x \<in> set ls. sql_open x \<Longrightarrow> readline_loop pfx True False sb (map Inr ls @ rest) =
     readline_loop pfx True False (sb @ concat (map (\<lambda>x. x @ [CHR 0x0A]) ls)) rest"
proof (induction ls arbitrary: sb)
  case (Cons x ls)
  have "endLine False x True = ((x @ [CHR 0x0A], False), False)" using Cons.prems by (intro endLine_sql_open) auto
  then show ?case using Cons by simp
qed simp

lemma readline_cmd:
  "readline_loop pfx True True sb (map Inr (map (\<lambda>x. x @ [backslash]) ls) @ rest) = readline_loop pfx True True (sb @ concat ls) rest"
proof (induction ls arbitrary: sb)
  case (Cons x ls)
  have "endLine True (x @ [backslash]) True = ((x, False), True)" by (intro endLine_cmd(2)) auto
  then show ?case using Cons by simp
qed simp

text \<open>An item that is typed becomes its text; one without a text is passed over.\<close>

lemma readline_item:
  assumes "typed_ok pfx (Typed raw i)"
  shows "(item_text i = [] \<and> readTextReadline pfx c (typed_input (Typed raw i) @ rest) = readTextReadline pfx c rest) \<or>
    (\<exists>t c'. item_text i = [t] \<and> readTextReadline pfx c (typed_input (Typed raw i) @ rest) = (Inr t, rest, c'))"
proof (cases i)
  case (SkipItem l)
  then show ?thesis using assms by (auto simp: readTextReadline_def skipped_def)
next
  case (SqlItem ls l)
  have l: "\<not> has_prefix (trim_space l) [backslash]" "has_suffix (trim_space l) '';''" "\<forall>x \<in> set ls. sql_open x"
    using assms SqlItem by auto
  show ?thesis
  proof (cases ls)
    case Nil
    have "endLine c l False = ((l, True), False)" by (rule endLine_sql_last [OF l(1,2)]) simp
    then show ?thesis using assms SqlItem Nil by (auto simp: readTextReadline_def skipped_def)
  next
    case (Cons x xs)
    have "endLine c x False = ((x @ [CHR 0x0A], False), False)" by (rule endLine_sql_open) (use l(3) Cons in auto)
    moreover have "endLine False l True = ((l, True), False)" by (rule endLine_sql_last [OF l(1,2)]) simp
    ultimately show ?thesis
      using assms SqlItem Cons l(3) readline_sql [of xs pfx "x @ [CHR 0x0A]" "Inr l # rest"]
      by (auto simp: readTextReadline_def skipped_def)
  qed
next
  case (CmdItem ls l)
  have l: "\<not> has_suffix l [backslash]" using assms CmdItem by auto
  show ?thesis
  proof (cases ls)
    case Nil
    then have h: "has_prefix (trim_space l) [backslash]" using assms CmdItem by auto
    have "endLine c l False = ((l, True), True)" by (rule endLine_cmd(1) [OF _ l]) (simp add: h)
    then show ?thesis using assms CmdItem Nil h by (auto simp: readTextReadline_def skipped_def has_prefix_def)
  next
    case (Cons x xs)
    let ?x = "x @ [backslash]"
    have h: "has_prefix (trim_space ?x) [backslash]" "trim_space raw = ?x" "trim_space ?x = ?x" using assms CmdItem Cons by auto
    have e: "endLine c ?x False = ((x, False), True)" by (rule endLine_cmd(2)) (simp add: h(1))
    have e': "endLine True l True = ((l, True), True)" by (rule endLine_cmd(1) [OF _ l]) simp
    show ?thesis
      using assms CmdItem Cons e e' readline_cmd [of pfx x xs "Inr l # rest"] h l
      by (auto simp: readTextReadline_def skipped_def has_suffix_def)
  qed
qed

lemma readline_broken:
  assumes "unfinished pfx ls"
  shows "\<exists>c'. readTextReadline pfx c (map Inr ls @ Inl e # rest) = (Inl e, rest, c')"
proof (cases ls)
  case (Cons raw xs)
  let ?p = "trim_space raw"
  have p: "?p \<noteq> []" "\<not> (pfx \<noteq> [] \<and> has_prefix ?p pfx)" using assms Cons by (simp_all add: unfinished_def Let_def)
  from assms Cons consider "sql_open ?p" "\<forall>x \<in> set xs. sql_open x" |
    "has_prefix (trim_space ?p) [backslash]" "has_suffix ?p [backslash]" "\<forall>x \<in> set xs. has_suffix x [backslash]"
    by (auto simp: unfinished_def Let_def)
  then show ?thesis
  proof cases
    case 1
    have "endLine c ?p False = ((?p @ [CHR 0x0A], False), False)" by (rule endLine_sql_open [OF 1(1)]) simp
    then show ?thesis
      using Cons p readline_sql [OF 1(2), of pfx "?p @ [CHR 0x0A]" "Inl e # rest"] by (auto simp: readTextReadline_def Let_def)
  next
    case 2
    have but: "x = butlast x @ [backslash]" if "has_suffix x [backslash]" for x
      using that append_take_drop_id [of "length x - 1" x] by (simp add: has_suffix_def butlast_conv_take)
    then have xs: "xs = map (\<lambda>x. x @ [backslash]) (map butlast xs)" using 2(3) by (simp add: map_idI)
    have e: "endLine c (butlast ?p @ [backslash]) False = ((butlast ?p, False), True)"
      by (rule endLine_cmd(2)) (use 2(1) but [OF 2(2)] in simp)
    have "readline_loop pfx True True (butlast ?p) (map Inr xs @ Inl e # rest) = (Inl e, rest, True)"
      by (subst xs) (simp only: readline_cmd, simp)
    then show ?thesis using Cons p e but [OF 2(2)] by (auto simp: readTextReadline_def Let_def)
  qed
qed (simp add: readTextReadline_def)

text \<open>Whatever is read, the loop returns no error but a panic.\<close>

lemma Start_never_fails:
  "fst (Start_loop pfx textFn warn show_err c input s) \<in> {Inr (), Inl panic_error}"
proof (induction pfx textFn warn show_err c input s rule: Start_loop.induct)
  case (1 pfx textFn warn show_err c input s)
  obtain r rest c' where x: "readTextReadline pfx c input = (r, rest, c')" by (metis prod.exhaust)
  show ?case
  proof (cases r)
    case (Inl e)
    then show ?thesis
      using "1.IH"(1,2) [OF x [symmetric] Inl refl] x Inl by (subst Start_loop.simps) (simp split: if_split)
  next
    case (Inr t)
    obtain r' s' where y: "textFn t s = (r', s')" by (metis prod.exhaust)
    show ?thesis
      using "1.IH"(3,4,5,6) [OF x [symmetric] Inr refl] x y Inr
      by (subst Start_loop.simps) (auto split: if_split sum.split)
  qed
qed

text \<open>
  C31: The shell on a terminal runs what is typed and goes on. For every sequence of statements, commands, comments and
  reads that fail, up to the end of the input, each statement or command is run once and in order with its
  lines joined; an error of it is reported, unless the user cancelled it, and then the next one is run. A
  failing read, such as an interrupt, is reported and only drops the unfinished text before it. The loop ends only at the end of the input
  (what may come after it is not read), at \<open>\exit\<close>, or with a panic; it never returns an error. The
  input is a finite sequence: a reader that fails again and again without end keeps the loop of the code running.
\<close>

theorem Start_runs_statements:
  assumes "\<forall>t \<in> set ts. typed_ok pfx t" "rest = [] \<or> (\<exists>more. rest = Inl (Sentinel ''EOF'') # more)"
  shows "Start_loop pfx textFn warn show_err c (concat (map typed_input ts) @ rest) s = terminal_runs textFn warn show_err ts s \<and>
    fst (terminal_runs textFn warn show_err ts s) \<in> {Inr (), Inl panic_error}"
  using assms(1)
proof (induction ts arbitrary: c s)
  case Nil
  then show ?case
    using assms(2) by (auto simp: Start_loop.simps [of pfx textFn warn show_err c _ s] readTextReadline_def)
next
  case (Cons t ts)
  let ?in = "concat (map typed_input ts) @ rest"
  note ih = Cons.IH [OF ballI [OF bspec [OF Cons.prems]]]
  have all: "concat (map typed_input (t # ts)) @ rest = typed_input t @ ?in" by simp
  show ?case
  proof (cases t)
    case (Broken ls e)
    have ok: "e \<noteq> Sentinel ''EOF''" "unfinished pfx ls" using Cons.prems Broken by auto
    obtain c' where "readTextReadline pfx c (typed_input t @ ?in) = (Inl e, ?in, c')"
      using readline_broken [OF ok(2), of c e ?in] Broken by auto
    then show ?thesis
      unfolding all using ih Broken ok(1) by (subst (1) Start_loop.simps) simp
  next
    case (Typed raw i)
    then have "typed_ok pfx (Typed raw i)" using Cons.prems by simp
    from readline_item [OF this, of c ?in] show ?thesis
    proof
      assume a: "item_text i = [] \<and> readTextReadline pfx c (typed_input (Typed raw i) @ ?in) = readTextReadline pfx c ?in"
      have "Start_loop pfx textFn warn show_err c (typed_input t @ ?in) s = Start_loop pfx textFn warn show_err c ?in s"
        using a Typed by (simp only: Start_loop.simps [of pfx textFn warn show_err c _ s])
      then show ?thesis unfolding all using ih a Typed by simp
    next
      assume "\<exists>x c'. item_text i = [x] \<and> readTextReadline pfx c (typed_input (Typed raw i) @ ?in) = (Inr x, ?in, c')"
      then obtain x c' where x: "item_text i = [x]"
        "readTextReadline pfx c (typed_input t @ ?in) = (Inr x, ?in, c')" using Typed by blast
      obtain r s' where y: "textFn x s = (r, s')" by (metis prod.exhaust)
      show ?thesis
        unfolding all using ih x y Typed by (cases r) (subst (1) Start_loop.simps, simp)+
    qed
  qed
qed

definition sample_typed :: "typed list" where
  "sample_typed = [Typed ''  SELECT 1;'' (SqlItem [] ''SELECT 1;''), Broken [''SELECT *'', ''FROM m''] (Sentinel ''Interrupt''),
     Typed ''-- more'' (SkipItem ''-- more''), Typed ''SELECT *'' (SqlItem [''SELECT *''] ''FROM cities;''),
     Typed ([backslash] @ ''exit'') (CmdItem [] ([backslash] @ ''exit''))]"

text \<open>The log of a loop in which the first statement fails: the texts that are run and the warnings.\<close>

definition sample_textFn :: "string \<Rightarrow> (string list, unit) eff" where
  "sample_textFn t s =
     (if t = ''SELECT 1;'' then (Inl (Errorf ''no cluster''), s @ [t]) else if t = [backslash] @ ''exit'' then (Inl ErrExit, s) else (Inr (), s @ [t]))"

lemma Start_runs_statements_witness:
  "Start_loop ''--'' sample_textFn (\<lambda>t s. s @ [t]) err_text False (concat (map typed_input sample_typed) @ [Inl (Sentinel ''EOF'')]) [] =
     (Inr (), [''SELECT 1;'', ''no cluster'', ''Press Ctrl+D or type '' @ [backslash] @ ''exit to exit.'',
       ''SELECT *'' @ [CHR 0x0A] @ ''FROM cities;''])"
proof -
  have ok: "\<forall>t \<in> set sample_typed. typed_ok ''--'' t" by code_simp
  have "terminal_runs sample_textFn (\<lambda>t s. s @ [t]) err_text sample_typed [] =
     (Inr (), [''SELECT 1;'', ''no cluster'', ''Press Ctrl+D or type '' @ [backslash] @ ''exit to exit.'',
       ''SELECT *'' @ [CHR 0x0A] @ ''FROM cities;''])"
    by (simp add: sample_typed_def sample_textFn_def ErrExit_def panic_error_def IsUserCancelled_def)
  then show ?thesis
    using Start_runs_statements [OF ok, of "[Inl (Sentinel ''EOF'')]" sample_textFn "\<lambda>t s. s @ [t]" err_text False "[]"] by simp
qed

subsection \<open>The literal of a mapping query\<close>

text \<open>A string literal of SQL, after the opening quote: what it denotes and what follows it.\<close>

fun sql_literal :: "string \<Rightarrow> (string \<times> string) option" where
  "sql_literal [] = None"
| "sql_literal (x # s) =
     (if x \<noteq> CHR 0x27 then map_option (\<lambda>(l, r). (x # l, r)) (sql_literal s)
      else (case s of
              y # s' \<Rightarrow> if y = CHR 0x27 then map_option (\<lambda>(l, r). (CHR 0x27 # l, r)) (sql_literal s') else Some ([], s)
            | [] \<Rightarrow> Some ([], s)))"

lemma sql_literal_escaped: "sql_literal (escape_quotes s @ CHR 0x27 # CHR '';'' # r) = Some (s, CHR '';'' # r)"
  by (induction s) (simp_all add: escape_quotes_def)

lemma mapping_query_parts:
  assumes "tbl \<in> {''mappings'', ''columns''}"
  shows "\<exists>before. mapping_query tbl mn = before @ CHR 0x27 # escape_quotes mn @ CHR 0x27 # '';'' @ nl_tabs 4 \<and> CHR 0x27 \<notin> set before"
  using assms
  by (intro exI [of _ "nl_tabs 5 @ ''SELECT * FROM information_schema.'' @ tbl @ nl_tabs 5 @ ''WHERE table_name = ''"])
    (auto simp: mapping_query_def nl_tabs_def)

text \<open>
  C29: The shortcuts \<^verbatim>\<open>dm\<close> and \<^verbatim>\<open>dm+\<close> cannot be used to inject SQL: for every name, with whatever quotes
  in it, the query has one string literal, the database reads exactly the name from it, and only the
  fixed end of the query follows.
\<close>

theorem mapping_query_literal:
  assumes "has_prefix (trim_space stmt) [backslash]"
    and "Prelude.fields (trim_prefix (trim_space stmt) [backslash]) = [c, mn]" and "c \<in> {''dm'', ''dm+''}"
  shows "\<exists>before lit. ConvertStatement stmt = Inr (ActQuery (before @ CHR 0x27 # lit)) \<and> CHR 0x27 \<notin> set before \<and>
    sql_literal lit = Some (mn, '';'' @ nl_tabs 4)"
proof -
  have h: "\<not> has_prefix (trim_space stmt) ''help''" using assms(1) by (cases "trim_space stmt") (auto simp: has_prefix_def)
  have "\<exists>tbl \<in> {''mappings'', ''columns''}. ConvertStatement stmt = Inr (ActQuery (mapping_query tbl mn))"
    using assms h by (auto simp: ConvertStatement_def)
  then obtain tbl where t: "tbl \<in> {''mappings'', ''columns''}" "ConvertStatement stmt = Inr (ActQuery (mapping_query tbl mn))" by blast
  obtain before where "mapping_query tbl mn = before @ CHR 0x27 # escape_quotes mn @ CHR 0x27 # '';'' @ nl_tabs 4" "CHR 0x27 \<notin> set before"
    using mapping_query_parts [OF t(1)] by blast
  then show ?thesis
    using t(2) sql_literal_escaped [of mn "nl_tabs 4"]
    by (intro exI [of _ before] exI [of _ "escape_quotes mn @ CHR 0x27 # '';'' @ nl_tabs 4"]) simp
qed

lemma mapping_query_literal_witness:
  "\<exists>before lit. ConvertStatement ([backslash] @ ''dm x'' @ [CHR 0x27] @ '';drop'') = Inr (ActQuery (before @ CHR 0x27 # lit)) \<and>
    CHR 0x27 \<notin> set before \<and> sql_literal lit = Some (''x'' @ [CHR 0x27] @ '';drop'', '';'' @ nl_tabs 4)"
  by (rule mapping_query_literal [where c = "''dm''"]) code_simp+


subsection \<open>The flag that applies suggestions\<close>

text \<open>
  C30: With \<^verbatim>\<open>--use-mapping-suggestion\<close> a query that fails without a suggestion (a syntax error, say) is
  not reported: \<open>ExecSQL\<close> returns neither a result nor an error, and the command panics when it looks
  at the result.
\<close>

theorem suggestion_flag_panics:
  assumes "cs_connected s" "cs_sched s = []" "cs_args s \<noteq> []" "prop_bool s ''use-mapping-suggestion''"
    and c: "\<And>s'. cs_world s' = cs_world s \<Longrightarrow> CheckServerCompatible (sl_env sl) ''5.0.0'' s' = Some (sv, True)"
    and q: "sl_ctx_err sl (cs_world s) = None"
      "sl_sql sl (GetStringArg s ''query'') (cs_world s) = (Inl (SqlError msg []), w')" "sl_fuel sl = Suc n"
  shows "fst (SQL_Exec sl s) = Inl panic_error"
proof -
  obtain m where m: "IncrementClusterMetric (sl_env sl) ''total.sql'' s = (Inr (), s\<lparr>cs_metrics := m\<rparr>)"
    using metric_state [OF assms(1)] by blast
  let ?s = "s\<lparr>cs_metrics := m\<rparr>"
  have p: "prop_bool ?s ''use-mapping-suggestion''" using assms(4) by (simp add: prop_bool_def)
  have "execSQL sl (GetStringArg s ''query'') ?s = (Inl (SqlError msg []), ?s\<lparr>cs_world := w'\<rparr>)"
    using assms(1) q by (simp add: execSQL_def connected_step)
  then have "ExecSQL sl (GetStringArg s ''query'') ?s = (Inr None, ?s\<lparr>cs_world := w'\<rparr>)"
    using p by (simp add: ExecSQL_def Let_def)
  then show ?thesis
    using assms(1-3) m c [of ?s]
    by (simp add: SQL_Exec_def with_state_def ExecuteBlocking_def andthen_def connected_step update_step_def)
qed

definition sample_shell :: "string list shell_env" where
  "sample_shell = \<lparr>sl_env = sample_env\<lparr>ce_server_version := (\<lambda>w. Some ''5.3.0'')\<rparr>, sl_place = sample_place, sl_fuel = 1,
     sl_execute = (\<lambda>args s. (Inr (), s)), sl_clone = None, sl_shlex = (\<lambda>t. Inr (Prelude.fields t)),
     sl_sql = (\<lambda>q w. (Inl (SqlError ''was expecting one of: EXCEPT, FETCH'' []), w @ [q])), sl_ctx_err = (\<lambda>w. None),
     sl_stream = (\<lambda>pn rs. ([], length rs, None)), sl_indexes = (\<lambda>m s. (Inr (), s)), sl_format = id,
     sl_stderr = (\<lambda>t w. w @ [t]), sl_open = (\<lambda>p w. Inl (Sentinel ''file does not exist'')),
     sl_http_get = (\<lambda>u w. (Inl (Errorf ''no network''), w)), sl_stdin = [], sl_stdin_pipe = True, sl_terminal = [],
     sl_show_error = err_text, sl_banner = (\<lambda>s. (Inr (), s))\<rparr>"

definition sql_state :: "string list cstate" where
  "sql_state = \<lparr>cs_props = Properties_Set NewProperties ''use-mapping-suggestion'' (VBool True), cs_args = [''select * fro m''],
     cs_kwargs = [''query'' \<mapsto> VString ''select * fro m''], cs_mode = ModeNonInteractive, cs_printer = None, cs_out = [],
     cs_metrics = [], cs_input = [], cs_sched = [], cs_connected = True, cs_world = []\<rparr>"

lemma suggestion_flag_panics_witness: "fst (SQL_Exec sample_shell sql_state) = Inl panic_error"
proof (rule suggestion_flag_panics)
  have "CheckVersion ''5.3.0'' ''>='' ''5.0.0'' = Some True" by code_simp
  then show "CheckServerCompatible (sl_env sample_shell) ''5.0.0'' s' = Some (''5.3.0'', True)" for s'
    by (simp add: CheckServerCompatible_def sample_shell_def sample_env_def)
  show "prop_bool sql_state ''use-mapping-suggestion''" unfolding sql_state_def by code_simp
qed (simp_all add: sql_state_def sample_shell_def)

end
