(* ===== verification/Program.thy ===== *)
theory Program
  imports ExecContext Paths Config Metrics
begin

section \<open>The program (clc/cmd/clc.go, base/augmentors.go, cmd/clc/main.go)\<close>

text \<open>
  \<open>Main\<close> makes a tree of \<^verbatim>\<open>cobra\<close> commands from the registry and runs the one the arguments name.
  The tree is a list of nodes, each with the number of its parent, in the order in which they are
  added; node 0 is the root. What \<^verbatim>\<open>cobra\<close> does comes from outside: finding the node for some arguments,
  and parsing the arguments with the flags.
\<close>

subsection \<open>Commands and their tree\<close>

text \<open>
  A registered command: its \<open>Init\<close> if it is an \<open>Initializer\<close>, its \<open>Exec\<close>, and its \<open>ExecInteractive\<close> if it
  is an \<open>InteractiveCommander\<close>.
\<close>

record 'w command_item =
  it_init :: "(CommandContext \<Rightarrow> go_error + CommandContext) option"
  it_exec :: "('w, unit) step"
  it_interactive :: "('w, unit) step option"

type_synonym 'w program_registry =
  "(CommandContext \<Rightarrow> go_error + CommandContext, 'w command_item, ('w, unit) step, unit) registry"

text \<open>
  A node: its parent, the usage line, what \<open>Init\<close> set on the command, the groups for its
  subcommands, and for a command that runs its name in the registry, the declarations of its
  arguments and the check of them.
\<close>

record node =
  nd_parent :: nat
  nd_use :: string
  nd_cmd :: cobra_command
  nd_groups :: "(string \<times> string) list"
  nd_run :: "string option"
  nd_specs :: "ArgSpec list"
  nd_args :: "(string list \<Rightarrow> go_error option) option"

record tree =
  tr_nodes :: "node list"
  tr_cmds :: "string \<rightharpoonup> nat"

definition new_cobra :: cobra_command where
  "new_cobra = \<lparr>Hidden = False, Long = [], Short = [], GroupID = [], flags = []\<rparr>"

definition command_use :: "string \<Rightarrow> string" where
  "command_use seg = seg @ '' '' @ [CHR 0x7B] @ ''command'' @ [CHR 0x7D] @ '' [flags]''"

definition bare_node :: "nat \<Rightarrow> string \<Rightarrow> node" where
  "bare_node parent use =
     \<lparr>nd_parent = parent, nd_use = use, nd_cmd = new_cobra, nd_groups = [], nd_run = None, nd_specs = [], nd_args = None\<rparr>"

text \<open>\<open>AddCommand\<close> and the entry in \<open>cmds\<close>.\<close>

definition add_node :: "string \<Rightarrow> node \<Rightarrow> tree \<Rightarrow> tree" where
  "add_node name n t = \<lparr>tr_nodes = tr_nodes t @ [n], tr_cmds = (tr_cmds t)(name \<mapsto> length (tr_nodes t))\<rparr>"

definition addUniqueCommandGroup :: "CommandContext \<Rightarrow> nat \<Rightarrow> tree \<Rightarrow> tree" where
  "addUniqueCommandGroup cc parent t =
     (case cc_group cc of
        None \<Rightarrow> t
      | Some (gid, title) \<Rightarrow>
          if list_ex (\<lambda>(i, _). i = gid) (nd_groups (tr_nodes t ! parent)) then t
          else t\<lparr>tr_nodes := (tr_nodes t)[parent := (tr_nodes t ! parent)
                 \<lparr>nd_groups := nd_groups (tr_nodes t ! parent) @ [(gid, title)]\<rparr>]\<rparr>)"

text \<open>The parents of a command; those that are not there yet are made, without anything to run.\<close>

fun parents_loop :: "string list \<Rightarrow> nat \<Rightarrow> string list \<Rightarrow> tree \<Rightarrow> nat \<times> tree" where
  "parents_loop segs parent [] t = (parent, t)"
| "parents_loop segs parent (seg # rest) t =
     (let segs' = segs @ [seg]; name = join_with '':'' segs' in
      case tr_cmds t name of
        Some i \<Rightarrow> parents_loop segs' i rest t
      | None \<Rightarrow> parents_loop segs' (length (tr_nodes t)) rest (add_node name (bare_node parent (command_use seg)) t))"

definition mode_shows :: "'w program_registry \<Rightarrow> Mode \<Rightarrow> string \<times> 'w command_item \<Rightarrow> bool" where
  "mode_shows rg mode c \<longleftrightarrow>
     IsAvailable rg (mode \<noteq> ModeNonInteractive) (fst c) \<and> \<not> (mode = ModeInteractive \<and> it_interactive (snd c) \<noteq> None)"

definition run_init :: "Mode \<Rightarrow> 'w command_item \<Rightarrow> go_error + CommandContext" where
  "run_init mode item =
     (let cc = NewCommandContext new_cobra mode in case it_init item of None \<Rightarrow> Inr cc | Some f \<Rightarrow> f cc)"

definition create_command ::
    "(string list \<Rightarrow> go_error option) \<Rightarrow> 'w program_registry \<Rightarrow> Mode \<Rightarrow> string \<times> 'w command_item \<Rightarrow> tree \<Rightarrow> go_error + tree" where
  "create_command noArgs rg mode c t =
     (if \<not> mode_shows rg mode c then Inr t
      else
        (let ps = split_on (CHR '':'') (fst c); (parent, t1) = parents_loop [] 0 (butlast ps) t in
         case run_init mode (snd c) of
           Inl e \<Rightarrow>
             if e = panic_error then Inl e
             else if err_is e ''not available'' then Inr t1
             else Inl (Wrapf ''initializing command'' e)
         | Inr cc \<Rightarrow>
             (let t2 = addUniqueCommandGroup cc parent t1;
                  n = (bare_node parent (command_use (last ps)))\<lparr>nd_cmd := Cmd cc\<rparr>;
                  slashed = (\<lambda>n. if mode \<noteq> ModeNonInteractive \<and> parent = 0
                                 then n\<lparr>nd_use := CHR 0x5C # nd_use n\<rparr> else n)
              in if isTopLevel cc then Inr (add_node (fst c) (slashed n) t2)
                 else (case ArgsFunc noArgs cc of
                         None \<Rightarrow> Inl panic_error
                       | Some f \<Rightarrow> Inr (add_node (fst c) (slashed (n\<lparr>nd_args := Some f, nd_use := GetCommandUsage cc,
                           nd_run := Some (fst c), nd_specs := argSpecs cc\<rparr>)) t2)))))"

fun create_all ::
    "(string list \<Rightarrow> go_error option) \<Rightarrow> 'w program_registry \<Rightarrow> Mode \<Rightarrow> (string \<times> 'w command_item) list \<Rightarrow> tree \<Rightarrow> go_error + tree" where
  "create_all noArgs rg mode [] t = Inr t"
| "create_all noArgs rg mode (c # cs) t = bind_res (create_command noArgs rg mode c t) (create_all noArgs rg mode cs)"

definition createCommands ::
    "(string list \<Rightarrow> go_error option) \<Rightarrow> 'w program_registry \<Rightarrow> Mode \<Rightarrow> tree \<Rightarrow> go_error + tree" where
  "createCommands noArgs rg mode t = create_all noArgs rg mode (Commands rg) t"

text \<open>The global initializers work on the root command.\<close>

fun init_all :: "(string \<times> (CommandContext \<Rightarrow> go_error + CommandContext)) list \<Rightarrow> CommandContext \<Rightarrow> go_error + CommandContext" where
  "init_all [] cc = Inr cc"
| "init_all ((_, f) # fs) cc = bind_res (f cc) (init_all fs)"

definition runInitializers :: "'w program_registry \<Rightarrow> CommandContext \<Rightarrow> tree \<Rightarrow> go_error + CommandContext \<times> tree" where
  "runInitializers rg cc t =
     bind_res (init_all (GlobalInitializers rg) cc) (\<lambda>cc'.
       Inr (cc', addUniqueCommandGroup cc' 0 (t\<lparr>tr_nodes := (tr_nodes t)[0 := (tr_nodes t ! 0)\<lparr>nd_cmd := Cmd cc'\<rparr>]\<rparr>)))"

definition root_tree :: "string \<Rightarrow> tree" where
  "root_tree use = \<lparr>tr_nodes = [bare_node 0 use], tr_cmds = Map.empty\<rparr>"

subsection \<open>The global options (base/initializers.go)\<close>

definition updateFormatFlag :: "string list \<Rightarrow> CommandContext \<Rightarrow> CommandContext" where
  "updateFormatFlag pns cc =
     (let format = (if ''delimited'' \<in> set pns then ''delimited'' else []);
          format = (if Interactive cc \<and> ''table'' \<in> set pns then ''table'' else format)
      in AddStringFlag cc ''format'' ''f'' format False)"

text \<open>\<open>lp\<close> is the default log path of the day.\<close>

definition GlobalInit :: "string list \<Rightarrow> string \<Rightarrow> CommandContext \<Rightarrow> go_error + CommandContext" where
  "GlobalInit pns lp cc0 =
     (let cc = updateFormatFlag pns cc0;
          cc = AddBoolFlag cc ''verbose'' [] False False;
          cc = AddBoolFlag cc ''quiet'' ''q'' False False;
          cc = AddStringFlag cc ''timeout'' [] [] False;
          cc = (if Interactive cc then cc
                else (let cc = AddStringFlag cc ''config'' ''c'' [] False;
                          cc = AddStringFlag cc ''log.path'' [] lp False
                      in AddStringFlag cc ''log.level'' [] ''info'' False));
          cc = AddStringConfig cc ''cluster.address'' ''localhost:5701'' [];
          cc = AddStringConfig cc ''cluster.name'' ''dev'' [];
          cc = AddStringConfig cc ''log.path'' [] ''log.path'';
          cc = AddStringConfig cc ''log.level'' [] ''log.level'';
          cc = AddStringConfig cc ''cluster.discovery-token'' [] []
      in Inr cc)"

subsection \<open>Running a command\<close>

text \<open>A flag of \<^verbatim>\<open>pflag\<close>: the value is kept by its text.\<close>

record pflag =
  pf_name :: string
  pf_type :: string
  pf_value :: string
  pf_def :: string
  pf_changed :: bool

text \<open>None is the panic of \<open>convertFlagValue\<close>.\<close>

definition convertFlagValue :: "pflag \<Rightarrow> go_val option" where
  "convertFlagValue f =
     (if pf_type f = ''string'' then Some (VString (pf_value f))
      else if pf_type f = ''bool'' then (case parse_bool (pf_value f) of (b, None) \<Rightarrow> Some (VBool b) | _ \<Rightarrow> None)
      else if pf_type f = ''int64'' then
        (case parse_int 10 64 (pf_value f) of Inl e \<Rightarrow> None | Inr i \<Rightarrow> Some (VInt64 i))
      else None)"

definition managed_flag :: "string \<Rightarrow> bool" where
  "managed_flag n \<longleftrightarrow> n = ''config'' \<or> n = ''log.path'' \<or> n = ''log.level''"

fun flags_to_props :: "pflag list \<Rightarrow> Properties \<Rightarrow> Properties option" where
  "flags_to_props [] p = Some p"
| "flags_to_props (f # fs) p =
     (if managed_flag (pf_name f) then flags_to_props fs p
      else case convertFlagValue f of
          None \<Rightarrow> None
        | Some v \<Rightarrow> flags_to_props fs (Properties_Set p (pf_name f) v))"

fun runAugmentors :: "(string \<times> ('w, unit) step) list \<Rightarrow> ('w, unit) step" where
  "runAugmentors [] = ret ()"
| "runAugmentors ((_, a) # as) = andthen a (\<lambda>_. runAugmentors as)"

text \<open>The augmentor of base/augmentors.go.\<close>

definition CheckOutputType :: "string list \<Rightarrow> 'w cenv \<Rightarrow> ('w, unit) step" where
  "CheckOutputType pns env s =
     (let ot = prop_string env s ''format'' in
      if ot \<notin> set pns then (Inl (Errorf (''invalid format: '' @ ot)), s) else (Inr (), s))"

definition run_interactive :: "'w command_item \<Rightarrow> ('w, unit) step" where
  "run_interactive item s =
     (case it_interactive item of
        None \<Rightarrow> (Inr (), s)
      | Some f \<Rightarrow>
          (case f (s\<lparr>cs_mode := ModeInteractive\<rparr>) of
             (Inl e, s') \<Rightarrow> if err_is e ''not available'' then (Inr (), s') else (Inl e, s')
           | r \<Rightarrow> r))"

text \<open>A new execution context: the properties are those of \<open>Main\<close>, everything about the last command is gone.\<close>

definition NewExecContext :: "Mode \<Rightarrow> 'w cstate \<Rightarrow> 'w cstate" where
  "NewExecContext mode s = s\<lparr>cs_args := [], cs_kwargs := Map.empty, cs_mode := mode, cs_printer := None\<rparr>"

text \<open>
  The \<open>RunE\<close> of a command, for the flags in the order of \<open>VisitAll\<close>. The timeout is only given to the
  context of the command.
\<close>

definition RunE ::
    "'w cenv \<Rightarrow> 'w program_registry \<Rightarrow> Mode \<Rightarrow> ArgSpec list \<Rightarrow> 'w command_item \<Rightarrow> pflag list \<Rightarrow> string list \<Rightarrow> ('w, unit) step" where
  "RunE env rg mode specs item fs args s =
     (case flags_to_props fs (cs_props s) of
        None \<Rightarrow> (Inl panic_error, s)
      | Some p \<Rightarrow>
          (case SetArgs args specs (NewExecContext mode (s\<lparr>cs_props := p\<rparr>)) of
             None \<Rightarrow> (Inl panic_error, s)
           | Some (Inl e, s1) \<Rightarrow> (Inl e, s1)
           | Some (Inr _, s1) \<Rightarrow>
               (case parseDuration env (prop_string env s1 ''timeout'') of
                  Inl e \<Rightarrow> (Inl e, s1)
                | Inr t \<Rightarrow>
                    andthen (runAugmentors (Augmentors rg)) (\<lambda>_.
                    andthen (it_exec item) (\<lambda>_. run_interactive item)) s1)))"

subsection \<open>Executing arguments\<close>

text \<open>
  What \<^verbatim>\<open>cobra\<close> does with arguments: it fails (an unknown command or flag), shows some help, or runs
  a node with the arguments that are left. \<open>cob_flagset\<close> are the flags of a node, own and inherited, by
  their number among all flags.
\<close>

datatype cobra_outcome = CobraFail go_error | CobraHelp string | CobraRun nat "string list"

record cobra =
  cob_find :: "tree \<Rightarrow> string list \<Rightarrow> go_error + nat \<times> string list"
  cob_parse :: "tree \<Rightarrow> pflag list \<Rightarrow> string list \<Rightarrow> cobra_outcome \<times> pflag list"
  cob_flagset :: "tree \<Rightarrow> nat \<Rightarrow> nat list"
  cob_help :: "tree \<Rightarrow> string"

record 'w main =
  mn_env :: "'w cenv"
  mn_cobra :: cobra
  mn_registry :: "'w program_registry"
  mn_tree :: tree
  mn_arg0 :: string
  mn_mode :: Mode

record 'w mstate =
  ms_flags :: "pflag list"
  ms_state :: "'w cstate"

definition use_shell :: "string list \<Rightarrow> bool" where
  "use_shell cmdArgs \<longleftrightarrow>
     \<not> list_ex (\<lambda>a. a = ''--help'' \<or> a = ''-h'') cmdArgs \<and>
     (cmdArgs = [] \<or> hd cmdArgs \<notin> {''help'', ''completion'', ''__complete'', ''__completeNoDesc''})"

text \<open>\<^verbatim>\<open>regexpUnknownCommand\<close>: what stands between the two backslashes and the quote.\<close>

definition unknown_start :: string where
  "unknown_start = ''unknown command '' @ [CHR 0x22, CHR 0x5C, CHR 0x5C]"

fun find_unknown :: "string \<Rightarrow> string option" where
  "find_unknown [] = None"
| "find_unknown (x # s) =
     (let rest = drop (length unknown_start) (x # s); name = takeWhile (\<lambda>c. c \<noteq> CHR 0x22) rest in
      if has_prefix (x # s) unknown_start \<and> name \<noteq> [] \<and> length name < length rest then Some name else find_unknown s)"

definition convertUnknownCommandError :: "go_error \<Rightarrow> go_error" where
  "convertUnknownCommandError err =
     (case find_unknown (err_text err) of
        None \<Rightarrow> err | Some n \<Rightarrow> Errorf (''unknown command '' @ [CHR 0x5C] @ n))"

definition reset_flag :: "pflag \<Rightarrow> pflag" where
  "reset_flag f = (if pf_changed f then f\<lparr>pf_value := pf_def f, pf_changed := False\<rparr> else f)"

definition reset_flags :: "nat list \<Rightarrow> pflag list \<Rightarrow> pflag list" where
  "reset_flags ids fs = foldl (\<lambda>fs i. if i < length fs then fs[i := reset_flag (fs ! i)] else fs) fs ids"

text \<open>\<open>ExecuteContext\<close> of the root: \<^verbatim>\<open>cobra\<close> checks the arguments of the node before it runs it.\<close>

definition execute_root :: "'w main \<Rightarrow> string list \<Rightarrow> 'w mstate \<Rightarrow> (go_error + unit) \<times> 'w mstate" where
  "execute_root m args ms =
     (case cob_parse (mn_cobra m) (mn_tree m) (ms_flags ms) args of
        (CobraFail e, fl) \<Rightarrow> (Inl e, ms\<lparr>ms_flags := fl\<rparr>)
      | (CobraHelp t, fl) \<Rightarrow> (Inr (), ms\<lparr>ms_flags := fl, ms_state := write_out t (ms_state ms)\<rparr>)
      | (CobraRun i as, fl) \<Rightarrow>
          (let n = tr_nodes (mn_tree m) ! i; fs = map (\<lambda>k. fl ! k) (cob_flagset (mn_cobra m) (mn_tree m) i) in
           case nd_run n of
             None \<Rightarrow> (Inr (), ms\<lparr>ms_flags := fl\<rparr>)
           | Some name \<Rightarrow>
               (case Option.bind (nd_args n) (\<lambda>f. f as) of
                  Some e \<Rightarrow> (Inl e, ms\<lparr>ms_flags := fl\<rparr>)
                | None \<Rightarrow>
                    (case RegistryItems_Map (Commands (mn_registry m)) name of
                       None \<Rightarrow> (Inr (), ms\<lparr>ms_flags := fl\<rparr>)
                     | Some item \<Rightarrow>
                         (case RunE (mn_env m) (mn_registry m) (mn_mode m) (nd_specs n) item fs as (ms_state ms) of
                            (r, s') \<Rightarrow> (r, ms\<lparr>ms_flags := fl, ms_state := s'\<rparr>))))))"

text \<open>The part of \<open>Execute\<close> between \<open>Push\<close> and the reset of the flags of \<open>cm\<close>.\<close>

definition execute_scoped :: "'w main \<Rightarrow> nat \<Rightarrow> string list \<Rightarrow> 'w mstate \<Rightarrow> (go_error + unit) \<times> 'w mstate" where
  "execute_scoped m cm args ms =
     (case execute_root m args (ms\<lparr>ms_state := (ms_state ms)\<lparr>cs_props := Properties_Push (cs_props (ms_state ms))\<rparr>\<rparr>) of
        (r, ms1) \<Rightarrow>
          if r = Inl panic_error then (r, ms1)
          else (case Properties_Pop (cs_props (ms_state ms1)) of
                  None \<Rightarrow> (Inl panic_error, ms1)
                | Some p \<Rightarrow>
                    (r, ms1\<lparr>ms_state := (ms_state ms1)\<lparr>cs_props := p\<rparr>,
                            ms_flags := reset_flags (cob_flagset (mn_cobra m) (mn_tree m) cm) (ms_flags ms1)\<rparr>)))"

definition Execute_main :: "'w main \<Rightarrow> string list \<Rightarrow> 'w mstate \<Rightarrow> (go_error + unit) \<times> 'w mstate" where
  "Execute_main m args ms =
     (if mn_mode m = ModeNonInteractive then
        (case cob_find (mn_cobra m) (mn_tree m) args of
           Inl e \<Rightarrow> (Inl e, ms)
         | Inr (cm, cmdArgs) \<Rightarrow>
             execute_scoped m cm
               (if nd_use (tr_nodes (mn_tree m) ! cm) = mn_arg0 m \<and> use_shell cmdArgs then ''shell'' # cmdArgs else args) ms)
      else
        (case cob_find (mn_cobra m) (mn_tree m) args of
           Inl e \<Rightarrow>
             if args \<noteq> [] \<and> hd args = [CHR 0x5C] @ ''help''
             then (Inr (), ms\<lparr>ms_state := write_out (cob_help (mn_cobra m) (mn_tree m)) (ms_state ms)\<rparr>)
             else (Inl (convertUnknownCommandError e), ms)
         | Inr (cm, _) \<Rightarrow> execute_scoped m cm args ms))"

subsection \<open>Starting and cloning\<close>

text \<open>The properties of the configuration: nested maps get dotted names.\<close>

fun setConfigProps :: "Properties \<Rightarrow> string \<Rightarrow> go_val \<Rightarrow> Properties"
  and set_config_entries :: "Properties \<Rightarrow> string \<Rightarrow> (string \<times> go_val) list \<Rightarrow> Properties" where
  "setConfigProps p key (VMap m) = set_config_entries p key m"
| "setConfigProps p key v = Properties_Set p key v"
| "set_config_entries p key [] = p"
| "set_config_entries p key ((k, v) # m) = set_config_entries (setConfigProps p (key @ ''.'' @ k) v) key m"

text \<open>
  The environment of the start: the configuration provider, the weights of the log levels (\<^verbatim>\<open>hzlogger\<close>),
  and whether the log file and its directory can be made.
\<close>

record start_env =
  se_place :: place
  se_get :: "string \<Rightarrow> string"
  se_all :: "(string \<times> go_val) list"
  se_weight :: "string \<Rightarrow> go_error + int"
  se_open_log :: "string \<Rightarrow> bool"

definition WeightForLevel :: "start_env \<Rightarrow> string \<Rightarrow> go_error + int" where
  "WeightForLevel se lv = (if lv = [] then se_weight se ''info'' else se_weight se lv)"

text \<open>Where the log goes and its weight; a file that cannot be opened is replaced by the standard error.\<close>

definition createLogger :: "start_env \<Rightarrow> string \<Rightarrow> string \<Rightarrow> go_error + string \<times> int" where
  "createLogger se path level =
     bind_res (WeightForLevel se level) (\<lambda>w.
       Inr (if path = ''stderr'' then ''stderr'' else if se_open_log se path then path else ''stderr'', w))"

definition start_props :: "start_env \<Rightarrow> string \<Rightarrow> string \<Rightarrow> string \<Rightarrow> Properties" where
  "start_props se cfgPath logPath logLevel =
     (let p = foldl (\<lambda>p (k, v). setConfigProps p k v) NewProperties (se_all se);
          p = Properties_Set p ''config'' (VString cfgPath);
          p = Properties_Set p ''log.path'' (VString logPath)
      in Properties_Set p ''log.level'' (VString logLevel))"

definition build_tree ::
    "(string list \<Rightarrow> go_error option) \<Rightarrow> 'w program_registry \<Rightarrow> Mode \<Rightarrow> tree \<Rightarrow> go_error + tree" where
  "build_tree noArgs rg mode t =
     bind_res (runInitializers rg (NewCommandContext new_cobra mode) t) (\<lambda>(cc, t'). createCommands noArgs rg mode t')"

definition log_level :: "start_env \<Rightarrow> string \<Rightarrow> string" where
  "log_level se level =
     (let l = (if level = [] then se_get se ''log.level'' else level) in if l = [] then ''info'' else l)"

text \<open>None when the home directory, which the default log path needs, is not known.\<close>

definition NewMain ::
    "start_env \<Rightarrow> (string list \<Rightarrow> go_error option) \<Rightarrow> 'w cenv \<Rightarrow> cobra \<Rightarrow> 'w program_registry \<Rightarrow> string \<Rightarrow> string \<Rightarrow> string \<Rightarrow> string \<Rightarrow>
     (go_error + 'w main \<times> Properties \<times> string \<times> int) option" where
  "NewMain se noArgs env cob rg arg0 cfgPath logPath0 logLevel0 =
     map_option (\<lambda>logPath.
       let level = log_level se logLevel0 in
       bind_res (createLogger se logPath level) (\<lambda>(target, w).
       bind_res (build_tree noArgs rg ModeNonInteractive (root_tree arg0)) (\<lambda>t.
         Inr (\<lparr>mn_env = env, mn_cobra = cob, mn_registry = rg, mn_tree = t, mn_arg0 = arg0, mn_mode = ModeNonInteractive\<rparr>,
              start_props se cfgPath logPath level, target, w))))
     (ResolveLogPath (se_place se) (if logPath0 = [] then se_get se ''log.path'' else logPath0))"

text \<open>The clone for the shell or a script shares everything but the tree and the mode.\<close>

definition Clone_main :: "(string list \<Rightarrow> go_error option) \<Rightarrow> Mode \<Rightarrow> 'w main \<Rightarrow> go_error + 'w main" where
  "Clone_main noArgs mode m =
     bind_res (build_tree noArgs (mn_registry m) mode (root_tree [])) (\<lambda>t. Inr (m\<lparr>mn_mode := mode, mn_tree := t\<rparr>))"

subsection \<open>The process (cmd/clc/main.go)\<close>

definition ExitCodeSuccess :: int where "ExitCodeSuccess = 0"
definition ExitCodeGenericFailure :: int where "ExitCodeGenericFailure = 1"
definition ExitCodeTimeout :: int where "ExitCodeTimeout = 2"
definition ExitCodeUserCanceled :: int where "ExitCodeUserCanceled = 3"

definition exit_code :: "go_error + unit \<Rightarrow> int" where
  "exit_code r =
     (case r of
        Inr _ \<Rightarrow> ExitCodeSuccess
      | Inl e \<Rightarrow> if IsTimeout e then ExitCodeTimeout else if IsUserCancelled e then ExitCodeUserCanceled
                 else ExitCodeGenericFailure)"

text \<open>What is printed to the standard error; no error is a \<open>WrappedError\<close>.\<close>

definition exit_message :: "(string \<Rightarrow> (string \<times> json_any) list option) \<Rightarrow> 'w cenv \<Rightarrow> go_error + unit \<Rightarrow> string list" where
  "exit_message unmarshal env r =
     (case r of
        Inr _ \<Rightarrow> []
      | Inl e \<Rightarrow> if IsUserCancelled e then [] else [Colorize (ce_green env) (ce_red env) (MakeString unmarshal e) @ [CHR 0x0A]])"

text \<open>\<open>bye\<close>: the message and the exit code of an error before the program runs.\<close>

definition bye :: "go_error \<Rightarrow> string list \<times> int" where
  "bye e = ([''Error: '' @ err_text e @ [CHR 0x0A]], ExitCodeGenericFailure)"

text \<open>
  The count of the configurations is stored before metrics are sent; None is the panic of a process
  without a home directory.
\<close>

definition storeOtherMetrics :: "config_env \<Rightarrow> gotime \<Rightarrow> metricStore option \<Rightarrow> metricStore option option" where
  "storeOtherMetrics conf now ds =
     map_option (\<lambda>cd.
       case Config_FindAll conf cd of
         Inl e \<Rightarrow> ds
       | Inr cs \<Rightarrow> map_option (\<lambda>ms. metric_Store ms (NewSimpleKey now) ''cluster-config-count'' (int (length cs))) ds)
     (Configs (cf_place conf))"

definition trySendingMetrics ::
    "config_env \<Rightarrow> 'db badger \<Rightarrow> 'w sender \<Rightarrow> gotime \<Rightarrow> metricStore option \<Rightarrow> 'db \<times> 'w \<Rightarrow> (metricStore option \<times> 'db \<times> 'w) option" where
  "trySendingMetrics conf bg send now ds dbw = map_option (\<lambda>ds'. Send bg send now ds' dbw) (storeOtherMetrics conf now ds)"

text \<open>
  \<open>main\<close>: \<open>provider\<close> reads the configuration, \<open>new_main\<close> is \<open>NewMain\<close> and \<open>execute\<close> runs the arguments; metrics
  are stored and sent in \<open>send\<close> whatever the result is. A panic, which Go ends with the exit code 2
  after printing it, leaves \<open>main\<close> before that.
\<close>

definition clc_main ::
    "(string \<Rightarrow> go_error + 'cp) \<Rightarrow> ('cp \<Rightarrow> string \<times> string \<times> string \<Rightarrow> go_error + 'm) \<Rightarrow> ('m \<Rightarrow> string list \<Rightarrow> 's \<Rightarrow> (go_error + unit) \<times> 's) \<Rightarrow>
     ('s \<Rightarrow> 's) \<Rightarrow> (go_error + unit \<Rightarrow> string list) \<Rightarrow> string list \<Rightarrow> 's \<Rightarrow> (string list \<times> int) \<times> 's" where
  "clc_main provider new_main execute send message args s =
     (case ExtractStartupArgs args of
        (_, Some e) \<Rightarrow> (bye e, s)
      | ((cfgPath, logPath, logLevel), None) \<Rightarrow>
          (case provider cfgPath of
             Inl e \<Rightarrow> (bye e, s)
           | Inr cp \<Rightarrow>
               (case new_main cp (cfgPath, logPath, logLevel) of
                  Inl e \<Rightarrow> (bye e, s)
                | Inr m \<Rightarrow>
                    (case execute m args s of
                       (r, s') \<Rightarrow>
                         if r = Inl panic_error then (([], 2), s')
                         else ((message r, exit_code r), send s')))))"

subsection \<open>The tree mirrors the registry\<close>

text \<open>The number of the parent a name asks for: the root, or the node of the name without its last part.\<close>

definition parent_of :: "(string \<rightharpoonup> nat) \<Rightarrow> string \<Rightarrow> nat option" where
  "parent_of m name =
     (let before = butlast (split_on (CHR '':'') name) in if before = [] then Some 0 else m (join_with '':'' before))"

definition tree_ok :: "tree \<Rightarrow> bool" where
  "tree_ok t \<longleftrightarrow> tr_nodes t \<noteq> [] \<and>
     (\<forall>n i. tr_cmds t n = Some i \<longrightarrow> 0 < i \<and> i < length (tr_nodes t) \<and> nd_parent (tr_nodes t ! i) < i \<and>
        parent_of (tr_cmds t) n = Some (nd_parent (tr_nodes t ! i)) \<and> nd_run (tr_nodes t ! i) \<in> {None, Some n}) \<and>
     (\<forall>n m i. tr_cmds t n = Some i \<longrightarrow> tr_cmds t m = Some i \<longrightarrow> n = m) \<and>
     (\<forall>i. 0 < i \<longrightarrow> i < length (tr_nodes t) \<longrightarrow> (\<exists>n. tr_cmds t n = Some i))"

lemma tree_okI:
  assumes "tr_nodes t \<noteq> []"
    and "\<And>n i. tr_cmds t n = Some i \<Longrightarrow> 0 < i \<and> i < length (tr_nodes t) \<and> nd_parent (tr_nodes t ! i) < i \<and>
      parent_of (tr_cmds t) n = Some (nd_parent (tr_nodes t ! i)) \<and> nd_run (tr_nodes t ! i) \<in> {None, Some n}"
    and "\<And>n m i. tr_cmds t n = Some i \<Longrightarrow> tr_cmds t m = Some i \<Longrightarrow> n = m"
    and "\<And>i. 0 < i \<Longrightarrow> i < length (tr_nodes t) \<Longrightarrow> \<exists>n. tr_cmds t n = Some i"
  shows "tree_ok t"
  unfolding tree_ok_def
  by (rule conjI [OF assms(1) conjI [OF _ conjI]]; intro allI impI; (erule assms(2) | erule (1) assms(3) | erule (1) assms(4)))

lemma tree_okD:
  assumes "tree_ok t" "tr_cmds t n = Some i"
  shows "0 < i" "i < length (tr_nodes t)" "nd_parent (tr_nodes t ! i) < i"
    "parent_of (tr_cmds t) n = Some (nd_parent (tr_nodes t ! i))" "nd_run (tr_nodes t ! i) \<in> {None, Some n}"
  using assms unfolding tree_ok_def by blast+

definition runs :: "tree \<Rightarrow> string set" where
  "runs t = {n. Some n \<in> nd_run ` set (tr_nodes t)}"

lemma parent_of_mono: "m \<subseteq>\<^sub>m m' \<Longrightarrow> parent_of m n = Some i \<Longrightarrow> parent_of m' n = Some i"
  by (auto simp: parent_of_def Let_def map_le_def dom_def split: if_splits)

lemma add_node_cmds: "tr_cmds t name = None \<Longrightarrow> tr_cmds t \<subseteq>\<^sub>m tr_cmds (add_node name n t)"
  by (auto simp: add_node_def map_le_def)

lemma tree_ok_add_node:
  assumes "tree_ok t" "tr_cmds t name = None" "parent_of (tr_cmds t) name = Some (nd_parent n)"
    and "nd_parent n < length (tr_nodes t)" "nd_run n \<in> {None, Some name}"
  shows "tree_ok (add_node name n t)"
proof -
  let ?t = "add_node name n t"
  have le: "tr_cmds t \<subseteq>\<^sub>m tr_cmds ?t" by (rule add_node_cmds [OF assms(2)])
  have old: "tr_cmds ?t m = Some i \<Longrightarrow> m \<noteq> name \<Longrightarrow> tr_cmds t m = Some i" for m i by (simp add: add_node_def)
  have new: "tr_cmds ?t name = Some (length (tr_nodes t))" "tr_nodes ?t = tr_nodes t @ [n]" by (simp_all add: add_node_def)
  have entry: "0 < i \<and> i < length (tr_nodes ?t) \<and> nd_parent (tr_nodes ?t ! i) < i \<and>
      parent_of (tr_cmds ?t) m = Some (nd_parent (tr_nodes ?t ! i)) \<and> nd_run (tr_nodes ?t ! i) \<in> {None, Some m}"
    if m: "tr_cmds ?t m = Some i" for m i
  proof (cases "m = name")
    case True
    then show ?thesis
      using m new assms(4,5) parent_of_mono [OF le assms(3)] by (cases "tr_nodes t") auto
  next
    case False
    note d = tree_okD [OF assms(1) old [OF m False]]
    show ?thesis using d new(2) parent_of_mono [OF le d(4)] by (simp add: nth_append)
  qed
  have inj: "m = m'" if "tr_cmds ?t m = Some i" "tr_cmds ?t m' = Some i" for m m' i
  proof -
    have "tr_cmds t k = Some j \<Longrightarrow> j \<noteq> length (tr_nodes t)" for k j using tree_okD(2) [OF assms(1)] by auto
    then show ?thesis using that new(1) old assms(1) unfolding tree_ok_def by (metis option.inject)
  qed
  have cover: "\<exists>m. tr_cmds ?t m = Some i" if i: "0 < i" "i < length (tr_nodes ?t)" for i
  proof (cases "i = length (tr_nodes t)")
    case False
    then have "i < length (tr_nodes t)" using i new(2) by simp
    then obtain m where "tr_cmds t m = Some i" using i assms(1) unfolding tree_ok_def by blast
    then show ?thesis using assms(2) by (intro exI [of _ m]) (auto simp: add_node_def)
  qed (use new in auto)
  have "tr_nodes ?t \<noteq> []" using new(2) by simp
  then show ?thesis by (rule tree_okI [OF _ entry inj cover])
qed

lemma runs_add_node: "runs (add_node name n t) = runs t \<union> set_option (nd_run n)"
  by (auto simp: runs_def add_node_def elim: option.set_cases)

lemma addUniqueCommandGroup_same:
  assumes "parent < length (tr_nodes t)"
  shows "tr_cmds (addUniqueCommandGroup cc parent t) = tr_cmds t"
    "length (tr_nodes (addUniqueCommandGroup cc parent t)) = length (tr_nodes t)"
    "i < length (tr_nodes t) \<Longrightarrow> nd_parent (tr_nodes (addUniqueCommandGroup cc parent t) ! i) = nd_parent (tr_nodes t ! i)"
    "map nd_run (tr_nodes (addUniqueCommandGroup cc parent t)) = map nd_run (tr_nodes t)"
  using assms
  by (auto simp: addUniqueCommandGroup_def nth_list_update map_update list_update_id split: option.splits intro!: nth_equalityI)

lemma tree_ok_group:
  assumes "tree_ok t" "parent < length (tr_nodes t)"
  shows "tree_ok (addUniqueCommandGroup cc parent t)" "runs (addUniqueCommandGroup cc parent t) = runs t"
proof -
  let ?t = "addUniqueCommandGroup cc parent t"
  note s = addUniqueCommandGroup_same [OF assms(2), where cc = cc]
  have r: "i < length (tr_nodes t) \<Longrightarrow> nd_run (tr_nodes ?t ! i) = nd_run (tr_nodes t ! i)" for i
    using arg_cong [OF s(4), of "\<lambda>xs. xs ! i"] s(2) by simp
  have "tr_nodes ?t \<noteq> []" using s(2) assms(1) unfolding tree_ok_def by (metis length_0_conv)
  then show "tree_ok ?t" using assms(1) s(1,2,3) r unfolding tree_ok_def s(1,2) by simp
  have "nd_run ` set (tr_nodes ?t) = nd_run ` set (tr_nodes t)" using s(4) by (metis image_set)
  then show "runs ?t = runs t" by (simp add: runs_def)
qed

text \<open>A step of the construction only adds: \<open>D\<close> are the names it may add, \<open>R\<close> those
  that can be run and could not be run before. A node that is there keeps all but its groups.\<close>

definition keeps :: "tree \<Rightarrow> tree \<Rightarrow> bool" where
  "keeps t t' \<longleftrightarrow> length (tr_nodes t) \<le> length (tr_nodes t') \<and>
     (\<forall>i < length (tr_nodes t). \<exists>gs. tr_nodes t' ! i = (tr_nodes t ! i)\<lparr>nd_groups := gs\<rparr>)"

lemma keeps_refl [simp]: "keeps t t"
  unfolding keeps_def by (metis node.surjective node.update_convs(4) order_refl)

lemma keeps_trans:
  assumes "keeps t t'" "keeps t' t''"
  shows "keeps t t''"
  unfolding keeps_def
proof (intro conjI allI impI)
  show "length (tr_nodes t) \<le> length (tr_nodes t'')" using assms by (auto simp: keeps_def)
  fix i assume i: "i < length (tr_nodes t)"
  then obtain gs where "tr_nodes t' ! i = (tr_nodes t ! i)\<lparr>nd_groups := gs\<rparr>" using assms(1) unfolding keeps_def by blast
  moreover have "i < length (tr_nodes t')" using i assms(1) by (simp add: keeps_def)
  then obtain gs' where "tr_nodes t'' ! i = (tr_nodes t' ! i)\<lparr>nd_groups := gs'\<rparr>" using assms(2) unfolding keeps_def by blast
  ultimately show "\<exists>gs. tr_nodes t'' ! i = (tr_nodes t ! i)\<lparr>nd_groups := gs\<rparr>" by auto
qed

lemma keeps_add_node: "keeps t (add_node name n t)"
proof -
  have "\<exists>gs. n = n\<lparr>nd_groups := gs\<rparr>" for n :: node by (metis node.surjective node.update_convs(4))
  then show ?thesis by (auto simp: keeps_def add_node_def nth_append)
qed

lemma keeps_group: "keeps t (addUniqueCommandGroup cc parent t)"
proof -
  have e: "\<exists>gs. n = n\<lparr>nd_groups := gs\<rparr>" for n :: node by (metis node.surjective node.update_convs(4))
  have "\<exists>gs. (tr_nodes t)[parent := (tr_nodes t ! parent)\<lparr>nd_groups := g\<rparr>] ! i = (tr_nodes t ! i)\<lparr>nd_groups := gs\<rparr>"
    if "i < length (tr_nodes t)" for g i
    using that e by (cases "parent = i") auto
  then show ?thesis using e by (auto simp: keeps_def addUniqueCommandGroup_def split: option.splits)
qed

definition grows :: "string set \<Rightarrow> string set \<Rightarrow> tree \<Rightarrow> tree \<Rightarrow> bool" where
  "grows D R t t' \<longleftrightarrow> tree_ok t' \<and> tr_cmds t \<subseteq>\<^sub>m tr_cmds t' \<and> dom (tr_cmds t') \<subseteq> dom (tr_cmds t) \<union> D \<and>
     runs t' = runs t \<union> R \<and> keeps t t'"

lemma grows_refl: "tree_ok t \<Longrightarrow> grows D {} t t"
  by (simp add: grows_def)

lemma grows_trans: "grows D R t t' \<Longrightarrow> grows D' R' t' t'' \<Longrightarrow> grows (D \<union> D') (R \<union> R') t t''"
  unfolding grows_def using map_le_trans keeps_trans by blast

lemma grows_weaken: "grows D R t t' \<Longrightarrow> D \<subseteq> D' \<Longrightarrow> grows D' R t t'"
  unfolding grows_def by blast

lemma parent_of_join:
  assumes "\<And>w. w \<in> set (segs @ [seg]) \<Longrightarrow> CHR '':'' \<notin> set w"
  shows "parent_of m (join_with '':'' (segs @ [seg])) = (if segs = [] then Some 0 else m (join_with '':'' segs))"
proof -
  have "split_on (CHR '':'') (join_with '':'' (segs @ [seg])) = segs @ [seg]" by (rule split_on_join) (use assms in auto)
  then show ?thesis by (simp add: parent_of_def Let_def)
qed

definition node_of :: "(string \<rightharpoonup> nat) \<Rightarrow> string list \<Rightarrow> nat option" where
  "node_of m segs = (if segs = [] then Some 0 else m (join_with '':'' segs))"

lemma node_of_less: "tree_ok t \<Longrightarrow> node_of (tr_cmds t) segs = Some i \<Longrightarrow> i < length (tr_nodes t)"
  using tree_okD(2) [of t "join_with '':'' segs" i] by (cases "segs = []") (simp_all add: node_of_def, simp add: tree_ok_def)

text \<open>The names of the parents on the way down \<open>rest\<close> from \<open>segs\<close>.\<close>

definition path_names :: "string list \<Rightarrow> string list \<Rightarrow> string set" where
  "path_names segs rest = {join_with '':'' (segs @ xs) | xs ys. rest = xs @ ys \<and> xs \<noteq> []}"

lemma path_names_Nil [simp]: "path_names segs [] = {}"
  by (simp add: path_names_def)

lemma path_names_Cons:
  "path_names segs (seg # rest) = insert (join_with '':'' (segs @ [seg])) (path_names (segs @ [seg]) rest)"
  by (auto simp: path_names_def Cons_eq_append_conv)

lemma parents_loop_grows:
  assumes "parents_loop segs parent rest t = (q, t')" "tree_ok t" "node_of (tr_cmds t) segs = Some parent"
    and "\<And>w. w \<in> set (segs @ rest) \<Longrightarrow> CHR '':'' \<notin> set w"
  shows "grows (path_names segs rest) {} t t' \<and> node_of (tr_cmds t') (segs @ rest) = Some q"
  using assms
proof (induction segs parent rest t rule: parents_loop.induct)
  case (1 segs parent t)
  then show ?case by (simp add: grows_refl)
next
  case (2 segs parent seg rest t)
  let ?segs = "segs @ [seg]" and ?name = "join_with '':'' (segs @ [seg])"
  let ?D = "path_names segs (seg # rest)" and ?D' = "path_names (segs @ [seg]) rest"
  have sub: "?D' \<subseteq> ?D" "?name \<in> ?D" by (auto simp: path_names_Cons)
  show ?case
  proof (cases "tr_cmds t ?name")
    case (Some i)
    then have "grows ?D' {} t t' \<and> node_of (tr_cmds t') (?segs @ rest) = Some q"
      using "2.IH"(2) [OF refl refl Some] "2.prems" by (simp add: node_of_def Let_def)
    then show ?thesis using grows_weaken [OF _ sub(1), of "{}" t t'] by simp
  next
    case None
    let ?t = "add_node ?name (bare_node parent (command_use seg)) t"
    have p: "parent < length (tr_nodes t)" using node_of_less [OF "2.prems"(2,3)] .
    have "parent_of (tr_cmds t) ?name = Some parent"
      using "2.prems"(3,4) by (subst parent_of_join) (auto simp: node_of_def)
    then have ok: "tree_ok ?t"
      using tree_ok_add_node [OF "2.prems"(2) None, of "bare_node parent (command_use seg)"] p by (simp add: bare_node_def)
    have dom: "dom (tr_cmds ?t) \<subseteq> dom (tr_cmds t) \<union> ?D" using sub(2) by (auto simp: add_node_def)
    have g: "grows ?D {} t ?t"
      using ok add_node_cmds [OF None] dom by (simp add: grows_def runs_add_node bare_node_def keeps_add_node)
    have "grows ?D' {} ?t t' \<and> node_of (tr_cmds t') (?segs @ rest) = Some q"
      using "2.IH"(1) [OF refl refl None] "2.prems" None ok by (simp add: node_of_def Let_def add_node_def)
    then show ?thesis using grows_weaken [OF grows_trans [OF g], of ?D' "{}" t' ?D] sub(1) by simp
  qed
qed

lemma join_with_append:
  "xs \<noteq> [] \<Longrightarrow> ys \<noteq> [] \<Longrightarrow> join_with sep (xs @ ys) = join_with sep xs @ sep @ join_with sep ys"
  by (induction xs) (auto simp: join_with_Cons)

definition name_parents :: "string \<Rightarrow> string set" where
  "name_parents name = {n. \<exists>r. name = n @ '':'' @ r}"

lemma path_names_parents: "path_names [] (butlast (split_on (CHR '':'') name)) \<subseteq> name_parents name"
proof
  fix n assume "n \<in> path_names [] (butlast (split_on (CHR '':'') name))"
  then obtain xs ys where x: "butlast (split_on (CHR '':'') name) = xs @ ys" "xs \<noteq> []" "n = join_with '':'' xs"
    by (auto simp: path_names_def)
  have "split_on (CHR '':'') name = xs @ ys @ [last (split_on (CHR '':'') name)]"
    using append_butlast_last_id [of "split_on (CHR '':'') name"] x(1) by simp
  then have "name = join_with '':'' (xs @ ys @ [last (split_on (CHR '':'') name)])" using join_split_on [of "CHR '':''" name] by simp
  then have "name = n @ '':'' @ join_with '':'' (ys @ [last (split_on (CHR '':'') name)])" using x by (simp add: join_with_append)
  then show "n \<in> name_parents name" unfolding name_parents_def by blast
qed

lemma name_parents_less: "n \<in> name_parents name \<Longrightarrow> n < name"
proof -
  have "m < m @ CHR '':'' # r" for m r by (induction m) auto
  then show "n \<in> name_parents name \<Longrightarrow> n < name" by (auto simp: name_parents_def)
qed

definition shown :: "'w program_registry \<Rightarrow> Mode \<Rightarrow> string \<times> 'w command_item \<Rightarrow> bool" where
  "shown rg mode c \<longleftrightarrow> mode_shows rg mode c \<and> (\<forall>e. run_init mode (snd c) = Inl e \<longrightarrow> \<not> err_is e ''not available'')"

definition runnable :: "'w program_registry \<Rightarrow> Mode \<Rightarrow> string \<times> 'w command_item \<Rightarrow> bool" where
  "runnable rg mode c \<longleftrightarrow> mode_shows rg mode c \<and> (\<exists>cc. run_init mode (snd c) = Inr cc \<and> \<not> isTopLevel cc)"

text \<open>
  The node of a command has what its \<open>Init\<close> set, and unless it is only a group it runs the command
  of its own name, with the declarations, the check of the arguments and the usage line from \<open>Init\<close>.
\<close>

definition carries :: "(string list \<Rightarrow> go_error option) \<Rightarrow> Mode \<Rightarrow> CommandContext \<Rightarrow> string \<Rightarrow> node \<Rightarrow> bool" where
  "carries noArgs mode cc name n \<longleftrightarrow> nd_cmd n = Cmd cc \<and>
     (if isTopLevel cc then nd_run n = None
      else nd_run n = Some name \<and> nd_specs n = argSpecs cc \<and> nd_args n \<noteq> None \<and> nd_args n = ArgsFunc noArgs cc \<and>
        nd_use n = (if mode \<noteq> ModeNonInteractive \<and> nd_parent n = 0 then CHR 0x5C # GetCommandUsage cc else GetCommandUsage cc))"

definition created :: "(string list \<Rightarrow> go_error option) \<Rightarrow> Mode \<Rightarrow> tree \<Rightarrow> string \<times> 'w command_item \<Rightarrow> bool" where
  "created noArgs mode t c \<longleftrightarrow>
     (\<exists>cc i. run_init mode (snd c) = Inr cc \<and> tr_cmds t (fst c) = Some i \<and> carries noArgs mode cc (fst c) (tr_nodes t ! i))"

lemma created_grows:
  assumes "created noArgs mode t c" "grows D R t t'" "tree_ok t"
  shows "created noArgs mode t' c"
proof -
  obtain cc i where c: "run_init mode (snd c) = Inr cc" "tr_cmds t (fst c) = Some i" "carries noArgs mode cc (fst c) (tr_nodes t ! i)"
    using assms(1) by (auto simp: created_def)
  have "i < length (tr_nodes t)" by (rule tree_okD(2) [OF assms(3) c(2)])
  then obtain gs where "tr_nodes t' ! i = (tr_nodes t ! i)\<lparr>nd_groups := gs\<rparr>"
    using assms(2) unfolding grows_def keeps_def by blast
  then have "carries noArgs mode cc (fst c) (tr_nodes t' ! i)" using c(3) by (auto simp: carries_def split: if_splits)
  moreover have "tr_cmds t' (fst c) = Some i" using c(2) assms(2) by (auto simp: grows_def map_le_def dom_def)
  ultimately show ?thesis using c(1) by (auto simp: created_def)
qed

text \<open>The node of a command that is created.\<close>

lemma create_command_node:
  assumes "create_command noArgs rg mode c t = Inr t'" "mode_shows rg mode c" "run_init mode (snd c) = Inr cc"
    and "parents_loop [] 0 (butlast (split_on (CHR '':'') (fst c))) t = (q, t1)"
  shows "\<exists>n. t' = add_node (fst c) n (addUniqueCommandGroup cc q t1) \<and> nd_parent n = q \<and> carries noArgs mode cc (fst c) n"
proof (cases "isTopLevel cc")
  case True
  then show ?thesis using assms by (auto simp: create_command_def Let_def bare_node_def carries_def split: if_splits)
next
  case False
  then obtain f where "ArgsFunc noArgs cc = Some f" using assms by (auto simp: create_command_def Let_def split: option.splits)
  then show ?thesis using assms False
    by (cases "mode \<noteq> ModeNonInteractive \<and> q = 0") (auto simp: create_command_def Let_def bare_node_def carries_def)
qed

lemma create_command_grows:
  assumes "create_command noArgs rg mode c t = Inr t'" "tree_ok t" "tr_cmds t (fst c) = None"
  shows "grows (insert (fst c) (name_parents (fst c))) {n. n = fst c \<and> runnable rg mode c} t t' \<and>
    (shown rg mode c \<longrightarrow> created noArgs mode t' c)"
proof (cases "mode_shows rg mode c")
  case False
  then show ?thesis using assms by (simp add: create_command_def shown_def runnable_def grows_refl)
next
  case True
  let ?name = "fst c" and ?D = "insert (fst c) (name_parents (fst c))" and ?R = "{n. n = fst c \<and> runnable rg mode c}"
  let ?before = "butlast (split_on (CHR '':'') (fst c))"
  obtain q t1 where pl: "parents_loop [] 0 ?before t = (q, t1)" by (metis prod.exhaust)
  have seg: "w \<in> set ?before \<Longrightarrow> CHR '':'' \<notin> set w" for w using split_on_parts in_set_butlastD by metis
  have g1: "grows (path_names [] ?before) {} t t1" and q: "node_of (tr_cmds t1) ?before = Some q"
    using parents_loop_grows [OF pl assms(2)] seg by (simp_all add: node_of_def)
  have g: "grows ?D {} t t1" by (rule grows_weaken [OF g1]) (use path_names_parents [of ?name] in auto)
  have "?name \<notin> path_names [] ?before" using path_names_parents name_parents_less by blast
  then have none: "tr_cmds t1 ?name = None" using g1 assms(3) unfolding grows_def by blast
  show ?thesis
  proof (cases "run_init mode (snd c)")
    case (Inl e)
    then have "t' = t1 \<and> err_is e ''not available''"
      using assms(1) True pl by (auto simp: create_command_def Let_def split: if_splits)
    then show ?thesis using g Inl by (simp add: shown_def runnable_def)
  next
    case (Inr cc)
    obtain n where n: "t' = add_node ?name n (addUniqueCommandGroup cc q t1)" "nd_parent n = q" "carries noArgs mode cc ?name n"
      using create_command_node [OF assms(1) True Inr pl] by blast
    have run: "set_option (nd_run n) = ?R" using n(3) True Inr by (auto simp: carries_def runnable_def split: if_splits)
    let ?t2 = "addUniqueCommandGroup cc q t1"
    have ok1: "tree_ok t1" using g by (simp add: grows_def)
    have ql: "q < length (tr_nodes t1)" by (rule node_of_less [OF ok1 q])
    note s = addUniqueCommandGroup_same [OF ql, where cc = cc] and ok2 = tree_ok_group [OF ok1 ql, of cc]
    have "parent_of (tr_cmds ?t2) ?name = Some q" using q s(1) by (simp add: parent_of_def node_of_def Let_def)
    moreover have "nd_run n \<in> {None, Some ?name}" using n(3) by (simp add: carries_def split: if_splits)
    ultimately have ok: "tree_ok t'" unfolding n(1) using tree_ok_add_node [OF ok2(1)] none s n(2) ql by simp
    have le: "tr_cmds t1 \<subseteq>\<^sub>m tr_cmds t'" using add_node_cmds [of ?t2 ?name n] none n(1) s(1) by simp
    have d: "dom (tr_cmds t') = insert ?name (dom (tr_cmds t1))" using n(1) s(1) by (auto simp: add_node_def)
    have "keeps t1 t'" unfolding n(1) by (rule keeps_trans [OF keeps_group keeps_add_node])
    moreover have "runs t' = runs t1 \<union> ?R" using n(1) ok2(2) run by (simp add: runs_add_node)
    ultimately have "grows {?name} ?R t1 t'" using ok le d by (simp add: grows_def)
    moreover have "created noArgs mode t' c"
    proof -
      have "tr_nodes t' ! length (tr_nodes t1) = n" "tr_cmds t' ?name = Some (length (tr_nodes t1))"
        using n(1) nth_append_length [of "tr_nodes ?t2" n "[]"] s(2) by (simp_all add: add_node_def)
      then show ?thesis using n(3) Inr by (auto simp: created_def)
    qed
    ultimately show ?thesis using grows_weaken [OF grows_trans [OF g, of "{?name}" ?R t'], of ?D] by simp
  qed
qed

lemma create_all_grows:
  assumes "create_all noArgs rg mode cs t = Inr t'" "tree_ok t" "sorted_wrt (<) (map fst cs)"
    and "\<And>c. c \<in> set cs \<Longrightarrow> tr_cmds t (fst c) = None"
  shows "(\<exists>D. grows D (fst ` {c \<in> set cs. runnable rg mode c}) t t') \<and>
    (\<forall>c \<in> set cs. shown rg mode c \<longrightarrow> created noArgs mode t' c)"
  using assms
proof (induction cs arbitrary: t)
  case Nil
  then show ?case using grows_refl by auto
next
  case (Cons c cs)
  then obtain t1 where t1: "create_command noArgs rg mode c t = Inr t1" "create_all noArgs rg mode cs t1 = Inr t'"
    by (auto simp: bind_res_Inr_iff)
  have g: "grows (insert (fst c) (name_parents (fst c))) {n. n = fst c \<and> runnable rg mode c} t t1"
    "shown rg mode c \<longrightarrow> created noArgs mode t1 c"
    using create_command_grows [OF t1(1) Cons.prems(2)] Cons.prems(4) by simp_all
  have ok1: "tree_ok t1" using g by (simp add: grows_def)
  have less: "fst c < fst d" if "d \<in> set cs" for d using Cons.prems(3) that by simp
  have sub: "dom (tr_cmds t1) \<subseteq> dom (tr_cmds t) \<union> insert (fst c) (name_parents (fst c))"
    using g by (simp add: grows_def)
  have fresh: "tr_cmds t1 (fst d) = None" if d: "d \<in> set cs" for d
  proof -
    have "fst d \<notin> insert (fst c) (name_parents (fst c))" using less [OF d] name_parents_less by fastforce
    moreover have "tr_cmds t (fst d) = None" using Cons.prems(4) d by simp
    ultimately show ?thesis using sub by blast
  qed
  have "(\<exists>D. grows D (fst ` {c \<in> set cs. runnable rg mode c}) t1 t') \<and> (\<forall>c \<in> set cs. shown rg mode c \<longrightarrow> created noArgs mode t' c)"
    by (rule Cons.IH [OF t1(2) ok1]) (use Cons.prems(3) fresh in auto)
  then obtain D where ih: "grows D (fst ` {c \<in> set cs. runnable rg mode c}) t1 t'"
    "\<forall>c \<in> set cs. shown rg mode c \<longrightarrow> created noArgs mode t' c" by blast
  have "{n. n = fst c \<and> runnable rg mode c} \<union> fst ` {c \<in> set cs. runnable rg mode c} = fst ` {d \<in> set (c # cs). runnable rg mode d}"
    by auto
  then have "\<exists>D. grows D (fst ` {d \<in> set (c # cs). runnable rg mode d}) t t'"
    using grows_trans [OF g(1) ih(1)] by auto
  moreover have "shown rg mode c \<longrightarrow> created noArgs mode t' c" using created_grows [OF _ ih(1) ok1] g(2) by blast
  ultimately show ?case using ih(2) by simp
qed

text \<open>
  C3: The tree of commands mirrors the registry, whatever the mode: every name has its own node, which
  hangs under the node of the name without its last part (under the root when there is one part) and
  runs the command of that name or nothing; each node but the root has a name, and parents come
  before children, so that there is no cycle. What can be run is exactly the commands of the mode
  whose \<open>Init\<close> succeeds and does not make them a mere group; nothing runs at the root. Each command that is available in the
  mode has a node with all that its \<open>Init\<close> set, which runs this command, checks its arguments with its own declarations
  and has its own usage line.
\<close>

theorem createCommands_tree:
  assumes "createCommands noArgs rg mode (root_tree use) = Inr t" "registry_ok rg"
  shows "tree_ok t \<and> nd_run (tr_nodes t ! 0) = None \<and>
    runs t = {n. \<exists>item. (n, item) \<in> set (Commands rg) \<and> runnable rg mode (n, item)} \<and>
    (\<forall>(n, item) \<in> set (Commands rg). shown rg mode (n, item) \<longrightarrow>
       (\<exists>cc i. run_init mode item = Inr cc \<and> tr_cmds t n = Some i \<and> carries noArgs mode cc n (tr_nodes t ! i)))"
proof -
  have ok: "tree_ok (root_tree use)" and r: "runs (root_tree use) = {}"
    by (auto simp: tree_ok_def root_tree_def runs_def bare_node_def)
  have "sorted_wrt (<) (map fst (Commands rg))"
    using assms(2) strict_sorted_sortedItems [of "commands rg"] by (simp add: registry_ok_def Commands_def)
  then obtain D where g: "grows D (fst ` {c \<in> set (Commands rg). runnable rg mode c}) (root_tree use) t"
    and c: "\<forall>c \<in> set (Commands rg). shown rg mode c \<longrightarrow> created noArgs mode t c"
    using create_all_grows [OF assms(1) [unfolded createCommands_def] ok] by (auto simp: root_tree_def)
  have "\<exists>gs. tr_nodes t ! 0 = (bare_node 0 use)\<lparr>nd_groups := gs\<rparr>" using g by (simp add: grows_def keeps_def root_tree_def)
  then have "nd_run (tr_nodes t ! 0) = None" by (auto simp: bare_node_def)
  moreover have "runs t = {n. \<exists>item. (n, item) \<in> set (Commands rg) \<and> runnable rg mode (n, item)}"
  proof -
    have "fst ` {c \<in> S. P c} = {n. \<exists>item. (n, item) \<in> S \<and> P (n, item)}" for S :: "(string \<times> 'a command_item) set" and P
      by force
    then show ?thesis using g r by (simp add: grows_def)
  qed
  ultimately show ?thesis using g c by (fastforce simp: grows_def created_def)
qed

definition sample_init :: "string \<Rightarrow> CommandContext \<Rightarrow> go_error + CommandContext" where
  "sample_init u cc = Inr (AddStringArg (SetCommandUsage cc u) ''key'' ''key'')"

definition sample_item :: "string \<Rightarrow> nat command_item" where
  "sample_item u = \<lparr>it_init = Some (sample_init u), it_exec = (\<lambda>s. (Inr (), s\<lparr>cs_world := Suc (cs_world s)\<rparr>)), it_interactive = None\<rparr>"

definition sample_registry :: "nat program_registry" where
  "sample_registry = \<lparr>initters = [], commands = [(''map:get'', sample_item ''get''),
     (''home'', (sample_item ''home'')\<lparr>it_init := Some (\<lambda>cc. Inl ErrNotAvailable)\<rparr>)],
     augmentors = [(''00-check-output-type'', CheckOutputType [''csv'', ''table''] sample_env)], printers = [], onlyInteractive = []\<rparr>"

definition sample_tree :: tree where
  "sample_tree = (case createCommands (\<lambda>as. None) sample_registry ModeInteractive (root_tree []) of Inr t \<Rightarrow> t)"

lemma createCommands_tree_witness:
  "\<exists>t. createCommands (\<lambda>as. None) sample_registry ModeInteractive (root_tree []) = Inr t \<and> tree_ok t \<and>
     runs t = {''map:get''} \<and> (\<exists>i. tr_cmds t ''map:get'' = Some i \<and> nd_run (tr_nodes t ! i) = Some ''map:get'')"
proof -
  have c: "Commands sample_registry = [(''home'', (sample_item ''home'')\<lparr>it_init := Some (\<lambda>cc. Inl ErrNotAvailable)\<rparr>),
      (''map:get'', sample_item ''get'')]"
    by (simp add: Commands_def sortedItems_eq sample_registry_def)
  have m: "mode_shows sample_registry ModeInteractive x" if "it_interactive (snd x) = None" for x
    using that by (simp add: mode_shows_def IsAvailable_def sample_registry_def)
  have ok: "registry_ok sample_registry"
  proof -
    have "validName ''home''" "validName ''map:get''" by code_simp+
    then show ?thesis by (simp add: registry_ok_def sample_registry_def)
  qed
  obtain t where t: "createCommands (\<lambda>as. None) sample_registry ModeInteractive (root_tree []) = Inr t"
    by (auto simp: createCommands_def c create_command_def m run_init_def sample_item_def sample_init_def ErrNotAvailable_def
      panic_error_def ArgsFunc_def AddStringArg_def SetCommandUsage_def NewCommandContext_def Let_def root_tree_def)
  obtain m h get home where n: "m = ''map:get''" "h = ''home''" "get = sample_item ''get''"
    "home = (sample_item ''home'')\<lparr>it_init := Some (\<lambda>cc. Inl ErrNotAvailable)\<rparr>" by blast
  define cc where "cc = AddStringArg (SetCommandUsage (NewCommandContext new_cobra ModeInteractive) ''get'') ''key'' ''key''"
  have i: "run_init ModeInteractive get = Inr cc" "run_init ModeInteractive home = Inl ErrNotAvailable"
    by (simp_all add: n run_init_def sample_item_def sample_init_def cc_def)
  have top: "\<not> isTopLevel cc" by (simp add: cc_def AddStringArg_def SetCommandUsage_def NewCommandContext_def)
  have c': "set (Commands sample_registry) = {(h, home), (m, get)}" using c n by simp
  have s: "mode_shows sample_registry ModeInteractive (m, get)" by (simp add: m n sample_item_def)
  have run: "runnable sample_registry ModeInteractive (m, get)" "\<not> runnable sample_registry ModeInteractive (h, home)"
    using s i top by (simp_all add: runnable_def)
  have s': "shown sample_registry ModeInteractive (m, get)" using s i by (simp add: shown_def)
  note tree = createCommands_tree [OF t ok, unfolded c']
  note nodes = bspec [OF tree [THEN conjunct2, THEN conjunct2, THEN conjunct2], of "(m, get)", simplified]
  obtain cc' j where j: "run_init ModeInteractive get = Inr cc'" "tr_cmds t m = Some j"
    "carries (\<lambda>as. None) ModeInteractive cc' m (tr_nodes t ! j)" using nodes s' by (elim impE exE conjE) (rule s', rule that)
  have r: "nd_run (tr_nodes t ! j) = Some m" using j i top by (simp add: carries_def)
  have rs: "runs t = {m}" unfolding tree [THEN conjunct2, THEN conjunct2, THEN conjunct1] using run by auto
  show ?thesis
    unfolding n(1) [symmetric]
    by (intro exI conjI) (rule t, rule tree [THEN conjunct1], rule rs, rule j(2), rule r)
qed

subsection \<open>Flags become properties\<close>

text \<open>Only the last frame of the properties changes.\<close>

definition frames :: "Properties \<Rightarrow> Properties \<Rightarrow> bool" where
  "frames p p' \<longleftrightarrow> (\<exists>f. pss p' = butlast (pss p) @ [f])"

lemma frames_refl: "pss p \<noteq> [] \<Longrightarrow> frames p p"
  unfolding frames_def by (metis append_butlast_last_id)

lemma frames_trans: "frames p p' \<Longrightarrow> frames p' p'' \<Longrightarrow> frames p p''"
  by (auto simp: frames_def)

lemma frames_Set: "frames p (Properties_Set p n v)"
  by (simp add: frames_def Properties_Set_def)

lemma frames_nonempty: "frames p p' \<Longrightarrow> pss p' \<noteq> []"
  by (auto simp: frames_def)

lemma flags_to_props_spec:
  assumes "flags_to_props fs p = Some p'" "pss p \<noteq> []" "distinct (map pf_name fs)"
  shows "frames p p' \<and> (\<forall>f \<in> set fs. \<not> managed_flag (pf_name f) \<longrightarrow> Properties_Get p' (pf_name f) = convertFlagValue f) \<and>
    (\<forall>n. n \<notin> pf_name ` set fs \<longrightarrow> Properties_Get p' n = Properties_Get p n)"
  using assms
proof (induction fs p rule: flags_to_props.induct)
  case (1 p)
  then show ?case by (simp add: frames_refl)
next
  case (2 f fs p)
  show ?case
  proof (cases "managed_flag (pf_name f)")
    case True
    then show ?thesis using 2 by auto
  next
    case False
    then obtain v where v: "convertFlagValue f = Some v" "flags_to_props fs (Properties_Set p (pf_name f) v) = Some p'"
      using "2.prems"(1) by (auto split: option.splits)
    have ih: "frames (Properties_Set p (pf_name f) v) p' \<and>
        (\<forall>g \<in> set fs. \<not> managed_flag (pf_name g) \<longrightarrow> Properties_Get p' (pf_name g) = convertFlagValue g) \<and>
        (\<forall>n. n \<notin> pf_name ` set fs \<longrightarrow> Properties_Get p' n = Properties_Get (Properties_Set p (pf_name f) v) n)"
      using "2.IH"(2) [OF False v] "2.prems"(3) frames_nonempty [OF frames_Set] by simp
    then show ?thesis
      using frames_trans [OF frames_Set] "2.prems"(2,3) v(1) Properties_Get_Set [OF "2.prems"(2), of "pf_name f" v] by auto
  qed
qed

lemma SetArgs_same: "SetArgs args specs s = Some (r, s') \<Longrightarrow> same_world s s' \<and> cs_out s' = cs_out s \<and> cs_props s' = cs_props s"
  by (auto simp: SetArgs_def same_world_def Let_def split: option.splits sum.splits)

text \<open>
  C20: A wrong output format stops a command before it does anything: when the value of the format flag
  is not one of the registered printers, the command fails, and nothing was printed, the cluster was
  not connected to or changed, and no metric was counted. This needs only that the check is the
  first augmentor, which its name ensures.
\<close>

theorem unknown_format_does_nothing:
  assumes "Augmentors rg = (n0, CheckOutputType pns env) # as" "pss (cs_props s) \<noteq> []" "distinct (map pf_name fs)"
    and "f \<in> set fs" "pf_name f = ''format''" "pf_type f = ''string''" "pf_value f \<notin> set pns"
  shows "\<exists>e s'. RunE env rg mode specs item fs args s = (Inl e, s') \<and> same_world s s' \<and> cs_out s' = cs_out s"
proof (cases "flags_to_props fs (cs_props s)")
  case None
  then show ?thesis by (simp add: RunE_def same_world_def)
next
  case (Some p)
  let ?s = "NewExecContext mode (s\<lparr>cs_props := p\<rparr>)"
  have n: "same_world s ?s" "cs_out ?s = cs_out s" "cs_props ?s = p" by (simp_all add: NewExecContext_def same_world_def)
  have g: "Properties_Get p ''format'' = Some (VString (pf_value f))"
    using flags_to_props_spec [OF Some assms(2,3)] assms(4-6) by (force simp: managed_flag_def convertFlagValue_def)
  show ?thesis
  proof (cases "SetArgs args specs ?s")
    case None
    then show ?thesis using Some by (simp add: RunE_def same_world_def)
  next
    case (Some x)
    obtain r s1 where x: "x = (r, s1)" by (metis prod.exhaust)
    have s1: "same_world s s1" "cs_out s1 = cs_out s" "cs_props s1 = p"
      using SetArgs_same [OF Some [unfolded x]] n by (auto simp: same_world_def)
    have "prop_string env s1 ''format'' = pf_value f"
      using g by (simp add: prop_string_def Properties_GetString_def s1)
    then have c: "CheckOutputType pns env s1 = (Inl (Errorf (''invalid format: '' @ pf_value f)), s1)"
      using assms(7) by (simp add: CheckOutputType_def)
    then show ?thesis
      using \<open>flags_to_props fs (cs_props s) = Some p\<close> Some x s1 assms(1)
      by (cases r) (auto simp: RunE_def andthen_def split: sum.split)
  qed
qed

definition format_flag :: "string \<Rightarrow> pflag" where
  "format_flag v = \<lparr>pf_name = ''format'', pf_type = ''string'', pf_value = v, pf_def = ''csv'', pf_changed = True\<rparr>"

lemma unknown_format_does_nothing_witness:
  "\<exists>e s'. RunE sample_env sample_registry ModeScripting [] (sample_item ''get'') [format_flag ''xml''] [''k''] sample_state = (Inl e, s') \<and>
     same_world sample_state s' \<and> cs_out s' = cs_out sample_state"
proof (rule unknown_format_does_nothing [where pns = "[''csv'', ''table'']"])
  show "Augmentors sample_registry = (''00-check-output-type'', CheckOutputType [''csv'', ''table''] sample_env) # []"
    by (simp add: Augmentors_def sortedItems_eq sample_registry_def)
  show "format_flag ''xml'' \<in> set [format_flag ''xml'']" by simp
qed (simp_all add: format_flag_def sample_state_def NewProperties_def)

subsection \<open>One line leaves nothing behind for the next\<close>

text \<open>A command may change the last frame only (a nested \<open>Execute\<close> pushes its own and pops it).\<close>

definition frame_safe :: "('w, 'a) step \<Rightarrow> bool" where
  "frame_safe f \<longleftrightarrow> (\<forall>s. pss (cs_props s) \<noteq> [] \<longrightarrow> frames (cs_props s) (cs_props (snd (f s))))"

lemma frame_safeD: "frame_safe f \<Longrightarrow> pss (cs_props s) \<noteq> [] \<Longrightarrow> f s = (r, s') \<Longrightarrow> frames (cs_props s) (cs_props s')"
  by (auto simp: frame_safe_def dest!: spec [of _ s])

lemma frame_safe_andthen:
  fixes m :: "('w, 'a) step"
  assumes "frame_safe m" "\<And>x. frame_safe (f x)"
  shows "frame_safe (andthen m f)"
  unfolding frame_safe_def
proof (intro allI impI)
  fix s :: "'w cstate" assume s: "pss (cs_props s) \<noteq> []"
  obtain r s1 where x: "m s = (r, s1)" by (metis prod.exhaust)
  have f1: "frames (cs_props s) (cs_props s1)" by (rule frame_safeD [OF assms(1) s x])
  show "frames (cs_props s) (cs_props (snd (andthen m f s)))"
  proof (cases r)
    case (Inr v)
    have "frames (cs_props s1) (cs_props (snd (f v s1)))"
      using assms(2) [of v] frames_nonempty [OF f1] by (simp add: frame_safe_def)
    then show ?thesis using frames_trans [OF f1] x Inr by (simp add: andthen_def)
  qed (use f1 x in \<open>simp add: andthen_def\<close>)
qed

lemma frame_safe_ret: "frame_safe (ret x)"
  by (simp add: frame_safe_def ret_def frames_refl)

definition item_safe :: "'w command_item \<Rightarrow> bool" where
  "item_safe item \<longleftrightarrow> frame_safe (it_exec item) \<and> (\<forall>f. it_interactive item = Some f \<longrightarrow> frame_safe f)"

definition registry_safe :: "'w program_registry \<Rightarrow> bool" where
  "registry_safe rg \<longleftrightarrow> (\<forall>(n, a) \<in> set (Augmentors rg). frame_safe a) \<and> (\<forall>(n, item) \<in> set (Commands rg). item_safe item)"

lemma frame_safe_augmentors: "\<forall>(n, a) \<in> set as. frame_safe a \<Longrightarrow> frame_safe (runAugmentors as)"
  by (induction as rule: runAugmentors.induct) (auto intro: frame_safe_ret frame_safe_andthen)

lemma frame_safe_interactive:
  fixes item :: "'w command_item"
  assumes i: "item_safe item"
  shows "frame_safe (run_interactive item)"
proof (unfold frame_safe_def, intro allI impI)
  fix s :: "'w cstate" assume s: "pss (cs_props s) \<noteq> []"
  show "frames (cs_props s) (cs_props (snd (run_interactive item s)))"
  proof (cases "it_interactive item")
    case (Some f)
    let ?s = "s\<lparr>cs_mode := ModeInteractive\<rparr>"
    obtain r s' where x: "f ?s = (r, s')" by (metis prod.exhaust)
    then have "frames (cs_props ?s) (cs_props s')" using i Some s by (intro frame_safeD [of f ?s r]) (auto simp: item_safe_def)
    then show ?thesis using x Some by (auto simp: run_interactive_def split: sum.split)
  qed (use s in \<open>simp add: run_interactive_def frames_refl\<close>)
qed

lemma flags_to_props_frames: "flags_to_props fs p = Some p' \<Longrightarrow> pss p \<noteq> [] \<Longrightarrow> frames p p'"
proof (induction fs p rule: flags_to_props.induct)
  case (2 f fs p)
  have ne: "pss (Properties_Set p n v) \<noteq> []" for n v using frames_nonempty [OF frames_Set] by blast
  show ?case
  proof (cases "managed_flag (pf_name f)")
    case False
    then obtain v where v: "convertFlagValue f = Some v" "flags_to_props fs (Properties_Set p (pf_name f) v) = Some p'"
      using "2.prems"(1) by (auto split: option.splits)
    then show ?thesis using "2.IH"(2) [OF False v ne] frames_trans [OF frames_Set] by blast
  qed (use 2 in simp)
qed (simp add: frames_refl)

lemma frame_safe_RunE:
  fixes rg :: "'w program_registry"
  assumes "registry_safe rg" "item_safe item"
  shows "frame_safe (RunE env rg mode specs item fs args)"
proof (unfold frame_safe_def, intro allI impI)
  fix s :: "'w cstate" assume s: "pss (cs_props s) \<noteq> []"
  let ?rest = "andthen (runAugmentors (Augmentors rg)) (\<lambda>_. andthen (it_exec item) (\<lambda>_. run_interactive item))"
  have safe: "frame_safe ?rest"
    using assms by (intro frame_safe_andthen frame_safe_augmentors frame_safe_interactive) (auto simp: registry_safe_def item_safe_def)
  show "frames (cs_props s) (cs_props (snd (RunE env rg mode specs item fs args s)))"
  proof (cases "flags_to_props fs (cs_props s)")
    case None
    then show ?thesis using s by (simp add: RunE_def frames_refl)
  next
    case (Some p)
    have p: "frames (cs_props s) p" by (rule flags_to_props_frames [OF Some s])
    show ?thesis
    proof (cases "SetArgs args specs (NewExecContext mode (s\<lparr>cs_props := p\<rparr>))")
      case None
      then show ?thesis using s Some by (simp add: RunE_def frames_refl)
    next
      case (Some x)
      obtain r s1 where x: "x = (r, s1)" by (metis prod.exhaust)
      have s1: "cs_props s1 = p" using SetArgs_same [OF Some [unfolded x]] by (simp add: NewExecContext_def)
      have "frames p (cs_props (snd (?rest s1)))"
        using safe frames_nonempty [OF p] s1 unfolding frame_safe_def by metis
      then show ?thesis
        using \<open>flags_to_props fs (cs_props s) = Some p\<close> Some x s1 p frames_trans [OF p]
        by (auto simp: RunE_def split: sum.split)
    qed
  qed
qed

lemma execute_root_frames:
  assumes "registry_safe (mn_registry m)" "pss (cs_props (ms_state ms)) \<noteq> []"
  shows "frames (cs_props (ms_state ms)) (cs_props (ms_state (snd (execute_root m args ms))))"
proof -
  obtain out fl where p: "cob_parse (mn_cobra m) (mn_tree m) (ms_flags ms) args = (out, fl)" by (metis prod.exhaust)
  have r: "frames (cs_props (ms_state ms)) (cs_props (ms_state ms))" by (rule frames_refl [OF assms(2)])
  have run: "frames (cs_props (ms_state ms)) (cs_props (snd (RunE env (mn_registry m) mode specs item fs as (ms_state ms))))"
    if "RegistryItems_Map (Commands (mn_registry m)) name = Some item" for env mode specs item fs as name
  proof -
    have "(name, item) \<in> set (Commands (mn_registry m))"
      using that KeyValues_Map_map_of [of "Commands (mn_registry m)"] map_of_SomeD [of "rev (Commands (mn_registry m))"]
      by (simp add: RegistryItems_Map_def KeyValues_Map_def)
    then have "item_safe item" using assms(1) by (auto simp: registry_safe_def)
    then show ?thesis using frame_safe_RunE [OF assms(1)] assms(2) by (simp add: frame_safe_def)
  qed
  show ?thesis
    using p r run
    by (auto simp: execute_root_def write_out_def Let_def split: cobra_outcome.split option.split prod.split) (metis snd_conv)+
qed

lemma pop_pushed:
  assumes "pss p \<noteq> []" "frames (Properties_Push p) q"
  shows "\<exists>q'. Properties_Pop q = Some q' \<and> pss q' = pss p"
  using assms by (auto simp: frames_def Properties_Push_def Properties_Pop_def Let_def)

text \<open>How a run between \<open>Push\<close> and \<open>Pop\<close> ends.\<close>

lemma execute_scoped_ends:
  assumes "registry_safe (mn_registry m)" "pss (cs_props (ms_state ms)) \<noteq> []" "fst (execute_scoped m cm args ms) \<noteq> Inl panic_error"
  shows "\<exists>ms1. snd (execute_root m args (ms\<lparr>ms_state := (ms_state ms)\<lparr>cs_props := Properties_Push (cs_props (ms_state ms))\<rparr>\<rparr>)) = ms1 \<and>
    pss (cs_props (ms_state (snd (execute_scoped m cm args ms)))) = pss (cs_props (ms_state ms)) \<and>
    ms_flags (snd (execute_scoped m cm args ms)) = reset_flags (cob_flagset (mn_cobra m) (mn_tree m) cm) (ms_flags ms1)"
proof -
  let ?ms = "ms\<lparr>ms_state := (ms_state ms)\<lparr>cs_props := Properties_Push (cs_props (ms_state ms))\<rparr>\<rparr>"
  obtain r ms1 where x: "execute_root m args ?ms = (r, ms1)" by (metis prod.exhaust)
  have "frames (Properties_Push (cs_props (ms_state ms))) (cs_props (ms_state ms1))"
    using execute_root_frames [OF assms(1), of ?ms args] x by (simp add: Properties_Push_def)
  then obtain q where "Properties_Pop (cs_props (ms_state ms1)) = Some q" "pss q = pss (cs_props (ms_state ms))"
    using pop_pushed [OF assms(2)] by blast
  then show ?thesis using x assms(3) by (auto simp: execute_scoped_def split: if_splits)
qed

text \<open>
  C21: Executing a line restores the properties: whatever was parsed and whatever the command and the
  augmentors wrote into their frame, after \<open>Execute\<close> the stack of properties is the one before it
  (unless the process panics). So the options of one line of the shell are not those of the next.
\<close>

theorem Execute_restores_properties:
  assumes "registry_safe (mn_registry m)" "pss (cs_props (ms_state ms)) \<noteq> []" "fst (Execute_main m args ms) \<noteq> Inl panic_error"
  shows "pss (cs_props (ms_state (snd (Execute_main m args ms)))) = pss (cs_props (ms_state ms))"
  using assms(3) execute_scoped_ends [OF assms(1,2)]
  by (auto simp: Execute_main_def write_out_def split: sum.splits prod.splits if_splits)

text \<open>
  What \<^verbatim>\<open>cobra\<close> and \<^verbatim>\<open>pflag\<close> promise: parsing changes only flags of the command it finds and keeps the
  names, types and defaults. A flag is marked as changed after its value was set, so when the parsing
  succeeds every flag with another value is marked. When it fails this is not so: the \<open>Set\<close> of a number or
  a truth value stores what could be read (0 or false for a text that is neither) before it returns the error,
  and the mark is not set.
\<close>

definition same_flag :: "pflag \<Rightarrow> pflag \<Rightarrow> bool" where
  "same_flag f g \<longleftrightarrow> pf_name g = pf_name f \<and> pf_type g = pf_type f \<and> pf_def g = pf_def f"

definition parse_scoped :: "cobra \<Rightarrow> tree \<Rightarrow> bool" where
  "parse_scoped cob t \<longleftrightarrow> (\<forall>fl args out fl' cm rest.
     cob_parse cob t fl args = (out, fl') \<longrightarrow> cob_find cob t args = Inr (cm, rest) \<longrightarrow>
     length fl' = length fl \<and> (\<forall>k < length fl. same_flag (fl ! k) (fl' ! k) \<and>
       (fl' ! k \<noteq> fl ! k \<longrightarrow> k \<in> set (cob_flagset cob t cm) \<and> (pf_changed (fl' ! k) \<or> (\<exists>e. out = CobraFail e)))))"

definition default_flag :: "pflag \<Rightarrow> bool" where
  "default_flag f \<longleftrightarrow> \<not> pf_changed f \<and> pf_value f = pf_def f"

lemma reset_flag_default:
  "default_flag f \<Longrightarrow> same_flag f g \<Longrightarrow> reset_flag g = (if pf_changed g then f else g)"
  by (cases f; cases g) (auto simp: reset_flag_def same_flag_def default_flag_def)

lemma reset_flag_twice: "reset_flag (reset_flag f) = reset_flag f"
  by (simp add: reset_flag_def)

lemma reset_flags_nth:
  "length (reset_flags ids fs) = length fs \<and>
   (k < length fs \<longrightarrow> reset_flags ids fs ! k = (if k \<in> set ids then reset_flag (fs ! k) else fs ! k))"
  unfolding reset_flags_def
proof (induction ids arbitrary: fs)
  case (Cons i ids)
  then show ?case by (auto simp: nth_list_update reset_flag_twice)
qed simp

lemma execute_root_flags:
  "ms_flags (snd (execute_root m args ms)) = snd (cob_parse (mn_cobra m) (mn_tree m) (ms_flags ms) args)"
  by (auto simp: execute_root_def Let_def split: cobra_outcome.split option.split prod.split)

text \<open>
  C18: In the shell and in scripts, when every flag has its default before a line, every flag has it after
  the line, unless the parsing of its flags fails; whether the command succeeds does not matter. When the parsing fails
  the flags that were marked as changed have their default again and all others keep what the parsing left in them:
  a value that was stored and not marked is still there in the next line.
\<close>

theorem Execute_resets_flags:
  assumes "registry_safe (mn_registry m)" "pss (cs_props (ms_state ms)) \<noteq> []" "fst (Execute_main m args ms) \<noteq> Inl panic_error"
    and "mn_mode m \<noteq> ModeNonInteractive" "parse_scoped (mn_cobra m) (mn_tree m)" "\<forall>f \<in> set (ms_flags ms). default_flag f"
    and "cob_parse (mn_cobra m) (mn_tree m) (ms_flags ms) args = (out, parsed)"
  shows "((\<forall>e. out \<noteq> CobraFail e) \<longrightarrow> ms_flags (snd (Execute_main m args ms)) = ms_flags ms) \<and>
    ms_flags (snd (Execute_main m args ms)) =
      (case cob_find (mn_cobra m) (mn_tree m) args of
         Inl e \<Rightarrow> ms_flags ms
       | Inr x \<Rightarrow> map2 (\<lambda>f g. if pf_changed g then f else g) (ms_flags ms) parsed)"
proof (cases "cob_find (mn_cobra m) (mn_tree m) args")
  case (Inl e)
  then show ?thesis using assms(4) by (simp add: Execute_main_def)
next
  case (Inr x)
  obtain cm rest where x: "x = (cm, rest)" by (metis prod.exhaust)
  let ?ids = "cob_flagset (mn_cobra m) (mn_tree m) cm" and ?fl = "ms_flags ms"
  have ex: "Execute_main m args ms = execute_scoped m cm args ms" using Inr x assms(4) by (simp add: Execute_main_def)
  have fin: "ms_flags (snd (Execute_main m args ms)) = reset_flags ?ids parsed"
    using execute_scoped_ends [OF assms(1,2), of cm args] assms(3,7) unfolding ex by (auto simp: execute_root_flags)
  have fl: "length parsed = length ?fl" "k < length ?fl \<Longrightarrow> same_flag (?fl ! k) (parsed ! k)"
    "k < length ?fl \<Longrightarrow> parsed ! k \<noteq> ?fl ! k \<Longrightarrow> k \<in> set ?ids \<and> (pf_changed (parsed ! k) \<or> (\<exists>e. out = CobraFail e))" for k
    using assms(5,7) Inr unfolding x parse_scoped_def by (metis (no_types, lifting))+
  have step: "reset_flags ?ids parsed ! k = (if pf_changed (parsed ! k) then ?fl ! k else parsed ! k)" if k: "k < length ?fl" for k
  proof -
    have d: "default_flag (?fl ! k)" using assms(6) k by simp
    then show ?thesis
      using reset_flags_nth [of ?ids parsed k] reset_flag_default [OF d fl(2) [OF k]] fl(1) fl(3) [OF k] k
      by (cases "parsed ! k = ?fl ! k") (auto simp: default_flag_def)
  qed
  have all: "reset_flags ?ids parsed = map2 (\<lambda>f g. if pf_changed g then f else g) ?fl parsed"
    using step fl(1) reset_flags_nth [of ?ids parsed] by (auto intro!: nth_equalityI)
  have "reset_flags ?ids parsed = ?fl" if "\<forall>e. out \<noteq> CobraFail e"
  proof (rule nth_equalityI)
    show "reset_flags ?ids parsed ! k = ?fl ! k" if "k < length (reset_flags ?ids parsed)" for k
      using that step [of k] fl(1) fl(3) [of k] reset_flags_nth [of ?ids parsed] \<open>\<forall>e. out \<noteq> CobraFail e\<close> by auto
  qed (use fl(1) reset_flags_nth [of ?ids parsed] in simp)
  then show ?thesis using fin all Inr by simp
qed

definition sample_cobra :: cobra where
  "sample_cobra = \<lparr>cob_find = (\<lambda>t args. Inr (1, drop 2 args)),
     cob_parse = (\<lambda>t fl args. (CobraRun 1 (drop 2 args),
       case fl of [] \<Rightarrow> [] | f # fs \<Rightarrow> f\<lparr>pf_value := ''table'', pf_changed := True\<rparr> # fs)),
     cob_flagset = (\<lambda>t i. [0]), cob_help = (\<lambda>t. [])\<rparr>"

definition sample_main :: "nat main" where
  "sample_main = \<lparr>mn_env = sample_env, mn_cobra = sample_cobra, mn_registry = sample_registry,
     mn_tree = \<lparr>tr_nodes = [bare_node 0 [], (bare_node 0 ''get'')\<lparr>nd_run := Some ''map:get'', nd_args := Some (\<lambda>as. None)\<rparr>],
       tr_cmds = [''map:get'' \<mapsto> 1]\<rparr>, mn_arg0 = ''clc'', mn_mode = ModeInteractive\<rparr>"

definition sample_ms :: "nat mstate" where
  "sample_ms = \<lparr>ms_flags = [(format_flag ''csv'')\<lparr>pf_changed := False\<rparr>], ms_state = sample_state\<rparr>"

lemma sample_registry_parts:
  "Augmentors sample_registry = [(''00-check-output-type'', CheckOutputType [''csv'', ''table''] sample_env)]"
  "Commands sample_registry = [(''home'', (sample_item ''home'')\<lparr>it_init := Some (\<lambda>cc. Inl ErrNotAvailable)\<rparr>),
      (''map:get'', sample_item ''get'')]"
  by (simp_all add: Augmentors_def Commands_def sortedItems_eq sample_registry_def)

lemma sample_registry_safe: "registry_safe sample_registry"
  by (simp add: registry_safe_def sample_registry_parts item_safe_def sample_item_def frame_safe_def frames_refl CheckOutputType_def Let_def)

lemma sample_parse_scoped: "parse_scoped sample_cobra t"
  by (auto simp: parse_scoped_def sample_cobra_def same_flag_def nth_Cons split: list.splits nat.splits)

lemma sample_runs: "fst (Execute_main sample_main [[CHR 0x5C] @ ''map'', ''get''] sample_ms) = Inr ()"
proof -
  let ?s = "sample_state\<lparr>cs_props := Properties_Push NewProperties\<rparr>"
  let ?fs = "[format_flag ''table'']"
  have "RunE sample_env sample_registry ModeInteractive [] (sample_item ''get'') ?fs [] ?s =
      (Inr (), (NewExecContext ModeInteractive ?s)\<lparr>cs_props := Properties_Set (Properties_Push NewProperties) ''format'' (VString ''table''),
        cs_world := 8\<rparr>)"
    by (simp add: RunE_def format_flag_def managed_flag_def convertFlagValue_def SetArgs_def makeKeywordArgs_def parseDuration_def
      prop_string_def Properties_GetString_def Properties_Get_def Properties_Set_def Properties_Push_def NewProperties_def NewExecContext_def
      sample_registry_parts CheckOutputType_def andthen_def ret_def sample_item_def run_interactive_def sample_state_def)
  then show ?thesis
    by (simp add: Execute_main_def sample_main_def sample_cobra_def execute_scoped_def execute_root_def sample_ms_def
      RegistryItems_Map_def sample_registry_parts format_flag_def Properties_Pop_def Properties_Push_def Properties_Set_def
      NewProperties_def sample_state_def bare_node_def panic_error_def)
qed

lemma Execute_restores_properties_witness:
  "pss (cs_props (ms_state (snd (Execute_main sample_main [[CHR 0x5C] @ ''map'', ''get''] sample_ms)))) = pss (cs_props (ms_state sample_ms))"
  by (rule Execute_restores_properties)
    (simp_all only: sample_runs, simp_all add: sample_main_def sample_registry_safe sample_ms_def sample_state_def NewProperties_def)

lemma Execute_resets_flags_witness:
  "ms_flags (snd (Execute_main sample_main [[CHR 0x5C] @ ''map'', ''get''] sample_ms)) = ms_flags sample_ms"
proof -
  have "\<exists>as fl. cob_parse (mn_cobra sample_main) (mn_tree sample_main) (ms_flags sample_ms) [[CHR 0x5C] @ ''map'', ''get''] = (CobraRun 1 as, fl)"
    by (simp add: sample_main_def sample_cobra_def)
  then obtain as fl where p: "cob_parse (mn_cobra sample_main) (mn_tree sample_main) (ms_flags sample_ms)
      [[CHR 0x5C] @ ''map'', ''get''] = (CobraRun 1 as, fl)" by blast
  have "((\<forall>e. CobraRun 1 as \<noteq> CobraFail e) \<longrightarrow>
      ms_flags (snd (Execute_main sample_main [[CHR 0x5C] @ ''map'', ''get''] sample_ms)) = ms_flags sample_ms)"
    by (rule Execute_resets_flags [OF _ _ _ _ _ _ p, THEN conjunct1])
      (simp_all only: sample_runs, simp_all add: sample_main_def sample_registry_safe sample_parse_scoped sample_ms_def sample_state_def
        NewProperties_def default_flag_def format_flag_def)
  then show ?thesis by simp
qed

text \<open>
  A line whose \<^verbatim>\<open>--ttl abc\<close> is refused: the parser leaves 0 in the flag, which is not its default, and
  the next line would run with it.
\<close>

definition ttl_cobra :: cobra where
  "ttl_cobra = sample_cobra\<lparr>cob_parse := (\<lambda>t fl args.
     (CobraFail (Errorf ''invalid argument''), case fl of [] \<Rightarrow> [] | f # fs \<Rightarrow> f\<lparr>pf_value := ''0''\<rparr> # fs))\<rparr>"

definition ttl_flag :: pflag where
  "ttl_flag = \<lparr>pf_name = ''ttl'', pf_type = ''int64'', pf_value = ''-1'', pf_def = ''-1'', pf_changed = False\<rparr>"

lemma refused_value_stays:
  "parse_scoped ttl_cobra t \<and> default_flag ttl_flag \<and>
   ms_flags (snd (Execute_main (sample_main\<lparr>mn_cobra := ttl_cobra\<rparr>) [''map'', ''set'', ''--ttl'', ''abc''] (sample_ms\<lparr>ms_flags := [ttl_flag]\<rparr>))) =
     [ttl_flag\<lparr>pf_value := ''0''\<rparr>]"
proof (intro conjI)
  show "parse_scoped ttl_cobra t"
    by (auto simp: parse_scoped_def ttl_cobra_def sample_cobra_def same_flag_def nth_Cons split: list.splits nat.splits)
  show "default_flag ttl_flag" by (simp add: default_flag_def ttl_flag_def)
  show "ms_flags (snd (Execute_main (sample_main\<lparr>mn_cobra := ttl_cobra\<rparr>) [''map'', ''set'', ''--ttl'', ''abc''] (sample_ms\<lparr>ms_flags := [ttl_flag]\<rparr>))) =
     [ttl_flag\<lparr>pf_value := ''0''\<rparr>]"
    by (simp add: Execute_main_def sample_main_def ttl_cobra_def sample_cobra_def execute_scoped_def execute_root_def sample_ms_def ttl_flag_def
      sample_state_def NewProperties_def Properties_Push_def Properties_Pop_def panic_error_def reset_flags_def reset_flag_def)
qed

subsection \<open>The exit code\<close>

text \<open>
  The exit code is 0 exactly when the arguments and the configuration could be read, the program
  could be made and the command ran without an error; metrics are then stored and sent, as they are
  after every command that ran to an error without a panic.
\<close>

theorem clc_main_exit_code:
  "snd (fst (clc_main provider new_main execute send message args s)) = 0 \<longleftrightarrow>
    (\<exists>c p l cp m s'. ExtractStartupArgs args = ((c, p, l), None) \<and> provider c = Inr cp \<and> new_main cp (c, p, l) = Inr m \<and>
      execute m args s = (Inr (), s') \<and> snd (clc_main provider new_main execute send message args s) = send s')"
  by (auto simp: clc_main_def bye_def exit_code_def ExitCodeSuccess_def ExitCodeGenericFailure_def ExitCodeTimeout_def
    ExitCodeUserCanceled_def panic_error_def split: prod.splits sum.splits option.splits if_splits)

end
