(* ===== verification/Project.thy ===== *)
theory Project
  imports Stage Commands Paths KVStore
begin

section \<open>Projects from templates (base/commands/project)\<close>

text \<open>
  \<open>create\<close> clones or updates a template with git and copies it into a new directory, filling in the
  template files with values from the template's defaults, the configuration and the user;
  \<open>list-templates\<close> keeps the templates of the organization in a cache. Files are a map from paths to
  contents; git, YAML, JSON, the text templates, HTTP and Badger come from outside.
\<close>

subsection \<open>State and environment\<close>

text \<open>A template on disk: files with their content, directories in the order of \<^verbatim>\<open>WalkDir\<close>.\<close>

datatype tpl = TFile string string | TDir string "tpl list"

fun tpl_name :: "tpl \<Rightarrow> string" where
  "tpl_name (TFile n c) = n"
| "tpl_name (TDir n es) = n"

record 'db proj_world =
  pw_dirs :: "string list"
  pw_files :: "string \<rightharpoonup> string"
  pw_templates :: "string \<rightharpoonup> tpl"
  pw_db :: 'db

type_synonym ('db, 'a) proj_step = "('db proj_world, 'a) step"

text \<open>A Go map of values, in the order of its iteration, which Go leaves open.\<close>

type_synonym tvalues = "(string \<times> string) list"

record TemplateInfo =
  ti_Name :: string
  ti_Source :: string

text \<open>
  \<open>pj_keys\<close> is the order in which Go iterates over the properties; \<open>pj_template\<close> gives what a template
  writes and the error it ends with; \<open>pj_repos\<close> decodes a reply, giving the full names that are
  strings; \<open>pj_now\<close> is in nanoseconds.
\<close>

record 'db proj_env =
  pj_env :: "'db proj_world cenv"
  pj_place :: place
  pj_yaml :: "string \<Rightarrow> go_error + (string \<times> go_val) list"
  pj_template :: "string \<Rightarrow> tvalues \<Rightarrow> string \<times> go_error option"
  pj_keys :: "(string \<rightharpoonup> go_val) \<Rightarrow> string list"
  pj_clone :: "string \<Rightarrow> string \<Rightarrow> 'db proj_world \<Rightarrow> (go_error + unit) \<times> 'db proj_world"
  pj_open :: "string \<Rightarrow> 'db proj_world \<Rightarrow> go_error option"
  pj_worktree :: "string \<Rightarrow> 'db proj_world \<Rightarrow> go_error option"
  pj_pull :: "string \<Rightarrow> 'db proj_world \<Rightarrow> (go_error + unit) \<times> 'db proj_world"
  pj_entries :: "string \<Rightarrow> go_error + (string \<times> bool) list"
  pj_badger :: "'db badger"
  pj_now :: int
  pj_http_get :: "string \<Rightarrow> go_error + string"
  pj_repos :: "string \<Rightarrow> go_error + string option list"
  pj_marshal :: "TemplateInfo list \<Rightarrow> string"
  pj_unmarshal :: "string \<Rightarrow> go_error + TemplateInfo list"

subsection \<open>Values for the placeholders (utils.go)\<close>

definition key_char :: "char \<Rightarrow> bool" where
  "key_char c \<longleftrightarrow> 97 \<le> (of_char c :: nat) \<and> (of_char c :: nat) \<le> 122 \<or> is_digit c \<or> c = CHR ''_''"

definition validKey :: "string \<Rightarrow> bool" where
  "validKey k \<longleftrightarrow> k \<noteq> [] \<and> list_all key_char k"

definition joinKeys :: "string \<Rightarrow> string \<Rightarrow> string" where
  "joinKeys prefix key = (if prefix = [] then key else prefix @ ''.'' @ key)"

definition Sprint :: "'db proj_env \<Rightarrow> go_val \<Rightarrow> string" where
  "Sprint pj v = fmt_v (print_float64 (ce_fl (pj_env pj))) (print_float32 (ce_fl (pj_env pj))) v"

text \<open>
  The parsed data of \<open>parseYAML\<close>; for a nested map the code marshals it and parses the result again,
  which gives the map back.
\<close>

fun parse_entries :: "'db proj_env \<Rightarrow> string \<Rightarrow> (string \<times> go_val) list \<Rightarrow> tvalues \<Rightarrow> go_error + tvalues"
  and parse_value :: "'db proj_env \<Rightarrow> string \<Rightarrow> go_val \<Rightarrow> tvalues \<Rightarrow> go_error + tvalues" where
  "parse_entries pj prefix [] m = Inr m"
| "parse_entries pj prefix ((k, v) # kvs) m =
     (if \<not> validKey k then Inl (Errorf (k @ '' contains special chars''))
      else bind_res (parse_value pj (joinKeys prefix k) v m) (parse_entries pj prefix kvs))"
| "parse_value pj key (VMap sub) m = parse_entries pj key sub m"
| "parse_value pj key (VString s) m = Inr (AList.update key s m)"
| "parse_value pj key v m = Inr (AList.update key (Sprint pj v) m)"

definition parseYAML :: "'db proj_env \<Rightarrow> string \<Rightarrow> tvalues \<Rightarrow> go_error + tvalues" where
  "parseYAML pj content m = bind_res (pj_yaml pj content) (\<lambda>data. parse_entries pj [] data m)"

text \<open>The first key, in the order of the iteration, that is not valid.\<close>

definition validateValueMap :: "(string \<times> 'v) list \<Rightarrow> string option" where
  "validateValueMap m = map_option fst (List.find (\<lambda>(k, _). \<not> validKey k) m)"

fun defaults_of :: "tpl list \<Rightarrow> string option" where
  "defaults_of [] = None"
| "defaults_of (TFile n c # es) = (if n = ''defaults.yaml'' then Some c else defaults_of es)"
| "defaults_of (TDir n sub # es) = defaults_of es"

definition loadFromDefaults :: "'db proj_env \<Rightarrow> tpl list \<Rightarrow> go_error + tvalues" where
  "loadFromDefaults pj es =
     (case defaults_of es of
        None \<Rightarrow> Inr []
      | Some c \<Rightarrow>
          bind_res (parseYAML pj c []) (\<lambda>props.
            case validateValueMap props of
              Some key \<Rightarrow> Inl (Errorf (''invalid property: '' @ key @
                '' (keys can only contain lowercase letters, numbers or underscore''))
            | None \<Rightarrow> Inr props))"

definition convertToSnakeCase :: "string \<Rightarrow> string" where
  "convertToSnakeCase s = replace_all (CHR ''-'') ''_'' (replace_all (CHR ''.'') ''_'' (to_lower s))"

definition loadFromProps :: "'db proj_env \<Rightarrow> (string \<rightharpoonup> go_val) \<Rightarrow> tvalues \<Rightarrow> tvalues" where
  "loadFromProps pj all0 p =
     foldl (\<lambda>p k. case all0 k of None \<Rightarrow> p | Some v \<Rightarrow> AList.update (convertToSnakeCase k) (Sprint pj v) p) p (pj_keys pj all0)"

fun updatePropsWithUserValues :: "(string \<times> string) list \<Rightarrow> tvalues \<Rightarrow> go_error + tvalues" where
  "updatePropsWithUserValues [] p = Inr p"
| "updatePropsWithUserValues ((k, v) # kvs) p =
     (if \<not> validKey k then Inl (Errorf (''invalid key: '' @ k @ '', only letters and numbers are allowed''))
      else updatePropsWithUserValues kvs (AList.update k v p))"

definition loadValues ::
    "'db proj_env \<Rightarrow> (string \<rightharpoonup> go_val) \<Rightarrow> (string \<times> string) list \<Rightarrow> tpl list \<Rightarrow> go_error + tvalues" where
  "loadValues pj all0 user es =
     bind_res (loadFromDefaults pj es) (\<lambda>vs. updatePropsWithUserValues user (loadFromProps pj all0 vs))"

subsection \<open>Git (utils.go)\<close>

definition templateOrgURL :: "'db proj_env \<Rightarrow> string" where
  "templateOrgURL pj =
     (let u = pl_getenv (pj_place pj) ''CLC_EXPERIMENTAL_TEMPLATE_SOURCE'' in
      if u = [] then ''https://github.com/hazelcast-templates'' else u)"

definition templateRepoURL :: "'db proj_env \<Rightarrow> string \<Rightarrow> string" where
  "templateRepoURL pj name = trim_suffix (templateOrgURL pj) ''/'' @ ''/'' @ name"

definition cloneTemplate :: "'db proj_env \<Rightarrow> string \<Rightarrow> string \<Rightarrow> ('db, unit) proj_step" where
  "cloneTemplate pj baseDir name =
     (let u = templateRepoURL pj name in
      (\<lambda>s. case on_world (pj_clone pj (filepath_Join [baseDir, name]) u) s of
         (Inl e, s') \<Rightarrow>
           (Inl (if err_is e ''authentication required''
                 then Errorf (''repository '' @ u @ '' may not exist or requires authentication'') else e), s')
       | r \<Rightarrow> r))"

definition updateTemplate :: "'db proj_env \<Rightarrow> string \<Rightarrow> string \<Rightarrow> ('db, unit) proj_step" where
  "updateTemplate pj baseDir name s =
     (let path = filepath_Join [baseDir, name] in
      case pj_open pj path (cs_world s) of
        Some e \<Rightarrow> (Inl (Wrapf ''opening local git repository'' e), s)
      | None \<Rightarrow>
          (case pj_worktree pj path (cs_world s) of
             Some e \<Rightarrow> (Inl (Wrapf ''opening work tree'' e), s)
           | None \<Rightarrow>
               (case on_world (pj_pull pj path) s of
                  (Inl e, s') \<Rightarrow> if err_is e ''already up-to-date'' then (Inr (), s') else (Inl e, s')
                | r \<Rightarrow> r)))"

subsection \<open>Copying a template (project_create.go, file.go)\<close>

definition isHidden :: "string \<Rightarrow> bool" where
  "isHidden n \<longleftrightarrow> has_prefix n ''.'' \<or> has_prefix n ''_''"

definition hasKeepExt :: "string \<Rightarrow> bool" where
  "hasKeepExt n \<longleftrightarrow> filepath_Ext n = ''.keep''"

definition hasTemplateExt :: "string \<Rightarrow> bool" where
  "hasTemplateExt n \<longleftrightarrow> filepath_Ext n = ''.template''"

definition isSkip :: "string \<Rightarrow> bool" where
  "isSkip n \<longleftrightarrow> isHidden n \<and> \<not> hasKeepExt n \<or> n = ''defaults.yaml''"

text \<open>
  \<^verbatim>\<open>os.MkdirAll\<close>, \<^verbatim>\<open>os.Create\<close> and writing to the created file. Of the directories only the last one is noted,
  not the ancestors that are made on the way.
\<close>

definition mkdir_all :: "string \<Rightarrow> ('db, unit) proj_step" where
  "mkdir_all p = on_world (\<lambda>w.
     if pw_files w p \<noteq> None then (Inl (Errorf (''mkdir '' @ p @ '': not a directory'')), w)
     else (Inr (), w\<lparr>pw_dirs := List.insert p (pw_dirs w)\<rparr>))"

definition create_file :: "string \<Rightarrow> string \<Rightarrow> ('db, unit) proj_step" where
  "create_file p text = on_world (\<lambda>w.
     if p \<in> set (pw_dirs w) then (Inl (Errorf (''open '' @ p @ '': is a directory'')), w)
     else (Inr (), w\<lparr>pw_files := (pw_files w)(p \<mapsto> text)\<rparr>))"

definition applyTemplateAndCopyToTarget :: "'db proj_env \<Rightarrow> tvalues \<Rightarrow> string \<Rightarrow> string \<Rightarrow> ('db, unit) proj_step" where
  "applyTemplateAndCopyToTarget pj vars source_text dest =
     (let (text, e) = pj_template pj source_text vars in
      andthen (create_file (fst (SplitExt dest)) text) (\<lambda>_. case e of None \<Rightarrow> ret () | Some err \<Rightarrow> fail err))"

definition copyToTarget :: "string \<Rightarrow> string \<Rightarrow> bool \<Rightarrow> ('db, unit) proj_step" where
  "copyToTarget source_text dest removeExt = create_file (if removeExt then fst (SplitExt dest) else dest) source_text"

text \<open>
  \<^verbatim>\<open>strings.Split(path, templateName)[1]\<close>: what stands between the first and the second occurrence of
  the name. An empty name splits a path of ASCII characters into its characters.
\<close>

definition second_piece :: "string \<Rightarrow> string \<Rightarrow> string option" where
  "second_piece s sep =
     (if sep = [] then (if length s < 2 then None else Some [s ! 1])
      else (case index_of s sep of
              None \<Rightarrow> None
            | Some i \<Rightarrow>
                (let rest = drop (i + length sep) s in
                 Some (case index_of rest sep of None \<Rightarrow> rest | Some j \<Rightarrow> take j rest))))"

text \<open>The function given to \<^verbatim>\<open>WalkDir\<close>; for a directory it tells whether to skip what is below.\<close>

definition visit_dir :: "string \<Rightarrow> string \<Rightarrow> ('db, bool) proj_step" where
  "visit_dir target n = (if isSkip n then ret True else andthen (mkdir_all target) (\<lambda>_. ret False))"

definition visit_file :: "'db proj_env \<Rightarrow> tvalues \<Rightarrow> string \<Rightarrow> string \<Rightarrow> string \<Rightarrow> ('db, unit) proj_step" where
  "visit_file pj vs target n c =
     (if isSkip n then ret ()
      else if hasTemplateExt n then applyTemplateAndCopyToTarget pj vs c target
      else copyToTarget c target (hasKeepExt n))"

text \<open>\<open>tf\<close> gives the target of a path; without one the index panics.\<close>

fun walk :: "'db proj_env \<Rightarrow> tvalues \<Rightarrow> (string \<Rightarrow> string option) \<Rightarrow> string \<Rightarrow> tpl \<Rightarrow> ('db, unit) proj_step"
  and walk_all :: "'db proj_env \<Rightarrow> tvalues \<Rightarrow> (string \<Rightarrow> string option) \<Rightarrow> string \<Rightarrow> tpl list \<Rightarrow> ('db, unit) proj_step" where
  "walk pj vs tf path (TFile n c) = (case tf path of None \<Rightarrow> fail panic_error | Some t \<Rightarrow> visit_file pj vs t n c)"
| "walk pj vs tf path (TDir n es) =
     (case tf path of
        None \<Rightarrow> fail panic_error
      | Some t \<Rightarrow> andthen (visit_dir t n) (\<lambda>skip. if skip then ret () else walk_all pj vs tf path es))"
| "walk_all pj vs tf path [] = ret ()"
| "walk_all pj vs tf path (e # es) =
     andthen (walk pj vs tf (filepath_Join [path, tpl_name e]) e) (\<lambda>_. walk_all pj vs tf path es)"

definition target_of :: "string \<Rightarrow> string \<Rightarrow> string \<Rightarrow> string option" where
  "target_of outputDir templateName path = map_option (\<lambda>r. filepath_Join [outputDir, r]) (second_piece path templateName)"

definition tpl_entries :: "tpl option \<Rightarrow> tpl list" where
  "tpl_entries t = (case t of Some (TDir n es) \<Rightarrow> es | _ \<Rightarrow> [])"

definition createProject :: "'db proj_env \<Rightarrow> string \<Rightarrow> string \<Rightarrow> ('db, unit) proj_step" where
  "createProject pj outputDir templateName = with_state (\<lambda>s.
     case ResolveTemplatePath (pj_place pj) templateName of
       None \<Rightarrow> fail panic_error
     | Some sourceDir \<Rightarrow>
         (let t = pw_templates (cs_world s) sourceDir in
          case loadValues pj (Properties_All (cs_props s)) (GetKeyValuesArg s ''placeholder'') (tpl_entries t) of
            Inl e \<Rightarrow> fail e
          | Inr vs \<Rightarrow>
              (case t of
                 None \<Rightarrow> fail (Errorf (''lstat '' @ sourceDir @ '': no such file or directory''))
               | Some tpl \<Rightarrow> walk pj vs (target_of outputDir templateName) sourceDir tpl)))"

definition ignore_error :: "('db, unit) proj_step \<Rightarrow> ('db, unit) proj_step" where
  "ignore_error f s = (case f s of (Inl e, s') \<Rightarrow> (Inl (if e = panic_error then e else IgnoreErr e), s') | r \<Rightarrow> r)"

definition Create_Exec :: "'db proj_env \<Rightarrow> ('db, unit) proj_step" where
  "Create_Exec pj =
     andthen (IncrementMetric ''total.project'') (\<lambda>_. with_state (\<lambda>s.
     let templateName = GetStringArg s ''templateName'';
         od = prop_string (pj_env pj) s ''output-dir'';
         outputDir = (if od = [] then templateName else od)
     in case Templates (pj_place pj) of
          None \<Rightarrow> fail panic_error
        | Some templatesDir \<Rightarrow>
            (let exists' = (pw_templates (cs_world s) (filepath_Join [templatesDir, templateName]) \<noteq> None);
                 q = [CHR 0x27] @ templateName @ [CHR 0x27];
                 fetch = (if exists'
                   then \<lparr>ProgressMsg = ''Updating the template'', SuccessMsg = ''Updated template '' @ q,
                         FailureMsg = ''Failed updating the template'',
                         Func = (\<lambda>_. ignore_error (updateTemplate pj templatesDir templateName))\<rparr>
                   else \<lparr>ProgressMsg = ''Retrieving the template'', SuccessMsg = ''Retrieved template '' @ q,
                         FailureMsg = ''Failed retrieving the template'',
                         Func = (\<lambda>_. cloneTemplate pj templatesDir templateName)\<rparr>);
                 create = \<lparr>ProgressMsg = ''Creating the project'', SuccessMsg = ''Created the project'',
                         FailureMsg = ''Failed creating the project'', Func = (\<lambda>_. createProject pj outputDir templateName)\<rparr>
             in andthen (Execute (pj_env pj) () () (Stage.NewFixedProvider [fetch, create])) (\<lambda>_.
                andthen (PrintlnUnnecessary (pj_env pj) []) (\<lambda>_.
                AddOutputRows (pj_env pj) [[Column ''Path'' TypeString (string_cell outputDir)]])))))"

subsection \<open>Listing templates (project_list_templates.go)\<close>

definition nextFetchTimeKey :: string where "nextFetchTimeKey = ''project.templates.nextFetchTime''"
definition templatesKey :: string where "templatesKey = ''project.templates''"

text \<open>Ten minutes, in nanoseconds.\<close>

definition cacheRefreshInterval :: int where "cacheRefreshInterval = 600 * 1000000000"

definition on_db :: "('db \<times> unit, 'a) eff \<Rightarrow> ('db, 'a) eff" where
  "on_db f db = (case f (db, ()) of (r, (db', _)) \<Rightarrow> (r, db'))"

definition lock_db :: "'db proj_env \<Rightarrow> ('db, 'a) eff \<Rightarrow> ('db, 'a) eff" where
  "lock_db pj f = on_db (WithLock (pj_badger pj) (\<lambda>(db, u). case f db of (r, db') \<Rightarrow> (r, (db', u))))"

definition updateNextFetchTime :: "'db proj_env \<Rightarrow> ('db, unit) eff" where
  "updateNextFetchTime pj =
     SetEntry (pj_badger pj) nextFetchTimeKey (itoa ((pj_now pj + cacheRefreshInterval) div 1000000000)) []"

definition shouldFetch :: "'db proj_env \<Rightarrow> ('db, bool) eff" where
  "shouldFetch pj db =
     (case lock_db pj (GetEntry (pj_badger pj) nextFetchTimeKey) db of
        (Inl e, db') \<Rightarrow> if err_is e ''key not found'' then (Inr True, db') else (Inl e, db')
      | (Inr v, db') \<Rightarrow>
          (case parse_int 10 64 v of
             Inl e \<Rightarrow> (Inl (parse_int_error v e), db')
           | Inr t \<Rightarrow> (Inr (pj_now pj > t * 1000000000), db')))"

definition updateCache :: "'db proj_env \<Rightarrow> TemplateInfo list \<Rightarrow> ('db, unit) eff" where
  "updateCache pj ts = lock_db pj
     (andthen (DeleteEntriesWithPrefixes (pj_badger pj) [templatesKey]) (\<lambda>_.
      andthen (SetEntry (pj_badger pj) templatesKey (pj_marshal pj ts) []) (\<lambda>_. updateNextFetchTime pj)))"

definition listFromCache :: "'db proj_env \<Rightarrow> ('db, TemplateInfo list) eff" where
  "listFromCache pj =
     andthen (lock_db pj (GetEntry (pj_badger pj) templatesKey)) (\<lambda>b. lift_res (pj_unmarshal pj b))"

definition listLocalTemplates :: "'db proj_env \<Rightarrow> go_error + TemplateInfo list" where
  "listLocalTemplates pj =
     (case Templates (pj_place pj) of
        None \<Rightarrow> Inl panic_error
      | Some d \<Rightarrow>
          bind_res (paths_FindAll (pj_entries pj d) snd) (\<lambda>ts. Inr (map (\<lambda>t. \<lparr>ti_Name = t, ti_Source = ''local''\<rparr>) ts)))"

definition makeRepositoriesURL :: "'db proj_env \<Rightarrow> string" where
  "makeRepositoriesURL pj =
     ''https://api.github.com/users/'' @
     replace_all (CHR ''/'') [] (trim_prefix (templateOrgURL pj) ''https://github.com/'') @ ''/repos''"

fun template_infos :: "string option list \<Rightarrow> go_error + TemplateInfo list" where
  "template_infos [] = Inr []"
| "template_infos (None # ns) = Inl (Errorf ''error fetching repositories in the organization'')"
| "template_infos (Some n # ns) =
     (case split_on (CHR ''/'') n of
        owner # name # _ \<Rightarrow>
          bind_res (template_infos ns) (\<lambda>ts. Inr (\<lparr>ti_Name = name, ti_Source = ''github.com/'' @ owner\<rparr> # ts))
      | _ \<Rightarrow> Inl panic_error)"

definition fetchTemplates :: "'db proj_env \<Rightarrow> go_error + TemplateInfo list" where
  "fetchTemplates pj =
     bind_res (pj_http_get pj (makeRepositoriesURL pj)) (\<lambda>body. bind_res (pj_repos pj body) template_infos)"

definition listTemplates :: "'db proj_env \<Rightarrow> bool \<Rightarrow> bool \<Rightarrow> ('db, TemplateInfo list) eff" where
  "listTemplates pj isLocal isRefresh db =
     (if isLocal then (listLocalTemplates pj, db)
      else (let (r, db1) = shouldFetch pj db; fetch = (case r of Inl e \<Rightarrow> True | Inr b \<Rightarrow> b) in
            if fetch \<or> isRefresh
            then (case fetchTemplates pj of
                    Inl e \<Rightarrow> (Inl e, db1)
                  | Inr ts \<Rightarrow> listFromCache pj (snd (updateCache pj ts db1)))
            else listFromCache pj db1))"

definition template_row :: "TemplateInfo \<Rightarrow> row" where
  "template_row t = [Column ''Source'' TypeString (string_cell (ti_Source t)), Column ''Name'' TypeString (string_cell (ti_Name t))]"

definition on_store :: "('db, 'a) eff \<Rightarrow> ('db, 'a) proj_step" where
  "on_store f = on_world (\<lambda>w. case f (pw_db w) of (r, db) \<Rightarrow> (r, w\<lparr>pw_db := db\<rparr>))"

definition ListTemplates_Exec :: "'db proj_env \<Rightarrow> ('db, unit) proj_step" where
  "ListTemplates_Exec pj =
     andthen (IncrementMetric ''total.project'') (\<lambda>_. with_state (\<lambda>s.
     let isLocal = prop_bool s ''local''; isRefresh = prop_bool s ''refresh'' in
     if isLocal \<and> isRefresh then fail (Errorf ''refresh and local flags are mutually exclusive'')
     else andthen (ExecuteBlocking (on_store (listTemplates pj isLocal isRefresh))) (\<lambda>tss.
       if tss = [] then PrintlnUnnecessary (pj_env pj) ''No templates found.''
       else AddOutputRows (pj_env pj) (map template_row tss))))"

subsection \<open>A template is copied as it is\<close>

text \<open>
  The reference: the same visits, with the target of an entry made from the target of its directory
  and its own name.
\<close>

fun copy_tree :: "'db proj_env \<Rightarrow> tvalues \<Rightarrow> string \<Rightarrow> tpl \<Rightarrow> ('db, unit) proj_step"
  and copy_all :: "'db proj_env \<Rightarrow> tvalues \<Rightarrow> string \<Rightarrow> tpl list \<Rightarrow> ('db, unit) proj_step" where
  "copy_tree pj vs t (TFile n c) = visit_file pj vs t n c"
| "copy_tree pj vs t (TDir n es) = andthen (visit_dir t n) (\<lambda>skip. if skip then ret () else copy_all pj vs t es)"
| "copy_all pj vs t [] = ret ()"
| "copy_all pj vs t (e # es) = andthen (copy_tree pj vs (filepath_Join [t, tpl_name e]) e) (\<lambda>_. copy_all pj vs t es)"

text \<open>The absolute path with the given parts, and the relative one with a slash before each part.\<close>

definition path_str :: "string list \<Rightarrow> string" where
  "path_str ps = CHR ''/'' # join_with ''/'' ps"

definition rel :: "string list \<Rightarrow> string" where
  "rel xs = concat (map (\<lambda>x. CHR ''/'' # x) xs)"

definition occurs :: "string \<Rightarrow> string \<Rightarrow> bool" where
  "occurs sub s \<longleftrightarrow> index_of s sub \<noteq> None"

text \<open>Names that are plain and do not contain the name of the template.\<close>

fun names_ok :: "string \<Rightarrow> tpl \<Rightarrow> bool" where
  "names_ok name (TFile n c) \<longleftrightarrow> plain_part n \<and> \<not> occurs name n"
| "names_ok name (TDir n es) \<longleftrightarrow> plain_part n \<and> \<not> occurs name n \<and> list_all (names_ok name) es"

lemma clean_ok_plain: "clean_ok rooted ps \<Longrightarrow> plain_part p \<Longrightarrow> clean_ok rooted (ps @ [p])"
  using clean_step_ok [of rooted ps p] by (simp add: plain_part_def clean_step_def)

lemma clean_parts_path_str: "clean_ok True ps \<Longrightarrow> ps \<noteq> [] \<Longrightarrow> clean_parts (path_str ps) = ps"
  using split_join_clean [of True ps] clean_fold_id [of True ps]
  by (simp add: clean_parts_def path_str_def is_abs_def clean_step_def [of True "[]" "[]"])

lemma Join_path_str:
  assumes "clean_ok True ps" "ps \<noteq> []" "plain_part p"
  shows "filepath_Join [path_str ps, p] = path_str (ps @ [p])"
proof -
  have "clean_parts (path_str ps @ CHR ''/'' # p) = ps @ [p]"
    using clean_parts_plain [OF assms(3), of "path_str ps"] clean_parts_path_str [OF assms(1,2)]
    by (simp add: clean_parts_def is_abs_def path_str_def)
  then show ?thesis by (simp add: filepath_Join_def path_str_def filepath_Clean_def is_abs_def)
qed

lemma Clean_same: "clean_parts p = clean_parts q \<Longrightarrow> is_abs p = is_abs q \<Longrightarrow> filepath_Clean p = filepath_Clean q"
  by (simp add: filepath_Clean_def)

lemma Join_rel:
  assumes "out \<noteq> []" "plain_part c"
  shows "filepath_Join [out, rel (xs @ [c])] = filepath_Join [filepath_Join [out, rel xs], c]"
proof -
  let ?s = "out @ CHR ''/'' # rel xs"
  have j: "filepath_Join [out, rel ys] = filepath_Clean (out @ CHR ''/'' # rel ys)" for ys
    using assms(1) by (simp add: filepath_Join_def)
  have ne: "filepath_Clean ?s \<noteq> []"
    using clean_parts_ok [of ?s] by (cases "clean_parts ?s") (auto simp: filepath_Clean_def Let_def dot_def join_with_Cons clean_ok_def)
  have a: "is_abs (?s @ CHR ''/'' # c) = is_abs ?s" using assms(1) by (cases out) (auto simp: is_abs_def)
  have "clean_parts (out @ CHR ''/'' # rel (xs @ [c])) = clean_parts ?s @ [c]"
    using clean_parts_plain [OF assms(2), of ?s] a by (simp add: rel_def) (simp add: clean_parts_def)
  moreover have "is_abs (out @ CHR ''/'' # rel (xs @ [c])) = is_abs ?s" using a by (simp add: rel_def)
  moreover note Join_plain [OF ne assms(2)]
  ultimately show ?thesis
    unfolding j using Clean_same [of "out @ CHR ''/'' # rel (xs @ [c])" "filepath_Clean ?s @ CHR ''/'' # c"] ne
    by (simp add: filepath_Join_def clean_parts_Clean is_abs_Clean)
qed

text \<open>A name without a slash occurs in a path only within a part.\<close>

lemma has_prefix_no_slash: "CHR ''/'' \<notin> set p \<Longrightarrow> has_prefix (a @ CHR ''/'' # b) p \<longleftrightarrow> has_prefix a p"
  by (auto simp: has_prefix_iff append_eq_append_conv2 Cons_eq_append_conv append_eq_Cons_conv)

lemma index_of_slash:
  assumes "p \<noteq> []" "CHR ''/'' \<notin> set p"
  shows "index_of (a @ CHR ''/'' # b) p =
    (case index_of a p of Some i \<Rightarrow> Some i | None \<Rightarrow> map_option (\<lambda>i. Suc (length a + i)) (index_of b p))"
proof (induction a)
  case Nil
  have "\<not> has_prefix (CHR ''/'' # b) p" using assms by (cases p) auto
  then show ?case using assms by (simp add: option.map_comp comp_def plus_nat.add_0)
next
  case (Cons x a)
  have "has_prefix (x # a @ CHR ''/'' # b) p = has_prefix (x # a) p" using has_prefix_no_slash [OF assms(2), of "x # a" b] by simp
  then show ?case using Cons by (auto simp: option.map_comp comp_def split: option.splits)
qed

lemma not_occurs_rel:
  "p \<noteq> [] \<Longrightarrow> CHR ''/'' \<notin> set p \<Longrightarrow> \<forall>x \<in> set xs. \<not> occurs p x \<Longrightarrow> \<not> occurs p a \<Longrightarrow> \<not> occurs p (a @ rel xs)"
proof (induction xs arbitrary: a)
  case (Cons x xs)
  have "\<not> occurs p (x @ rel xs)" using Cons by simp
  then show ?case using Cons.prems index_of_slash [of p a "x @ rel xs"] by (simp add: occurs_def rel_def)
qed (simp add: rel_def)

lemma not_occurs_Nil: "p \<noteq> [] \<Longrightarrow> \<not> occurs p []"
  by (simp add: occurs_def)

lemma join_rel: "join_with ''/'' (p # ps) = p @ rel ps"
  by (induction ps arbitrary: p) (simp_all add: rel_def)

lemma rel_append: "rel (xs @ ys) = rel xs @ rel ys"
  by (simp add: rel_def)

lemma path_str_rel: "ps \<noteq> [] \<Longrightarrow> path_str ps = rel ps"
  by (cases ps) (simp_all add: path_str_def join_rel rel_def)

lemma index_of_self: "p \<noteq> [] \<Longrightarrow> index_of (p @ r) p = Some 0"
  using has_prefix_append [of p r] by (cases "p @ r") auto

lemma second_piece_below:
  assumes "plain_part name" "\<forall>d \<in> set tds. \<not> occurs name d" "\<forall>x \<in> set xs. \<not> occurs name x"
  shows "second_piece (path_str (tds @ name # xs)) name = Some (rel xs)"
proof -
  have n: "name \<noteq> []" "CHR ''/'' \<notin> set name" using assms(1) by (auto simp: plain_part_def)
  have td: "\<not> occurs name (rel tds)" using not_occurs_rel [OF n assms(2) not_occurs_Nil [OF n(1)]] by simp
  have p: "path_str (tds @ name # xs) = rel tds @ CHR ''/'' # name @ rel xs"
    by (subst path_str_rel) (simp_all add: rel_append, simp add: rel_def)
  have "index_of (name @ rel xs) name = Some 0" using index_of_self n(1) by blast
  then have i: "index_of (path_str (tds @ name # xs)) name = Some (length (rel tds) + 1)"
    using td index_of_slash [OF n, of "rel tds" "name @ rel xs"] by (simp add: p occurs_def)
  have "\<not> occurs name (rel xs)" using not_occurs_rel [OF n assms(3) not_occurs_Nil [OF n(1)]] by simp
  then show ?thesis using n(1) i by (simp add: second_piece_def p occurs_def)
qed

lemma plain_all: "list_all (names_ok name) es \<Longrightarrow> e \<in> set es \<Longrightarrow> plain_part (tpl_name e) \<and> \<not> occurs name (tpl_name e)"
  by (cases e) (auto simp: list_all_iff)

text \<open>Where the walk is, as parts: the directory of templates, the name, and the way down \<open>xs\<close>.\<close>

definition template_place :: "string list \<Rightarrow> string \<Rightarrow> string \<Rightarrow> bool" where
  "template_place tds name out \<longleftrightarrow>
     clean_ok True tds \<and> plain_part name \<and> out \<noteq> [] \<and> (\<forall>d \<in> set tds. \<not> occurs name d)"

lemma template_placeD:
  assumes "template_place tds name out"
  shows "clean_ok True tds" "plain_part name" "out \<noteq> []" "\<forall>d \<in> set tds. \<not> occurs name d"
  using assms by (simp_all add: template_place_def)

definition below :: "string \<Rightarrow> string list \<Rightarrow> bool" where
  "below name xs \<longleftrightarrow> (\<forall>x \<in> set xs. plain_part x \<and> \<not> occurs name x)"

lemma below_snoc: "below name xs \<Longrightarrow> plain_part x \<Longrightarrow> \<not> occurs name x \<Longrightarrow> below name (xs @ [x])"
  by (auto simp: below_def)

lemma clean_below: "template_place tds name out \<Longrightarrow> below name xs \<Longrightarrow> clean_ok True (tds @ name # xs)"
proof (induction xs rule: rev_induct)
  case Nil
  then show ?case using clean_ok_plain [OF template_placeD(1,2)] by simp
next
  case (snoc x xs)
  then show ?case using clean_ok_plain [of True "tds @ name # xs" x] by (simp add: below_def)
qed

lemma target_below: "template_place tds name out \<Longrightarrow> below name xs \<Longrightarrow> target_of out name (path_str (tds @ name # xs)) = Some (filepath_Join [out, rel xs])"
  using second_piece_below [OF template_placeD(2,4)] by (simp add: target_of_def below_def)

lemma walk_copies:
  assumes p: "template_place tds name out"
  shows "names_ok name e \<longrightarrow> (\<forall>xs. below name xs \<longrightarrow>
    walk pj vs (target_of out name) (path_str (tds @ name # xs @ [tpl_name e])) e =
    copy_tree pj vs (filepath_Join [out, rel (xs @ [tpl_name e])]) e)"
proof (induction e rule: tpl.induct)
  case (TFile n c)
  then show ?case using target_below [OF p, of "_ @ [n]"] below_snoc by simp
next
  case (TDir n es)
  show ?case
  proof (intro impI allI)
    fix xs assume ok: "names_ok name (TDir n es)" and b: "below name xs"
    have bn: "below name (xs @ [n])" using below_snoc [OF b] ok by simp
    have all: "walk_all pj vs (target_of out name) (path_str (tds @ name # xs @ [n])) fs = copy_all pj vs (filepath_Join [out, rel (xs @ [n])]) fs"
      if "set fs \<subseteq> set es" for fs
      using that
    proof (induction fs)
      case (Cons f fs)
      then have f: "f \<in> set es" "names_ok name f" "plain_part (tpl_name f)"
        using ok plain_all [of name es f] by (auto simp: list_all_iff)
      have "filepath_Join [path_str (tds @ name # xs @ [n]), tpl_name f] = path_str (tds @ name # (xs @ [n]) @ [tpl_name f])"
        using Join_path_str [OF clean_below [OF p bn] _ f(3)] by simp
      moreover have "filepath_Join [filepath_Join [out, rel (xs @ [n])], tpl_name f] = filepath_Join [out, rel ((xs @ [n]) @ [tpl_name f])]"
        using Join_rel [OF template_placeD(3) [OF p] f(3), of "xs @ [n]"] by simp
      ultimately show ?case using Cons TDir.IH [OF f(1), rule_format, OF f(2) bn] by simp
    qed simp
    show "walk pj vs (target_of out name) (path_str (tds @ name # xs @ [tpl_name (TDir n es)])) (TDir n es) =
        copy_tree pj vs (filepath_Join [out, rel (xs @ [tpl_name (TDir n es)])]) (TDir n es)"
      using target_below [OF p bn] all [of es] by (simp cong: if_cong)
  qed
qed

lemma walk_all_copies:
  assumes p: "template_place tds name out" and "list_all (names_ok name) es"
  shows "walk_all pj vs (target_of out name) (path_str (tds @ [name])) es = copy_all pj vs (filepath_Join [out, []]) es"
  using assms(2)
proof (induction es)
  case (Cons e es)
  have q: "plain_part (tpl_name e)" using Cons.prems plain_all [of name "e # es" e] by simp
  have "filepath_Join [path_str (tds @ [name]), tpl_name e] = path_str (tds @ name # [] @ [tpl_name e])"
    using Join_path_str [OF clean_below [OF p, of "[]"] _ q] by (simp add: below_def)
  moreover have "filepath_Join [filepath_Join [out, []], tpl_name e] = filepath_Join [out, rel ([] @ [tpl_name e])]"
    using Join_rel [OF template_placeD(3) [OF p] q, of "[]"] by (simp add: rel_def)
  ultimately show ?case using Cons walk_copies [OF p, rule_format, of e "[]" pj vs] by (simp add: below_def)
qed simp

lemma walk_root:
  assumes p: "template_place tds name out" and es: "list_all (names_ok name) es"
  shows "walk pj vs (target_of out name) (path_str (tds @ [name])) (TDir n es) = copy_tree pj vs (filepath_Join [out, []]) (TDir n es)"
  using target_below [OF p, of "[]"] walk_all_copies [OF p es, of pj vs] by (simp add: below_def rel_def cong: if_cong)

text \<open>
  C22: Creating a project copies the template as it is: when the name of the template is a plain file
  name that occurs in no other part of the paths, every directory and file of the template that is
  not skipped is made under the output directory at the place it has in the template, in order and
  up to the first error.
\<close>

theorem createProject_copies_template:
  assumes "template_place tds name out" "list_all (names_ok name) es"
    and "ResolveTemplatePath (pj_place pj) name = Some (path_str (tds @ [name]))"
    and "pw_templates (cs_world s) (path_str (tds @ [name])) = Some (TDir n es)"
    and "loadValues pj (Properties_All (cs_props s)) (GetKeyValuesArg s ''placeholder'') es = Inr vs"
  shows "createProject pj out name s = copy_tree pj vs (filepath_Join [out, []]) (TDir n es) s"
  using assms(3-5) walk_root [OF assms(1,2), of pj vs n]
  by (simp add: createProject_def with_state_def Let_def tpl_entries_def)

lemma split_on_snoc: "split_on c (s @ [c]) = split_on c s @ [[]]"
  using split_on_append [of c s "[]"] by simp

lemma clean_parts_slashes:
  "out \<noteq> [] \<Longrightarrow> filepath_Clean (out @ CHR ''/'' # ''/'') = filepath_Clean (out @ ''/'')"
proof (rule Clean_same)
  assume o: "out \<noteq> []"
  have a: "is_abs (out @ CHR ''/'' # ''/'') = is_abs out" "is_abs (out @ ''/'') = is_abs out"
    using o by (cases out; simp add: is_abs_def)+
  then show "is_abs (out @ CHR ''/'' # ''/'') = is_abs (out @ ''/'')" by simp
  have "split_on (CHR ''/'') (out @ CHR ''/'' # ''/'') = split_on (CHR ''/'') out @ [[], []]"
    using split_on_append [of "CHR ''/''" out "''/''"] by simp
  moreover have "split_on (CHR ''/'') (out @ ''/'') = split_on (CHR ''/'') out @ [[]]" by (rule split_on_snoc)
  ultimately show "clean_parts (out @ CHR ''/'' # ''/'') = clean_parts (out @ ''/'')"
    using a by (simp add: clean_parts_def clean_step_def)
qed

text \<open>
  The condition matters: the target is what stands between the first and the second occurrence of the
  name in the path.

  A template that has a plain file in its top directory whose name begins with the name of the
  template (a \<^verbatim>\<open>simple.txt\<close> in the template \<^verbatim>\<open>simple\<close>) cannot be used: the file is to be written where the
  output directory is, and the command fails.
\<close>

theorem name_in_file_name_fails:
  assumes "template_place tds name out" "n = name @ x" "plain_part n" "\<not> isSkip name" "\<not> isSkip n"
    "\<not> hasTemplateExt n" "\<not> hasKeepExt n"
    and "ResolveTemplatePath (pj_place pj) name = Some (path_str (tds @ [name]))"
    and "pw_templates (cs_world s) (path_str (tds @ [name])) = Some (TDir name (TFile n c # es))"
    and "loadValues pj (Properties_All (cs_props s)) (GetKeyValuesArg s ''placeholder'') (TFile n c # es) = Inr vs"
    and "pw_files (cs_world s) (filepath_Join [out, []]) = None"
  shows "fst (createProject pj out name s) = Inl (Errorf (''open '' @ filepath_Join [out, []] @ '': is a directory''))"
proof -
  note tp = template_placeD [OF assms(1)]
  let ?p = "path_str (tds @ [name])" and ?d = "filepath_Join [out, []]"
  have ne: "name \<noteq> []" "CHR ''/'' \<notin> set name" using tp(2) by (auto simp: plain_part_def)
  have root: "target_of out name ?p = Some ?d"
    using target_below [OF assms(1), of "[]"] by (simp add: below_def rel_def)
  have ok: "clean_ok True (tds @ [name])" using clean_below [OF assms(1), of "[]"] by (simp add: below_def)
  have path: "filepath_Join [?p, n] = rel tds @ CHR ''/'' # name @ CHR ''/'' # name @ x"
    using Join_path_str [OF ok _ assms(3)] assms(2)
    by (simp add: path_str_rel rel_append) (simp add: rel_def)
  have td: "index_of (rel tds) name = None"
    using not_occurs_rel [OF ne tp(4) not_occurs_Nil [OF ne(1)]] by (simp add: occurs_def)
  have i: "index_of (filepath_Join [?p, n]) name = Some (Suc (length (rel tds)))"
    using index_of_slash [OF ne, of "rel tds"] index_of_self [OF ne(1)] td by (simp add: path)
  have "index_of (CHR ''/'' # name @ x) name = Some 1"
    using index_of_slash [OF ne, of "[]" "name @ x"] index_of_self [OF ne(1), of x] ne(1) by simp
  then have "second_piece (filepath_Join [?p, n]) name = Some ''/''"
    using i ne(1) by (simp add: second_piece_def path)
  moreover have "filepath_Join [out, ''/''] = ?d"
    using tp(3) clean_parts_slashes by (simp add: filepath_Join_def)
  ultimately have t: "target_of out name (filepath_Join [?p, n]) = Some ?d" by (simp add: target_of_def)
  have m: "mkdir_all ?d s = (Inr (), s\<lparr>cs_world := (cs_world s)\<lparr>pw_dirs := List.insert ?d (pw_dirs (cs_world s))\<rparr>\<rparr>)"
    using assms(11) by (simp add: mkdir_all_def on_world_def)
  have "fst (walk pj vs (target_of out name) ?p (TDir name (TFile n c # es)) s) =
      Inl (Errorf (''open '' @ ?d @ '': is a directory''))"
    using assms(4-7) t root m
    by (simp add: visit_dir_def visit_file_def copyToTarget_def create_file_def on_world_def andthen_def ret_def)
  then show ?thesis
    using assms(8-10) by (simp add: createProject_def with_state_def tpl_entries_def Let_def)
qed

definition sample_proj :: "(string \<times> string) list proj_env" where
  "sample_proj = \<lparr>pj_env = sample_env, pj_place = sample_place, pj_yaml = (\<lambda>c. Inr []), pj_template = (\<lambda>c vs. (c, None)),
     pj_keys = (\<lambda>m. []), pj_clone = (\<lambda>p u w. (Inr (), w)), pj_open = (\<lambda>p w. None), pj_worktree = (\<lambda>p w. None),
     pj_pull = (\<lambda>p w. (Inr (), w)), pj_entries = (\<lambda>d. Inr []), pj_badger = alist_badger, pj_now = 1700000000 * 1000000000,
     pj_http_get = (\<lambda>u. Inr []), pj_repos = (\<lambda>b. Inr [Some ''hazelcast-templates/simple'']),
     pj_marshal = (\<lambda>ts. if ts = [] then ''[]'' else ''[simple]''),
     pj_unmarshal = (\<lambda>b. if b = ''[]'' then Inr [] else Inr [\<lparr>ti_Name = ''simple'', ti_Source = ''github.com/hazelcast-templates''\<rparr>])\<rparr>"

definition proj_state :: "tpl list \<Rightarrow> (string \<times> string) list proj_world cstate" where
  "proj_state es = \<lparr>cs_props = NewProperties, cs_args = [], cs_kwargs = Map.empty, cs_mode = ModeNonInteractive, cs_printer = None,
     cs_out = [], cs_metrics = [], cs_input = [], cs_sched = [], cs_connected = False,
     cs_world = \<lparr>pw_dirs = [], pw_files = Map.empty,
       pw_templates = [path_str [''h'', ''.hz'', ''templates'', ''simple''] \<mapsto> TDir ''simple'' es], pw_db = []\<rparr>\<rparr>"

lemma sample_place_ok: "template_place [''h'', ''.hz'', ''templates''] ''simple'' ''my''"
proof -
  have "clean_ok True [''h'', ''.hz'', ''templates'']"
    by (auto simp: clean_ok_def dot_def dotdot_def intro: exI [of _ "[''h'', ''.hz'', ''templates'']"])
  moreover have "plain_part ''simple''" "\<not> occurs ''simple'' ''h''" "\<not> occurs ''simple'' ''.hz''" "\<not> occurs ''simple'' ''templates''"
    unfolding occurs_def plain_part_def by code_simp+
  ultimately show ?thesis by (simp add: template_place_def)
qed

lemma sample_resolve:
  "ResolveTemplatePath (pj_place sample_proj) ''simple'' = Some (path_str ([''h'', ''.hz'', ''templates''] @ [''simple'']))"
proof -
  have "ResolveTemplatePath sample_place ''simple'' = Some (path_str [''h'', ''.hz'', ''templates'', ''simple''])" by code_simp
  then show ?thesis by (simp add: sample_proj_def)
qed

lemma sample_values:
  "defaults_of es = None \<Longrightarrow>
    loadValues sample_proj (Properties_All (cs_props (proj_state fs))) (GetKeyValuesArg (proj_state fs) ''placeholder'') es = Inr []"
  by (simp add: loadValues_def loadFromDefaults_def loadFromProps_def sample_proj_def GetKeyValuesArg_def proj_state_def
    maps_GetKeyValues_def GetValueIfExists_def)

lemma createProject_copies_template_witness:
  "createProject sample_proj ''my'' ''simple'' (proj_state [TFile ''README'' ''hi'', TDir ''src'' [TFile ''_x.keep'' ''y'']]) =
   copy_tree sample_proj [] (filepath_Join [''my'', []]) (TDir ''simple'' [TFile ''README'' ''hi'', TDir ''src'' [TFile ''_x.keep'' ''y'']])
     (proj_state [TFile ''README'' ''hi'', TDir ''src'' [TFile ''_x.keep'' ''y'']])"
proof (rule createProject_copies_template [OF sample_place_ok _ sample_resolve])
  show "list_all (names_ok ''simple'') [TFile ''README'' ''hi'', TDir ''src'' [TFile ''_x.keep'' ''y'']]"
    unfolding occurs_def by code_simp
qed (simp_all add: sample_values, simp add: proj_state_def)

lemma name_in_file_name_fails_witness:
  "fst (createProject sample_proj ''my'' ''simple'' (proj_state [TFile ''simple.txt'' ''hi''])) =
   Inl (Errorf (''open '' @ filepath_Join [''my'', []] @ '': is a directory''))"
proof (rule name_in_file_name_fails [OF sample_place_ok _ _ _ _ _ _ sample_resolve])
  show "''simple.txt'' = ''simple'' @ ''.txt''" by simp
  show "plain_part ''simple.txt''" "\<not> isSkip ''simple''" "\<not> isSkip ''simple.txt''" "\<not> hasTemplateExt ''simple.txt''"
    "\<not> hasKeepExt ''simple.txt''" by code_simp+
  show "loadValues sample_proj (Properties_All (cs_props (proj_state [TFile ''simple.txt'' ''hi''])))
      (GetKeyValuesArg (proj_state [TFile ''simple.txt'' ''hi'']) ''placeholder'') [TFile ''simple.txt'' ''hi''] = Inr []"
    by (rule sample_values) simp
qed (simp_all add: proj_state_def)

subsection \<open>The cache of templates\<close>

lemma lock_db_ok:
  assumes "badger_ok (pj_badger pj)"
  shows "\<exists>db1 r db2. f db1 = (r, db2) \<and> badger_lookup (pj_badger pj) db1 = badger_lookup (pj_badger pj) db \<and>
    lock_db pj f db = (r, bg_close (pj_badger pj) db2) \<and>
    badger_lookup (pj_badger pj) (bg_close (pj_badger pj) db2) = badger_lookup (pj_badger pj) db2"
proof -
  let ?fn = "\<lambda>(db, u :: unit). case f db of (r, db') \<Rightarrow> (r, (db', u))"
  obtain db1 r db2 u where o1: "?fn (db1, ()) = (r, db2, u)" "badger_lookup (pj_badger pj) db1 = badger_lookup (pj_badger pj) db"
    "WithLock (pj_badger pj) ?fn (db, ()) = (r, bg_close (pj_badger pj) db2, u)"
    "badger_lookup (pj_badger pj) (bg_close (pj_badger pj) db2) = badger_lookup (pj_badger pj) db2"
    using WithLock_ok [OF assms, where fn = ?fn and x = "()" and db = db] by auto
  then have "f db1 = (r, db2)" by (auto split: prod.splits)
  then show ?thesis using o1 by (auto simp: lock_db_def on_db_def)
qed

lemma lock_GetEntry:
  assumes "badger_ok (pj_badger pj)" "badger_lookup (pj_badger pj) db k = Some v"
  shows "\<exists>db'. lock_db pj (GetEntry (pj_badger pj) k) db = (Inr v, db') \<and> badger_lookup (pj_badger pj) db' = badger_lookup (pj_badger pj) db"
proof -
  obtain db1 r db2 where l: "GetEntry (pj_badger pj) k db1 = (r, db2)" "badger_lookup (pj_badger pj) db1 = badger_lookup (pj_badger pj) db"
    "lock_db pj (GetEntry (pj_badger pj) k) db = (r, bg_close (pj_badger pj) db2)"
    "badger_lookup (pj_badger pj) (bg_close (pj_badger pj) db2) = badger_lookup (pj_badger pj) db2"
    using lock_db_ok [OF assms(1)] by blast
  then have "r = Inr v" "db2 = db1" using GetEntry_lookup [OF assms(1), of k db1] assms(2) by simp_all
  then show ?thesis using l by auto
qed

text \<open>Both entries are there after an update, whatever was in the database.\<close>

lemma updateCache_entries:
  assumes "badger_ok (pj_badger pj)"
  shows "\<exists>db'. updateCache pj ts db = (Inr (), db') \<and>
    badger_lookup (pj_badger pj) db' templatesKey = Some (pj_marshal pj ts) \<and>
    badger_lookup (pj_badger pj) db' nextFetchTimeKey = Some (itoa ((pj_now pj + cacheRefreshInterval) div 1000000000))"
proof -
  let ?bg = "pj_badger pj" and ?now = "itoa ((pj_now pj + cacheRefreshInterval) div 1000000000)"
  let ?f = "andthen (DeleteEntriesWithPrefixes ?bg [templatesKey]) (\<lambda>_.
      andthen (SetEntry ?bg templatesKey (pj_marshal pj ts) []) (\<lambda>_. updateNextFetchTime pj))"
  have run: "\<exists>d. ?f d0 = (Inr (), d) \<and> badger_lookup ?bg d templatesKey = Some (pj_marshal pj ts) \<and>
      badger_lookup ?bg d nextFetchTimeKey = Some ?now" for d0
  proof -
    obtain d1 where d1: "bg_drop ?bg [templatesKey] d0 = (Inr (), d1)" using assms unfolding badger_ok_def by meson
    obtain d2 where d2: "SetEntry ?bg templatesKey (pj_marshal pj ts) [] d1 = (Inr (), d2)"
      "badger_lookup ?bg d2 templatesKey = Some (pj_marshal pj ts)" using SetEntry_lookup [OF assms] by metis
    obtain d3 where d3: "SetEntry ?bg nextFetchTimeKey ?now [] d2 = (Inr (), d3)"
      "badger_lookup ?bg d3 k = (if k = nextFetchTimeKey then Some ?now else badger_lookup ?bg d2 k)" for k
      using SetEntry_lookup [OF assms, of nextFetchTimeKey ?now "[]" d2] by blast
    have "templatesKey \<noteq> nextFetchTimeKey" by (simp add: templatesKey_def nextFetchTimeKey_def)
    then show ?thesis
      using d1 d2 d3 by (simp add: andthen_def DeleteEntriesWithPrefixes_def updateNextFetchTime_def)
  qed
  obtain d0 r d where l: "?f d0 = (r, d)" "lock_db pj ?f db = (r, bg_close ?bg d)"
    "badger_lookup ?bg (bg_close ?bg d) = badger_lookup ?bg d" using lock_db_ok [OF assms, of ?f db] by blast
  then show ?thesis using run [of d0] by (auto simp: updateCache_def)
qed

text \<open>
  After the templates were fetched and cached, listing them for the next ten minutes (up to the
  full second) neither fails nor fetches: it returns the cached templates, whatever the database
  held before the update.
\<close>

theorem cache_serves_ten_minutes:
  assumes "badger_ok (pj_badger pj)" "pj_unmarshal pj (pj_marshal pj ts) = Inr ts"
    and "0 \<le> pj_now pj" "pj_now pj + cacheRefreshInterval < 2 ^ 63"
    and "later \<le> (pj_now pj + cacheRefreshInterval) div 1000000000 * 1000000000"
  shows "\<exists>db1 db2. updateCache pj ts db = (Inr (), db1) \<and> listTemplates (pj\<lparr>pj_now := later\<rparr>) False False db1 = (Inr ts, db2)"
proof -
  let ?t = "(pj_now pj + cacheRefreshInterval) div 1000000000" and ?pj = "pj\<lparr>pj_now := later\<rparr>"
  have bg: "pj_badger ?pj = pj_badger pj" by simp
  obtain db1 where u: "updateCache pj ts db = (Inr (), db1)" "badger_lookup (pj_badger pj) db1 templatesKey = Some (pj_marshal pj ts)"
    "badger_lookup (pj_badger pj) db1 nextFetchTimeKey = Some (itoa ?t)" using updateCache_entries [OF assms(1)] by blast
  obtain db2 where g1: "lock_db ?pj (GetEntry (pj_badger pj) nextFetchTimeKey) db1 = (Inr (itoa ?t), db2)"
    "badger_lookup (pj_badger pj) db2 = badger_lookup (pj_badger pj) db1"
    using lock_GetEntry [of ?pj, unfolded bg, OF assms(1) u(3)] by blast
  obtain db3 where g2: "lock_db ?pj (GetEntry (pj_badger pj) templatesKey) db2 = (Inr (pj_marshal pj ts), db3)"
    using lock_GetEntry [of ?pj, unfolded bg, OF assms(1), of db2 templatesKey] u(2) g1(2) by auto
  have "0 \<le> ?t" "?t < 2 ^ 63"
    using assms(3,4) by (simp_all add: cacheRefreshInterval_def div_less_iff_less_mult pos_imp_zdiv_nonneg_iff)
  then have "parse_int 10 64 (itoa ?t) = Inr ?t" using parse_int_format [of 10 64 ?t] by simp
  then have "shouldFetch ?pj db1 = (Inr False, db2)"
    using g1(1) assms(5) by (simp add: shouldFetch_def)
  then show ?thesis
    using u(1) g2 assms(2) by (simp add: listTemplates_def listFromCache_def andthen_def lift_res_step)
qed

lemma cache_serves_ten_minutes_witness:
  "\<exists>db1 db2. updateCache sample_proj [] [] = (Inr (), db1) \<and>
    listTemplates (sample_proj\<lparr>pj_now := 1700000599 * 1000000000\<rparr>) False False db1 = (Inr [], db2)"
  by (rule cache_serves_ten_minutes) (simp_all add: sample_proj_def alist_badger_ok cacheRefreshInterval_def)

subsection \<open>Which value a placeholder gets\<close>

lemma update_user:
  "updatePropsWithUserValues user p = Inr vs \<Longrightarrow>
    map_of vs k = (case map_of (rev user) k of Some v \<Rightarrow> Some v | None \<Rightarrow> map_of p k)"
  by (induction user p rule: updatePropsWithUserValues.induct)
    (auto simp: AList.update_conv' map_add_def split: if_splits option.splits)

lemma load_props:
  fixes ks :: "string list"
  defines "step \<equiv> \<lambda>pj all0 p k. case all0 k of None \<Rightarrow> p | Some v \<Rightarrow> AList.update (convertToSnakeCase k) (Sprint pj v) p"
  shows "if \<exists>q \<in> set ks. convertToSnakeCase q = k \<and> all0 q \<noteq> None
    then \<exists>q \<in> set ks. \<exists>v. all0 q = Some v \<and> convertToSnakeCase q = k \<and> map_of (foldl (step pj all0) p ks) k = Some (Sprint pj v)
    else map_of (foldl (step pj all0) p ks) k = map_of p k"
proof (induction ks rule: rev_induct)
  case (snoc q ks)
  show ?case
  proof (cases "convertToSnakeCase q = k \<and> all0 q \<noteq> None")
    case True
    then show ?thesis by (auto simp: step_def AList.update_conv')
  next
    case False
    then have "map_of (foldl (step pj all0) p (ks @ [q])) k = map_of (foldl (step pj all0) p ks) k"
      by (auto simp: step_def AList.update_conv' split: option.splits)
    then show ?thesis using snoc False by (auto split: if_splits)
  qed
qed simp

text \<open>
  C28: The values for the placeholders come from the three sources in the documented order: the last
  value the user gave for a key wins; otherwise a property of the configuration or of the command line
  whose name in snake case is the key (one of them, when several names give the same key); otherwise
  the default of the template, if there is one.
\<close>

theorem placeholder_precedence:
  assumes "loadValues pj all0 user es = Inr vs" "set (pj_keys pj all0) = dom all0"
  shows "case map_of (rev user) k of
      Some v \<Rightarrow> map_of vs k = Some v
    | None \<Rightarrow>
        if \<exists>q \<in> dom all0. convertToSnakeCase q = k
        then \<exists>q v. all0 q = Some v \<and> convertToSnakeCase q = k \<and> map_of vs k = Some (Sprint pj v)
        else \<exists>ds. loadFromDefaults pj es = Inr ds \<and> map_of vs k = map_of ds k"
proof -
  obtain ds where d: "loadFromDefaults pj es = Inr ds" "updatePropsWithUserValues user (loadFromProps pj all0 ds) = Inr vs"
    using assms(1) by (auto simp: loadValues_def bind_res_Inr_iff)
  have u: "map_of vs k = (case map_of (rev user) k of Some v \<Rightarrow> Some v | None \<Rightarrow> map_of (loadFromProps pj all0 ds) k)"
    by (rule update_user [OF d(2)])
  show ?thesis
  proof (cases "map_of (rev user) k")
    case None
    have "(\<exists>q \<in> set (pj_keys pj all0). convertToSnakeCase q = k \<and> all0 q \<noteq> None) \<longleftrightarrow> (\<exists>q \<in> dom all0. convertToSnakeCase q = k)"
      using assms(2) by auto
    then show ?thesis
      using load_props [of "pj_keys pj all0" k all0 pj ds] u None d(1) unfolding loadFromProps_def by (auto split: if_splits)
  qed (use u in simp)
qed

lemma placeholder_precedence_witness:
  "\<exists>vs. loadValues (sample_proj\<lparr>pj_keys := (\<lambda>m. [''cluster.name''])\<rparr>) [''cluster.name'' \<mapsto> VString ''dev''] [(''x'', ''1''), (''x'', ''2'')] [] = Inr vs \<and>
     map_of vs ''cluster_name'' = Some ''dev''"
proof -
  let ?pj = "sample_proj\<lparr>pj_keys := (\<lambda>m. [''cluster.name''])\<rparr>"
  let ?all = "[''cluster.name'' \<mapsto> VString ''dev'']"
  have k: "convertToSnakeCase ''cluster.name'' = ''cluster_name''" "validKey ''x''" by code_simp+
  obtain vs where vs: "loadValues ?pj ?all [(''x'', ''1''), (''x'', ''2'')] [] = Inr vs"
    using k(2) by (simp add: loadValues_def loadFromDefaults_def)
  have "case map_of (rev [(''x'', ''1''), (''x'', ''2'')]) ''cluster_name'' of
      Some v \<Rightarrow> map_of vs ''cluster_name'' = Some v
    | None \<Rightarrow>
        if \<exists>q \<in> dom ?all. convertToSnakeCase q = ''cluster_name''
        then \<exists>q v. ?all q = Some v \<and> convertToSnakeCase q = ''cluster_name'' \<and> map_of vs ''cluster_name'' = Some (Sprint ?pj v)
        else \<exists>ds. loadFromDefaults ?pj [] = Inr ds \<and> map_of vs ''cluster_name'' = map_of ds ''cluster_name''"
    by (rule placeholder_precedence [OF vs]) simp
  then have "map_of vs ''cluster_name'' = Some ''dev''" using k(1) by (auto simp: Sprint_def split: if_splits)
  then show ?thesis using vs by blast
qed

text \<open>The nested maps that \<open>parseYAML\<close> goes down into are never accepted: their joined keys are not valid.\<close>

lemma nested_default_rejected:
  "prefix \<noteq> [] \<Longrightarrow> \<not> validKey (joinKeys prefix key)"
  by (simp add: joinKeys_def validKey_def list_all_iff key_char_def is_digit_def)

end
