(* ===== verification/CommandInits.thy ===== *)
theory CommandInits
  imports Program Jobs
begin

section \<open>The declarations of the commands (base/commands)\<close>

text \<open>
  Every command's \<open>Init\<close>: the usage, the help, the group, the flags and the arguments it declares, in
  the order of the code, as operations on the \<^typ>\<open>CommandContext\<close>. The texts that only explain a
  single flag are left out, as \<^const>\<open>AddStringFlag\<close> and its like have none. A definition is named after
  the package, the type of the command and \<open>Init\<close>; a long help text is a definition of its own.
\<close>

definition text_lines :: "string list \<Rightarrow> string" where
  "text_lines ls = join_with [CHR 0x0A] ls"

text \<open>A declaration that panics when its bounds are the wrong way round.\<close>

definition may_panic :: "CommandContext option \<Rightarrow> go_error + CommandContext" where
  "may_panic r = (case r of None \<Rightarrow> Inl panic_error | Some cc \<Rightarrow> Inr cc)"

definition hzTemplatesOrganization :: string where
  "hzTemplatesOrganization = ''https://github.com/hazelcast-templates''"

definition AddKeyTypeFlag :: "CommandContext \<Rightarrow> CommandContext" where
  "AddKeyTypeFlag cc = AddStringFlag cc ''key-type'' ''k'' ''string'' False"

definition AddValueTypeFlag :: "CommandContext \<Rightarrow> CommandContext" where
  "AddValueTypeFlag cc = AddStringFlag cc ''value-type'' ''v'' ''string'' False"

subsection \<open>base/commands\<close>

definition DestroyCommand_long :: "string \<Rightarrow> string" where
  "DestroyCommand_long typeName =
     text_lines
       [''Destroy a '' @ typeName,
        [],
        ''This command will delete the '' @ typeName @ '' and the data in it will not be available anymore.'']"

definition DestroyCommand_Init :: "string \<Rightarrow> CommandContext \<Rightarrow> go_error + CommandContext" where
  "DestroyCommand_Init typeName cc =
     (let cc = SetCommandUsage cc ''destroy'';
          cc = SetCommandHelp cc (DestroyCommand_long typeName) (''Destroy a '' @ typeName);
          cc = AddBoolFlag cc ''yes'' [] False False
      in Inr cc)"

definition ClearCommand_Init :: "string \<Rightarrow> CommandContext \<Rightarrow> go_error + CommandContext" where
  "ClearCommand_Init typeName cc =
     (let cc = SetCommandUsage cc ''clear'';
          cc = SetCommandHelp cc (''Deletes all entries of a '' @ typeName) (''Deletes all entries of a '' @ typeName);
          cc = AddBoolFlag cc ''yes'' [] False False
      in Inr cc)"

definition SizeCommand_Init :: "string \<Rightarrow> CommandContext \<Rightarrow> go_error + CommandContext" where
  "SizeCommand_Init typeName cc =
     (let cc = SetCommandUsage cc ''size'';
          cc = SetCommandHelp cc (''Returns the size of the given '' @ typeName) (''Returns the size of the given '' @ typeName)
      in Inr cc)"

definition HomeCommand_long :: string where
  "HomeCommand_long =
     text_lines
       [''Print the CLC home directory'',
        [CHR 0x09],
        ''If given, the arguments are joined as sub-paths.'',
        [CHR 0x09],
        ''Example:'',
        [CHR 0x09] @ ''$ clc home foo bar'',
        [CHR 0x09] @ ''/home/user/.hazelcast/foo/bar'',
        []]"

definition HomeCommand_Init :: "CommandContext \<Rightarrow> go_error + CommandContext" where
  "HomeCommand_Init cc =
     (let cc = SetCommandUsage cc ''home'';
          cc = SetCommandHelp cc HomeCommand_long ''Print the CLC home directory''
      in may_panic (AddStringSliceArg cc ''subpath'' ''subpath'' 0 65535))"

definition MapEntrySetCommand_Init :: "string \<Rightarrow> CommandContext \<Rightarrow> go_error + CommandContext" where
  "MapEntrySetCommand_Init typeName cc =
     (let cc = SetCommandUsage cc ''entry-set'';
          cc = SetCommandHelp cc (''Get all entries of a '' @ typeName) (''Get all entries of a '' @ typeName)
      in Inr cc)"

definition MapGetCommand_Init :: "string \<Rightarrow> CommandContext \<Rightarrow> go_error + CommandContext" where
  "MapGetCommand_Init typeName cc =
     (let cc = SetCommandUsage cc ''get'';
          cc = AddKeyTypeFlag cc;
          cc = SetCommandHelp cc (''Get a value from the given '' @ typeName) (''Get a value from the given '' @ typeName);
          cc = AddStringArg cc ''key'' ''key''
      in Inr cc)"

definition MapKeySetCommand_Init :: "string \<Rightarrow> CommandContext \<Rightarrow> go_error + CommandContext" where
  "MapKeySetCommand_Init typeName cc =
     (let cc = SetCommandUsage cc ''key-set'';
          cc = SetCommandHelp cc (''Get all keys of a '' @ typeName) (''Get all keys of a '' @ typeName)
      in Inr cc)"

definition MapRemoveCommand_Init :: "string \<Rightarrow> CommandContext \<Rightarrow> go_error + CommandContext" where
  "MapRemoveCommand_Init typeName cc =
     (let cc = SetCommandUsage cc ''remove'';
          cc = AddKeyTypeFlag cc;
          cc = SetCommandHelp cc (''Remove a value from the given '' @ typeName) (''Remove a value from the given '' @ typeName);
          cc = AddStringArg cc ''key'' ''key''
      in Inr cc)"

definition LockCommand_long :: "string \<Rightarrow> string" where
  "LockCommand_long typeName =
     text_lines
       [''Lock a key in the given '' @ typeName,
        [],
        ''This command is only available in the interactive mode.'']"

definition LockCommand_Init :: "string \<Rightarrow> CommandContext \<Rightarrow> go_error + CommandContext" where
  "LockCommand_Init typeName cc =
     (let cc = SetCommandUsage cc ''lock'';
          cc = SetCommandHelp cc (LockCommand_long typeName) (''Lock a key in the given '' @ typeName);
          cc = AddKeyTypeFlag cc;
          cc = AddIntFlag cc ''ttl'' [] (-1) False;
          cc = AddStringArg cc ''key'' ''key''
      in Inr cc)"

definition MapTryLockCommand_long :: "string \<Rightarrow> string" where
  "MapTryLockCommand_long typeName =
     text_lines
       [''Try to lock a key in the given '' @ typeName,
        [],
        ''Returns the result without waiting for the lock to be unlocked.'',
        [],
        ''This command is only available in the interactive mode.'']"

definition MapTryLockCommand_Init :: "string \<Rightarrow> CommandContext \<Rightarrow> go_error + CommandContext" where
  "MapTryLockCommand_Init typeName cc =
     (let cc = SetCommandUsage cc ''try-lock'';
          cc = SetCommandHelp cc (MapTryLockCommand_long typeName) (''Try to lock a key in the given '' @ typeName);
          cc = AddKeyTypeFlag cc;
          cc = AddIntFlag cc ''ttl'' [] (-1) False;
          cc = AddStringArg cc ''key'' ''key''
      in Inr cc)"

definition MapUnlockCommand_long :: "string \<Rightarrow> string" where
  "MapUnlockCommand_long typeName =
     text_lines
       [''Unlock a key in the given '' @ typeName,
        [],
        ''This command is only available in the interactive mode.'']"

definition MapUnlockCommand_Init :: "string \<Rightarrow> CommandContext \<Rightarrow> go_error + CommandContext" where
  "MapUnlockCommand_Init typeName cc =
     (let cc = SetCommandUsage cc ''unlock'';
          cc = SetCommandHelp cc (MapUnlockCommand_long typeName) (''Unlock a key in the given '' @ typeName);
          cc = AddKeyTypeFlag cc;
          cc = AddStringArg cc ''key'' ''key''
      in Inr cc)"

definition MapValuesCommand_Init :: "string \<Rightarrow> CommandContext \<Rightarrow> go_error + CommandContext" where
  "MapValuesCommand_Init typeName cc =
     (let cc = SetCommandUsage cc ''values'';
          cc = SetCommandHelp cc (''Get all values of a '' @ typeName) (''Get all values of a '' @ typeName)
      in Inr cc)"

definition ScriptCommand_long :: string where
  "ScriptCommand_long =
     text_lines
       [''Runs the script in the given local or HTTP location.'',
        [CHR 0x09],
        ''The script can contain:'',
        [CHR 0x09] @ ''1. SQL statements'',
        [CHR 0x09] @ ''2. CLC commands prefixed with backslash.'',
        [CHR 0x09] @ ''3. Comments starting with -- (double dash)'',
        [],
        ''The script should have either .clc or .sql extension.'',
        ''Files with one of these two extensions are interpreted equivalently.'',
        [CHR 0x09],
        ''See examples/sql/dessert.sql for a sample script.'',
        []]"

definition ScriptCommand_Init :: "CommandContext \<Rightarrow> go_error + CommandContext" where
  "ScriptCommand_Init cc =
     (let cc = SetCommandUsage cc ''script'';
          cc = SetCommandHelp cc ScriptCommand_long ''Runs the given script'';
          cc = AddBoolFlag cc ''ignore-errors'' [] False False;
          cc = AddBoolFlag cc ''echo'' [] False False
      in may_panic (AddStringSliceArg cc ''path'' ''path'' 0 1))"

definition ShellCommand_Init :: "CommandContext \<Rightarrow> go_error + CommandContext" where
  "ShellCommand_Init cc =
     (let cc = SetCommandUsage cc ''shell'';
          cc = SetCommandHelp cc ''Start the interactive shell'' ''Start the interactive shell'';
          cc = Hide cc
      in Inr cc)"

definition VersionCommand_Init :: "CommandContext \<Rightarrow> go_error + CommandContext" where
  "VersionCommand_Init cc =
     (let cc = SetCommandUsage cc ''version'';
          cc = SetCommandHelp cc ''Print the version'' ''Print the version''
      in Inr cc)"

subsection \<open>base/commands/atomic_long\<close>

definition atomic_long_Command_Init :: "CommandContext \<Rightarrow> go_error + CommandContext" where
  "atomic_long_Command_Init cc =
     (let cc = SetCommandUsage cc ''atomic-long'';
          cc = AddCommandGroup cc ''dds'' ''Distributed Data Structures'';
          cc = SetCommandGroup cc ''dds'';
          cc = SetTopLevel cc True;
          cc = SetCommandHelp cc ''AtomicLong operations'' ''AtomicLong operations'';
          cc = AddStringFlag cc ''name'' ''n'' ''default'' False
      in Inr cc)"

definition atomic_long_DecrementGetCommand_Init :: "CommandContext \<Rightarrow> go_error + CommandContext" where
  "atomic_long_DecrementGetCommand_Init cc =
     (let cc = SetCommandUsage cc ''decrement-get'';
          cc = SetCommandHelp cc ''Decrement the AtomicLong by the given value'' ''Decrement the AtomicLong by the given value'';
          cc = AddIntFlag cc ''by'' [] 1 False
      in Inr cc)"

definition atomic_long_GetCommand_Init :: "CommandContext \<Rightarrow> go_error + CommandContext" where
  "atomic_long_GetCommand_Init cc =
     (let cc = SetCommandUsage cc ''get'';
          cc = SetCommandHelp cc ''Get the value of the AtomicLong'' ''Get the value of the AtomicLong''
      in Inr cc)"

definition atomic_long_IncrementGetCommand_Init :: "CommandContext \<Rightarrow> go_error + CommandContext" where
  "atomic_long_IncrementGetCommand_Init cc =
     (let cc = SetCommandUsage cc ''increment-get'';
          cc = SetCommandHelp cc ''Increment the AtomicLong by the given value'' ''Increment the AtomicLong by the given value'';
          cc = AddIntFlag cc ''by'' [] 1 False
      in Inr cc)"

definition atomic_long_SetCommand_Init :: "CommandContext \<Rightarrow> go_error + CommandContext" where
  "atomic_long_SetCommand_Init cc =
     (let cc = SetCommandUsage cc ''set'';
          cc = SetCommandHelp cc ''Set the value of the AtomicLong'' ''Set the value of the AtomicLong'';
          cc = AddInt64Arg cc ''value'' ''value''
      in Inr cc)"

subsection \<open>base/commands/config\<close>

definition config_Command_Init :: "CommandContext \<Rightarrow> go_error + CommandContext" where
  "config_Command_Init cc =
     (let cc = SetCommandUsage cc ''config'';
          cc = SetTopLevel cc True;
          cc = SetCommandHelp cc ''Show, add or change configuration'' ''Show, add or change configuration''
      in Inr cc)"

definition config_AddCommand_long :: string where
  "config_AddCommand_long =
     text_lines
       [''Adds a configuration with the given KEY=VALUE pairs and saves it with configuration name.'',
        [CHR 0x09],
        ''Overrides the previous configuration if it exists.'',
        [CHR 0x09],
        ''The following keys are supported:'',
        [CHR 0x09],
        [CHR 0x09] @ ''* cluster.name             STRING'',
        [CHR 0x09] @ ''* cluster.address          STRING'',
        [CHR 0x09] @ ''* cluster.user             STRING'',
        [CHR 0x09] @ ''* cluster.password         STRING'',
        [CHR 0x09] @ ''* cluster.discovery-token  STRING'',
        [CHR 0x09] @ ''* cluster.api-base         STRING'',
        [CHR 0x09] @ ''* cluster.viridian-id      STRING'',
        [CHR 0x09] @ ''* ssl.enabled              BOOLEAN (true / false)'',
        [CHR 0x09] @ ''* ssl.server               STRING'',
        [CHR 0x09] @ ''* ssl.skip-verify          BOOLEAN (true / false)'',
        [CHR 0x09] @ ''* ssl.ca-path              STRING'',
        [CHR 0x09] @ ''* ssl.key-path             STRING'',
        [CHR 0x09] @ ''* ssl.key-password         STRING'',
        [CHR 0x09] @ ''* log.path                 STRING'',
        [CHR 0x09] @ ''* log.level                ENUM (error / warn / info / debug)'',
        [CHR 0x09],
        []]"

definition config_AddCommand_Init :: "CommandContext \<Rightarrow> go_error + CommandContext" where
  "config_AddCommand_Init cc =
     (let cc = SetCommandUsage cc ''add'';
          cc = SetCommandHelp cc config_AddCommand_long ''Adds a configuration'';
          cc = AddStringArg cc ''configName'' ''configuration name''
      in may_panic (AddStringSliceArg cc ''keyValues'' ''key=value'' 0 MaxInt))"

definition config_ImportCommand_long :: string where
  "config_ImportCommand_long =
     text_lines
       [''Imports configuration from an arbitrary source'',
        [CHR 0x09],
        ''Currently importing Viridian connection configuration is supported only.'',
        [CHR 0x09],
        ''1. On Viridian console, visit:'',
        [CHR 0x09],
        [CHR 0x09] @ ''Dashboard -> Connect Client -> CLI'',
        [],
        ''2. Copy the URL in box 2 and pass it as the second parameter.'',
        ''   Make sure the text is quoted before running:'',
        [CHR 0x09],
        [CHR 0x09] @ ''clc config import my-config '' @ [CHR 0x22] @ ''https://api.viridian.hazelcast.com/client_samples/download/...'' @ [CHR 0x22],
        [CHR 0x09],
        []]"

definition config_ImportCommand_Init :: "CommandContext \<Rightarrow> go_error + CommandContext" where
  "config_ImportCommand_Init cc =
     (let cc = SetCommandUsage cc ''import'';
          cc = SetCommandHelp cc config_ImportCommand_long ''Imports configuration from an arbitrary source'';
          cc = AddStringArg cc ''configName'' ''configuration name'';
          cc = AddStringArg cc ''source'' ''source''
      in Inr cc)"

definition config_ListCommand_long :: "string \<Rightarrow> string" where
  "config_ListCommand_long configs =
     text_lines
       [''Lists known configurations'',
        [CHR 0x09],
        ''A known configuration is a directory at '' @ configs @ '' that contains config.yaml.'',
        ''Directory names which start with . or _ are ignored.'',
        []]"

definition config_ListCommand_Init :: "string \<Rightarrow> CommandContext \<Rightarrow> go_error + CommandContext" where
  "config_ListCommand_Init configs cc =
     (let cc = SetCommandUsage cc ''list'';
          cc = SetCommandHelp cc (config_ListCommand_long configs) ''Lists known configurations''
      in Inr cc)"

subsection \<open>base/commands/demo\<close>

definition demo_Command_Init :: "CommandContext \<Rightarrow> go_error + CommandContext" where
  "demo_Command_Init cc =
     (let cc = SetCommandUsage cc ''demo'';
          cc = AddCommandGroup cc ''demo'' ''Demonstrations'';
          cc = SetCommandGroup cc ''demo'';
          cc = SetTopLevel cc True;
          cc = SetCommandHelp cc ''Demonstration commands'' ''Demonstration commands''
      in Inr cc)"

definition demo_GenerateDataCommand_long :: string where
  "demo_GenerateDataCommand_long =
     text_lines
       [''Generates a stream of events'',
        [CHR 0x09],
        ''Generate data for given name, supported names are:'',
        [],
        ''* wikipedia-event-stream: Real-time Wikipedia event stream.'',
        ''   Following key-value pairs can be set:'',
        [CHR 0x09] @ ''* map=<MAP-NAME>: the target map to update with the generated stream entries.'',
        [],
        []]"

definition demo_GenerateDataCommand_Init :: "CommandContext \<Rightarrow> go_error + CommandContext" where
  "demo_GenerateDataCommand_Init cc =
     (let cc = SetCommandUsage cc ''generate-data'';
          cc = SetCommandHelp cc demo_GenerateDataCommand_long ''Generates a stream of events'';
          cc = AddIntFlag cc ''max-values'' [] 0 False;
          cc = AddBoolFlag cc ''preview'' [] False False;
          cc = AddBoolFlag cc ''yes'' [] False False;
          cc = AddStringArg cc ''name'' ''generator name''
      in may_panic (AddKeyValueSliceArg cc ''keyValue'' ''key=value'' 0 65535))"

definition demo_MapSetManyCmd_Init :: "CommandContext \<Rightarrow> go_error + CommandContext" where
  "demo_MapSetManyCmd_Init cc =
     (let cc = SetCommandUsage cc ''map-setmany'';
          cc = SetCommandHelp cc ''Generates multiple map entries'' ''Generates multiple map entries'';
          cc = AddStringFlag cc ''name'' ''n'' ''default'' False;
          cc = AddStringFlag cc ''size'' [] ''1'' False;
          cc = AddInt64Arg cc ''entryCount'' ''entry count''
      in Inr cc)"

subsection \<open>base/commands/job\<close>

definition job_Command_Init :: "CommandContext \<Rightarrow> go_error + CommandContext" where
  "job_Command_Init cc =
     (let cc = SetCommandUsage cc ''job'';
          cc = AddCommandGroup cc ''jet'' ''Jet'';
          cc = SetCommandGroup cc ''jet'';
          cc = SetTopLevel cc True;
          cc = SetCommandHelp cc ''Jet job operations'' ''Jet job operations''
      in Inr cc)"

definition job_ExportSnapshotCommand_long :: string where
  "job_ExportSnapshotCommand_long =
     text_lines
       [''Exports a snapshot for a job.'',
        ''This feature requires a Viridian or Hazelcast Enterprise cluster.'']"

definition job_ExportSnapshotCommand_Init :: "CommandContext \<Rightarrow> go_error + CommandContext" where
  "job_ExportSnapshotCommand_Init cc =
     (let cc = SetCommandUsage cc ''export-snapshot'';
          cc = SetCommandHelp cc job_ExportSnapshotCommand_long ''Exports a snapshot for a job'';
          cc = AddStringFlag cc ''name'' [] [] False;
          cc = AddBoolFlag cc ''cancel'' [] False False;
          cc = AddStringArg cc ''jobID'' ''job ID or name''
      in Inr cc)"

definition job_ListCommand_Init :: "CommandContext \<Rightarrow> go_error + CommandContext" where
  "job_ListCommand_Init cc =
     (let cc = SetCommandUsage cc ''list'';
          cc = SetCommandHelp cc ''List jobs'' ''List jobs'';
          cc = AddBoolFlag cc ''include-sql'' [] False False;
          cc = AddBoolFlag cc ''include-user-cancelled'' [] False False
      in Inr cc)"

definition job_ResumeCommand_Init :: "CommandContext \<Rightarrow> go_error + CommandContext" where
  "job_ResumeCommand_Init cc =
     (let cc = SetCommandUsage cc ''resume'';
          cc = SetCommandHelp cc ''Resumes a suspended job'' ''Resumes a suspended job'';
          cc = AddBoolFlag cc ''wait'' [] False False;
          cc = AddStringArg cc ''jobID'' ''job ID or name''
      in Inr cc)"

definition job_SubmitCommand_long :: string where
  "job_SubmitCommand_long =
     text_lines
       [''Submits a jar file to create a Jet job'',
        [CHR 0x09],
        ''This command requires a Viridian or a Hazelcast cluster having version 5.3.0 or newer.'',
        []]"

definition job_SubmitCommand_Init :: "CommandContext \<Rightarrow> go_error + CommandContext" where
  "job_SubmitCommand_Init cc =
     (let cc = SetCommandUsage cc ''submit'';
          cc = SetCommandHelp cc job_SubmitCommand_long ''Submits a jar file to create a Jet job'';
          cc = AddStringFlag cc ''name'' [] [] False;
          cc = AddStringFlag cc ''snapshot'' [] [] False;
          cc = AddStringFlag cc ''class'' [] [] False;
          cc = AddIntFlag cc ''retries'' [] 0 False;
          cc = AddBoolFlag cc ''wait'' [] False False;
          cc = AddStringArg cc ''jarPath'' ''jar path''
      in may_panic (AddStringSliceArg cc ''arg'' ''argument'' 0 65535))"

definition job_TerminateCommand_Init :: "TerminateCommand \<Rightarrow> CommandContext \<Rightarrow> go_error + CommandContext" where
  "job_TerminateCommand_Init cm cc =
     (let cc = SetCommandUsage cc (tc_name cm);
          cc = SetCommandHelp cc (tc_longHelp cm) (tc_shortHelp cm);
          cc = AddBoolFlag cc ''force'' [] False False;
          cc = AddBoolFlag cc ''wait'' [] False False;
          cc = AddStringArg cc ''jobID'' ''job ID or name''
      in Inr cc)"

subsection \<open>base/commands/list\<close>

definition list_Command_Init :: "CommandContext \<Rightarrow> go_error + CommandContext" where
  "list_Command_Init cc =
     (let cc = SetCommandUsage cc ''list'';
          cc = AddCommandGroup cc ''dds'' ''Distributed Data Structures'';
          cc = SetCommandGroup cc ''dds'';
          cc = SetTopLevel cc True;
          cc = SetCommandHelp cc ''List operations'' ''List operations'';
          cc = AddStringFlag cc ''name'' ''n'' ''default'' False;
          cc = AddBoolFlag cc ''show-type'' [] False False
      in Inr cc)"

definition list_AddCommand_Init :: "CommandContext \<Rightarrow> go_error + CommandContext" where
  "list_AddCommand_Init cc =
     (let cc = SetCommandUsage cc ''add'';
          cc = SetCommandHelp cc ''Add a value in the given list'' ''Add a value in the given list'';
          cc = AddValueTypeFlag cc;
          cc = AddIntFlag cc ''index'' [] (-1) False;
          cc = AddStringArg cc ''value'' ''value''
      in Inr cc)"

definition list_ListContainsCommand_Init :: "CommandContext \<Rightarrow> go_error + CommandContext" where
  "list_ListContainsCommand_Init cc =
     (let cc = SetCommandUsage cc ''contains'';
          cc = SetCommandHelp cc ''Check if the value is present in the list'' ''Check if the value is present in the list'';
          cc = AddValueTypeFlag cc;
          cc = AddStringArg cc ''value'' ''value''
      in Inr cc)"

definition list_ListRemoveIndexCommand_Init :: "CommandContext \<Rightarrow> go_error + CommandContext" where
  "list_ListRemoveIndexCommand_Init cc =
     (let cc = SetCommandUsage cc ''remove-index'';
          cc = SetCommandHelp cc ''Remove the value at the given index in the list'' ''Remove the value at the given index in the list'';
          cc = AddInt64Arg cc ''index'' ''index''
      in Inr cc)"

definition list_ListRemoveValueCommand_Init :: "CommandContext \<Rightarrow> go_error + CommandContext" where
  "list_ListRemoveValueCommand_Init cc =
     (let cc = SetCommandUsage cc ''remove-value'';
          cc = SetCommandHelp cc ''Remove a value from the given list'' ''Remove a value from the given list'';
          cc = AddValueTypeFlag cc;
          cc = AddStringArg cc ''value'' ''value''
      in Inr cc)"

definition list_ListSetCommand_Init :: "CommandContext \<Rightarrow> go_error + CommandContext" where
  "list_ListSetCommand_Init cc =
     (let cc = SetCommandUsage cc ''set'';
          cc = SetCommandHelp cc ''Set a value at the given index in the list'' ''Set a value at the given index in the list'';
          cc = AddValueTypeFlag cc;
          cc = AddInt64Arg cc ''index'' ''index'';
          cc = AddStringArg cc ''value'' ''value''
      in Inr cc)"

subsection \<open>base/commands/map\<close>

definition map_Command_Init :: "CommandContext \<Rightarrow> go_error + CommandContext" where
  "map_Command_Init cc =
     (let cc = SetCommandUsage cc ''map'';
          cc = SetTopLevel cc True;
          cc = AddCommandGroup cc ''dds'' ''Distributed Data Structures'';
          cc = SetCommandGroup cc ''dds'';
          cc = SetCommandHelp cc ''Map operations'' ''Map operations'';
          cc = AddStringFlag cc ''name'' ''n'' ''default'' False;
          cc = AddBoolFlag cc ''show-type'' [] False False
      in Inr cc)"

definition map_MapLoadAllCommand_long :: string where
  "map_MapLoadAllCommand_long =
     text_lines
       [''Load keys from map-store into the map'',
        [CHR 0x09],
        ''If no key is given, all keys are loaded.'']"

definition map_MapLoadAllCommand_Init :: "CommandContext \<Rightarrow> go_error + CommandContext" where
  "map_MapLoadAllCommand_Init cc =
     (let cc = SetCommandUsage cc ''load-all'';
          cc = SetCommandHelp cc map_MapLoadAllCommand_long ''Load keys from map-store into the map'';
          cc = AddKeyTypeFlag cc;
          cc = AddBoolFlag cc ''replace'' [] False False
      in may_panic (AddStringSliceArg cc ''key'' ''key'' 0 65535))"

definition map_MapSetCommand_Init :: "CommandContext \<Rightarrow> go_error + CommandContext" where
  "map_MapSetCommand_Init cc =
     (let cc = SetCommandUsage cc ''set'';
          cc = SetCommandHelp cc ''Set a value in the given Map'' ''Set a value in the given Map'';
          cc = AddKeyTypeFlag cc;
          cc = AddValueTypeFlag cc;
          cc = AddIntFlag cc ''ttl'' [] (-1) False;
          cc = AddIntFlag cc ''max-idle'' [] (-1) False;
          cc = AddStringArg cc ''key'' ''key'';
          cc = AddStringArg cc ''value'' ''value''
      in Inr cc)"

subsection \<open>base/commands/multimap\<close>

definition multimap_Command_Init :: "CommandContext \<Rightarrow> go_error + CommandContext" where
  "multimap_Command_Init cc =
     (let cc = SetCommandUsage cc ''multi-map'';
          cc = AddCommandGroup cc ''dds'' ''Distributed Data Structures'';
          cc = SetCommandGroup cc ''dds'';
          cc = SetTopLevel cc True;
          cc = SetCommandHelp cc ''MultiMap operations'' ''MultiMap operations'';
          cc = AddStringFlag cc ''name'' ''n'' ''default'' False;
          cc = AddBoolFlag cc ''show-type'' [] False False
      in Inr cc)"

definition multimap_MultiMapPutCommand_Init :: "CommandContext \<Rightarrow> go_error + CommandContext" where
  "multimap_MultiMapPutCommand_Init cc =
     (let cc = SetCommandUsage cc ''put'';
          cc = SetCommandHelp cc ''Put a value in the given MultiMap'' ''Put a value in the given MultiMap'';
          cc = AddKeyTypeFlag cc;
          cc = AddValueTypeFlag cc;
          cc = AddStringArg cc ''key'' ''key'';
          cc = AddStringArg cc ''value'' ''value''
      in Inr cc)"

subsection \<open>base/commands/object\<close>

definition object_Command_Init :: "CommandContext \<Rightarrow> go_error + CommandContext" where
  "object_Command_Init cc =
     (let cc = SetCommandUsage cc ''object'';
          cc = AddCommandGroup cc ''dds'' ''Distributed Data Structures'';
          cc = SetCommandGroup cc ''dds'';
          cc = SetTopLevel cc True;
          cc = SetCommandHelp cc ''Generic distributed data structure operations'' ''Generic distributed data structure operations''
      in Inr cc)"

definition objTypes :: "string list" where
  "objTypes =
     [''map'', ''replicatedMap'', ''multiMap'', ''queue'', ''topic'', ''list'', ''set'', ''pnCounter'', ''flakeIdGenerator'', ''cache'', ''eventJournal'', ''ringBuffer'', ''cardinalityEstimator'']"

text \<open>The \<open>init\<close> of the file sorts the types.\<close>

definition objectFilterTypes :: string where
  "objectFilterTypes = concat (map (\<lambda>o'. [CHR 0x09] @ ''* '' @ o' @ [CHR 0x0A]) (sort objTypes))"

definition object_ListCommand_long :: string where
  "object_ListCommand_long =
     text_lines
       [''List distributed objects, optionally filter by type.'',
        [CHR 0x09],
        ''The object-type filter may be one of:'',
        [CHR 0x09],
        objectFilterTypes,
        ''CP objects such as AtomicLong cannot be listed.'',
        []]"

definition object_ListCommand_Init :: "CommandContext \<Rightarrow> go_error + CommandContext" where
  "object_ListCommand_Init cc =
     (let cc = SetCommandUsage cc ''list'';
          cc = SetCommandHelp cc object_ListCommand_long ''List distributed objects'';
          cc = AddBoolFlag cc ''show-hidden'' [] False False
      in may_panic (AddStringSliceArg cc ''objectType'' ''object type'' 0 1))"

subsection \<open>base/commands/project\<close>

definition project_Command_Init :: "CommandContext \<Rightarrow> go_error + CommandContext" where
  "project_Command_Init cc =
     (let cc = SetCommandUsage cc ''project'';
          cc = AddCommandGroup cc ''project'' ''Project'';
          cc = SetCommandGroup cc ''project'';
          cc = SetTopLevel cc True;
          cc = SetCommandHelp cc ''Project commands'' ''Project commands''
      in Inr cc)"

definition project_longHelp :: string where
  "project_longHelp =
     text_lines
       [''Create project from the given template.'',
        [CHR 0x09],
        ''This command is in BETA, it may change in future versions.'',
        [CHR 0x09],
        ''Templates are located in '' @ hzTemplatesOrganization @ ''.'',
        ''You can override it by using CLC_EXPERIMENTAL_TEMPLATE_SOURCE environment variable.'',
        [],
        ''Rules while creating your own templates:'',
        [],
        [CHR 0x09] @ ''* Templates are in Go template format.'',
        [CHR 0x09] @ ''  See: https://pkg.go.dev/text/template'',
        [CHR 0x09] @ ''* You can create a '' @ [CHR 0x22] @ ''defaults.yaml'' @ [CHR 0x22] @ '' file for default values in template'' @ [CHR 0x27] @ ''s root directory.'',
        [CHR 0x09] @ ''* Template files must have the '' @ [CHR 0x22] @ ''.template'' @ [CHR 0x22] @ '' extension.'',
        [CHR 0x09] @ ''* Files with '' @ [CHR 0x22] @ ''.'' @ [CHR 0x22] @ '' and '' @ [CHR 0x22] @ ''_'' @ [CHR 0x22] @ '' prefixes are ignored unless they have the '' @ [CHR 0x22] @ ''.keep'' @ [CHR 0x22] @ '' extension.'',
        [CHR 0x09] @ ''* All files with '' @ [CHR 0x22] @ ''.keep'' @ [CHR 0x22] @ '' extension are copied by stripping the '' @ [CHR 0x22] @ ''.keep'' @ [CHR 0x22] @ '' extension.'',
        [CHR 0x09] @ ''* Other files are copied verbatim.'',
        [],
        ''Properties are read from the following resources in order:'',
        [],
        [CHR 0x09] @ ''1. defaults.yaml (keys should be in lowercase letters, digits or underscore)'',
        [CHR 0x09] @ ''2. config.yaml'',
        [CHR 0x09] @ ''3. User passed key-values in the '' @ [CHR 0x22] @ ''KEY=VALUE'' @ [CHR 0x22] @ '' format. The keys can only contain lowercase letters, digits or underscore.'',
        [],
        ''You can use the placeholders in '' @ [CHR 0x22] @ ''defaults.yaml'' @ [CHR 0x22] @ '' and the following configuration item placeholders:'',
        [],
        [CHR 0x09] @ ''* cluster_name'',
        [CHR 0x09] @ ''* cluster_address'',
        [CHR 0x09] @ ''* cluster_user'',
        [CHR 0x09] @ ''* cluster_password'',
        [CHR 0x09] @ ''* cluster_discovery_token'',
        [CHR 0x09] @ ''* cluster_api_base'',
        [CHR 0x09] @ ''* cluster_viridian_id'',
        [CHR 0x09] @ ''* ssl_enabled'',
        [CHR 0x09] @ ''* ssl_server'',
        [CHR 0x09] @ ''* ssl_skip_verify'',
        [CHR 0x09] @ ''* ssl_ca_path'',
        [CHR 0x09] @ ''* ssl_key_path'',
        [CHR 0x09] @ ''* ssl_key_password'',
        [CHR 0x09] @ ''* log_path'',
        [CHR 0x09] @ ''* log_level'',
        [],
        ''Example (Linux and macOS):'',
        [],
        ''$ clc project create '' @ [CHR 0x5C],
        [CHR 0x09] @ ''simple-streaming-pipeline'' @ [CHR 0x5C],
        [CHR 0x09] @ ''--output-dir my-project'' @ [CHR 0x5C],
        [CHR 0x09] @ ''my_key1=my_value1 my_key2=my_value2'',
        [],
        ''Example (Windows):'',
        [],
        ''> clc project create^'',
        [CHR 0x09] @ ''simple-streaming-pipeline^'',
        [CHR 0x09] @ ''--output-dir my-project^'',
        [CHR 0x09] @ ''my_key1=my_value1 my_key2=my_value2'',
        []]"

definition project_CreateCommand_Init :: "CommandContext \<Rightarrow> go_error + CommandContext" where
  "project_CreateCommand_Init cc =
     (let cc = SetCommandUsage cc ''create'';
          cc = SetCommandHelp cc project_longHelp ''Create project from the given template (BETA)'';
          cc = AddStringFlag cc ''output-dir'' ''o'' [] False;
          cc = AddStringArg cc ''templateName'' ''template name''
      in may_panic (AddKeyValueSliceArg cc ''placeholder'' ''placeholder'' 0 65535))"

definition project_ListTemplatesCommand_Init :: "CommandContext \<Rightarrow> go_error + CommandContext" where
  "project_ListTemplatesCommand_Init cc =
     (let cc = SetCommandUsage cc ''list-templates'';
          cc = SetCommandHelp cc ''Lists templates that can be used while creating projects.'' ''Lists templates that can be used while creating projects.'';
          cc = AddBoolFlag cc ''refresh'' [] False False;
          cc = AddBoolFlag cc ''local'' [] False False
      in Inr cc)"

subsection \<open>base/commands/queue\<close>

definition queue_Command_Init :: "CommandContext \<Rightarrow> go_error + CommandContext" where
  "queue_Command_Init cc =
     (let cc = SetCommandUsage cc ''queue'';
          cc = AddCommandGroup cc ''dds'' ''Distributed Data Structures'';
          cc = SetCommandGroup cc ''dds'';
          cc = SetTopLevel cc True;
          cc = SetCommandHelp cc ''Queue operations'' ''Queue operations'';
          cc = AddStringFlag cc ''name'' ''n'' ''default'' False;
          cc = AddBoolFlag cc ''show-type'' [] False False
      in Inr cc)"

definition queue_QueueOfferCommand_Init :: "CommandContext \<Rightarrow> go_error + CommandContext" where
  "queue_QueueOfferCommand_Init cc =
     (let cc = SetCommandUsage cc ''offer'';
          cc = SetCommandHelp cc ''Add values to the given Queue'' ''Add values to the given Queue'';
          cc = AddValueTypeFlag cc
      in may_panic (AddStringSliceArg cc ''value'' ''value'' 1 65535))"

definition queue_PollCommand_Init :: "CommandContext \<Rightarrow> go_error + CommandContext" where
  "queue_PollCommand_Init cc =
     (let cc = SetCommandUsage cc ''poll'';
          cc = SetCommandHelp cc ''Remove the given number of elements from the given Queue'' ''Remove the given number of elements from the given Queue'';
          cc = AddValueTypeFlag cc;
          cc = AddIntFlag cc ''count'' [] 1 False
      in Inr cc)"

subsection \<open>base/commands/set\<close>

definition set_Command_Init :: "CommandContext \<Rightarrow> go_error + CommandContext" where
  "set_Command_Init cc =
     (let cc = SetCommandUsage cc ''set'';
          cc = AddCommandGroup cc ''dds'' ''Distributed Data Structures'';
          cc = SetCommandGroup cc ''dds'';
          cc = SetTopLevel cc True;
          cc = SetCommandHelp cc ''Set operations'' ''Set operations'';
          cc = AddStringFlag cc ''name'' ''n'' ''default'' False;
          cc = AddBoolFlag cc ''show-type'' [] False False
      in Inr cc)"

definition set_AddCommand_Init :: "CommandContext \<Rightarrow> go_error + CommandContext" where
  "set_AddCommand_Init cc =
     (let cc = SetCommandUsage cc ''add'';
          cc = SetCommandHelp cc ''Add values to the given Set'' ''Add values to the given Set'';
          cc = AddValueTypeFlag cc
      in may_panic (AddStringSliceArg cc ''value'' ''value'' 1 65535))"

definition set_GetAllCommand_Init :: "CommandContext \<Rightarrow> go_error + CommandContext" where
  "set_GetAllCommand_Init cc =
     (let cc = SetCommandUsage cc ''get-all'';
          cc = SetCommandHelp cc ''Return the elements of the given Set'' ''Return the elements of the given Set''
      in Inr cc)"

definition set_RemoveCommand_Init :: "CommandContext \<Rightarrow> go_error + CommandContext" where
  "set_RemoveCommand_Init cc =
     (let cc = SetCommandUsage cc ''remove'';
          cc = SetCommandHelp cc ''Remove values from the given Set'' ''Remove values from the given Set'';
          cc = AddValueTypeFlag cc
      in may_panic (AddStringSliceArg cc ''value'' ''value'' 1 65535))"

subsection \<open>base/commands/snapshot\<close>

definition snapshot_Command_Init :: "CommandContext \<Rightarrow> go_error + CommandContext" where
  "snapshot_Command_Init cc =
     (let cc = SetCommandUsage cc ''snapshot'';
          cc = AddCommandGroup cc ''jet'' ''Jet'';
          cc = SetCommandGroup cc ''jet'';
          cc = SetTopLevel cc True;
          cc = SetCommandHelp cc ''Jet snapshot operations'' ''Jet snapshot operations''
      in Inr cc)"

definition snapshot_DeleteCommand_Init :: "CommandContext \<Rightarrow> go_error + CommandContext" where
  "snapshot_DeleteCommand_Init cc =
     (let cc = SetCommandUsage cc ''delete'';
          cc = SetCommandHelp cc ''Delete a snapshot'' ''Delete a snapshot'';
          cc = AddStringArg cc ''snapshotName'' ''snapshot name''
      in Inr cc)"

definition snapshot_ListCommand_Init :: "CommandContext \<Rightarrow> go_error + CommandContext" where
  "snapshot_ListCommand_Init cc =
     (let cc = SetCommandUsage cc ''list'';
          cc = SetCommandHelp cc ''List snapshots'' ''List snapshots''
      in Inr cc)"

subsection \<open>base/commands/sql\<close>

definition sql_SQLCommand_long :: string where
  "sql_SQLCommand_long =
     text_lines
       [''Runs the given SQL query or starts the SQL shell'',
        [],
        ''If QUERY is not given, then the SQL shell is started.'',
        [CHR 0x09],
        ''This command requires a Viridian or a Hazelcast cluster'',
        ''having version 5.0.0 or better.'',
        []]"

definition sql_SQLCommand_Init :: "CommandContext \<Rightarrow> go_error + CommandContext" where
  "sql_SQLCommand_Init cc =
     (if Interactive cc then Inl ErrNotAvailable
      else
       let cc = SetCommandUsage cc ''sql'';
            cc = AddCommandGroup cc ''sql'' ''SQL'';
            cc = SetCommandGroup cc ''sql'';
            cc = SetCommandHelp cc sql_SQLCommand_long ''Run SQL'';
            cc = AddBoolFlag cc ''use-mapping-suggestion'' [] False False;
            cc = AddStringArg cc ''query'' ''query''
        in Inr cc)"

subsection \<open>base/commands/topic\<close>

definition topic_Command_Init :: "CommandContext \<Rightarrow> go_error + CommandContext" where
  "topic_Command_Init cc =
     (let cc = SetCommandUsage cc ''topic'';
          cc = AddCommandGroup cc ''dds'' ''Distributed Data Structures'';
          cc = SetCommandGroup cc ''dds'';
          cc = SetTopLevel cc True;
          cc = SetCommandHelp cc ''Topic operations'' ''Topic operations'';
          cc = AddStringFlag cc ''name'' ''n'' ''default'' False;
          cc = AddBoolFlag cc ''show-type'' [] False False
      in Inr cc)"

definition topic_PublishCommand_Init :: "CommandContext \<Rightarrow> go_error + CommandContext" where
  "topic_PublishCommand_Init cc =
     (let cc = SetCommandUsage cc ''publish'';
          cc = SetCommandHelp cc ''Publish new messages for a Topic.'' ''Publish new messages for a Topic.'';
          cc = AddValueTypeFlag cc
      in may_panic (AddStringSliceArg cc ''value'' ''value'' 1 65535))"

definition topic_SubscribeCommand_Init :: "CommandContext \<Rightarrow> go_error + CommandContext" where
  "topic_SubscribeCommand_Init cc =
     (let cc = SetCommandUsage cc ''subscribe'';
          cc = SetCommandHelp cc ''Subscribe to a Topic for new messages.'' ''Subscribe to a Topic for new messages.'';
          cc = AddIntFlag cc ''count'' [] 0 False
      in Inr cc)"

subsection \<open>base/commands/viridian\<close>

definition viridian_CustomClassDeleteCommand_long :: string where
  "viridian_CustomClassDeleteCommand_long =
     text_lines
       [''Deletes a custom class from the given Viridian cluster.'',
        [],
        ''Make sure you login before running this command.'',
        []]"

definition viridian_CustomClassDeleteCommand_Init :: "CommandContext \<Rightarrow> go_error + CommandContext" where
  "viridian_CustomClassDeleteCommand_Init cc =
     (let cc = SetCommandUsage cc ''delete-custom-class'';
          cc = SetCommandHelp cc viridian_CustomClassDeleteCommand_long ''Deletes a custom class from the given Viridian cluster.'';
          cc = AddStringFlag cc ''api-key'' [] [] False;
          cc = AddBoolFlag cc ''yes'' [] False False;
          cc = AddStringArg cc ''clusterID'' ''cluster name or ID'';
          cc = AddStringArg cc ''artifactID'' ''artifact name or ID''
      in Inr cc)"

definition viridian_CustomClassDownloadCommand_long :: string where
  "viridian_CustomClassDownloadCommand_long =
     text_lines
       [''Downloads a custom class from the given Viridian cluster.'',
        [],
        ''Make sure you login before running this command.'',
        []]"

definition viridian_CustomClassDownloadCommand_Init :: "CommandContext \<Rightarrow> go_error + CommandContext" where
  "viridian_CustomClassDownloadCommand_Init cc =
     (let cc = SetCommandUsage cc ''download-custom-class'';
          cc = SetCommandHelp cc viridian_CustomClassDownloadCommand_long ''Downloads a custom class from the given Viridian cluster.'';
          cc = AddStringFlag cc ''api-key'' [] [] False;
          cc = AddStringFlag cc ''output-path'' ''o'' [] False;
          cc = AddBoolFlag cc ''yes'' [] False False;
          cc = AddStringArg cc ''clusterID'' ''cluster name or ID'';
          cc = AddStringArg cc ''artifactID'' ''artifact name or ID''
      in Inr cc)"

definition viridian_CustomClassListCommand_long :: string where
  "viridian_CustomClassListCommand_long =
     text_lines
       [''Lists all custom classes in the given Viridian cluster.'',
        [],
        ''Make sure you login before running this command.'',
        []]"

definition viridian_CustomClassListCommand_Init :: "CommandContext \<Rightarrow> go_error + CommandContext" where
  "viridian_CustomClassListCommand_Init cc =
     (let cc = SetCommandUsage cc ''list-custom-classes'';
          cc = SetCommandHelp cc viridian_CustomClassListCommand_long ''Lists all custom classes in the given Viridian cluster'';
          cc = AddStringFlag cc ''api-key'' [] [] False;
          cc = AddStringArg cc ''clusterID'' ''cluster name or ID''
      in Inr cc)"

definition viridian_CustomClassUploadCommand_long :: string where
  "viridian_CustomClassUploadCommand_long =
     text_lines
       [''Uploads a new Custom Class to the specified Viridian cluster.'',
        [],
        ''Make sure you login before running this command.'',
        []]"

definition viridian_CustomClassUploadCommand_Init :: "CommandContext \<Rightarrow> go_error + CommandContext" where
  "viridian_CustomClassUploadCommand_Init cc =
     (let cc = SetCommandUsage cc ''upload-custom-class'';
          cc = SetCommandHelp cc viridian_CustomClassUploadCommand_long ''Uploads a Custom Class to the specified Viridian cluster'';
          cc = AddStringFlag cc ''api-key'' [] [] False;
          cc = AddStringArg cc ''clusterID'' ''cluster name or ID'';
          cc = AddStringArg cc ''path'' ''path''
      in Inr cc)"

definition viridian_DownloadLogsCommand_long :: string where
  "viridian_DownloadLogsCommand_long =
     text_lines
       [''Downloads the logs of the given Viridian cluster for the logged in API key.'',
        [],
        ''Make sure you login before running this command.'',
        []]"

definition viridian_DownloadLogsCommand_Init :: "CommandContext \<Rightarrow> go_error + CommandContext" where
  "viridian_DownloadLogsCommand_Init cc =
     (let cc = SetCommandUsage cc ''download-logs'';
          cc = SetCommandHelp cc viridian_DownloadLogsCommand_long ''Downloads the logs of the given Viridian cluster'';
          cc = AddStringFlag cc ''api-key'' [] [] False;
          cc = AddStringFlag cc ''output-dir'' ''o'' ''.'' False;
          cc = AddStringArg cc ''clusterID'' ''cluster name or ID''
      in Inr cc)"

definition viridian_Command_Init :: "CommandContext \<Rightarrow> go_error + CommandContext" where
  "viridian_Command_Init cc =
     (let cc = SetCommandUsage cc ''viridian'';
          cc = AddCommandGroup cc ''viridian'' ''Viridian'';
          cc = SetCommandGroup cc ''viridian'';
          cc = SetTopLevel cc True;
          cc = SetCommandHelp cc ''Various Viridian operations'' ''Various Viridian operations''
      in Inr cc)"

definition viridian_ClusterCreateCommand_long :: string where
  "viridian_ClusterCreateCommand_long =
     text_lines
       [''Creates a Viridian cluster.'',
        [],
        ''Make sure you login before running this command.'',
        []]"

definition viridian_ClusterCreateCommand_Init :: "CommandContext \<Rightarrow> go_error + CommandContext" where
  "viridian_ClusterCreateCommand_Init cc =
     (let cc = SetCommandUsage cc ''create-cluster'';
          cc = SetCommandHelp cc viridian_ClusterCreateCommand_long ''Creates a Viridian cluster'';
          cc = AddStringFlag cc ''api-key'' [] [] False;
          cc = AddStringFlag cc ''name'' [] [] False;
          cc = AddBoolFlag cc ''development'' [] False False;
          cc = AddBoolFlag cc ''prerelease'' [] False False
      in Inr cc)"

definition viridian_ClusterDeleteCommand_long :: string where
  "viridian_ClusterDeleteCommand_long =
     text_lines
       [''Deletes the given Viridian cluster.'',
        [],
        ''Make sure you login before running this command.'',
        []]"

definition viridian_ClusterDeleteCommand_Init :: "CommandContext \<Rightarrow> go_error + CommandContext" where
  "viridian_ClusterDeleteCommand_Init cc =
     (let cc = SetCommandUsage cc ''delete-cluster'';
          cc = SetCommandHelp cc viridian_ClusterDeleteCommand_long ''Deletes the given Viridian cluster'';
          cc = AddStringFlag cc ''api-key'' [] [] False;
          cc = AddBoolFlag cc ''yes'' [] False False;
          cc = AddStringArg cc ''clusterID'' ''cluster name or ID''
      in Inr cc)"

definition viridian_ClusterGetCommand_long :: string where
  "viridian_ClusterGetCommand_long =
     text_lines
       [''Gets the information about the given Viridian cluster.'',
        [],
        ''Make sure you login before running this command.'',
        []]"

definition viridian_ClusterGetCommand_Init :: "CommandContext \<Rightarrow> go_error + CommandContext" where
  "viridian_ClusterGetCommand_Init cc =
     (let cc = SetCommandUsage cc ''get-cluster'';
          cc = SetCommandHelp cc viridian_ClusterGetCommand_long ''Gets the information about the given Viridian cluster'';
          cc = AddStringFlag cc ''api-key'' [] [] False;
          cc = AddStringArg cc ''clusterID'' ''cluster name or ID''
      in Inr cc)"

definition viridian_ClusterListCommand_long :: string where
  "viridian_ClusterListCommand_long =
     text_lines
       [''Lists all Viridian clusters for the logged in API key.'',
        [],
        ''Make sure you login before running this command.'',
        []]"

definition viridian_ClusterListCommand_Init :: "CommandContext \<Rightarrow> go_error + CommandContext" where
  "viridian_ClusterListCommand_Init cc =
     (let cc = SetCommandUsage cc ''list-clusters'';
          cc = SetCommandHelp cc viridian_ClusterListCommand_long ''Lists Viridian clusters'';
          cc = AddStringFlag cc ''api-key'' [] [] False
      in Inr cc)"

definition viridian_ClusterResumeCommand_long :: string where
  "viridian_ClusterResumeCommand_long =
     text_lines
       [''Resumes the given Viridian cluster.'',
        [],
        ''Make sure you login before running this command.'',
        []]"

definition viridian_ClusterResumeCommand_Init :: "CommandContext \<Rightarrow> go_error + CommandContext" where
  "viridian_ClusterResumeCommand_Init cc =
     (let cc = SetCommandUsage cc ''resume-cluster'';
          cc = SetCommandHelp cc viridian_ClusterResumeCommand_long ''Resumes the given Viridian cluster'';
          cc = AddStringFlag cc ''api-key'' [] [] False;
          cc = AddStringArg cc ''clusterID'' ''cluster name or ID''
      in Inr cc)"

definition viridian_ClusterStopCommand_long :: string where
  "viridian_ClusterStopCommand_long =
     text_lines
       [''Stops the given Viridian cluster.'',
        [],
        ''Make sure you login before running this command.'',
        []]"

definition viridian_ClusterStopCommand_Init :: "CommandContext \<Rightarrow> go_error + CommandContext" where
  "viridian_ClusterStopCommand_Init cc =
     (let cc = SetCommandUsage cc ''stop-cluster'';
          cc = SetCommandHelp cc viridian_ClusterStopCommand_long ''Stops the given Viridian cluster'';
          cc = AddStringFlag cc ''api-key'' [] [] False;
          cc = AddStringArg cc ''clusterID'' ''cluster name or ID''
      in Inr cc)"

definition viridian_ImportConfigCommand_long :: string where
  "viridian_ImportConfigCommand_long =
     text_lines
       [''Imports connection configuration of the given Viridian cluster.'',
        [],
        ''Make sure you login before running this command.'',
        []]"

definition viridian_ImportConfigCommand_Init :: "CommandContext \<Rightarrow> go_error + CommandContext" where
  "viridian_ImportConfigCommand_Init cc =
     (let cc = SetCommandUsage cc ''import-config'';
          cc = SetCommandHelp cc viridian_ImportConfigCommand_long ''Imports connection configuration of the given Viridian cluster.'';
          cc = AddStringFlag cc ''api-key'' [] [] False;
          cc = AddStringFlag cc ''name'' [] [] False;
          cc = AddStringArg cc ''clusterID'' ''cluster name or ID''
      in Inr cc)"

definition viridian_StreamLogCommand_long :: string where
  "viridian_StreamLogCommand_long =
     text_lines
       [''Outputs the logs of the given Viridian cluster as a stream.'',
        [],
        ''Make sure you authenticate to the Viridian API using '' @ [CHR 0x27] @ ''viridian login'' @ [CHR 0x27] @ '' before running this command.'',
        [],
        ''The log format may be one of:'',
        [CHR 0x09] @ ''* minimal: Only the log message'',
        [CHR 0x09] @ ''* basic: Time, level and the log message'',
        [CHR 0x09] @ ''* detailed: Time, level, thread, logger and the log message'',
        [CHR 0x09] @ ''* free form template, see: https://pkg.go.dev/text/template for the format.'',
        [CHR 0x09] @ ''  You can use the following placeholders: msg, level, time, thread and logger.'',
        []]"

definition viridian_StreamLogCommand_Init :: "CommandContext \<Rightarrow> go_error + CommandContext" where
  "viridian_StreamLogCommand_Init cc =
     (let cc = SetCommandUsage cc ''stream-logs'';
          cc = SetCommandHelp cc viridian_StreamLogCommand_long ''Streams logs of a Viridian cluster'';
          cc = AddStringFlag cc ''api-key'' [] [] False;
          cc = AddStringFlag cc ''log-format'' [] ''basic'' False;
          cc = AddStringArg cc ''clusterID'' ''cluster name or ID''
      in Inr cc)"

definition viridian_LoginCommand_long :: string where
  "viridian_LoginCommand_long =
     text_lines
       [''Logs in to Viridian to get an access token using the given API key and API secret.'',
        [],
        ''Other Viridian commands use the access token retrieved by this command.'',
        ''Running this command is only necessary when a new API key is generated.  '',
        [CHR 0x09],
        ''If not specified, the key and the secret will be asked in a prompt.'',
        ''Alternatively, you can use the following environment variables:'',
        [CHR 0x09],
        [CHR 0x09] @ ''* CLC_VIRIDIAN_API_KEY'',
        [CHR 0x09] @ ''* CLC_VIRIDIAN_API_SECRET'',
        []]"

definition viridian_LoginCommand_Init :: "CommandContext \<Rightarrow> go_error + CommandContext" where
  "viridian_LoginCommand_Init cc =
     (let cc = SetCommandUsage cc ''login'';
          cc = SetCommandHelp cc viridian_LoginCommand_long ''Logs in to Viridian using the given API key and API secret'';
          cc = AddStringFlag cc ''api-key'' [] [] False;
          cc = AddStringFlag cc ''api-secret'' [] [] False;
          cc = AddStringFlag cc ''api-base'' [] [] False
      in Inr cc)"

subsection \<open>What a declaration changes\<close>

named_theorems cc_simps \<open>what the operations on a command context set\<close>

text \<open>The long and short names of the flags declared.\<close>

definition names_of :: "CommandContext \<Rightarrow> (string \<times> string) list" where
  "names_of cc = map (\<lambda>f. (flag_long f, flag_short f)) (flags (Cmd cc))"

lemma NewCommandContext_sel [cc_simps]:
  "names_of (NewCommandContext new_cobra m) = []"
  "GroupID (Cmd (NewCommandContext new_cobra m)) = []"
  "argSpecs (NewCommandContext new_cobra m) = []"
  "isTopLevel (NewCommandContext new_cobra m) = False"
  "cc_group (NewCommandContext new_cobra m) = None"
  "Interactive (NewCommandContext new_cobra m) \<longleftrightarrow> m = ModeInteractive"
  by (simp_all add: NewCommandContext_def new_cobra_def names_of_def Interactive_def)

lemma SetCommandUsage_sel [cc_simps]:
  "names_of (SetCommandUsage cc u) = names_of cc"
  "GroupID (Cmd (SetCommandUsage cc u)) = GroupID (Cmd cc)"
  "argSpecs (SetCommandUsage cc u) = argSpecs cc"
  "usage (SetCommandUsage cc u) = u"
  "isTopLevel (SetCommandUsage cc u) = isTopLevel cc"
  "cc_group (SetCommandUsage cc u) = cc_group cc"
  "Interactive (SetCommandUsage cc u) = Interactive cc"
  by (simp_all add: SetCommandUsage_def names_of_def Interactive_def Let_def)

lemma SetCommandHelp_sel [cc_simps]:
  "names_of (SetCommandHelp cc l s) = names_of cc"
  "GroupID (Cmd (SetCommandHelp cc l s)) = GroupID (Cmd cc)"
  "argSpecs (SetCommandHelp cc l s) = argSpecs cc"
  "usage (SetCommandHelp cc l s) = usage cc"
  "isTopLevel (SetCommandHelp cc l s) = isTopLevel cc"
  "cc_group (SetCommandHelp cc l s) = cc_group cc"
  "Interactive (SetCommandHelp cc l s) = Interactive cc"
  by (simp_all add: SetCommandHelp_def names_of_def Interactive_def Let_def)

lemma SetCommandGroup_sel [cc_simps]:
  "names_of (SetCommandGroup cc g) = names_of cc"
  "GroupID (Cmd (SetCommandGroup cc g)) = g"
  "argSpecs (SetCommandGroup cc g) = argSpecs cc"
  "usage (SetCommandGroup cc g) = usage cc"
  "isTopLevel (SetCommandGroup cc g) = isTopLevel cc"
  "cc_group (SetCommandGroup cc g) = cc_group cc"
  "Interactive (SetCommandGroup cc g) = Interactive cc"
  by (simp_all add: SetCommandGroup_def names_of_def Interactive_def Let_def)

lemma AddCommandGroup_sel [cc_simps]:
  "names_of (AddCommandGroup cc g t) = names_of cc"
  "GroupID (Cmd (AddCommandGroup cc g t)) = GroupID (Cmd cc)"
  "argSpecs (AddCommandGroup cc g t) = argSpecs cc"
  "usage (AddCommandGroup cc g t) = usage cc"
  "isTopLevel (AddCommandGroup cc g t) = isTopLevel cc"
  "cc_group (AddCommandGroup cc g t) = Some (g, t)"
  "Interactive (AddCommandGroup cc g t) = Interactive cc"
  by (simp_all add: AddCommandGroup_def names_of_def Interactive_def Let_def)

lemma SetTopLevel_sel [cc_simps]:
  "names_of (SetTopLevel cc b) = names_of cc"
  "GroupID (Cmd (SetTopLevel cc b)) = GroupID (Cmd cc)"
  "argSpecs (SetTopLevel cc b) = argSpecs cc"
  "usage (SetTopLevel cc b) = usage cc"
  "isTopLevel (SetTopLevel cc b) = b"
  "cc_group (SetTopLevel cc b) = cc_group cc"
  "Interactive (SetTopLevel cc b) = Interactive cc"
  by (simp_all add: SetTopLevel_def names_of_def Interactive_def Let_def)

lemma Hide_sel [cc_simps]:
  "names_of (Hide cc) = names_of cc"
  "GroupID (Cmd (Hide cc)) = GroupID (Cmd cc)"
  "argSpecs (Hide cc) = argSpecs cc"
  "usage (Hide cc) = usage cc"
  "isTopLevel (Hide cc) = isTopLevel cc"
  "cc_group (Hide cc) = cc_group cc"
  "Interactive (Hide cc) = Interactive cc"
  by (simp_all add: Hide_def names_of_def Interactive_def Let_def)

lemma AddStringFlag_sel [cc_simps]:
  "names_of (AddStringFlag cc l s v r) = names_of cc @ [(l, s)]"
  "GroupID (Cmd (AddStringFlag cc l s v r)) = GroupID (Cmd cc)"
  "argSpecs (AddStringFlag cc l s v r) = argSpecs cc"
  "usage (AddStringFlag cc l s v r) = usage cc"
  "isTopLevel (AddStringFlag cc l s v r) = isTopLevel cc"
  "cc_group (AddStringFlag cc l s v r) = cc_group cc"
  "Interactive (AddStringFlag cc l s v r) = Interactive cc"
  by (simp_all add: AddStringFlag_def names_of_def Interactive_def Let_def add_flag_def)

lemma AddIntFlag_sel [cc_simps]:
  "names_of (AddIntFlag cc l s n r) = names_of cc @ [(l, s)]"
  "GroupID (Cmd (AddIntFlag cc l s n r)) = GroupID (Cmd cc)"
  "argSpecs (AddIntFlag cc l s n r) = argSpecs cc"
  "usage (AddIntFlag cc l s n r) = usage cc"
  "isTopLevel (AddIntFlag cc l s n r) = isTopLevel cc"
  "cc_group (AddIntFlag cc l s n r) = cc_group cc"
  "Interactive (AddIntFlag cc l s n r) = Interactive cc"
  by (simp_all add: AddIntFlag_def names_of_def Interactive_def Let_def add_flag_def)

lemma AddBoolFlag_sel [cc_simps]:
  "names_of (AddBoolFlag cc l s b r) = names_of cc @ [(l, s)]"
  "GroupID (Cmd (AddBoolFlag cc l s b r)) = GroupID (Cmd cc)"
  "argSpecs (AddBoolFlag cc l s b r) = argSpecs cc"
  "usage (AddBoolFlag cc l s b r) = usage cc"
  "isTopLevel (AddBoolFlag cc l s b r) = isTopLevel cc"
  "cc_group (AddBoolFlag cc l s b r) = cc_group cc"
  "Interactive (AddBoolFlag cc l s b r) = Interactive cc"
  by (simp_all add: AddBoolFlag_def names_of_def Interactive_def Let_def add_flag_def)

lemma AddStringArg_sel [cc_simps]:
  "names_of (AddStringArg cc k t) = names_of cc"
  "GroupID (Cmd (AddStringArg cc k t)) = GroupID (Cmd cc)"
  "argSpecs (AddStringArg cc k t) = argSpecs cc @ [\<lparr>Key = k, Title = t, Type = ArgTypeString, Min = 1, Max = 1\<rparr>]"
  "usage (AddStringArg cc k t) = usage cc"
  "isTopLevel (AddStringArg cc k t) = isTopLevel cc"
  "cc_group (AddStringArg cc k t) = cc_group cc"
  "Interactive (AddStringArg cc k t) = Interactive cc"
  by (simp_all add: AddStringArg_def names_of_def Interactive_def Let_def)

lemma AddInt64Arg_sel [cc_simps]:
  "names_of (AddInt64Arg cc k t) = names_of cc"
  "GroupID (Cmd (AddInt64Arg cc k t)) = GroupID (Cmd cc)"
  "argSpecs (AddInt64Arg cc k t) = argSpecs cc @ [\<lparr>Key = k, Title = t, Type = ArgTypeInt64, Min = 1, Max = 1\<rparr>]"
  "usage (AddInt64Arg cc k t) = usage cc"
  "isTopLevel (AddInt64Arg cc k t) = isTopLevel cc"
  "cc_group (AddInt64Arg cc k t) = cc_group cc"
  "Interactive (AddInt64Arg cc k t) = Interactive cc"
  by (simp_all add: AddInt64Arg_def names_of_def Interactive_def Let_def)

lemma may_panic_slice [cc_simps]:
  "0 \<le> mx - mn \<Longrightarrow> may_panic (AddStringSliceArg cc k t mn mx) =
     Inr (cc\<lparr>argSpecs := argSpecs cc @ [\<lparr>Key = k, Title = t, Type = ArgTypeStringSlice, Min = mn, Max = mx\<rparr>]\<rparr>)"
  "0 \<le> mx - mn \<Longrightarrow> may_panic (AddKeyValueSliceArg cc k t mn mx) =
     Inr (cc\<lparr>argSpecs := argSpecs cc @ [\<lparr>Key = k, Title = t, Type = ArgTypeKeyValueSlice, Min = mn, Max = mx\<rparr>]\<rparr>)"
  by (simp_all add: may_panic_def AddStringSliceArg_def AddKeyValueSliceArg_def)

lemma argSpecs_update_sel [cc_simps]: "names_of (cc\<lparr>argSpecs := as\<rparr>) = names_of cc"
  by (simp add: names_of_def)

lemmas type_flags [cc_simps] = AddKeyTypeFlag_def AddValueTypeFlag_def

end
