(* ===== verification/Registrations.thy ===== *)
theory Registrations
  imports CommandInits
begin

section \<open>The registered commands (base/commands, base/initializers.go, base/augmentors.go)\<close>

text \<open>
  What the \<open>init\<close> functions of the packages register in a full build: every command with its \<open>Init\<close>,
  the global initializer and the augmentors. The \<open>Exec\<close> functions are parameters here. The theorems
  put this registry through \<^const>\<open>createCommands\<close>: the tree is made without a panic in every mode
  and has exactly the commands of the mode, and no command declares a flag that collides with one it
  inherits.
\<close>

subsection \<open>What is registered\<close>

type_synonym registration =
  "string \<times> (CommandContext \<Rightarrow> go_error + CommandContext) \<times> RegisterCommandOption list"

definition base_registrations :: "registration list" where
  "base_registrations =
     [(''home'', HomeCommand_Init, []),
      (''script'', ScriptCommand_Init, []),
      (''shell'', ShellCommand_Init, []),
      (''version'', VersionCommand_Init, [])]"

definition atomic_long_registrations :: "registration list" where
  "atomic_long_registrations =
     [(''atomic-long'', atomic_long_Command_Init, []),
      (''atomic-long:decrement-get'', atomic_long_DecrementGetCommand_Init, []),
      (''atomic-long:destroy'', DestroyCommand_Init ''AtomicLong'', []),
      (''atomic-long:get'', atomic_long_GetCommand_Init, []),
      (''atomic-long:increment-get'', atomic_long_IncrementGetCommand_Init, []),
      (''atomic-long:set'', atomic_long_SetCommand_Init, [])]"

definition config_registrations :: "string \<Rightarrow> registration list" where
  "config_registrations configs =
     [(''config'', config_Command_Init, []),
      (''config:add'', config_AddCommand_Init, []),
      (''config:import'', config_ImportCommand_Init, []),
      (''config:list'', config_ListCommand_Init configs, [])]"

definition demo_registrations :: "registration list" where
  "demo_registrations =
     [(''demo'', demo_Command_Init, []),
      (''demo:generate-data'', demo_GenerateDataCommand_Init, []),
      (''demo:map-setmany'', demo_MapSetManyCmd_Init, [])]"

definition job_registrations :: "registration list" where
  "job_registrations =
     [(''job'', job_Command_Init, []),
      (''job:export-snapshot'', job_ExportSnapshotCommand_Init, []),
      (''job:list'', job_ListCommand_Init, []),
      (''job:resume'', job_ResumeCommand_Init, []),
      (''job:submit'', job_SubmitCommand_Init, []),
      (''job:cancel'', job_TerminateCommand_Init (terminate_commands ! 0), []),
      (''job:suspend'', job_TerminateCommand_Init (terminate_commands ! 1), []),
      (''job:restart'', job_TerminateCommand_Init (terminate_commands ! 2), [])]"

definition list_registrations :: "registration list" where
  "list_registrations =
     [(''list'', list_Command_Init, []),
      (''list:add'', list_AddCommand_Init, []),
      (''list:clear'', ClearCommand_Init ''List'', []),
      (''list:contains'', list_ListContainsCommand_Init, []),
      (''list:destroy'', DestroyCommand_Init ''List'', []),
      (''list:remove-index'', list_ListRemoveIndexCommand_Init, []),
      (''list:remove-value'', list_ListRemoveValueCommand_Init, []),
      (''list:set'', list_ListSetCommand_Init, []),
      (''list:size'', SizeCommand_Init ''List'', [])]"

definition map_registrations :: "registration list" where
  "map_registrations =
     [(''map'', map_Command_Init, []),
      (''map:clear'', ClearCommand_Init ''Map'', []),
      (''map:destroy'', DestroyCommand_Init ''Map'', []),
      (''map:entry-set'', MapEntrySetCommand_Init ''Map'', []),
      (''map:get'', MapGetCommand_Init ''Map'', []),
      (''map:key-set'', MapKeySetCommand_Init ''Map'', []),
      (''map:load-all'', map_MapLoadAllCommand_Init, []),
      (''map:lock'', LockCommand_Init ''Map'', [OnlyInteractive]),
      (''map:remove'', MapRemoveCommand_Init ''Map'', []),
      (''map:set'', map_MapSetCommand_Init, []),
      (''map:size'', SizeCommand_Init ''Map'', []),
      (''map:try-lock'', MapTryLockCommand_Init ''Map'', [OnlyInteractive]),
      (''map:unlock'', MapUnlockCommand_Init ''Map'', []),
      (''map:values'', MapValuesCommand_Init ''Map'', [])]"

definition multimap_registrations :: "registration list" where
  "multimap_registrations =
     [(''multi-map'', multimap_Command_Init, []),
      (''multi-map:clear'', ClearCommand_Init ''MultiMap'', []),
      (''multi-map:destroy'', DestroyCommand_Init ''MultiMap'', []),
      (''multi-map:entry-set'', MapEntrySetCommand_Init ''MultiMap'', []),
      (''multi-map:get'', MapGetCommand_Init ''MultiMap'', []),
      (''multi-map:key-set'', MapKeySetCommand_Init ''MultiMap'', []),
      (''multi-map:lock'', LockCommand_Init ''MultiMap'', [OnlyInteractive]),
      (''multi-map:put'', multimap_MultiMapPutCommand_Init, []),
      (''multi-map:remove'', MapRemoveCommand_Init ''MultiMap'', []),
      (''multi-map:size'', SizeCommand_Init ''MultiMap'', []),
      (''multi-map:try-lock'', MapTryLockCommand_Init ''MultiMap'', [OnlyInteractive]),
      (''multi-map:unlock'', MapUnlockCommand_Init ''MultiMap'', []),
      (''multi-map:values'', MapValuesCommand_Init ''MultiMap'', [])]"

definition object_registrations :: "registration list" where
  "object_registrations =
     [(''object'', object_Command_Init, []),
      (''object:list'', object_ListCommand_Init, [])]"

definition project_registrations :: "registration list" where
  "project_registrations =
     [(''project'', project_Command_Init, []),
      (''project:create'', project_CreateCommand_Init, []),
      (''project:list-templates'', project_ListTemplatesCommand_Init, [])]"

definition queue_registrations :: "registration list" where
  "queue_registrations =
     [(''queue'', queue_Command_Init, []),
      (''queue:clear'', ClearCommand_Init ''Queue'', []),
      (''queue:destroy'', DestroyCommand_Init ''Queue'', []),
      (''queue:offer'', queue_QueueOfferCommand_Init, []),
      (''queue:poll'', queue_PollCommand_Init, []),
      (''queue:size'', SizeCommand_Init ''Queue'', [])]"

definition set_registrations :: "registration list" where
  "set_registrations =
     [(''set'', set_Command_Init, []),
      (''set:add'', set_AddCommand_Init, []),
      (''set:clear'', ClearCommand_Init ''Set'', []),
      (''set:destroy'', DestroyCommand_Init ''Set'', []),
      (''set:get-all'', set_GetAllCommand_Init, []),
      (''set:remove'', set_RemoveCommand_Init, []),
      (''set:size'', SizeCommand_Init ''Set'', [])]"

definition snapshot_registrations :: "registration list" where
  "snapshot_registrations =
     [(''snapshot'', snapshot_Command_Init, []),
      (''snapshot:delete'', snapshot_DeleteCommand_Init, []),
      (''snapshot:list'', snapshot_ListCommand_Init, [])]"

definition sql_registrations :: "registration list" where
  "sql_registrations =
     [(''sql'', sql_SQLCommand_Init, [])]"

definition topic_registrations :: "registration list" where
  "topic_registrations =
     [(''topic'', topic_Command_Init, []),
      (''topic:destroy'', DestroyCommand_Init ''Topic'', []),
      (''topic:publish'', topic_PublishCommand_Init, []),
      (''topic:subscribe'', topic_SubscribeCommand_Init, [])]"

definition viridian_registrations :: "registration list" where
  "viridian_registrations =
     [(''viridian:delete-custom-class'', viridian_CustomClassDeleteCommand_Init, []),
      (''viridian:download-custom-class'', viridian_CustomClassDownloadCommand_Init, []),
      (''viridian:list-custom-classes'', viridian_CustomClassListCommand_Init, []),
      (''viridian:upload-custom-class'', viridian_CustomClassUploadCommand_Init, []),
      (''viridian:download-logs'', viridian_DownloadLogsCommand_Init, []),
      (''viridian'', viridian_Command_Init, []),
      (''viridian:create-cluster'', viridian_ClusterCreateCommand_Init, []),
      (''viridian:delete-cluster'', viridian_ClusterDeleteCommand_Init, []),
      (''viridian:get-cluster'', viridian_ClusterGetCommand_Init, []),
      (''viridian:list-clusters'', viridian_ClusterListCommand_Init, []),
      (''viridian:resume-cluster'', viridian_ClusterResumeCommand_Init, []),
      (''viridian:stop-cluster'', viridian_ClusterStopCommand_Init, []),
      (''viridian:import-config'', viridian_ImportConfigCommand_Init, []),
      (''viridian:stream-logs'', viridian_StreamLogCommand_Init, []),
      (''viridian:login'', viridian_LoginCommand_Init, [])]"

definition registrations :: "string \<Rightarrow> registration list" where
  "registrations configs =
     base_registrations @ atomic_long_registrations @ config_registrations configs @ demo_registrations @ job_registrations @ list_registrations @ map_registrations @ multimap_registrations @ object_registrations @ project_registrations @ queue_registrations @ set_registrations @ snapshot_registrations @ sql_registrations @ topic_registrations @ viridian_registrations"

text \<open>\<^verbatim>\<open>check.Must\<close> around every registration: \<^const>\<open>None\<close> is its panic.\<close>

fun register_all ::
    "(string \<Rightarrow> ('w, unit) step) \<Rightarrow> (string \<Rightarrow> ('w, unit) step option) \<Rightarrow> registration list \<Rightarrow> 'w program_registry \<Rightarrow> 'w program_registry option" where
  "register_all ex exi [] rg = Some rg"
| "register_all ex exi ((name, init, opts) # rest) rg =
     (case RegisterCommand rg name \<lparr>it_init = Some init, it_exec = ex name, it_interactive = exi name\<rparr> opts of
        (rg', None) \<Rightarrow> register_all ex exi rest rg'
      | (_, Some e) \<Rightarrow> None)"

text \<open>
  Only the shell is an \<open>InteractiveCommander\<close>. \<open>sqlAug\<close> is the \<open>Augment\<close> of the sql command, \<open>pns\<close> the
  names of the printers, \<open>lp\<close> the default log path and \<open>configs\<close> the directory of the configurations.
\<close>

record 'w clc_parts =
  cl_exec :: "string \<Rightarrow> ('w, unit) step"
  cl_shell :: "('w, unit) step"
  cl_check :: "('w, unit) step"
  cl_sqlAug :: "('w, unit) step"
  cl_pns :: "string list"
  cl_logPath :: string
  cl_configs :: string

definition interactive_of :: "'w clc_parts \<Rightarrow> string \<Rightarrow> ('w, unit) step option" where
  "interactive_of p name = (if name = ''shell'' then Some (cl_shell p) else None)"

definition clc_registry :: "'w clc_parts \<Rightarrow> 'w program_registry option" where
  "clc_registry p =
     (let rg = RegisterGlobalInitializer newRegistry ''00-global-init'' (GlobalInit (cl_pns p) (cl_logPath p));
          rg = RegisterAugmentor rg ''00-check-output-type'' (cl_check p);
          rg = RegisterAugmentor rg ''20-sql'' (cl_sqlAug p)
      in register_all (cl_exec p) (interactive_of p) (registrations (cl_configs p)) rg)"

subsection \<open>No command clashes with what it inherits\<close>

text \<open>
  The groups of commands. The flags a command can be given: those of the root, of the groups above it and its own, by long and
  short name. \<^verbatim>\<open>pflag\<close> panics when two of them share a name; \<^verbatim>\<open>cobra\<close> itself adds \<^verbatim>\<open>help\<close> with \<^verbatim>\<open>h\<close>.
\<close>

definition group_list :: "string list" where
  "group_list = [''atomic-long'', ''config'', ''demo'', ''job'', ''list'', ''map'', ''multi-map'', ''object'', ''project'',
     ''queue'', ''set'', ''snapshot'', ''topic'', ''viridian'']"

definition no_clash :: "(string \<times> string) list \<Rightarrow> bool" where
  "no_clash ns \<longleftrightarrow> distinct (''help'' # map fst ns) \<and> distinct (''h'' # filter (\<lambda>s. s \<noteq> []) (map snd ns))"

definition root_names :: "(string \<times> string) list" where
  "root_names = [(''format'', ''f''), (''verbose'', []), (''quiet'', ''q''), (''timeout'', []), (''config'', ''c''),
     (''log.path'', []), (''log.level'', [])]"

text \<open>What a context must be to belong to the command \<open>name\<close>, which inherits \<open>ns\<close>.\<close>

definition context_ok :: "(string \<times> string) list \<Rightarrow> string \<Rightarrow> CommandContext \<Rightarrow> bool" where
  "context_ok ns name cc \<longleftrightarrow>
     usage cc = last (split_on (CHR '':'') name) \<and>
     (GroupID (Cmd cc) = [] \<or> map_option fst (cc_group cc) = Some (GroupID (Cmd cc))) \<and>
     list_all (\<lambda>s. Min s = 1 \<and> Max s = 1) (butlast (argSpecs cc)) \<and> no_clash (ns @ names_of cc)"

definition entry_ok :: "(string \<times> string) list \<Rightarrow> Mode \<Rightarrow> registration \<Rightarrow> bool" where
  "entry_ok ns mode r =
     (case fst (snd r) (NewCommandContext new_cobra mode) of
        Inl e \<Rightarrow> fst r = ''sql'' \<and> mode = ModeInteractive \<and> e = ErrNotAvailable
      | Inr cc \<Rightarrow> (fst r = ''sql'' \<longrightarrow> mode \<noteq> ModeInteractive) \<and> context_ok (if CHR '':'' \<in> set (fst r) then root_names @ ns else root_names) (fst r) cc)"

text \<open>What a group hands down to its commands, by the name of the group.\<close>

definition group_of :: "registration \<Rightarrow> string" where
  "group_of r = hd (split_on (CHR '':'') (fst r))"

definition group_names :: "string \<Rightarrow> (string \<times> string) list" where
  "group_names g =
     (if g \<in> {''list'', ''map'', ''multi-map'', ''queue'', ''set'', ''topic''} then [(''name'', ''n''), (''show-type'', [])]
      else if g = ''atomic-long'' then [(''name'', ''n'')] else [])"

definition grouped :: "registration \<Rightarrow> bool" where
  "grouped r \<longleftrightarrow> (CHR '':'' \<in> set (fst r) \<longrightarrow> group_of r \<in> set group_list)"

lemmas entry_simps = grouped_def group_list_def group_of_def group_names_def entry_ok_def context_ok_def no_clash_def root_names_def cc_simps

lemmas base_inits = base_registrations_def
  HomeCommand_Init_def ScriptCommand_Init_def ShellCommand_Init_def VersionCommand_Init_def

lemmas atomic_long_inits = atomic_long_registrations_def
  atomic_long_Command_Init_def atomic_long_DecrementGetCommand_Init_def DestroyCommand_Init_def atomic_long_GetCommand_Init_def
  atomic_long_IncrementGetCommand_Init_def atomic_long_SetCommand_Init_def

lemmas config_inits = config_registrations_def
  config_Command_Init_def config_AddCommand_Init_def config_ImportCommand_Init_def config_ListCommand_Init_def

lemmas demo_inits = demo_registrations_def
  demo_Command_Init_def demo_GenerateDataCommand_Init_def demo_MapSetManyCmd_Init_def

lemmas job_inits = job_registrations_def
  job_Command_Init_def job_ExportSnapshotCommand_Init_def job_ListCommand_Init_def job_ResumeCommand_Init_def
  job_SubmitCommand_Init_def job_TerminateCommand_Init_def terminate_commands_def

lemmas list_inits = list_registrations_def
  list_Command_Init_def list_AddCommand_Init_def ClearCommand_Init_def list_ListContainsCommand_Init_def
  DestroyCommand_Init_def list_ListRemoveIndexCommand_Init_def list_ListRemoveValueCommand_Init_def list_ListSetCommand_Init_def
  SizeCommand_Init_def

lemmas map_inits = map_registrations_def
  map_Command_Init_def ClearCommand_Init_def DestroyCommand_Init_def MapEntrySetCommand_Init_def
  MapGetCommand_Init_def MapKeySetCommand_Init_def map_MapLoadAllCommand_Init_def LockCommand_Init_def
  MapRemoveCommand_Init_def map_MapSetCommand_Init_def SizeCommand_Init_def MapTryLockCommand_Init_def
  MapUnlockCommand_Init_def MapValuesCommand_Init_def

lemmas multimap_inits = multimap_registrations_def
  multimap_Command_Init_def ClearCommand_Init_def DestroyCommand_Init_def MapEntrySetCommand_Init_def
  MapGetCommand_Init_def MapKeySetCommand_Init_def LockCommand_Init_def multimap_MultiMapPutCommand_Init_def
  MapRemoveCommand_Init_def SizeCommand_Init_def MapTryLockCommand_Init_def MapUnlockCommand_Init_def
  MapValuesCommand_Init_def

lemmas object_inits = object_registrations_def
  object_Command_Init_def object_ListCommand_Init_def

lemmas project_inits = project_registrations_def
  project_Command_Init_def project_CreateCommand_Init_def project_ListTemplatesCommand_Init_def

lemmas queue_inits = queue_registrations_def
  queue_Command_Init_def ClearCommand_Init_def DestroyCommand_Init_def queue_QueueOfferCommand_Init_def
  queue_PollCommand_Init_def SizeCommand_Init_def

lemmas set_inits = set_registrations_def
  set_Command_Init_def set_AddCommand_Init_def ClearCommand_Init_def DestroyCommand_Init_def
  set_GetAllCommand_Init_def set_RemoveCommand_Init_def SizeCommand_Init_def

lemmas snapshot_inits = snapshot_registrations_def
  snapshot_Command_Init_def snapshot_DeleteCommand_Init_def snapshot_ListCommand_Init_def

lemmas sql_inits = sql_registrations_def
  sql_SQLCommand_Init_def

lemmas topic_inits = topic_registrations_def
  topic_Command_Init_def DestroyCommand_Init_def topic_PublishCommand_Init_def topic_SubscribeCommand_Init_def

lemmas viridian_inits = viridian_registrations_def
  viridian_CustomClassDeleteCommand_Init_def viridian_CustomClassDownloadCommand_Init_def viridian_CustomClassListCommand_Init_def viridian_CustomClassUploadCommand_Init_def
  viridian_DownloadLogsCommand_Init_def viridian_Command_Init_def viridian_ClusterCreateCommand_Init_def viridian_ClusterDeleteCommand_Init_def
  viridian_ClusterGetCommand_Init_def viridian_ClusterListCommand_Init_def viridian_ClusterResumeCommand_Init_def viridian_ClusterStopCommand_Init_def
  viridian_ImportConfigCommand_Init_def viridian_StreamLogCommand_Init_def viridian_LoginCommand_Init_def

lemma base_entries: "list_all (\<lambda>r. grouped r \<and> entry_ok (group_names (group_of r)) mode r) base_registrations"
  by (simp add: base_inits entry_simps)

lemma atomic_long_entries: "list_all (\<lambda>r. grouped r \<and> entry_ok (group_names (group_of r)) mode r) atomic_long_registrations"
  by (simp add: atomic_long_inits entry_simps)

lemma config_entries: "list_all (\<lambda>r. grouped r \<and> entry_ok (group_names (group_of r)) mode r) (config_registrations configs)"
  by (simp add: config_inits entry_simps MaxInt_def)

lemma demo_entries: "list_all (\<lambda>r. grouped r \<and> entry_ok (group_names (group_of r)) mode r) demo_registrations"
  by (simp add: demo_inits entry_simps)

lemma job_entries: "list_all (\<lambda>r. grouped r \<and> entry_ok (group_names (group_of r)) mode r) job_registrations"
  by (simp add: job_inits entry_simps)

lemma list_entries: "list_all (\<lambda>r. grouped r \<and> entry_ok (group_names (group_of r)) mode r) list_registrations"
  by (simp add: list_inits entry_simps)

lemma map_entries: "list_all (\<lambda>r. grouped r \<and> entry_ok (group_names (group_of r)) mode r) map_registrations"
  by (simp add: map_inits entry_simps)

lemma multimap_entries: "list_all (\<lambda>r. grouped r \<and> entry_ok (group_names (group_of r)) mode r) multimap_registrations"
  by (simp add: multimap_inits entry_simps)

lemma object_entries: "list_all (\<lambda>r. grouped r \<and> entry_ok (group_names (group_of r)) mode r) object_registrations"
  by (simp add: object_inits entry_simps)

lemma project_entries: "list_all (\<lambda>r. grouped r \<and> entry_ok (group_names (group_of r)) mode r) project_registrations"
  by (simp add: project_inits entry_simps)

lemma queue_entries: "list_all (\<lambda>r. grouped r \<and> entry_ok (group_names (group_of r)) mode r) queue_registrations"
  by (simp add: queue_inits entry_simps)

lemma set_entries: "list_all (\<lambda>r. grouped r \<and> entry_ok (group_names (group_of r)) mode r) set_registrations"
  by (simp add: set_inits entry_simps)

lemma snapshot_entries: "list_all (\<lambda>r. grouped r \<and> entry_ok (group_names (group_of r)) mode r) snapshot_registrations"
  by (simp add: snapshot_inits entry_simps)

lemma sql_entries: "list_all (\<lambda>r. grouped r \<and> entry_ok (group_names (group_of r)) mode r) sql_registrations"
  by (simp add: sql_inits entry_simps)

lemma topic_entries: "list_all (\<lambda>r. grouped r \<and> entry_ok (group_names (group_of r)) mode r) topic_registrations"
  by (simp add: topic_inits entry_simps)

lemma viridian_entries: "list_all (\<lambda>r. grouped r \<and> entry_ok (group_names (group_of r)) mode r) viridian_registrations"
  by (simp add: viridian_inits entry_simps)

lemmas package_entries = base_entries atomic_long_entries config_entries demo_entries job_entries list_entries
  map_entries multimap_entries object_entries project_entries queue_entries set_entries snapshot_entries
  sql_entries topic_entries viridian_entries

lemma registrations_entries:
  assumes "r \<in> set (registrations configs)"
  shows "entry_ok (group_names (group_of r)) mode r" "grouped r"
proof -
  have "list_all (\<lambda>r. grouped r \<and> entry_ok (group_names (group_of r)) mode r) (registrations configs)"
    by (simp add: registrations_def package_entries)
  then show "entry_ok (group_names (group_of r)) mode r" "grouped r" using assms by (simp_all add: list_all_iff)
qed

lemmas package_registrations = registrations_def base_registrations_def atomic_long_registrations_def
  config_registrations_def demo_registrations_def job_registrations_def list_registrations_def map_registrations_def
  multimap_registrations_def object_registrations_def project_registrations_def queue_registrations_def
  set_registrations_def snapshot_registrations_def sql_registrations_def topic_registrations_def
  viridian_registrations_def

lemma registrations_names: "map fst (registrations configs) = map fst (registrations [])"
  by (simp add: package_registrations)

lemma registrations_valid: "list_all validName (map fst (registrations []))"
  by (simp add: package_registrations validName_def name_letter_def name_char_def)

lemma registrations_distinct: "distinct (map fst (registrations []))"
  by (simp add: package_registrations)

subsection \<open>The registry made\<close>

lemma update_fresh: "k \<notin> fst ` set al \<Longrightarrow> AList.update k v al = al @ [(k, v)]"
  by (induction al) auto

definition item_of :: "(string \<Rightarrow> ('w, unit) step) \<Rightarrow> (string \<Rightarrow> ('w, unit) step option) \<Rightarrow> registration \<Rightarrow> string \<times> 'w command_item" where
  "item_of ex exi r = (fst r, \<lparr>it_init = Some (fst (snd r)), it_exec = ex (fst r), it_interactive = exi (fst r)\<rparr>)"

definition hidden_of :: "registration list \<Rightarrow> string list" where
  "hidden_of rs = concat (map (\<lambda>r. replicate (length (snd (snd r))) (fst r)) rs)"

lemma Apply_fold: "foldl (\<lambda>r opt. Apply opt r name) rg opts = rg\<lparr>onlyInteractive := onlyInteractive rg @ replicate (length opts) name\<rparr>"
proof (induction opts arbitrary: rg)
  case (Cons opt opts)
  then show ?case by (cases opt) simp
qed simp

lemma register_all_spec:
  assumes "list_all validName (map fst rs)" "distinct (map fst (commands rg) @ map fst rs)"
  shows "register_all ex exi rs rg =
    Some (rg\<lparr>commands := commands rg @ map (item_of ex exi) rs, onlyInteractive := onlyInteractive rg @ hidden_of rs\<rparr>)"
  using assms
proof (induction rs arbitrary: rg)
  case (Cons r rs)
  obtain name init opts where r: "r = (name, init, opts)" by (metis prod.exhaust)
  have fresh: "name \<notin> fst ` set (commands rg)" using Cons.prems(2) r by auto
  let ?it = "\<lparr>it_init = Some init, it_exec = ex name, it_interactive = exi name\<rparr>"
  let ?rg = "rg\<lparr>commands := commands rg @ [(name, ?it)], onlyInteractive := onlyInteractive rg @ replicate (length opts) name\<rparr>"
  have "RegisterCommand rg name ?it opts = (?rg, None)"
    using Cons.prems(1) r fresh by (simp add: RegisterCommand_def Apply_fold update_fresh)
  moreover have "register_all ex exi rs ?rg =
      Some (?rg\<lparr>commands := commands ?rg @ map (item_of ex exi) rs, onlyInteractive := onlyInteractive ?rg @ hidden_of rs\<rparr>)"
    by (rule Cons.IH) (use Cons.prems r in auto)
  ultimately show ?case by (simp add: r item_of_def hidden_of_def)
qed (simp add: hidden_of_def)

lemma clc_registry_is:
  "clc_registry p = Some
     \<lparr>initters = [(''00-global-init'', GlobalInit (cl_pns p) (cl_logPath p))],
      commands = map (item_of (cl_exec p) (interactive_of p)) (registrations (cl_configs p)),
      augmentors = [(''00-check-output-type'', cl_check p), (''20-sql'', cl_sqlAug p)], printers = [],
      onlyInteractive = hidden_of (registrations (cl_configs p))\<rparr>"
proof -
  note n = registrations_names [of "cl_configs p"]
  show ?thesis
    unfolding clc_registry_def Let_def
    by (subst register_all_spec)
      (simp_all add: n registrations_valid registrations_distinct newRegistry_def RegisterGlobalInitializer_def RegisterAugmentor_def)
qed

lemma clc_hidden: "hidden_of (registrations configs) = [''map:lock'', ''map:try-lock'', ''multi-map:lock'', ''multi-map:try-lock'']"
  by (simp add: hidden_of_def package_registrations)

lemma item_of_fst [simp]: "fst (item_of ex exi r) = fst r"
  by (simp add: item_of_def)

lemma map_fst_items: "map fst (map (item_of ex exi) rs) = map fst rs"
  by (induction rs) simp_all

lemma clc_registry_ok: "clc_registry p = Some rg \<Longrightarrow> registry_ok rg"
proof -
  assume "clc_registry p = Some rg"
  then have rg: "map fst (commands rg) = map fst (registrations (cl_configs p))"
      "onlyInteractive rg = hidden_of (registrations (cl_configs p))"
    unfolding clc_registry_is by (auto simp: map_fst_items simp del: map_map)
  note n = registrations_names [of "cl_configs p"]
  have "fst ` set (commands rg) = set (map fst (registrations []))" using rg(1) n by (metis set_map)
  moreover have "set (hidden_of rs) \<subseteq> fst ` set rs" for rs by (force simp: hidden_of_def)
  then have "set (onlyInteractive rg) \<subseteq> fst ` set (commands rg)" using rg by (metis set_map)
  ultimately show ?thesis
    using registrations_valid registrations_distinct rg(1) n unfolding registry_ok_def by (simp add: list_all_iff)
qed

subsection \<open>The tree made from it\<close>

text \<open>A command can be made when its \<open>Init\<close> gives a context with a usable check of the arguments, or is not available.\<close>

definition can_create :: "Mode \<Rightarrow> 'w command_item \<Rightarrow> bool" where
  "can_create mode item =
     (case run_init mode item of
        Inl e \<Rightarrow> e = ErrNotAvailable
      | Inr cc \<Rightarrow> list_all (\<lambda>s. Min s = 1 \<and> Max s = 1) (butlast (argSpecs cc)))"

lemma ErrNotAvailable_simps [simp]: "ErrNotAvailable \<noteq> panic_error" "err_is ErrNotAvailable ''not available''"
  by (simp_all add: ErrNotAvailable_def panic_error_def)

lemma create_command_total:
  assumes "can_create mode (snd c)"
  shows "\<exists>t'. create_command noArgs rg mode c t = Inr t'"
proof (cases "run_init mode (snd c)")
  case (Inl e)
  then show ?thesis using assms by (auto simp: can_create_def create_command_def Let_def split: prod.splits)
next
  case (Inr cc)
  have "\<exists>f. ArgsFunc noArgs cc = Some f"
    using assms Inr by (auto simp: can_create_def ArgsFunc_def list_all_iff list_ex_iff)
  then show ?thesis using Inr by (auto simp: create_command_def Let_def split: prod.splits)
qed

lemma create_all_total:
  "list_all (\<lambda>c. can_create mode (snd c)) cs \<Longrightarrow> \<exists>t'. create_all noArgs rg mode cs t = Inr t'"
proof (induction cs arbitrary: t)
  case (Cons c cs)
  obtain t1 where "create_command noArgs rg mode c t = Inr t1" using create_command_total Cons.prems by fastforce
  then show ?case using Cons by simp
qed simp

lemma parents_loop_dom:
  "parents_loop segs parent rest t = (q, t') \<Longrightarrow> dom (tr_cmds t') \<subseteq> dom (tr_cmds t) \<union> path_names segs rest"
proof (induction segs parent rest t rule: parents_loop.induct)
  case (2 segs parent seg rest t)
  let ?name = "join_with '':'' (segs @ [seg])"
  show ?case
  proof (cases "tr_cmds t ?name")
    case None
    let ?t = "add_node ?name (bare_node parent (command_use seg)) t"
    have "parents_loop (segs @ [seg]) (length (tr_nodes t)) rest ?t = (q, t')" using "2.prems" None by (simp add: Let_def)
    then have "dom (tr_cmds t') \<subseteq> dom (tr_cmds ?t) \<union> path_names (segs @ [seg]) rest" using "2.IH"(1) [OF refl refl None] by simp
    moreover have "dom (tr_cmds ?t) = insert ?name (dom (tr_cmds t))" by (simp add: add_node_def)
    ultimately show ?thesis unfolding path_names_Cons by blast
  next
    case (Some i)
    then have "dom (tr_cmds t') \<subseteq> dom (tr_cmds t) \<union> path_names (segs @ [seg]) rest"
      using "2.IH"(2) [OF refl refl Some] "2.prems" by (simp add: Let_def)
    then show ?thesis unfolding path_names_Cons by blast
  qed
qed simp

lemma addUniqueCommandGroup_cmds [simp]: "tr_cmds (addUniqueCommandGroup cc parent t) = tr_cmds t"
  by (auto simp: addUniqueCommandGroup_def split: option.splits)

lemma create_command_dom:
  assumes "create_command noArgs rg mode c t = Inr t'"
  shows "dom (tr_cmds t') \<subseteq> dom (tr_cmds t) \<union> name_parents (fst c) \<union> (if shown rg mode c then {fst c} else {})"
proof (cases "mode_shows rg mode c")
  case False
  then show ?thesis using assms by (auto simp: create_command_def)
next
  case True
  obtain q t1 where pl: "parents_loop [] 0 (butlast (split_on (CHR '':'') (fst c))) t = (q, t1)" by (metis prod.exhaust)
  have d: "dom (tr_cmds t1) \<subseteq> dom (tr_cmds t) \<union> name_parents (fst c)"
    using parents_loop_dom [OF pl] path_names_parents by blast
  show ?thesis
  proof (cases "run_init mode (snd c)")
    case (Inl e)
    then have "t' = t1" using assms True pl by (auto simp: create_command_def Let_def split: if_splits)
    then show ?thesis using d by auto
  next
    case (Inr cc)
    then obtain n where "t' = add_node (fst c) n (addUniqueCommandGroup cc q t1)"
      using create_command_node [OF assms True Inr pl] by blast
    then show ?thesis using d True Inr by (auto simp: add_node_def shown_def)
  qed
qed

lemma subset_Un_trans: "B \<subseteq> A \<union> X \<Longrightarrow> C \<subseteq> B \<union> Y \<Longrightarrow> C \<subseteq> A \<union> (X \<union> Y)"
  by blast

definition added_by :: "'w program_registry \<Rightarrow> Mode \<Rightarrow> string \<times> 'w command_item \<Rightarrow> string set" where
  "added_by rg mode c = name_parents (fst c) \<union> (if shown rg mode c then {fst c} else {})"

lemma create_all_dom:
  "create_all noArgs rg mode cs t = Inr t' \<Longrightarrow>
   dom (tr_cmds t') \<subseteq> dom (tr_cmds t) \<union> (\<Union>c \<in> set cs. added_by rg mode c)"
proof (induction cs arbitrary: t)
  case (Cons c cs)
  then obtain t1 where t1: "create_command noArgs rg mode c t = Inr t1" "create_all noArgs rg mode cs t1 = Inr t'"
    by (auto simp: bind_res_Inr_iff)
  have "dom (tr_cmds t1) \<subseteq> dom (tr_cmds t) \<union> added_by rg mode c"
    using create_command_dom [OF t1(1)] unfolding added_by_def by blast
  moreover have "dom (tr_cmds t') \<subseteq> dom (tr_cmds t1) \<union> (\<Union>c \<in> set cs. added_by rg mode c)" by (rule Cons.IH [OF t1(2)])
  ultimately show ?case unfolding list.set UN_insert by (rule subset_Un_trans)
qed simp

text \<open>The commands a mode does not have.\<close>

definition mode_hides :: "Mode \<Rightarrow> string list" where
  "mode_hides mode =
     (case mode of
        ModeNonInteractive \<Rightarrow> [''map:lock'', ''map:try-lock'', ''multi-map:lock'', ''multi-map:try-lock'']
      | ModeInteractive \<Rightarrow> [''shell'', ''sql'']
      | ModeScripting \<Rightarrow> [])"

text \<open>A valid name has at most one colon.\<close>

lemma validName_colon:
  assumes "validName (n @ CHR '':'' # s)"
  shows "CHR '':'' \<notin> set n"
proof
  assume "CHR '':'' \<in> set n"
  then obtain n1 n2 where n: "n = n1 @ CHR '':'' # n2" "CHR '':'' \<notin> set n1" by (metis split_list_first)
  have colon: "\<not> name_char (CHR '':'')" by (simp add: name_char_def name_letter_def)
  show False
  proof (cases n1)
    case Nil
    then show False using assms n colon by (simp add: validName_def name_char_def)
  next
    case (Cons c t)
    let ?rest = "n2 @ CHR '':'' # s"
    note v = assms [unfolded validName_def n(1) Cons, simplified]
    show False
    proof (cases "list_all name_char t")
      case True
      then have "dropWhile name_char (t @ CHR '':'' # ?rest) = CHR '':'' # ?rest"
        using colon by (simp add: dropWhile_append3 list_all_iff)
      then show False using v colon by simp
    next
      case False
      then obtain d r where d: "dropWhile name_char t = d # r" by (cases "dropWhile name_char t") (auto simp: list_all_iff dropWhile_eq_Nil_conv)
      then have "d \<in> set t" by (metis list.set_intros(1) set_dropWhileD)
      moreover have "dropWhile name_char (t @ CHR '':'' # ?rest) = d # r @ CHR '':'' # ?rest"
        using False d by (auto simp: dropWhile_append list_all_iff)
      ultimately show False using v n(2) Cons by auto
    qed
  qed
qed

lemma name_parents_group:
  assumes "r \<in> set (registrations configs)" "n \<in> name_parents (fst r)"
  shows "n \<in> set group_list"
proof -
  obtain s where s: "fst r = n @ CHR '':'' # s" using assms(2) by (auto simp: name_parents_def)
  have "fst r \<in> set (map fst (registrations []))" using assms(1) registrations_names [of configs] by (metis image_eqI set_map)
  then have "validName (fst r)" using registrations_valid by (simp only: list_all_iff)
  then have "group_of r = n" using validName_colon s by (simp add: group_of_def split_on_append_sep)
  then show ?thesis using registrations_entries(2) [OF assms(1)] s by (simp add: grouped_def)
qed

lemma groups_registered: "set group_list \<subseteq> fst ` set (registrations configs) - set (mode_hides mode)"
proof -
  have "list_all (\<lambda>g. g \<in> set (map fst (registrations configs))) group_list"
    by (simp add: group_list_def package_registrations)
  moreover have "set group_list \<inter> set (mode_hides mode) = {}" by (cases mode) (simp_all add: group_list_def mode_hides_def)
  ultimately show ?thesis by (auto simp: list_all_iff)
qed

lemma clc_Commands:
  assumes "clc_registry p = Some rg"
  shows "set (Commands rg) = item_of (cl_exec p) (interactive_of p) ` set (registrations (cl_configs p))"
  using assms unfolding clc_registry_is by (auto simp: Commands_def)

lemma run_init_item: "run_init mode (snd (item_of ex exi r)) = fst (snd r) (NewCommandContext new_cobra mode)"
  by (simp add: run_init_def item_of_def)

lemma clc_shown:
  assumes "clc_registry p = Some rg" "r \<in> set (registrations (cl_configs p))"
  shows "shown rg mode (item_of (cl_exec p) (interactive_of p) r) \<longleftrightarrow> fst r \<notin> set (mode_hides mode)"
proof -
  have "onlyInteractive rg = hidden_of (registrations (cl_configs p))" using assms(1) unfolding clc_registry_is by auto
  then have m: "mode_shows rg mode (item_of (cl_exec p) (interactive_of p) r) \<longleftrightarrow>
      fst r \<notin> set (mode_hides mode) - {''sql''}"
    by (cases mode) (auto simp: mode_shows_def IsAvailable_def available_loop_iff clc_hidden mode_hides_def interactive_of_def item_of_def)
  note e = registrations_entries(1) [OF assms(2), of mode]
  have "(\<forall>e. fst (snd r) (NewCommandContext new_cobra mode) = Inl e \<longrightarrow> \<not> err_is e ''not available'') \<longleftrightarrow>
      \<not> (fst r = ''sql'' \<and> mode = ModeInteractive)"
    using e by (cases "fst (snd r) (NewCommandContext new_cobra mode)") (auto simp: entry_ok_def)
  then show ?thesis unfolding shown_def run_init_item m by (cases mode) (auto simp: mode_hides_def)
qed

lemma clc_can_create:
  assumes "clc_registry p = Some rg"
  shows "list_all (\<lambda>c. can_create mode (snd c)) (Commands rg)"
proof -
  have "can_create mode (snd (item_of (cl_exec p) (interactive_of p) r))" if "r \<in> set (registrations (cl_configs p))" for r
    using registrations_entries(1) [OF that, of mode]
    by (auto simp: can_create_def run_init_item entry_ok_def context_ok_def split: sum.splits)
  then show ?thesis using clc_Commands [OF assms] by (auto simp: list_all_iff)
qed

text \<open>
  C4: The program starts with all its commands: every registration succeeds, and in every mode the tree is
  made without an error or a panic and has exactly the registered commands of the mode. Only the locking
  commands need the shell or a script, and only the shell and sql are not there inside the shell. Every
  group of subcommands is itself a registered command, so that no node is made up.
\<close>

theorem clc_tree_complete:
  "\<exists>rg t. clc_registry p = Some rg \<and> createCommands noArgs rg mode (root_tree use) = Inr t \<and> tree_ok t \<and>
     dom (tr_cmds t) = fst ` set (registrations (cl_configs p)) - set (mode_hides mode)"
proof -
  let ?rs = "registrations (cl_configs p)" and ?it = "item_of (cl_exec p) (interactive_of p)"
  obtain rg where rg: "clc_registry p = Some rg" using clc_registry_is by blast
  obtain t where t: "create_all noArgs rg mode (Commands rg) (root_tree use) = Inr t"
    using create_all_total [OF clc_can_create [OF rg]] by blast
  have root: "tree_ok (root_tree use)" "tr_cmds (root_tree use) = Map.empty"
    by (auto simp: tree_ok_def root_tree_def bare_node_def)
  have sorted: "sorted_wrt (<) (map fst (Commands rg))"
    using clc_registry_ok [OF rg] strict_sorted_sortedItems [of "commands rg"] by (simp add: registry_ok_def Commands_def)
  have g: "tree_ok t" "\<forall>c \<in> set (Commands rg). shown rg mode c \<longrightarrow> fst c \<in> dom (tr_cmds t)"
    using create_all_grows [OF t root(1) sorted] root(2) by (auto simp: grows_def created_def)
  have "tree_ok t" using g(1) .
  moreover have "fst ` set ?rs - set (mode_hides mode) \<subseteq> dom (tr_cmds t)"
  proof
    fix n assume "n \<in> fst ` set ?rs - set (mode_hides mode)"
    then obtain r where r: "r \<in> set ?rs" "fst r = n" "n \<notin> set (mode_hides mode)" by auto
    then have "shown rg mode (?it r)" "?it r \<in> set (Commands rg)" using clc_shown [OF rg] clc_Commands [OF rg] by auto
    then show "n \<in> dom (tr_cmds t)" using g(2) r(2) by (metis item_of_fst)
  qed
  moreover have "dom (tr_cmds t) \<subseteq> fst ` set ?rs - set (mode_hides mode)"
  proof
    fix n assume "n \<in> dom (tr_cmds t)"
    then obtain c where "c \<in> set (Commands rg)" "n \<in> added_by rg mode c" using create_all_dom [OF t] root(2) by auto
    then obtain r where r: "r \<in> set ?rs" "n \<in> added_by rg mode (?it r)" using clc_Commands [OF rg] by auto
    then show "n \<in> fst ` set ?rs - set (mode_hides mode)"
      using name_parents_group [OF r(1)] groups_registered [of "cl_configs p" mode] clc_shown [OF rg r(1)]
      by (auto simp: added_by_def split: if_splits)
  qed
  ultimately show ?thesis using rg t unfolding createCommands_def by blast
qed

subsection \<open>The flags a command is given\<close>

text \<open>What the \<open>Init\<close> of a registered command sets, when it is available in the mode.\<close>

definition init_context :: "'w program_registry \<Rightarrow> Mode \<Rightarrow> string \<Rightarrow> CommandContext option" where
  "init_context rg mode name =
     Option.bind (RegistryItems_Map (Commands rg) name) (\<lambda>item.
       case run_init mode item of Inl e \<Rightarrow> None | Inr cc \<Rightarrow> Some cc)"

text \<open>A name with those of the groups above it, and the flags of all of them with those of the root.\<close>

definition lineage :: "string \<Rightarrow> string list" where
  "lineage name =
     (let ps = split_on (CHR '':'') name in map (\<lambda>k. join_with '':'' (take (Suc k) ps)) [0..<length ps])"

definition own_names :: "'w program_registry \<Rightarrow> Mode \<Rightarrow> string \<Rightarrow> (string \<times> string) list" where
  "own_names rg mode name = (case init_context rg mode name of None \<Rightarrow> [] | Some cc \<Rightarrow> names_of cc)"

definition flag_names :: "'w program_registry \<Rightarrow> Mode \<Rightarrow> string \<Rightarrow> (string \<times> string) list" where
  "flag_names rg mode name =
     (case init_all (GlobalInitializers rg) (NewCommandContext new_cobra mode) of Inl e \<Rightarrow> [] | Inr cc \<Rightarrow> names_of cc) @
     concat (map (own_names rg mode) (lineage name))"

lemma AddStringConfig_sel [cc_simps]:
  "names_of (AddStringConfig cc n v f) = names_of cc" "Interactive (AddStringConfig cc n v f) = Interactive cc"
  by (simp_all add: AddStringConfig_def names_of_def Interactive_def Let_def)

lemma GlobalInit_names:
  "\<exists>cc. GlobalInit pns lp (NewCommandContext new_cobra mode) = Inr cc \<and>
     names_of cc = (if mode = ModeInteractive then take 4 root_names else root_names)"
  by (cases mode) (simp_all add: GlobalInit_def updateFormatFlag_def Let_def cc_simps root_names_def)

lemma clc_init_context:
  assumes "clc_registry p = Some rg" "r \<in> set (registrations (cl_configs p))"
  shows "init_context rg mode (fst r) =
    (case fst (snd r) (NewCommandContext new_cobra mode) of Inl e \<Rightarrow> None | Inr cc \<Rightarrow> Some cc)"
proof -
  let ?it = "item_of (cl_exec p) (interactive_of p)"
  have d: "distinct (map fst (commands rg))" using clc_registry_ok [OF assms(1)] by (simp add: registry_ok_def)
  have "?it r \<in> set (commands rg)" using clc_Commands [OF assms(1)] assms(2) by (simp add: Commands_def)
  then have "map_of (commands rg) (fst r) = Some (snd (?it r))"
    using d by (intro map_of_is_SomeI) (simp_all add: item_of_def)
  then have "RegistryItems_Map (Commands rg) (fst r) = Some (snd (?it r))"
    using RegistryItems_Map_sortedItems [OF d] by (simp add: Commands_def)
  then show ?thesis by (simp add: init_context_def run_init_item)
qed

text \<open>The groups hand down what \<^const>\<open>group_names\<close> says.\<close>

lemma group_own_names:
  assumes "clc_registry p = Some rg" "g \<in> set group_list"
  shows "own_names rg mode g = group_names g"
proof -
  have "list_all (\<lambda>g. \<exists>r \<in> set (registrations (cl_configs p)). fst r = g \<and>
      (case fst (snd r) (NewCommandContext new_cobra mode) of Inl e \<Rightarrow> False | Inr cc \<Rightarrow> names_of cc = group_names g)) group_list"
    by (simp add: group_list_def package_registrations group_names_def cc_simps
      atomic_long_Command_Init_def config_Command_Init_def demo_Command_Init_def job_Command_Init_def list_Command_Init_def
      map_Command_Init_def multimap_Command_Init_def object_Command_Init_def project_Command_Init_def queue_Command_Init_def
      set_Command_Init_def snapshot_Command_Init_def topic_Command_Init_def viridian_Command_Init_def)
  then obtain r where r: "r \<in> set (registrations (cl_configs p))" "fst r = g"
      "case fst (snd r) (NewCommandContext new_cobra mode) of Inl e \<Rightarrow> False | Inr cc \<Rightarrow> names_of cc = group_names g"
    using assms(2) unfolding list_all_iff by blast
  then show ?thesis using clc_init_context [OF assms(1) r(1), of mode] by (auto simp: own_names_def split: sum.splits)
qed

lemma lineage_valid:
  assumes "validName name"
  shows "lineage name = (if CHR '':'' \<in> set name then [hd (split_on (CHR '':'') name), name] else [name])"
proof (cases "CHR '':'' \<in> set name")
  case False
  then show ?thesis by (simp add: lineage_def split_on_no_sep)
next
  case True
  then obtain n s where n: "name = n @ CHR '':'' # s" "CHR '':'' \<notin> set n" by (metis split_list_first)
  have "CHR '':'' \<notin> set s"
  proof
    assume "CHR '':'' \<in> set s"
    then obtain s1 s2 where "s = s1 @ CHR '':'' # s2" by (metis split_list)
    then have "validName ((n @ CHR '':'' # s1) @ CHR '':'' # s2)" using assms n(1) by simp
    then show False using validName_colon by fastforce
  qed
  then have "split_on (CHR '':'') name = [n, s]" using n by (simp add: split_on_append_sep split_on_no_sep)
  then show ?thesis using n by (simp add: lineage_def numeral_2_eq_2)
qed

lemma no_clash_fewer: "no_clash (xs @ ys @ zs) \<Longrightarrow> no_clash (xs @ zs)"
  unfolding no_clash_def by auto

lemma no_clash_take: "no_clash (xs @ zs) \<Longrightarrow> no_clash (take k xs @ zs)"
  using no_clash_fewer [of "take k xs" "drop k xs" zs] append_assoc append_take_drop_id by metis

text \<open>
  C5: The declarations of the commands fit together: for every command of a mode the usage begins with
  the name under which it is registered, its group of the help is one it adds itself, and no two of the
  flags it can be given - the root's, its group's, its own and the help flag - have the same name or the
  same letter, so that building the flags never panics.
\<close>

theorem clc_commands_consistent:
  assumes "clc_registry p = Some rg" "name \<in> fst ` set (registrations (cl_configs p))"
    and "init_context rg mode name = Some cc"
  shows "usage cc = last (split_on (CHR '':'') name) \<and>
    (GroupID (Cmd cc) = [] \<or> map_option fst (cc_group cc) = Some (GroupID (Cmd cc))) \<and>
    no_clash (flag_names rg mode name)"
proof -
  obtain r where r: "r \<in> set (registrations (cl_configs p))" "name = fst r" using assms(2) by blast
  have cc: "fst (snd r) (NewCommandContext new_cobra mode) = Inr cc"
    using clc_init_context [OF assms(1) r(1), of mode] assms(3) r(2) by (simp split: sum.splits)
  let ?up = "if CHR '':'' \<in> set name then group_names (group_of r) else []"
  have ok: "context_ok (root_names @ ?up) name cc"
    using registrations_entries(1) [OF r(1), of mode] cc r(2) by (auto simp: entry_ok_def)
  have own: "own_names rg mode name = names_of cc" using assms(3) by (simp add: own_names_def)
  have "validName name" using clc_registry_ok [OF assms(1)] clc_Commands [OF assms(1)] r
    by (force simp: registry_ok_def Commands_def)
  then have "concat (map (own_names rg mode) (lineage name)) = ?up @ names_of cc"
    using group_own_names [OF assms(1)] registrations_entries(2) [OF r(1)] r(2) own
    by (simp add: lineage_valid grouped_def group_of_def)
  moreover have "GlobalInitializers rg = [(''00-global-init'', GlobalInit (cl_pns p) (cl_logPath p))]"
    using assms(1) unfolding clc_registry_is by (auto simp: GlobalInitializers_def sortedItems_eq)
  moreover obtain gc where "GlobalInit (cl_pns p) (cl_logPath p) (NewCommandContext new_cobra mode) = Inr gc"
      "names_of gc = (if mode = ModeInteractive then take 4 root_names else root_names)"
    using GlobalInit_names by blast
  ultimately have "flag_names rg mode name = (if mode = ModeInteractive then take 4 root_names else root_names) @ ?up @ names_of cc"
    by (simp add: flag_names_def)
  moreover have "no_clash (root_names @ ?up @ names_of cc)" using ok by (simp add: context_ok_def)
  then have "no_clash (take 4 root_names @ ?up @ names_of cc)"
    by (rule no_clash_take)
  ultimately show ?thesis using ok \<open>no_clash (root_names @ ?up @ names_of cc)\<close> by (auto simp: context_ok_def)
qed

definition sample_parts :: "nat clc_parts" where
  "sample_parts = \<lparr>cl_exec = (\<lambda>n s. (Inr (), s)), cl_shell = (\<lambda>s. (Inr (), s)), cl_check = (\<lambda>s. (Inr (), s)),
     cl_sqlAug = (\<lambda>s. (Inr (), s)), cl_pns = [''csv'', ''table''], cl_logPath = ''clc.log'', cl_configs = ''configs''\<rparr>"

lemma clc_commands_consistent_witness:
  "\<exists>rg cc. clc_registry sample_parts = Some rg \<and> init_context rg ModeScripting ''map:try-lock'' = Some cc \<and>
     usage cc = ''try-lock'' \<and> no_clash (flag_names rg ModeScripting ''map:try-lock'')"
proof -
  let ?r = "(''map:try-lock'', MapTryLockCommand_Init ''Map'', [OnlyInteractive])"
  obtain rg where rg: "clc_registry sample_parts = Some rg" using clc_registry_is by blast
  have r: "?r \<in> set (registrations (cl_configs sample_parts))" by (simp add: package_registrations)
  obtain cc where cc: "init_context rg ModeScripting ''map:try-lock'' = Some cc"
    using clc_init_context [OF rg r, of ModeScripting] by (simp add: MapTryLockCommand_Init_def Let_def)
  have "''map:try-lock'' \<in> fst ` set (registrations (cl_configs sample_parts))" using r by force
  from clc_commands_consistent [OF rg this cc] show ?thesis using rg cc by auto
qed

end
