(* ===== verification/Events.thy ===== *)
theory Events
  imports Viridian
begin

section \<open>Server-sent events (internal/sse/event.go, client.go)\<close>

text \<open>
  A stream of events is read with \<^verbatim>\<open>bufio.Scanner\<close> and the split function of \<open>NewEventScanner\<close>. What
  a read of the connection returns is not determined: the scanner is a step relation that may read any
  number of bytes. The main theorem is that its events are those of the deterministic \<open>scan_all\<close> however
  the bytes arrive, and that it always ends on a finite stream.
\<close>

subsection \<open>An event\<close>

definition LF :: char where "LF = CHR 0x0A"

definition CR :: char where "CR = CHR 0x0D"

record sse_event =
  ev_Data :: string

definition event_Empty :: "sse_event \<Rightarrow> bool" where
  "event_Empty e \<longleftrightarrow> ev_Data e = []"

definition headerName :: "string \<Rightarrow> string" where
  "headerName data = (case index_of data '':'' of None \<Rightarrow> data | Some i \<Rightarrow> take i data)"

definition dataValue :: "string \<Rightarrow> string" where
  "dataValue data =
     (case index_of data '':'' of
        None \<Rightarrow> []
      | Some i \<Rightarrow>
          if length data = i + 1 then []
          else (let d = drop (i + 1) data in if d \<noteq> [] \<and> hd d = CHR '' '' then tl d else d))"

text \<open>\<^verbatim>\<open>bytes.Replace(msg, "\n\r", "\n", -1)\<close>, from left to right.\<close>

fun normalize :: "string \<Rightarrow> string" where
  "normalize (a # b # s) = (if a = LF \<and> b = CR then LF # normalize s else a # normalize (b # s))"
| "normalize s = s"

fun data_lines :: "string list \<Rightarrow> string \<Rightarrow> string" where
  "data_lines [] data = data"
| "data_lines (l # ls) data = data_lines ls (if headerName l = ''data'' then data @ dataValue l @ [LF] else data)"

definition Unmarshal :: "string \<Rightarrow> sse_event" where
  "Unmarshal msg = \<lparr>ev_Data = trim_right_char LF (data_lines (split_on LF (normalize msg)) [])\<rparr>"

subsection \<open>The scanner\<close>

text \<open>\<^verbatim>\<open>eventSeparator\<close> and the split function: how many bytes it takes and the token, if there is one.\<close>

definition eventSeparator :: string where
  "eventSeparator = [LF, LF]"

definition split_events :: "string \<Rightarrow> bool \<Rightarrow> nat \<times> string option" where
  "split_events data isEOF =
     (if data = [] \<and> isEOF then (0, None)
      else case index_of data eventSeparator of
          Some i \<Rightarrow> (i + length eventSeparator, Some (take i data))
        | None \<Rightarrow> if isEOF then (length data, Some data) else (0, None))"

text \<open>
  A read gives at least one byte or is at the end of the stream: other errors of the connection and reads of no bytes are left out.
  The state of the scanner: the bytes in its buffer, those the connection will still give, whether the
  end was read, and the tokens so far. The buffer grows up to \<^verbatim>\<open>bufio.MaxScanTokenSize\<close>.
\<close>

definition maxTokenSize :: nat where
  "maxTokenSize = 65536"

record scan_state =
  sc_data :: string
  sc_rest :: string
  sc_eof :: bool
  sc_tokens :: "string list"

definition NewEventScanner :: "string \<Rightarrow> scan_state" where
  "NewEventScanner eventStream = \<lparr>sc_data = [], sc_rest = eventStream, sc_eof = False, sc_tokens = []\<rparr>"

inductive scan_step :: "scan_state \<Rightarrow> scan_state \<Rightarrow> bool" where
  scan_token: "split_events (sc_data s) (sc_eof s) = (adv, Some tok) \<Longrightarrow>
    scan_step s (s\<lparr>sc_data := drop adv (sc_data s), sc_tokens := sc_tokens s @ [tok]\<rparr>)"
| scan_read: "snd (split_events (sc_data s) (sc_eof s)) = None \<Longrightarrow> \<not> sc_eof s \<Longrightarrow> 0 < n \<Longrightarrow> n \<le> length (sc_rest s) \<Longrightarrow>
    length (sc_data s) + n \<le> maxTokenSize \<Longrightarrow>
    scan_step s (s\<lparr>sc_data := sc_data s @ take n (sc_rest s), sc_rest := drop n (sc_rest s)\<rparr>)"
| scan_eof: "snd (split_events (sc_data s) (sc_eof s)) = None \<Longrightarrow> \<not> sc_eof s \<Longrightarrow> sc_rest s = [] \<Longrightarrow>
    length (sc_data s) < maxTokenSize \<Longrightarrow> scan_step s (s\<lparr>sc_eof := True\<rparr>)"

text \<open>How a scanner that cannot go on has ended: what \<open>ReadEvent\<close> returns then.\<close>

definition ErrTooLong :: go_error where
  "ErrTooLong = Sentinel ''bufio.Scanner: token too long''"

definition io_EOF :: go_error where
  "io_EOF = Sentinel ''EOF''"

definition scan_end :: "scan_state \<Rightarrow> go_error" where
  "scan_end s = (if sc_eof s then io_EOF else ErrTooLong)"

text \<open>The tokens of a whole stream, and how it ends.\<close>

function scan_all :: "string \<Rightarrow> string list \<times> go_error" where
  "scan_all s =
     (case index_of (take maxTokenSize s) eventSeparator of
        Some i \<Rightarrow> (let (ts, e) = scan_all (drop (i + length eventSeparator) s) in (take i s # ts, e))
      | None \<Rightarrow> if maxTokenSize \<le> length s then ([], ErrTooLong) else (if s = [] then [] else [s], io_EOF))"
  by pat_completeness auto

lemma index_of_bound: "index_of s p = Some i \<Longrightarrow> i + length p \<le> length s"
proof -
  assume "index_of s p = Some i"
  then have i: "i \<le> length s" "take (length p) (drop i s) = p" using index_of_Some [of s p i] by (auto simp: has_prefix_def)
  have "min (length s - i) (length p) = length p" using arg_cong [OF i(2), of length] by simp
  then show ?thesis using i(1) by linarith
qed

lemma index_of_append: "index_of s p = Some i \<Longrightarrow> index_of (s @ t) p = Some i"
proof (induction s arbitrary: i)
  case Nil
  then show ?case by (cases t) (auto split: if_splits)
next
  case (Cons c s)
  have "has_prefix (c # s @ t) p" if "has_prefix (c # s) p" using that by (metis append_Cons append_assoc has_prefix_iff)
  moreover have "\<not> has_prefix (c # s @ t) p" if "\<not> has_prefix (c # s) p" "index_of s p = Some j" for j
  proof
    assume "has_prefix (c # s @ t) p"
    moreover have "length p \<le> length s" using index_of_bound [OF that(2)] by simp
    ultimately show False using that(1) by (cases p) (auto simp: has_prefix_def)
  qed
  ultimately show ?case using Cons by (auto split: if_splits)
qed

lemma index_of_take: "index_of (take n s) p = Some i \<Longrightarrow> index_of s p = Some i"
  using index_of_append [of "take n s" p i "drop n s"] by simp

termination scan_all
proof (relation "measure length")
  fix s i assume "index_of (take maxTokenSize s) eventSeparator = Some i"
  then have "i + length eventSeparator \<le> length s" using index_of_bound index_of_take by blast
  then show "(drop (i + length eventSeparator) s, s) \<in> measure length" by (simp add: eventSeparator_def)
qed simp

declare scan_all.simps [simp del]

lemma scan_all_found:
  assumes "index_of d eventSeparator = Some i" "length d \<le> maxTokenSize"
  shows "scan_all (d @ r) =
    (take i d # fst (scan_all (drop (i + length eventSeparator) d @ r)), snd (scan_all (drop (i + length eventSeparator) d @ r)))"
proof -
  have "take maxTokenSize (d @ r) = d @ take (maxTokenSize - length d) r" using assms(2) by simp
  then have "index_of (take maxTokenSize (d @ r)) eventSeparator = Some i" using index_of_append [OF assms(1)] by simp
  moreover have "i + length eventSeparator \<le> length d" by (rule index_of_bound [OF assms(1)])
  ultimately show ?thesis by (subst scan_all.simps) (simp add: case_prod_beta)
qed

lemma scan_all_last:
  assumes "index_of d eventSeparator = None" "length d < maxTokenSize"
  shows "scan_all d = (if d = [] then [] else [d], io_EOF)"
  using assms by (subst scan_all.simps) simp

lemma scan_all_long:
  assumes "index_of d eventSeparator = None" "length d = maxTokenSize"
  shows "scan_all (d @ r) = ([], ErrTooLong)"
  using assms by (subst scan_all.simps) simp

subsection \<open>The events do not depend on the reads\<close>

text \<open>What stays true while scanning: the tokens so far and those of the bytes left make up all of them.\<close>

definition scan_inv :: "string \<Rightarrow> scan_state \<Rightarrow> bool" where
  "scan_inv stream s \<longleftrightarrow>
     length (sc_data s) \<le> maxTokenSize \<and>
     (sc_eof s \<longrightarrow> sc_rest s = [] \<and> length (sc_data s) < maxTokenSize) \<and>
     scan_all stream =
       (sc_tokens s @ fst (scan_all (sc_data s @ sc_rest s)), snd (scan_all (sc_data s @ sc_rest s)))"

lemma scan_inv_init: "scan_inv stream (NewEventScanner stream)"
  by (simp add: scan_inv_def NewEventScanner_def)

lemma scan_inv_step: "scan_step s s' \<Longrightarrow> scan_inv stream s \<Longrightarrow> scan_inv stream s'"
proof (induction rule: scan_step.induct)
  case (scan_token s adv tok)
  show ?case
  proof (cases "index_of (sc_data s) eventSeparator")
    case (Some i)
    then have "adv = i + length eventSeparator" "tok = take i (sc_data s)"
      using scan_token(1) by (auto simp: split_events_def split: if_splits)
    then show ?thesis
      using scan_token(2) scan_all_found [OF Some, of "sc_rest s"] by (auto simp: scan_inv_def)
  next
    case None
    then have e: "sc_eof s" "adv = length (sc_data s)" "tok = sc_data s" "sc_data s \<noteq> []"
      using scan_token(1) by (auto simp: split_events_def split: if_splits)
    then have r: "sc_rest s = []" "length (sc_data s) < maxTokenSize" using scan_token(2) by (auto simp: scan_inv_def)
    have "scan_all [] = ([], io_EOF)" by (simp add: scan_all_last maxTokenSize_def eventSeparator_def)
    then show ?thesis
      using scan_token(2) e r scan_all_last [OF None r(2)] by (simp add: scan_inv_def)
  qed
next
  case (scan_read s n)
  then show ?case by (simp add: scan_inv_def)
next
  case (scan_eof s)
  then show ?case by (simp add: scan_inv_def)
qed

text \<open>A scanner that cannot go on has read everything, or its buffer is full without an event in it.\<close>

lemma scan_stuck:
  assumes "\<nexists>s'. scan_step s s'"
  shows "snd (split_events (sc_data s) (sc_eof s)) = None \<and> (sc_eof s \<or> maxTokenSize \<le> length (sc_data s))"
proof
  have none: "tok = None" if "split_events (sc_data s) (sc_eof s) = (adv, tok)" for adv tok
    using that assms scan_step.scan_token [of s adv] by (cases tok) auto
  then show n: "snd (split_events (sc_data s) (sc_eof s)) = None" by (metis prod.collapse)
  show "sc_eof s \<or> maxTokenSize \<le> length (sc_data s)"
  proof (rule ccontr)
    assume "\<not> ?thesis"
    then have c: "\<not> sc_eof s" "length (sc_data s) < maxTokenSize" by auto
    show False
    proof (cases "sc_rest s")
      case Nil
      then show False using scan_step.scan_eof [OF n c(1) Nil c(2)] assms by blast
    next
      case (Cons x xs)
      then have "scan_step s (s\<lparr>sc_data := sc_data s @ take 1 (sc_rest s), sc_rest := drop 1 (sc_rest s)\<rparr>)"
        using scan_step.scan_read [OF n c(1), of 1] c(2) by simp
      then show False using assms by blast
    qed
  qed
qed

text \<open>Each step uses up bytes or the end.\<close>

lemma scan_step_less:
  "scan_step s s' \<Longrightarrow> length (sc_data s') + 2 * length (sc_rest s') + of_bool (\<not> sc_eof s') <
    length (sc_data s) + 2 * length (sc_rest s) + of_bool (\<not> sc_eof s)"
proof (induction rule: scan_step.induct)
  case (scan_token s adv tok)
  then have "0 < adv \<and> sc_data s \<noteq> []"
    using index_of_bound [of "sc_data s" eventSeparator] by (auto simp: split_events_def eventSeparator_def split: if_splits option.splits)
  then show ?case by (cases "sc_data s") auto
qed (auto simp: of_bool_def)

lemma scan_terminates: "wfP (\<lambda>s' s. scan_step s s')"
  by (rule wfp_if_convertible_to_nat [where f = "\<lambda>s. length (sc_data s) + 2 * length (sc_rest s) + of_bool (\<not> sc_eof s)"])
    (rule scan_step_less)

lemma scan_reaches_end: "\<exists>t. scan_step\<^sup>*\<^sup>* s t \<and> (\<nexists>t'. scan_step t t')"
proof (induction s rule: wfp_induct_rule [OF scan_terminates])
  case (1 s)
  show ?case
  proof (cases "\<exists>s'. scan_step s s'")
    case True
    then obtain s' t where "scan_step s s'" "scan_step\<^sup>*\<^sup>* s' t" "\<nexists>t'. scan_step t t'" using 1 by blast
    then show ?thesis by (meson converse_rtranclp_into_rtranclp)
  qed blast
qed

text \<open>
  C17: The events of a stream do not depend on how its bytes arrive: the scanner always stops, and whenever
  it does, its tokens and its end are those of the whole stream - the texts between blank lines, up to the
  first that does not fit the buffer.
\<close>

theorem scanner_deterministic:
  "wfP (\<lambda>s' s. scan_step s s') \<and>
   (\<forall>s. scan_step\<^sup>*\<^sup>* (NewEventScanner stream) s \<longrightarrow> (\<nexists>s'. scan_step s s') \<longrightarrow>
     (sc_tokens s, scan_end s) = scan_all stream)"
proof (intro conjI scan_terminates allI impI)
  fix s assume run: "scan_step\<^sup>*\<^sup>* (NewEventScanner stream) s" and stuck: "\<nexists>s'. scan_step s s'"
  have inv: "scan_inv stream s"
    using run by (induction rule: rtranclp_induct) (simp_all add: scan_inv_init scan_inv_step)
  note n = scan_stuck [OF stuck]
  show "(sc_tokens s, scan_end s) = scan_all stream"
  proof (cases "sc_eof s")
    case True
    then have "sc_data s = []" using n by (auto simp: split_events_def split: option.splits if_splits)
    then show ?thesis
      using inv True scan_all_last [of "[]"] by (simp add: scan_inv_def scan_end_def maxTokenSize_def eventSeparator_def)
  next
    case False
    then have "index_of (sc_data s) eventSeparator = None" "length (sc_data s) = maxTokenSize"
      using n inv by (auto simp: split_events_def scan_inv_def split: option.splits)
    then show ?thesis using inv False scan_all_long by (simp add: scan_inv_def scan_end_def)
  qed
qed

lemma scan_all_sample: "scan_all (''data: a'' @ [LF, LF] @ ''data: b'') = ([''data: a'', ''data: b''], io_EOF)"
  using scan_all_found [of "''data: a'' @ [LF, LF]" 7 "''data: b''"] scan_all_last [of "''data: b''"]
  by (simp add: eventSeparator_def maxTokenSize_def LF_def)

lemma scanner_deterministic_witness:
  "\<exists>s. scan_step\<^sup>*\<^sup>* (NewEventScanner (''data: a'' @ [LF, LF] @ ''data: b'')) s \<and> sc_tokens s = [''data: a'', ''data: b'']"
proof -
  let ?stream = "''data: a'' @ [LF, LF] @ ''data: b''"
  obtain s where s: "scan_step\<^sup>*\<^sup>* (NewEventScanner ?stream) s" "\<nexists>s'. scan_step s s'" using scan_reaches_end by blast
  have "(sc_tokens s, scan_end s) = scan_all ?stream" using scanner_deterministic [of ?stream] s by blast
  then show ?thesis using s(1) unfolding scan_all_sample by blast
qed

subsection \<open>Reading events\<close>

definition ReadEvent :: "string \<Rightarrow> sse_event option" where
  "ReadEvent tok = (let ev = Unmarshal tok in if event_Empty ev then None else Some ev)"

definition ErrNoConnection :: go_error where
  "ErrNoConnection = Sentinel ''no connection''"

text \<open>The loop over the events; it ends with the error of the callback or of the scanner.\<close>

fun callback_loop :: "(sse_event option \<Rightarrow> ('s, unit) eff) \<Rightarrow> go_error \<Rightarrow> string list \<Rightarrow> ('s, unit) eff" where
  "callback_loop process end' [] = fail end'"
| "callback_loop process end' (t # ts) = andthen (process (ReadEvent t)) (\<lambda>_. callback_loop process end' ts)"

text \<open>\<open>sendRequest\<close> is a parameter: an error, or the status and the body of the response.\<close>

definition SubscribeWithCallback ::
    "'n viridian_env \<Rightarrow> ('s, int \<times> string) eff \<Rightarrow> (sse_event option \<Rightarrow> ('s, unit) eff) \<Rightarrow> ('s, unit) eff" where
  "SubscribeWithCallback env sendRequest process s =
     (case sendRequest s of
        (Inl e, s') \<Rightarrow> (Inl ErrNoConnection, s')
      | (Inr (code, body), s') \<Rightarrow>
          if code \<noteq> 200 then (Inl (NewHTTPClientError env code []), s')
          else callback_loop process (snd (scan_all body)) (fst (scan_all body)) s')"

subsection \<open>Writing and reading events\<close>

text \<open>The text of an event with some data, as the specification of server-sent events has it.\<close>

definition event_line :: "string \<Rightarrow> string" where
  "event_line l = ''data: '' @ l"

definition event_text :: "string \<Rightarrow> string" where
  "event_text p = concat (map (\<lambda>l. event_line l @ [LF]) (split_on LF p)) @ [LF]"

definition event_ok :: "string \<Rightarrow> bool" where
  "event_ok p \<longleftrightarrow> p \<noteq> [] \<and> last p \<noteq> LF \<and> CR \<notin> set p \<and> length (event_text p) \<le> maxTokenSize"

lemma LF_neq [simp]: "LF \<noteq> CHR '':''" "LF \<noteq> CHR '' ''" "LF \<noteq> CHR ''d''" "LF \<noteq> CHR ''a''" "LF \<noteq> CHR ''t''" "CR \<noteq> LF"
  "LF \<noteq> CR" "CHR ''d'' \<noteq> LF"
  by (simp_all add: LF_def CR_def)

lemma index_of_separator:
  "LF \<notin> set w \<Longrightarrow> index_of (w @ LF # x # r) eventSeparator =
     (if x = LF then Some (length w) else map_option (\<lambda>i. length w + 1 + i) (index_of (x # r) eventSeparator))"
proof (induction w)
  case Nil
  then show ?case by (cases "index_of r [LF, LF]") (simp_all add: eventSeparator_def has_prefix_def)
next
  case (Cons c w)
  then show ?case by (auto simp: eventSeparator_def has_prefix_def option.map_comp o_def split: option.splits)
qed

lemma index_of_lines:
  "ws \<noteq> [] \<Longrightarrow> (\<And>w. w \<in> set ws \<Longrightarrow> w \<noteq> [] \<and> LF \<notin> set w) \<Longrightarrow>
   index_of (join_with [LF] ws @ LF # LF # r) eventSeparator = Some (length (join_with [LF] ws))"
proof (induction ws rule: induct_list012)
  case (2 w)
  then show ?case by (simp add: index_of_separator)
next
  case (3 w v ws)
  obtain c v' where v: "v = c # v'" "c \<noteq> LF" using "3.prems"(2) [of v] by (cases v) auto
  let ?rest = "join_with [LF] (v # ws)"
  obtain t where t: "?rest = c # t" using v by (cases ws) auto
  have "index_of (?rest @ LF # LF # r) eventSeparator = Some (length ?rest)" using "3.IH"(2) "3.prems"(2) by simp
  then show ?case using "3.prems"(2) v(2) t by (simp add: index_of_separator)
qed simp

lemma normalize_id: "CR \<notin> set s \<Longrightarrow> normalize s = s"
  by (induction s rule: normalize.induct) auto

lemma event_line_simps [simp]:
  "headerName (event_line l) = ''data''" "dataValue (event_line l) = l" "event_line l \<noteq> []"
  "c \<in> set (event_line l) \<longleftrightarrow> c \<in> set ''data: '' \<or> c \<in> set l"
  by (simp_all add: event_line_def headerName_def dataValue_def has_prefix_def)

lemma data_lines_data: "data_lines (map event_line ls) d = d @ concat (map (\<lambda>l. l @ [LF]) ls)"
proof (induction ls arbitrary: d)
  case (Cons l ls)
  then show ?case by simp
qed simp

lemma concat_lines: "concat (map (\<lambda>l. l @ [LF]) (split_on LF p)) = p @ [LF]"
  by (induction p) (auto split: list.splits)

lemma event_text_lines: "event_text p = join_with [LF] (map event_line (split_on LF p)) @ [LF, LF]"
proof -
  have "ls \<noteq> [] \<Longrightarrow> concat (map (\<lambda>l. f l @ [LF]) ls) = join_with [LF] (map f ls) @ [LF]" for f :: "string \<Rightarrow> string" and ls
    by (induction ls rule: induct_list012) auto
  from this [of "split_on LF p" event_line] show ?thesis by (simp add: event_text_def)
qed

lemma Unmarshal_event:
  assumes "p \<noteq> []" "last p \<noteq> LF" "CR \<notin> set p"
  shows "ReadEvent (join_with [LF] (map event_line (split_on LF p))) = Some \<lparr>ev_Data = p\<rparr>"
proof -
  let ?ls = "map event_line (split_on LF p)"
  have lf: "LF \<notin> set w" if "w \<in> set (split_on LF p)" for w using split_on_parts [OF that] .
  have "set (join_with [LF] ws) \<subseteq> insert LF (\<Union> (set ` set ws))" for ws by (induction ws rule: induct_list012) auto
  moreover have "CR \<notin> set w" if "w \<in> set (split_on LF p)" for w
  proof -
    have "set w \<subseteq> set (concat (map (\<lambda>l. l @ [LF]) (split_on LF p)))" using that by auto
    then show ?thesis using assms(3) unfolding concat_lines by auto
  qed
  ultimately have "CR \<notin> set (join_with [LF] ?ls)" by (fastforce simp: CR_def LF_def)
  moreover have "split_on LF (join_with [LF] ?ls) = ?ls" by (rule split_on_join) (use lf in auto)
  moreover have "trim_right_char LF (p @ [LF]) = p"
    using assms(1,2) by (cases p rule: rev_cases) (auto simp: trim_right_char_def)
  ultimately have "Unmarshal (join_with [LF] ?ls) = \<lparr>ev_Data = p\<rparr>"
    by (simp add: Unmarshal_def normalize_id data_lines_data concat_lines)
  then show ?thesis using assms(1) by (simp add: ReadEvent_def event_Empty_def)
qed

text \<open>
  C14: A stream of events written as the specification has it is read back: every event with its data, in
  order and with the line breaks in it, and then the end. The data may contain anything but carriage
  returns, must not end with a line break and must fit the buffer.
\<close>

theorem events_roundtrip:
  assumes "list_all event_ok ps"
  shows "map ReadEvent (fst (scan_all (concat (map event_text ps)))) = map (\<lambda>p. Some \<lparr>ev_Data = p\<rparr>) ps \<and>
    snd (scan_all (concat (map event_text ps))) = io_EOF"
  using assms
proof (induction ps)
  case Nil
  then show ?case using scan_all_last [of "[]"] by (simp add: maxTokenSize_def eventSeparator_def)
next
  case (Cons p ps)
  let ?tok = "join_with [LF] (map event_line (split_on LF p))"
  have ok: "p \<noteq> []" "last p \<noteq> LF" "CR \<notin> set p" "length (event_text p) \<le> maxTokenSize"
    using Cons.prems by (auto simp: event_ok_def)
  have lf: "LF \<notin> set w" if "w \<in> set (split_on LF p)" for w using split_on_parts [OF that] .
  have i: "index_of (event_text p) eventSeparator = Some (length ?tok)"
    unfolding event_text_lines by (rule index_of_lines) (use lf in auto)
  have d: "drop (length ?tok + length eventSeparator) (event_text p) = []" "take (length ?tok) (event_text p) = ?tok"
    unfolding event_text_lines by (simp_all add: eventSeparator_def)
  show ?case
    using scan_all_found [OF i ok(4), of "concat (map event_text ps)"] Cons Unmarshal_event [OF ok(1-3)] unfolding d by simp
qed

lemma events_roundtrip_witness:
  "let ps = [''one'', ''two'' @ [LF, LF] @ '' words'']; r = scan_all (concat (map event_text ps))
   in map ReadEvent (fst r) = map (\<lambda>p. Some \<lparr>ev_Data = p\<rparr>) ps \<and> snd r = io_EOF"
proof -
  have "list_all event_ok [''one'', ''two'' @ [LF, LF] @ '' words'']"
    by (simp add: event_ok_def event_text_def event_line_def LF_def CR_def maxTokenSize_def)
  from events_roundtrip [OF this] show ?thesis by (simp only: Let_def)
qed

text \<open>
  The specification also allows lines that end with a carriage return and a line feed. The code looks for
  the two bytes in the wrong order.
\<close>

definition crlf_event :: "string \<Rightarrow> string" where
  "crlf_event p = event_line p @ [CR, LF, CR, LF]"

lemma crlf_event_append: "crlf_event p @ t = event_line p @ CR # LF # CR # LF # t"
  by (simp add: crlf_event_def)

definition plain_data :: "string \<Rightarrow> bool" where
  "plain_data p \<longleftrightarrow> LF \<notin> set p \<and> CR \<notin> set p"

lemma crlf_no_separator: "list_all plain_data ps \<Longrightarrow> index_of (concat (map crlf_event ps)) eventSeparator = None"
proof (induction ps)
  case (Cons p ps)
  let ?rest = "concat (map crlf_event ps)"
  have one: "index_of [CR, LF] eventSeparator = None" by (simp add: eventSeparator_def has_prefix_def)
  have "index_of ([CR] @ LF # ?rest) eventSeparator = None"
  proof (cases ps)
    case (Cons q qs)
    have "\<exists>t. ?rest = CHR ''d'' # t" using Cons by (simp add: crlf_event_def event_line_def)
    then obtain t where t: "?rest = CHR ''d'' # t" ..
    show ?thesis using index_of_separator [of "[CR]" "CHR ''d''" t] Cons.IH Cons.prems t by (simp del: index_of.simps)
  qed (use one in simp)
  then show ?case
    using Cons.prems index_of_separator [of "event_line p @ [CR]" CR "LF # ?rest"]
    by (simp add: crlf_event_append plain_data_def del: index_of.simps)
qed (simp add: eventSeparator_def)

lemma normalize_append: "CR \<notin> set s \<Longrightarrow> LF \<notin> set s \<Longrightarrow> normalize (s @ t) = s @ normalize t"
proof (induction s)
  case (Cons c s)
  then show ?case by (cases "s @ t") auto
qed simp

lemma normalize_crlf:
  "list_all plain_data ps \<Longrightarrow> normalize (concat (map crlf_event ps)) = concat (map (\<lambda>p. event_line p @ [CR, LF, LF]) ps)"
proof (induction ps)
  case (Cons p ps)
  have e: "normalize (event_line p @ t) = event_line p @ normalize t" for t
    using Cons.prems by (intro normalize_append) (auto simp: plain_data_def LF_def CR_def)
  have n: "normalize (CR # LF # CR # LF # t) = CR # LF # normalize (LF # t)" for t by simp
  have "normalize (LF # concat (map crlf_event ps)) = LF # normalize (concat (map crlf_event ps))"
    by (cases ps) (simp_all add: crlf_event_def event_line_def CR_def)
  then show ?case using Cons e n by (simp add: crlf_event_append)
qed simp

lemma headerName_Nil [simp]: "headerName [] = []"
  by (simp add: headerName_def)

lemma crlf_data:
  "list_all plain_data ps \<Longrightarrow> data_lines (split_on LF (concat (map (\<lambda>p. event_line p @ [CR, LF, LF]) ps))) d =
    d @ concat (map (\<lambda>p. p @ [CR, LF]) ps)"
proof (induction ps arbitrary: d)
  case Nil
  then show ?case by (simp add: headerName_def)
next
  case (Cons p ps)
  have "LF \<notin> set (event_line p @ [CR])" using Cons.prems by (auto simp: plain_data_def)
  then have s: "split_on LF ((event_line p @ [CR]) @ LF # LF # t) = (event_line p @ [CR]) # [] # split_on LF t" for t
    by (subst split_on_append_sep) simp_all
  have l: "event_line p @ CR # t = event_line (p @ [CR]) @ t" for t by (simp add: event_line_def)
  show ?case using s [unfolded append_assoc append_Cons append_Nil l] Cons by (simp add: l)
qed

lemma crlf_events_merge:
  assumes "list_all plain_data ps" "ps \<noteq> []" "length (concat (map crlf_event ps)) < maxTokenSize"
  shows "map ReadEvent (fst (scan_all (concat (map crlf_event ps)))) = [Some \<lparr>ev_Data = join_with [CR, LF] ps @ [CR]\<rparr>]"
proof -
  let ?s = "concat (map crlf_event ps)"
  have ne: "?s \<noteq> []" using assms(2) by (cases ps) (simp_all add: crlf_event_def)
  have "concat (map (\<lambda>p. p @ [CR, LF]) qs) = join_with [CR, LF] qs @ [CR, LF]" if "qs \<noteq> []" for qs
    using that by (induction qs rule: induct_list012) auto
  then have j: "concat (map (\<lambda>p. p @ [CR, LF]) ps) = (join_with [CR, LF] ps @ [CR]) @ [LF]" using assms(2) by simp
  have "trim_right_char LF ((join_with [CR, LF] ps @ [CR]) @ [LF]) = join_with [CR, LF] ps @ [CR]"
    by (simp add: trim_right_char_def)
  then have "Unmarshal ?s = \<lparr>ev_Data = join_with [CR, LF] ps @ [CR]\<rparr>"
    using assms(1) j by (simp add: Unmarshal_def normalize_crlf crlf_data)
  then show ?thesis
    using scan_all_last [OF crlf_no_separator [OF assms(1)] assms(3)] ne by (simp add: ReadEvent_def event_Empty_def)
qed

end
