(* ===== verification/Topic.thy ===== *)
theory Topic
  imports DataStructures Shell
begin

section \<open>Topics (base/commands/topic)\<close>

text \<open>
  Subscribing to a topic: a listener is registered with the client, turns each message of the topic into
  an event, and a row of each event is printed until there are as many as wanted or the user interrupts.
  The channels between the listener, the reader of the events and the printer keep the order, so that
  they are lists here. Publishing is in \<open>DataStructures\<close>.
\<close>

definition getTopic :: "('w, 'c, 'f, 'h) dds \<Rightarrow> ('w, 'h) step" where
  "getTopic lib = get_object lib ''Topic''"

definition topic_object_command :: "('w, 'c, 'f, 'h) dds \<Rightarrow> ('w, 'h) object_command" where
  "topic_object_command lib = \<lparr>oc_typeName = ''Topic'', oc_metricName = ''topic'', oc_getFn = getTopic lib\<rparr>"

text \<open>
  The client's listeners: a new id, adding and removing a listener, and the messages that arrive for it
  until the user interrupts. \<open>tp_member\<close> are the id and the address of a member, \<open>tp_time\<close> is \<^verbatim>\<open>time.Unix\<close>
  of nanoseconds.
\<close>

record ('w, 'c, 'f, 'h) topic_env =
  tp_lib :: "('w, 'c, 'f, 'h) dds"
  tp_sl :: "'w shell_env"
  tp_newUUID :: "'w \<Rightarrow> UUID \<times> 'w"
  tp_add :: "UUID \<Rightarrow> 'c \<Rightarrow> 'c \<Rightarrow> 'w \<Rightarrow> (go_error + unit) \<times> 'w"
  tp_remove :: "UUID \<Rightarrow> 'w \<Rightarrow> (go_error + unit) \<times> 'w"
  tp_messages :: "UUID \<Rightarrow> 'w \<Rightarrow> 'c list"
  tp_member :: "UUID \<Rightarrow> (UUID \<times> string) option"
  tp_time :: "int \<Rightarrow> cell"
  tp_uuid :: "UUID \<Rightarrow> cell"

record TopicEvent =
  PublishTime :: cell
  Event_Value :: cell
  ValueType :: int
  TopicName :: string
  Member_UUID :: UUID
  Member_Address :: string

definition newTopicEvent :: "string \<Rightarrow> cell \<Rightarrow> int \<Rightarrow> cell \<Rightarrow> UUID \<times> string \<Rightarrow> TopicEvent" where
  "newTopicEvent name v valueType publishTime member =
     \<lparr>PublishTime = publishTime, Event_Value = v, ValueType = valueType, TopicName = name,
      Member_UUID = fst member, Member_Address = snd member\<rparr>"

text \<open>The listener: what it makes of a message, None for the panic of a decoder.\<close>

definition listenerHandler ::
    "('w, 'c, 'f, 'h) topic_env \<Rightarrow> string \<Rightarrow> 'c \<Rightarrow> TopicEvent list \<Rightarrow> TopicEvent list option" where
  "listenerHandler te topic msg events =
     HandleTopicAddMessageListener (dd_proto (tp_lib te)) msg (\<lambda>itemData publishTime uuid evs.
       let itemType = dd_data_type (tp_lib te) itemData;
           item = (case dd_decode (tp_lib te) itemData of Inl e \<Rightarrow> CNondecoded (TypeToLabel itemType) | Inr v \<Rightarrow> v);
           member = (case tp_member te uuid of Some m \<Rightarrow> m | None \<Rightarrow> (zeroUUID, []))
       in evs @ [newTopicEvent topic item itemType (tp_time te (wrap_int 64 (publishTime * 1000000))) member]) events"

fun handle_all :: "('w, 'c, 'f, 'h) topic_env \<Rightarrow> string \<Rightarrow> 'c list \<Rightarrow> TopicEvent list \<Rightarrow> TopicEvent list option" where
  "handle_all te topic [] events = Some events"
| "handle_all te topic (m # ms) events = Option.bind (listenerHandler te topic m events) (handle_all te topic ms)"

definition addListener :: "('w, 'c, 'f, 'h) topic_env \<Rightarrow> string \<Rightarrow> ('w, UUID) step" where
  "addListener te topic =
     andthen (on_world (\<lambda>w. let (u, w') = tp_newUUID te w in (Inr u, w'))) (\<lambda>subscriptionID.
     andthen (or_panic (EncodeTopicAddMessageListenerRequest (dd_proto (tp_lib te)) topic False)) (\<lambda>addRequest.
     andthen (or_panic (EncodeTopicRemoveMessageListenerRequest (dd_proto (tp_lib te)) topic subscriptionID)) (\<lambda>removeRequest.
     andthen (on_world (tp_add te subscriptionID addRequest removeRequest)) (\<lambda>_. ret subscriptionID))))"

definition removeListener :: "('w, 'c, 'f, 'h) topic_env \<Rightarrow> UUID \<Rightarrow> ('w, unit) step" where
  "removeListener te subscriptionID = on_world (tp_remove te subscriptionID)"

definition eventRow :: "('w, 'c, 'f, 'h) topic_env \<Rightarrow> 'w cstate \<Rightarrow> TopicEvent \<Rightarrow> row" where
  "eventRow te s e =
     (let vcol = Column ''Value'' (ValueType e) (Event_Value e);
          tcol = (if prop_bool s ''show-type''
                  then [Column ''Type'' TypeString (string_cell (TypeToLabel (ValueType e)))] else [])
      in if prop_bool s ''verbose'' then
           [Column ''Time'' TypeJavaLocalDateTime (PublishTime e), Column ''Topic'' TypeString (string_cell (TopicName e)), vcol] @
           tcol @
           [Column ''Member UUID'' TypeUUID (tp_uuid te (Member_UUID e)),
            Column ''Member Address'' TypeString (string_cell (Member_Address e))]
         else [vcol] @ tcol)"

text \<open>The rows put into the channel: \<open>wanted\<close> of them when it is positive.\<close>

fun retrieveMessages :: "(TopicEvent \<Rightarrow> row) \<Rightarrow> int \<Rightarrow> int \<Rightarrow> TopicEvent list \<Rightarrow> row list" where
  "retrieveMessages row wanted printed [] = []"
| "retrieveMessages row wanted printed (e # events) =
     row e # (let printed = printed + 1 in
              if wanted > 0 \<and> printed = wanted then [] else retrieveMessages row wanted printed events)"

text \<open>\<open>ExecContext.AddOutputStream\<close>: the printer takes the rows of a channel.\<close>

definition stream_rows :: "'w shell_env \<Rightarrow> row list \<Rightarrow> ('w, unit) step" where
  "stream_rows sl rows =
     andthen (ensurePrinter (sl_env sl)) (\<lambda>_ s.
       case cs_printer s of
         None \<Rightarrow> (Inr (), s)
       | Some pn \<Rightarrow>
           (let (t, n, e) = sl_stream sl pn rows in
            (case e of None \<Rightarrow> Inr () | Some err \<Rightarrow> Inl err, write_out t s)))"

definition topic_updateOutput :: "('w, 'c, 'f, 'h) topic_env \<Rightarrow> TopicEvent list \<Rightarrow> ('w, unit) step" where
  "topic_updateOutput te events = with_state (\<lambda>s.
     let wantedCount = prop_int s ''count''; name = name_prop (tp_lib te) s in
     andthen (println (tp_lib te) (''Listening to messages of Topic '' @ quoted name)) (\<lambda>_.
     stream_rows (tp_sl te) (retrieveMessages (eventRow te s) wantedCount 0 events)))"

text \<open>
  The command; the listener is removed when it returns. The messages are those after the listener was
  added.
\<close>

definition Subscribe_Exec :: "('w, 'c, 'f, 'h) topic_env \<Rightarrow> ('w, unit) step" where
  "Subscribe_Exec te = with_state (\<lambda>s0.
     let name = name_prop (tp_lib te) s0 in
     andthen (ExecuteBlocking
       (andthen (connect (tp_lib te)) (\<lambda>_.
        andthen (incr_metric (tp_lib te) ''total.topic'') (\<lambda>_. addListener te name)))) (\<lambda>sid s.
     case handle_all te name (tp_messages te sid (cs_world s)) [] of
       None \<Rightarrow> (Inl panic_error, s)
     | Some events \<Rightarrow>
         (let (r, s') = topic_updateOutput te events s in (r, snd (removeListener te sid s')))))"

lemma retrieveMessages_from:
  "0 \<le> printed \<Longrightarrow> wanted \<le> 0 \<or> printed < wanted \<Longrightarrow>
   retrieveMessages row wanted printed events =
     map row (if wanted > 0 then take (nat (wanted - printed)) events else events)"
proof (induction events arbitrary: printed)
  case (Cons e events)
  have n: "nat (wanted - printed) = Suc (nat (wanted - (printed + 1)))" if "0 < wanted" using Cons.prems that by simp
  show ?case
  proof (cases "wanted > 0 \<and> printed + 1 = wanted")
    case False
    then have "retrieveMessages row wanted (printed + 1) events =
        map row (if wanted > 0 then take (nat (wanted - (printed + 1))) events else events)"
      using Cons.prems by (intro Cons.IH) auto
    then show ?thesis using False n by (auto simp: Let_def)
  next
    case True
    then have "wanted - printed = 1" by linarith
    then have "nat (wanted - printed) = Suc 0" by simp
    then show ?thesis using True by (simp add: Let_def)
  qed
qed simp

lemma retrieveMessages_take: "retrieveMessages row wanted 0 events = map row (if wanted > 0 then take (nat wanted) events else events)"
  using retrieveMessages_from [of 0 wanted row events] by auto

text \<open>Printing does not touch the cluster.\<close>

lemma stream_rows_world: "stream_rows sl rows s = (r, s') \<Longrightarrow> cs_world s' = cs_world s"
  by (auto simp: stream_rows_def andthen_def ensurePrinter_def write_out_def Let_def split: sum.splits prod.splits option.splits if_splits)

lemma topic_updateOutput_world: "topic_updateOutput te events s = (r, s') \<Longrightarrow> cs_world s' = cs_world s"
  by (auto simp: topic_updateOutput_def with_state_def andthen_def println_def PrintlnUnnecessary_def write_out_def Let_def
    split: if_splits prod.splits dest!: stream_rows_world)

text \<open>
  Once a subscription was made, the command prints the messages that arrive, in order, all of them or
  as many as were asked for, and whatever the printer says the listener is removed as the last thing it
  does to the cluster.
\<close>

lemma subscribe_prints_messages:
  assumes "(ExecuteBlocking (andthen (connect (tp_lib te)) (\<lambda>_.
      andthen (incr_metric (tp_lib te) ''total.topic'') (\<lambda>_. addListener te (name_prop (tp_lib te) s0))))) s0 = (Inr sid, s1)"
    and "handle_all te (name_prop (tp_lib te) s0) (tp_messages te sid (cs_world s1)) [] = Some events"
    and "Subscribe_Exec te s0 = (r, s)"
  shows "cs_world s = snd (tp_remove te sid (cs_world s1)) \<and>
    (let n = prop_int s1 ''count''; shown = (if n > 0 then take (nat n) events else events);
         listening = println (tp_lib te) (''Listening to messages of Topic '' @ quoted (name_prop (tp_lib te) s1))
     in (r, cs_out s) = (let (r, s') = andthen listening (\<lambda>_. stream_rows (tp_sl te) (map (eventRow te s1) shown)) s1 in (r, cs_out s')))"
proof -
  obtain r' s' where u: "topic_updateOutput te events s1 = (r', s')" by (metis prod.exhaust)
  have "Subscribe_Exec te s0 = (r', snd (removeListener te sid s'))"
    using assms(1,2) u by (simp add: Subscribe_Exec_def step_simps Let_def)
  then have s: "r = r'" "s = snd (removeListener te sid s')" using assms(3) by simp_all
  have "cs_world s = snd (tp_remove te sid (cs_world s1))" "cs_out s = cs_out s'"
    using topic_updateOutput_world [OF u] by (simp_all add: s removeListener_def on_world_def split: prod.splits)
  then show ?thesis using u s(1) by (simp add: topic_updateOutput_def with_state_def retrieveMessages_take Let_def)
qed

end
