(* ===== verification/Demo.thy ===== *)
theory Demo
  imports Events Topic
begin

section \<open>Demonstrations (base/commands/demo, internal/demo)\<close>

text \<open>
  \<open>demo:generate-data\<close> reads the stream of changes of Wikipedia, makes the mapping for its events and puts
  them into a map; \<open>demo:map-setmany\<close> fills a map with values of a given size. The HTTP responses, the
  decoding of JSON and the maps of the cluster are parameters. The goroutines that feed the channels
  keep the order of the events, so that a channel is the list of what goes through it.
\<close>

subsection \<open>An event of the stream (internal/demo/wikimedia/event.go)\<close>

record wm_meta =
  URI :: string
  RequestID :: string
  meta_ID :: string
  meta_Timestamp :: string
  Domain :: string
  Stream :: string
  meta_Topic :: string
  Partition :: int
  Offset :: int

record wm_span =
  Old :: int
  New :: int

record wm_event =
  Schema :: string
  Meta :: wm_meta
  ev_ID :: int
  ev_Type :: string
  Namespace :: int
  ev_Title :: string
  TitleURL :: string
  Comment :: string
  Timestamp :: int
  User :: string
  Bot :: bool
  NotifyURL :: string
  Minor :: bool
  Length :: wm_span
  Revision :: wm_span
  ServerURL :: string
  ServerName :: string
  ServerScriptPath :: string
  Wiki :: string
  Parsedcomment :: string

definition event_ID :: "wm_event \<Rightarrow> string" where
  "event_ID ev = meta_ID (Meta ev)"

text \<open>\<open>time\<close> is the value of a time by its text.\<close>

definition event_Row :: "(string \<Rightarrow> cell) \<Rightarrow> wm_event \<Rightarrow> row" where
  "event_Row time ev =
     [Column ''ID'' TypeString (string_cell (meta_ID (Meta ev))),
      Column ''Timestamp'' TypeJavaOffsetDateTime (time (meta_Timestamp (Meta ev))),
      Column ''User'' TypeString (string_cell (User ev)),
      Column ''Comment'' TypeString (string_cell (Comment ev))]"

text \<open>The values by the types \<open>findSqlType\<close> tells apart.\<close>

datatype field_val =
    FBool bool | FString string | FInt8 int | FByte int | FInt16 int | FInt32 int | FInt64 int
  | FFloat32 "32 word" | FFloat64 "64 word" | FTime string | FOther string

definition event_KeyValues :: "wm_event \<Rightarrow> (string \<times> field_val) list" where
  "event_KeyValues ev =
     [(''schema'', FString (Schema ev)),
      (''meta_uri'', FString (URI (Meta ev))),
      (''meta_request_id'', FString (RequestID (Meta ev))),
      (''meta_id'', FString (meta_ID (Meta ev))),
      (''meta_dt'', FTime (meta_Timestamp (Meta ev))),
      (''meta_domain'', FString (Domain (Meta ev))),
      (''meta_stream'', FString (Stream (Meta ev))),
      (''meta_topic'', FString (meta_Topic (Meta ev))),
      (''meta_partition'', FInt64 (Partition (Meta ev))),
      (''meta_offset'', FInt64 (Offset (Meta ev))),
      (''id'', FInt64 (ev_ID ev)),
      (''type'', FString (ev_Type ev)),
      (''namespace'', FInt64 (Namespace ev)),
      (''title'', FString (ev_Title ev)),
      (''title_url'', FString (TitleURL ev)),
      (''comment'', FString (Comment ev)),
      (''event_time'', FInt64 (Timestamp ev)),
      (''user_name'', FString (User ev)),
      (''bot'', FBool (Bot ev)),
      (''notify_url'', FString (NotifyURL ev)),
      (''minor'', FBool (Minor ev)),
      (''length_old'', FInt64 (Old (Length ev))),
      (''length_new'', FInt64 (New (Length ev))),
      (''revision_old'', FInt64 (Old (Revision ev))),
      (''revision_new'', FInt64 (New (Revision ev))),
      (''server_url'', FString (ServerURL ev)),
      (''server_name'', FString (ServerName ev)),
      (''server_script_path'', FString (ServerScriptPath ev)),
      (''wiki'', FString (Wiki ev)),
      (''parsed_comment'', FString (Parsedcomment ev))]"

definition zero_event :: wm_event where
  "zero_event =
     (let m = \<lparr>URI = [], RequestID = [], meta_ID = [], meta_Timestamp = [], Domain = [], Stream = [], meta_Topic = [],
               Partition = 0, Offset = 0\<rparr>;
          z = \<lparr>Old = 0, New = 0\<rparr>
      in \<lparr>Schema = [], Meta = m, ev_ID = 0, ev_Type = [], Namespace = 0, ev_Title = [], TitleURL = [], Comment = [],
          Timestamp = 0, User = [], Bot = False, NotifyURL = [], Minor = False, Length = z, Revision = z,
          ServerURL = [], ServerName = [], ServerScriptPath = [], Wiki = [], Parsedcomment = []\<rparr>)"

subsection \<open>The mapping (internal/demo/sql_mapping.go)\<close>

text \<open>\<^const>\<open>None\<close> is the panic of an unknown type.\<close>

fun findSqlType :: "field_val \<Rightarrow> string option" where
  "findSqlType (FBool b) = Some ''BOOLEAN''"
| "findSqlType (FString s) = Some ''VARCHAR''"
| "findSqlType (FInt8 i) = Some ''TINYINT''"
| "findSqlType (FByte i) = Some ''TINYINT''"
| "findSqlType (FInt16 i) = Some ''SMALLINT''"
| "findSqlType (FInt32 i) = Some ''INTEGER''"
| "findSqlType (FInt64 i) = Some ''BIGINT''"
| "findSqlType (FFloat32 x) = Some ''REAL''"
| "findSqlType (FFloat64 x) = Some ''DOUBLE''"
| "findSqlType (FTime t) = Some ''TIMESTAMP WITH TIME ZONE''"
| "findSqlType (FOther t) = None"

fun sql_fields :: "(string \<times> field_val) list \<Rightarrow> (string \<times> string) list option" where
  "sql_fields [] = Some []"
| "sql_fields ((k, v) # kvs) =
     Option.bind (findSqlType v) (\<lambda>t. map_option (\<lambda>fs. (k, t) # fs) (sql_fields kvs))"

text \<open>
  \<^verbatim>\<open>addMapping\<close> executed: \<^verbatim>\<open>text/template\<close> goes over a map in the order of its keys and puts the name as
  it is between the quotes.
\<close>

definition mapping_text :: "string \<Rightarrow> (string \<times> string) list \<Rightarrow> string" where
  "mapping_text mapName fs =
     ''CREATE OR REPLACE MAPPING '' @ [CHR 0x22] @ mapName @ [CHR 0x22, CHR 0x0A] @ ''('' @ [CHR 0x0A, CHR 0x09] @
     concat (map (\<lambda>(k, v). k @ '' '' @ v @ '','' @ [CHR 0x0A, CHR 0x09]) (sort_key fst fs)) @
     ''__key VARCHAR'' @ [CHR 0x0A] @ '')'' @ [CHR 0x0A] @
     ''TYPE IMap'' @ [CHR 0x0A] @ ''OPTIONS ('' @ [CHR 0x0A] @
     ''    '' @ quoted ''keyFormat'' @ '' = '' @ quoted ''varchar'' @ '','' @ [CHR 0x0A] @
     ''    '' @ quoted ''valueFormat'' @ '' = '' @ quoted ''json-flat'' @ [CHR 0x0A] @ '');'' @ [CHR 0x0A]"

definition GenerateMappingQuery :: "string \<Rightarrow> (string \<times> field_val) list \<Rightarrow> string option" where
  "GenerateMappingQuery mapName fs = map_option (mapping_text mapName) (sql_fields fs)"

definition wm_GenerateMappingQuery :: "string \<Rightarrow> string option" where
  "wm_GenerateMappingQuery mapName = GenerateMappingQuery mapName (event_KeyValues zero_event)"

subsection \<open>The stream (internal/demo/wikimedia/generate.go)\<close>

text \<open>
  One connection: the items it gives are added to those before. \<open>decode\<close> is \<^verbatim>\<open>json.Unmarshal\<close> of an event,
  None for an error. What the consumer takes before it cancels is a prefix of the items.
\<close>

definition handleEvents ::
    "'n viridian_env \<Rightarrow> (string \<Rightarrow> wm_event option) \<Rightarrow> go_error + int \<times> string \<Rightarrow> (wm_event list, unit) eff" where
  "handleEvents env decode resp =
     SubscribeWithCallback env (\<lambda>items. (resp, items)) (\<lambda>rawEv items.
       case rawEv of
         None \<Rightarrow> (Inr (), items)
       | Some e \<Rightarrow> (case decode (ev_Data e) of None \<Rightarrow> (Inr (), items) | Some ev \<Rightarrow> (Inr (), items @ [ev])))"

text \<open>The responses of the connections made one after another; every error but two is tried again.\<close>

fun stream_loop ::
    "'n viridian_env \<Rightarrow> (string \<Rightarrow> wm_event option) \<Rightarrow> (go_error + int \<times> string) list \<Rightarrow> wm_event list \<Rightarrow> wm_event list" where
  "stream_loop env decode [] items = items"
| "stream_loop env decode (r # rs) items =
     (case handleEvents env decode r items of
        (Inl e, items') \<Rightarrow>
          if err_is e ''context canceled'' \<or> err_is e ''no connection'' then items' else stream_loop env decode rs items'
      | (Inr _, items') \<Rightarrow> stream_loop env decode rs items')"

subsection \<open>demo:generate-data\<close>

text \<open>
  \<open>de_responses\<close> are the responses of the stream's connections until the user interrupts, \<open>de_ctx_err\<close> the
  error of the context then, None when the stream closed by itself.
\<close>

record ('w, 'c, 'f, 'h, 'n) demo_env =
  de_lib :: "('w, 'c, 'f, 'h) dds"
  de_sl :: "'w shell_env"
  de_http :: "'n viridian_env"
  de_decode :: "string \<Rightarrow> wm_event option"
  de_responses :: "'w \<Rightarrow> (go_error + int \<times> string) list"
  de_ctx_err :: "'w \<Rightarrow> go_error option"
  de_time :: "string \<Rightarrow> cell"
  de_marshal :: "(string \<times> field_val) list \<Rightarrow> go_error + string"
  de_put :: "'h \<Rightarrow> string \<Rightarrow> string \<Rightarrow> 'w \<Rightarrow> (go_error + unit) \<times> 'w"
  de_set :: "'h \<Rightarrow> string \<Rightarrow> string \<Rightarrow> 'w \<Rightarrow> (go_error + unit) \<times> 'w"

definition generator_Stream :: "('w, 'c, 'f, 'h, 'n) demo_env \<Rightarrow> 'w \<Rightarrow> wm_event list" where
  "generator_Stream de w = stream_loop (de_http de) (de_decode de) (de_responses de w) []"

fun feedPreviewItems :: "(wm_event \<Rightarrow> row) \<Rightarrow> int \<Rightarrow> int \<Rightarrow> wm_event list \<Rightarrow> row list" where
  "feedPreviewItems row maxCount cnt [] = []"
| "feedPreviewItems row maxCount cnt (ev # evs) =
     (if cnt < maxCount then row ev # feedPreviewItems row maxCount (cnt + 1) evs else [])"

definition generatePreviewResult :: "('w, 'c, 'f, 'h, 'n) demo_env \<Rightarrow> (string \<rightharpoonup> string) \<Rightarrow> ('w, unit) step" where
  "generatePreviewResult de keyVals =
     andthen (IncrementMetric ''total.demo'') (\<lambda>_. with_state (\<lambda>s.
     let maxCount = prop_int s ''max-values'';
         maxCount = (if maxCount < 1 then 10 else maxCount);
         mapName = (case keyVals ''map'' of None \<Rightarrow> [] | Some n \<Rightarrow> n);
         mapName = (if mapName = [] then ''<map-name>'' else mapName)
     in andthen (or_panic (wm_GenerateMappingQuery mapName)) (\<lambda>mq.
        andthen (println (de_lib de) (''Following mapping will be created when run without preview:'' @ [CHR 0x0A, CHR 0x0A] @ mq)) (\<lambda>_.
        ExecuteBlocking (with_state (\<lambda>s'.
          stream_rows (de_sl de)
            (feedPreviewItems (event_Row (de_time de)) maxCount 0 (generator_Stream de (cs_world s')))))))))"

text \<open>
  The events put into the map: those that cannot be marshalled or put are skipped. The result is the
  number of those that were put and the error sent when the loop ends.
\<close>

fun feedResultItems ::
    "('w, 'c, 'f, 'h, 'n) demo_env \<Rightarrow> 'h \<Rightarrow> int \<Rightarrow> go_error option \<Rightarrow> wm_event list \<Rightarrow> int \<Rightarrow> 'w \<Rightarrow> (int \<times> go_error option) \<times> 'w" where
  "feedResultItems de m maxCount ended [] cnt w = ((cnt, ended), w)"
| "feedResultItems de m maxCount ended (ev # evs) cnt w =
     (case de_marshal de (event_KeyValues ev) of
        Inl e \<Rightarrow> feedResultItems de m maxCount ended evs cnt w
      | Inr b \<Rightarrow>
          (case de_put de m (event_ID ev) b w of
             (Inl e, w') \<Rightarrow> feedResultItems de m maxCount ended evs cnt w'
           | (Inr _, w') \<Rightarrow>
               (let cnt = cnt + 1 in
                if maxCount > 0 \<and> cnt = maxCount then ((cnt, None), w')
                else feedResultItems de m maxCount ended evs cnt w')))"

text \<open>
  \<open>ExecuteBlocking\<close> around a function that counts in a variable of its caller: the count is there even when
  the user interrupts.
\<close>

definition counted_blocking :: "('w, int \<times> go_error option) step \<Rightarrow> ('w, int \<times> go_error option) step" where
  "counted_blocking f s =
     (case ExecuteBlocking f s of
        (Inr r, s') \<Rightarrow> (Inr r, s')
      | (Inl e, s') \<Rightarrow>
          (let n = (case cs_sched s of
                      BlockingCancelledAfter # rest \<Rightarrow> (case fst (f (s\<lparr>cs_sched := rest\<rparr>)) of Inr (n, _) \<Rightarrow> n | Inl _ \<Rightarrow> 0)
                    | _ \<Rightarrow> 0)
           in (Inr (n, Some e), s')))"

definition see_data_text :: "string \<Rightarrow> string" where
  "see_data_text mapName = join_with [CHR 0x0A]
     [''Run the following SQL query to see the generated data'', [CHR 0x09], [CHR 0x09] @ ''SELECT'',
      [CHR 0x09] @ ''__key, meta_dt as '' @ [CHR 0x22] @ ''timestamp'' @ [CHR 0x22] @ '', user_name, comment'',
      [CHR 0x09] @ ''FROM '' @ [CHR 0x22] @ mapName @ [CHR 0x22], [CHR 0x09] @ ''LIMIT 10;'', [CHR 0x09], []]"

definition generateResult :: "('w, 'c, 'f, 'h, 'n) demo_env \<Rightarrow> (string \<rightharpoonup> string) \<Rightarrow> ('w, unit) step" where
  "generateResult de keyVals =
     (case keyVals ''map'' of
        None \<Rightarrow> fail (Errorf ''either map key-value pair must be given or --preview must be used'')
      | Some mapName \<Rightarrow> with_state (\<lambda>s0.
          let maxCount = prop_int s0 ''max-values'' in
          andthen (or_panic (wm_GenerateMappingQuery mapName)) (\<lambda>query.
          andthen (ExecuteBlocking
            (andthen (ExecSQL (de_sl de) query) (\<lambda>_. incr_metric (de_lib de) ''total.demo''))) (\<lambda>_.
          andthen (println (de_lib de) (''OK Following mapping is created:'' @ [CHR 0x0A, CHR 0x0A] @ query)) (\<lambda>_.
          andthen (println (de_lib de) (see_data_text mapName)) (\<lambda>_.
          andthen (counted_blocking (with_state (\<lambda>s.
            andthen (connect (de_lib de)) (\<lambda>_.
            andthen (on_world (dd_get (de_lib de) ''Map'' mapName)) (\<lambda>m.
            on_world (\<lambda>w. let (r, w') = feedResultItems de m maxCount (de_ctx_err de w) (generator_Stream de (cs_world s)) 0 w
                           in (Inr r, w'))))))) (\<lambda>(cnt, err).
          case err of
            Some e \<Rightarrow>
              if \<not> IsUserCancelled e \<and> \<not> IsTimeout e then fail e
              else println (de_lib de) (''OK Generated '' @ itoa cnt @ '' events.'')
          | None \<Rightarrow> println (de_lib de) (''OK Generated '' @ itoa cnt @ '' events.''))))))))"

definition GenerateData_Exec :: "('w, 'c, 'f, 'h, 'n) demo_env \<Rightarrow> ('w, unit) step" where
  "GenerateData_Exec de = with_state (\<lambda>s.
     let name = GetStringArg s ''name'' in
     if name \<noteq> ''wikipedia-event-stream'' then
       fail (Errorf (''stream generator '' @ quoted name @ '' is not supported, run --help to see supported ones''))
     else
       (let kvs = KeyValues_Map (GetKeyValuesArg s ''keyValue''); preview = prop_bool s ''preview'' in
        andthen (if IsYes (de_lib de) s then ret ()
          else andthen (println (de_lib de) ''The data is streamed from Wikipedia changes.'') (\<lambda>_.
               andthen (println (de_lib de) ''Hazelcast has no control over the incoming data,'') (\<lambda>_.
               confirm False ''Proceed?''))) (\<lambda>_.
        if preview then generatePreviewResult de kvs else generateResult de kvs)))"

subsection \<open>demo:map-setmany\<close>

text \<open>The size in bytes: a product of 64-bit integers, which wraps around.\<close>

definition getValueSize :: "string \<Rightarrow> go_error + int" where
  "getValueSize sizeStr0 =
     (let sizeStr = to_upper sizeStr0;
          parsed = (\<lambda>t. case parse_int 10 64 t of Inl e \<Rightarrow> Inl (parse_int_error t e) | Inr i \<Rightarrow> Inr i)
      in if has_suffix sizeStr ''KB'' then
           bind_res (parsed (trim_suffix sizeStr ''KB'')) (\<lambda>n. Inr (wrap_int 64 (n * 1024)))
         else if has_suffix sizeStr ''MB'' then
           bind_res (parsed (trim_suffix sizeStr ''MB'')) (\<lambda>n. Inr (wrap_int 64 (n * (1024 * 1024))))
         else parsed sizeStr)"

text \<open>\<^verbatim>\<open>strings.Repeat\<close> panics when the count is negative: \<^const>\<open>None\<close>.\<close>

definition strings_Repeat :: "string \<Rightarrow> int \<Rightarrow> string option" where
  "strings_Repeat s n = (if n < 0 then None else Some (concat (replicate (nat n) s)))"

definition makeValue :: "string \<Rightarrow> (go_error + string) option" where
  "makeValue sizeStr =
     (case getValueSize sizeStr of Inl e \<Rightarrow> Some (Inl e) | Inr b \<Rightarrow> map_option Inr (strings_Repeat ''a'' b))"

fun set_entries :: "('w, 'c, 'f, 'h, 'n) demo_env \<Rightarrow> 'h \<Rightarrow> string \<Rightarrow> int list \<Rightarrow> ('w, unit) step" where
  "set_entries de m v [] = ret ()"
| "set_entries de m v (i # is) =
     andthen (on_world (de_set de m (CHR ''k'' # itoa i) v)) (\<lambda>_. set_entries de m v is)"

definition createEntries :: "('w, 'c, 'f, 'h, 'n) demo_env \<Rightarrow> int \<Rightarrow> string \<Rightarrow> 'h \<Rightarrow> ('w, unit) step" where
  "createEntries de entryCount sizeStr m =
     andthen (andthen (or_panic (makeValue sizeStr)) lift_res) (\<lambda>v. set_entries de m v [1..entryCount])"

definition MapSetMany_Exec :: "('w, 'c, 'f, 'h, 'n) demo_env \<Rightarrow> ('w, unit) step" where
  "MapSetMany_Exec de = with_state (\<lambda>s0.
     let cnt = GetInt64Arg s0 ''entryCount'';
         mapName = prop_string (dd_env (de_lib de)) s0 ''name'';
         sizeStr = prop_string (dd_env (de_lib de)) s0 ''size''
     in andthen (ExecuteBlocking
          (andthen (connect (de_lib de)) (\<lambda>_.
           andthen (incr_metric (de_lib de) ''total.demo'') (\<lambda>_.
           andthen (on_world (dd_get (de_lib de) ''Map'' mapName)) (\<lambda>mm. createEntries de cnt sizeStr mm))))) (\<lambda>_.
        println (de_lib de) (''OK Generated '' @ itoa cnt @ '' entries'')))"

subsection \<open>Properties\<close>

text \<open>The text of a number has only digits and a sign, which no change of case touches.\<close>

lemma itoa_chars: "c \<in> set (itoa i) \<Longrightarrow> c = CHR ''-'' \<or> (48 \<le> (of_char c :: nat) \<and> (of_char c :: nat) \<le> 57)"
proof -
  have "48 \<le> (of_char c :: nat) \<and> (of_char c :: nat) \<le> 57" if "c \<in> set (format_nat 10 n)" for n
  proof -
    obtain d where "d < 10" "c = digit_char d" using format_nat_digits [of 10 c n] \<open>c \<in> set (format_nat 10 n)\<close> by auto
    then show ?thesis by (simp add: of_char_digit_char)
  qed
  then show "c \<in> set (itoa i) \<Longrightarrow> ?thesis" by (auto simp: format_int_def split: if_splits)
qed

lemma to_upper_itoa: "to_upper (itoa i @ u) = itoa i @ to_upper u"
proof -
  have "upper_char c = c" if "c \<in> set (itoa i)" for c using itoa_chars [OF that] by (auto simp: upper_char_def)
  then have "map upper_char (itoa i) = itoa i" by (intro map_idI) simp
  then show ?thesis by (simp add: to_upper_def)
qed

lemma itoa_no_suffix:
  assumes "u \<noteq> []" "(57::nat) < of_char (last u)"
  shows "\<not> has_suffix (itoa i) u"
proof
  assume "has_suffix (itoa i) u"
  then obtain t where "itoa i = t @ u" by (auto simp: has_suffix_iff)
  then have "last u \<in> set (itoa i)" using assms(1) by simp
  then show False using itoa_chars assms(2) by force
qed

lemma itoa_range: "- (2 ^ 63) \<le> n \<Longrightarrow> n < 2 ^ 63 \<Longrightarrow> parse_int 10 64 (itoa n) = Inr n"
  by (rule parse_int_format) simp_all

text \<open>The suffixes of a size, in any case, with what they stand for.\<close>

definition size_unit :: "string \<Rightarrow> int option" where
  "size_unit u =
     (if u = [] then Some 1 else if to_upper u = ''KB'' then Some 1024
      else if to_upper u = ''MB'' then Some (1024 * 1024) else None)"

lemma getValueSize_unit:
  assumes "size_unit u = Some k" "- (2 ^ 63) \<le> n" "n < 2 ^ 63"
  shows "getValueSize (itoa n @ u) = Inr (wrap_int 64 (n * k))"
proof -
  note p = itoa_range [OF assms(2,3)]
  have "wrap_int 64 n = n" using assms(2,3) by (intro wrap_int_id) simp_all
  moreover have "\<not> has_suffix (itoa n) ''KB''" "\<not> has_suffix (itoa n) ''MB''" by (rule itoa_no_suffix; simp)+
  moreover have "\<not> has_suffix (itoa n @ ''MB'') ''KB''"
  proof
    assume "has_suffix (itoa n @ ''MB'') ''KB''"
    then obtain t where "itoa n @ ''MB'' = t @ ''KB''" by (auto simp: has_suffix_iff)
    then show False by simp
  qed
  ultimately show ?thesis
    using assms(1) p to_upper_itoa [of n u] to_upper_itoa [of n "[]"]
    by (auto simp: size_unit_def getValueSize_def Let_def to_upper_def split: if_splits)
qed

text \<open>
  The size of the values of \<^verbatim>\<open>demo:map-setmany\<close>: a number with one of the suffixes stands for the product,
  modulo the 64 bits of the integer. The value has exactly that many letters when the product is not
  negative and fits, and the command panics when the 64-bit product is negative, as for every negative
  number that does not wrap around.
\<close>

theorem map_value_size:
  assumes "size_unit u = Some k" "- (2 ^ 63) \<le> n" "n < 2 ^ 63"
  shows "makeValue (itoa n @ u) =
      (if wrap_int 64 (n * k) < 0 then None else Some (Inr (replicate (nat (wrap_int 64 (n * k))) (CHR ''a'')))) \<and>
    (- (2 ^ 63) \<le> n * k \<and> n * k < 2 ^ 63 \<longrightarrow> wrap_int 64 (n * k) = n * k)"
proof -
  have r: "concat (replicate m ''a'') = replicate m (CHR ''a'')" for m by (induction m) simp_all
  have "wrap_int 64 (n * k) = n * k" if "- (2 ^ 63) \<le> n * k" "n * k < 2 ^ 63" using that by (intro wrap_int_id) simp_all
  then show ?thesis using getValueSize_unit [OF assms] by (auto simp: makeValue_def strings_Repeat_def r)
qed

lemma map_value_size_witness:
  "makeValue (itoa 3 @ ''kb'') = Some (Inr (replicate 3072 (CHR ''a''))) \<and> makeValue (itoa (- 1) @ ''MB'') = None \<and>
   makeValue (itoa 9007199254740992 @ ''KB'') = None"
proof -
  have u: "size_unit ''kb'' = Some 1024" "size_unit ''KB'' = Some 1024" "size_unit ''MB'' = Some 1048576"
    by code_simp+
  show ?thesis
    using map_value_size [OF u(1), of 3] map_value_size [OF u(3), of "- 1"] map_value_size [OF u(2), of 9007199254740992]
    by (simp add: wrap_int_def)
qed

text \<open>
  The mapping fits every event: its columns are the keys of the data, each of the type its value has in
  any event.
\<close>

lemma mapping_fits_events:
  "sql_fields (event_KeyValues ev) = sql_fields (event_KeyValues zero_event) \<and>
   (\<exists>fs. sql_fields (event_KeyValues ev) = Some fs \<and> map fst fs = map fst (event_KeyValues ev) \<and> distinct (map fst fs))"
  by (simp add: event_KeyValues_def)

text \<open>
  The events put: with a limit the loop stops as soon as so many were put, and it counts exactly those that
  were put.
\<close>

definition put_ok :: "('w, 'c, 'f, 'h, 'n) demo_env \<Rightarrow> 'h \<Rightarrow> wm_event \<Rightarrow> 'w \<Rightarrow> bool" where
  "put_ok de m ev w \<longleftrightarrow> (\<exists>b w'. de_marshal de (event_KeyValues ev) = Inr b \<and> de_put de m (event_ID ev) b w = (Inr (), w'))"

definition put_event :: "('w, 'c, 'f, 'h, 'n) demo_env \<Rightarrow> 'h \<Rightarrow> wm_event \<Rightarrow> 'w \<Rightarrow> 'w" where
  "put_event de m ev w =
     (case de_marshal de (event_KeyValues ev) of Inl e \<Rightarrow> w | Inr b \<Rightarrow> snd (de_put de m (event_ID ev) b w))"

text \<open>How many of the events are looked at, and how many of these were put.\<close>

fun puts_until :: "('w, 'c, 'f, 'h, 'n) demo_env \<Rightarrow> 'h \<Rightarrow> int \<Rightarrow> wm_event list \<Rightarrow> int \<Rightarrow> 'w \<Rightarrow> wm_event list \<times> int" where
  "puts_until de m maxCount [] n w = ([], n)"
| "puts_until de m maxCount (ev # evs) n w =
     (let n' = (if put_ok de m ev w then n + 1 else n) in
      if put_ok de m ev w \<and> maxCount > 0 \<and> n' = maxCount then ([ev], n')
      else (let (es, k) = puts_until de m maxCount evs n' (put_event de m ev w) in (ev # es, k)))"

lemma feedResultItems_counts:
  "feedResultItems de m maxCount ended evs n w =
     ((snd (puts_until de m maxCount evs n w),
       if maxCount > 0 \<and> n < maxCount \<and> snd (puts_until de m maxCount evs n w) = maxCount then None else ended),
      fold (put_event de m) (fst (puts_until de m maxCount evs n w)) w)"
  if "maxCount \<le> 0 \<or> n < maxCount"
  using that
proof (induction evs arbitrary: n w)
  case (Cons ev evs)
  show ?case
  proof (cases "put_ok de m ev w")
    case True
    then obtain b w' where b: "de_marshal de (event_KeyValues ev) = Inr b" "de_put de m (event_ID ev) b w = (Inr (), w')"
      by (auto simp: put_ok_def)
    show ?thesis
    proof (cases "maxCount > 0 \<and> n + 1 = maxCount")
      case False
      then have "maxCount \<le> 0 \<or> n + 1 < maxCount" using Cons.prems by linarith
      from Cons.IH [OF this, of w'] show ?thesis
        using True b False by (auto simp: put_event_def Let_def split: prod.splits)
    qed (use True b in \<open>auto simp: put_event_def\<close>)
  next
    case False
    have "feedResultItems de m maxCount ended (ev # evs) n w = feedResultItems de m maxCount ended evs n (put_event de m ev w)"
      using False by (auto simp: put_ok_def put_event_def split: sum.splits prod.splits)
    then show ?thesis using Cons.IH [OF Cons.prems] False by (auto simp: Let_def split: prod.splits)
  qed
qed auto

end
