(* ===== verification/Updates.thy ===== *)
theory Updates
  imports KVStore ExecContext Paths
begin

section \<open>New versions, the version and the home (base/commands, internal/github.go)\<close>

text \<open>
  Once a week the shell asks GitHub for the latest release and tells the user about a newer one. The time
  of the next check and the version are kept in a store of the key value database, so the state is the
  database together with a world \<open>'s\<close> of the network and the clock. The HTTP request, the decoding of its
  JSON and the clock, in nanoseconds, are parameters.
\<close>

subsection \<open>The latest release (internal/github.go)\<close>

text \<open>The first release that is not a prerelease.\<close>

definition is_prerelease :: "(string \<times> json_any) list \<Rightarrow> bool option" where
  "is_prerelease d =
     (case map_of d ''prerelease'' of
        Some (JOther (CScalar t b)) \<Rightarrow> if t = ''bool'' then Some (b = ''true'') else None
      | _ \<Rightarrow> None)"

fun stable_release :: "(string \<times> json_any) list list \<Rightarrow> (string \<times> json_any) list option" where
  "stable_release [] = None"
| "stable_release (d # ds) = (if is_prerelease d = Some False then Some d else stable_release ds)"

definition LatestReleaseVersion ::
    "(string \<Rightarrow> go_error + (string \<times> json_any) list list) \<Rightarrow> ('s, string) eff \<Rightarrow> ('s, string) eff" where
  "LatestReleaseVersion decode fetch =
     andthen fetch (\<lambda>respData.
     andthen (lift_res (decode respData)) (\<lambda>data.
     case stable_release data of
       None \<Rightarrow> fail (Errorf ''no stable release'')
     | Some release \<Rightarrow>
         (case map_of release ''tag_name'' of
            Some (JOther (CScalar t v)) \<Rightarrow> if t = ''string'' then ret v else fail (Errorf ''fetching tag_name'')
          | _ \<Rightarrow> fail (Errorf ''fetching tag_name''))))"

subsection \<open>The check (base/commands/update_check.go)\<close>

text \<open>
  \<open>up_version\<close> and \<open>up_skip\<close> are the variables \<open>Version\<close> and \<open>SkipUpdateCheck\<close> set when the program is built.
\<close>

record ('db, 's) update_env =
  up_env :: "('db \<times> 's) cenv"
  up_store :: "'db badger"
  up_version :: string
  up_skip :: string
  up_now :: "'s \<Rightarrow> int"
  up_fetch :: "('s, string) eff"
  up_decode :: "string \<Rightarrow> go_error + (string \<times> json_any) list list"

definition checkInterval :: int where
  "checkInterval = 7 * 24 * 60 * 60 * 1000000000"

definition on_store :: "('db, 'a) eff \<Rightarrow> ('db \<times> 's, 'a) eff" where
  "on_store f s = (let (r, db) = f (fst s) in (r, (db, snd s)))"

definition on_net :: "('s, 'a) eff \<Rightarrow> ('db \<times> 's, 'a) eff" where
  "on_net f s = (let (r, w) = f (snd s) in (r, (fst s, w)))"

definition trimVersion :: "string \<Rightarrow> string" where
  "trimVersion v = trim_prefix (hd (split_on (CHR ''-'') v)) ''v''"

text \<open>The second half of \<open>shouldSkipNewerVersion\<close>: whether the stored time of the next check is in the future.\<close>

definition next_check_pending :: "('db, 's) update_env \<Rightarrow> ('db \<times> 's, bool) eff" where
  "next_check_pending ue = (\<lambda>s.
     case WithLock (up_store ue) (on_store (GetEntry (up_store ue) ''update.nextCheckTime'')) s of
       (Inl e, s') \<Rightarrow> if err_is e ''key not found'' then (Inr False, s') else (Inl e, s')
     | (Inr nextCheck, s') \<Rightarrow>
         (case parse_int 10 64 nextCheck of
            Inl e \<Rightarrow> (Inl (parse_int_error nextCheck e), s')
          | Inr t \<Rightarrow> (Inr (up_now ue (snd s') < t * 1000000000), s')))"

definition shouldSkipNewerVersion :: "('db, 's) update_env \<Rightarrow> ('db \<times> 's, bool) eff" where
  "shouldSkipNewerVersion ue =
     (if up_version ue = ''UNKNOWN'' then ret True
      else if index_of (up_version ue) ''CUSTOMBUILD'' \<noteq> None then ret True
      else if up_skip ue = ''1'' then ret True
      else if ce_getenv (up_env ue) ''CLC_SKIP_UPDATE_CHECK'' = ''1'' then ret True
      else next_check_pending ue)"

definition UpdateVersionAndNextCheckTime :: "('db, 's) update_env \<Rightarrow> string \<Rightarrow> ('db \<times> 's, unit) eff" where
  "UpdateVersionAndNextCheckTime ue v =
     WithLock (up_store ue) (with_state (\<lambda>s.
       andthen (on_store (SetEntry (up_store ue) ''update.nextCheckTime''
         (itoa ((up_now ue (snd s) + checkInterval) div 1000000000)) [])) (\<lambda>_.
       on_store (SetEntry (up_store ue) ''update.latestVersion'' v []))))"

definition newVersionWarning :: "string \<Rightarrow> string" where
  "newVersionWarning v =
     ''A newer version of CLC is available.'' @ [CHR 0x0A] @
     ''Visit the following link for release notes and to download:'' @ [CHR 0x0A] @
     ''https://github.com/hazelcast/hazelcast-commandline-client/releases/'' @ v @ [CHR 0x0A]"

text \<open>The version to compare with: the one stored, or the one asked for now.\<close>

definition latest_version :: "('db, 's) update_env \<Rightarrow> ('db \<times> 's, string) eff" where
  "latest_version ue =
     andthen (shouldSkipNewerVersion ue) (\<lambda>shouldSkip.
     if shouldSkip then WithLock (up_store ue) (on_store (GetEntry (up_store ue) ''update.latestVersion''))
     else andthen (on_net (LatestReleaseVersion (up_decode ue) (up_fetch ue))) (\<lambda>latest.
          andthen (UpdateVersionAndNextCheckTime ue latest) (\<lambda>_. ret latest)))"

definition MaybePrintNewVersionNotification :: "('db, 's) update_env \<Rightarrow> ('db \<times> 's, unit) step" where
  "MaybePrintNewVersionNotification ue =
     andthen (on_world (latest_version ue)) (\<lambda>latest.
     if latest = [] then ret ()
     else case CheckVersion (trimVersion latest) ''>'' (trimVersion (up_version ue)) of
         None \<Rightarrow> fail panic_error
       | Some newer \<Rightarrow> if newer then PrintlnUnnecessary (up_env ue) (newVersionWarning latest) else ret ())"

subsection \<open>The version and home commands\<close>

definition version_row :: "string \<Rightarrow> string \<Rightarrow> row" where
  "version_row key v =
     [Column ''Name'' TypeString (CScalar ''string'' key), Column ''Version'' TypeString (CScalar ''string'' v)]"

text \<open>The commit, the version of the client library and what \<^verbatim>\<open>runtime\<close> says come from the build.\<close>

definition Version_Exec :: "'w cenv \<Rightarrow> string \<Rightarrow> string \<Rightarrow> string \<Rightarrow> string \<times> string \<times> string \<Rightarrow> ('w, unit) step" where
  "Version_Exec env version gitCommit clientVersion rt = with_state (\<lambda>s.
     if prop_bool s ''verbose'' then
       AddOutputRows env
         [version_row ''Hazelcast CLC'' version, version_row ''Latest Git Commit Hash'' gitCommit,
          version_row ''Hazelcast Go Client'' clientVersion,
          version_row ''Go'' (fst rt @ '' '' @ fst (snd rt) @ ''/'' @ snd (snd rt))]
     else AddOutputRows env [[Column ''Version'' TypeString (CScalar ''string'' version)]])"

text \<open>\<^const>\<open>None\<close> of \<^const>\<open>Home\<close> is its panic.\<close>

definition Home_Exec :: "'w cenv \<Rightarrow> place \<Rightarrow> ('w, unit) step" where
  "Home_Exec env pl = with_state (\<lambda>s.
     let args = GetStringSliceArg s ''subpath'' in
     case Home pl of
       None \<Rightarrow> fail panic_error
     | Some path \<Rightarrow>
         (let path = (if args \<noteq> [] then filepath_Join (path # args) else path) in
          AddOutputRows env [[Column ''Path'' TypeString (CScalar ''string'' path)]]))"

subsection \<open>Properties\<close>

lemma store_get:
  assumes "badger_ok bg"
  shows "\<exists>db'. WithLock bg (on_store (GetEntry bg k)) (db, w) =
      (case badger_lookup bg db k of None \<Rightarrow> Inl ErrKeyNotFound | Some v \<Rightarrow> Inr v, (db', w)) \<and>
    badger_lookup bg db' = badger_lookup bg db"
proof -
  obtain db1 r db2 x2 where l: "on_store (GetEntry bg k) (db1, w) = (r, db2, x2)" "badger_lookup bg db1 = badger_lookup bg db"
      "WithLock bg (on_store (GetEntry bg k)) (db, w) = (r, bg_close bg db2, x2)"
      "badger_lookup bg (bg_close bg db2) = badger_lookup bg db2"
    using WithLock_ok [OF assms, where fn = "on_store (GetEntry bg k)" and x = w and db = db] by blast
  have "r = (case badger_lookup bg db k of None \<Rightarrow> Inl ErrKeyNotFound | Some v \<Rightarrow> Inr v) \<and> db2 = db1 \<and> x2 = w"
    using l(1) GetEntry_lookup [OF assms, of k db1] l(2) by (auto simp: on_store_def split: option.splits)
  then show ?thesis using l by metis
qed

lemma store_update:
  assumes "badger_ok (up_store ue)"
  shows "\<exists>db'. UpdateVersionAndNextCheckTime ue v (db, w) = (Inr (), (db', w)) \<and>
    badger_lookup (up_store ue) db' ''update.nextCheckTime'' = Some (itoa ((up_now ue w + checkInterval) div 1000000000)) \<and>
    badger_lookup (up_store ue) db' ''update.latestVersion'' = Some v"
proof -
  let ?bg = "up_store ue" and ?t = "itoa ((up_now ue w + checkInterval) div 1000000000)"
  let ?fn = "with_state (\<lambda>s. andthen (on_store (SetEntry ?bg ''update.nextCheckTime''
         (itoa ((up_now ue (snd s) + checkInterval) div 1000000000)) [])) (\<lambda>_. on_store (SetEntry ?bg ''update.latestVersion'' v [])))"
  obtain db1 r db2 x2 where l: "?fn (db1, w) = (r, db2, x2)" "WithLock ?bg ?fn (db, w) = (r, bg_close ?bg db2, x2)"
      "badger_lookup ?bg (bg_close ?bg db2) = badger_lookup ?bg db2"
    using WithLock_ok [OF assms, where fn = ?fn and x = w and db = db] by blast
  obtain d1 where d1: "SetEntry ?bg ''update.nextCheckTime'' ?t [] db1 = (Inr (), d1)"
      "\<forall>k'. badger_lookup ?bg d1 k' = (if k' = ''update.nextCheckTime'' then Some ?t else badger_lookup ?bg db1 k')"
    using SetEntry_lookup [OF assms] by metis
  obtain d2 where d2: "SetEntry ?bg ''update.latestVersion'' v [] d1 = (Inr (), d2)"
      "\<forall>k'. badger_lookup ?bg d2 k' = (if k' = ''update.latestVersion'' then Some v else badger_lookup ?bg d1 k')"
    using SetEntry_lookup [OF assms] by metis
  have "?fn (db1, w) = (Inr (), d2, w)" by (simp add: with_state_def andthen_def on_store_def d1(1) d2(1))
  then have "r = Inr ()" "db2 = d2" "x2 = w" using l(1) by simp_all
  then show ?thesis using l(2,3) d1(2) d2(2) by (simp add: UpdateVersionAndNextCheckTime_def)
qed

text \<open>Whether the store is asked depends on the build and the environment alone.\<close>

lemma skip_asks:
  "shouldSkipNewerVersion ue = ret True \<or> shouldSkipNewerVersion ue = next_check_pending ue"
proof -
  have if4: "(if a then x else if b then x else if c then x else if d then x else y) = x \<or>
    (if a then x else if b then x else if c then x else if d then x else y) = y" for a b c d and x y :: 'z
    by simp
  show ?thesis unfolding shouldSkipNewerVersion_def by (rule if4)
qed

lemma next_check_pending_reads:
  assumes "badger_ok (up_store ue)"
  shows "\<exists>db'. snd (next_check_pending ue (db, w)) = (db', w) \<and> badger_lookup (up_store ue) db' = badger_lookup (up_store ue) db \<and>
    (\<forall>t. badger_lookup (up_store ue) db ''update.nextCheckTime'' = Some (itoa t) \<longrightarrow> - (2 ^ 63) \<le> t \<longrightarrow> t < 2 ^ 63 \<longrightarrow>
      fst (next_check_pending ue (db, w)) = Inr (up_now ue w < t * 1000000000))"
proof -
  obtain k where k: "k = ''update.nextCheckTime''" by simp
  obtain db' where l: "WithLock (up_store ue) (on_store (GetEntry (up_store ue) k)) (db, w) =
      (case badger_lookup (up_store ue) db k of None \<Rightarrow> Inl ErrKeyNotFound | Some v \<Rightarrow> Inr v, (db', w))"
      "badger_lookup (up_store ue) db' = badger_lookup (up_store ue) db"
    using store_get [OF assms, of k db w] by (elim exE conjE) (rule that)
  have "snd (next_check_pending ue (db, w)) = (db', w)"
  proof (cases "badger_lookup (up_store ue) db k")
    case None
    then show ?thesis unfolding next_check_pending_def k [symmetric] l(1) by (simp only: None option.case sum.case prod.case if_distrib [of snd] snd_conv if_cancel)
  next
    case (Some v)
    show ?thesis unfolding next_check_pending_def k [symmetric] l(1) Some
      by (cases "parse_int 10 64 v") (simp_all only: option.case sum.case prod.case snd_conv)
  qed
  moreover have "fst (next_check_pending ue (db, w)) = Inr (up_now ue w < t * 1000000000)"
    if "badger_lookup (up_store ue) db k = Some (itoa t)" "- (2 ^ 63) \<le> t" "t < 2 ^ 63" for t
  proof -
    have "parse_int 10 64 (itoa t) = Inr t" by (rule parse_int_format) (use that(2,3) in simp_all)
    then show ?thesis unfolding next_check_pending_def k [symmetric] l(1) that(1) by simp
  qed
  ultimately show ?thesis using l(2) unfolding k by blast
qed

lemma skip_False:
  assumes "badger_ok (up_store ue)" "shouldSkipNewerVersion ue (db, w) = (Inr False, s)"
  shows "\<exists>db'. s = (db', w) \<and> badger_lookup (up_store ue) db' = badger_lookup (up_store ue) db"
  using next_check_pending_reads [OF assms(1), of db w] skip_asks [of ue] assms(2) by (auto simp: ret_def)

lemma skip_True:
  assumes "badger_ok (up_store ue)" "shouldSkipNewerVersion ue (db0, w0) = (Inr False, s0)"
    and "badger_lookup (up_store ue) db ''update.nextCheckTime'' = Some (itoa t)" "- (2 ^ 63) \<le> t" "t < 2 ^ 63"
    and "up_now ue w < t * 1000000000"
  shows "\<exists>db'. shouldSkipNewerVersion ue (db, w) = (Inr True, (db', w)) \<and>
    badger_lookup (up_store ue) db' = badger_lookup (up_store ue) db"
proof -
  have "shouldSkipNewerVersion ue = next_check_pending ue" using skip_asks [of ue] assms(2) by (auto simp: ret_def)
  then show ?thesis
    using next_check_pending_reads [OF assms(1), of db w] assms(3-6) by (metis prod.collapse)
qed

text \<open>
  C27: A week without requests: when the program asked for the latest version and got it, it stores it, and
  until a week minus a second later it takes the version from the store without any request.
\<close>

theorem update_check_weekly:
  assumes "badger_ok (up_store ue)" "shouldSkipNewerVersion ue (db, w) = (Inr False, s1)"
    and "LatestReleaseVersion (up_decode ue) (up_fetch ue) w = (Inr v, w2)"
    and "0 \<le> up_now ue w2" "up_now ue w2 < 2 ^ 63"
    and "up_now ue w3 + 1000000000 \<le> up_now ue w2 + checkInterval"
  shows "\<exists>db2 db3. latest_version ue (db, w) = (Inr v, (db2, w2)) \<and> latest_version ue (db2, w3) = (Inr v, (db3, w3))"
proof -
  let ?bg = "up_store ue" and ?t = "(up_now ue w2 + checkInterval) div 1000000000"
  obtain db1 where s1: "s1 = (db1, w)" using skip_False [OF assms(1,2)] by blast
  obtain db2 where u: "UpdateVersionAndNextCheckTime ue v (db1, w2) = (Inr (), (db2, w2))"
      "badger_lookup ?bg db2 ''update.nextCheckTime'' = Some (itoa ?t)" "badger_lookup ?bg db2 ''update.latestVersion'' = Some v"
    using store_update [OF assms(1)] by blast
  have one: "latest_version ue (db, w) = (Inr v, (db2, w2))"
    using assms(2,3) u(1) by (simp add: latest_version_def andthen_def on_net_def s1 ret_def)
  have t: "- (2 ^ 63) \<le> ?t" "?t < 2 ^ 63" "up_now ue w3 < ?t * 1000000000"
    using assms(4-6) by (simp_all add: checkInterval_def)
  obtain db' where s: "shouldSkipNewerVersion ue (db2, w3) = (Inr True, (db', w3))" "badger_lookup ?bg db' = badger_lookup ?bg db2"
    using skip_True [OF assms(1,2) u(2) t] by blast
  obtain db3 where "WithLock ?bg (on_store (GetEntry ?bg ''update.latestVersion'')) (db', w3) = (Inr v, (db3, w3))"
    using store_get [OF assms(1), of "''update.latestVersion''" db' w3] s(2) u(3) by auto
  then have "latest_version ue (db2, w3) = (Inr v, (db3, w3))" using s(1) by (simp add: latest_version_def andthen_def)
  then show ?thesis using one by blast
qed

text \<open>A world that counts the requests: its clock is the seconds, and GitHub has a prerelease and a release.\<close>

definition sample_update :: "((string \<times> string) list, nat) update_env" where
  "sample_update = \<lparr>up_env = sample_env, up_store = alist_badger, up_version = ''v5.3.0'', up_skip = ''0'',
     up_now = (\<lambda>n. int n * 1000000000), up_fetch = (\<lambda>n. (Inr ''body'', Suc n)),
     up_decode = (\<lambda>b. Inr [[(''prerelease'', JOther (CScalar ''bool'' ''true''))],
       [(''prerelease'', JOther (CScalar ''bool'' ''false'')), (''tag_name'', JOther (CScalar ''string'' ''v5.4.0''))]])\<rparr>"

lemma update_check_weekly_witness:
  "\<exists>db2 db3. latest_version sample_update ([], 6) = (Inr ''v5.4.0'', (db2, 7)) \<and>
     latest_version sample_update (db2, 600000) = (Inr ''v5.4.0'', (db3, 600000))"
proof -
  have "shouldSkipNewerVersion sample_update ([], 6) = (Inr False, ([], 6))"
    by (simp add: shouldSkipNewerVersion_def next_check_pending_def sample_update_def has_prefix_def sample_env_def WithLock_def on_store_def
      GetEntry_def alist_badger_def badger_ErrKeyNotFound_def ErrKeyNotFound_def)
  moreover have "LatestReleaseVersion (up_decode sample_update) (up_fetch sample_update) 6 = (Inr ''v5.4.0'', 7)"
    by (simp add: LatestReleaseVersion_def andthen_def lift_res_def sample_update_def is_prerelease_def ret_def)
  moreover have "badger_ok (up_store sample_update)" by (simp add: sample_update_def alist_badger_ok)
  ultimately show ?thesis
    by (intro update_check_weekly) (simp_all add: sample_update_def checkInterval_def)
qed

text \<open>
  Without the check the version is taken from the store even when none was ever stored: the notification
  then fails.
\<close>

lemma skip_without_version_fails:
  assumes "badger_ok (up_store ue)" "up_skip ue = ''1''"
    and "badger_lookup (up_store ue) (fst (cs_world s)) ''update.latestVersion'' = None"
  shows "fst (MaybePrintNewVersionNotification ue s) = Inl ErrKeyNotFound"
proof -
  have "shouldSkipNewerVersion ue (cs_world s) = (Inr True, cs_world s)" using assms(2) by (simp add: shouldSkipNewerVersion_def ret_def)
  then show ?thesis
    using store_get [OF assms(1), of "''update.latestVersion''" "fst (cs_world s)" "snd (cs_world s)"] assms(3)
    by (auto simp: MaybePrintNewVersionNotification_def andthen_def on_world_def latest_version_def split: prod.splits)
qed

end
