(* ===== verification/LogStream.thy ===== *)
theory LogStream
  imports CloudCommands GoTime
begin

section \<open>Streaming the logs of a cluster (base/commands/viridian/viridian_log_stream.go)\<close>

text \<open>
  \<open>stream-logs\<close> copies the body of a streaming request to a \<open>logFixer\<close>, a writer that puts the pieces
  together to lines, decodes each line and prints it with a template. When the connection breaks the
  command connects again; the fixer then skips the lines whose time is not after the newest one printed.
  Decoding JSON, parsing a time of RFC 3339, \<^verbatim>\<open>text/template\<close> and how a body arrives are parameters.
\<close>

subsection \<open>State and environment\<close>

text \<open>
  What \<^verbatim>\<open>json.Unmarshal\<close> of a line into a map does: an error, \<^verbatim>\<open>null\<close>, which makes the map nil, or an
  object whose members are put into the map.
\<close>

datatype json_line = BadLine | NullLine | ObjectLine "(string \<times> json_any) list"

type_synonym log_fields = "string \<rightharpoonup> json_any"

text \<open>\<open>le_tmpl\<close> is the parsed template run on a map, \<open>le_write\<close> the writer it prints to.\<close>

record 'w log_env =
  le_decode :: "string \<Rightarrow> json_line"
  le_time :: "string \<Rightarrow> gotime option"
  le_tmpl :: "log_fields \<Rightarrow> ('w, unit) eff"
  le_write :: "string \<Rightarrow> ('w, unit) eff"

record logFixer =
  lf_buf :: string
  lastTime :: gotime
  nextLastTime :: gotime

definition newLogFixer :: logFixer where
  "newLogFixer = \<lparr>lf_buf = [], lastTime = zero_time, nextLastTime = zero_time\<rparr>"

definition Advance :: "logFixer \<Rightarrow> logFixer" where
  "Advance lf = lf\<lparr>lastTime := nextLastTime lf\<rparr>"

subsection \<open>Lines\<close>

text \<open>
  The scanner of \<open>Write\<close> over the buffer: the complete lines with their line break, and what is in the
  buffer afterwards, the bytes after the last line break being written back. A line of more than 65536
  bytes stops the scanner, which has read that many bytes of it then.
\<close>

definition log_token_size :: nat where
  "log_token_size = 65536"

function log_scan :: "string \<Rightarrow> string list \<times> string" where
  "log_scan s =
     (case index_of (take log_token_size s) [CHR 0x0A] of
        Some i \<Rightarrow> (let (ls, r) = log_scan (drop (i + 1) s) in (take (i + 1) s # ls, r))
      | None \<Rightarrow> if log_token_size \<le> length s then ([], drop log_token_size s) else ([], s))"
  by pat_completeness auto

termination log_scan
proof (relation "measure length")
  fix s :: string and i assume "index_of (take log_token_size s) [CHR 0x0A] = Some i"
  then have "i < length s" using index_of_char_split [of "take log_token_size s" "CHR 0x0A" i] by auto
  then show "(drop (i + 1) s, s) \<in> measure length" by simp
qed simp

declare log_scan.simps [simp del]

definition fix_line :: "string \<Rightarrow> string" where
  "fix_line line = trim_suffix (if has_prefix line ''data:'' then drop 5 line else line) [CHR 0x0A]"

text \<open>
  The map and the time of a line; \<^const>\<open>None\<close> is a panic: writing to the nil map, or a \<^verbatim>\<open>time\<close> that is
  not a string. The map is the one of the lines before, so members they had and this line has not stay.
\<close>

definition line_fields :: "'w log_env \<Rightarrow> string \<Rightarrow> log_fields option \<Rightarrow> (log_fields option \<times> gotime) option" where
  "line_fields env line kvs =
     (case le_decode env line of
        BadLine \<Rightarrow>
          (case kvs of
             None \<Rightarrow> None
           | Some m \<Rightarrow>
               Some (Some (m(''msg'' \<mapsto> JOther (string_cell line), ''level'' \<mapsto> JOther (string_cell ''DEBUG''),
                 ''time'' \<mapsto> JOther (string_cell ''N/A''), ''thread'' \<mapsto> JOther (string_cell ''N/A''),
                 ''logger'' \<mapsto> JOther (string_cell ''N/A''))), zero_time))
      | NullLine \<Rightarrow> Some (None, zero_time)
      | ObjectLine obj \<Rightarrow>
          (let m = (case kvs of None \<Rightarrow> Map.empty | Some m \<Rightarrow> m) ++ map_of obj in
           case m ''time'' of
             None \<Rightarrow> Some (Some m, zero_time)
           | Some (JOther (CScalar t v)) \<Rightarrow>
               if t = ''string'' then Some (Some m, case le_time env v of Some x \<Rightarrow> x | None \<Rightarrow> zero_time) else None
           | Some _ \<Rightarrow> None))"

definition line_shown :: "gotime \<Rightarrow> gotime \<Rightarrow> bool" where
  "line_shown lst t = (if before zero_time t then before lst t else \<not> before zero_time lst)"

text \<open>The loop over the lines: the time to go on from, when no line ended it with an error.\<close>

fun log_lines ::
    "'w log_env \<Rightarrow> gotime \<Rightarrow> string list \<Rightarrow> log_fields option \<Rightarrow> gotime \<Rightarrow> ('w, gotime) eff" where
  "log_lines env lst [] kvs nxt = ret nxt"
| "log_lines env lst (l # ls) kvs nxt =
     (let line = fix_line l in
      if line = [] then log_lines env lst ls kvs nxt
      else case line_fields env line kvs of
          None \<Rightarrow> fail panic_error
        | Some (kvs', t) \<Rightarrow>
            if \<not> line_shown lst t then log_lines env lst ls kvs' nxt
            else andthen (wrap_err ''logFixer.Write: writing''
                   (le_tmpl env (case kvs' of None \<Rightarrow> Map.empty | Some m \<Rightarrow> m))) (\<lambda>_.
                 andthen (wrap_err ''logFixer.Write: writing'' (le_write env [CHR 0x0A])) (\<lambda>_.
                 log_lines env lst ls kvs' (if before zero_time t then t else nxt))))"

text \<open>After an error the fixer is not used again, so only the world it printed to matters then.\<close>

definition on_out :: "('w, 'a) eff \<Rightarrow> (logFixer \<times> 'w, 'a) eff" where
  "on_out f s = (let (r, w) = f (snd s) in (r, (fst s, w)))"

definition Write :: "'w log_env \<Rightarrow> string \<Rightarrow> (logFixer \<times> 'w, unit) eff" where
  "Write env p = with_state (\<lambda>(lf, _).
     let (ls, r) = log_scan (lf_buf lf @ p) in
     andthen (on_out (log_lines env (lastTime lf) ls (Some Map.empty) (nextLastTime lf))) (\<lambda>nxt.
     modify_state (\<lambda>(_, w). (lf\<lparr>lf_buf := r, nextLastTime := nxt\<rparr>, w))))"


subsection \<open>The command\<close>

text \<open>\<^verbatim>\<open>io.Copy\<close> to the fixer: the pieces in which the body is read, and the error that ends it.\<close>

fun io_Copy :: "'w log_env \<Rightarrow> string list \<Rightarrow> go_error option \<Rightarrow> (logFixer \<times> 'w, unit) eff" where
  "io_Copy env [] e = (case e of None \<Rightarrow> ret () | Some err \<Rightarrow> fail err)"
| "io_Copy env (c # cs) e = andthen (Write env c) (\<lambda>_. io_Copy env cs e)"

text \<open>
  The loop that connects again: \<open>conn\<close> sends the request and gives the pieces of the body and its end.
  \<^const>\<open>None\<close> says that the connection broke more often than the bound.
\<close>

fun reconnect_loop ::
    "nat \<Rightarrow> 'w log_env \<Rightarrow> ('w, string list \<times> go_error option) eff \<Rightarrow> logFixer \<times> 'w \<Rightarrow>
     ((go_error + unit) \<times> logFixer \<times> 'w) option" where
  "reconnect_loop 0 env conn s = None"
| "reconnect_loop (Suc n) env conn s =
     (case andthen (on_out conn) (\<lambda>(cs, e). io_Copy env cs e) s of
        (Inl err, (lf, w)) \<Rightarrow>
          if err_text err = ''unexpected EOF'' then reconnect_loop n env conn (Advance lf, w)
          else Some (Inl err, (lf, w))
      | (Inr _, s') \<Rightarrow> Some (Inr (), s'))"

text \<open>
  The body of the request is the one of the API's \<open>StreamLogs\<close>; \<open>pieces\<close> says how it arrives. The time
  and the JSON of the lines are those of \<open>env\<close>, the template is what parsing the format gives.
\<close>

definition StreamLog_Exec ::
    "'n cloud \<Rightarrow> nat \<Rightarrow> (string \<Rightarrow> json_line) \<Rightarrow> (string \<Rightarrow> gotime option) \<Rightarrow>
     (string \<Rightarrow> go_error + (log_fields \<Rightarrow> ('n, unit) cmd_step)) \<Rightarrow> (string \<Rightarrow> string list \<times> go_error option) \<Rightarrow>
     ('n, unit) cmd_step" where
  "StreamLog_Exec cl fuel decode parse_time parse_template pieces =
     andthen (start_viridian cl) (\<lambda>_. with_state (\<lambda>s0.
     let f = prop_string (cd_env cl) s0 ''log-format'' in
     case parse_template (loggerTemplate f) of
       Inl e \<Rightarrow> fail (Wrapf (''invalid log format '' @ f) e)
     | Inr t \<Rightarrow>
         (let env = \<lparr>le_decode = decode, le_time = parse_time, le_tmpl = t, le_write = (\<lambda>x. modify_state (write_out x))\<rparr>;
              conn = andthen (on_world (StreamLogs (cd_api cl) (GetStringArg s0 ''clusterID''))) (\<lambda>body. ret (pieces body))
          in shown cl (ExecuteBlocking (\<lambda>s.
               case reconnect_loop fuel env conn (newLogFixer, s) of
                 None \<Rightarrow> (Inl (Sentinel ''still streaming''), s)
               | Some (r, (_, s')) \<Rightarrow> (r, s'))))))"

subsection \<open>The pieces do not matter\<close>

lemma log_scan_line:
  assumes "CHR 0x0A \<notin> set l" "length l < log_token_size"
  shows "log_scan (l @ CHR 0x0A # s) = ((l @ [CHR 0x0A]) # fst (log_scan s), snd (log_scan s))"
proof -
  have "take log_token_size (l @ CHR 0x0A # s) = l @ CHR 0x0A # take (log_token_size - Suc (length l)) s"
    using assms(2) by (simp add: take_Cons' Suc_diff_Suc)
  then have "index_of (take log_token_size (l @ CHR 0x0A # s)) [CHR 0x0A] = Some (length l)"
    using index_of_char_append [OF assms(1)] by simp
  then show ?thesis by (subst log_scan.simps) (simp add: case_prod_beta)
qed

lemma log_scan_rest:
  assumes "CHR 0x0A \<notin> set l" "length l < log_token_size"
  shows "log_scan l = ([], l)"
proof -
  have "index_of (take log_token_size l) [CHR 0x0A] = None" using assms by (simp add: index_of_char_None)
  then show ?thesis using assms(2) by (subst log_scan.simps) simp
qed

text \<open>Lines short enough for the scanner.\<close>

definition short_lines :: "string \<Rightarrow> bool" where
  "short_lines s \<longleftrightarrow> (\<forall>l \<in> set (split_on (CHR 0x0A) s). length l < log_token_size)"

lemma log_scan_split:
  "short_lines s \<Longrightarrow>
   log_scan s = (map (\<lambda>l. l @ [CHR 0x0A]) (butlast (split_on (CHR 0x0A) s)), last (split_on (CHR 0x0A) s))"
proof (induction "length s" arbitrary: s rule: less_induct)
  case less
  show ?case
  proof (cases "CHR 0x0A \<in> set s")
    case False
    then show ?thesis using less.prems by (simp add: split_on_no_sep short_lines_def log_scan_rest)
  next
    case True
    then obtain l t where s: "s = l @ CHR 0x0A # t" "CHR 0x0A \<notin> set l" using split_list_first by fastforce
    have sp: "split_on (CHR 0x0A) s = l # split_on (CHR 0x0A) t" unfolding s(1) using s(2) by (rule split_on_append_sep)
    have "log_scan t = (map (\<lambda>l. l @ [CHR 0x0A]) (butlast (split_on (CHR 0x0A) t)), last (split_on (CHR 0x0A) t))"
      using less.hyps [of t] less.prems sp by (simp add: s(1) short_lines_def)
    moreover have "length l < log_token_size" using less.prems sp by (simp add: short_lines_def)
    ultimately show ?thesis using log_scan_line [OF s(2), of t] by (simp add: sp) (simp add: s(1))
  qed
qed

lemma split_on_append_rest:
  "split_on c (s @ t) = butlast (split_on c s) @ split_on c (last (split_on c s) @ t)"
proof (induction s)
  case (Cons x s)
  then show ?case by (cases "split_on c s") (auto split: list.splits if_splits)
qed simp

text \<open>
  The time a line gives itself, and a line whose printed form does not depend on the lines before it:
  the template uses only members the line has.
\<close>

definition own_time :: "'w log_env \<Rightarrow> string \<Rightarrow> gotime option" where
  "own_time env l =
     (case le_decode env (fix_line l) of
        ObjectLine obj \<Rightarrow>
          (case map_of obj ''time'' of
             Some (JOther (CScalar t v)) \<Rightarrow>
               if t = ''string'' then Some (case le_time env v of Some x \<Rightarrow> x | None \<Rightarrow> zero_time) else None
           | _ \<Rightarrow> None)
      | _ \<Rightarrow> None)"

definition self_contained :: "'w log_env \<Rightarrow> string \<Rightarrow> bool" where
  "self_contained env l \<longleftrightarrow>
     fix_line l = [] \<or>
     own_time env l \<noteq> None \<and>
     (case le_decode env (fix_line l) of
        ObjectLine obj \<Rightarrow> \<forall>m. le_tmpl env (m ++ map_of obj) = le_tmpl env (map_of obj)
      | _ \<Rightarrow> False)"

lemma line_fields_own_time:
  assumes "own_time env l = Some t"
  shows "\<exists>obj. le_decode env (fix_line l) = ObjectLine obj \<and>
    line_fields env (fix_line l) kvs = Some (Some ((case kvs of None \<Rightarrow> Map.empty | Some m \<Rightarrow> m) ++ map_of obj), t)"
proof (cases "le_decode env (fix_line l)")
  case (ObjectLine obj)
  obtain v where "map_of obj ''time'' = Some (JOther (CScalar ''string'' v))"
      "t = (case le_time env v of Some x \<Rightarrow> x | None \<Rightarrow> zero_time)"
    using assms ObjectLine by (auto simp: own_time_def split: option.splits json_any.splits cell.splits if_splits)
  then show ?thesis by (intro exI [of _ obj]) (simp add: ObjectLine line_fields_def Let_def)
qed (use assms in \<open>simp_all add: own_time_def\<close>)

lemma log_lines_kvs:
  "\<forall>l \<in> set ls. self_contained env l \<Longrightarrow> log_lines env lst ls kvs nxt = log_lines env lst ls kvs' nxt"
proof (induction ls arbitrary: kvs kvs' nxt)
  case (Cons l ls)
  show ?case
  proof (cases "fix_line l = []")
    case True
    then show ?thesis using Cons by simp
  next
    case False
    then obtain t where t: "own_time env l = Some t" using Cons.prems by (auto simp: self_contained_def)
    obtain obj where d: "le_decode env (fix_line l) = ObjectLine obj" using line_fields_own_time [OF t] by blast
    have o: "line_fields env (fix_line l) kvs = Some (Some ((case kvs of None \<Rightarrow> Map.empty | Some m \<Rightarrow> m) ++ map_of obj), t)" for kvs
      using line_fields_own_time [OF t, of kvs] d by auto
    have tm: "le_tmpl env (m ++ map_of obj) = le_tmpl env (map_of obj)" for m
      using Cons.prems False d by (simp add: self_contained_def)
    have "log_lines env lst ls (Some ((case kvs of None \<Rightarrow> Map.empty | Some m \<Rightarrow> m) ++ map_of obj)) n =
        log_lines env lst ls (Some ((case kvs' of None \<Rightarrow> Map.empty | Some m \<Rightarrow> m) ++ map_of obj)) n" for n
      using Cons.IH Cons.prems by simp
    then show ?thesis using False by (simp add: o tm)
  qed
qed simp

lemma log_lines_append:
  "\<forall>l \<in> set b. self_contained env l \<Longrightarrow>
   log_lines env lst (a @ b) kvs nxt = andthen (log_lines env lst a kvs nxt) (\<lambda>n. log_lines env lst b (Some Map.empty) n)"
proof (induction a arbitrary: kvs nxt)
  case Nil
  show ?case using log_lines_kvs [OF Nil, of lst kvs nxt "Some Map.empty"] by simp
next
  case (Cons l a)
  then show ?case by (simp add: Let_def andthen_assoc split: option.split prod.split)
qed

lemma Write_eq:
  "Write env p (lf, w) =
     (case log_lines env (lastTime lf) (fst (log_scan (lf_buf lf @ p))) (Some Map.empty) (nextLastTime lf) w of
        (Inl e, w') \<Rightarrow> (Inl e, lf, w')
      | (Inr n, w') \<Rightarrow> (Inr (), lf\<lparr>lf_buf := snd (log_scan (lf_buf lf @ p)), nextLastTime := n\<rparr>, w'))"
  by (simp add: Write_def with_state_def case_prod_beta Let_def andthen_def on_out_def modify_state_def split: sum.split)

text \<open>The complete lines of a text, with their ends.\<close>

definition whole_lines :: "string \<Rightarrow> string list" where
  "whole_lines s = map (\<lambda>l. l @ [CHR 0x0A]) (butlast (split_on (CHR 0x0A) s))"

abbreviation rest_line :: "string \<Rightarrow> string" where
  "rest_line s \<equiv> last (split_on (CHR 0x0A) s)"

lemma whole_lines_append: "whole_lines (s @ t) = whole_lines s @ whole_lines (rest_line s @ t)"
  by (simp add: whole_lines_def split_on_append_rest [of _ s t] butlast_append)

lemma rest_line_append: "rest_line (s @ t) = rest_line (rest_line s @ t)"
  by (simp add: split_on_append_rest [of _ s t])

lemma rest_line_no_break: "CHR 0x0A \<notin> set (rest_line s)"
  by (rule split_on_parts [of _ _ s]) simp

lemma short_lines_append: "short_lines (s @ t) \<Longrightarrow> short_lines s \<and> short_lines (rest_line s @ t)"
proof -
  assume a: "short_lines (s @ t)"
  obtain r z where r: "split_on (CHR 0x0A) (rest_line s @ t) = r # z" by (meson neq_Nil_conv split_on_not_Nil)
  have rest: "short_lines (rest_line s @ t)" using a by (simp add: short_lines_def split_on_append_rest [of _ s t])
  have "length (rest_line s) \<le> length r"
  proof (cases "CHR 0x0A \<in> set t")
    case True
    then obtain u v where t: "t = u @ CHR 0x0A # v" "CHR 0x0A \<notin> set u" using split_list_first by fastforce
    have "split_on (CHR 0x0A) ((rest_line s @ u) @ CHR 0x0A # v) = (rest_line s @ u) # split_on (CHR 0x0A) v"
      by (rule split_on_append_sep) (use t rest_line_no_break in auto)
    then show ?thesis using r t by auto
  next
    case False
    then show ?thesis using r rest_line_no_break [of s] by (auto simp: split_on_no_sep)
  qed
  moreover have "length r < log_token_size" using rest r by (simp add: short_lines_def)
  moreover have "set (split_on (CHR 0x0A) s) = set (butlast (split_on (CHR 0x0A) s)) \<union> {rest_line s}"
    by (metis append_butlast_last_id list.simps(15) set_append split_on_not_Nil list.set(1) insert_is_Un sup_bot_right)
  ultimately have "short_lines s" using a by (auto simp: short_lines_def split_on_append_rest [of _ s t])
  then show ?thesis using rest by simp
qed

lemma Write_short:
  assumes "short_lines (lf_buf lf @ p)"
  shows "Write env p (lf, w) =
     (case log_lines env (lastTime lf) (whole_lines (lf_buf lf @ p)) (Some Map.empty) (nextLastTime lf) w of
        (Inl e, w') \<Rightarrow> (Inl e, lf, w')
      | (Inr n, w') \<Rightarrow> (Inr (), lf\<lparr>lf_buf := rest_line (lf_buf lf @ p), nextLastTime := n\<rparr>, w'))"
  by (simp only: Write_eq log_scan_split [OF assms] whole_lines_def fst_conv snd_conv)

text \<open>The same result and the same output, and the same fixer where it is used again.\<close>

definition same_run :: "(go_error + unit) \<times> logFixer \<times> 'w \<Rightarrow> (go_error + unit) \<times> logFixer \<times> 'w \<Rightarrow> bool" where
  "same_run a b \<longleftrightarrow> fst a = fst b \<and> snd (snd a) = snd (snd b) \<and> (fst a = Inr () \<longrightarrow> fst (snd a) = fst (snd b))"

lemma Write_Write:
  assumes "short_lines (lf_buf lf @ p @ q)" "\<forall>l \<in> set (whole_lines (lf_buf lf @ p @ q)). self_contained env l"
  shows "same_run (andthen (Write env p) (\<lambda>_. Write env q) (lf, w)) (Write env (p @ q) (lf, w))"
proof -
  let ?b = "lf_buf lf @ p"
  have sh: "short_lines ?b" "short_lines (rest_line ?b @ q)" using short_lines_append [of ?b q] assms(1) by simp_all
  have wl: "whole_lines (?b @ q) = whole_lines ?b @ whole_lines (rest_line ?b @ q)" by (rule whole_lines_append)
  then have sc: "\<forall>l \<in> set (whole_lines (rest_line ?b @ q)). self_contained env l" using assms(2) by simp
  have pq: "Write env (p @ q) (lf, w) =
     (case andthen (log_lines env (lastTime lf) (whole_lines ?b) (Some Map.empty) (nextLastTime lf))
             (\<lambda>n. log_lines env (lastTime lf) (whole_lines (rest_line ?b @ q)) (Some Map.empty) n) w of
        (Inl e, w') \<Rightarrow> (Inl e, lf, w')
      | (Inr n, w') \<Rightarrow> (Inr (), lf\<lparr>lf_buf := rest_line (rest_line ?b @ q), nextLastTime := n\<rparr>, w'))"
    using Write_short [of lf "p @ q" env w] assms(1)
    by (simp only: append_assoc [symmetric] wl log_lines_append [OF sc] rest_line_append [of ?b q])
  obtain r w1 where r: "log_lines env (lastTime lf) (whole_lines ?b) (Some Map.empty) (nextLastTime lf) w = (r, w1)" by fastforce
  show ?thesis
  proof (cases r)
    case (Inl e)
    then show ?thesis using r Write_short [OF sh(1), of env w] pq by (simp add: andthen_def same_run_def)
  next
    case (Inr n)
    let ?lf = "lf\<lparr>lf_buf := rest_line ?b, nextLastTime := n\<rparr>"
    have "Write env q (?lf, w1) =
     (case log_lines env (lastTime lf) (whole_lines (rest_line ?b @ q)) (Some Map.empty) n w1 of
        (Inl e, w') \<Rightarrow> (Inl e, ?lf, w')
      | (Inr n, w') \<Rightarrow> (Inr (), lf\<lparr>lf_buf := rest_line (rest_line ?b @ q), nextLastTime := n\<rparr>, w'))"
      using Write_short [of ?lf q env w1] sh(2) by (simp split: prod.split sum.split)
    then show ?thesis
      using r Inr Write_short [OF sh(1), of env w] pq
      by (auto simp: andthen_def same_run_def split: sum.split prod.split)
  qed
qed

lemma same_run_trans: "same_run a b \<Longrightarrow> same_run b c \<Longrightarrow> same_run a c"
  by (auto simp: same_run_def)

lemma io_Copy_Write:
  "CHR 0x0A \<notin> set (lf_buf lf) \<Longrightarrow> short_lines (lf_buf lf @ concat cs) \<Longrightarrow>
   \<forall>l \<in> set (whole_lines (lf_buf lf @ concat cs)). self_contained env l \<Longrightarrow>
   same_run (io_Copy env cs None (lf, w)) (Write env (concat cs) (lf, w))"
proof (induction cs arbitrary: lf w)
  case Nil
  then show ?case
    using Write_short [of lf "[]" env w] by (simp add: same_run_def ret_def whole_lines_def split_on_no_sep)
next
  case (Cons c cs)
  have sh: "short_lines (lf_buf lf @ c)" "short_lines (rest_line (lf_buf lf @ c) @ concat cs)"
    using short_lines_append [of "lf_buf lf @ c" "concat cs"] Cons.prems(2) by simp_all
  have sc: "\<forall>l \<in> set (whole_lines (rest_line (lf_buf lf @ c) @ concat cs)). self_contained env l"
    using Cons.prems(3) whole_lines_append [of "lf_buf lf @ c" "concat cs"] by simp
  have W: "same_run (andthen (Write env c) (\<lambda>_. Write env (concat cs)) (lf, w)) (Write env (c @ concat cs) (lf, w))"
    by (rule Write_Write) (use Cons.prems in simp_all)
  obtain r lf1 w1 where r: "Write env c (lf, w) = (r, lf1, w1)" by (metis prod.exhaust)
  have "same_run (io_Copy env (c # cs) None (lf, w)) (andthen (Write env c) (\<lambda>_. Write env (concat cs)) (lf, w))"
  proof (cases r)
    case (Inl e)
    then show ?thesis using r by (simp add: andthen_def same_run_def)
  next
    case (Inr u)
    then have "lf_buf lf1 = rest_line (lf_buf lf @ c)"
      using r Write_short [OF sh(1), of env w] by (auto split: prod.splits sum.splits)
    then have "same_run (io_Copy env cs None (lf1, w1)) (Write env (concat cs) (lf1, w1))"
      using Cons.IH [of lf1 w1] sh(2) sc rest_line_no_break [of "lf_buf lf @ c"] by simp
    then show ?thesis using r Inr by (simp add: andthen_def)
  qed
  then show ?case using same_run_trans W by fastforce
qed

subsection \<open>Lines already shown\<close>

lemma line_fields_shown:
  assumes "own_time env l = Some t" "\<not> line_shown lst t" "fix_line l \<noteq> []"
  shows "\<exists>kvs'. log_lines env lst (l # ls) kvs nxt = log_lines env lst ls kvs' nxt"
  using line_fields_own_time [OF assms(1), of kvs] assms(2,3) by auto

lemma old_lines_silent:
  "\<forall>l \<in> set ls. fix_line l = [] \<or> (\<exists>t. own_time env l = Some t \<and> \<not> line_shown lst t) \<Longrightarrow>
   log_lines env lst ls kvs nxt w = (Inr nxt, w)"
proof (induction ls arbitrary: kvs)
  case (Cons l ls)
  show ?case
  proof (cases "fix_line l = []")
    case False
    then obtain kvs' where "log_lines env lst (l # ls) kvs nxt = log_lines env lst ls kvs' nxt"
      using Cons.prems line_fields_shown [of env l _ lst ls kvs nxt] by auto
    then show ?thesis using Cons by simp
  qed (use Cons in simp)
qed (simp add: ret_def)

text \<open>The newest time of lines whose times do not go back.\<close>

lemma log_lines_newest:
  assumes "log_lines env zero_time ls kvs nxt w = (Inr n, w')"
    and "\<forall>l \<in> set ls. fix_line l \<noteq> [] \<and> (\<exists>t. own_time env l = Some t \<and> before zero_time t)"
    and "sorted_wrt (\<lambda>a b. \<not> before b a) (nxt # map (\<lambda>l. the (own_time env l)) ls)"
  shows "n = last (nxt # map (\<lambda>l. the (own_time env l)) ls)"
  using assms
proof (induction ls arbitrary: kvs nxt w)
  case (Cons l ls)
  obtain t where t: "own_time env l = Some t" "before zero_time t" "fix_line l \<noteq> []" using Cons.prems(2) by auto
  then have sh: "line_shown zero_time t" by (simp add: line_shown_def)
  obtain kvs' where "line_fields env (fix_line l) kvs = Some (kvs', t)" using line_fields_own_time [OF t(1), of kvs] by blast
  then have "\<exists>w1. log_lines env zero_time ls kvs' t w1 = (Inr n, w')"
    using Cons.prems(1) t(2,3) sh by (auto simp: andthen_Inr_iff)
  then show ?case using Cons.IH [of kvs' t] Cons.prems(2,3) t(1) by auto
qed (simp add: ret_def)

lemma not_before_last:
  "sorted_wrt (\<lambda>a b. \<not> before b a) ts \<Longrightarrow> t \<in> set ts \<Longrightarrow> \<not> before (last ts) t"
proof (induction ts)
  case (Cons a ts)
  then show ?case by (cases "ts = []") (auto simp: before_irrefl)
qed simp

subsection \<open>Properties\<close>

text \<open>
  C16: What \<open>stream-logs\<close> prints does not depend on the pieces in which the body of the request arrives:
  when no line is too long for the scanner and every line is an object with a time and all members the
  template uses, two ways of cutting a body give the same result, the same output and the same fixer.
\<close>

theorem log_pieces_agree:
  assumes "concat cs = concat ds" "CHR 0x0A \<notin> set (lf_buf lf)" "short_lines (lf_buf lf @ concat cs)"
    and "\<forall>l \<in> set (whole_lines (lf_buf lf @ concat cs)). self_contained env l"
  shows "same_run (io_Copy env cs None (lf, w)) (io_Copy env ds None (lf, w))"
proof -
  have "same_run (io_Copy env cs None (lf, w)) (Write env (concat cs) (lf, w))" by (rule io_Copy_Write) (fact assms(2-4))+
  moreover have "same_run (io_Copy env ds None (lf, w)) (Write env (concat cs) (lf, w))"
    using io_Copy_Write [of lf ds env w] assms by simp
  ultimately show ?thesis by (auto simp: same_run_def)
qed

text \<open>Two lines of a log, at one second and at two, and a template that prints the message.\<close>

definition sample_time :: "nat \<Rightarrow> gotime" where
  "sample_time n = \<lparr>t_year = 2023, t_month = 5, t_day = 1, t_ns = n * 1000000000\<rparr>"

definition sample_log :: "string list log_env" where
  "sample_log = \<lparr>
     le_decode = (\<lambda>l. if l = ''a'' then ObjectLine [(''time'', JOther (string_cell ''1'')), (''msg'', JOther (string_cell ''A''))]
        else if l = ''b'' then ObjectLine [(''time'', JOther (string_cell ''2'')), (''msg'', JOther (string_cell ''B''))]
        else BadLine),
     le_time = (\<lambda>v. if v = ''1'' then Some (sample_time 1) else if v = ''2'' then Some (sample_time 2) else None),
     le_tmpl = (\<lambda>m w. case m ''msg'' of
        Some (JOther (CScalar t v)) \<Rightarrow> (Inr (), w @ [v]) | _ \<Rightarrow> (Inr (), w @ [''<no value>''])),
     le_write = (\<lambda>t w. (Inr (), w @ [t]))\<rparr>"

definition sample_body :: string where
  "sample_body = ''data:a'' @ [CHR 0x0A] @ ''data:b'' @ [CHR 0x0A]"

lemma sample_lines:
  "whole_lines sample_body = [''data:a'' @ [CHR 0x0A], ''data:b'' @ [CHR 0x0A]]" "rest_line sample_body = []"
  "short_lines sample_body"
  by (simp_all add: sample_body_def whole_lines_def short_lines_def log_token_size_def)

lemma sample_fix: "fix_line (''data:a'' @ [CHR 0x0A]) = ''a''" "fix_line (''data:b'' @ [CHR 0x0A]) = ''b''"
  by (simp_all add: fix_line_def has_prefix_def has_suffix_def trim_suffix_def)

lemma sample_own_time:
  "own_time sample_log (''data:a'' @ [CHR 0x0A]) = Some (sample_time 1)"
  "own_time sample_log (''data:b'' @ [CHR 0x0A]) = Some (sample_time 2)"
  unfolding own_time_def sample_fix by (simp_all add: sample_log_def string_cell_def)

lemma sample_self_contained: "l \<in> set (whole_lines sample_body) \<Longrightarrow> self_contained sample_log l"
  unfolding sample_lines
  by (auto simp only: set_simps insert_iff empty_iff self_contained_def sample_own_time sample_fix)
     (simp_all add: sample_log_def)

lemma log_pieces_agree_witness:
  "same_run (io_Copy sample_log [sample_body] None (newLogFixer, []))
     (io_Copy sample_log [take 3 sample_body, drop 3 sample_body] None (newLogFixer, []))"
  by (rule log_pieces_agree) (simp_all add: newLogFixer_def sample_lines(3) sample_self_contained)

text \<open>
  C19: No line twice: after a body of whole lines whose times do not go back was printed and the connection
  broke, reading the same body again prints nothing and leaves the fixer as it is.
\<close>

theorem log_resume_prints_once:
  assumes "short_lines body" "rest_line body = []"
    and "\<forall>l \<in> set (whole_lines body). fix_line l \<noteq> [] \<and> (\<exists>t. own_time env l = Some t \<and> before zero_time t)"
    and "sorted_wrt (\<lambda>a b. \<not> before b a) (map (\<lambda>l. the (own_time env l)) (whole_lines body))"
    and "Write env body (newLogFixer, w) = (Inr (), lf, w')"
  shows "Write env body (Advance lf, w2) = (Inr (), Advance lf, w2)"
proof -
  let ?ts = "map (\<lambda>l. the (own_time env l)) (whole_lines body)"
  obtain n where n: "log_lines env zero_time (whole_lines body) (Some Map.empty) zero_time w = (Inr n, w')"
      "lf = newLogFixer\<lparr>lf_buf := [], nextLastTime := n\<rparr>"
    using assms(1,2,5) Write_short [of newLogFixer body env w] by (auto simp: newLogFixer_def split: prod.splits sum.splits)
  have srt: "sorted_wrt (\<lambda>a b. \<not> before b a) (zero_time # ?ts)"
    using assms(3,4) before_trans before_irrefl by fastforce
  have last: "n = last (zero_time # ?ts)" by (rule log_lines_newest [OF n(1) assms(3) srt])
  have "\<not> line_shown n t" if "own_time env l = Some t" "before zero_time t" "l \<in> set (whole_lines body)" for l t
  proof -
    have "t \<in> set (zero_time # ?ts)" using that(1,3) by force
    then have "\<not> before n t" using not_before_last [OF srt] last by simp
    then show ?thesis using that(2) by (simp add: line_shown_def)
  qed
  then have "log_lines env n (whole_lines body) (Some Map.empty) n w2 = (Inr n, w2)"
    by (intro old_lines_silent) (use assms(3) in blast)
  then show ?thesis using Write_short [of "Advance lf" body env w2] assms(1,2) by (simp add: n(2) Advance_def newLogFixer_def)
qed

lemma log_resume_prints_once_witness:
  "\<exists>lf. Write sample_log sample_body (newLogFixer, []) = (Inr (), lf, [''A'', [CHR 0x0A], ''B'', [CHR 0x0A]]) \<and>
     Write sample_log sample_body (Advance lf, []) = (Inr (), Advance lf, [])"
proof -
  have b: "before zero_time (sample_time 1)" "before zero_time (sample_time 2)" "\<not> before (sample_time 2) (sample_time 1)"
    by (simp_all add: sample_time_def zero_time_def before_def)
  obtain lf where lf: "Write sample_log sample_body (newLogFixer, []) = (Inr (), lf, [''A'', [CHR 0x0A], ''B'', [CHR 0x0A]])"
  proof
    have "line_fields sample_log ''a'' (Some Map.empty) =
        Some (Some (map_of [(''time'', JOther (string_cell ''1'')), (''msg'', JOther (string_cell ''A''))]), sample_time 1)"
      by (simp add: line_fields_def sample_log_def string_cell_def)
    moreover have "line_fields sample_log ''b'' (Some m) =
        Some (Some (m ++ map_of [(''time'', JOther (string_cell ''2'')), (''msg'', JOther (string_cell ''B''))]), sample_time 2)" for m
      by (simp add: line_fields_def sample_log_def string_cell_def)
    moreover have "le_tmpl sample_log m w = (Inr (), w @ [v])" if "m ''msg'' = Some (JOther (string_cell v))" for m w v
      using that by (simp add: sample_log_def string_cell_def)
    moreover have "le_write sample_log t w = (Inr (), w @ [t])" for t w by (simp add: sample_log_def)
    ultimately show "Write sample_log sample_body (newLogFixer, []) =
        (Inr (), \<lparr>lf_buf = [], lastTime = zero_time, nextLastTime = sample_time 2\<rparr>, [''A'', [CHR 0x0A], ''B'', [CHR 0x0A]])"
      using Write_short [of newLogFixer sample_body sample_log "[]"] sample_lines sample_fix b
      by (simp add: newLogFixer_def line_shown_def andthen_def wrap_err_def ret_def before_irrefl)
  qed
  moreover have "Write sample_log sample_body (Advance lf, []) = (Inr (), Advance lf, [])"
    by (rule log_resume_prints_once [OF sample_lines(3,2) _ _ lf])
       (simp_all only: sample_lines list.set list.map sorted_wrt.simps ball_simps insert_iff empty_iff sample_own_time sample_fix b, use b in auto)
  ultimately show ?thesis by blast
qed

text \<open>
  The beginning of a line that arrived before the connection broke stays in the buffer, so the first line
  of the new connection is appended to it and is no JSON then.
\<close>

lemma broken_line_glued:
  assumes "CHR 0x0A \<notin> set (lf_buf lf @ l)" "length (lf_buf lf @ l) < log_token_size"
  shows "hd (fst (log_scan (lf_buf (Advance lf) @ l @ CHR 0x0A # s))) = lf_buf lf @ l @ [CHR 0x0A]"
  using log_scan_line [OF assms, of s] by (simp add: Advance_def)

end
