(* ===== verification/Skip.thy ===== *)
theory Skip
  imports Version
begin

section \<open>Conditions to skip a test (internal/it/skip/skip.go, internal/it/skip.go)\<close>

text \<open>
  The tests of the program are skipped by conditions such as \<^verbatim>\<open>hz > 5.1, !enterprise\<close>, which are
  evaluated against what is known of the cluster, the program and the machine. A condition that is not
  well formed is a panic, so every function here gives an option. The environment is a map from variables
  to their values.
\<close>

record Checker =
  HzVer :: string
  Ver :: string
  OS :: string
  Arch :: string
  Enterprise :: bool
  Race :: bool
  SSL :: bool
  Slow :: bool
  Flaky :: bool
  ck_Viridian :: bool
  All :: bool

definition os_Getenv :: "(string \<rightharpoonup> string) \<Rightarrow> string \<Rightarrow> string" where
  "os_Getenv ev k = (case ev k of None \<Rightarrow> [] | Some v \<Rightarrow> v)"

definition hzVersion :: "(string \<rightharpoonup> string) \<Rightarrow> string" where
  "hzVersion ev = (let version = os_Getenv ev ''HZ_VERSION'' in if version = [] then ''5.2'' else version)"

definition isConditionEnabled :: "(string \<rightharpoonup> string) \<Rightarrow> string \<Rightarrow> bool" where
  "isConditionEnabled ev envKey \<longleftrightarrow> os_Getenv ev envKey = ''1''"

text \<open>The version, the system and the race detector are fixed when the program is built.\<close>

definition defaultSkipChecker :: "(string \<rightharpoonup> string) \<Rightarrow> string \<Rightarrow> string \<Rightarrow> string \<Rightarrow> bool \<Rightarrow> Checker" where
  "defaultSkipChecker ev version goos goarch raceDetectorEnabled =
     \<lparr>HzVer = hzVersion ev, Ver = version, OS = goos, Arch = goarch,
      Enterprise = (ev ''HAZELCAST_ENTERPRISE_KEY'' \<noteq> None), Race = raceDetectorEnabled,
      SSL = isConditionEnabled ev ''ENABLE_SSL'', Slow = isConditionEnabled ev ''ENABLE_SLOW'',
      Flaky = isConditionEnabled ev ''ENABLE_FLAKY'', ck_Viridian = isConditionEnabled ev ''ENABLE_VIRIDIAN'',
      All = isConditionEnabled ev ''ENABLE_ALL''\<rparr>"

subsection \<open>One condition\<close>

definition checkEquality :: "string \<Rightarrow> string \<Rightarrow> string \<Rightarrow> bool option" where
  "checkEquality left operator right =
     (if operator = ''='' then Some (left = right)
      else if operator = ''!='' then Some (left \<noteq> right)
      else None)"

definition checkHzVer :: "Checker \<Rightarrow> string \<Rightarrow> string \<Rightarrow> bool option" where
  "checkHzVer s op right = CheckVersion (HzVer s) op right"

definition checkVer :: "Checker \<Rightarrow> string \<Rightarrow> string \<Rightarrow> bool option" where
  "checkVer s op right = CheckVersion (Ver s) op right"

definition checkOS :: "Checker \<Rightarrow> string \<Rightarrow> string \<Rightarrow> bool option" where
  "checkOS s op right = checkEquality (OS s) op right"

definition b32 :: "string list" where
  "b32 = [''386'', ''amd64p32'', ''arm'', ''armbe'', ''mips'', ''mips64p32'', ''mips64p32le'', ''mipsle'', ''ppc'',
     ''riscv'', ''s390'', ''sparc'']"

definition b64 :: "string list" where
  "b64 = [''amd64'', ''arm64'', ''arm64be'', ''loong64'', ''mips64'', ''mips64le'', ''ppc64'', ''ppc64le'', ''riscv64'',
     ''s390x'', ''sparc64'', ''wasm'']"

definition checkArch :: "Checker \<Rightarrow> string \<Rightarrow> string \<Rightarrow> bool option" where
  "checkArch s op right =
     (if op = ''~'' then
        (if right = ''32bit'' then Some (Arch s \<in> set b32)
         else if right = ''64bit'' then Some (Arch s \<in> set b64)
         else None)
      else checkEquality (Arch s) op right)"

definition isEnterprise :: "Checker \<Rightarrow> bool" where
  "isEnterprise s = Enterprise s"

definition isOSS :: "Checker \<Rightarrow> bool" where
  "isOSS s = (\<not> Enterprise s)"

definition ensureLen :: "'a list \<Rightarrow> nat \<Rightarrow> 'b option \<Rightarrow> 'b option" where
  "ensureLen ps expected r = (if length ps \<noteq> expected then None else r)"

text \<open>The \<^verbatim>\<open>switch\<close> on the key.\<close>

definition checkCondition :: "Checker \<Rightarrow> string \<Rightarrow> bool option" where
  "checkCondition s cond =
     (let ps = split_on (CHR '' '') cond; left = ps ! 0;
          compare = (\<lambda>f. ensureLen ps 3 (f s (ps ! 1) (ps ! 2)));
          flag = (\<lambda>b. ensureLen ps 1 (Some b))
      in if left = ''hz'' then compare checkHzVer
         else if left = ''Ver'' then compare checkVer
         else if left = ''os'' then compare checkOS
         else if left = ''arch'' then compare checkArch
         else if left = ''enterprise'' then flag (isEnterprise s)
         else if left = ''!enterprise'' then flag (\<not> isEnterprise s)
         else if left = ''oss'' then flag (isOSS s)
         else if left = ''!oss'' then flag (\<not> isOSS s)
         else if left = ''race'' then flag (Race s)
         else if left = ''!race'' then flag (\<not> Race s)
         else if left = ''ssl'' then flag (SSL s)
         else if left = ''!ssl'' then flag (\<not> SSL s)
         else if left = ''slow'' then flag (Slow s)
         else if left = ''!slow'' then flag (\<not> Slow s)
         else if left = ''flaky'' then flag (Flaky s)
         else if left = ''!flaky'' then flag (\<not> Flaky s)
         else if left = ''viridian'' then flag (ck_Viridian s)
         else if left = ''!viridian'' then flag (\<not> ck_Viridian s)
         else if left = ''all'' then flag (All s)
         else if left = ''!all'' then flag (\<not> All s)
         else None)"

subsection \<open>All conditions\<close>

text \<open>The loop stops at the first condition that does not hold, so that a malformed one behind it is not seen.\<close>

fun conditions_hold :: "Checker \<Rightarrow> string list \<Rightarrow> bool option" where
  "conditions_hold s [] = Some True"
| "conditions_hold s (c # cs) =
     (case checkCondition s (trim_space c) of
        None \<Rightarrow> None | Some b \<Rightarrow> if b then conditions_hold s cs else Some False)"

definition CanSkip :: "Checker \<Rightarrow> string \<Rightarrow> bool option" where
  "CanSkip s condStr = conditions_hold s (split_on (CHR '','') condStr)"

text \<open>Whether \<open>skip.If\<close> and \<open>skip.IfNot\<close> skip the test.\<close>

definition If_skips :: "Checker \<Rightarrow> string \<Rightarrow> bool option" where
  "If_skips s conditions = CanSkip s conditions"

definition IfNot_skips :: "Checker \<Rightarrow> string \<Rightarrow> bool option" where
  "IfNot_skips s conditions = map_option Not (CanSkip s conditions)"

definition MarkSlow :: "Checker \<Rightarrow> bool option" where
  "MarkSlow s = If_skips s ''!slow, !all''"

definition MarkFlaky :: "Checker \<Rightarrow> bool option" where
  "MarkFlaky s = If_skips s ''!flaky, !all''"

definition MarkRacy :: "Checker \<Rightarrow> bool option" where
  "MarkRacy s = If_skips s ''!race, !all''"

definition MarkViridian :: "Checker \<Rightarrow> bool option" where
  "MarkViridian s = If_skips s ''!viridian''"

subsection \<open>What the conditions mean\<close>

lemma conditions_hold_find:
  "conditions_hold s cs =
     (case List.find (\<lambda>c. checkCondition s (trim_space c) \<noteq> Some True) cs of
        None \<Rightarrow> Some True | Some c \<Rightarrow> checkCondition s (trim_space c))"
  by (induction cs) (auto split: option.split)

text \<open>The flags and their values.\<close>

definition flags :: "Checker \<Rightarrow> (string \<times> bool) list" where
  "flags s = [(''enterprise'', Enterprise s), (''oss'', \<not> Enterprise s), (''race'', Race s), (''ssl'', SSL s),
     (''slow'', Slow s), (''flaky'', Flaky s), (''viridian'', ck_Viridian s), (''all'', All s)]"

lemma flag_condition:
  "(k, b) \<in> set (flags s) \<Longrightarrow> checkCondition s k = Some b \<and> checkCondition s (''!'' @ k) = Some (\<not> b)"
  by (auto simp: flags_def checkCondition_def ensureLen_def isEnterprise_def isOSS_def)

lemma comparison_condition:
  assumes "CHR '' '' \<notin> set op" "CHR '' '' \<notin> set v"
  shows "checkCondition s (''hz '' @ op @ '' '' @ v) = CheckVersion (HzVer s) op v"
    "checkCondition s (''Ver '' @ op @ '' '' @ v) = CheckVersion (Ver s) op v"
    "checkCondition s (''os '' @ op @ '' '' @ v) = checkEquality (OS s) op v"
  using split_on_append_sep [OF assms(1), of v] split_on_no_sep [OF assms(2)]
  by (simp_all add: checkCondition_def ensureLen_def checkHzVer_def checkVer_def checkOS_def)

subsection \<open>Properties\<close>

text \<open>
  A list of conditions is read as their conjunction from left to right: the first condition that does
  not hold decides, so a malformed condition panics only when all before it hold. A flag holds as it is
  set, with the exclamation mark when it is not set, and never panics.
\<close>

theorem skip_conditions_conjunction:
  assumes "cs \<noteq> []" "\<forall>c \<in> set cs. CHR '','' \<notin> set c"
  shows "CanSkip s (join_with '','' cs) =
      (case List.find (\<lambda>c. checkCondition s (trim_space c) \<noteq> Some True) cs of
         None \<Rightarrow> Some True | Some c \<Rightarrow> checkCondition s (trim_space c)) \<and>
    (\<forall>(k, b) \<in> set (flags s). checkCondition s k = Some b \<and> checkCondition s (''!'' @ k) = Some (\<not> b))"
proof -
  have "split_on (CHR '','') (join_with '','' cs) = cs" by (rule split_on_join) (use assms in auto)
  then show ?thesis using flag_condition by (fastforce simp: CanSkip_def conditions_hold_find)
qed

definition sample_checker :: Checker where
  "sample_checker = defaultSkipChecker [''HZ_VERSION'' \<mapsto> ''5.1.2'', ''ENABLE_SLOW'' \<mapsto> ''1''] ''5.3.0'' ''linux'' ''amd64'' False"

lemma skip_conditions_conjunction_witness:
  "CanSkip sample_checker ''os = linux, !slow, nonsense'' = Some False"
proof -
  have "join_with '','' [''os = linux'', '' !slow'', '' nonsense''] = ''os = linux, !slow, nonsense''" by simp
  then have "CanSkip sample_checker ''os = linux, !slow, nonsense'' =
      (case List.find (\<lambda>c. checkCondition sample_checker (trim_space c) \<noteq> Some True) [''os = linux'', '' !slow'', '' nonsense''] of
         None \<Rightarrow> Some True | Some c \<Rightarrow> checkCondition sample_checker (trim_space c))"
    using skip_conditions_conjunction [of "[''os = linux'', '' !slow'', '' nonsense'']" sample_checker] by simp
  also have "\<dots> = Some False" by code_simp
  finally show ?thesis .
qed

text \<open>A comparison with the version of the cluster follows the order of versions: exactly one of three holds.\<close>

lemma hz_comparison:
  assumes "version_ok (HzVer s)" "version_ok v" "CHR '' '' \<notin> set v"
  shows "checkCondition s (''hz < '' @ v) = Some (version_less (HzVer s) v)"
    "checkCondition s (''hz > '' @ v) = Some (version_less v (HzVer s))"
  using comparison_condition(1) [of "''<''" v s] comparison_condition(1) [of "''>''" v s] assms
    compareVersions_spec [OF assms(1,2)] version_less_asym [of "HzVer s" v]
  by (auto simp: CheckVersion_def)

text \<open>
  A racy test is said to run only when the race detector is not enabled; it is skipped exactly then, unless
  all tests are asked for.
\<close>

lemma racy_tests_skipped_without_detector: "MarkRacy s = Some (\<not> Race s \<and> \<not> All s)"
proof -
  have f: "checkCondition s ''!race'' = Some (\<not> Race s)" "checkCondition s ''!all'' = Some (\<not> All s)"
    using flag_condition [of "''race''" "Race s" s] flag_condition [of "''all''" "All s" s] by (simp_all add: flags_def)
  have "split_on (CHR '','') ''!race, !all'' = [''!race'', '' !all'']" by simp
  moreover have "trim_space ''!race'' = ''!race''" "trim_space '' !all'' = ''!all''" by code_simp+
  ultimately show ?thesis by (simp add: MarkRacy_def If_skips_def CanSkip_def f)
qed

end
