(* ===== verification/Logger.thy ===== *)
theory Logger
  imports Strconv
begin

section \<open>Logging (clc/logger/logger.go, zap.go)\<close>

text \<open>
  The program has one sink for the log, a variable of the package, and a writer behind it that can be
  exchanged. A \<open>Logger\<close> has two adaptors, one for the program and one for the client library, each
  with the weight up to which it logs. The weights, their order and zap are the library's: a weight is an
  integer, named by a record, and zap prints a line with the name of its level.
\<close>

record log_weights =
  WeightFatal :: int
  WeightError :: int
  WeightWarn :: int
  WeightInfo :: int
  WeightDebug :: int
  WeightTrace :: int

definition weights_ok :: "log_weights \<Rightarrow> bool" where
  "weights_ok wt \<longleftrightarrow> WeightFatal wt < WeightError wt \<and> WeightError wt < WeightWarn wt \<and> WeightWarn wt < WeightInfo wt \<and>
     WeightInfo wt < WeightDebug wt \<and> WeightDebug wt < WeightTrace wt"

text \<open>
  The state: the writer behind the sink, \<^const>\<open>None\<close> before the sink is registered, and what was written:
  the writer, the level and the text of every line. \<open>lw_calls\<close> counts how often a text was asked
  for, and \<open>lw_exited\<close> says that zap ended the process, as it does after a fatal line.
\<close>

record log_world =
  lw_sink :: "string option"
  lw_lines :: "(string \<times> string \<times> string) list"
  lw_calls :: nat
  lw_exited :: bool

record Logger =
  appLogger :: int
  clientLogger :: int

definition zap_line :: "string \<Rightarrow> string \<Rightarrow> log_world \<Rightarrow> log_world" where
  "zap_line level t s =
     (case lw_sink s of None \<Rightarrow> s | Some w \<Rightarrow> s\<lparr>lw_lines := lw_lines s @ [(w, level, t)]\<rparr>)"

text \<open>\<open>Log\<close> of the adaptor: the text is computed only when the weight lets it pass. A weight that is none of the six is dropped.\<close>

definition Adaptor_Log :: "log_weights \<Rightarrow> int \<Rightarrow> int \<Rightarrow> string \<Rightarrow> log_world \<Rightarrow> log_world" where
  "Adaptor_Log wt weight wantWeight t s =
     (if weight < wantWeight then s
      else if wantWeight = WeightTrace wt \<or> wantWeight = WeightDebug wt then zap_line ''DEBUG'' t (s\<lparr>lw_calls := Suc (lw_calls s)\<rparr>)
      else if wantWeight = WeightInfo wt then zap_line ''INFO'' t (s\<lparr>lw_calls := Suc (lw_calls s)\<rparr>)
      else if wantWeight = WeightWarn wt then zap_line ''WARN'' t (s\<lparr>lw_calls := Suc (lw_calls s)\<rparr>)
      else if wantWeight = WeightError wt then zap_line ''ERROR'' t (s\<lparr>lw_calls := Suc (lw_calls s)\<rparr>)
      else if wantWeight = WeightFatal wt then zap_line ''FATAL'' t (s\<lparr>lw_calls := Suc (lw_calls s), lw_exited := True\<rparr>)
      else s)"

text \<open>\<open>New\<close>: only the first logger sets the writer, because the sink is registered once.\<close>

definition Logger_New :: "string \<Rightarrow> int \<Rightarrow> log_world \<Rightarrow> Logger \<times> log_world" where
  "Logger_New w weight s =
     (\<lparr>appLogger = weight, clientLogger = weight\<rparr>, if lw_sink s = None then s\<lparr>lw_sink := Some w\<rparr> else s)"

definition SetWriter :: "string \<Rightarrow> log_world \<Rightarrow> log_world" where
  "SetWriter w s = s\<lparr>lw_sink := Some w\<rparr>"

definition SetWeight :: "int \<Rightarrow> Logger \<Rightarrow> Logger" where
  "SetWeight weight lg = \<lparr>appLogger = weight, clientLogger = weight\<rparr>"

definition Logger_Log :: "log_weights \<Rightarrow> Logger \<Rightarrow> int \<Rightarrow> string \<Rightarrow> log_world \<Rightarrow> log_world" where
  "Logger_Log wt lg weight t = Adaptor_Log wt (clientLogger lg) weight t"

definition Logger_Error :: "log_weights \<Rightarrow> Logger \<Rightarrow> go_error \<Rightarrow> log_world \<Rightarrow> log_world" where
  "Logger_Error wt lg e = Adaptor_Log wt (appLogger lg) (WeightError wt) (err_text e)"

definition Logger_Warn :: "log_weights \<Rightarrow> Logger \<Rightarrow> string \<Rightarrow> log_world \<Rightarrow> log_world" where
  "Logger_Warn wt lg t = Adaptor_Log wt (appLogger lg) (WeightWarn wt) t"

definition Logger_Info :: "log_weights \<Rightarrow> Logger \<Rightarrow> string \<Rightarrow> log_world \<Rightarrow> log_world" where
  "Logger_Info wt lg t = Adaptor_Log wt (appLogger lg) (WeightInfo wt) t"

definition Logger_Debug :: "log_weights \<Rightarrow> Logger \<Rightarrow> string \<Rightarrow> log_world \<Rightarrow> log_world" where
  "Logger_Debug wt lg t = Adaptor_Log wt (appLogger lg) (WeightDebug wt) t"

definition Logger_Debugf :: "log_weights \<Rightarrow> Logger \<Rightarrow> string \<Rightarrow> log_world \<Rightarrow> log_world" where
  "Logger_Debugf wt lg t = Adaptor_Log wt (appLogger lg) (WeightDebug wt) t"

definition Logger_Trace :: "log_weights \<Rightarrow> Logger \<Rightarrow> string \<Rightarrow> log_world \<Rightarrow> log_world" where
  "Logger_Trace wt lg t = Adaptor_Log wt (appLogger lg) (WeightTrace wt) t"

subsection \<open>What is logged\<close>

text \<open>One line per message whose weight passes, to the writer behind the sink; nothing otherwise.\<close>

lemma Adaptor_Log_passes:
  assumes "lw_sink s = Some w"
    and "want \<in> {WeightFatal wt, WeightError wt, WeightWarn wt, WeightInfo wt, WeightDebug wt, WeightTrace wt}"
  shows "want \<le> weight \<Longrightarrow>
      \<exists>level. lw_lines (Adaptor_Log wt weight want t s) = lw_lines s @ [(w, level, t)] \<and>
        lw_calls (Adaptor_Log wt weight want t s) = Suc (lw_calls s)"
    and "weight < want \<Longrightarrow> Adaptor_Log wt weight want t s = s"
  using assms by (auto simp: Adaptor_Log_def zap_line_def)

text \<open>A more talkative logger writes all a quieter one does.\<close>

lemma Adaptor_Log_monotone:
  "weight \<le> weight' \<Longrightarrow> Adaptor_Log wt weight want t s \<noteq> s \<Longrightarrow> Adaptor_Log wt weight' want t s = Adaptor_Log wt weight want t s"
  by (auto simp: Adaptor_Log_def)

lemma errors_logged_with_any_weight:
  assumes "weights_ok wt" "lw_sink s = Some w" "appLogger lg \<in> {WeightError wt, WeightWarn wt, WeightInfo wt, WeightDebug wt, WeightTrace wt}"
  shows "lw_lines (Logger_Error wt lg e s) = lw_lines s @ [(w, ''ERROR'', err_text e)]"
  using assms by (auto simp: Logger_Error_def Adaptor_Log_def zap_line_def weights_ok_def)

text \<open>The writer given to a second logger is not used.\<close>

lemma second_New_keeps_writer:
  "lw_sink (snd (Logger_New w2 weight2 (snd (Logger_New w1 weight1 s)))) = lw_sink (snd (Logger_New w1 weight1 s))"
  by (auto simp: Logger_New_def)

end
