(* ===== verification/CopyTree.thy ===== *)
theory CopyTree
  imports Project SecretFiles
begin

section \<open>Copying a directory (CopyDir of clc/paths/paths.go)\<close>

text \<open>
  \<open>CopyDir\<close> walks a directory in the order of its entries and copies every file below the target. How much
  of a file \<^verbatim>\<open>io.Copy\<close> copies, and whether it ends with an error, is a parameter: a function of the path
  and the content that gives the bytes written. The error does not matter: the deferred function puts the
  error of opening the target, which is nil there, in its place.
\<close>

text \<open>\<open>part\<close> is the path below the source, \<open>src @ part\<close> the path the walk is at.\<close>

fun copy_entry :: "(string \<Rightarrow> string \<Rightarrow> string) \<Rightarrow> string \<Rightarrow> string \<Rightarrow> string \<Rightarrow> tpl \<Rightarrow> (file_system, unit) eff"
  and copy_entries :: "(string \<Rightarrow> string \<Rightarrow> string) \<Rightarrow> string \<Rightarrow> string \<Rightarrow> string \<Rightarrow> tpl list \<Rightarrow> (file_system, unit) eff" where
  "copy_entry cpy src target part (TDir n es) =
     andthen (MkdirAll (filepath_Join [target, part])) (\<lambda>_. with_state (\<lambda>fs.
       case fs_read_error fs (src @ part) of Some e \<Rightarrow> fail e | None \<Rightarrow> copy_entries cpy src target part es))"
| "copy_entry cpy src target part (TFile n c) =
     with_state (\<lambda>fs. case fs_read_error fs (src @ part) of
       Some e \<Rightarrow> fail e
     | None \<Rightarrow> andthen (WriteFile (filepath_Join [target, part]) []) (\<lambda>_.
         modify_state (\<lambda>fs'. fs'\<lparr>fs_files := (fs_files fs')(filepath_Join [target, part] \<mapsto> cpy (src @ part) c)\<rparr>)))"
| "copy_entries cpy src target part [] = ret ()"
| "copy_entries cpy src target part (e # es) =
     andthen (copy_entry cpy src target (part @ ''/'' @ tpl_name e) e) (\<lambda>_. copy_entries cpy src target part es)"

definition CopyDir :: "(string \<Rightarrow> string \<Rightarrow> string) \<Rightarrow> string \<Rightarrow> string \<Rightarrow> tpl \<Rightarrow> (file_system, unit) eff" where
  "CopyDir cpy src target t = copy_entry cpy src target [] t"

text \<open>The files of a tree with their paths below it, in the order of the walk.\<close>

fun tree_files :: "string \<Rightarrow> tpl \<Rightarrow> (string \<times> string) list" where
  "tree_files part (TFile n c) = [(part, c)]"
| "tree_files part (TDir n es) = concat (map (\<lambda>e. tree_files (part @ ''/'' @ tpl_name e) e) es)"

definition put_file :: "(string \<Rightarrow> string \<Rightarrow> string) \<Rightarrow> string \<Rightarrow> string \<Rightarrow> file_system \<Rightarrow> string \<times> string \<Rightarrow> file_system" where
  "put_file cpy src target fs = (\<lambda>(part, c). fs\<lparr>fs_files := (fs_files fs)(filepath_Join [target, part] \<mapsto> cpy (src @ part) c)\<rparr>)"

lemma put_files_errors [simp]:
  "fs_mkdir_error (foldl (put_file cpy src target) fs ps) = fs_mkdir_error fs"
  "fs_write_error (foldl (put_file cpy src target) fs ps) = fs_write_error fs"
  "fs_read_error (foldl (put_file cpy src target) fs ps) = fs_read_error fs"
  by (induction ps arbitrary: fs) (auto simp: put_file_def)

text \<open>Without errors of the file system every file of the tree is put at its place, and the copy succeeds whatever was copied of it.\<close>

lemma copy_entry_puts:
  assumes "fs_mkdir_error fs = (\<lambda>_. None)" "fs_write_error fs = (\<lambda>_. None)" "fs_read_error fs = (\<lambda>_. None)"
  shows "copy_entry cpy src target part t fs = (Inr (), foldl (put_file cpy src target) fs (tree_files part t))"
    and "copy_entries cpy src target part es fs =
      (Inr (), foldl (put_file cpy src target) fs (concat (map (\<lambda>e. tree_files (part @ ''/'' @ tpl_name e) e) es)))"
  using assms
proof (induction cpy src target part t and cpy src target part es arbitrary: fs and fs rule: copy_entry_copy_entries.induct)
  case (1 cpy src target part n es)
  then show ?case using 1(1) [of fs fs] by (simp add: andthen_def MkdirAll_def with_state_def)
next
  case (2 cpy src target part n c)
  then show ?case by (simp add: with_state_def andthen_def WriteFile_def modify_state_def put_file_def)
next
  case (3 cpy src target part)
  then show ?case by (simp add: ret_def)
next
  case (4 cpy src target part e es)
  then show ?case by (simp add: andthen_def)
qed

end
