(* ===== verification/Providers.thy ===== *)
theory Providers
  imports Config
begin

section \<open>The providers of a configuration (file_provider.go, wizard_provider.go of clc/config)\<close>

text \<open>
  The program reads its configuration through the interface \<^verbatim>\<open>config.Provider\<close>. The locale
  \<open>config_provider\<close> is that interface with what the program relies on; the file provider of theory
  \<open>Config\<close> implements it, and so does the wizard provider, which holds a file provider and replaces it
  when the user chooses a configuration.
\<close>

subsection \<open>The wizard provider\<close>

record WizardProvider =
  wz_fp :: FileProvider

definition NewWizardProvider :: "config_env \<Rightarrow> string \<Rightarrow> (file_system, WizardProvider) eff option" where
  "NewWizardProvider env path =
     map_option (\<lambda>load. andthen load (\<lambda>fp. ret \<lparr>wz_fp = fp\<rparr>)) (NewFileProvider env path)"

definition Wizard_GetString :: "WizardProvider \<Rightarrow> string \<Rightarrow> string option" where
  "Wizard_GetString p key = fp_GetString (wz_fp p) key"

definition Wizard_Set :: "string \<Rightarrow> go_val \<Rightarrow> WizardProvider \<Rightarrow> WizardProvider" where
  "Wizard_Set key v p = p\<lparr>wz_fp := fp_Set key v (wz_fp p)\<rparr>"

definition Wizard_All :: "WizardProvider \<Rightarrow> string \<rightharpoonup> go_val" where
  "Wizard_All p = fp_All (wz_fp p)"

definition Wizard_BindFlag :: "string \<Rightarrow> pflag \<Rightarrow> WizardProvider \<Rightarrow> WizardProvider" where
  "Wizard_BindFlag name flag p = p\<lparr>wz_fp := fp_BindFlag name flag (wz_fp p)\<rparr>"

definition fmtConfigurationHelp :: "string \<Rightarrow> string" where
  "fmtConfigurationHelp arg0 = join_with [CHR 0x0A]
     [''No configurations found.'', [], ''Run the following command to learn more about adding a configuration:'', [],
      [CHR 0x09] @ arg0 @ '' config add --help'', [],
      ''Or run the following command to import a Viridian cluster configuration:'', [],
      [CHR 0x09] @ arg0 @ '' config import --help'', []]"

definition printNoConfigHelp :: "'w cenv \<Rightarrow> string option \<Rightarrow> ('w, unit) step" where
  "printNoConfigHelp env arg0 =
     PrintlnUnnecessary env (fmtConfigurationHelp (case arg0 of None \<Rightarrow> ''clc'' | Some a \<Rightarrow> a))"

text \<open>
  \<open>ClientConfig\<close> with the provider that is in use afterwards; the help is printed when no configuration
  was given and none is there.
\<close>

definition needs_help :: "config_env \<Rightarrow> client_env \<Rightarrow> FileProvider \<Rightarrow> bool" where
  "needs_help env ce p \<longleftrightarrow>
     (case fst (fp_ClientConfig ce p) of
        Inr cfg \<Rightarrow> False
      | Inl e \<Rightarrow> err_is e ''no configuration was specified'' \<and>
          (case Configs (cf_place env) of
             None \<Rightarrow> False
           | Some cd \<Rightarrow> (case Config_FindAll env cd of Inl _ \<Rightarrow> True | Inr cs \<Rightarrow> cs = [])))"

definition Wizard_ClientConfig ::
    "config_env \<Rightarrow> client_env \<Rightarrow> 'w cenv \<Rightarrow> string option \<Rightarrow> wizard \<Rightarrow> WizardProvider \<Rightarrow> file_system \<Rightarrow>
     ('w, hz_config \<times> WizardProvider \<times> file_system) step" where
  "Wizard_ClientConfig env ce cenv arg0 pick p fs =
     andthen (if needs_help env ce (wz_fp p) then printNoConfigHelp cenv arg0 else ret ()) (\<lambda>_.
     case wizard_ClientConfig env ce (ce_pipe cenv) pick of
       None \<Rightarrow> fail panic_error
     | Some f \<Rightarrow>
         (case f (wz_fp p, fs) of
            (Inl e, _) \<Rightarrow> fail e
          | (Inr cfg, (fp, fs')) \<Rightarrow> ret (cfg, p\<lparr>wz_fp := fp\<rparr>, fs')))"

subsection \<open>The interface\<close>

text \<open>
  \<open>bound\<close> are the flags bound so far. A flag given on the command line wins over everything, the path of
  the configuration, which is asked for under \<^verbatim>\<open>config\<close>, excepted.
\<close>

locale config_provider =
  fixes get_string :: "'p \<Rightarrow> string \<Rightarrow> string option"
    and set_value :: "string \<Rightarrow> go_val \<Rightarrow> 'p \<Rightarrow> 'p"
    and all_values :: "'p \<Rightarrow> string \<rightharpoonup> go_val"
    and bind_flag :: "string \<Rightarrow> pflag \<Rightarrow> 'p \<Rightarrow> 'p"
    and bound :: "'p \<Rightarrow> string \<rightharpoonup> pflag"
  assumes bound_bind: "bound (bind_flag k f p) = (bound p)(k \<mapsto> f)"
    and bound_set: "bound (set_value k v p) = bound p"
    and flag_wins: "bound p k = Some f \<Longrightarrow> Changed f \<Longrightarrow> k \<noteq> ''config'' \<Longrightarrow> get_string p k = Some (flag_value f)"
    and set_other: "k' \<noteq> k \<Longrightarrow> get_string (set_value k v p) k' = get_string p k'"
    and all_set: "k \<in> dom (all_values (set_value k v p))"
    and all_bind: "all_values (bind_flag k f p) = all_values p"
begin

lemma sets_keep_bound: "bound (foldl (\<lambda>p (k, v). set_value k v p) p kvs) = bound p"
  by (induction kvs arbitrary: p) (auto simp: bound_set)

text \<open>Whatever is set after the flags were bound, a flag that was given keeps its value.\<close>

lemma flag_survives_sets:
  assumes "bound p k = Some f" "Changed f" "k \<noteq> ''config''"
  shows "get_string (foldl (\<lambda>p (k, v). set_value k v p) p kvs) k = Some (flag_value f)"
  by (rule flag_wins) (simp_all add: sets_keep_bound assms)

lemma sets_of_other_keys:
  "k \<notin> fst ` set kvs \<Longrightarrow> get_string (foldl (\<lambda>p (k, v). set_value k v p) p kvs) k = get_string p k"
  by (induction kvs arbitrary: p) (auto simp: set_other)

end

interpretation file_provider: config_provider fp_GetString fp_Set fp_All fp_BindFlag fp_boundFlags
proof unfold_locales
  show "k \<in> dom (fp_All (fp_Set k v p))" for k v p
    by (auto simp: fp_All_def fp_Set_def fp_get_def add_key_def split: option.split)
qed (auto simp: fp_GetString_def fp_Set_def fp_BindFlag_def fp_get_def fp_All_def split: option.splits)

interpretation wizard_provider: config_provider Wizard_GetString Wizard_Set Wizard_All Wizard_BindFlag
    "\<lambda>p. fp_boundFlags (wz_fp p)"
  using file_provider.all_set
  by unfold_locales
     (auto simp: Wizard_GetString_def Wizard_Set_def Wizard_All_def Wizard_BindFlag_def file_provider.bound_bind
       file_provider.bound_set file_provider.flag_wins file_provider.set_other file_provider.all_bind)

lemma given_flag_wins:
  assumes "Changed f" "k \<noteq> ''config''"
  shows "Wizard_GetString (foldl (\<lambda>p (k, v). Wizard_Set k v p) (Wizard_BindFlag k f p) kvs) k = Some (flag_value f)"
  by (rule wizard_provider.flag_survives_sets) (simp_all add: Wizard_BindFlag_def fp_BindFlag_def assms)

text \<open>
  When the user chooses a configuration the provider is replaced by a new one, so the flags bound to the
  provider and the values set in it are gone.
\<close>

lemma NewFileProvider_unbound:
  assumes "NewFileProvider env path = Some load" "load fs = (Inr fp, fs')"
  shows "fp_boundFlags fp = Map.empty"
proof -
  have t: "fp_boundFlags (traverseMap r m p) = fp_boundFlags p" for r m p
  proof -
    have "fp_boundFlags (foldl (\<lambda>p (r, v). p\<lparr>fp_cfg := (fp_cfg p)(r \<mapsto> v), fp_keys := add_key r (fp_keys p)\<rparr>) p kvs) =
        fp_boundFlags p" for kvs
      by (induction kvs arbitrary: p) auto
    then show ?thesis by (simp add: traverseMap_def)
  qed
  show ?thesis
    using assms by (auto simp: NewFileProvider_def fp_load_def Let_def ret_def fail_def andthen_Inr_iff t empty_provider_def
      split: option.splits if_splits)
qed

end
