(* ===== verification/ConfigYaml.thy ===== *)
theory ConfigYaml
  imports Config
begin

section \<open>A configuration that is added can be read (clc/config)\<close>

text \<open>
  \<^verbatim>\<open>clc config add\<close> writes a YAML file from key and value pairs, and every later command reads it with a
  file provider. This theory composes the two, with the YAML library as an argument of which only
  the reading of a small part of YAML is assumed; the writer stays in that part for plain keys and values.
\<close>

subsection \<open>YAML that is read as strings\<close>

text \<open>
  The part of YAML a configuration with plain settings uses: a block mapping, two blanks deeper at each
  level, of plain scalars. A scalar that starts with a letter and has only letters, digits and a few other characters is a
  string, unless it is one of the words for a truth value or for null; a colon is part of it when another character follows.
\<close>

definition plain_letter :: "char \<Rightarrow> bool" where
  "plain_letter c \<longleftrightarrow> 65 \<le> (of_char c :: nat) \<and> (of_char c :: nat) \<le> 90 \<or> 97 \<le> (of_char c :: nat) \<and> (of_char c :: nat) \<le> 122"

definition plain_char :: "char \<Rightarrow> bool" where
  "plain_char c \<longleftrightarrow> plain_letter c \<or> 48 \<le> (of_char c :: nat) \<and> (of_char c :: nat) \<le> 57 \<or> c \<in> {CHR ''-'', CHR ''_''}"

definition plain_word :: "string \<Rightarrow> bool" where
  "plain_word s \<longleftrightarrow> s \<noteq> [] \<and> plain_letter (hd s) \<and>
     to_lower s \<notin> {''true'', ''false'', ''yes'', ''no'', ''on'', ''off'', ''y'', ''n'', ''null''}"

definition plain_key :: "string \<Rightarrow> bool" where
  "plain_key s \<longleftrightarrow> plain_word s \<and> list_all plain_char s"

definition plain_value :: "string \<Rightarrow> bool" where
  "plain_value s \<longleftrightarrow> plain_word s \<and> list_all (\<lambda>c. plain_char c \<or> c \<in> {CHR ''.'', CHR ''/'', CHR '':''}) s \<and> last s \<noteq> CHR '':''"

inductive plain_map :: "go_map \<Rightarrow> bool" where
  plain_mapI: "distinct (map fst m) \<Longrightarrow>
    (\<And>k v. (k, v) \<in> set m \<Longrightarrow> plain_key k \<and>
       ((\<exists>s. v = VString s \<and> plain_value s) \<or> (\<exists>mm. v = VMap mm \<and> mm \<noteq> [] \<and> plain_map mm))) \<Longrightarrow> plain_map m"

function yaml_text :: "nat \<Rightarrow> go_map \<Rightarrow> string" where
  "yaml_text n [] = []"
| "yaml_text n ((k, v) # m) =
     (case v of
        VMap mm \<Rightarrow> replicate (n * 2) CHR '' '' @ k @ '':'' @ [CHR 0x0A] @ yaml_text (Suc n) mm
      | VString s \<Rightarrow> replicate (n * 2) CHR '' '' @ k @ '': '' @ s @ [CHR 0x0A]
      | _ \<Rightarrow> []) @ yaml_text n m"
  by pat_completeness auto
termination
  by (relation "measure (\<lambda>(n, m). size_list (\<lambda>x. Suc (size (snd x))) m)") (auto simp: size_prod_simp)

text \<open>What the reader of YAML promises for such texts.\<close>

definition reads_plain_yaml :: "(string \<Rightarrow> go_error + go_map) \<Rightarrow> bool" where
  "reads_plain_yaml yaml \<longleftrightarrow> (\<forall>m. plain_map m \<longrightarrow> yaml (yaml_text 0 m) = Inr m)"

lemma yaml_text_append: "yaml_text n (xs @ ys) = yaml_text n xs @ yaml_text n ys"
  by (induction xs) auto

lemma yaml_text_leaves:
  "yaml_text n (map (\<lambda>(k, v). (k, VString v)) opts) = concat (map (copyOpt n) opts)"
  by (induction opts) (auto simp: copyOpt_def)

lemma leaf_paths_append: "leaf_paths (xs @ ys) = leaf_paths xs @ leaf_paths ys"
  by (induction xs) auto

lemma leaf_paths_leaves: "leaf_paths (map (\<lambda>(k, v). (k, VString v)) opts) = map (\<lambda>(k, v). ([k], VString v)) opts"
  by (induction opts) auto

lemma leaf_paths_sections:
  "set (leaf_paths (map (\<lambda>h. (h, VMap (M h))) hs)) = {(h # ps, w) | h ps w. h \<in> set hs \<and> (ps, w) \<in> set (leaf_paths (M h))}"
  by (induction hs) auto

text \<open>The writer: the text of a section after its own line.\<close>

definition section_body :: "nat \<Rightarrow> (string \<times> string) list \<Rightarrow> string" where
  "section_body n opts =
     concat (map (copyOpt n) (filter is_leaf opts)) @ concat (map (\<lambda>h. copySection h n (sub_opts h opts)) (heads opts))"

lemma copySection_named:
  "h \<noteq> [] \<Longrightarrow> opts \<noteq> [] \<Longrightarrow>
    copySection h n opts = replicate (n * 2) CHR '' '' @ h @ '':'' @ [CHR 0x0A] @ section_body (Suc n) (sort_key fst opts)"
proof -
  assume "h \<noteq> []" "opts \<noteq> []"
  then have "sort_key fst opts \<noteq> []" by (metis length_0_conv length_sort)
  then show ?thesis using \<open>h \<noteq> []\<close> by (subst copySection.simps) (simp add: section_body_def Let_def)
qed

lemma CreateYAML_body: "CreateYAML opts = section_body 0 (sort_key fst opts)"
  unfolding CreateYAML_def by (subst copySection.simps) (auto simp: section_body_def Let_def heads_def)

definition plain_opts :: "(string \<times> string) list \<Rightarrow> bool" where
  "plain_opts opts \<longleftrightarrow> distinct (map fst opts) \<and> (\<forall>k \<in> fst ` set opts. \<forall>p \<in> set (parts k). plain_key p) \<and>
     (\<forall>v \<in> snd ` set opts. plain_value v) \<and>
     (\<forall>k \<in> fst ` set opts. \<forall>l \<in> fst ` set opts. \<not> conflict (parts k) (parts l))"


lemma plain_key_not_Nil: "plain_key k \<Longrightarrow> k \<noteq> []"
  by (auto simp: plain_key_def plain_word_def)

lemma opts_size_sorted [simp]: "opts_size (sort_key f opts) = opts_size opts"
proof -
  have "opts_size l = sum_mset (image_mset (\<lambda>o1. Suc (length (fst o1))) (mset l))" for l
    by (induction l) auto
  then show ?thesis by simp
qed

lemma parts_leaf: "is_leaf (k, v) \<Longrightarrow> parts k = [k]"
  by (simp add: is_leaf_def split_on_no_sep)

lemma parts_section: "\<not> is_leaf (k, v) \<Longrightarrow> parts k = key_head k # parts (key_rest k)"
proof -
  assume "\<not> is_leaf (k, v)"
  then have k: "k = key_head k @ CHR ''.'' # key_rest k" by (rule key_parts)
  have "CHR ''.'' \<notin> set (key_head k)" unfolding key_head_def by (auto dest: set_takeWhileD)
  then have "parts (key_head k @ CHR ''.'' # key_rest k) = key_head k # parts (key_rest k)" by (rule split_on_append_sep)
  then show ?thesis using k by simp
qed

lemma set_sub_opts: "(r, v) \<in> set (sub_opts h opts) \<longleftrightarrow> (\<exists>k. (k, v) \<in> set opts \<and> \<not> is_leaf (k, v) \<and> key_head k = h \<and> key_rest k = r)"
  by (force simp: sub_opts_def)

lemma set_heads: "h \<in> set (heads opts) \<longleftrightarrow> (\<exists>(k, v) \<in> set opts. \<not> is_leaf (k, v) \<and> key_head k = h)"
  by (force simp: heads_def)

lemma plain_opts_sorted [simp]: "plain_opts (sort_key f opts) \<longleftrightarrow> plain_opts opts"
proof -
  have "distinct (map fst (sort_key f opts)) = distinct (map fst opts)"
    by (rule mset_eq_imp_distinct_iff) simp
  then show ?thesis by (simp add: plain_opts_def)
qed

lemma plain_opts_sub:
  assumes "plain_opts opts"
  shows "plain_opts (sub_opts h opts)"
proof -
  have orig: "\<exists>k. (k, v) \<in> set opts \<and> parts k = h # parts r" if "(r, v) \<in> set (sub_opts h opts)" for r v
    using that parts_section by (auto simp: set_sub_opts)
  have "distinct (map fst (sub_opts h opts))"
  proof -
    have "inj_on key_rest {k \<in> fst ` set opts. \<not> is_leaf (k, []) \<and> key_head k = h}"
    proof (rule inj_onI)
      fix a b assume "a \<in> {k \<in> fst ` set opts. \<not> is_leaf (k, []) \<and> key_head k = h}"
        "b \<in> {k \<in> fst ` set opts. \<not> is_leaf (k, []) \<and> key_head k = h}" "key_rest a = key_rest b"
      then show "a = b" using key_parts [of a "[]"] key_parts [of b "[]"] by simp
    qed
    moreover have "map fst (sub_opts h opts) = map key_rest (filter (\<lambda>k. \<not> is_leaf (k, []) \<and> key_head k = h) (map fst opts))"
      by (induction opts) (auto simp: sub_opts_def is_leaf_def)
    moreover have "distinct (map fst opts)" using assms by (simp add: plain_opts_def)
    ultimately show ?thesis by (auto simp: distinct_map intro: inj_on_subset)
  qed
  moreover have "plain_key p" if r: "(r, v) \<in> set (sub_opts h opts)" and p: "p \<in> set (parts r)" for r v p
    using orig [OF r] assms p unfolding plain_opts_def by force
  moreover have "plain_value v" if "(r, v) \<in> set (sub_opts h opts)" for r v
    using orig [OF that] assms unfolding plain_opts_def by force
  moreover have "\<not> conflict (parts r) (parts r')" if rv: "(r, v) \<in> set (sub_opts h opts)" and rv': "(r', v') \<in> set (sub_opts h opts)" for r v r' v'
  proof -
    obtain k k' where "(k, v) \<in> set opts" "parts k = h # parts r" "(k', v') \<in> set opts" "parts k' = h # parts r'"
      using orig [OF rv] orig [OF rv'] by blast
    moreover then have "\<not> conflict (parts k) (parts k')" using assms unfolding plain_opts_def by force
    ultimately show ?thesis by (simp add: conflict_def)
  qed
  ultimately show ?thesis unfolding plain_opts_def by force
qed

lemma yaml_text_sections:
  assumes "\<And>h. h \<in> set hs \<Longrightarrow> text h = replicate (n * 2) CHR '' '' @ h @ '':'' @ [CHR 0x0A] @ yaml_text (Suc n) (M h)"
  shows "concat (map text hs) = yaml_text n (map (\<lambda>h. (h, VMap (M h))) hs)"
  using assms by (induction hs) simp_all

text \<open>A section of plain settings is the text of a nested map whose leaves are the settings.\<close>

lemma section_body_text:
  "plain_opts opts \<Longrightarrow> \<exists>m. section_body n opts = yaml_text n m \<and> plain_map m \<and> (opts \<noteq> [] \<longrightarrow> m \<noteq> []) \<and>
     (\<forall>q w. (q, w) \<in> set (leaf_paths m) \<longleftrightarrow> (\<exists>(k, v) \<in> set opts. q = parts k \<and> w = VString v))"
proof (induction "opts_size opts" arbitrary: n opts rule: less_induct)
  case less
  let ?leaves = "filter is_leaf opts" and ?sub = "\<lambda>h. sub_opts h opts"
  have sub: "?sub h \<noteq> [] \<and> h \<noteq> [] \<and> plain_key h" if h: "h \<in> set (heads opts)" for h
  proof -
    obtain k v where k: "(k, v) \<in> set opts" "\<not> is_leaf (k, v)" "key_head k = h" using h by (auto simp: set_heads)
    then have "h \<in> set (parts k)" using parts_section [OF k(2)] by simp
    then have "plain_key h" using less.prems k(1) unfolding plain_opts_def by force
    moreover have "(key_rest k, v) \<in> set (?sub h)" using k by (auto simp: set_sub_opts)
    ultimately show ?thesis using plain_key_not_Nil by auto
  qed
  have "\<exists>mm. section_body (Suc n) (sort_key fst (?sub h)) = yaml_text (Suc n) mm \<and> plain_map mm \<and> mm \<noteq> [] \<and>
      (\<forall>q w. (q, w) \<in> set (leaf_paths mm) \<longleftrightarrow> (\<exists>(k, v) \<in> set (?sub h). q = parts k \<and> w = VString v))" if h: "h \<in> set (heads opts)" for h
  proof -
    have "opts_size (sort_key fst (?sub h)) < opts_size opts" using opts_size_less [OF h] by simp
    moreover have "sort_key fst (?sub h) \<noteq> []" using sub [OF h] by (metis length_0_conv length_sort)
    ultimately show ?thesis using less.hyps [of "sort_key fst (?sub h)" "Suc n"] plain_opts_sub [OF less.prems] by simp
  qed
  then obtain M where M: "\<And>h. h \<in> set (heads opts) \<Longrightarrow> section_body (Suc n) (sort_key fst (?sub h)) = yaml_text (Suc n) (M h) \<and>
      plain_map (M h) \<and> M h \<noteq> [] \<and>
      (\<forall>q w. (q, w) \<in> set (leaf_paths (M h)) \<longleftrightarrow> (\<exists>(k, v) \<in> set (?sub h). q = parts k \<and> w = VString v))"
    by metis
  let ?m = "map (\<lambda>(k, v). (k, VString v)) ?leaves @ map (\<lambda>h. (h, VMap (M h))) (heads opts)"
  have "section_body n opts = yaml_text n ?m"
  proof -
    have "copySection h n (?sub h) = replicate (n * 2) CHR '' '' @ h @ '':'' @ [CHR 0x0A] @ yaml_text (Suc n) (M h)"
      if h: "h \<in> set (heads opts)" for h
      using sub [OF h] M [OF h] copySection_named [of h "?sub h" n] by simp
    then show ?thesis
      unfolding section_body_def yaml_text_append yaml_text_leaves by (simp only: yaml_text_sections)
  qed
  moreover have "plain_map ?m"
  proof (rule plain_mapI)
    have d: "distinct (map fst ?leaves)" using less.prems by (auto simp: plain_opts_def intro: distinct_map_filter)
    have "k \<noteq> h" if k: "(k, v) \<in> set opts" "is_leaf (k, v)" and h: "h \<in> set (heads opts)" for k v h
    proof
      assume "k = h"
      obtain k' v' where k': "(k', v') \<in> set opts" "\<not> is_leaf (k', v')" "key_head k' = h" using h by (auto simp: set_heads)
      then have "conflict (parts k) (parts k')"
        using parts_section [OF k'(2)] parts_leaf [OF k(2)] \<open>k = h\<close>
        by (cases "parts (key_rest k')") (auto simp: conflict_def)
      then show False using less.prems k(1) k'(1) unfolding plain_opts_def by force
    qed
    then have "fst ` set ?leaves \<inter> set (heads opts) = {}" by fastforce
    moreover have "map fst ?m = map fst ?leaves @ heads opts" by (simp add: comp_def case_prod_unfold)
    moreover have "distinct (heads opts)" by (simp add: heads_def)
    ultimately show "distinct (map fst ?m)" using d by (simp only: distinct_append) simp
    fix k v assume "(k, v) \<in> set ?m"
    then consider s where "(k, s) \<in> set opts" "is_leaf (k, s)" "v = VString s" | "k \<in> set (heads opts)" "v = VMap (M k)" by auto
    then show "plain_key k \<and> ((\<exists>s. v = VString s \<and> plain_value s) \<or> (\<exists>mm. v = VMap mm \<and> mm \<noteq> [] \<and> plain_map mm))"
    proof cases
      case 1
      then have "plain_key k" "plain_value s" using less.prems parts_leaf [of k s] unfolding plain_opts_def by force+
      then show ?thesis using 1 by blast
    next
      case 2
      then show ?thesis using sub M by blast
    qed
  qed
  moreover have "opts \<noteq> [] \<longrightarrow> ?m \<noteq> []"
  proof
    assume "opts \<noteq> []"
    then obtain k v where "(k, v) \<in> set opts" by (cases opts) auto
    then have "(k, v) \<in> set ?leaves \<or> key_head k \<in> set (heads opts)" by (auto simp: set_heads)
    then have "?leaves \<noteq> [] \<or> heads opts \<noteq> []" by (elim disjE) (force simp: filter_empty_conv)+
    then show "?m \<noteq> []" by simp
  qed
  moreover have "(q, w) \<in> set (leaf_paths ?m) \<longleftrightarrow> (\<exists>(k, v) \<in> set opts. q = parts k \<and> w = VString v)" for q w
  proof -
    have "(q, w) \<in> set (leaf_paths ?m) \<longleftrightarrow> (\<exists>k v. (k, v) \<in> set opts \<and> is_leaf (k, v) \<and> q = [k] \<and> w = VString v) \<or>
        (\<exists>h ps. h \<in> set (heads opts) \<and> q = h # ps \<and> (ps, w) \<in> set (leaf_paths (M h)))"
      unfolding leaf_paths_append set_append leaf_paths_leaves leaf_paths_sections by auto
    also have "\<dots> \<longleftrightarrow> (\<exists>(k, v) \<in> set opts. q = parts k \<and> w = VString v)" (is "?l \<or> ?s \<longleftrightarrow> ?r")
    proof
      assume "?l \<or> ?s"
      then show ?r
      proof
        assume ?l
        then obtain k v where k: "(k, v) \<in> set opts" "is_leaf (k, v)" "q = [k]" "w = VString v" by blast
        then have "q = parts k" using parts_leaf [OF k(2)] by simp
        then show ?r using k(1,4) by blast
      next
        assume ?s
        then obtain h ps where h: "h \<in> set (heads opts)" "q = h # ps" "(ps, w) \<in> set (leaf_paths (M h))" by blast
        then obtain r v where "(r, v) \<in> set (?sub h)" "ps = parts r" "w = VString v" using M by blast
        then show ?r using h(2) parts_section by (force simp: set_sub_opts)
      qed
    next
      assume ?r
      then obtain k v where k: "(k, v) \<in> set opts" "q = parts k" "w = VString v" by blast
      show "?l \<or> ?s"
      proof (cases "is_leaf (k, v)")
        case True
        then show ?thesis using k parts_leaf by blast
      next
        case False
        then have "key_head k \<in> set (heads opts)" "(key_rest k, v) \<in> set (?sub (key_head k))" using k(1) by (auto simp: set_heads set_sub_opts)
        moreover then have "(parts (key_rest k), w) \<in> set (leaf_paths (M (key_head k)))" using M k(3) by blast
        ultimately show ?thesis using parts_section [OF False] k(2) by simp
      qed
    qed
    finally show ?thesis .
  qed
  ultimately show ?case by blast
qed


subsection \<open>A reader of such texts\<close>

text \<open>A reader that keeps the promise: the lines with their depths, and the mappings they nest.\<close>

fun yaml_line :: "string \<Rightarrow> nat \<times> string \<times> string option" where
  "yaml_line s =
     (let body = dropWhile (\<lambda>c. c = CHR '' '') s; k = takeWhile (\<lambda>c. c \<noteq> CHR '':'') body; r = drop (Suc (length k)) body
      in ((length s - length body) div 2, k, if r = [] then None else Some (tl r)))"

function yaml_nest :: "(nat \<times> string \<times> string option) list \<Rightarrow> go_map" where
  "yaml_nest [] = []"
| "yaml_nest ((n, k, v) # ls) =
     (case v of
        Some s \<Rightarrow> (k, VString s) # yaml_nest ls
      | None \<Rightarrow> (k, VMap (yaml_nest (takeWhile (\<lambda>l. n < fst l) ls))) # yaml_nest (dropWhile (\<lambda>l. n < fst l) ls))"
  by pat_completeness auto
termination
  by (relation "measure length") (auto simp: le_imp_less_Suc length_takeWhile_le length_dropWhile_le)

definition read_yaml :: "string \<Rightarrow> go_error + go_map" where
  "read_yaml t = Inr (yaml_nest (map yaml_line (butlast (split_on (CHR 0x0A) t))))"

function yaml_entries :: "nat \<Rightarrow> go_map \<Rightarrow> (nat \<times> string \<times> string option) list" where
  "yaml_entries n [] = []"
| "yaml_entries n ((k, v) # m) =
     (case v of VMap mm \<Rightarrow> (n, k, None) # yaml_entries (Suc n) mm | VString s \<Rightarrow> [(n, k, Some s)] | _ \<Rightarrow> []) @ yaml_entries n m"
  by pat_completeness auto
termination
  by (relation "measure (\<lambda>(n, m). size_list (\<lambda>x. Suc (size (snd x))) m)") (auto simp: size_prod_simp)

inductive_cases plain_mapE: "plain_map m"

lemma plain_map_Cons:
  assumes "plain_map ((k, v) # m)"
  shows "plain_map m" "plain_key k" "(\<exists>s. v = VString s \<and> plain_value s) \<or> (\<exists>mm. v = VMap mm \<and> mm \<noteq> [] \<and> plain_map mm)"
proof -
  have "distinct (map fst ((k, v) # m)) \<and> (\<forall>k' v'. (k', v') \<in> set ((k, v) # m) \<longrightarrow> plain_key k' \<and>
      ((\<exists>s. v' = VString s \<and> plain_value s) \<or> (\<exists>mm. v' = VMap mm \<and> mm \<noteq> [] \<and> plain_map mm)))"
    using assms by (rule plain_mapE) blast
  then have a: "distinct (map fst ((k, v) # m))" "\<And>k' v'. (k', v') \<in> set ((k, v) # m) \<Longrightarrow> plain_key k' \<and>
      ((\<exists>s. v' = VString s \<and> plain_value s) \<or> (\<exists>mm. v' = VMap mm \<and> mm \<noteq> [] \<and> plain_map mm))"
    by blast+
  show "plain_map m" by (rule plain_mapI) (use a in auto)
  show "plain_key k" "(\<exists>s. v = VString s \<and> plain_value s) \<or> (\<exists>mm. v = VMap mm \<and> mm \<noteq> [] \<and> plain_map mm)" using a(2) [of k v] by simp_all
qed

lemma plain_chars:
  "plain_key k \<Longrightarrow> c \<in> set k \<Longrightarrow> c \<noteq> CHR '' '' \<and> c \<noteq> CHR '':'' \<and> c \<noteq> CHR 0x0A"
  "plain_value s \<Longrightarrow> c \<in> set s \<Longrightarrow> c \<noteq> CHR 0x0A"
  by (auto simp: plain_key_def plain_value_def plain_char_def plain_letter_def list_all_iff)

lemma yaml_line_entry:
  assumes "plain_key k"
  shows "yaml_line (replicate (n * 2) CHR '' '' @ k @ '':'') = (n, k, None)"
    "yaml_line (replicate (n * 2) CHR '' '' @ k @ '': '' @ s) = (n, k, Some s)"
proof -
  have d: "dropWhile (\<lambda>c. c = CHR '' '') (replicate m CHR '' '' @ k @ r) = k @ r" for m r
    using plain_chars(1) [OF assms] plain_key_not_Nil [OF assms] by (cases k) (auto simp: dropWhile_append)
  have t: "takeWhile (\<lambda>c. c \<noteq> CHR '':'') (k @ CHR '':'' # r) = k" for r
    using plain_chars(1) [OF assms] by (simp add: takeWhile_append)
  show "yaml_line (replicate (n * 2) CHR '' '' @ k @ '':'') = (n, k, None)" by (simp add: d t)
  show "yaml_line (replicate (n * 2) CHR '' '' @ k @ '': '' @ s) = (n, k, Some s)" by (simp add: d t)
qed

lemma split_line: "CHR 0x0A \<notin> set l \<Longrightarrow> split_on (CHR 0x0A) (l @ [CHR 0x0A] @ r) = l # split_on (CHR 0x0A) r"
  by (simp add: split_on_append_sep)

lemma yaml_text_lines:
  "plain_map m \<Longrightarrow> map yaml_line (butlast (split_on (CHR 0x0A) (yaml_text n m @ r))) = yaml_entries n m @ map yaml_line (butlast (split_on (CHR 0x0A) r))"
proof (induction n m arbitrary: r rule: yaml_text.induct)
  case (2 n k v m)
  note p = plain_map_Cons [OF "2.prems"]
  have nl: "CHR 0x0A \<notin> set k" using plain_chars(1) [OF p(2)] by blast
  from p(3) show ?case
  proof
    assume "\<exists>s. v = VString s \<and> plain_value s"
    then obtain s where s: "v = VString s" "plain_value s" by blast
    have "CHR 0x0A \<notin> set (replicate (n * 2) CHR '' '' @ k @ '': '' @ s)" using nl plain_chars(2) [OF s(2)] by auto
    note split = split_line [OF this]
    have t: "yaml_text n ((k, v) # m) @ r =
        (replicate (n * 2) CHR '' '' @ k @ '': '' @ s) @ [CHR 0x0A] @ (yaml_text n m @ r)" by (simp add: s(1))
    show ?thesis
      unfolding t split using "2.IH" p(1) yaml_line_entry(2) [OF p(2)] by (simp add: s(1) del: yaml_line.simps)
  next
    assume "\<exists>mm. v = VMap mm \<and> mm \<noteq> [] \<and> plain_map mm"
    then obtain mm where mm: "v = VMap mm" "plain_map mm" by blast
    have "CHR 0x0A \<notin> set (replicate (n * 2) CHR '' '' @ k @ '':'')" using nl by auto
    note split = split_line [OF this]
    have t: "yaml_text n ((k, v) # m) @ r =
        (replicate (n * 2) CHR '' '' @ k @ '':'') @ [CHR 0x0A] @ (yaml_text (Suc n) mm @ yaml_text n m @ r)" by (simp add: mm(1))
    show ?thesis
      unfolding t split using "2.IH" p(1) mm yaml_line_entry(1) [OF p(2)] by (simp del: yaml_line.simps)
  qed
qed simp

lemma yaml_entries_depth: "l \<in> set (yaml_entries n m) \<Longrightarrow> n \<le> fst l"
proof (induction n m rule: yaml_entries.induct)
  case (2 n k v m)
  then show ?case by (cases v) (auto dest: Suc_leD)
qed simp


lemma yaml_entries_head: "plain_map m \<Longrightarrow> yaml_entries n m = [] \<or> fst (hd (yaml_entries n m)) = n"
proof (induction m)
  case (Cons e m)
  obtain k v where e: "e = (k, v)" by (cases e)
  show ?case using plain_map_Cons(3) [OF Cons.prems [unfolded e]] e by auto
qed simp

lemma yaml_nest_entries: "plain_map m \<Longrightarrow> yaml_nest (yaml_entries n m) = m"
proof (induction n m rule: yaml_entries.induct)
  case (2 n k v m)
  note p = plain_map_Cons [OF "2.prems"]
  from p(3) show ?case
  proof
    assume "\<exists>s. v = VString s \<and> plain_value s"
    then show ?thesis using "2.IH" p(1) by auto
  next
    assume "\<exists>mm. v = VMap mm \<and> mm \<noteq> [] \<and> plain_map mm"
    then obtain mm where mm: "v = VMap mm" "plain_map mm" by blast
    let ?deep = "yaml_entries (Suc n) mm" and ?rest = "yaml_entries n m"
    have deep: "\<forall>l \<in> set ?deep. n < fst l" using yaml_entries_depth [of _ "Suc n" mm] by (auto simp: less_eq_Suc_le)
    have rest: "?rest = [] \<or> \<not> n < fst (hd ?rest)" using yaml_entries_head [OF p(1), of n] by auto
    have "takeWhile (\<lambda>l. n < fst l) (?deep @ ?rest) = ?deep" "dropWhile (\<lambda>l. n < fst l) (?deep @ ?rest) = ?rest"
      using deep rest by (cases ?rest; simp add: takeWhile_append dropWhile_append)+
    then show ?thesis using "2.IH" p(1) mm by simp
  qed
qed simp

lemma read_yaml_plain: "reads_plain_yaml read_yaml"
proof -
  have "read_yaml (yaml_text 0 m) = Inr m" if "plain_map m" for m
    using yaml_text_lines [OF that, of 0 "[]"] yaml_nest_entries [OF that] by (simp add: read_yaml_def)
  then show ?thesis by (simp add: reads_plain_yaml_def)
qed

subsection \<open>Adding a configuration and using it\<close>

lemma Create_writes:
  assumes "Create env target kvs = Some add" "add fs = (Inr (d, f), fs')"
  shows "fs_files fs' (filepath_Join [d, f]) = Some (CreateYAML kvs) \<and> fs_read_error fs' = fs_read_error fs"
  using assms
  by (auto simp: Create_def createFile_def andthen_def lift_res_def ret_def MkdirAll_def WriteFile_def split: option.splits sum.splits prod.splits)

lemma traverseMap_keeps:
  "fp_path (traverseMap r m p) = fp_path p" "fp_boundFlags (traverseMap r m p) = fp_boundFlags p"
  "fp_defaults (traverseMap r m p) = fp_defaults p"
proof -
  let ?f = "\<lambda>p (r, v). p\<lparr>fp_cfg := (fp_cfg p)(r \<mapsto> v), fp_keys := add_key r (fp_keys p)\<rparr>"
  have "fp_path (foldl ?f p l) = fp_path p \<and> fp_boundFlags (foldl ?f p l) = fp_boundFlags p \<and> fp_defaults (foldl ?f p l) = fp_defaults p" for l
    by (induction l arbitrary: p) auto
  then show "fp_path (traverseMap r m p) = fp_path p" "fp_boundFlags (traverseMap r m p) = fp_boundFlags p"
    "fp_defaults (traverseMap r m p) = fp_defaults p" by (simp_all add: traverseMap_def)
qed

text \<open>
  C23: A configuration that was added answers with its settings. After \<^verbatim>\<open>clc config add\<close> has written
  the pairs, a provider that is made for the path of the new file, directly or by the name of the configuration, gives every key its
  value and every other key the empty string; only the key \<open>config\<close> always answers with the path. The keys must be distinct,
  none the beginning of another, their parts and the values plain words of YAML; the YAML library is only
  trusted to read nested mappings of such words.
\<close>

theorem config_add_roundtrip:
  assumes "Create env target kvs = Some add" "add fs = (Inr (d, f), fs')" "plain_opts kvs"
    and "reads_plain_yaml (cf_yaml env')" "ResolveConfigPath (cf_place env') cfg = Some (filepath_Join [d, f])"
    and "filepath_Join [d, f] \<noteq> []" "pl_exists (cf_place env') (filepath_Join [d, f])" "fs_read_error fs (filepath_Join [d, f]) = None"
  shows "\<exists>load p. NewFileProvider env' cfg = Some load \<and> load fs' = (Inr p, fs') \<and> fp_canUseClientConfig p \<and>
    (\<forall>k. fp_GetString p k = Some (if k = ''config'' then filepath_Join [d, f] else case map_of kvs k of Some v \<Rightarrow> v | None \<Rightarrow> []))"
proof -
  let ?path = "filepath_Join [d, f]"
  let ?p1 = "empty_provider\<lparr>fp_path := ?path, fp_keys := add_key ?path (fp_keys empty_provider)\<rparr>"
  have sorted: "set (sort_key fst kvs) = set kvs" by simp
  obtain m where m: "CreateYAML kvs = yaml_text 0 m" "plain_map m"
    "\<And>q w. (q, w) \<in> set (leaf_paths m) \<longleftrightarrow> (\<exists>(k, v) \<in> set kvs. q = parts k \<and> w = VString v)"
    using section_body_text [of "sort_key fst kvs" 0] assms(3) unfolding CreateYAML_body sorted plain_opts_sorted by blast
  have yaml: "cf_yaml env' (CreateYAML kvs) = Inr m" using assms(4) m(1,2) by (simp add: reads_plain_yaml_def)
  have content: "ReadFile ?path fs' = (Inr (CreateYAML kvs), fs')"
    using Create_writes [OF assms(1,2)] assms(8) by (simp add: ReadFile_def)
  define p where "p = (traverseMap [] m ?p1)\<lparr>fp_canUseClientConfig := True\<rparr>"
  have "[] \<notin> set (parts k)" if "k \<in> fst ` set kvs" for k
    using assms(3) that plain_key_not_Nil unfolding plain_opts_def by blast
  then have cfg: "fp_cfg (traverseMap [] m ?p1) k = (case map_of kvs k of Some v \<Rightarrow> Some (VString v) | None \<Rightarrow> None)" for k
  proof -
    have "fp_cfg ?p1 k = None" by (simp add: empty_provider_def)
    then show ?thesis
      using leaves_traverse [of kvs m ?p1 k, OF _ _ m(3)] assms(3) \<open>\<And>k. k \<in> fst ` set kvs \<Longrightarrow> [] \<notin> set (parts k)\<close>
      unfolding plain_opts_def by (cases "map_of kvs k") simp_all
  qed
  have p: "fp_cfg p k = (case map_of kvs k of Some v \<Rightarrow> Some (VString v) | None \<Rightarrow> None)" "fp_path p = ?path"
    "fp_boundFlags p k = None" "fp_defaults p k = None" for k
    using cfg by (simp_all add: p_def traverseMap_keeps) (simp_all add: empty_provider_def)
  have "\<forall>k. fp_GetString p k = Some (if k = ''config'' then ?path else case map_of kvs k of Some v \<Rightarrow> v | None \<Rightarrow> [])"
    using p by (auto simp: fp_GetString_def fp_get_def split: option.split)
  moreover have "\<exists>load. NewFileProvider env' cfg = Some load \<and> load fs' = (Inr p, fs')"
    unfolding NewFileProvider_def fp_load_def assms(5)
    by (simp add: assms(6,7) Let_def andthen_def wrap_err_def lift_res_def content yaml ret_def p_def)
  moreover have "fp_canUseClientConfig p" by (simp add: p_def)
  ultimately show ?thesis by blast
qed

definition sample_pairs :: "(string \<times> string) list" where
  "sample_pairs = [(''cluster.name'', ''dev''), (''cluster.address'', ''localhost:5701''), (''log.path'', ''stderr'')]"

definition added_env :: config_env where
  "added_env = \<lparr>cf_place = sample_place\<lparr>pl_exists := (\<lambda>p. p = ''/h/.hz/configs/dev/config.yaml'')\<rparr>, cf_stat = (\<lambda>p. None),
     cf_entries = (\<lambda>d. Inr []), cf_yaml = read_yaml, cf_json = (\<lambda>m. Inr []), cf_zip = (\<lambda>z. Inr [])\<rparr>"

lemma config_add_roundtrip_witness:
  "\<exists>add fs' load p. Create added_env ''dev'' sample_pairs = Some add \<and>
     add empty_fs = (Inr (''/h/.hz/configs/dev'', ''config.yaml''), fs') \<and>
     NewFileProvider added_env ''dev'' = Some load \<and> load fs' = (Inr p, fs') \<and> fp_GetString p ''cluster.address'' = Some ''localhost:5701''"
proof -
  let ?fs' = "empty_fs\<lparr>fs_files := [''/h/.hz/configs/dev/config.yaml'' \<mapsto> CreateYAML sample_pairs]\<rparr>"
  have path: "filepath_Join [''/h/.hz/configs/dev'', ''config.yaml''] = ''/h/.hz/configs/dev/config.yaml''" by code_simp
  have dir: "DirAndFile added_env ''dev'' = Some (Inr (''/h/.hz/configs/dev'', ''config.yaml''))" by code_simp
  have res: "ResolveConfigPath (cf_place added_env) ''dev'' = Some ''/h/.hz/configs/dev/config.yaml''" by code_simp
  have plain: "plain_opts sample_pairs" by code_simp
  obtain add where add: "Create added_env ''dev'' sample_pairs = Some add" "add empty_fs = (Inr (''/h/.hz/configs/dev'', ''config.yaml''), ?fs')"
    using path by (simp add: Create_def createFile_def dir andthen_def lift_res_def ret_def MkdirAll_def WriteFile_def empty_fs_def)
  obtain load p where p: "NewFileProvider added_env ''dev'' = Some load" "load ?fs' = (Inr p, ?fs')"
    "fp_GetString p ''cluster.address'' = Some (case map_of sample_pairs ''cluster.address'' of Some v \<Rightarrow> v | None \<Rightarrow> [])"
    using config_add_roundtrip [OF add plain, of added_env "''dev''"] res path read_yaml_plain
    by (auto simp: added_env_def empty_fs_def)
  have "fp_GetString p ''cluster.address'' = Some ''localhost:5701''" using p(3) by (simp add: sample_pairs_def)
  then show ?thesis using add p(1,2) by blast
qed

end
