(* ===== verification/Spec2Isabelle.thy ===== *)
theory Spec2Isabelle
  imports Version DataStructures Metrics CloudCommands Jobs Shell Program Project Registrations Demo Updates LogStream
    Skip Logger CopyTree Providers ConfigYaml
begin

text \<open>
  \<^bold>\<open>A model of the Hazelcast command line client (CLC).\<close>

  The program is written in Go. \<^verbatim>\<open>cmd/clc/main.go\<close> reads the start-up arguments and makes a \<^verbatim>\<open>Main\<close>
  (\<^verbatim>\<open>clc/cmd/clc.go\<close>), which builds a tree of cobra commands from the registry of \<^verbatim>\<open>internal/plug\<close>, to which
  the packages under \<^verbatim>\<open>base/commands\<close> add themselves when they are loaded. A command declares its flags
  and arguments in \<^verbatim>\<open>Init\<close> and does its work in \<^verbatim>\<open>Exec\<close>, on an execution context that gives it the
  arguments, the properties, the client of the cluster, the printers and the metrics. Without a command
  the shell reads lines and executes them as SQL or, after a backslash, as commands of the same tree.

  \<^bold>\<open>Conventions.\<close> A Go error is a \<open>go_error\<close>; a function that returns an error gives a sum, \<^const>\<open>Inl\<close> for
  the error; one that may panic gives an option, \<^const>\<open>None\<close> for the panic, and a panic within a step is
  the error \<open>panic_error\<close>. A function that also changes something is an \<open>eff\<close>, a function from the
  state to a result and the new state (theory \<open>Effects\<close>); \<open>andthen\<close> is the code's early return on an
  error. Integers are \<^typ>\<open>int\<close> with \<open>wrap_int\<close> where the code can overflow, and words where the bytes of a
  frame matter. A Go map that is iterated is an association list, whose order Go leaves open; one that
  is only looked up is a map. Texts are byte strings.

  \<^bold>\<open>The base of the library.\<close>
  \<^item> \<open>Prelude\<close>, \<open>Strconv\<close>, \<open>GoTypes\<close>, \<open>GoTime\<close>, \<open>Effects\<close>: errors, package strings, strconv and time as
    far as they are used, dynamic values and the generic containers (\<^verbatim>\<open>internal/types\<close>, \<^verbatim>\<open>internal/maps\<close>,
    \<^verbatim>\<open>internal/mk\<close>), and steps with their laws. The collections \<open>str_simps\<close>, \<open>res_simps\<close>,
    \<open>step_simps\<close> carry the proofs above them. The locale \<open>set_adt\<close> is the contract of a set; it is
    interpreted by the \<open>Set\<close> of \<^verbatim>\<open>internal/types\<close> and by the ordered set of the results.
  \<^item> \<open>StrLib\<close>, \<open>Version\<close>, \<open>Conversion\<close>: \<^verbatim>\<open>internal/str\<close>, \<^verbatim>\<open>internal/version.go\<close> (the comparison is proved
    to decide one order), \<^verbatim>\<open>internal/conversion.go\<close> (exactness and type of a conversion).
  \<^item> \<open>Plug\<close>: properties as a stack of frames and the registry (\<^verbatim>\<open>internal/plug\<close>); the locale
    \<open>read_only_properties\<close> is the interface a command sees of them.

  \<^bold>\<open>Commands and their results.\<close>
  \<^item> \<open>CmdArgs\<close>, \<open>ExecContext\<close>: the declaration of flags and arguments, their check and conversion, and
    the execution context (\<^verbatim>\<open>clc/cmd\<close>, \<^verbatim>\<open>internal/prompt\<close>, \<^verbatim>\<open>errors\<close>). The state \<open>cstate\<close> is what a
    command can change: properties, arguments, output, metrics, the user's input and a world of any type,
    which is the cluster. \<open>cs_sched\<close> says for each blocking call whether the user interrupts it.
  \<^item> \<open>SerTypes\<close>, \<open>SerColumn\<close>, \<open>SerReaders\<close>: types, columns, texts and the readers of compact and portable
    values (\<^verbatim>\<open>internal/serialization\<close>).
  \<^item> \<open>Output\<close>, \<open>TableOut\<close>: rows and their formats (\<^verbatim>\<open>internal/output\<close>, \<^verbatim>\<open>internal/table\<close>), with the locale
    \<open>row_producer\<close> for the two sources of rows.
  \<^item> \<open>Codec\<close>: requests and responses of the client protocol (\<^verbatim>\<open>internal/proto/codec\<close>).
  \<^item> \<open>Commands\<close>, \<open>DataStructures\<close>, \<open>Topic\<close>: maps, lists, queues, sets, multi-maps, atomic longs, objects
    and topics (\<^verbatim>\<open>base/commands\<close>).
  \<^item> \<open>Jobs\<close>: Jet jobs and snapshots (\<^verbatim>\<open>internal/jet\<close>, \<^verbatim>\<open>base/commands/job\<close>, \<^verbatim>\<open>base/commands/snapshot\<close>).
  \<^item> \<open>Stage\<close>: commands in stages (\<^verbatim>\<open>clc/ux/stage\<close>).
  \<^item> \<open>Events\<close>, \<open>Demo\<close>: server-sent events (\<^verbatim>\<open>internal/sse\<close>) and the demonstrations that read them. The
    scanner is an inductive step relation, because a read of the connection may return any number of
    bytes; it is proved to end and to give the events of the deterministic \<open>scan_all\<close>.
  \<^item> \<open>Updates\<close>: the weekly check for a new version, \<^verbatim>\<open>version\<close> and \<^verbatim>\<open>home\<close>.

  \<^bold>\<open>Files and services.\<close>
  \<^item> \<open>Paths\<close>, \<open>SecretFiles\<close>, \<open>CopyTree\<close>: \<^verbatim>\<open>clc/paths\<close> with \<^verbatim>\<open>path/filepath\<close>, and \<^verbatim>\<open>clc/secrets\<close>. The file
    system is a map from paths to contents with the errors its operations may give.
  \<^item> \<open>KVStore\<close>, \<open>Metrics\<close>: the store over Badger (\<^verbatim>\<open>clc/store\<close>) and the usage metrics kept in it
    (\<^verbatim>\<open>clc/metrics\<close>). Badger is a record of operations with the laws \<open>badger_ok\<close>, which an association
    list satisfies.
  \<^item> \<open>Viridian\<close>, \<open>Config\<close>, \<open>ConfigYaml\<close>, \<open>Providers\<close>, \<open>CloudCommands\<close>, \<open>LogStream\<close>: the API of the cloud (\<^verbatim>\<open>internal/viridian\<close>),
    configurations (\<^verbatim>\<open>clc/config\<close>), written as YAML and read back, whose two providers interpret the locale \<open>config_provider\<close>, and
    their commands, with the stream of logs as a state machine of its own.
  \<^item> \<open>Project\<close>: projects from templates (\<^verbatim>\<open>base/commands/project\<close>).
  \<^item> \<open>Logger\<close>: \<^verbatim>\<open>clc/logger\<close>.

  \<^bold>\<open>The whole program.\<close>
  \<^item> \<open>Shell\<close>: texts from lines, the loops of scripts and of the terminal, shortcuts and SQL (\<^verbatim>\<open>clc/shell\<close>,
    \<^verbatim>\<open>clc/sql\<close> and the commands \<^verbatim>\<open>shell\<close>, \<^verbatim>\<open>script\<close> and \<^verbatim>\<open>sql\<close>).
  \<^item> \<open>Program\<close>: the command tree, running a command, executing a line, starting and the exit code
    (\<^verbatim>\<open>clc/cmd/clc.go\<close>, \<^verbatim>\<open>cmd/clc/main.go\<close>, \<^verbatim>\<open>base\<close>).
  \<^item> \<open>CommandInits\<close>, \<open>Registrations\<close>: the \<^verbatim>\<open>Init\<close> of each command and all that a full build registers;
    the theorems on the tree are applied to that registry.
  \<^item> \<open>Skip\<close>: the conditions with which the program's tests are skipped (\<^verbatim>\<open>internal/it/skip\<close>).

  \<^bold>\<open>What the lemmas show.\<close> For each part: what every operation gives on every branch; the invariants of its
  state (frames of properties, the ordered set, the tree of commands, rectangular tables); round trips
  (CSV, codecs, job ids, secrets, a configuration that is added and used, events); agreement with a specification
  that is stated without the code's loop (the rules of a run of stages, what a user types at the terminal, the
  statements of a script, scanners, the log in pieces, copying a template, argument checks); that loops end (stages,
  the scanner, and the terminal on every finite input); what must not happen (deleting without confirmation or another cluster than
  the one found, files outside a directory, SQL in a name, deleting metrics that were not sent, asking for
  versions more than weekly, printing log lines twice); and error behaviour, panics included.

  \<^bold>\<open>Bounds.\<close> Four loops of the code can run forever. \<open>waitClusterState\<close> (\<open>cd_fuel\<close>), the waits for a job
  and the search for a member (\<open>je_fuel\<close>), repeating a query after I/O errors (\<open>sl_fuel\<close>) and
  the reconnections of the log stream take a bound and give \<^const>\<open>None\<close>, or an error that says so, when it
  is used up; \<open>waitClusterState_returns\<close> shows that a bound of the number of rounds until the state is
  reached is enough. All other loops are functions that are proved to end. Buffers have the size of the
  library: 65536 bytes for a \<^verbatim>\<open>bufio.Scanner\<close>. The input of the terminal is a finite list of reads, the last one
  at the end of the input; the code has no bound on reads that keep failing. The sums of the least numbers of arguments
  in \<open>args_fn\<close> and the number of tries of \<open>submitJar\<close> are unbounded integers; the code's wrap around at \<^verbatim>\<open>2^63\<close>.

  \<^bold>\<open>Parameters.\<close> What is not in the repository is an argument: cobra and the terminal libraries, the
  Hazelcast client (its connection, proxies, serialization and SQL execution), Badger, zap, go-git, YAML, JSON,
  text/template, HTTP, zip archives, shlex, the widths of go-runewidth, the clock, the environment and the
  random numbers. Where a property needs something of them, it is a named hypothesis, and its witness has
  an instance. Goroutines appear through what they agree on: a channel is the list of what goes through
  it, a lock makes its section one step, and an interruption is a choice of \<open>cs_sched\<close>.

  \<^bold>\<open>Not modelled.\<close> The client of the remote controller that Thrift generated and the rest of the integration
  test support (\<^verbatim>\<open>internal/it\<close>), except the skip conditions; the adapters of the two line readers
  (\<^verbatim>\<open>clc/shell/linereader.go\<close>) and the selector, which only call their libraries; \<^verbatim>\<open>internal/http\<close>, a wrapper of
  the standard client; interfaces and constants; the record of a Jet snapshot that is only read field by
  field; the texts and the progress of spinners; the explanations of single flags; the ticker that sends
  metrics once a day; colours. Of the libraries, these details: \<^verbatim>\<open>strings.ToLower\<close> and \<^verbatim>\<open>ToUpper\<close> outside ASCII, redirects that
  \<^verbatim>\<open>http.DefaultClient\<close> follows (an \<open>http\<close> is one request), the errors of reading a stream of server-sent events
  other than its end and reads of no bytes, and the missing ancestors that \<^verbatim>\<open>os.MkdirAll\<close> makes on the way.
\<close>

end
